(* ===== verification/GoBase.thy ===== *)
theory GoBase
  imports Main "HOL-Library.Char_ord" "HOL-Library.List_Lexorder" "HOL-Library.Sublist"
    "HOL-Library.AList"
begin

text \<open>
  Prelude of the development: the parts of Go and of its standard library that the
  connectors use and that every component theory shares.

  A Go string is its bytes (\<^typ>\<open>string\<close>, a list of 8-bit characters), ordered
  lexicographically as Go orders strings. A Go map is the list of its entries with distinct
  keys; Go leaves the iteration order open, so a statement about all lists covers every
  order. \<open>int\<close> and \<open>int64\<close> values are integers, with \<open>wrap64\<close> written where the source
  computes without a guard. \<open>ToLower\<close>, \<open>ToUpper\<close> and \<open>EqualFold\<close> are given on ASCII letters:
  other bytes are left as they are.
\<close>

section \<open>Collections of rules\<close>

named_theorems go_eval \<open>definitions to unfold when a closed call is evaluated\<close>
named_theorems spec_simps \<open>unfolding rules of the abstract specifications\<close>

section \<open>Integers\<close>

abbreviation max_int64 :: int where
  "max_int64 \<equiv> 9223372036854775807"

abbreviation min_int64 :: int where
  "min_int64 \<equiv> - 9223372036854775808"

definition int64 :: "int \<Rightarrow> bool" where
  "int64 i \<longleftrightarrow> min_int64 \<le> i \<and> i \<le> max_int64"

definition wrap64 :: "int \<Rightarrow> int" where
  "wrap64 i = (i + 9223372036854775808) mod 18446744073709551616 - 9223372036854775808"

lemma wrap64_id [simp]: "int64 i \<Longrightarrow> wrap64 i = i"
  by (simp add: wrap64_def int64_def)

lemma wrap64_zero [simp]: "wrap64 0 = 0"
  by (simp add: wrap64_def)

lemma int64_wrap64 [simp]: "int64 (wrap64 i)"
  unfolding int64_def wrap64_def by (simp add: pos_mod_bound)

text \<open>Go's division truncates towards zero.\<close>

definition go_div :: "int \<Rightarrow> int \<Rightarrow> int" where
  "go_div a b = sgn a * sgn b * (\<bar>a\<bar> div \<bar>b\<bar>)"

definition go_mod :: "int \<Rightarrow> int \<Rightarrow> int" where
  "go_mod a b = a - go_div a b * b"

lemma go_div_nonneg [simp]: "0 \<le> a \<Longrightarrow> 0 < b \<Longrightarrow> go_div a b = a div b"
  by (cases "a = 0") (simp_all add: go_div_def)

lemma go_mod_nonneg [simp]: "0 \<le> a \<Longrightarrow> 0 < b \<Longrightarrow> go_mod a b = a mod b"
  by (simp add: go_mod_def minus_div_mult_eq_mod)

section \<open>Errors\<close>

text \<open>
  The connector SDK classifies an error by a constructor and gives it a stable code
  (\<open>connector.PermanentError\<close>, \<open>RetryableError\<close>, \<open>UncertainError\<close>); other errors carry only a
  text. A cause is a text of the source, the error of the transport, the error of a standard
  library decoder, whose text nothing reads, or it is made of other errors.
\<close>

datatype cause = Msg string | TransportErr string | DecodeErr | Wrapped "gerr list"
  and gerr = Permanent string cause | Retryable string cause | Uncertain string cause | Plain string

type_synonym 'a res = "gerr + 'a"

fun err_code :: "gerr \<Rightarrow> string option" where
  "err_code (Permanent c _) = Some c"
| "err_code (Retryable c _) = Some c"
| "err_code (Uncertain c _) = Some c"
| "err_code (Plain _) = None"

fun is_permanent :: "gerr \<Rightarrow> bool" where
  "is_permanent (Permanent _ _) = True"
| "is_permanent _ = False"

fun is_retryable :: "gerr \<Rightarrow> bool" where
  "is_retryable (Retryable _ _) = True"
| "is_retryable _ = False"

fun is_uncertain :: "gerr \<Rightarrow> bool" where
  "is_uncertain (Uncertain _ _) = True"
| "is_uncertain _ = False"

text \<open>Results whose errors are all permanent; checks and their chains keep that.\<close>

definition permanent_only :: "'a res \<Rightarrow> bool" where
  "permanent_only r \<longleftrightarrow> (\<forall>e. r = Inl e \<longrightarrow> is_permanent e)"

lemma permanent_only_simps [simp]:
  "permanent_only (Inr x)" "permanent_only (Inl e) \<longleftrightarrow> is_permanent e"
  by (simp_all add: permanent_only_def)

lemma permanent_only_chain [simp]:
  "permanent_only s \<Longrightarrow> permanent_only (case s of Inl e \<Rightarrow> Inl e | Inr x \<Rightarrow> f x)
    \<longleftrightarrow> (\<forall>x. s = Inr x \<longrightarrow> permanent_only (f x))"
  by (cases s) auto

lemma permanent_onlyD: "permanent_only r \<Longrightarrow> r = Inl e \<Longrightarrow> is_permanent e"
  by (simp add: permanent_only_def)

section \<open>Strings\<close>

text \<open>
  \<open>strings.TrimSpace\<close> drops Unicode white space at both ends; in UTF-8 these are the byte
  sequences below, and no other sequence of bytes decodes to one of them.
\<close>

definition space_seqs :: "string list" where
  "space_seqs =
    [[CHR 0x20], [CHR 0x09], [CHR 0x0A], [CHR 0x0B], [CHR 0x0C], [CHR 0x0D],
     [CHR 0xC2, CHR 0x85], [CHR 0xC2, CHR 0xA0], [CHR 0xE1, CHR 0x9A, CHR 0x80],
     [CHR 0xE2, CHR 0x80, CHR 0x80], [CHR 0xE2, CHR 0x80, CHR 0x81],
     [CHR 0xE2, CHR 0x80, CHR 0x82], [CHR 0xE2, CHR 0x80, CHR 0x83],
     [CHR 0xE2, CHR 0x80, CHR 0x84], [CHR 0xE2, CHR 0x80, CHR 0x85],
     [CHR 0xE2, CHR 0x80, CHR 0x86], [CHR 0xE2, CHR 0x80, CHR 0x87],
     [CHR 0xE2, CHR 0x80, CHR 0x88], [CHR 0xE2, CHR 0x80, CHR 0x89],
     [CHR 0xE2, CHR 0x80, CHR 0x8A], [CHR 0xE2, CHR 0x80, CHR 0xA8],
     [CHR 0xE2, CHR 0x80, CHR 0xA9], [CHR 0xE2, CHR 0x80, CHR 0xAF],
     [CHR 0xE2, CHR 0x81, CHR 0x9F], [CHR 0xE3, CHR 0x80, CHR 0x80]]"

definition lead_len :: "string list \<Rightarrow> string \<Rightarrow> nat" where
  "lead_len ws s = (case find (\<lambda>w. w \<noteq> [] \<and> prefix w s) ws of None \<Rightarrow> 0 | Some w \<Rightarrow> length w)"

lemma lead_len_le: "lead_len ws s \<le> length s"
  by (auto simp: lead_len_def find_Some_iff prefix_length_le split: option.splits)

function trim_left_with :: "string list \<Rightarrow> string \<Rightarrow> string" where
  "trim_left_with ws s =
     (if lead_len ws s = 0 then s else trim_left_with ws (drop (lead_len ws s) s))"
  by pat_completeness auto
termination
proof (relation "measure (length \<circ> snd)", goal_cases)
  case 1
  show ?case by simp
next
  case (2 ws s)
  then show ?case using lead_len_le [of ws s] by simp
qed

declare trim_left_with.simps [simp del]

definition trim_right_with :: "string list \<Rightarrow> string \<Rightarrow> string" where
  "trim_right_with ws s = rev (trim_left_with (map rev ws) (rev s))"

definition trim_space :: "string \<Rightarrow> string" where
  "trim_space s = trim_right_with space_seqs (trim_left_with space_seqs s)"

lemma trim_left_with_suffix: "suffix (trim_left_with ws s) s"
proof (induction ws s rule: trim_left_with.induct)
  case (1 ws s)
  show ?case
  proof (cases "lead_len ws s = 0")
    case True
    then show ?thesis by (simp add: trim_left_with.simps [of ws s])
  next
    case False
    with 1 have "suffix (trim_left_with ws (drop (lead_len ws s) s)) (drop (lead_len ws s) s)"
      by simp
    also have "suffix (drop (lead_len ws s) s) s" by (rule suffix_drop)
    finally show ?thesis using False by (simp add: trim_left_with.simps [of ws s])
  qed
qed

lemma trim_left_with_done: "lead_len ws (trim_left_with ws s) = 0"
proof (induction ws s rule: trim_left_with.induct)
  case (1 ws s)
  then show ?case
    by (cases "lead_len ws s = 0") (simp_all add: trim_left_with.simps [of ws s])
qed

lemma trim_left_with_idle: "lead_len ws s = 0 \<Longrightarrow> trim_left_with ws s = s"
  by (simp add: trim_left_with.simps)

lemma lead_len_0_iff: "lead_len ws s = 0 \<longleftrightarrow> (\<forall>w\<in>set ws. w \<noteq> [] \<longrightarrow> \<not> prefix w s)"
  by (auto simp: lead_len_def find_None_iff find_Some_iff split: option.splits)

lemma lead_len_0_prefix: "lead_len ws s = 0 \<Longrightarrow> prefix t s \<Longrightarrow> lead_len ws t = 0"
  by (auto simp: lead_len_0_iff dest: prefix_order.trans)

lemma trim_right_with_prefix: "prefix (trim_right_with ws s) s"
  using trim_left_with_suffix [of "map rev ws" "rev s"]
  by (simp add: trim_right_with_def suffix_to_prefix)

lemma trim_right_with_idem: "trim_right_with ws (trim_right_with ws s) = trim_right_with ws s"
  by (simp add: trim_right_with_def trim_left_with_idle trim_left_with_done)

lemma trim_space_idem [simp]: "trim_space (trim_space s) = trim_space s"
proof -
  let ?l = "trim_left_with space_seqs s"
  have "lead_len space_seqs (trim_right_with space_seqs ?l) = 0"
    by (rule lead_len_0_prefix [OF trim_left_with_done trim_right_with_prefix])
  then show ?thesis
    by (simp add: trim_space_def trim_left_with_idle trim_right_with_idem)
qed

lemma trim_space_Nil [simp]: "trim_space [] = []"
  by (simp add: trim_space_def trim_right_with_def trim_left_with.simps lead_len_def
      space_seqs_def)

lemma trim_space_sublist: "sublist (trim_space s) s"
  unfolding trim_space_def
  using trim_right_with_prefix trim_left_with_suffix
  by (metis prefix_imp_sublist sublist_order.order_trans suffix_imp_sublist)

definition lower_char :: "char \<Rightarrow> char" where
  "lower_char c = (let n = (of_char c :: nat) in if 65 \<le> n \<and> n \<le> 90 then char_of (n + 32) else c)"

definition upper_char :: "char \<Rightarrow> char" where
  "upper_char c = (let n = (of_char c :: nat) in if 97 \<le> n \<and> n \<le> 122 then char_of (n - 32) else c)"

definition to_lower :: "string \<Rightarrow> string" where
  "to_lower s = map lower_char s"

definition to_upper :: "string \<Rightarrow> string" where
  "to_upper s = map upper_char s"

lemma lower_char_idem [simp]: "lower_char (lower_char c) = lower_char c"
  by (simp add: lower_char_def Let_def)

lemma upper_char_idem [simp]: "upper_char (upper_char c) = upper_char c"
  by (auto simp add: upper_char_def Let_def)

lemma to_lower_idem [simp]: "to_lower (to_lower s) = to_lower s"
  by (simp add: to_lower_def)

lemma to_upper_idem [simp]: "to_upper (to_upper s) = to_upper s"
  by (simp add: to_upper_def)

lemma length_to_lower [simp]: "length (to_lower s) = length s"
  by (simp add: to_lower_def)

lemma to_lower_Nil_iff [simp]: "to_lower s = [] \<longleftrightarrow> s = []"
  by (simp add: to_lower_def)

text \<open>Case changes touch letters only, so they commute with the trimming of white space.\<close>

lemma prefix_map_fixed:
  "(\<And>x c. x \<in> set w \<Longrightarrow> f c = x \<longleftrightarrow> c = x) \<Longrightarrow> prefix w (map f s) \<longleftrightarrow> prefix w s"
proof (induction w arbitrary: s)
  case Nil
  then show ?case by simp
next
  case (Cons x w)
  have hd: "x = f c \<longleftrightarrow> x = c" for c using Cons.prems [of x c] by auto
  have tl: "prefix w (map f r) \<longleftrightarrow> prefix w r" for r using Cons by simp
  show ?case by (cases s) (simp_all add: hd tl)
qed

lemma lead_len_map:
  "(\<And>w x c. w \<in> set ws \<Longrightarrow> x \<in> set w \<Longrightarrow> f c = x \<longleftrightarrow> c = x) \<Longrightarrow>
    lead_len ws (map f s) = lead_len ws s"
proof -
  assume fx: "\<And>w x c. w \<in> set ws \<Longrightarrow> x \<in> set w \<Longrightarrow> f c = x \<longleftrightarrow> c = x"
  have "find (\<lambda>w. w \<noteq> [] \<and> prefix w (map f s)) ws = find (\<lambda>w. w \<noteq> [] \<and> prefix w s) ws"
    using fx by (intro find_cong) (auto simp: prefix_map_fixed)
  then show ?thesis by (simp add: lead_len_def)
qed

lemma trim_left_with_map:
  assumes "\<And>w x c. w \<in> set ws \<Longrightarrow> x \<in> set w \<Longrightarrow> f c = x \<longleftrightarrow> c = x"
  shows "trim_left_with ws (map f s) = map f (trim_left_with ws s)"
proof (induction "length s" arbitrary: s rule: less_induct)
  case less
  note eq = lead_len_map [of ws f s, OF assms]
  show ?case
  proof (cases "lead_len ws s = 0")
    case True
    then show ?thesis using eq by (simp add: trim_left_with_idle)
  next
    case False
    then have "length (drop (lead_len ws s) s) < length s" using lead_len_le [of ws s] by simp
    from less [OF this] show ?thesis
      using eq False by (simp add: trim_left_with.simps [of ws s]
          trim_left_with.simps [of ws "map f s"] drop_map)
  qed
qed

lemma trim_space_map:
  assumes "\<And>w x c. w \<in> set space_seqs \<Longrightarrow> x \<in> set w \<Longrightarrow> f c = x \<longleftrightarrow> c = x"
  shows "trim_space (map f s) = map f (trim_space s)"
proof -
  have "trim_left_with (map rev space_seqs) (map f r) = map f (trim_left_with (map rev space_seqs) r)"
    for r
  proof (rule trim_left_with_map)
    fix w x c
    assume "w \<in> set (map rev space_seqs)" "x \<in> set w"
    then have "rev w \<in> set space_seqs" "x \<in> set (rev w)" by auto
    then show "f c = x \<longleftrightarrow> c = x" by (rule assms)
  qed
  moreover have "trim_left_with space_seqs (map f s) = map f (trim_left_with space_seqs s)"
    by (rule trim_left_with_map [OF assms])
  ultimately show ?thesis
    by (simp add: trim_space_def trim_right_with_def rev_map)
qed

lemma space_seqs_no_letter:
  "w \<in> set space_seqs \<Longrightarrow> x \<in> set w \<Longrightarrow>
    \<not> (65 \<le> (of_char x :: nat) \<and> (of_char x :: nat) \<le> 90) \<and> \<not> (97 \<le> (of_char x :: nat) \<and> (of_char x :: nat) \<le> 122)"
  by (auto simp: space_seqs_def)

lemma trim_to_lower [simp]: "trim_space (to_lower s) = to_lower (trim_space s)"
  unfolding to_lower_def
proof (rule trim_space_map)
  fix w x c
  assume "w \<in> set space_seqs" "x \<in> set w"
  from space_seqs_no_letter [OF this] show "lower_char c = x \<longleftrightarrow> c = x"
    by (auto simp: lower_char_def Let_def split: if_splits)
qed

lemma trim_to_upper [simp]: "trim_space (to_upper s) = to_upper (trim_space s)"
  unfolding to_upper_def
proof (rule trim_space_map)
  fix w x c
  assume "w \<in> set space_seqs" "x \<in> set w"
  from space_seqs_no_letter [OF this] show "upper_char c = x \<longleftrightarrow> c = x"
    by (auto simp: upper_char_def Let_def split: if_splits)
qed

text \<open>A text between two printable ASCII characters has nothing to trim.\<close>

definition graphic :: "char \<Rightarrow> bool" where
  "graphic c \<longleftrightarrow> 33 \<le> (of_char c :: nat) \<and> (of_char c :: nat) \<le> 126"

lemma space_seqs_not_graphic:
  "w \<in> set space_seqs \<Longrightarrow> w \<noteq> [] \<and> \<not> graphic (hd w) \<and> \<not> graphic (last w)"
  by (auto simp: space_seqs_def graphic_def)

lemma lead_len_graphic:
  assumes "graphic c" "\<And>w. w \<in> set ws \<Longrightarrow> w \<noteq> [] \<and> \<not> graphic (hd w)"
  shows "lead_len ws (c # s) = 0"
proof -
  have "\<not> prefix w (c # s)" if "w \<in> set ws" for w
    using assms(2) [OF that] assms(1) by (cases w) auto
  then show ?thesis by (simp add: lead_len_0_iff)
qed

lemma trim_space_graphic:
  assumes "s \<noteq> []" "graphic (hd s)" "graphic (last s)"
  shows "trim_space s = s"
proof -
  have l: "trim_left_with space_seqs s = s"
  proof -
    obtain c t where "s = c # t" using assms(1) by (cases s) auto
    then show ?thesis
      using lead_len_graphic [of c space_seqs t] assms(2) space_seqs_not_graphic
      by (simp add: trim_left_with_idle)
  qed
  obtain c t where r: "rev s = c # t" using assms(1) by (cases "rev s") auto
  then have "graphic c" using assms(3) by (metis hd_rev list.sel(1))
  then have "lead_len (map rev space_seqs) (rev s) = 0"
    unfolding r by (rule lead_len_graphic) (use space_seqs_not_graphic in \<open>auto simp: hd_rev\<close>)
  then have "trim_left_with (map rev space_seqs) (rev s) = rev s" by (rule trim_left_with_idle)
  then show ?thesis by (simp add: trim_space_def trim_right_with_def l)
qed

definition equal_fold :: "string \<Rightarrow> string \<Rightarrow> bool" where
  "equal_fold a b \<longleftrightarrow> to_lower a = to_lower b"

lemma equal_fold_code [code]:
  "equal_fold a b = (if length a \<noteq> length b then False else to_lower a = to_lower b)"
  by (auto simp: equal_fold_def dest: arg_cong [of _ _ length])

text \<open>\<open>strings.Split\<close> with a one-byte separator, \<open>strings.Join\<close>, \<open>TrimRight\<close> with one byte.\<close>

fun split_on :: "char \<Rightarrow> string \<Rightarrow> string list" where
  "split_on c [] = [[]]"
| "split_on c (x # xs) =
     (if x = c then [] # split_on c xs
      else (case split_on c xs of [] \<Rightarrow> [[x]] | p # ps \<Rightarrow> (x # p) # ps))"

fun join :: "string \<Rightarrow> string list \<Rightarrow> string" where
  "join sep [] = []"
| "join sep [s] = s"
| "join sep (s # t # ss) = s @ sep @ join sep (t # ss)"

definition trim_right_char :: "char \<Rightarrow> string \<Rightarrow> string" where
  "trim_right_char c s = rev (dropWhile ((=) c) (rev s))"

definition has_prefix :: "string \<Rightarrow> string \<Rightarrow> bool" where
  "has_prefix s p \<longleftrightarrow> prefix p s"

definition has_suffix :: "string \<Rightarrow> string \<Rightarrow> bool" where
  "has_suffix s p \<longleftrightarrow> suffix p s"

definition trim_suffix :: "string \<Rightarrow> string \<Rightarrow> string" where
  "trim_suffix s p = (if has_suffix s p then take (length s - length p) s else s)"

definition contains_str :: "string \<Rightarrow> string \<Rightarrow> bool" where
  "contains_str s p \<longleftrightarrow> sublist p s"

lemma split_on_not_Nil [simp]: "split_on c s \<noteq> []"
  by (induction s) (auto split: list.splits)

lemma split_on_no_sep: "p \<in> set (split_on c s) \<Longrightarrow> c \<notin> set p"
proof (induction s arbitrary: p)
  case Nil
  then show ?case by simp
next
  case (Cons x xs)
  then show ?case by (cases "split_on c xs") (auto split: if_splits)
qed

lemma split_on_idle: "c \<notin> set s \<Longrightarrow> split_on c s = [s]"
  by (induction s) auto

lemma split_on_append: "c \<notin> set s \<Longrightarrow> split_on c (s @ c # t) = s # split_on c t"
  by (induction s) auto

lemma join_Cons: "ss \<noteq> [] \<Longrightarrow> join sep (s # ss) = s @ sep @ join sep ss"
  by (cases ss) auto

lemma split_on_join:
  "ss \<noteq> [] \<Longrightarrow> (\<And>s. s \<in> set ss \<Longrightarrow> c \<notin> set s) \<Longrightarrow> split_on c (join [c] ss) = ss"
proof (induction ss)
  case Nil
  then show ?case by simp
next
  case (Cons s ss)
  then show ?case
    by (cases "ss = []") (simp_all add: join_Cons split_on_append split_on_idle)
qed

lemma join_split_on: "join [c] (split_on c s) = s"
proof (induction s)
  case Nil
  then show ?case by simp
next
  case (Cons x xs)
  then show ?case
    by (cases "split_on c xs"; cases "tl (split_on c xs)") (auto simp: join_Cons)
qed

section \<open>Decimal numbers\<close>

definition is_digit :: "char \<Rightarrow> bool" where
  "is_digit c \<longleftrightarrow> (let n = (of_char c :: nat) in 48 \<le> n \<and> n \<le> 57)"

definition digit_val :: "char \<Rightarrow> nat" where
  "digit_val c = of_char c - 48"

definition digit_char :: "nat \<Rightarrow> char" where
  "digit_char n = char_of (48 + n)"

lemma digit_char_props [simp]:
  "n < 10 \<Longrightarrow> is_digit (digit_char n)"
  "n < 10 \<Longrightarrow> digit_val (digit_char n) = n"
  by (simp_all add: is_digit_def digit_val_def digit_char_def)

fun nat_str :: "nat \<Rightarrow> string" where
  "nat_str n = (if n < 10 then [digit_char n] else nat_str (n div 10) @ [digit_char (n mod 10)])"

declare nat_str.simps [simp del]

definition itoa :: "int \<Rightarrow> string" where
  "itoa i = (if i < 0 then CHR ''-'' # nat_str (nat (- i)) else nat_str (nat i))"

fun nat_of_digits :: "nat \<Rightarrow> string \<Rightarrow> nat" where
  "nat_of_digits acc [] = acc"
| "nat_of_digits acc (c # cs) = nat_of_digits (acc * 10 + digit_val c) cs"

lemma nat_of_digits_append:
  "nat_of_digits acc (s @ t) = nat_of_digits (nat_of_digits acc s) t"
  by (induction s arbitrary: acc) auto

lemma nat_str_digits: "list_all is_digit (nat_str n)"
proof (induction n rule: nat_str.induct)
  case (1 n)
  then show ?case by (cases "n < 10") (simp_all add: nat_str.simps [of n])
qed

lemma nat_str_not_Nil [simp]: "nat_str n \<noteq> []"
  by (cases "n < 10") (simp_all add: nat_str.simps [of n])

lemma nat_of_digits_nat_str: "nat_of_digits 0 (nat_str n) = n"
proof (induction n rule: nat_str.induct)
  case (1 n)
  then show ?case
    by (cases "n < 10") (simp_all add: nat_str.simps [of n] nat_of_digits_append)
qed

text \<open>
  \<open>strconv.ParseInt(s, 10, 64)\<close>: the value and whether there was no error. A syntax error
  gives 0, a value out of range the nearest bound, as in Go.
\<close>

definition parse_digits :: "bool \<Rightarrow> string \<Rightarrow> int \<times> bool" where
  "parse_digits neg ds =
     (if ds = [] \<or> \<not> list_all is_digit ds then (0, False)
      else let n = int (nat_of_digits 0 ds)
        in if neg then (if n > 9223372036854775808 then (min_int64, False) else (- n, True))
           else if n > max_int64 then (max_int64, False) else (n, True))"

fun parse_int64 :: "string \<Rightarrow> int \<times> bool" where
  "parse_int64 [] = (0, False)"
| "parse_int64 (c # cs) =
     (if c = CHR ''-'' then parse_digits True cs
      else if c = CHR ''+'' then parse_digits False cs
      else parse_digits False (c # cs))"

definition atoi :: "string \<Rightarrow> int option" where
  "atoi s = (case parse_int64 s of (n, ok) \<Rightarrow> if ok then Some n else None)"

lemma digit_not_sign: "is_digit c \<Longrightarrow> c \<noteq> CHR ''-'' \<and> c \<noteq> CHR ''+''"
  by (auto simp: is_digit_def)

lemma parse_int64_nat_str:
  assumes "int n \<le> max_int64"
  shows "parse_int64 (nat_str n) = (int n, True)"
proof (cases "nat_str n")
  case Nil
  then show ?thesis by simp
next
  case (Cons c cs)
  have ds: "list_all is_digit (c # cs)" using nat_str_digits [of n] Cons by simp
  then have "c \<noteq> CHR ''-''" "c \<noteq> CHR ''+''" using digit_not_sign by simp_all
  then have "parse_int64 (nat_str n) = parse_digits False (nat_str n)"
    using Cons by simp
  also have "\<dots> = (int n, True)"
    using assms nat_of_digits_nat_str [of n] nat_str_digits [of n]
    by (simp add: parse_digits_def)
  finally show ?thesis .
qed

lemma parse_int64_itoa: "int64 i \<Longrightarrow> parse_int64 (itoa i) = (i, True)"
proof (cases "i < 0")
  case True
  assume "int64 i"
  with True show ?thesis
    using nat_of_digits_nat_str [of "nat (- i)"] nat_str_digits [of "nat (- i)"]
    by (simp add: itoa_def parse_digits_def int64_def)
next
  case False
  assume "int64 i"
  with False show ?thesis
    using parse_int64_nat_str [of "nat i"] by (simp add: itoa_def int64_def)
qed

lemma parse_int64_range: "int64 (fst (parse_int64 s))"
  by (cases s) (auto simp: parse_digits_def int64_def Let_def)

lemma atoi_range: "atoi s = Some n \<Longrightarrow> int64 n"
  using parse_int64_range [of s] by (auto simp: atoi_def split: prod.splits if_splits)

section \<open>Maps and lists\<close>

text \<open>\<open>m[k]\<close> of a map, with the zero value of its element type for a missing key.\<close>

definition get_or :: "'v \<Rightarrow> ('k \<times> 'v) list \<Rightarrow> 'k \<Rightarrow> 'v" where
  "get_or d m k = (case map_of m k of None \<Rightarrow> d | Some v \<Rightarrow> v)"

definition put :: "'k \<Rightarrow> 'v \<Rightarrow> ('k \<times> 'v) list \<Rightarrow> ('k \<times> 'v) list" where
  "put k v m = AList.update k v m"

lemma map_of_put [simp]: "map_of (put k v m) = (map_of m)(k \<mapsto> v)"
  by (simp add: put_def update_conv')

lemma get_or_put: "get_or d (put k v m) k' = (if k = k' then v else get_or d m k')"
  by (auto simp: get_or_def)

lemma distinct_put: "distinct (map fst m) \<Longrightarrow> distinct (map fst (put k v m))"
  by (simp add: put_def distinct_update)

text \<open>A chain of checks passes when every check does.\<close>

lemma chain_None: "(case x of None \<Rightarrow> r | Some e \<Rightarrow> Some (g e)) = None \<longleftrightarrow> x = None \<and> r = None"
  by (cases x) simp_all

text \<open>The first element of a list that repeats an earlier one, as a scan with a set finds it.\<close>

fun first_dup :: "'a list \<Rightarrow> 'a list \<Rightarrow> 'a option" where
  "first_dup seen [] = None"
| "first_dup seen (x # xs) = (if x \<in> set seen then Some x else first_dup (x # seen) xs)"

lemma first_dup_None_iff:
  "first_dup seen xs = None \<longleftrightarrow> distinct xs \<and> set xs \<inter> set seen = {}"
  by (induction xs arbitrary: seen) auto

end
