(* ===== verification/Journal.thy ===== *)
theory Journal
  imports GoBase
begin

text \<open>
  The journal validation that the accounting providers share
  (\<^verbatim>\<open>internal/accounting/journal/journal.go\<close>): \<open>Validate\<close> normalises and checks an entry,
  \<open>PairBranches\<close> splits a balanced entry into debit and credit branches of equal amount.
\<close>

section \<open>Dates\<close>

text \<open>
  \<open>time.Parse("2006-01-02", s)\<close>: a four digit year, a two digit month and a two digit day
  that the month of that year has; \<open>Format\<close> writes them back with leading zeros.
\<close>

definition is_leap :: "nat \<Rightarrow> bool" where
  "is_leap y \<longleftrightarrow> y mod 4 = 0 \<and> (y mod 100 \<noteq> 0 \<or> y mod 400 = 0)"

definition days_in :: "nat \<Rightarrow> nat \<Rightarrow> nat" where
  "days_in y m = (if m = 2 then (if is_leap y then 29 else 28)
     else if m \<in> {4, 6, 9, 11} then 30 else 31)"

definition parse_date :: "string \<Rightarrow> (nat \<times> nat \<times> nat) option" where
  "parse_date s = (case s of
     [y1, y2, y3, y4, h1, m1, m2, h2, d1, d2] \<Rightarrow>
       if h1 = CHR ''-'' \<and> h2 = CHR ''-'' \<and> list_all is_digit [y1, y2, y3, y4, m1, m2, d1, d2]
       then let y = nat_of_digits 0 [y1, y2, y3, y4]; m = nat_of_digits 0 [m1, m2];
                d = nat_of_digits 0 [d1, d2]
            in if 1 \<le> m \<and> m \<le> 12 \<and> 1 \<le> d \<and> d \<le> days_in y m then Some (y, m, d) else None
       else None
   | _ \<Rightarrow> None)"

definition pad2 :: "nat \<Rightarrow> string" where
  "pad2 n = [digit_char (n div 10), digit_char (n mod 10)]"

fun format_date :: "nat \<times> nat \<times> nat \<Rightarrow> string" where
  "format_date (y, m, d) = pad2 (y div 100) @ pad2 (y mod 100) @ ''-'' @ pad2 m @ ''-'' @ pad2 d"

definition date_ok :: "string \<Rightarrow> bool" where
  "date_ok s \<longleftrightarrow> (case parse_date s of None \<Rightarrow> False | Some p \<Rightarrow> format_date p = s)"

lemma digit_char_val: "is_digit c \<Longrightarrow> digit_char (digit_val c) = c"
  by (simp add: is_digit_def digit_val_def digit_char_def Let_def)

lemma digit_val_bound: "is_digit c \<Longrightarrow> digit_val c < 10"
  by (auto simp: is_digit_def digit_val_def Let_def)

lemma pad2_digits:
  "is_digit a \<Longrightarrow> is_digit b \<Longrightarrow> pad2 (digit_val a * 10 + digit_val b) = [a, b]"
  using digit_val_bound [of a] digit_val_bound [of b] by (simp add: pad2_def digit_char_val)

lemma div_mod_shift: "l < n \<Longrightarrow> (h * n + l) div n = h \<and> (h * n + l) mod n = (l::nat)"
  by simp

lemma format_parse_date: "parse_date s = Some p \<Longrightarrow> format_date p = s"
proof -
  assume "parse_date s = Some p"
  then obtain a b c d m1 m2 d1 d2 where
    s: "s = [a, b, c, d, CHR ''-'', m1, m2, CHR ''-'', d1, d2]" and
    ds: "is_digit a" "is_digit b" "is_digit c" "is_digit d" "is_digit m1" "is_digit m2"
      "is_digit d1" "is_digit d2" and
    p: "p = (nat_of_digits 0 [a, b, c, d], nat_of_digits 0 [m1, m2], nat_of_digits 0 [d1, d2])"
    by (auto simp: parse_date_def Let_def split: list.splits if_splits)
  let ?h = "digit_val a * 10 + digit_val b"
  let ?l = "digit_val c * 10 + digit_val d"
  have y: "nat_of_digits 0 [a, b, c, d] = ?h * 100 + ?l"
    by simp
  have "?l < 100" using ds digit_val_bound [of c] digit_val_bound [of d] by simp
  note hl = div_mod_shift [OF this, of ?h, THEN conjunct1] div_mod_shift [OF this, of ?h, THEN conjunct2]
  then have "format_date p = pad2 ?h @ pad2 ?l @ ''-'' @ pad2 (digit_val m1 * 10 + digit_val m2)
      @ ''-'' @ pad2 (digit_val d1 * 10 + digit_val d2)"
    unfolding p y format_date.simps hl by simp
  then show ?thesis using ds by (simp add: s pad2_digits)
qed

lemma date_ok_iff: "date_ok s \<longleftrightarrow> parse_date s \<noteq> None"
  by (auto simp: date_ok_def format_parse_date split: option.splits)

section \<open>Entries\<close>

record line =
  side :: string
  amount :: int
  account_id :: string
  tax_code :: string
  department_id :: string
  sub_account_id :: string
  partner_code :: string
  description :: string
  invoice_kind :: string

record entry =
  batch_key :: string
  entry_key :: string
  transaction_date :: string
  currency :: string
  memo :: string
  lines :: "line list"

record branch =
  debitor :: line
  creditor :: line

definition invalid :: "string \<Rightarrow> gerr" where
  "invalid code = Permanent (''accounting.journal.'' @ code) (Msg ''journal input is invalid'')"

section \<open>Validate\<close>

definition norm_line :: "line \<Rightarrow> line" where
  "norm_line l = l \<lparr>side := to_lower (trim_space (side l)),
     account_id := trim_space (account_id l), tax_code := trim_space (tax_code l),
     department_id := trim_space (department_id l),
     sub_account_id := trim_space (sub_account_id l),
     partner_code := trim_space (partner_code l), description := trim_space (description l),
     invoice_kind := trim_space (invoice_kind l)\<rparr>"

definition norm_head :: "entry \<Rightarrow> entry" where
  "norm_head e = e \<lparr>batch_key := trim_space (batch_key e), entry_key := trim_space (entry_key e),
     transaction_date := trim_space (transaction_date e),
     currency := to_upper (trim_space (currency e)), memo := trim_space (memo e)\<rparr>"

text \<open>
  The loop over the lines rewrites each one in place before it checks it. Its result is the
  slice as it is left, and the two sums or the error that ends the loop.
\<close>

fun check_lines :: "int \<Rightarrow> int \<Rightarrow> line list \<Rightarrow> line list \<times> (int \<times> int) res" where
  "check_lines debit credit [] = ([], Inr (debit, credit))"
| "check_lines debit credit (l0 # ls) =
     (let l = norm_line l0 in
      if amount l < 1 \<or> account_id l = [] \<or> tax_code l = []
         \<or> (side l \<noteq> ''debit'' \<and> side l \<noteq> ''credit'')
      then (l # ls, Inl (invalid ''line_invalid''))
      else if side l = ''debit'' then
        (if debit > wrap64 (max_int64 - amount l)
         then (l # ls, Inl (invalid ''amount_overflow''))
         else (case check_lines (wrap64 (debit + amount l)) credit ls of
                 (ls', r) \<Rightarrow> (l # ls', r)))
      else
        (if credit > wrap64 (max_int64 - amount l)
         then (l # ls, Inl (invalid ''amount_overflow''))
         else (case check_lines debit (wrap64 (credit + amount l)) ls of
                 (ls', r) \<Rightarrow> (l # ls', r))))"

text \<open>
  \<open>Validate\<close> returns an entry or an error. The entry shares its lines with the argument, so
  the first component gives the caller's lines after the call.
\<close>

definition validate :: "entry \<Rightarrow> line list \<times> entry res" where
  "validate input =
     (let e = norm_head input in
      if batch_key e = [] then (lines e, Inl (invalid ''batch_key_required''))
      else if entry_key e = [] then (lines e, Inl (invalid ''entry_key_required''))
      else if \<not> date_ok (transaction_date e)
      then (lines e, Inl (invalid ''transaction_date_invalid''))
      else if currency e \<noteq> ''JPY'' then (lines e, Inl (invalid ''currency_unsupported''))
      else if length (lines e) < 2 \<or> length (lines e) > 100
      then (lines e, Inl (invalid ''lines_invalid''))
      else (case check_lines 0 0 (lines e) of
              (ls, Inl err) \<Rightarrow> (ls, Inl err)
            | (ls, Inr (debit, credit)) \<Rightarrow>
                if debit = 0 \<or> credit = 0 \<or> debit \<noteq> credit then (ls, Inl (invalid ''unbalanced''))
                else (ls, Inr (e \<lparr>lines := ls\<rparr>))))"

section \<open>What \<open>Validate\<close> promises\<close>

definition total :: "string \<Rightarrow> line list \<Rightarrow> int" where
  "total sd ls = sum_list (map amount (filter (\<lambda>l. side l = sd) ls))"

definition line_ok :: "line \<Rightarrow> bool" where
  "line_ok l \<longleftrightarrow> 1 \<le> amount l \<and> account_id l \<noteq> [] \<and> tax_code l \<noteq> []
     \<and> (side l = ''debit'' \<or> side l = ''credit'')"

definition balanced :: "line list \<Rightarrow> bool" where
  "balanced ls \<longleftrightarrow> total ''debit'' ls = total ''credit'' ls \<and> 0 < total ''debit'' ls
     \<and> total ''debit'' ls \<le> max_int64"

definition normalise :: "entry \<Rightarrow> entry" where
  "normalise e = (norm_head e) \<lparr>lines := map norm_line (lines e)\<rparr>"

definition entry_ok :: "entry \<Rightarrow> bool" where
  "entry_ok e \<longleftrightarrow> batch_key e \<noteq> [] \<and> entry_key e \<noteq> [] \<and> parse_date (transaction_date e) \<noteq> None
     \<and> currency e = ''JPY'' \<and> 2 \<le> length (lines e) \<and> length (lines e) \<le> 100
     \<and> list_all line_ok (lines e) \<and> balanced (lines e)"

definition amounts64 :: "line list \<Rightarrow> bool" where
  "amounts64 ls \<longleftrightarrow> list_all (\<lambda>l. int64 (amount l)) ls"

lemmas journal_specs [spec_simps] =
  total_def line_ok_def balanced_def normalise_def entry_ok_def amounts64_def

lemma norm_line_idem [simp]: "norm_line (norm_line l) = norm_line l"
  by (simp add: norm_line_def)

lemma norm_head_idem [simp]: "norm_head (norm_head e) = norm_head e"
  by (simp add: norm_head_def)

lemma amount_norm_line [simp]: "amount (norm_line l) = amount l"
  by (simp add: norm_line_def)

lemma lines_norm_head [simp]: "lines (norm_head e) = lines e"
  by (simp add: norm_head_def)

lemma total_simps [simp]:
  "total sd [] = 0"
  "total sd (l # ls) = (if side l = sd then amount l else 0) + total sd ls"
  by (simp_all add: total_def)

lemma total_nonneg: "list_all line_ok ls \<Longrightarrow> 0 \<le> total sd ls"
  by (induction ls) (auto simp: line_ok_def)

lemma line_step:
  assumes "int64 (amount l)" "1 \<le> amount l" "0 \<le> x"
  shows "\<not> x > wrap64 (max_int64 - amount l) \<longleftrightarrow> x + amount l \<le> max_int64"
    and "x + amount l \<le> max_int64 \<Longrightarrow> wrap64 (x + amount l) = x + amount l"
  using assms by (auto simp: int64_def)

lemma check_lines_Cons:
  "check_lines d c (l0 # ls) = (ls', Inr r) \<longleftrightarrow>
    line_ok (norm_line l0) \<and>
    (\<exists>t. ls' = norm_line l0 # t \<and>
      (if side (norm_line l0) = ''debit''
       then \<not> d > wrap64 (max_int64 - amount l0) \<and> check_lines (wrap64 (d + amount l0)) c ls = (t, Inr r)
       else \<not> c > wrap64 (max_int64 - amount l0) \<and> check_lines d (wrap64 (c + amount l0)) ls = (t, Inr r)))"
  by (auto simp: line_ok_def Let_def split: prod.splits if_splits)

lemma check_lines_deb:
  assumes "line_ok (norm_line l0)" "side (norm_line l0) = ''debit''" "int64 (amount l0)" "0 \<le> d"
  shows "check_lines d c (l0 # ls) = (ls', Inr r) \<longleftrightarrow> d + amount l0 \<le> max_int64
    \<and> (\<exists>t. ls' = norm_line l0 # t \<and> check_lines (d + amount l0) c ls = (t, Inr r))"
proof -
  have pos: "1 \<le> amount l0" using assms(1) by (simp add: line_ok_def)
  show ?thesis
  proof (cases "d + amount l0 \<le> max_int64")
    case True
    then have "\<not> d > wrap64 (max_int64 - amount l0)" "wrap64 (d + amount l0) = d + amount l0"
      using line_step [OF assms(3) pos assms(4)] by blast+
    with True assms(1,2) show ?thesis by (simp add: check_lines_Cons del: check_lines.simps)
  next
    case False
    then have "d > wrap64 (max_int64 - amount l0)"
      using line_step [OF assms(3) pos assms(4)] by blast
    with False assms(1,2) show ?thesis by (simp add: check_lines_Cons del: check_lines.simps)
  qed
qed

lemma check_lines_cre:
  assumes "line_ok (norm_line l0)" "side (norm_line l0) = ''credit''" "int64 (amount l0)" "0 \<le> c"
  shows "check_lines d c (l0 # ls) = (ls', Inr r) \<longleftrightarrow> c + amount l0 \<le> max_int64
    \<and> (\<exists>t. ls' = norm_line l0 # t \<and> check_lines d (c + amount l0) ls = (t, Inr r))"
proof -
  have pos: "1 \<le> amount l0" using assms(1) by (simp add: line_ok_def)
  show ?thesis
  proof (cases "c + amount l0 \<le> max_int64")
    case True
    then have "\<not> c > wrap64 (max_int64 - amount l0)" "wrap64 (c + amount l0) = c + amount l0"
      using line_step [OF assms(3) pos assms(4)] by blast+
    with True assms(1,2) show ?thesis by (simp add: check_lines_Cons del: check_lines.simps)
  next
    case False
    then have "c > wrap64 (max_int64 - amount l0)"
      using line_step [OF assms(3) pos assms(4)] by blast
    with False assms(1,2) show ?thesis by (simp add: check_lines_Cons del: check_lines.simps)
  qed
qed

lemma check_lines_iff:
  assumes "amounts64 ls" "0 \<le> d" "d \<le> max_int64" "0 \<le> c" "c \<le> max_int64"
  shows "check_lines d c ls = (ls', Inr (d', c')) \<longleftrightarrow>
    ls' = map norm_line ls \<and> list_all line_ok ls'
      \<and> d' = d + total ''debit'' ls' \<and> d' \<le> max_int64
      \<and> c' = c + total ''credit'' ls' \<and> c' \<le> max_int64"
  using assms
proof (induction ls arbitrary: d c ls')
  case Nil
  then show ?case by auto
next
  case (Cons l0 ls)
  let ?l = "norm_line l0" and ?t = "map norm_line ls"
  have rng: "int64 (amount l0)" and rest: "amounts64 ls"
    using Cons.prems by (simp_all add: amounts64_def)
  have nn: "0 \<le> total sd ?t" if "list_all line_ok ?t" for sd
    using that by (rule total_nonneg)
  consider (bad) "\<not> line_ok ?l" | (deb) "line_ok ?l" "side ?l = ''debit''"
    | (cre) "line_ok ?l" "side ?l = ''credit''"
    by (auto simp: line_ok_def)
  then show ?case
  proof cases
    case bad
    then show ?thesis by (auto simp: check_lines_Cons simp del: check_lines.simps)
  next
    case deb
    have pos: "1 \<le> amount l0" using deb(1) by (simp add: line_ok_def)
    show ?thesis
    proof (cases "d + amount l0 \<le> max_int64")
      case True
      have ih: "check_lines (d + amount l0) c ls = (t, Inr (d', c')) \<longleftrightarrow>
          t = ?t \<and> list_all line_ok t \<and> d' = d + amount l0 + total ''debit'' t \<and> d' \<le> max_int64
            \<and> c' = c + total ''credit'' t \<and> c' \<le> max_int64" for t
        by (rule Cons.IH [OF rest]) (use Cons.prems True pos in simp_all)
      show ?thesis
        unfolding check_lines_deb [OF deb rng Cons.prems(2)] ih
        using deb True by (auto simp: algebra_simps)
    next
      case False
      then have "\<not> (list_all line_ok ?t \<and> d + amount l0 + total ''debit'' ?t \<le> max_int64)"
        using nn [of "''debit''"] by auto
      then show ?thesis
        unfolding check_lines_deb [OF deb rng Cons.prems(2)]
        using deb False by (auto simp: algebra_simps)
    qed
  next
    case cre
    have pos: "1 \<le> amount l0" using cre(1) by (simp add: line_ok_def)
    show ?thesis
    proof (cases "c + amount l0 \<le> max_int64")
      case True
      have ih: "check_lines d (c + amount l0) ls = (t, Inr (d', c')) \<longleftrightarrow>
          t = ?t \<and> list_all line_ok t \<and> d' = d + total ''debit'' t \<and> d' \<le> max_int64
            \<and> c' = c + amount l0 + total ''credit'' t \<and> c' \<le> max_int64" for t
        by (rule Cons.IH [OF rest]) (use Cons.prems True pos in simp_all)
      show ?thesis
        unfolding check_lines_cre [OF cre rng Cons.prems(4)] ih
        using cre True by (auto simp: algebra_simps)
    next
      case False
      then have "\<not> (list_all line_ok ?t \<and> c + amount l0 + total ''credit'' ?t \<le> max_int64)"
        using nn [of "''credit''"] by auto
      then show ?thesis
        unfolding check_lines_cre [OF cre rng Cons.prems(4)]
        using cre False by (auto simp: algebra_simps)
    qed
  qed
qed

lemma validate_iff:
  assumes "amounts64 (lines e)"
  shows "snd (validate e) = Inr e' \<longleftrightarrow> e' = normalise e \<and> entry_ok (normalise e)"
proof -
  have nn: "0 \<le> total sd ls" if "list_all line_ok ls" for sd ls
    using that by (rule total_nonneg)
  show ?thesis
  proof (cases "check_lines 0 0 (lines e)")
    case (Pair ls r)
    show ?thesis
    proof (cases r)
      case (Inl err)
      then have "\<not> (list_all line_ok (map norm_line (lines e)) \<and>
          total ''debit'' (map norm_line (lines e)) \<le> max_int64 \<and>
          total ''credit'' (map norm_line (lines e)) \<le> max_int64)"
        using check_lines_iff [OF assms, of 0 0] Pair by auto
      then show ?thesis using Pair Inl
        by (auto simp: validate_def Let_def entry_ok_def normalise_def balanced_def)
    next
      case (Inr q)
      obtain d c where q: "q = (d, c)" by (cases q)
      then have *: "ls = map norm_line (lines e)" "list_all line_ok ls"
          "d = total ''debit'' ls" "d \<le> max_int64" "c = total ''credit'' ls" "c \<le> max_int64"
        using check_lines_iff [OF assms, of 0 0 ls d c] Pair Inr by auto
      then show ?thesis using Pair Inr q nn [of ls "''debit''"]
        by (auto simp: validate_def Let_def entry_ok_def normalise_def balanced_def date_ok_iff
            list_all_iff)
    qed
  qed
qed

lemma normalise_idem [simp]: "normalise (normalise e) = normalise e"
proof -
  have "norm_head (e\<lparr>lines := ls\<rparr>) = (norm_head e)\<lparr>lines := ls\<rparr>" for e ls
    by (simp add: norm_head_def)
  then show ?thesis by (simp add: normalise_def comp_def)
qed

lemma amounts64_normalise [simp]: "amounts64 (lines (normalise e)) = amounts64 (lines e)"
  by (simp add: amounts64_def normalise_def list_all_iff)

section \<open>PairBranches\<close>

fun split_sides :: "line list \<Rightarrow> line list \<times> line list" where
  "split_sides [] = ([], [])"
| "split_sides (l # ls) = (case split_sides ls of
     (ds, cs) \<Rightarrow> if side l = ''debit'' then (l # ds, cs) else (ds, l # cs))"

definition branch_amount :: "line \<Rightarrow> line \<Rightarrow> int" where
  "branch_amount d c = (if amount c < amount d then amount c else amount d)"

text \<open>
  The loop: the lists hold the lines from the two indices on, the first of each with what is
  left of its amount. One side of the step is used up, whatever the amounts are.
\<close>

definition reduce :: "int \<Rightarrow> line list \<Rightarrow> line list" where
  "reduce a ls = (case ls of [] \<Rightarrow> []
     | l # rest \<Rightarrow> (let l' = l\<lparr>amount := wrap64 (amount l - a)\<rparr> in
         if amount l' = 0 then rest else l' # rest))"

lemma length_reduce_le: "length (reduce a ls) \<le> length ls"
  by (auto simp: reduce_def Let_def split: list.splits)

lemma length_reduce_same: "amount l = a \<Longrightarrow> length (reduce a (l # ls)) = length ls"
  by (auto simp: reduce_def)

function pair_loop :: "line list \<Rightarrow> line list \<Rightarrow> branch list" where
  "pair_loop (d # ds) (c # cs) =
     (let a = branch_amount d c in
      \<lparr>debitor = d\<lparr>amount := a\<rparr>, creditor = c\<lparr>amount := a\<rparr>\<rparr>
        # pair_loop (reduce a (d # ds)) (reduce a (c # cs)))"
| "pair_loop [] cs = []"
| "pair_loop (d # ds) [] = []"
  by pat_completeness auto
termination
proof (relation "measure (\<lambda>(ds, cs). length ds + length cs)", goal_cases)
  case 1
  show ?case by simp
next
  case (2 d ds c cs a)
  have "amount d = a \<or> amount c = a" using 2 by (auto simp: branch_amount_def)
  then show ?case
    using length_reduce_le [of a "d # ds"] length_reduce_le [of a "c # cs"]
      length_reduce_same [of d a ds] length_reduce_same [of c a cs] by auto
qed

text \<open>\<open>make\<close> panics on the negative capacity that an entry without lines gives (\<open>None\<close>).\<close>

definition pair_branches :: "entry \<Rightarrow> branch list option" where
  "pair_branches e = (case split_sides (lines e) of
     (ds, cs) \<Rightarrow> if int (length ds) + int (length cs) - 1 < 0 then None
                 else Some (pair_loop ds cs))"

section \<open>What \<open>PairBranches\<close> promises\<close>

text \<open>A line apart from its amount, and what a list of lines posts to it.\<close>

definition posting :: "line \<Rightarrow> line" where
  "posting l = l\<lparr>amount := 0\<rparr>"

definition posted :: "line \<Rightarrow> line list \<Rightarrow> int" where
  "posted q ls = sum_list (map amount (filter (\<lambda>l. posting l = q) ls))"

lemma posting_amount [simp]: "posting (l\<lparr>amount := a\<rparr>) = posting l"
  by (simp add: posting_def)

lemma posted_simps [simp]:
  "posted q [] = 0"
  "posted q (l # ls) = (if posting l = q then amount l else 0) + posted q ls"
  by (simp_all add: posted_def)

definition positive64 :: "line list \<Rightarrow> bool" where
  "positive64 ls \<longleftrightarrow> list_all (\<lambda>l. 1 \<le> amount l \<and> amount l \<le> max_int64) ls"

lemma positive64_Cons [simp]:
  "positive64 (l # ls) \<longleftrightarrow> 1 \<le> amount l \<and> amount l \<le> max_int64 \<and> positive64 ls"
  by (auto simp: positive64_def)

lemma sum_amount_nonneg: "positive64 ls \<Longrightarrow> 0 \<le> sum_list (map amount ls)"
  by (induction ls) (auto simp: positive64_def)

lemma sum_amount_pos: "positive64 ls \<Longrightarrow> ls \<noteq> [] \<Longrightarrow> 0 < sum_list (map amount ls)"
  using sum_amount_nonneg [of "tl ls"] by (cases ls) (auto simp: positive64_def)

text \<open>A step takes its amount off the head of a list and keeps the rest.\<close>

lemma reduce_head:
  assumes "positive64 (l # ls)" "1 \<le> a" "a \<le> amount l"
  shows "positive64 (reduce a (l # ls))"
    and "sum_list (map amount (reduce a (l # ls))) = sum_list (map amount (l # ls)) - a"
    and "posted q (reduce a (l # ls)) = posted q (l # ls) - (if posting l = q then a else 0)"
proof -
  have "wrap64 (amount l - a) = amount l - a"
    using assms by (intro wrap64_id) (auto simp: int64_def)
  then show "positive64 (reduce a (l # ls))"
    and "sum_list (map amount (reduce a (l # ls))) = sum_list (map amount (l # ls)) - a"
    and "posted q (reduce a (l # ls)) = posted q (l # ls) - (if posting l = q then a else 0)"
    using assms by (auto simp: reduce_def Let_def positive64_def)
qed

lemma branch_amount_bounds:
  "1 \<le> amount d \<Longrightarrow> 1 \<le> amount c \<Longrightarrow>
    1 \<le> branch_amount d c \<and> branch_amount d c \<le> amount d \<and> branch_amount d c \<le> amount c"
  by (auto simp: branch_amount_def)

lemma pair_loop_posted:
  assumes "positive64 ds" "positive64 cs"
    and "sum_list (map amount ds) = sum_list (map amount cs)"
  shows "posted q (map debitor (pair_loop ds cs)) = posted q ds
    \<and> posted q (map creditor (pair_loop ds cs)) = posted q cs"
  using assms
proof (induction ds cs rule: pair_loop.induct)
  case (1 d ds c cs)
  let ?a = "branch_amount d c"
  have a: "1 \<le> ?a" "?a \<le> amount d" "?a \<le> amount c"
    using 1 branch_amount_bounds [of d c] by auto
  note rd = reduce_head [OF "1.prems"(1) a(1,2)] and rc = reduce_head [OF "1.prems"(2) a(1,3)]
  have "sum_list (map amount (reduce ?a (d # ds))) = sum_list (map amount (reduce ?a (c # cs)))"
    unfolding rd(2) rc(2) using "1.prems"(3) by simp
  from "1.IH" [OF refl rd(1) rc(1) this] show ?case
    unfolding rd(3) rc(3) by (simp add: Let_def del: positive64_Cons)
next
  case (2 cs)
  then show ?case using sum_amount_pos [of cs] by (cases cs) auto
next
  case (3 d ds)
  then show ?case using sum_amount_pos [of "d # ds"] by simp
qed

lemma pair_loop_branches:
  assumes "positive64 ds" "positive64 cs" "b \<in> set (pair_loop ds cs)"
  shows "amount (debitor b) = amount (creditor b) \<and> 1 \<le> amount (debitor b)
    \<and> posting (debitor b) \<in> posting ` set ds \<and> posting (creditor b) \<in> posting ` set cs"
  using assms
proof (induction ds cs rule: pair_loop.induct)
  case (1 d ds c cs)
  let ?a = "branch_amount d c"
  have a: "1 \<le> ?a" "?a \<le> amount d" "?a \<le> amount c"
    using 1 branch_amount_bounds [of d c] by auto
  note rd = reduce_head [OF "1.prems"(1) a(1,2)] and rc = reduce_head [OF "1.prems"(2) a(1,3)]
  have sub: "posting ` set (reduce ?a (l # ls)) \<subseteq> posting ` set (l # ls)" for l ls
    by (auto simp: reduce_def Let_def)
  from "1.prems"(3) consider "b = \<lparr>debitor = d\<lparr>amount := ?a\<rparr>, creditor = c\<lparr>amount := ?a\<rparr>\<rparr>"
    | "b \<in> set (pair_loop (reduce ?a (d # ds)) (reduce ?a (c # cs)))"
    by (auto simp: Let_def)
  then show ?case
  proof cases
    case 1
    then show ?thesis using a by simp
  next
    case 2
    from "1.IH" [OF refl rd(1) rc(1) this] sub show ?thesis by blast
  qed
qed simp_all

lemma pair_loop_length:
  "ds \<noteq> [] \<or> cs \<noteq> [] \<Longrightarrow> length (pair_loop ds cs) \<le> length ds + length cs - 1"
proof (induction ds cs rule: pair_loop.induct)
  case (1 d ds c cs)
  let ?a = "branch_amount d c"
  let ?n = "length (reduce ?a (d # ds)) + length (reduce ?a (c # cs))"
  have "amount d = ?a \<or> amount c = ?a" by (auto simp: branch_amount_def)
  then have n: "?n \<le> length ds + length cs + 1"
    using length_reduce_le [of ?a "d # ds"] length_reduce_le [of ?a "c # cs"]
      length_reduce_same [of d ?a ds] length_reduce_same [of c ?a cs] by auto
  show ?case
  proof (cases "reduce ?a (d # ds) = [] \<and> reduce ?a (c # cs) = []")
    case True
    then show ?thesis by (simp add: Let_def)
  next
    case False
    with "1.IH" [OF refl] n show ?thesis by (simp add: Let_def)
  qed
qed auto

lemma split_sides_eq:
  "split_sides ls = (filter (\<lambda>l. side l = ''debit'') ls, filter (\<lambda>l. side l \<noteq> ''debit'') ls)"
  by (induction ls) auto

lemma line_ok_credit: "line_ok l \<Longrightarrow> side l \<noteq> ''debit'' \<longleftrightarrow> side l = ''credit''"
  by (auto simp: line_ok_def)

lemma positive64_sides:
  assumes "list_all line_ok ls" "amounts64 ls"
  shows "positive64 (filter (\<lambda>l. side l = sd) ls)"
  using assms by (induction ls) (auto simp: line_ok_def amounts64_def positive64_def int64_def)

lemma validate_same:
  assumes "amounts64 (lines e)" "snd (validate e) = Inr e'"
  shows "snd (validate e') = Inr e' \<and> fst (validate e) = lines e'"
proof
  have e': "e' = normalise e" "entry_ok (normalise e)" using assms validate_iff by blast+
  then show "snd (validate e') = Inr e'" using assms(1) by (simp add: validate_iff)
  show "fst (validate e) = lines e'"
    using assms(2) by (auto simp: validate_def Let_def split: if_splits prod.splits sum.splits)
qed

section \<open>Properties\<close>

definition sample_line :: "string \<Rightarrow> int \<Rightarrow> string \<Rightarrow> line" where
  "sample_line sd a acc = \<lparr>side = sd, amount = a, account_id = acc, tax_code = ''t1'',
     department_id = [], sub_account_id = [], partner_code = [], description = '' note '',
     invoice_kind = []\<rparr>"

definition sample_entry :: entry where
  "sample_entry = \<lparr>batch_key = '' b1 '', entry_key = ''e1'', transaction_date = ''2024-02-29'',
     currency = ''jpy'', memo = [],
     lines = [sample_line ''Debit'' 300 ''cash'', sample_line ''credit'' 100 ''sales'',
              sample_line ''credit '' 200 ''rent'']\<rparr>"

lemma sample_entry_ok: "amounts64 (lines sample_entry) \<and> entry_ok (normalise sample_entry)"
  by code_simp

text \<open>
  C1: \<open>Validate\<close> succeeds exactly on the entries whose normalised form is well formed: keys
  present, a calendar date, JPY, two to a hundred lines, each with a positive amount, an
  account, a tax code and a side, and debits equal to credits without exceeding an int64. The
  result is then the normalised entry.
\<close>
theorem journal_validate_exact:
  assumes "amounts64 (lines e)"
  shows "snd (validate e) = Inr e' \<longleftrightarrow> e' = normalise e \<and> entry_ok (normalise e)"
  by (rule validate_iff [OF assms])

theorem journal_validate_exact_witness:
  "snd (validate sample_entry) = Inr (normalise sample_entry)"
  using journal_validate_exact [of sample_entry "normalise sample_entry"] sample_entry_ok by simp

text \<open>
  C2: an accepted entry is a fixed point of \<open>Validate\<close>, and the lines of the caller's entry,
  which the call rewrites in place, are then the lines of the result.
\<close>
theorem journal_validate_stable:
  assumes "amounts64 (lines e)" "snd (validate e) = Inr e'"
  shows "validate e' = (lines e', Inr e') \<and> fst (validate e) = lines e'"
proof -
  have e': "e' = normalise e" using assms validate_iff by blast
  have v: "snd (validate e') = Inr e'" "fst (validate e) = lines e'"
    using validate_same [OF assms] by simp_all
  moreover have "fst (validate e') = lines e'"
    using validate_same [of e' e'] v(1) assms(1) e' by simp
  ultimately show ?thesis by (metis prod.collapse)
qed

theorem journal_validate_stable_witness:
  "fst (validate sample_entry) = lines (normalise sample_entry)"
  using journal_validate_stable [of sample_entry "normalise sample_entry"] sample_entry_ok
    validate_iff [of sample_entry] by simp

text \<open>
  C3: for an accepted entry \<open>PairBranches\<close> returns fewer branches than there are lines; both
  sides of every branch carry the same positive amount and post to lines of the entry; and the
  branches post to every debit line and to every credit line (told apart by everything but
  the amount) exactly what the entry posts there.
\<close>
theorem journal_pairing_conserves:
  assumes "amounts64 (lines e0)" "snd (validate e0) = Inr e"
  shows "\<exists>bs. pair_branches e = Some bs \<and> length bs < length (lines e)
    \<and> list_all (\<lambda>b. amount (debitor b) = amount (creditor b) \<and> 1 \<le> amount (debitor b)
        \<and> posting (debitor b) \<in> posting ` set (lines e)
        \<and> posting (creditor b) \<in> posting ` set (lines e)) bs
    \<and> (\<forall>q. posted q (map debitor bs) = posted q (filter (\<lambda>l. side l = ''debit'') (lines e))
        \<and> posted q (map creditor bs) = posted q (filter (\<lambda>l. side l = ''credit'') (lines e)))"
proof -
  let ?ds = "filter (\<lambda>l. side l = ''debit'') (lines e)"
  let ?cs = "filter (\<lambda>l. side l = ''credit'') (lines e)"
  have e: "e = normalise e0" "entry_ok e" using assms validate_iff [OF assms(1), of e] by simp_all
  then have ok: "list_all line_ok (lines e)" "2 \<le> length (lines e)" "amounts64 (lines e)"
    and bal: "sum_list (map amount ?ds) = sum_list (map amount ?cs)"
    using assms(1) by (auto simp: entry_ok_def balanced_def total_def)
  have cs: "filter (\<lambda>l. side l \<noteq> ''debit'') (lines e) = ?cs"
    using ok(1) by (intro filter_cong) (auto simp: list_all_iff line_ok_def)
  have len: "length ?ds + length ?cs = length (lines e)"
    using sum_length_filter_compl [of "\<lambda>l. side l = ''debit''" "lines e"] by (simp add: cs)
  note pos = positive64_sides [OF ok(1,3)]
  have "pair_branches e = Some (pair_loop ?ds ?cs)"
    using len ok(2) by (simp add: pair_branches_def split_sides_eq cs)
  moreover have "length (pair_loop ?ds ?cs) < length (lines e)"
    using pair_loop_length [of ?ds ?cs] len ok(2) by (cases "?ds = [] \<and> ?cs = []") auto
  moreover have "list_all (\<lambda>b. amount (debitor b) = amount (creditor b) \<and> 1 \<le> amount (debitor b)
        \<and> posting (debitor b) \<in> posting ` set (lines e)
        \<and> posting (creditor b) \<in> posting ` set (lines e)) (pair_loop ?ds ?cs)"
    using pair_loop_branches [OF pos pos] by (fastforce simp: list_all_iff)
  ultimately show ?thesis using pair_loop_posted [OF pos pos bal] by blast
qed

theorem journal_pairing_conserves_witness:
  "\<exists>bs. pair_branches (normalise sample_entry) = Some bs \<and> length bs < 3"
  using journal_pairing_conserves [of sample_entry "normalise sample_entry"] sample_entry_ok
    validate_iff [of sample_entry "normalise sample_entry"]
  by (auto simp: sample_entry_def normalise_def norm_head_def)

text \<open>Only an entry without lines makes the pairing panic.\<close>

lemma pair_branches_none: "pair_branches e = None \<longleftrightarrow> lines e = []"
proof -
  have "length (filter (\<lambda>l. side l = ''debit'') (lines e))
      + length (filter (\<lambda>l. side l \<noteq> ''debit'') (lines e)) = length (lines e)"
    using sum_length_filter_compl [of "\<lambda>l. side l = ''debit''" "lines e"] by simp
  then have "int (length (fst (split_sides (lines e)))) + int (length (snd (split_sides (lines e))))
      = int (length (lines e))"
    by (simp add: split_sides_eq flip: of_nat_add)
  then show ?thesis by (auto simp: pair_branches_def split: prod.splits)
qed

end
