(* ===== verification/GoValue.thy ===== *)
theory GoValue
  imports GoBase
begin

text \<open>
  Go values of type \<open>any\<close> as the connectors handle them, their printed form (\<open>fmt.Sprint\<close>)
  and their JSON form (\<open>encoding/json\<close>).

  A float64 is given by the shortest decimal that reads back as it, which is what Go prints:
  \<open>Fin m e\<close> is \<open>m * 10 ^ e\<close> with no trailing zero in \<open>m\<close>. JSON literals of up to 15
  significant digits are their own shortest decimal; longer ones keep their digits here, where
  Go rounds them to the nearest float64. The sign of a negative zero is dropped.
\<close>

section \<open>UTF-8\<close>

abbreviation byte :: "char \<Rightarrow> nat" where
  "byte c \<equiv> of_char c"

definition cont :: "nat \<Rightarrow> bool" where
  "cont b \<longleftrightarrow> 128 \<le> b \<and> b \<le> 191"

text \<open>The length of the valid encoding at the head of a string, 0 where there is none.\<close>

definition wide_len :: "nat list \<Rightarrow> nat" where
  "wide_len bs = (case bs of
     b0 # b1 # cs \<Rightarrow>
       if 194 \<le> b0 \<and> b0 \<le> 223 \<and> cont b1 then 2
       else (case cs of
         [] \<Rightarrow> 0
       | b2 # ds \<Rightarrow>
           if (b0 = 224 \<and> 160 \<le> b1 \<and> b1 \<le> 191 \<or> 225 \<le> b0 \<and> b0 \<le> 236 \<and> cont b1
               \<or> b0 = 237 \<and> 128 \<le> b1 \<and> b1 \<le> 159 \<or> 238 \<le> b0 \<and> b0 \<le> 239 \<and> cont b1)
              \<and> cont b2 then 3
           else (case ds of
             [] \<Rightarrow> 0
           | b3 # _ \<Rightarrow>
               if (b0 = 240 \<and> 144 \<le> b1 \<and> b1 \<le> 191 \<or> 241 \<le> b0 \<and> b0 \<le> 243 \<and> cont b1
                   \<or> b0 = 244 \<and> 128 \<le> b1 \<and> b1 \<le> 143) \<and> cont b2 \<and> cont b3 then 4
               else 0))
   | _ \<Rightarrow> 0)"

fun rune_len :: "string \<Rightarrow> nat" where
  "rune_len [] = 0"
| "rune_len (c # cs) = (if byte c < 128 then 1 else wide_len (map byte (c # take 3 cs)))"

lemma wide_len_le: "wide_len bs \<le> length bs"
  by (auto simp: wide_len_def split: list.splits)

lemma rune_len_le: "rune_len s \<le> length s"
proof (cases s)
  case (Cons c cs)
  have "wide_len (map byte (c # take 3 cs)) \<le> length s"
    using wide_len_le [of "map byte (c # take 3 cs)"] Cons by simp
  then show ?thesis using Cons by simp
qed simp

definition rune_error :: string where
  "rune_error = [CHR 0xEF, CHR 0xBF, CHR 0xBD]"

definition encode_rune :: "nat \<Rightarrow> string" where
  "encode_rune r =
     (if r < 128 then [char_of r]
      else if r < 2048 then [char_of (192 + r div 64), char_of (128 + r mod 64)]
      else if 55296 \<le> r \<and> r \<le> 57343 \<or> 1114111 < r then rune_error
      else if r < 65536
      then [char_of (224 + r div 4096), char_of (128 + r div 64 mod 64), char_of (128 + r mod 64)]
      else [char_of (240 + r div 262144), char_of (128 + r div 4096 mod 64),
            char_of (128 + r div 64 mod 64), char_of (128 + r mod 64)])"

function valid_utf8 :: "string \<Rightarrow> bool" where
  "valid_utf8 s =
     (if s = [] then True
      else if rune_len s = 0 then False else valid_utf8 (drop (rune_len s) s))"
  by pat_completeness auto
termination
  by (relation "measure length") auto

declare valid_utf8.simps [simp del]

text \<open>The runes a \<open>range\<close> loop sees; a byte outside a valid encoding gives U+FFFD.\<close>

definition decode_rune :: "string \<Rightarrow> nat" where
  "decode_rune s = (case map byte s of
     [a] \<Rightarrow> a
   | [a, b] \<Rightarrow> (a - 192) * 64 + (b - 128)
   | [a, b, c] \<Rightarrow> ((a - 224) * 64 + (b - 128)) * 64 + (c - 128)
   | [a, b, c, d] \<Rightarrow> (((a - 240) * 64 + (b - 128)) * 64 + (c - 128)) * 64 + (d - 128)
   | _ \<Rightarrow> 65533)"

function runes :: "string \<Rightarrow> nat list" where
  "runes s =
     (if s = [] then []
      else if rune_len s = 0 then 65533 # runes (tl s)
      else decode_rune (take (rune_len s) s) # runes (drop (rune_len s) s))"
  by pat_completeness auto
termination
  by (relation "measure length") auto

declare runes.simps [simp del]

lemma runes_code [code]:
  "runes [] = []"
  "runes (c # cs) =
     (if byte c < 128 then byte c # runes cs
      else let k = rune_len (c # cs) in
        if k = 0 then 65533 # runes cs
        else decode_rune (take k (c # cs)) # runes (drop k (c # cs)))"
  by (simp_all add: runes.simps [of "[]"] runes.simps [of "c # cs"] decode_rune_def Let_def)

lemma rune_len_ascii: "byte c < 128 \<Longrightarrow> rune_len (c # s) = 1"
  by simp

lemma runes_ascii: "list_all (\<lambda>c. byte c < 128) s \<Longrightarrow> runes s = map byte s"
proof (induction s)
  case Nil
  show ?case by (simp add: runes.simps [of "[]"])
next
  case (Cons c s)
  then have "rune_len (c # s) = 1" by (simp add: rune_len_ascii)
  with Cons show ?case by (simp add: runes.simps [of "c # s"] decode_rune_def)
qed

lemma valid_utf8_ascii: "list_all (\<lambda>c. byte c < 128) s \<Longrightarrow> valid_utf8 s"
proof (induction s)
  case Nil
  show ?case by (simp add: valid_utf8.simps [of "[]"])
next
  case (Cons c s)
  then have "rune_len (c # s) = 1" by (simp add: rune_len_ascii)
  with Cons show ?case by (simp add: valid_utf8.simps [of "c # s"])
qed

section \<open>Numbers\<close>

datatype f64 = Fin int int | PosInf | NegInf | NaN

function strip_zeros :: "int \<Rightarrow> int \<Rightarrow> int \<times> int" where
  "strip_zeros m e = (if m \<noteq> 0 \<and> m mod 10 = 0 then strip_zeros (m div 10) (e + 1) else (m, e))"
  by pat_completeness auto
termination
  by (relation "measure (\<lambda>(m, e). nat \<bar>m\<bar>)") auto

declare strip_zeros.simps [simp del]

definition dec :: "int \<Rightarrow> int \<Rightarrow> f64" where
  "dec m e = (if m = 0 then Fin 0 0 else (case strip_zeros m e of (m', e') \<Rightarrow> Fin m' e'))"

definition f64_of_int :: "int \<Rightarrow> f64" where
  "f64_of_int i = dec i 0"

text \<open>\<open>%v\<close> of a float64: \<open>%g\<close> with the shortest digits; exponent form from 10 to the 6th on.\<close>

definition exp_str :: "int \<Rightarrow> string" where
  "exp_str x = (if x < 0 then ''-'' else ''+'') @
     (if \<bar>x\<bar> < 10 then ''0'' else []) @ nat_str (nat \<bar>x\<bar>)"

definition fmt_e :: "string \<Rightarrow> int \<Rightarrow> string" where
  "fmt_e ds x = take 1 ds @ (if length ds > 1 then CHR ''.'' # drop 1 ds else []) @ ''e'' @ exp_str x"

definition fmt_f :: "string \<Rightarrow> int \<Rightarrow> string" where
  "fmt_f ds dp =
     (let n = length ds in
      if dp \<le> 0 then ''0.'' @ replicate (nat (- dp)) (CHR ''0'') @ ds
      else if dp \<ge> int n then ds @ replicate (nat dp - n) (CHR ''0'')
      else take (nat dp) ds @ ''.'' @ drop (nat dp) ds)"

fun fmt_g :: "f64 \<Rightarrow> string" where
  "fmt_g (Fin m e) =
     (if m = 0 then ''0''
      else let ds = nat_str (nat \<bar>m\<bar>); dp = int (length ds) + e
        in (if m < 0 then ''-'' else []) @
           (if dp - 1 < -4 \<or> dp - 1 \<ge> 6 then fmt_e ds (dp - 1) else fmt_f ds dp))"
| "fmt_g PosInf = ''+Inf''"
| "fmt_g NegInf = ''-Inf''"
| "fmt_g NaN = ''NaN''"

text \<open>\<open>encoding/json\<close> writes a float64 without an exponent between 1e-6 and 1e21.\<close>

fun json_float :: "f64 \<Rightarrow> string option" where
  "json_float (Fin m e) =
     (if m = 0 then Some ''0''
      else let ds = nat_str (nat \<bar>m\<bar>); dp = int (length ds) + e; x = dp - 1
        in Some ((if m < 0 then ''-'' else []) @
           (if x < -6 \<or> x \<ge> 21
            then take 1 ds @ (if length ds > 1 then CHR ''.'' # drop 1 ds else []) @ ''e'' @
                 (if x < 0 then ''-'' @ nat_str (nat (- x)) else exp_str x)
            else fmt_f ds dp)))"
| "json_float _ = None"

text \<open>
  \<open>int(x)\<close> of a finite float64 truncates towards zero (Go leaves the result out of range to
  the implementation; there it is wrapped here).
\<close>

fun f64_trunc :: "f64 \<Rightarrow> int" where
  "f64_trunc (Fin m e) =
     (if e \<ge> 0 then wrap64 (m * 10 ^ nat e) else wrap64 (go_div m (10 ^ nat (- e))))"
| "f64_trunc _ = min_int64"

fun f64_integral :: "f64 \<Rightarrow> bool" where
  "f64_integral (Fin m e) \<longleftrightarrow> m = 0 \<or> e \<ge> 0"
| "f64_integral _ = False"

fun f64_less :: "f64 \<Rightarrow> f64 \<Rightarrow> bool" where
  "f64_less (Fin m e) (Fin n f) =
     (let k = min e f in m * 10 ^ nat (e - k) < n * 10 ^ nat (f - k))"
| "f64_less NegInf (Fin _ _) = True"
| "f64_less NegInf PosInf = True"
| "f64_less (Fin _ _) PosInf = True"
| "f64_less _ _ = False"

section \<open>Values\<close>

text \<open>
  The dynamic types a value of type \<open>any\<close> takes in the modelled code: what \<open>json.Unmarshal\<close>
  makes (nil, bool, float64, string, \<open>[]any\<close>, \<open>map[string]any\<close>) and the Go-made ones it is
  mixed with (int, \<open>json.Number\<close>, \<open>[]string\<close>).
\<close>

datatype val = VNil | VBool bool | VInt int | VFloat f64 | VNum string | VStr string
  | VStrs "string list" | VArr "val list" | VObj "(string \<times> val) list"

type_synonym obj = "(string \<times> val) list"

definition at :: "obj \<Rightarrow> string \<Rightarrow> val" where
  "at m k = get_or VNil m k"

lemma at_put [simp]: "at (put k v m) k' = (if k = k' then v else at m k')"
  by (simp add: at_def get_or_put)

lemma at_Nil [simp]: "at [] k = VNil"
  by (simp add: at_def get_or_def)

lemma size_snd_mem: "(k, v) \<in> set kvs \<Longrightarrow> size v < Suc (size_list (size_prod (\<lambda>_. 0) size) kvs)"
  by (induction kvs) auto

fun sprint :: "val \<Rightarrow> string" where
  "sprint VNil = ''<nil>''"
| "sprint (VBool b) = (if b then ''true'' else ''false'')"
| "sprint (VInt i) = itoa i"
| "sprint (VFloat f) = fmt_g f"
| "sprint (VNum s) = s"
| "sprint (VStr s) = s"
| "sprint (VStrs ss) = ''['' @ join '' '' ss @ '']''"
| "sprint (VArr vs) = ''['' @ join '' '' (map sprint vs) @ '']''"
| "sprint (VObj kvs) = ''map['' @
     join '' '' (map (\<lambda>(k, s). k @ '':'' @ s)
       (sort_key fst (map (\<lambda>kv. (fst kv, sprint (snd kv))) kvs))) @ '']''"

text \<open>\<open>strings.TrimSpace(fmt.Sprint(v))\<close> with \<open><nil>\<close> read as empty, a helper of many providers.\<close>

definition clean :: "val \<Rightarrow> string" where
  "clean v = (let s = trim_space (sprint v) in if s = ''<nil>'' then [] else s)"

lemma clean_VNil [simp]: "clean VNil = []"
  by code_simp

lemma trim_clean [simp]: "trim_space (clean v) = clean v"
  by (simp add: clean_def Let_def)

fun as_str :: "val \<Rightarrow> string option" where
  "as_str (VStr s) = Some s"
| "as_str _ = None"

fun as_obj :: "val \<Rightarrow> obj" where
  "as_obj (VObj m) = m"
| "as_obj _ = []"

fun as_arr :: "val \<Rightarrow> val list" where
  "as_arr (VArr vs) = vs"
| "as_arr _ = []"

fun is_obj :: "val \<Rightarrow> bool" where
  "is_obj (VObj _) = True"
| "is_obj _ = False"

section \<open>JSON text\<close>

datatype json = JNull | JBool bool | JNum string | JStr string | JArr "json list"
  | JObj "(string \<times> json) list"

definition hex_digit :: "nat \<Rightarrow> char" where
  "hex_digit n = (if n < 10 then char_of (48 + n) else char_of (87 + n))"

definition hex_val :: "char \<Rightarrow> nat option" where
  "hex_val c = (let b = byte c in
     if 48 \<le> b \<and> b \<le> 57 then Some (b - 48)
     else if 97 \<le> b \<and> b \<le> 102 then Some (b - 87)
     else if 65 \<le> b \<and> b \<le> 70 then Some (b - 55) else None)"

subsection \<open>Printing (\<open>json.Marshal\<close>)\<close>

definition esc_byte :: "char \<Rightarrow> string" where
  "esc_byte c = (let b = byte c in
     if b = 34 \<or> b = 92 then [CHR 0x5C, c]
     else if b = 8 then [CHR 0x5C, CHR ''b'']
     else if b = 12 then [CHR 0x5C, CHR ''f'']
     else if b = 10 then [CHR 0x5C, CHR ''n'']
     else if b = 13 then [CHR 0x5C, CHR ''r'']
     else if b = 9 then [CHR 0x5C, CHR ''t'']
     else if b < 32 \<or> b = 60 \<or> b = 62 \<or> b = 38
     then [CHR 0x5C, CHR ''u'', CHR ''0'', CHR ''0'', hex_digit (b div 16), hex_digit (b mod 16)]
     else [c])"

function esc_str :: "string \<Rightarrow> string" where
  "esc_str s =
     (if s = [] then []
      else let k = rune_len s in
        if k = 0 then CHR 0x5C # ''ufffd'' @ esc_str (tl s)
        else if k = 1 then esc_byte (hd s) @ esc_str (drop 1 s)
        else if take k s = [CHR 0xE2, CHR 0x80, CHR 0xA8]
        then CHR 0x5C # ''u2028'' @ esc_str (drop k s)
        else if take k s = [CHR 0xE2, CHR 0x80, CHR 0xA9]
        then CHR 0x5C # ''u2029'' @ esc_str (drop k s)
        else take k s @ esc_str (drop k s))"
  by pat_completeness auto
termination
  by (relation "measure length") auto

declare esc_str.simps [simp del]

definition quote_str :: "string \<Rightarrow> string" where
  "quote_str s = CHR 0x22 # esc_str s @ [CHR 0x22]"

definition all_some :: "'a option list \<Rightarrow> 'a list option" where
  "all_some xs = (if None \<in> set xs then None else Some (map the xs))"

fun marshal :: "val \<Rightarrow> string option" where
  "marshal VNil = Some ''null''"
| "marshal (VBool b) = Some (if b then ''true'' else ''false'')"
| "marshal (VInt i) = Some (itoa i)"
| "marshal (VFloat f) = json_float f"
| "marshal (VNum s) = Some s"
| "marshal (VStr s) = Some (quote_str s)"
| "marshal (VStrs ss) = Some (''['' @ join '','' (map quote_str ss) @ '']'')"
| "marshal (VArr vs) =
     (case all_some (map marshal vs) of None \<Rightarrow> None
      | Some ss \<Rightarrow> Some (''['' @ join '','' ss @ '']''))"
| "marshal (VObj kvs) =
     (case all_some (map (\<lambda>kv. map_option (\<lambda>s. (fst kv, s)) (marshal (snd kv))) kvs) of
        None \<Rightarrow> None
      | Some es \<Rightarrow> Some (''{'' @
          join '','' (map (\<lambda>(k, s). quote_str k @ '':'' @ s) (sort_key fst es)) @ ''}''))"

text \<open>Without an infinite or undefined number every value has a JSON text.\<close>

fun finite_val :: "val \<Rightarrow> bool" where
  "finite_val (VFloat (Fin m e)) = True"
| "finite_val (VFloat _) = False"
| "finite_val (VArr vs) = list_all finite_val vs"
| "finite_val (VObj kvs) = list_all (\<lambda>kv. finite_val (snd kv)) kvs"
| "finite_val _ = True"

lemma all_some_Some: "list_all (\<lambda>x. x \<noteq> None) xs \<Longrightarrow> all_some xs = Some (map the xs)"
  by (auto simp: all_some_def list_all_iff)

lemma marshal_total: "finite_val v \<Longrightarrow> marshal v \<noteq> None"
proof (induction v rule: marshal.induct)
  case (4 f)
  then show ?case by (cases f) (simp_all add: Let_def)
next
  case (8 vs)
  then have "all_some (map marshal vs) = Some (map the (map marshal vs))"
    by (intro all_some_Some) (auto simp: list_all_iff)
  then show ?case by simp
next
  case (9 kvs)
  let ?f = "\<lambda>kv. map_option (\<lambda>s. (fst kv, s)) (marshal (snd kv))"
  from 9 have "all_some (map ?f kvs) = Some (map the (map ?f kvs))"
    by (intro all_some_Some) (auto simp: list_all_iff)
  then show ?case by simp
qed simp_all

subsection \<open>Reading (\<open>json.Unmarshal\<close>)\<close>

definition skip_ws :: "string \<Rightarrow> string" where
  "skip_ws s = dropWhile (\<lambda>c. byte c \<in> {32, 9, 10, 13}) s"

definition hex4 :: "string \<Rightarrow> nat option" where
  "hex4 s = (case map hex_val (take 4 s) of
     [Some a, Some b, Some c, Some d] \<Rightarrow> Some (((a * 16 + b) * 16 + c) * 16 + d)
   | _ \<Rightarrow> None)"

definition prepend :: "string \<Rightarrow> (string \<times> string) option \<Rightarrow> (string \<times> string) option" where
  "prepend p r = map_option (\<lambda>(s, rest). (p @ s, rest)) r"

definition simple_escape :: "char \<Rightarrow> char option" where
  "simple_escape e = map_of
     [(CHR 0x22, CHR 0x22), (CHR 0x5C, CHR 0x5C), (CHR ''/'', CHR ''/''), (CHR ''b'', CHR 0x08),
      (CHR ''f'', CHR 0x0C), (CHR ''n'', CHR 0x0A), (CHR ''r'', CHR 0x0D), (CHR ''t'', CHR 0x09)] e"

text \<open>The body of a string literal after its opening quote: the decoded text and the rest.\<close>

fun json_str :: "nat \<Rightarrow> string \<Rightarrow> (string \<times> string) option" where
  "json_str 0 s = None"
| "json_str (Suc n) [] = None"
| "json_str (Suc n) (c # cs) =
     (if c = CHR 0x22 then Some ([], cs)
      else if c = CHR 0x5C then
        (case cs of
           [] \<Rightarrow> None
         | e # r \<Rightarrow>
             if e = CHR ''u'' then
               (case hex4 r of
                  None \<Rightarrow> None
                | Some u \<Rightarrow>
                    let r1 = drop 4 r in
                    if 55296 \<le> u \<and> u < 56320 then
                      (case (if take 2 r1 = [CHR 0x5C, CHR ''u''] then hex4 (drop 2 r1) else None) of
                         Some v \<Rightarrow>
                           if 56320 \<le> v \<and> v < 57344
                           then prepend (encode_rune (65536 + (u - 55296) * 1024 + (v - 56320)))
                                  (json_str n (drop 6 r1))
                           else prepend rune_error (json_str n r1)
                       | None \<Rightarrow> prepend rune_error (json_str n r1))
                    else prepend (encode_rune u) (json_str n r1))
             else (case simple_escape e of
                     None \<Rightarrow> None
                   | Some d \<Rightarrow> prepend [d] (json_str n r)))
      else if byte c < 32 then None
      else let k = rune_len (c # cs) in
        if k = 0 then prepend rune_error (json_str n cs)
        else prepend (take k (c # cs)) (json_str n (drop k (c # cs))))"

text \<open>A number literal: optional sign, no leading zero, optional fraction and exponent.\<close>

definition span_digits :: "string \<Rightarrow> string \<times> string" where
  "span_digits s = (takeWhile is_digit s, dropWhile is_digit s)"

definition num_exponent :: "string \<Rightarrow> (string \<times> string) option" where
  "num_exponent s = (case s of
     e # r \<Rightarrow>
       if e = CHR ''e'' \<or> e = CHR ''E'' then
         let sg = take 1 r; sgn = (if sg = ''+'' \<or> sg = ''-'' then sg else []);
             r1 = drop (length sgn) r
         in (case span_digits r1 of
               (ds, rest) \<Rightarrow> if ds = [] then None else Some (e # sgn @ ds, rest))
       else Some ([], s)
   | [] \<Rightarrow> Some ([], []))"

definition num_fraction :: "string \<Rightarrow> (string \<times> string) option" where
  "num_fraction s = (case s of
     c # r \<Rightarrow> if c = CHR ''.'' then
         (case span_digits r of (ds, rest) \<Rightarrow> if ds = [] then None else Some (CHR ''.'' # ds, rest))
       else Some ([], s)
   | [] \<Rightarrow> Some ([], []))"

definition json_num :: "string \<Rightarrow> (string \<times> string) option" where
  "json_num s =
     (let sgn = (if take 1 s = ''-'' then ''-'' else []); r = drop (length sgn) s
      in (case span_digits r of
            (ds, r1) \<Rightarrow>
              if ds = [] then None
              else let (ds', r2) = (if hd ds = CHR ''0'' then (''0'', tl ds @ r1) else (ds, r1))
                in (case num_fraction r2 of
                      None \<Rightarrow> None
                    | Some (fr, r3) \<Rightarrow>
                        (case num_exponent r3 of
                           None \<Rightarrow> None
                         | Some (ex, r4) \<Rightarrow> Some (sgn @ ds' @ fr @ ex, r4)))))"

fun json_val :: "nat \<Rightarrow> string \<Rightarrow> (json \<times> string) option"
and json_elems :: "nat \<Rightarrow> string \<Rightarrow> (json list \<times> string) option"
and json_members :: "nat \<Rightarrow> string \<Rightarrow> ((string \<times> json) list \<times> string) option" where
  "json_val 0 s = None"
| "json_val (Suc n) s =
     (case s of
        [] \<Rightarrow> None
      | c # r \<Rightarrow>
          if c = CHR ''{'' then
            (let r1 = skip_ws r in
             if take 1 r1 = ''}'' then Some (JObj [], drop 1 r1)
             else map_option (\<lambda>(ms, t). (JObj ms, t)) (json_members n r1))
          else if c = CHR ''['' then
            (let r1 = skip_ws r in
             if take 1 r1 = '']'' then Some (JArr [], drop 1 r1)
             else map_option (\<lambda>(es, t). (JArr es, t)) (json_elems n r1))
          else if c = CHR 0x22 then map_option (\<lambda>(x, t). (JStr x, t)) (json_str n r)
          else if has_prefix s ''true'' then Some (JBool True, drop 4 s)
          else if has_prefix s ''false'' then Some (JBool False, drop 5 s)
          else if has_prefix s ''null'' then Some (JNull, drop 4 s)
          else map_option (\<lambda>(x, t). (JNum x, t)) (json_num s))"
| "json_elems 0 s = None"
| "json_elems (Suc n) s =
     (case json_val n s of
        None \<Rightarrow> None
      | Some (v, t) \<Rightarrow>
          (case skip_ws t of
             [] \<Rightarrow> None
           | c # r \<Rightarrow>
               if c = CHR '','' then map_option (\<lambda>(vs, u). (v # vs, u)) (json_elems n (skip_ws r))
               else if c = CHR '']'' then Some ([v], r) else None))"
| "json_members 0 s = None"
| "json_members (Suc n) s =
     (case s of
        [] \<Rightarrow> None
      | q # r0 \<Rightarrow>
          if q \<noteq> CHR 0x22 then None
          else (case json_str n r0 of
             None \<Rightarrow> None
           | Some (k, r1) \<Rightarrow>
               (case skip_ws r1 of
                  [] \<Rightarrow> None
                | c # r2 \<Rightarrow>
                    if c \<noteq> CHR '':'' then None
                    else (case json_val n (skip_ws r2) of
                       None \<Rightarrow> None
                     | Some (v, t) \<Rightarrow>
                         (case skip_ws t of
                            [] \<Rightarrow> None
                          | d # r3 \<Rightarrow>
                              if d = CHR '',''
                              then map_option (\<lambda>(ms, u). ((k, v) # ms, u))
                                     (json_members n (skip_ws r3))
                              else if d = CHR ''}'' then Some ([(k, v)], r3) else None)))))"

definition json_parse :: "string \<Rightarrow> json option" where
  "json_parse s = (case json_val (2 * length s + 2) (skip_ws s) of
     Some (v, t) \<Rightarrow> if skip_ws t = [] then Some v else None
   | None \<Rightarrow> None)"

text \<open>The float64 of a literal; a magnitude beyond the largest float64 is an error.\<close>

definition literal_f64 :: "string \<Rightarrow> f64 option" where
  "literal_f64 s =
     (let neg = (take 1 s = ''-''); r = (if neg then drop 1 s else s);
          (ds, r1) = span_digits r;
          (fs, r2) = (if take 1 r1 = ''.'' then span_digits (drop 1 r1) else ([], r1));
          m = int (nat_of_digits 0 (ds @ fs));
          x = (if r2 = [] then 0 else fst (parse_int64 (drop 1 r2)));
          e = x - int (length fs)
      in if m = 0 then Some (Fin 0 0)
         else if int (length (nat_str (nat m))) + e > 309 then None
         else if int (length (nat_str (nat m))) + e = 309
           \<and> f64_less (dec 17976931348623157 292) (dec m e) then None
         else Some (dec (if neg then - m else m) e))"

fun val_of_json :: "json \<Rightarrow> val option" where
  "val_of_json JNull = Some VNil"
| "val_of_json (JBool b) = Some (VBool b)"
| "val_of_json (JNum s) = map_option VFloat (literal_f64 s)"
| "val_of_json (JStr s) = Some (VStr s)"
| "val_of_json (JArr vs) = map_option VArr (all_some (map val_of_json vs))"
| "val_of_json (JObj kvs) =
     map_option (\<lambda>es. VObj (AList.clearjunk (rev es)))
       (all_some (map (\<lambda>kv. map_option (\<lambda>v. (fst kv, v)) (val_of_json (snd kv))) kvs))"

text \<open>\<open>json.Unmarshal(body, &m)\<close> into a \<open>map[string]any\<close>; \<open>null\<close> leaves a nil map.\<close>

definition unmarshal_map :: "string \<Rightarrow> obj option" where
  "unmarshal_map body = (case json_parse body of
     None \<Rightarrow> None
   | Some j \<Rightarrow> (case val_of_json j of
        Some (VObj m) \<Rightarrow> Some m
      | Some VNil \<Rightarrow> Some []
      | _ \<Rightarrow> None))"

text \<open>
  Decoding into a struct: a member sets the field whose name it equals up to case; \<open>null\<close>
  leaves the field alone; a later member overrides an earlier one; a member of the wrong type
  is an error (\<open>None\<close>).
\<close>

fun json_members_of :: "json \<Rightarrow> (string \<times> json) list option" where
  "json_members_of (JObj kvs) = Some kvs"
| "json_members_of JNull = Some []"
| "json_members_of _ = None"

definition field_vals :: "string \<Rightarrow> (string \<times> json) list \<Rightarrow> json list" where
  "field_vals k kvs = filter (\<lambda>v. v \<noteq> JNull) (map snd (filter (\<lambda>kv. equal_fold (fst kv) k) kvs))"

fun last_str :: "string \<Rightarrow> json list \<Rightarrow> string option" where
  "last_str acc [] = Some acc"
| "last_str acc (JStr s # vs) = last_str s vs"
| "last_str acc (_ # vs) = None"

definition field_str :: "string \<Rightarrow> (string \<times> json) list \<Rightarrow> string option" where
  "field_str k kvs = last_str [] (field_vals k kvs)"

text \<open>The members of a nested struct, from every occurrence of its field.\<close>

fun nested_members :: "json list \<Rightarrow> (string \<times> json) list option" where
  "nested_members [] = Some []"
| "nested_members (JObj kvs # vs) = map_option ((@) kvs) (nested_members vs)"
| "nested_members (_ # vs) = None"

fun last_int :: "int \<Rightarrow> json list \<Rightarrow> int option" where
  "last_int acc [] = Some acc"
| "last_int acc (JNum s # vs) = (case atoi s of None \<Rightarrow> None | Some i \<Rightarrow> last_int i vs)"
| "last_int acc (_ # vs) = None"

definition field_int :: "string \<Rightarrow> (string \<times> json) list \<Rightarrow> int option" where
  "field_int k kvs = last_int 0 (field_vals k kvs)"

end
