(* ===== verification/GoUrl.thy ===== *)
theory GoUrl
  imports GoBase
begin

text \<open>
  The parts of \<^verbatim>\<open>net/url\<close> the connectors use: escaping, \<open>Parse\<close>, \<open>URL.String\<close> and query
  values. The rules are those of Go 1.26 (bracketed hosts must hold an IPv6 address, a host has
  at most one colon outside brackets unless the scheme is postgres). \<open>Query\<close> reads any number
  of parameters.
\<close>

section \<open>Escaping\<close>

datatype mode = EncPath | EncSegment | EncHost | EncZone | EncUser | EncQuery | EncFragment

definition is_alnum :: "char \<Rightarrow> bool" where
  "is_alnum c = (let b = (of_char c :: nat) in
     48 \<le> b \<and> b \<le> 57 \<or> 65 \<le> b \<and> b \<le> 90 \<or> 97 \<le> b \<and> b \<le> 122)"

definition should_escape :: "char \<Rightarrow> mode \<Rightarrow> bool" where
  "should_escape c md =
     (if is_alnum c then False
      else if (md = EncHost \<or> md = EncZone) \<and>
              c \<in> set (CHR 0x27 # CHR 0x22 # ''!$&()*+,;=:[]<>'') then False
      else if c \<in> set ''-_.~'' then False
      else if c \<in> set ''$&+,/:;=?@'' then
        (case md of
           EncPath \<Rightarrow> c = CHR ''?''
         | EncSegment \<Rightarrow> c \<in> set ''/;,?''
         | EncUser \<Rightarrow> c \<in> set ''@/?:''
         | EncQuery \<Rightarrow> True
         | EncFragment \<Rightarrow> False
         | _ \<Rightarrow> True)
      else \<not> (md = EncFragment \<and> c \<in> set ''!()*''))"

definition upper_hex :: "nat \<Rightarrow> char" where
  "upper_hex n = (if n < 10 then char_of (48 + n) else char_of (55 + n))"

definition unhex :: "char \<Rightarrow> nat option" where
  "unhex c = (let b = (of_char c :: nat) in
     if 48 \<le> b \<and> b \<le> 57 then Some (b - 48)
     else if 97 \<le> b \<and> b \<le> 102 then Some (b - 87)
     else if 65 \<le> b \<and> b \<le> 70 then Some (b - 55) else None)"

definition escape_char :: "mode \<Rightarrow> char \<Rightarrow> string" where
  "escape_char md c =
     (if c = CHR '' '' \<and> md = EncQuery then ''+''
      else if should_escape c md
      then [CHR ''%'', upper_hex (of_char c div 16), upper_hex (of_char c mod 16)]
      else [c])"

definition escape :: "mode \<Rightarrow> string \<Rightarrow> string" where
  "escape md s = concat (map (escape_char md) s)"

abbreviation query_escape :: "string \<Rightarrow> string" where
  "query_escape \<equiv> escape EncQuery"

abbreviation path_escape :: "string \<Rightarrow> string" where
  "path_escape \<equiv> escape EncSegment"

text \<open>A rejected escape or host character makes \<open>unescape\<close> fail (\<open>None\<close>).\<close>

definition bad_escape :: "mode \<Rightarrow> nat \<Rightarrow> nat \<Rightarrow> bool" where
  "bad_escape md h l \<longleftrightarrow>
     (md = EncHost \<and> h < 8 \<and> \<not> (h = 2 \<and> l = 5)) \<or>
     (md = EncZone \<and> \<not> (h = 2 \<and> l = 5) \<and> h * 16 + l \<noteq> 32
        \<and> should_escape (char_of (h * 16 + l)) EncHost)"

fun unescape :: "mode \<Rightarrow> string \<Rightarrow> string option" where
  "unescape md [] = Some []"
| "unescape md (c # cs) =
     (if c = CHR ''%'' then
        (case cs of
           h # l # rest \<Rightarrow>
             (case (unhex h, unhex l) of
                (Some x, Some y) \<Rightarrow>
                  if bad_escape md x y then None
                  else map_option (\<lambda>s. char_of (x * 16 + y) # s) (unescape md rest)
              | _ \<Rightarrow> None)
         | _ \<Rightarrow> None)
      else if c = CHR ''+'' \<and> md = EncQuery
      then map_option (\<lambda>s. CHR '' '' # s) (unescape md cs)
      else if (md = EncHost \<or> md = EncZone) \<and> (of_char c :: nat) < 128 \<and> should_escape c md
      then None
      else map_option (\<lambda>s. c # s) (unescape md cs))"

lemma unhex_upper_hex [simp]: "n < 16 \<Longrightarrow> unhex (upper_hex n) = Some n"
  by (auto simp: upper_hex_def unhex_def Let_def)

lemma of_char_bound: "(of_char c :: nat) < 256"
  by (metis of_char_mod_256 mod_less_divisor zero_less_numeral)

text \<open>Escaping is injective: reading an escaped text back gives the text.\<close>

lemma unescape_escape_char:
  assumes "md \<noteq> EncHost" "md \<noteq> EncZone"
  shows "unescape md (escape_char md c @ s) = map_option (\<lambda>t. c # t) (unescape md s)"
proof -
  have b: "(of_char c :: nat) div 16 < 16"
    by (rule less_mult_imp_div_less) (use of_char_bound [of c] in simp)
  have w: "(of_char c :: nat) div 16 * 16 + of_char c mod 16 = of_char c" by simp
  consider (plus) "c = CHR '' ''" "md = EncQuery"
    | (esc) "\<not> (c = CHR '' '' \<and> md = EncQuery)" "should_escape c md"
    | (lit) "\<not> (c = CHR '' '' \<and> md = EncQuery)" "\<not> should_escape c md"
    by blast
  then show ?thesis
  proof cases
    case plus
    then show ?thesis by (simp add: escape_char_def)
  next
    case esc
    then have "escape_char md c
        = [CHR ''%'', upper_hex (of_char c div 16), upper_hex (of_char c mod 16)]"
      by (simp only: escape_char_def if_False if_True)
    with assms b w show ?thesis by (simp add: bad_escape_def)
  next
    case lit
    moreover have "should_escape (CHR ''%'') md"
      by (cases md) (simp_all add: should_escape_def is_alnum_def)
    moreover have "should_escape (CHR ''+'') EncQuery"
      by (simp add: should_escape_def is_alnum_def)
    ultimately show ?thesis using assms
      by (auto simp: escape_char_def simp del: char_of_char)
  qed
qed

lemma unescape_escape: "md \<noteq> EncHost \<Longrightarrow> md \<noteq> EncZone \<Longrightarrow> unescape md (escape md s) = Some s"
  by (induction s) (simp_all add: escape_def unescape_escape_char)

section \<open>URL\<close>

record url =
  scheme :: string
  opaque :: string
  user :: "(string \<times> string option) option"
  host :: string
  path :: string
  raw_path :: string
  omit_host :: bool
  force_query :: bool
  raw_query :: string
  fragment :: string
  raw_fragment :: string

definition empty_url :: url where
  "empty_url = \<lparr>scheme = [], opaque = [], user = None, host = [], path = [], raw_path = [],
     omit_host = False, force_query = False, raw_query = [], fragment = [], raw_fragment = []\<rparr>"

text \<open>\<open>strings.Cut\<close>, and the split at the last occurrence of a byte.\<close>

definition cut :: "char \<Rightarrow> string \<Rightarrow> string \<times> string" where
  "cut c s = (takeWhile ((\<noteq>) c) s, drop 1 (dropWhile ((\<noteq>) c) s))"

definition cut_last :: "char \<Rightarrow> string \<Rightarrow> (string \<times> string) option" where
  "cut_last c s = (if c \<in> set s
     then Some (rev (drop 1 (dropWhile ((\<noteq>) c) (rev s))), rev (takeWhile ((\<noteq>) c) (rev s)))
     else None)"

definition is_alpha :: "char \<Rightarrow> bool" where
  "is_alpha c = (let b = (of_char c :: nat) in 65 \<le> b \<and> b \<le> 90 \<or> 97 \<le> b \<and> b \<le> 122)"

definition get_scheme :: "string \<Rightarrow> (string \<times> string) option" where
  "get_scheme s =
     (case dropWhile (\<lambda>c. is_alnum c \<or> c \<in> set ''+-.'') s of
        c # rest \<Rightarrow>
          if c = CHR '':'' then
            (let sch = takeWhile (\<lambda>c. is_alnum c \<or> c \<in> set ''+-.'') s in
             if sch = [] then None
             else if is_alpha (hd sch) then Some (sch, rest) else Some ([], s))
          else Some ([], s)
      | [] \<Rightarrow> Some ([], s))"

definition valid_port :: "string \<Rightarrow> bool" where
  "valid_port s \<longleftrightarrow> (case s of [] \<Rightarrow> True | c # ds \<Rightarrow> c = CHR '':'' \<and> list_all is_digit ds)"

text \<open>IPv6 addresses as \<^verbatim>\<open>netip.ParseAddr\<close> reads them, without their zone.\<close>

definition is_hex_group :: "string \<Rightarrow> bool" where
  "is_hex_group g \<longleftrightarrow> 1 \<le> length g \<and> length g \<le> 4 \<and> list_all (\<lambda>c. unhex c \<noteq> None) g"

definition is_ipv4 :: "string \<Rightarrow> bool" where
  "is_ipv4 s \<longleftrightarrow> (let ps = split_on (CHR ''.'') s in length ps = 4 \<and>
     list_all (\<lambda>p. p \<noteq> [] \<and> length p \<le> 3 \<and> list_all is_digit p \<and> nat_of_digits 0 p \<le> 255
       \<and> (length p > 1 \<longrightarrow> hd p \<noteq> CHR ''0'')) ps)"

text \<open>The number of 16-bit groups that a run of groups stands for; a dotted tail counts two.\<close>

fun ip6_groups :: "string list \<Rightarrow> nat option" where
  "ip6_groups [] = Some 0"
| "ip6_groups (g # gs) =
     (if is_hex_group g then map_option Suc (ip6_groups gs)
      else if gs = [] \<and> is_ipv4 g then Some 2 else None)"

definition split_run :: "string \<Rightarrow> string list" where
  "split_run s = (if s = [] then [] else split_on (CHR '':'') s)"

fun find_ellipsis :: "string \<Rightarrow> (string \<times> string) option" where
  "find_ellipsis (a # b # s) =
     (if a = CHR '':'' \<and> b = CHR '':'' then Some ([], s)
      else map_option (\<lambda>(p, q). (a # p, q)) (find_ellipsis (b # s)))"
| "find_ellipsis _ = None"

definition is_ipv6 :: "string \<Rightarrow> bool" where
  "is_ipv6 s \<longleftrightarrow>
     (case find_ellipsis s of
        None \<Rightarrow> CHR '':'' \<in> set s \<and> ip6_groups (split_run s) = Some 8
      | Some (p, q) \<Rightarrow>
          (case (ip6_groups (split_run p), ip6_groups (split_run q)) of
             (Some m, Some n) \<Rightarrow> m + n < 8 \<and> \<not> list_ex (\<lambda>g. CHR ''.'' \<in> set g) (split_run p)
           | _ \<Rightarrow> False))"

definition is_ip_literal :: "string \<Rightarrow> bool" where
  "is_ip_literal s \<longleftrightarrow> (if CHR ''%'' \<in> set s
     then (case cut (CHR ''%'') s of (a, z) \<Rightarrow> is_ipv6 a \<and> z \<noteq> []) else is_ipv6 s)"

fun index_of :: "string \<Rightarrow> string \<Rightarrow> nat option" where
  "index_of p [] = (if p = [] then Some 0 else None)"
| "index_of p (c # cs) =
     (if prefix p (c # cs) then Some 0 else map_option Suc (index_of p cs))"

definition unescape_literal :: "string \<Rightarrow> string option" where
  "unescape_literal h = (case index_of ''%25'' h of
     None \<Rightarrow> unescape EncHost h
   | Some i \<Rightarrow> (case (unescape EncHost (take i h), unescape EncZone (drop i h)) of
        (Some a, Some z) \<Rightarrow> Some (a @ z) | _ \<Rightarrow> None))"

definition parse_host :: "string \<Rightarrow> string \<Rightarrow> string option" where
  "parse_host sch h =
     (case cut_last (CHR ''['') h of
        Some (pre, rest) \<Rightarrow>
          if pre \<noteq> [] then None
          else (case cut_last (CHR '']'') rest of
            None \<Rightarrow> None
          | Some (lit, port) \<Rightarrow>
              if \<not> valid_port port then None
              else (case unescape_literal lit of
                None \<Rightarrow> None
              | Some a \<Rightarrow> if is_ip_literal a then Some (''['' @ a @ '']'' @ port) else None))
      | None \<Rightarrow>
          if CHR '':'' \<in> set h \<and>
             \<not> valid_port (if sch = ''postgres'' \<or> sch = ''postgresql''
                            then CHR '':'' # rev (takeWhile ((\<noteq>) (CHR '':'')) (rev h))
                            else dropWhile ((\<noteq>) (CHR '':'')) h)
          then None
          else unescape EncHost h)"

definition valid_userinfo :: "string \<Rightarrow> bool" where
  "valid_userinfo s \<longleftrightarrow>
     list_all (\<lambda>c. is_alnum c \<or> c = CHR 0x27 \<or> c \<in> set ''-._:~!$&()*+,;=%@'') s"

definition parse_user :: "string \<Rightarrow> (string \<times> string option) option" where
  "parse_user s =
     (if \<not> valid_userinfo s then None
      else if CHR '':'' \<notin> set s then map_option (\<lambda>u. (u, None)) (unescape EncUser s)
      else (case cut (CHR '':'') s of
        (a, b) \<Rightarrow> (case (unescape EncUser a, unescape EncUser b) of
           (Some u, Some p) \<Rightarrow> Some (u, Some p) | _ \<Rightarrow> None)))"

definition parse_authority ::
  "string \<Rightarrow> string \<Rightarrow> ((string \<times> string option) option \<times> string) option" where
  "parse_authority sch a =
     (case cut_last (CHR ''@'') a of
        None \<Rightarrow> map_option (\<lambda>h. (None, h)) (parse_host sch a)
      | Some (info, hs) \<Rightarrow>
          (case parse_host sch hs of
             None \<Rightarrow> None
           | Some h \<Rightarrow> map_option (\<lambda>u. (Some u, h)) (parse_user info)))"

definition set_path :: "string \<Rightarrow> url \<Rightarrow> url option" where
  "set_path p u = (case unescape EncPath p of
     None \<Rightarrow> None
   | Some q \<Rightarrow> Some (u\<lparr>path := q, raw_path := (if p = escape EncPath q then [] else p)\<rparr>))"

definition set_fragment :: "string \<Rightarrow> url \<Rightarrow> url option" where
  "set_fragment f u = (case unescape EncFragment f of
     None \<Rightarrow> None
   | Some g \<Rightarrow> Some (u\<lparr>fragment := g,
       raw_fragment := (if f = escape EncFragment g then [] else f)\<rparr>))"

definition split_query :: "string \<Rightarrow> url \<Rightarrow> string \<times> url" where
  "split_query rest u =
     (if has_suffix rest ''?'' \<and> CHR ''?'' \<notin> set (butlast rest)
      then (butlast rest, u\<lparr>force_query := True\<rparr>)
      else (case cut (CHR ''?'') rest of (r, q) \<Rightarrow> (r, u\<lparr>raw_query := q\<rparr>)))"

definition parse_rest :: "string \<Rightarrow> url \<Rightarrow> url option" where
  "parse_rest rest u =
     (if \<not> has_prefix rest ''/'' \<and> scheme u \<noteq> [] then Some (u\<lparr>opaque := rest\<rparr>)
      else if \<not> has_prefix rest ''/'' \<and> CHR '':'' \<in> set (fst (cut (CHR ''/'') rest)) then None
      else if (scheme u \<noteq> [] \<or> \<not> has_prefix rest ''///'') \<and> has_prefix rest ''//'' then
        (let a = takeWhile ((\<noteq>) (CHR ''/'')) (drop 2 rest);
             p = dropWhile ((\<noteq>) (CHR ''/'')) (drop 2 rest)
         in (case parse_authority (scheme u) a of
               None \<Rightarrow> None
             | Some (us, h) \<Rightarrow> set_path p (u\<lparr>user := us, host := h\<rparr>)))
      else set_path rest (u\<lparr>omit_host := (scheme u \<noteq> [] \<and> has_prefix rest ''/'')\<rparr>))"

definition url_parse :: "string \<Rightarrow> url option" where
  "url_parse raw =
     (case cut (CHR ''#'') raw of
        (s, frag) \<Rightarrow>
          if list_ex (\<lambda>c. (of_char c :: nat) < 32 \<or> (of_char c :: nat) = 127) s then None
          else (case
            (if s = ''*'' then Some (empty_url\<lparr>path := ''*''\<rparr>)
             else (case get_scheme s of
                     None \<Rightarrow> None
                   | Some (sch, rest) \<Rightarrow>
                       (case split_query rest (empty_url\<lparr>scheme := to_lower sch\<rparr>) of
                          (r, u) \<Rightarrow> parse_rest r u)))
            of None \<Rightarrow> None
             | Some u \<Rightarrow> if frag = [] then Some u else set_fragment frag u))"

section \<open>Accessors and printing\<close>

definition valid_encoded :: "mode \<Rightarrow> string \<Rightarrow> bool" where
  "valid_encoded md s \<longleftrightarrow>
     list_all (\<lambda>c. c = CHR 0x27 \<or> c \<in> set ''!$&()*+,;=:@[]%'' \<or> \<not> should_escape c md) s"

definition escaped_path :: "url \<Rightarrow> string" where
  "escaped_path u =
     (if raw_path u \<noteq> [] \<and> valid_encoded EncPath (raw_path u)
         \<and> unescape EncPath (raw_path u) = Some (path u) then raw_path u
      else if path u = ''*'' then ''*'' else escape EncPath (path u))"

definition escaped_fragment :: "url \<Rightarrow> string" where
  "escaped_fragment u =
     (if raw_fragment u \<noteq> [] \<and> valid_encoded EncFragment (raw_fragment u)
         \<and> unescape EncFragment (raw_fragment u) = Some (fragment u) then raw_fragment u
      else escape EncFragment (fragment u))"

fun user_string :: "string \<times> string option \<Rightarrow> string" where
  "user_string (u, None) = escape EncUser u"
| "user_string (u, Some p) = escape EncUser u @ '':'' @ escape EncUser p"

definition url_string :: "url \<Rightarrow> string" where
  "url_string u =
     (let sch = (if scheme u = [] then [] else scheme u @ '':'');
          auth = (if scheme u = [] \<and> host u = [] \<and> user u = None then []
                  else if omit_host u \<and> host u = [] \<and> user u = None then []
                  else (if host u \<noteq> [] \<or> path u \<noteq> [] \<or> user u \<noteq> None then ''//'' else []) @
                       (case user u of None \<Rightarrow> [] | Some i \<Rightarrow> user_string i @ ''@'') @
                       escape EncHost (host u));
          p = escaped_path u;
          slash = (if p \<noteq> [] \<and> \<not> has_prefix p ''/'' \<and> host u \<noteq> [] then ''/'' else []);
          dot = (if sch = [] \<and> auth = [] \<and> slash = [] \<and> CHR '':'' \<in> set (fst (cut (CHR ''/'') p))
                 then ''./'' else [])
      in sch @ (if opaque u \<noteq> [] then opaque u else auth @ slash @ dot @ p) @
         (if force_query u \<or> raw_query u \<noteq> [] then ''?'' @ raw_query u else []) @
         (if fragment u \<noteq> [] then ''#'' @ escaped_fragment u else []))"

definition strip_port :: "string \<Rightarrow> string" where
  "strip_port h = (case cut_last (CHR '':'') h of
     None \<Rightarrow> h
   | Some (a, p) \<Rightarrow> if list_all is_digit p then a else h)"

definition hostname :: "url \<Rightarrow> string" where
  "hostname u = (let h = strip_port (host u) in
     if has_prefix h ''['' \<and> has_suffix h '']'' then butlast (tl h) else h)"

definition request_uri :: "url \<Rightarrow> string" where
  "request_uri u =
     (let r = (if opaque u = [] then (if escaped_path u = [] then ''/'' else escaped_path u)
               else if has_prefix (opaque u) ''//'' then scheme u @ '':'' @ opaque u
               else opaque u)
      in r @ (if force_query u \<or> raw_query u \<noteq> [] then ''?'' @ raw_query u else []))"

section \<open>Query values\<close>

type_synonym url_values = "(string \<times> string list) list"

definition add_value :: "string \<Rightarrow> string \<Rightarrow> url_values \<Rightarrow> url_values" where
  "add_value k v q = put k (get_or [] q k @ [v]) q"

definition parse_pair :: "string \<Rightarrow> url_values \<Rightarrow> url_values" where
  "parse_pair p q =
     (if CHR '';'' \<in> set p \<or> p = [] then q
      else (case cut (CHR ''='') p of
        (k, v) \<Rightarrow> (case (unescape EncQuery k, unescape EncQuery v) of
           (Some k', Some v') \<Rightarrow> add_value k' v' q | _ \<Rightarrow> q)))"

definition parse_query :: "string \<Rightarrow> url_values" where
  "parse_query s = fold parse_pair (split_on (CHR ''&'') s) []"

text \<open>\<open>url.ParseQuery\<close>, which reports the first malformed pair where \<open>Query\<close> drops it.\<close>

definition pair_ok :: "string \<Rightarrow> bool" where
  "pair_ok p \<longleftrightarrow> p = [] \<or> CHR '';'' \<notin> set p \<and> (case cut (CHR ''='') p of
     (k, v) \<Rightarrow> unescape EncQuery k \<noteq> None \<and> unescape EncQuery v \<noteq> None)"

definition parse_query_strict :: "string \<Rightarrow> url_values option" where
  "parse_query_strict s =
     (if list_all pair_ok (split_on (CHR ''&'') s) then Some (parse_query s) else None)"

definition get_value :: "url_values \<Rightarrow> string \<Rightarrow> string" where
  "get_value q k = (case get_or [] q k of [] \<Rightarrow> [] | v # _ \<Rightarrow> v)"

definition encode_pair :: "string \<times> string list \<Rightarrow> string list" where
  "encode_pair kv = map (\<lambda>v. query_escape (fst kv) @ ''='' @ query_escape v) (snd kv)"

definition encode_values :: "url_values \<Rightarrow> string" where
  "encode_values q = join ''&'' (concat (map encode_pair (sort_key fst q)))"

lemma get_value_put [simp]:
  "get_value (put k vs q) k' = (if k = k' then (case vs of [] \<Rightarrow> [] | v # _ \<Rightarrow> v) else get_value q k')"
  by (simp add: get_value_def get_or_put)

text \<open>Reading an encoded query gives the values back.\<close>

lemma alnum_upper_hex: "n < 16 \<Longrightarrow> is_alnum (upper_hex n)"
  by (auto simp: is_alnum_def upper_hex_def Let_def)

lemma query_escape_chars:
  "c \<in> set (query_escape s) \<Longrightarrow> is_alnum c \<or> c \<in> set ''-_.~%+''"
proof (induction s)
  case Nil
  then show ?case by (simp add: escape_def)
next
  case (Cons x s)
  have b: "(of_char x :: nat) div 16 < 16"
    by (rule less_mult_imp_div_less) (use of_char_bound [of x] in simp)
  have "\<not> should_escape x EncQuery \<Longrightarrow> is_alnum x \<or> x \<in> set ''-_.~''"
    by (auto simp: should_escape_def split: if_splits)
  then have "c \<in> set (escape_char EncQuery x) \<Longrightarrow> is_alnum c \<or> c \<in> set ''-_.~%+''"
    using alnum_upper_hex [OF b] alnum_upper_hex [of "of_char x mod 16"]
    by (auto simp: escape_char_def split: if_splits)
  with Cons show ?case by (auto simp: escape_def)
qed

lemma query_escape_no_sep [simp]:
  "CHR ''&'' \<notin> set (query_escape s)" "CHR ''='' \<notin> set (query_escape s)"
  "CHR '';'' \<notin> set (query_escape s)"
  using query_escape_chars [of _ s] by (fastforce simp: is_alnum_def)+

lemma cut_append: "c \<notin> set a \<Longrightarrow> cut c (a @ c # b) = (a, b)"
  by (induction a) (auto simp: cut_def)

lemma parse_pair_encoded:
  "parse_pair (query_escape k @ ''='' @ query_escape v) q = add_value k v q"
  by (simp add: parse_pair_def cut_append unescape_escape)

lemma get_add_values:
  "get_or [] (fold (\<lambda>v. add_value k v) vs q) k' = get_or [] q k' @ (if k = k' then vs else [])"
  by (induction vs arbitrary: q) (simp_all add: add_value_def get_or_put)

lemma fold_encoded:
  "fold parse_pair (encode_pair (k, vs)) q = fold (\<lambda>v. add_value k v) vs q"
  by (induction vs arbitrary: q) (simp_all add: encode_pair_def parse_pair_encoded del: append_Cons)

lemma get_or_Cons: "get_or d ((k, v) # m) k' = (if k = k' then v else get_or d m k')"
  by (simp add: get_or_def)

lemma get_or_absent: "k \<notin> fst ` set m \<Longrightarrow> get_or d m k = d"
  by (simp add: get_or_def map_of_eq_None_iff [THEN iffD2] split: option.splits)

lemma get_fold_pairs:
  "distinct (map fst m) \<Longrightarrow>
    get_or [] (fold parse_pair (concat (map encode_pair m)) q) k = get_or [] q k @ get_or [] m k"
proof (induction m arbitrary: q)
  case Nil
  then show ?case by (simp add: get_or_def)
next
  case (Cons kv m)
  obtain k' vs where kv: "kv = (k', vs)" by (cases kv)
  show ?case using Cons.prems Cons.IH
    by (auto simp: kv get_or_Cons fold_encoded get_add_values get_or_absent)
qed

lemma get_parse_encode:
  assumes "distinct (map fst q)"
  shows "get_or [] (parse_query (encode_values q)) k = get_or [] q k"
proof -
  let ?m = "sort_key fst q" and ?ps = "concat (map encode_pair (sort_key fst q))"
  have sep: "CHR ''&'' \<notin> set p" if "p \<in> set ?ps" for p
    using that by (auto simp: encode_pair_def)
  have "fold parse_pair (split_on (CHR ''&'') (encode_values q)) [] = fold parse_pair ?ps []"
  proof (cases "?ps = []")
    case True
    then show ?thesis by (simp add: encode_values_def parse_pair_def del: concat_eq_Nil_conv)
  next
    case False
    have "split_on (CHR ''&'') (join ''&'' ?ps) = ?ps"
      using False sep by (rule split_on_join)
    then show ?thesis by (simp add: encode_values_def)
  qed
  moreover have "distinct (map fst ?m)"
    using assms by (metis distinct_map distinct_sort inj_on_def set_sort)
  moreover have "map_of ?m = map_of q"
    using assms calculation(2) by (intro map_of_inject_set [THEN iffD2]) simp_all
  ultimately show ?thesis
    using get_fold_pairs [of ?m "[]" k] by (simp add: parse_query_def get_or_def)
qed

lemma get_value_parse_encode:
  "distinct (map fst q) \<Longrightarrow> get_value (parse_query (encode_values q)) k = get_value q k"
  by (simp add: get_value_def get_parse_encode)

lemma distinct_parse_pair: "distinct (map fst q) \<Longrightarrow> distinct (map fst (parse_pair p q))"
  by (auto simp: parse_pair_def add_value_def distinct_put split: prod.splits option.splits)

lemma distinct_parse_query: "distinct (map fst (parse_query s))"
proof -
  have "distinct (map fst q) \<Longrightarrow> distinct (map fst (fold parse_pair ps q))" for ps q
    by (induction ps arbitrary: q) (simp_all add: distinct_parse_pair)
  then show ?thesis by (simp add: parse_query_def)
qed

end
