(* ===== verification/Sdk.thy ===== *)
theory Sdk
  imports GoValue GoUrl
begin

text \<open>
  The connector SDK as the providers see it: a connection with its public configuration and
  its secret references, the resolved secrets of a call, and the transport. The transport is
  outside the program: it is a function from the requests sent so far and the next request to
  an answer or an error, and an operation returns the requests it has sent along with its
  result. Statements for all transports therefore cover every behaviour of the network,
  answers that depend on earlier requests included.
\<close>

section \<open>Connections\<close>

record connection =
  conn_key :: string
  workspace_id :: string
  connector_key :: string
  provider_key :: string
  config :: obj
  secret_refs :: "(string \<times> string) list"

type_synonym secrets = "(string \<times> string) list"

abbreviation secret :: "secrets \<Rightarrow> string \<Rightarrow> string" where
  "secret ss k \<equiv> get_or [] ss k"

definition secret_ref :: "connection \<Rightarrow> string \<Rightarrow> string" where
  "secret_ref c k = trim_space (get_or [] (secret_refs c) k)"

section \<open>The transport\<close>

type_synonym ('req, 'resp) transport = "'req list \<Rightarrow> 'req \<Rightarrow> string + 'resp"

definition send :: "('req, 'resp) transport \<Rightarrow> 'req \<Rightarrow> 'req list \<Rightarrow> 'req list \<times> (string + 'resp)" where
  "send T r sent = (sent @ [r], T sent r)"

text \<open>HTTP messages. The secret parts of a request are kept apart from its public ones.\<close>

type_synonym headers = "(string \<times> string list) list"

record http_request =
  req_method :: string
  req_url :: string
  req_headers :: headers
  req_body :: string
  req_secret_headers :: headers
  req_secret_form :: "(string \<times> string) list"
  req_secret_query :: "(string \<times> string) list"
  req_secret_json :: "(string \<times> string) list"
  req_max :: int

record http_response =
  resp_status :: int
  resp_headers :: headers
  resp_body :: string

type_synonym http = "(http_request, http_response) transport"

text \<open>A network that never answers, for closed examples.\<close>

definition dead_http :: http where
  "dead_http sent q = Inl ''unreachable''"

definition plain_request :: "string \<Rightarrow> string \<Rightarrow> headers \<Rightarrow> string \<Rightarrow> http_request" where
  "plain_request mth u hs b = \<lparr>req_method = mth, req_url = u, req_headers = hs, req_body = b,
     req_secret_headers = [], req_secret_form = [], req_secret_query = [], req_secret_json = [],
     req_max = 0\<rparr>"

text \<open>What a request shows without its secret parts.\<close>

definition public_part :: "http_request \<Rightarrow> http_request" where
  "public_part r = r\<lparr>req_secret_headers := [], req_secret_form := [], req_secret_query := [],
     req_secret_json := []\<rparr>"

definition ok_status :: "int \<Rightarrow> bool" where
  "ok_status n \<longleftrightarrow> 200 \<le> n \<and> n < 300"

text \<open>SQL requests. A cell of a result is a byte slice or another value.\<close>

datatype sql_operation = Ping | Query

datatype cell = Bytes string | Cell val

record sql_request =
  sql_driver :: string
  sql_dsn :: string
  sql_operation :: sql_operation
  sql_statement :: string
  sql_arguments :: "val list"
  sql_max_rows :: int
  sql_timeout :: int

record sql_result =
  sql_columns :: "string list"
  sql_rows :: "cell list list"
  sql_truncated :: bool

type_synonym sql = "(sql_request, sql_result) transport"

section \<open>Configuration values\<close>

text \<open>The helpers that the providers of this development share in the same wording.\<close>

definition config_text :: "connection \<Rightarrow> string \<Rightarrow> string" where
  "config_text c k = (case as_str (at (config c) k) of None \<Rightarrow> [] | Some s \<Rightarrow> trim_space s)"

definition config_default :: "connection \<Rightarrow> string \<Rightarrow> string \<Rightarrow> string" where
  "config_default c k d = (if config_text c k \<noteq> [] then config_text c k else d)"

text \<open>\<open>strconv.ParseBool\<close>.\<close>

definition parse_bool :: "string \<Rightarrow> bool option" where
  "parse_bool s = (if s \<in> set [''1'', ''t'', ''T'', ''TRUE'', ''true'', ''True''] then Some True
     else if s \<in> set [''0'', ''f'', ''F'', ''FALSE'', ''false'', ''False''] then Some False else None)"

fun int_value :: "val \<Rightarrow> int \<Rightarrow> int" where
  "int_value (VInt i) d = i"
| "int_value (VFloat f) d = f64_trunc f"
| "int_value (VNum s) d = (case atoi s of Some i \<Rightarrow> i | None \<Rightarrow> d)"
| "int_value _ d = d"

fun bool_value :: "val \<Rightarrow> bool \<Rightarrow> bool" where
  "bool_value (VBool b) d = b"
| "bool_value _ d = d"

definition is_loopback :: "string \<Rightarrow> bool" where
  "is_loopback h = (let s = to_lower (trim_space h) in
     s = ''localhost'' \<or> s = ''127.0.0.1'' \<or> s = ''::1'')"

definition base_connection :: connection where
  "base_connection = \<lparr>conn_key = ''c'', workspace_id = ''w'', connector_key = [],
     provider_key = [], config = [], secret_refs = []\<rparr>"

section \<open>Members of JSON maps\<close>

text \<open>\<open>json.Unmarshal\<close> into a \<open>map[string]any\<close>; the text \<open>null\<close> gives a nil map.\<close>

definition decode_map :: "string \<Rightarrow> val option" where
  "decode_map body = (case json_parse body of
     None \<Rightarrow> None
   | Some j \<Rightarrow> (case val_of_json j of
        Some (VObj m) \<Rightarrow> Some (VObj m)
      | Some VNil \<Rightarrow> Some VNil
      | _ \<Rightarrow> None))"

text \<open>The text of a member as the providers read it, without and with the test for \<open><nil>\<close>.\<close>

definition map_string :: "obj \<Rightarrow> string \<Rightarrow> string" where
  "map_string m k = (if at m k = VNil then [] else trim_space (sprint (at m k)))"

definition clean_at :: "obj \<Rightarrow> string \<Rightarrow> string" where
  "clean_at m k = clean (at m k)"

text \<open>The first text that is not empty.\<close>

definition first_text :: "string list \<Rightarrow> string" where
  "first_text ss = (case dropWhile ((=) []) ss of [] \<Rightarrow> [] | s # _ \<Rightarrow> s)"

definition marshal_or :: "string \<Rightarrow> val \<Rightarrow> string" where
  "marshal_or d v = (case marshal v of None \<Rightarrow> d | Some s \<Rightarrow> s)"

text \<open>The output of an operation, its reference and its error, which the code returns together.\<close>

type_synonym typed = "val \<times> string \<times> gerr option"

abbreviation typed_err :: "typed \<Rightarrow> gerr option" where
  "typed_err x \<equiv> snd (snd x)"

definition failed :: "gerr \<Rightarrow> typed" where
  "failed e = (VNil, [], Some e)"

lemma typed_err_failed [simp]: "typed_err (failed e) = Some e"
  by (simp add: failed_def)

section \<open>Operations of one request\<close>

text \<open>
  Most operations plan one request from their input, or refuse it, and read the answer to it.
  What follows from that shape alone is proved here once.
\<close>

definition run_plan ::
  "'r + 'req \<Rightarrow> (string + 'resp \<Rightarrow> 'r) \<Rightarrow> ('req, 'resp) transport \<Rightarrow> 'req list \<Rightarrow> 'req list \<times> 'r" where
  "run_plan plan read T sent =
     (case plan of Inl x \<Rightarrow> (sent, x) | Inr q \<Rightarrow> (sent @ [q], read (T sent q)))"

locale one_request =
  fixes op :: "('req, 'resp) transport \<Rightarrow> 'req list \<Rightarrow> 'req list \<times> 'r"
    and plan :: "'r + 'req"
    and read :: "string + 'resp \<Rightarrow> 'r"
  assumes op_plan: "op T sent = run_plan plan read T sent"
begin

lemma sends_at_most_one: "fst (op T sent) = sent \<or> (\<exists>q. fst (op T sent) = sent @ [q])"
  by (auto simp: op_plan run_plan_def split: sum.splits)

lemma same_request: "fst (op T sent) = fst (op T' sent)"
  by (simp add: op_plan run_plan_def split: sum.splits)

lemma refused: "plan = Inl x \<Longrightarrow> op T sent = (sent, x)"
  by (simp add: op_plan run_plan_def)

lemma sent: "plan = Inr q \<Longrightarrow> op T sent = (sent @ [q], read (T sent q))"
  by (simp add: op_plan run_plan_def)

lemma result_by_answer:
  "T sent = T' sent \<Longrightarrow> snd (op T sent) = snd (op T' sent)"
  by (simp add: op_plan run_plan_def split: sum.splits)

end

text \<open>
  A write whose outcome is not known must not be offered for a retry: only an answer with a
  status of \<open>retry_status\<close> may be. \<open>err\<close> is the error of a result.
\<close>

locale cautious_write = one_request op plan read
  for op :: "(http_request, http_response) transport \<Rightarrow> http_request list \<Rightarrow> http_request list \<times> 'r"
    and plan read +
  fixes err :: "'r \<Rightarrow> gerr option"
    and retry_status :: "int \<Rightarrow> bool"
  assumes read_cautious: "err (read a) = Some e \<Longrightarrow> is_retryable e
      \<Longrightarrow> \<exists>r. a = Inr r \<and> retry_status (resp_status r)"
    and plan_permanent: "plan = Inl x \<Longrightarrow> \<exists>e. err x = Some e \<and> is_permanent e"
    and read_lost: "\<exists>e. err (read (Inl m)) = Some e \<and> is_uncertain e"
begin

lemma outcome:
  assumes "op T sent = (sent', res)"
  shows "sent' = sent \<and> (\<exists>e. err res = Some e \<and> is_permanent e) \<or>
    (\<exists>q. sent' = sent @ [q] \<and> plan = Inr q \<and> res = read (T sent q) \<and>
      (case T sent q of
         Inl m \<Rightarrow> \<exists>e. err res = Some e \<and> is_uncertain e
       | Inr r \<Rightarrow> \<forall>e. err res = Some e \<longrightarrow> is_retryable e \<longrightarrow> retry_status (resp_status r)))"
proof (cases plan)
  case (Inl x)
  then show ?thesis using assms plan_permanent [OF Inl] by (auto simp: op_plan run_plan_def)
next
  case (Inr q)
  then have "sent' = sent @ [q]" "res = read (T sent q)"
    using assms by (simp_all add: op_plan run_plan_def)
  then show ?thesis
    using Inr read_lost read_cautious [of "T sent q"] by (cases "T sent q") auto
qed

end

text \<open>The error of a result that is a sum.\<close>

fun sum_err :: "'a res \<Rightarrow> gerr option" where
  "sum_err (Inl e) = Some e"
| "sum_err (Inr _) = None"

end
