(* ===== verification/SqlPolicy.thy ===== *)
theory SqlPolicy
  imports GoValue
begin

text \<open>
  The read-only SQL policy shared by the external database providers
  (\<^verbatim>\<open>internal/databasesql/policy.go\<close>) and the copy of it in
  \<^verbatim>\<open>internal/snowflakesql/provider.go\<close>: a query is scanned into lower-case words outside
  quotes, and the words are checked against the policy of the dialect.
\<close>

section \<open>Letters\<close>

text \<open>
  \<open>unicode.IsLetter\<close> and \<open>unicode.ToLower\<close> are given on ASCII; the tables of the other runes
  are an argument of the definitions, and every statement holds whatever they contain.
\<close>

record unicode =
  high_letter :: "nat \<Rightarrow> bool"
  high_lower :: "nat \<Rightarrow> nat"

definition is_letter :: "unicode \<Rightarrow> nat \<Rightarrow> bool" where
  "is_letter U r = (if r < 128 then 65 \<le> r \<and> r \<le> 90 \<or> 97 \<le> r \<and> r \<le> 122 else high_letter U r)"

definition lower_rune :: "unicode \<Rightarrow> nat \<Rightarrow> nat" where
  "lower_rune U r =
     (if r < 128 then (if 65 \<le> r \<and> r \<le> 90 then r + 32 else r) else high_lower U r)"

definition lower_word :: "unicode \<Rightarrow> nat list \<Rightarrow> string" where
  "lower_word U w = concat (map (\<lambda>r. encode_rune (lower_rune U r)) w)"

definition word_rune :: "unicode \<Rightarrow> nat \<Rightarrow> bool" where
  "word_rune U r \<longleftrightarrow> is_letter U r \<or> r = 95"

section \<open>The policy\<close>

record keyword_rule =
  sequence :: "string list"
  rule_code :: string

record read_only_policy =
  allowed_first :: "string list"
  denied_words :: "string list"
  unsafe_fragments :: "string list"
  quote_pairs :: "(nat \<times> nat) list"
  keyword_rules :: "keyword_rule list"

section \<open>The scanner\<close>

definition flush :: "unicode \<Rightarrow> nat list \<Rightarrow> string list" where
  "flush U cur = (if cur = [] then [] else [lower_word U cur])"

fun scan :: "unicode \<Rightarrow> (nat \<times> nat) list \<Rightarrow> nat \<Rightarrow> nat list \<Rightarrow> nat list \<Rightarrow> string list" where
  "scan U ps q cur [] = flush U cur"
| "scan U ps q cur (c # cs) =
     (if q \<noteq> 0 then scan U ps (if c = q then 0 else q) cur cs
      else (case map_of ps c of
        Some e \<Rightarrow> flush U cur @ scan U ps e [] cs
      | None \<Rightarrow>
          if word_rune U c then scan U ps 0 (cur @ [c]) cs
          else flush U cur @ scan U ps 0 [] cs))"

definition sql_words :: "unicode \<Rightarrow> string \<Rightarrow> (nat \<times> nat) list \<Rightarrow> string list" where
  "sql_words U query ps = scan U ps 0 [] (runes query)"

definition contains_any :: "string \<Rightarrow> string list \<Rightarrow> bool" where
  "contains_any s fs \<longleftrightarrow> list_ex (\<lambda>f. f \<noteq> [] \<and> contains_str s f) fs"

definition contains_sequence :: "string list \<Rightarrow> string list \<Rightarrow> bool" where
  "contains_sequence ws sq =
     (if sq = [] \<or> length sq > length ws then False
      else list_ex (\<lambda>start. list_all (\<lambda>i. ws ! (start + i) = sq ! i) [0..<length sq])
             [0..<length ws - length sq + 1])"

definition first_rule :: "string list \<Rightarrow> keyword_rule list \<Rightarrow> keyword_rule option" where
  "first_rule ws rules = find (\<lambda>r. contains_sequence ws (sequence r)) rules"

definition validate_read_only :: "unicode \<Rightarrow> string \<Rightarrow> read_only_policy \<Rightarrow> string" where
  "validate_read_only U query0 p =
     (let query = trim_space query0 in
      if query = [] \<or> CHR 0x00 \<in> set query
         \<or> contains_any query ([''--'', ''/*'', ''*/''] @ unsafe_fragments p)
      then ''query_unsafe''
      else let trimmed = trim_space (trim_suffix query '';'') in
      if contains_str trimmed '';'' then ''multiple_statements_denied''
      else let words = sql_words U trimmed (quote_pairs p) in
      if words = [] \<or> hd words \<notin> set (allowed_first p) then ''readonly_query_required''
      else (case first_rule words (keyword_rules p) of
        Some r \<Rightarrow> rule_code r
      | None \<Rightarrow> if list_ex (\<lambda>w. w \<in> set (denied_words p)) words
                then ''write_keyword_denied'' else []))"

section \<open>What the scanner computes\<close>

text \<open>The runes outside quotes, with \<open>None\<close> in the place of a quote or a quoted rune.\<close>

fun unquoted :: "(nat \<times> nat) list \<Rightarrow> nat \<Rightarrow> nat list \<Rightarrow> nat option list" where
  "unquoted ps q [] = []"
| "unquoted ps q (c # cs) =
     (if q \<noteq> 0 then None # unquoted ps (if c = q then 0 else q) cs
      else (case map_of ps c of
        Some e \<Rightarrow> None # unquoted ps e cs
      | None \<Rightarrow> Some c # unquoted ps 0 cs))"

definition in_word :: "unicode \<Rightarrow> nat option \<Rightarrow> bool" where
  "in_word U x = (case x of None \<Rightarrow> False | Some r \<Rightarrow> word_rune U r)"

text \<open>A word of a list: a run of elements satisfying \<open>P\<close> that cannot be extended.\<close>

definition word_of :: "('a \<Rightarrow> bool) \<Rightarrow> 'a list \<Rightarrow> 'a list \<Rightarrow> bool" where
  "word_of P xs w \<longleftrightarrow> w \<noteq> [] \<and> list_all P w \<and>
     (\<exists>pre post. xs = pre @ w @ post \<and> (pre = [] \<or> \<not> P (last pre)) \<and> (post = [] \<or> \<not> P (hd post)))"

fun runs :: "('a \<Rightarrow> bool) \<Rightarrow> 'a list \<Rightarrow> 'a list \<Rightarrow> 'a list list" where
  "runs P cur [] = (if cur = [] then [] else [cur])"
| "runs P cur (x # xs) =
     (if P x then runs P (cur @ [x]) xs
      else (if cur = [] then [] else [cur]) @ runs P [] xs)"

lemma scan_quoted_cur:
  "scan U ps q (map the cur) cs = map (lower_word U \<circ> map the) (runs (in_word U) cur (unquoted ps q cs))"
  if "q = 0 \<or> cur = []" for cur
  using that
proof (induction ps q cs arbitrary: cur rule: unquoted.induct)
  case (1 ps q)
  then show ?case by (simp add: flush_def)
next
  case (2 ps q c cs)
  show ?case
  proof (cases "q = 0")
    case False
    then have "cur = []" using 2(4) by simp
    then show ?thesis using False 2(1) [OF False, of "[]"] by (simp add: in_word_def)
  next
    case True
    show ?thesis
    proof (cases "map_of ps c")
      case (Some e)
      then show ?thesis using True 2(3) [of e "[]"] by (simp add: in_word_def flush_def)
    next
      case None
      then show ?thesis
        using True 2(2) [of "cur @ [Some c]"] 2(2) [of "[]"]
        by (simp add: in_word_def flush_def)
    qed
  qed
qed

lemma sql_words_eq:
  "sql_words U s ps = map (lower_word U \<circ> map the) (runs (in_word U) [] (unquoted ps 0 (runes s)))"
  using scan_quoted_cur [of 0 "[]"] by (simp add: sql_words_def)

lemma runs_sound:
  assumes "w \<in> set (runs P cur xs)" "list_all P cur" "pre = [] \<or> \<not> P (last pre)"
  shows "word_of P (pre @ cur @ xs) w"
  using assms
proof (induction xs arbitrary: cur pre)
  case Nil
  then have "w = cur" "cur \<noteq> []" by (auto split: if_splits)
  with Nil(2,3) show ?case
    unfolding word_of_def by (intro conjI exI [of _ pre] exI [of _ "[]"]) simp_all
next
  case (Cons x xs)
  show ?case
  proof (cases "P x")
    case True
    then show ?thesis using Cons.prems Cons.IH [of "cur @ [x]" pre] by simp
  next
    case False
    then consider "w = cur" "cur \<noteq> []" | "w \<in> set (runs P [] xs)"
      using Cons.prems(1) by (auto split: if_splits)
    then show ?thesis
    proof cases
      case 1
      with Cons.prems(2,3) False show ?thesis
        unfolding word_of_def by (intro conjI exI [of _ pre] exI [of _ "x # xs"]) simp_all
    next
      case 2
      then show ?thesis using Cons.IH [of "[]" "pre @ cur @ [x]"] False by simp
    qed
  qed
qed

lemma runs_complete:
  assumes "xs = pre @ w @ post" "w \<noteq> []" "list_all P w" "pre = [] \<or> \<not> P (last pre)"
    "post = [] \<or> \<not> P (hd post)" "pre = [] \<Longrightarrow> cur = []"
  shows "w \<in> set (runs P cur xs)"
  using assms
proof (induction pre arbitrary: xs cur)
  case Nil
  have "w \<in> set (runs P c (u @ post))" if "c @ u = w" for c u
    using that Nil(2,3,5)
  proof (induction u arbitrary: c)
    case Nil
    then show ?case by (cases post) auto
  next
    case (Cons x u)
    then have "P x" by auto
    then show ?case using Cons.IH [of "c @ [x]"] Cons.prems by simp
  qed
  from this [of "[]" w] Nil show ?case by simp
next
  case (Cons x pre)
  then obtain ys where ys: "xs = x # ys" "ys = pre @ w @ post" by auto
  show ?case
  proof (cases "P x")
    case True
    then have "pre \<noteq> []" using Cons.prems by auto
    then show ?thesis using Cons.IH [of ys "cur @ [x]"] Cons.prems ys True by simp
  next
    case False
    then show ?thesis using Cons.IH [of ys "[]"] Cons.prems ys by (cases pre) auto
  qed
qed

lemma runs_iff: "w \<in> set (runs P [] xs) \<longleftrightarrow> word_of P xs w"
proof
  assume "w \<in> set (runs P [] xs)"
  then show "word_of P xs w" using runs_sound [of w P "[]" xs "[]"] by simp
next
  assume "word_of P xs w"
  then show "w \<in> set (runs P [] xs)"
    unfolding word_of_def by (auto intro: runs_complete)
qed

lemma contains_sequence_iff: "contains_sequence ws sq \<longleftrightarrow> sq \<noteq> [] \<and> sublist sq ws"
proof (cases "sq = [] \<or> length sq > length ws")
  case True
  then show ?thesis by (auto simp: contains_sequence_def dest: sublist_length_le)
next
  case False
  have "(\<exists>i\<le>length ws - length sq. \<forall>j<length sq. ws ! (i + j) = sq ! j) \<longleftrightarrow> sublist sq ws"
  proof
    assume "\<exists>i\<le>length ws - length sq. \<forall>j<length sq. ws ! (i + j) = sq ! j"
    then obtain i where i: "i \<le> length ws - length sq" "\<forall>j<length sq. ws ! (i + j) = sq ! j" by blast
    then have "take (length sq) (drop i ws) = sq"
      using False by (intro nth_equalityI) auto
    then have "ws = take i ws @ sq @ drop (length sq) (drop i ws)"
      by (metis append_take_drop_id)
    then show "sublist sq ws" by (metis sublist_appendI)
  next
    assume "sublist sq ws"
    then obtain pre post where ws: "ws = pre @ sq @ post" by (auto simp: sublist_def)
    then show "\<exists>i\<le>length ws - length sq. \<forall>j<length sq. ws ! (i + j) = sq ! j"
      by (intro exI [of _ "length pre"]) (simp add: nth_append)
  qed
  then show ?thesis using False
    by (simp add: contains_sequence_def list_ex_iff list_all_iff Bex_def Ball_def less_Suc_eq_le
        del: upt_Suc)
qed

section \<open>The policies of the dialects\<close>

text \<open>Quote runes: 39 and 34 are the straight quotes, 96 the backquote, 91 and 93 brackets.\<close>

definition mysql_policy :: read_only_policy where
  "mysql_policy = \<lparr>allowed_first = [''select'', ''with'', ''show'', ''describe'', ''explain''],
     denied_words = [''alter'', ''analyze'', ''call'', ''create'', ''delete'', ''do'', ''drop'',
       ''execute'', ''grant'', ''insert'', ''load'', ''lock'', ''replace'', ''revoke'', ''set'',
       ''truncate'', ''unlock'', ''update''],
     unsafe_fragments = [''#''], quote_pairs = [(39, 39), (34, 34), (96, 96)],
     keyword_rules = [\<lparr>sequence = [''for'', ''update''], rule_code = ''locking_read_denied''\<rparr>,
       \<lparr>sequence = [''for'', ''share''], rule_code = ''locking_read_denied''\<rparr>]\<rparr>"

definition postgres_policy :: read_only_policy where
  "postgres_policy = \<lparr>allowed_first = [''select'', ''with'', ''show'', ''explain''],
     denied_words = [''alter'', ''analyze'', ''call'', ''cluster'', ''comment'', ''copy'',
       ''create'', ''delete'', ''do'', ''drop'', ''execute'', ''grant'', ''insert'', ''lock'',
       ''merge'', ''refresh'', ''reindex'', ''revoke'', ''set'', ''truncate'', ''update'',
       ''vacuum''],
     unsafe_fragments = [], quote_pairs = [(39, 39), (34, 34)], keyword_rules = []\<rparr>"

definition sqlserver_policy :: read_only_policy where
  "sqlserver_policy = \<lparr>allowed_first = [''select'', ''with''],
     denied_words = [''alter'', ''backup'', ''create'', ''delete'', ''drop'', ''execute'',
       ''grant'', ''insert'', ''kill'', ''merge'', ''restore'', ''revoke'', ''truncate'',
       ''update''],
     unsafe_fragments = [], quote_pairs = [(39, 39), (34, 34), (91, 93)],
     keyword_rules = [\<lparr>sequence = [''into''], rule_code = ''select_into_denied''\<rparr>,
       \<lparr>sequence = [''for'', ''update''], rule_code = ''locking_read_denied''\<rparr>]\<rparr>"

section \<open>The Snowflake copy\<close>

fun snowflake_scan :: "unicode \<Rightarrow> nat \<Rightarrow> nat list \<Rightarrow> nat list \<Rightarrow> string list" where
  "snowflake_scan U quote cur [] = flush U cur"
| "snowflake_scan U quote cur (c # cs) =
     (if quote \<noteq> 0 then snowflake_scan U (if c = quote then 0 else quote) cur cs
      else if c = 39 \<or> c = 34 \<or> c = 96 then flush U cur @ snowflake_scan U c [] cs
      else if is_letter U c \<or> c = 95 then snowflake_scan U quote (cur @ [c]) cs
      else flush U cur @ snowflake_scan U quote [] cs)"

definition snowflake_words :: "unicode \<Rightarrow> string \<Rightarrow> string list" where
  "snowflake_words U query = snowflake_scan U 0 [] (runes query)"

definition snowflake_read_only :: "unicode \<Rightarrow> string \<Rightarrow> string" where
  "snowflake_read_only U query0 =
     (let query = trim_space query0 in
      if query = [] \<or> CHR 0x00 \<in> set query \<or> contains_str query ''--''
         \<or> contains_str query ''/*'' \<or> contains_str query ''*/''
      then ''query_unsafe''
      else let trimmed = trim_space (trim_suffix query '';'') in
      if contains_str trimmed '';'' then ''multiple_statements_denied''
      else let words = snowflake_words U trimmed in
      if words = [] \<or> hd words \<notin> {''select'', ''with'', ''show'', ''describe'', ''explain''}
      then ''readonly_query_required''
      else if list_ex (\<lambda>w. w \<in> {''alter'', ''call'', ''copy'', ''create'', ''delete'', ''drop'',
        ''execute'', ''grant'', ''insert'', ''merge'', ''put'', ''remove'', ''revoke'',
        ''truncate'', ''undrop'', ''update'', ''use''}) words
      then ''write_keyword_denied'' else [])"

definition snowflake_policy :: read_only_policy where
  "snowflake_policy =
     \<lparr>allowed_first = [''select'', ''with'', ''show'', ''describe'', ''explain''],
     denied_words = [''alter'', ''call'', ''copy'', ''create'', ''delete'', ''drop'', ''execute'',
       ''grant'', ''insert'', ''merge'', ''put'', ''remove'', ''revoke'', ''truncate'',
       ''undrop'', ''update'', ''use''],
     unsafe_fragments = [], quote_pairs = [(39, 39), (34, 34), (96, 96)], keyword_rules = []\<rparr>"

lemma snowflake_scan_eq:
  "snowflake_scan U q cur cs = scan U [(39, 39), (34, 34), (96, 96)] q cur cs"
  by (induction U q cur cs rule: snowflake_scan.induct) (auto simp: word_rune_def)

section \<open>What an accepted query is\<close>

definition statement_body :: "string \<Rightarrow> string" where
  "statement_body s = trim_space (trim_suffix (trim_space s) '';'')"

text \<open>The words of a statement: maximal runs of word runes outside quotes, in lower case.\<close>

definition statement_word :: "unicode \<Rightarrow> (nat \<times> nat) list \<Rightarrow> string \<Rightarrow> string \<Rightarrow> bool" where
  "statement_word U ps s w \<longleftrightarrow>
     (\<exists>x. word_of (in_word U) (unquoted ps 0 (runes (statement_body s))) x
        \<and> w = lower_word U (map the x))"

definition read_only_statement :: "unicode \<Rightarrow> read_only_policy \<Rightarrow> string \<Rightarrow> bool" where
  "read_only_statement U p s \<longleftrightarrow>
     trim_space s \<noteq> [] \<and> CHR 0x00 \<notin> set (trim_space s)
     \<and> (\<forall>f \<in> {''--'', ''/*'', ''*/''} \<union> set (unsafe_fragments p). f \<noteq> [] \<longrightarrow> \<not> sublist f (trim_space s))
     \<and> CHR '';'' \<notin> set (statement_body s)
     \<and> (\<exists>w ws. sql_words U (statement_body s) (quote_pairs p) = w # ws \<and> w \<in> set (allowed_first p))
     \<and> (\<forall>r \<in> set (keyword_rules p). sequence r \<noteq> [] \<longrightarrow>
          \<not> sublist (sequence r) (sql_words U (statement_body s) (quote_pairs p)))
     \<and> (\<forall>w. statement_word U (quote_pairs p) s w \<longrightarrow> w \<notin> set (denied_words p))"

lemma statement_word_iff:
  "statement_word U ps s w \<longleftrightarrow> w \<in> set (sql_words U (statement_body s) ps)"
  by (auto simp: statement_word_def sql_words_eq runs_iff [symmetric])

lemma contains_any_iff: "contains_any s fs \<longleftrightarrow> (\<exists>f\<in>set fs. f \<noteq> [] \<and> sublist f s)"
  by (auto simp: contains_any_def contains_str_def list_ex_iff)

lemma single_sublist: "sublist [c] s \<longleftrightarrow> c \<in> set s"
  by (auto simp: sublist_def in_set_conv_decomp)

lemma first_rule_None:
  "first_rule ws rules = None \<longleftrightarrow> (\<forall>r\<in>set rules. sequence r \<noteq> [] \<longrightarrow> \<not> sublist (sequence r) ws)"
  by (auto simp: first_rule_def find_None_iff contains_sequence_iff)

lemma validate_read_only_iff:
  assumes "\<forall>r \<in> set (keyword_rules p). rule_code r \<noteq> []"
  shows "validate_read_only U s p = [] \<longleftrightarrow> read_only_statement U p s"
proof -
  let ?ws = "sql_words U (statement_body s) (quote_pairs p)"
  have denied: "(\<forall>w. statement_word U (quote_pairs p) s w \<longrightarrow> w \<notin> set (denied_words p))
      \<longleftrightarrow> \<not> list_ex (\<lambda>w. w \<in> set (denied_words p)) ?ws"
    by (auto simp: statement_word_iff list_ex_iff)
  have rules: "first_rule ?ws (keyword_rules p) = Some r \<Longrightarrow> rule_code r \<noteq> []" for r
    using assms by (auto simp: first_rule_def find_Some_iff)
  have first: "(\<exists>w ws. ?ws = w # ws \<and> w \<in> set (allowed_first p))
      \<longleftrightarrow> \<not> (?ws = [] \<or> hd ?ws \<notin> set (allowed_first p))"
    by (cases ?ws) auto
  have semi: "contains_str (statement_body s) '';'' \<longleftrightarrow> CHR '';'' \<in> set (statement_body s)"
    by (simp add: contains_str_def single_sublist)
  have frag: "contains_any (trim_space s) ([''--'', ''/*'', ''*/''] @ unsafe_fragments p) \<longleftrightarrow>
      \<not> (\<forall>f \<in> {''--'', ''/*'', ''*/''} \<union> set (unsafe_fragments p).
           f \<noteq> [] \<longrightarrow> \<not> sublist f (trim_space s))"
    unfolding contains_any_iff by auto
  show ?thesis
    unfolding validate_read_only_def Let_def statement_body_def [symmetric]
      read_only_statement_def denied first semi [symmetric] frag
    using rules first_rule_None [of ?ws "keyword_rules p"]
    by (auto split: option.splits)
qed

section \<open>Properties\<close>

definition ascii_only :: unicode where
  "ascii_only = \<lparr>high_letter = (\<lambda>_. False), high_lower = (\<lambda>r. r)\<rparr>"

definition sample_sql :: string where
  "sample_sql = '' SELECT '' @ [CHR 0x27] @ ''drop; it'' @ [CHR 0x27] @ '' FROM updates ''"

text \<open>
  C4: \<open>ValidateReadOnly\<close> accepts exactly the read-only statements of the dialect: no NUL, no
  comment mark or other unsafe fragment, no semicolon but a final one, an allowed first word,
  and, outside quotes, no denied word and no denied sequence of words, whatever the letter
  tables beyond ASCII are.
\<close>
theorem sql_policy_exact:
  assumes "\<forall>r \<in> set (keyword_rules p). rule_code r \<noteq> []"
  shows "validate_read_only U s p = [] \<longleftrightarrow> read_only_statement U p s"
  by (rule validate_read_only_iff [OF assms])

theorem sql_policy_exact_witness:
  "\<not> read_only_statement ascii_only mysql_policy sample_sql
    \<and> read_only_statement ascii_only mysql_policy ''select a, updates FROM t; ''"
proof -
  have r: "\<forall>r \<in> set (keyword_rules mysql_policy). rule_code r \<noteq> []"
    by (simp add: mysql_policy_def)
  have "validate_read_only ascii_only sample_sql mysql_policy = ''multiple_statements_denied''"
    by code_simp
  moreover have "validate_read_only ascii_only ''select a, updates FROM t; '' mysql_policy = []"
    by code_simp
  ultimately show ?thesis
    unfolding sql_policy_exact [OF r, symmetric] by simp
qed

lemma snowflake_read_only_policy:
  "snowflake_read_only U s = validate_read_only U s snowflake_policy"
proof -
  have "snowflake_words U t = sql_words U t (quote_pairs snowflake_policy)" for t
    by (simp add: snowflake_words_def sql_words_def snowflake_scan_eq snowflake_policy_def)
  then show ?thesis
    by (simp add: snowflake_read_only_def validate_read_only_def Let_def first_rule_def
        contains_any_def snowflake_policy_def)
qed

section \<open>Statements the policies let through\<close>

text \<open>
  Quotes end at the next quote rune, so a backslash escape of MySQL, which keeps the literal
  open, hides what stands behind it; the MySQL policy has no rule on \<open>into\<close>; and a
  Transact-SQL batch needs no semicolon between statements, while \<open>exec\<close> is not a denied word.
\<close>

definition escaped_quote :: string where
  "escaped_quote = [CHR 0x27, CHR 0x5C, CHR 0x27, CHR 0x27]"

definition plain_char :: "char \<Rightarrow> bool" where
  "plain_char c \<longleftrightarrow> 32 \<le> byte c \<and> byte c < 127
     \<and> c \<notin> {CHR 0x27, CHR '';'', CHR ''-'', CHR ''/'', CHR ''*'', CHR ''#''}"

lemma mysql_into_outfile_accepted:
  "validate_read_only ascii_only
    (''select a from t into outfile '' @ [CHR 0x22] @ ''/tmp/x'' @ [CHR 0x22]) mysql_policy = []"
  by code_simp

lemma sqlserver_exec_accepted:
  "validate_read_only ascii_only
    (''select 1 exec xp_cmdshell '' @ [CHR 0x22] @ ''dir'' @ [CHR 0x22]) sqlserver_policy = []"
  by code_simp

lemma scan_quoted: "q \<noteq> 0 \<Longrightarrow> q \<notin> set cs \<Longrightarrow> scan U ps q [] cs = []"
  by (induction cs) (auto simp: flush_def)

lemma scan_escaped:
  assumes "39 \<notin> set cs"
  shows "scan U [(39, 39), (34, 34), (96, 96)] 0 []
    (map byte (''select '' @ escaped_quote @ '' '') @ cs) = [''select'']"
  using assms
  by (simp add: escaped_quote_def flush_def lower_word_def lower_rune_def word_rune_def
      is_letter_def encode_rune_def scan_quoted) code_simp

lemma disjoint_sub: "B \<inter> C = {} \<Longrightarrow> A \<subseteq> B \<Longrightarrow> A \<inter> C = {}"
  by blast

lemma plain_char_byte: "plain_char c \<Longrightarrow> 32 \<le> byte c \<and> byte c < 128"
  by (simp add: plain_char_def)

lemma plain_no_fragment:
  assumes "list_all plain_char s" "f \<in> {''--'', ''/*'', ''*/'', ''#'', '';''}"
  shows "\<not> sublist f (''select '' @ escaped_quote @ '' '' @ s)"
proof
  let ?t = "''select '' @ escaped_quote @ '' '' @ s"
  let ?bad = "{CHR '';'', CHR ''-'', CHR ''/'', CHR ''*'', CHR ''#''}"
  assume "sublist f ?t"
  then have sub: "set f \<subseteq> set ?t" by (rule set_mono_sublist)
  have 1: "set ''select '' \<inter> ?bad = {}" by simp
  have 2: "set escaped_quote \<inter> ?bad = {}" by (simp add: escaped_quote_def)
  have 3: "set '' '' \<inter> ?bad = {}" by simp
  have 4: "set s \<inter> ?bad = {}"
    using assms(1) by (auto simp: list_all_iff plain_char_def)
  have "set ?t \<inter> ?bad = {}"
    unfolding set_append Int_Un_distrib2 1 2 3 4 by (rule refl | simp only: Un_empty_right)+
  then have "set f \<inter> ?bad = {}" using sub by (rule disjoint_sub)
  moreover have "set f \<inter> ?bad \<noteq> {}" using assms(2) by auto
  ultimately show False by (rule notE [rotated])
qed

text \<open>
  C8: whatever plain text, denied words included, stands behind a MySQL literal with an
  escaped quote is accepted as part of a read-only query, while the same words outside a
  literal are refused.
\<close>
theorem mysql_escape_hides_text:
  assumes "list_all plain_char s" "s \<noteq> []" "graphic (last s)"
  shows "validate_read_only U (''select '' @ escaped_quote @ '' '' @ s) mysql_policy = []
    \<and> validate_read_only ascii_only ''select a from t for update'' mysql_policy = ''locking_read_denied''"
proof
  let ?t = "''select '' @ escaped_quote @ '' '' @ s"
  have trim: "trim_space ?t = ?t"
    using assms(2,3) by (intro trim_space_graphic) (simp_all add: graphic_def)
  have nofrag: "\<not> sublist f ?t" if "f \<in> {''--'', ''/*'', ''*/'', ''#'', '';''}" for f
    using plain_no_fragment [OF assms(1) that] .
  have nosemi: "CHR '';'' \<notin> set ?t" using nofrag [of "'';''"] by (simp add: single_sublist)
  then have "\<not> has_suffix ?t '';''"
    unfolding has_suffix_def suffix_def by (metis in_set_conv_decomp)
  then have body: "trim_suffix ?t '';'' = ?t" by (simp only: trim_suffix_def if_False)
  have "\<forall>c \<in> set s. 32 \<le> byte c \<and> byte c < 128"
    using assms(1) plain_char_byte by (simp add: list_all_iff)
  then have "CHR 0x00 \<notin> set s" "list_all (\<lambda>c. byte c < 128) s"
    by (fastforce simp: list_all_iff)+
  then have nul: "CHR 0x00 \<notin> set ?t" and ascii: "list_all (\<lambda>c. byte c < 128) ?t"
    by (simp_all add: escaped_quote_def)
  have "39 \<notin> set (map byte s)"
  proof
    assume "39 \<in> set (map byte s)"
    then obtain c where c: "c \<in> set s" "byte c = 39" by auto
    have "byte c = byte (CHR 0x27)" using c(2) by simp
    then have "c = CHR 0x27" by (simp only: of_char_eq_iff)
    then show False using assms(1) c by (auto simp: plain_char_def list_all_iff)
  qed
  from scan_escaped [OF this, of U] have words: "sql_words U ?t (quote_pairs mysql_policy) = [''select'']"
    using runes_ascii [OF ascii] by (simp add: sql_words_def mysql_policy_def)
  show "validate_read_only U ?t mysql_policy = []"
    unfolding validate_read_only_def Let_def trim body
    using nofrag nul words
    by (simp add: contains_any_iff contains_str_def first_rule_def contains_sequence_def)
      (simp add: mysql_policy_def)
  show "validate_read_only ascii_only ''select a from t for update'' mysql_policy = ''locking_read_denied''"
    by code_simp
qed

theorem mysql_escape_hides_text_witness:
  "validate_read_only ascii_only (''select '' @ escaped_quote @ '' '' @ ''from t for update'') mysql_policy = []"
  using mysql_escape_hides_text [of "''from t for update''" ascii_only]
  by (simp add: plain_char_def graphic_def)

end
