(* ===== verification/SqlProviders.thy ===== *)
theory SqlProviders
  imports Sdk SqlPolicy
begin

text \<open>
  The SQL client (\<^verbatim>\<open>internal/databasesql\<close>) and the MySQL, PostgreSQL and SQL Server providers
  (\<^verbatim>\<open>providers/external_database\<close>). The three providers run the same steps over their own
  checks, connection strings, statements and policies; the steps are written once over a
  record of these, and each provider is an instance. The MySQL driver, which is not part of
  the repository, is a parameter.
\<close>

section \<open>The client\<close>

definition client_ping ::
  "string \<Rightarrow> string \<Rightarrow> sql \<Rightarrow> string \<Rightarrow> int \<Rightarrow> sql_request list \<Rightarrow> sql_request list \<times> unit res" where
  "client_ping driver key T dsn timeout sent =
     (case send T \<lparr>sql_driver = driver, sql_dsn = dsn, sql_operation = Ping, sql_statement = [],
                   sql_arguments = [], sql_max_rows = 0, sql_timeout = timeout\<rparr> sent of
        (sent', Inl e) \<Rightarrow> (sent', Inl (Retryable (key @ ''.ping_failed'') (TransportErr e)))
      | (sent', Inr _) \<Rightarrow> (sent', Inr ()))"

definition client_query ::
  "string \<Rightarrow> string \<Rightarrow> sql \<Rightarrow> string \<Rightarrow> string \<Rightarrow> val list \<Rightarrow> int \<Rightarrow> int \<Rightarrow> string \<Rightarrow> sql_request list
    \<Rightarrow> sql_request list \<times> sql_result res" where
  "client_query driver key T dsn statement arguments max_rows timeout failure sent =
     (case send T \<lparr>sql_driver = driver, sql_dsn = dsn, sql_operation = Query,
                   sql_statement = statement, sql_arguments = arguments,
                   sql_max_rows = max_rows, sql_timeout = timeout\<rparr> sent of
        (sent', Inl e) \<Rightarrow> (sent', Inl (Retryable (key @ ''.'' @ failure) (TransportErr e)))
      | (sent', Inr r) \<Rightarrow> (sent', Inr r))"

fun string_value :: "cell \<Rightarrow> val" where
  "string_value (Bytes s) = VStr s"
| "string_value (Cell v) = v"

definition cell_text :: "cell \<Rightarrow> string" where
  "cell_text c = (case string_value c of VStr s \<Rightarrow> s | _ \<Rightarrow> [])"

fun project_row :: "string list \<Rightarrow> cell list \<Rightarrow> obj \<Rightarrow> obj" where
  "project_row (k # ks) (v # vs) m = project_row ks vs (put k (string_value v) m)"
| "project_row _ _ m = m"

definition project_rows :: "sql_result \<Rightarrow> val list" where
  "project_rows r = map (\<lambda>vs. VObj (project_row (sql_columns r) vs [])) (sql_rows r)"

section \<open>The steps of a provider\<close>

record database =
  db_key :: string
  db_driver :: string
  db_validate :: "connection \<Rightarrow> gerr option"
  db_dsn :: "connection \<Rightarrow> secrets \<Rightarrow> string res"
  db_policy :: read_only_policy
  db_list :: string
  db_identity :: string

definition db_permanent :: "string \<Rightarrow> string \<Rightarrow> string \<Rightarrow> gerr" where
  "db_permanent key code message = Permanent (key @ ''.'' @ code) (Msg message)"

definition db_duration :: "connection \<Rightarrow> int" where
  "db_duration c = wrap64 (int_value (at (config c) ''timeout_seconds'') 15 * 1000000000)"

definition db_query ::
  "database \<Rightarrow> sql \<Rightarrow> connection \<Rightarrow> secrets \<Rightarrow> string \<Rightarrow> val list \<Rightarrow> int \<Rightarrow> sql_request list
    \<Rightarrow> sql_request list \<times> (obj \<times> string) res" where
  "db_query D T c ss statement args requested sent =
     (case db_validate D c of
        Some e \<Rightarrow> (sent, Inl e)
      | None \<Rightarrow>
          (let limit = (if requested = 0 then int_value (at (config c) ''max_rows'') 100
                        else requested) in
           if limit < 1 \<or> limit > 1000
           then (sent, Inl (db_permanent (db_key D) ''max_rows_invalid''
                              ''max_rows must be between 1 and 1000''))
           else (case db_dsn D c ss of
             Inl e \<Rightarrow> (sent, Inl e)
           | Inr dsn \<Rightarrow>
               (case client_query (db_driver D) (db_key D) T dsn statement args limit
                       (db_duration c) ''query_failed'' sent of
                  (sent', Inl e) \<Rightarrow> (sent', Inl e)
                | (sent', Inr r) \<Rightarrow>
                    (let rows = project_rows r; n = int (length rows) in
                     (sent', Inr ([(''columns'', VStrs (sql_columns r)), (''rows'', VArr rows),
                                   (''row_count'', VInt n), (''truncated'', VBool (sql_truncated r))],
                                  db_key D @ '':rows:'' @ itoa n)))))))"

definition db_list_tables ::
  "database \<Rightarrow> sql \<Rightarrow> connection \<Rightarrow> secrets \<Rightarrow> int \<Rightarrow> sql_request list
    \<Rightarrow> sql_request list \<times> (obj \<times> string) res" where
  "db_list_tables D T c ss max_rows sent = db_query D T c ss (db_list D) [] max_rows sent"

definition db_sample ::
  "database \<Rightarrow> unicode \<Rightarrow> sql \<Rightarrow> connection \<Rightarrow> secrets \<Rightarrow> string \<Rightarrow> val list \<Rightarrow> int
    \<Rightarrow> sql_request list \<Rightarrow> sql_request list \<times> (obj \<times> string) res" where
  "db_sample D U T c ss input args max_rows sent =
     (let query = trim_space input; code = validate_read_only U query (db_policy D) in
      if code \<noteq> []
      then (sent, Inl (db_permanent (db_key D) code ''query violates read-only policy''))
      else db_query D T c ss query args max_rows sent)"

definition db_test ::
  "database \<Rightarrow> sql \<Rightarrow> connection \<Rightarrow> secrets \<Rightarrow> sql_request list
    \<Rightarrow> sql_request list \<times> (obj \<times> string) res" where
  "db_test D T c ss sent =
     (case db_dsn D c ss of
        Inl e \<Rightarrow> (sent, Inl e)
      | Inr dsn \<Rightarrow>
          (case client_ping (db_driver D) (db_key D) T dsn (db_duration c) sent of
             (s1, Inl e) \<Rightarrow> (s1, Inl e)
           | (s1, Inr _) \<Rightarrow>
               (case client_query (db_driver D) (db_key D) T dsn (db_identity D) [] 1
                       (db_duration c) ''identity_failed'' s1 of
                  (s2, Inl e) \<Rightarrow> (s2, Inl e)
                | (s2, Inr r) \<Rightarrow>
                    (let row = (case sql_rows r of [] \<Rightarrow> [] | x # _ \<Rightarrow> x);
                         name = (case row of [] \<Rightarrow> [] | x # _ \<Rightarrow> cell_text x);
                         us = (case row of x # y # _ \<Rightarrow> cell_text y | _ \<Rightarrow> []) in
                     (s2, Inr ([(''connected'', VBool True), (''database'', VStr name),
                                (''user'', VStr us), (''readonly'', VBool True)],
                               db_key D @ '':'' @ name))))))"

section \<open>MySQL\<close>

text \<open>
  The configuration of the driver. Its other fields are the extension of the record, which
  this code only passes on.
\<close>

record mysql_config =
  my_user :: string
  my_passwd :: string
  my_net :: string
  my_addr :: string
  my_dbname :: string
  my_tls :: string
  my_multi_statements :: bool
  my_all_files :: bool
  my_cleartext :: bool
  my_parse_time :: bool
  my_timeout :: int
  my_read_timeout :: int
  my_write_timeout :: int
  my_params :: "(string \<times> string) list"
  my_utc :: bool

record mysql_connection =
  mc_string :: string
  mc_username :: string
  mc_password :: string
  mc_host :: string
  mc_port :: int
  mc_database :: string
  mc_ssl :: string
  mc_timeout :: int

definition join_host_port :: "string \<Rightarrow> string \<Rightarrow> string" where
  "join_host_port h p = (if CHR '':'' \<in> set h then ''['' @ h @ '']:'' @ p else h @ '':'' @ p)"

definition mysql_tls :: "string \<Rightarrow> string" where
  "mysql_tls m = get_or [] [(''disable'', ''false''), (''preferred'', ''preferred''),
     (''skip-verify'', ''skip-verify''), (''require'', ''true'')] m"

definition harden_mysql :: "int \<Rightarrow> 'z mysql_config_scheme \<Rightarrow> 'z mysql_config_scheme" where
  "harden_mysql timeout d = d\<lparr>my_multi_statements := False, my_all_files := False,
     my_cleartext := False, my_parse_time := True, my_timeout := timeout,
     my_read_timeout := timeout, my_write_timeout := timeout,
     my_params := put ''sql_safe_updates'' ''1''
       (put ''transaction_read_only'' ''ON'' (my_params d)),
     my_utc := True\<rparr>"

definition build_mysql_dsn ::
  "(string \<Rightarrow> 'z mysql_config_scheme option) \<Rightarrow> ('z mysql_config_scheme \<Rightarrow> string)
    \<Rightarrow> 'z mysql_config_scheme \<Rightarrow> mysql_connection \<Rightarrow> string option" where
  "build_mysql_dsn parse_dsn format_dsn new_config mc =
     (let raw = trim_space (mc_string mc) in
      case (if raw \<noteq> [] then parse_dsn raw
            else Some (new_config\<lparr>my_user := trim_space (mc_username mc),
              my_passwd := mc_password mc, my_net := ''tcp'',
              my_addr := join_host_port (trim_space (mc_host mc)) (itoa (mc_port mc)),
              my_dbname := trim_space (mc_database mc), my_tls := mysql_tls (mc_ssl mc)\<rparr>)) of
        None \<Rightarrow> None
      | Some d \<Rightarrow> Some (format_dsn (harden_mysql (mc_timeout mc) d)))"

definition mysql_validate :: "connection \<Rightarrow> gerr option" where
  "mysql_validate c =
     (if \<not> bool_value (at (config c) ''readonly'') True
      then Some (db_permanent ''mysql'' ''readonly_required'' ''readonly must remain enabled'')
      else if secret_ref c ''connection_string'' \<noteq> [] then None
      else if config_text c ''host'' = [] \<or> config_text c ''database'' = []
         \<or> secret_ref c ''username'' = []
      then Some (db_permanent ''mysql'' ''endpoint_credentials_required''
                   ''host, database, and username are required'')
      else let port = int_value (at (config c) ''port'') 3306 in
      if port < 1 \<or> port > 65535
      then Some (db_permanent ''mysql'' ''port_invalid'' ''port is invalid'')
      else if config_default c ''ssl_mode'' ''require''
         \<notin> {''disable'', ''preferred'', ''require'', ''skip-verify''}
      then Some (db_permanent ''mysql'' ''ssl_mode_invalid'' ''ssl_mode is invalid'')
      else None)"

definition mysql_connection_string ::
  "(string \<Rightarrow> 'z mysql_config_scheme option) \<Rightarrow> ('z mysql_config_scheme \<Rightarrow> string)
    \<Rightarrow> 'z mysql_config_scheme \<Rightarrow> connection \<Rightarrow> secrets \<Rightarrow> string res" where
  "mysql_connection_string parse_dsn format_dsn new_config c ss =
     (let us = trim_space (secret ss ''username'');
          cs = trim_space (secret ss ''connection_string'') in
      if cs = [] \<and> us = []
      then Inl (db_permanent ''mysql'' ''username_required'' ''username is required'')
      else (case build_mysql_dsn parse_dsn format_dsn new_config
              \<lparr>mc_string = cs, mc_username = us, mc_password = secret ss ''password'',
               mc_host = config_text c ''host'',
               mc_port = int_value (at (config c) ''port'') 3306,
               mc_database = config_text c ''database'',
               mc_ssl = config_default c ''ssl_mode'' ''require'', mc_timeout = db_duration c\<rparr> of
          None \<Rightarrow> Inl (db_permanent ''mysql'' ''connection_string_invalid''
                         ''connection string is invalid'')
        | Some dsn \<Rightarrow> Inr dsn))"

definition mysql ::
  "(string \<Rightarrow> 'z mysql_config_scheme option) \<Rightarrow> ('z mysql_config_scheme \<Rightarrow> string)
    \<Rightarrow> 'z mysql_config_scheme \<Rightarrow> database" where
  "mysql parse_dsn format_dsn new_config = \<lparr>db_key = ''mysql'', db_driver = ''mysql'',
     db_validate = mysql_validate,
     db_dsn = mysql_connection_string parse_dsn format_dsn new_config,
     db_policy = mysql_policy,
     db_list = ''SELECT TABLE_SCHEMA, TABLE_NAME, TABLE_TYPE FROM information_schema.tables WHERE TABLE_SCHEMA = DATABASE() ORDER BY TABLE_NAME'',
     db_identity = ''SELECT DATABASE(), CURRENT_USER()''\<rparr>"

section \<open>PostgreSQL\<close>

definition postgres_ssl_ok :: "string \<Rightarrow> bool" where
  "postgres_ssl_ok m \<longleftrightarrow>
     m \<in> {''disable'', ''allow'', ''prefer'', ''require'', ''verify-ca'', ''verify-full''}"

definition postgres_validate :: "connection \<Rightarrow> gerr option" where
  "postgres_validate c =
     (if \<not> bool_value (at (config c) ''readonly'') True
      then Some (db_permanent ''postgres'' ''readonly_required'' ''readonly must remain enabled'')
      else if secret_ref c ''connection_string'' \<noteq> [] then None
      else if config_text c ''host'' = [] \<or> config_text c ''database'' = []
      then Some (db_permanent ''postgres'' ''host_database_required''
                   ''host and database are required'')
      else if secret_ref c ''username'' = []
      then Some (db_permanent ''postgres'' ''username_required'' ''username is required'')
      else let port = int_value (at (config c) ''port'') 5432 in
      if port < 1 \<or> port > 65535
      then Some (db_permanent ''postgres'' ''port_invalid'' ''port is invalid'')
      else if \<not> postgres_ssl_ok (config_default c ''ssl_mode'' ''require'')
      then Some (db_permanent ''postgres'' ''ssl_mode_invalid'' ''ssl_mode is invalid'')
      else None)"

definition postgres_harden :: "string \<Rightarrow> string res" where
  "postgres_harden v =
     (let bad = Inl (db_permanent ''postgres'' ''connection_string_invalid''
                       ''connection string is invalid'') in
      case url_parse (trim_space v) of
        None \<Rightarrow> bad
      | Some u \<Rightarrow>
          if host u = [] \<or> (scheme u \<noteq> ''postgres'' \<and> scheme u \<noteq> ''postgresql'') then bad
          else let q = parse_query (raw_query u);
                   m0 = get_value q ''sslmode''; m = (if m0 = [] then ''require'' else m0) in
            if \<not> postgres_ssl_ok m
            then Inl (db_permanent ''postgres'' ''ssl_mode_invalid'' ''ssl_mode is invalid'')
            else Inr (url_string (u\<lparr>raw_query := encode_values
              (put ''application_name'' [''domainry-runtime'']
              (put ''default_query_exec_mode'' [''simple_protocol'']
              (put ''default_transaction_read_only'' [''on'']
              (put ''sslmode'' [m] q))))\<rparr>)))"

definition user_info :: "string \<Rightarrow> string \<Rightarrow> (string \<times> string option) option" where
  "user_info us password = Some (us, if password \<noteq> [] then Some password else None)"

definition postgres_connection_string :: "connection \<Rightarrow> secrets \<Rightarrow> string res" where
  "postgres_connection_string c ss =
     (let raw = trim_space (secret ss ''connection_string'') in
      if raw \<noteq> [] then postgres_harden raw
      else let us = trim_space (secret ss ''username'') in
      if us = []
      then Inl (db_permanent ''postgres'' ''username_required'' ''username is required'')
      else let q0 = [(''sslmode'', [config_default c ''ssl_mode'' ''require'']),
                     (''default_transaction_read_only'', [''on'']),
                     (''default_query_exec_mode'', [''simple_protocol'']),
                     (''application_name'', [''domainry-runtime''])];
               sch = config_text c ''schema'';
               q = (if sch \<noteq> [] then put ''search_path'' [sch] q0 else q0)
        in Inr (url_string (empty_url\<lparr>scheme := ''postgres'',
             host := config_text c ''host'' @ '':'' @ itoa (int_value (at (config c) ''port'') 5432),
             path := config_text c ''database'',
             user := user_info us (secret ss ''password''),
             raw_query := encode_values q\<rparr>)))"

definition postgres :: database where
  "postgres = \<lparr>db_key = ''postgres'', db_driver = ''pgx'', db_validate = postgres_validate,
     db_dsn = postgres_connection_string, db_policy = postgres_policy,
     db_list = ''SELECT table_schema, table_name, table_type FROM information_schema.tables WHERE table_schema NOT IN ('' @ [CHR 0x27] @ ''pg_catalog'' @ [CHR 0x27] @ '', '' @ [CHR 0x27] @ ''information_schema'' @ [CHR 0x27] @ '') ORDER BY table_schema, table_name'',
     db_identity = ''SELECT current_database(), current_user''\<rparr>"

section \<open>SQL Server\<close>

definition sqlserver_validate :: "connection \<Rightarrow> gerr option" where
  "sqlserver_validate c =
     (if \<not> bool_value (at (config c) ''readonly'') True
      then Some (db_permanent ''sqlserver'' ''readonly_required'' ''readonly must remain enabled'')
      else if secret_ref c ''connection_string'' \<noteq> [] then None
      else if config_text c ''host'' = [] \<or> config_text c ''database'' = []
      then Some (db_permanent ''sqlserver'' ''host_database_required''
                   ''host and database are required'')
      else if secret_ref c ''username'' = []
      then Some (db_permanent ''sqlserver'' ''username_required'' ''username is required'')
      else let port = int_value (at (config c) ''port'') 1433 in
      if port < 1 \<or> port > 65535
      then Some (db_permanent ''sqlserver'' ''port_invalid'' ''port is invalid'')
      else None)"

definition sqlserver_harden :: "string \<Rightarrow> string res" where
  "sqlserver_harden v =
     (let bad = Inl (db_permanent ''sqlserver'' ''connection_string_invalid''
                       ''connection string is invalid'') in
      case url_parse (trim_space v) of
        None \<Rightarrow> bad
      | Some u \<Rightarrow>
          if host u = [] \<or> scheme u \<noteq> ''sqlserver'' then bad
          else let q = parse_query (raw_query u) in
            if trim_space (get_value q ''database'') = []
            then Inl (db_permanent ''sqlserver'' ''database_required'' ''database is required'')
            else Inr (url_string (u\<lparr>raw_query := encode_values
              (put ''app name'' [''domainry-runtime'']
              (put ''applicationintent'' [''ReadOnly''] q))\<rparr>)))"

definition sqlserver_connection_string :: "connection \<Rightarrow> secrets \<Rightarrow> string res" where
  "sqlserver_connection_string c ss =
     (let raw = trim_space (secret ss ''connection_string'') in
      if raw \<noteq> [] then sqlserver_harden raw
      else let us = trim_space (secret ss ''username'') in
      if us = []
      then Inl (db_permanent ''sqlserver'' ''username_required'' ''username is required'')
      else let q0 = [(''database'', [config_text c ''database'']),
                     (''app name'', [''domainry-runtime'']),
                     (''applicationintent'', [''ReadOnly'']),
                     (''connection timeout'', [itoa (max 1 (go_div (db_duration c) 1000000000))])];
               q1 = (if bool_value (at (config c) ''encrypt'') True
                     then put ''encrypt'' [''true''] q0 else put ''encrypt'' [''disable''] q0);
               q = (if bool_value (at (config c) ''trust_server_certificate'') False
                    then put ''TrustServerCertificate'' [''true''] q1 else q1)
        in Inr (url_string (empty_url\<lparr>scheme := ''sqlserver'',
             host := join_host_port (config_text c ''host'')
                       (itoa (int_value (at (config c) ''port'') 1433)),
             user := user_info us (secret ss ''password''),
             raw_query := encode_values q\<rparr>)))"

definition sqlserver :: database where
  "sqlserver = \<lparr>db_key = ''sqlserver'', db_driver = ''sqlserver'',
     db_validate = sqlserver_validate, db_dsn = sqlserver_connection_string,
     db_policy = sqlserver_policy,
     db_list = ''SELECT TABLE_SCHEMA, TABLE_NAME, TABLE_TYPE FROM INFORMATION_SCHEMA.TABLES ORDER BY TABLE_SCHEMA, TABLE_NAME'',
     db_identity = ''SELECT DB_NAME(), SYSTEM_USER''\<rparr>"

text \<open>The operations of the three providers.\<close>

definition mysql_query where
  "mysql_query parse_dsn format_dsn new_config = db_query (mysql parse_dsn format_dsn new_config)"
definition mysql_sample where
  "mysql_sample parse_dsn format_dsn new_config = db_sample (mysql parse_dsn format_dsn new_config)"
definition mysql_list where
  "mysql_list parse_dsn format_dsn new_config = db_list_tables (mysql parse_dsn format_dsn new_config)"
definition mysql_test where
  "mysql_test parse_dsn format_dsn new_config = db_test (mysql parse_dsn format_dsn new_config)"

definition postgres_query where "postgres_query = db_query postgres"
definition postgres_sample where "postgres_sample = db_sample postgres"
definition postgres_list where "postgres_list = db_list_tables postgres"
definition postgres_test where "postgres_test = db_test postgres"

definition sqlserver_query where "sqlserver_query = db_query sqlserver"
definition sqlserver_sample where "sqlserver_sample = db_sample sqlserver"
definition sqlserver_list where "sqlserver_list = db_list_tables sqlserver"
definition sqlserver_test where "sqlserver_test = db_test sqlserver"

section \<open>The contract of a read-only database\<close>

text \<open>
  What the steps rely on: the check of the configuration refuses a connection whose
  \<open>readonly\<close> flag is off, checks and connection strings fail permanently, and the policy has
  no rule that would report success.
\<close>

locale read_only_database =
  fixes D :: database
  assumes readonly_flag: "\<not> bool_value (at (config c) ''readonly'') True \<Longrightarrow> db_validate D c \<noteq> None"
    and validate_permanent: "db_validate D c = Some e \<Longrightarrow> is_permanent e"
    and dsn_permanent: "db_dsn D c ss = Inl e \<Longrightarrow> is_permanent e"
    and policy_codes: "\<forall>r \<in> set (keyword_rules (db_policy D)). rule_code r \<noteq> []"
begin

definition query_request :: "connection \<Rightarrow> secrets \<Rightarrow> string \<Rightarrow> sql_request \<Rightarrow> bool" where
  "query_request c ss statement q \<longleftrightarrow> sql_operation q = Query \<and> sql_statement q = statement
     \<and> 1 \<le> sql_max_rows q \<and> sql_max_rows q \<le> 1000 \<and> db_dsn D c ss = Inr (sql_dsn q)
     \<and> bool_value (at (config c) ''readonly'') True"

lemma query_sends:
  assumes "db_query D T c ss statement args requested sent = (sent', r)"
  shows "sent' = sent \<and> (\<exists>e. r = Inl e \<and> is_permanent e) \<or>
    (\<exists>q. sent' = sent @ [q] \<and> query_request c ss statement q \<and>
      (case T sent q of Inl m \<Rightarrow> r = Inl (Retryable (db_key D @ ''.query_failed'') (TransportErr m))
       | Inr _ \<Rightarrow> \<exists>out. r = Inr out))"
proof (cases "db_validate D c")
  case (Some e)
  then show ?thesis using assms validate_permanent [of c] by (auto simp: db_query_def)
next
  case None
  let ?l = "if requested = 0 then int_value (at (config c) ''max_rows'') 100 else requested"
  have ro: "bool_value (at (config c) ''readonly'') True" using readonly_flag [of c] None by blast
  show ?thesis
  proof (cases "?l < 1 \<or> ?l > 1000")
    case True
    then show ?thesis using assms None by (simp add: db_query_def Let_def db_permanent_def) auto
  next
    case False
    show ?thesis
    proof (cases "db_dsn D c ss")
      case (Inl e)
      then show ?thesis using assms None False dsn_permanent [of c ss]
        by (auto simp: db_query_def Let_def)
    next
      case (Inr dsn)
      let ?q = "\<lparr>sql_driver = db_driver D, sql_dsn = dsn, sql_operation = Query,
        sql_statement = statement, sql_arguments = args, sql_max_rows = ?l,
        sql_timeout = db_duration c\<rparr>"
      have "query_request c ss statement ?q"
        using False ro Inr by (simp add: query_request_def)
      moreover have "sent' = sent @ [?q] \<and>
          (case T sent ?q of
            Inl m \<Rightarrow> r = Inl (Retryable (db_key D @ ''.query_failed'') (TransportErr m))
          | Inr _ \<Rightarrow> \<exists>out. r = Inr out)"
        using assms None False Inr
        by (cases "T sent ?q") (simp_all add: db_query_def client_query_def send_def Let_def, blast)
      ultimately show ?thesis by blast
    qed
  qed
qed

lemma sample_sends:
  assumes "db_sample D U T c ss input args requested sent = (sent', r)"
  shows "sent' = sent \<and> (\<exists>e. r = Inl e \<and> is_permanent e) \<or>
    (\<exists>q. sent' = sent @ [q] \<and> query_request c ss (trim_space input) q
      \<and> read_only_statement U (db_policy D) (sql_statement q) \<and>
      (case T sent q of Inl m \<Rightarrow> r = Inl (Retryable (db_key D @ ''.query_failed'') (TransportErr m))
       | Inr _ \<Rightarrow> \<exists>out. r = Inr out))"
proof (cases "validate_read_only U (trim_space input) (db_policy D) = []")
  case True
  then have "read_only_statement U (db_policy D) (trim_space input)"
    using validate_read_only_iff [OF policy_codes] by blast
  then show ?thesis
    using query_sends [of T c ss "trim_space input" args requested sent sent' r] assms True
    by (auto simp: db_sample_def query_request_def)
next
  case False
  then show ?thesis using assms by (auto simp: db_sample_def db_permanent_def)
qed

end

text \<open>A database whose connection strings all have a property \<open>hardened\<close>.\<close>

locale hardened_database = read_only_database +
  fixes hardened :: "string \<Rightarrow> bool"
  assumes dsn_hardened: "db_dsn D c ss = Inr dsn \<Longrightarrow> hardened dsn"
begin

lemma query_hardened:
  assumes "db_query D T c ss statement args requested sent = (sent', r)"
    "q \<in> set sent' - set sent"
  shows "hardened (sql_dsn q)"
  using query_sends [OF assms(1)] assms(2) dsn_hardened by (auto simp: query_request_def)

lemma test_hardened:
  assumes "db_test D T c ss sent = (sent', r)" "q \<in> set sent' - set sent"
  shows "hardened (sql_dsn q)"
  using assms dsn_hardened [of c ss]
  by (auto simp: db_test_def client_ping_def client_query_def send_def Let_def
      split: sum.splits list.splits)

lemma sample_hardened:
  assumes "db_sample D U T c ss input args requested sent = (sent', r)"
    "q \<in> set sent' - set sent"
  shows "hardened (sql_dsn q)"
  using sample_sends [OF assms(1)] assms(2) dsn_hardened by (auto simp: query_request_def)

end

section \<open>The providers keep the contract\<close>

definition mysql_hardened :: "('z mysql_config_scheme \<Rightarrow> string) \<Rightarrow> string \<Rightarrow> bool" where
  "mysql_hardened format_dsn dsn \<longleftrightarrow> (\<exists>d. dsn = format_dsn d \<and> \<not> my_multi_statements d
     \<and> \<not> my_all_files d \<and> \<not> my_cleartext d
     \<and> map_of (my_params d) ''transaction_read_only'' = Some ''ON''
     \<and> map_of (my_params d) ''sql_safe_updates'' = Some ''1'')"

text \<open>A URL whose query, read back, has the given value for a key.\<close>

definition url_with :: "(string \<times> string) list \<Rightarrow> string \<Rightarrow> bool" where
  "url_with kvs dsn \<longleftrightarrow> (\<exists>u. dsn = url_string u \<and>
     (\<forall>(k, v) \<in> set kvs. get_value (parse_query (raw_query u)) k = v))"

definition postgres_hardened :: "string \<Rightarrow> bool" where
  "postgres_hardened = url_with [(''default_transaction_read_only'', ''on''),
     (''default_query_exec_mode'', ''simple_protocol''), (''application_name'', ''domainry-runtime'')]"

definition sqlserver_hardened :: "string \<Rightarrow> bool" where
  "sqlserver_hardened = url_with [(''applicationintent'', ''ReadOnly''),
     (''app name'', ''domainry-runtime'')]"

lemma url_with_encoded:
  assumes "distinct (map fst q)" "\<And>k v. (k, v) \<in> set kvs \<Longrightarrow> get_value q k = v"
  shows "url_with kvs (url_string (u\<lparr>raw_query := encode_values q\<rparr>))"
  unfolding url_with_def
  by (rule exI [of _ "u\<lparr>raw_query := encode_values q\<rparr>"])
    (use assms in \<open>auto simp: get_value_parse_encode\<close>)

lemma get_value_simps [simp]:
  "get_value [] k = []"
  "get_value ((k', vs) # q) k =
    (if k' = k then (case vs of [] \<Rightarrow> [] | v # _ \<Rightarrow> v) else get_value q k)"
  by (simp_all add: get_value_def get_or_def)

lemma postgres_dsn_hardened:
  assumes "postgres_connection_string c ss = Inr dsn"
  shows "postgres_hardened dsn"
  using assms unfolding postgres_connection_string_def postgres_harden_def postgres_hardened_def
  by (auto simp: Let_def db_permanent_def distinct_put distinct_parse_query
      split: if_splits option.splits intro!: url_with_encoded)

lemma sqlserver_dsn_hardened:
  assumes "sqlserver_connection_string c ss = Inr dsn"
  shows "sqlserver_hardened dsn"
  using assms unfolding sqlserver_connection_string_def sqlserver_harden_def sqlserver_hardened_def
  by (auto simp: Let_def db_permanent_def distinct_put distinct_parse_query
      split: if_splits option.splits intro!: url_with_encoded)

lemma mysql_dsn_hardened:
  assumes "mysql_connection_string parse_dsn format_dsn new_config c ss = Inr dsn"
  shows "mysql_hardened format_dsn dsn"
proof -
  have "build_mysql_dsn parse_dsn format_dsn new_config mc = Some dsn \<Longrightarrow>
      \<exists>t d. dsn = format_dsn (harden_mysql t d)" for mc
    by (auto simp: build_mysql_dsn_def Let_def split: option.splits)
  then obtain t d where "dsn = format_dsn (harden_mysql t d)"
    using assms
    by (simp add: mysql_connection_string_def Let_def split: if_splits option.splits) blast+
  then show ?thesis
    unfolding mysql_hardened_def
    by (intro exI [of _ "harden_mysql t d"]) (simp add: harden_mysql_def)
qed

interpretation my: hardened_database "mysql parse_dsn format_dsn new_config" "mysql_hardened format_dsn"
  for parse_dsn :: "string \<Rightarrow> 'z mysql_config_scheme option" and format_dsn new_config
proof
  show "mysql_hardened format_dsn dsn"
    if "db_dsn (mysql parse_dsn format_dsn new_config) c ss = Inr dsn" for c ss dsn
    using that mysql_dsn_hardened [of parse_dsn format_dsn new_config] by (simp add: mysql_def)
qed (auto simp: mysql_def mysql_validate_def mysql_connection_string_def db_permanent_def
    mysql_policy_def Let_def split: if_splits option.splits)

interpretation pg: hardened_database postgres postgres_hardened
proof
  show "postgres_hardened dsn" if "db_dsn postgres c ss = Inr dsn" for c ss dsn
    using that postgres_dsn_hardened by (simp add: postgres_def)
qed (auto simp: postgres_def postgres_validate_def postgres_connection_string_def
    postgres_harden_def db_permanent_def postgres_policy_def Let_def
    split: if_splits option.splits)

interpretation ms: hardened_database sqlserver sqlserver_hardened
proof
  show "sqlserver_hardened dsn" if "db_dsn sqlserver c ss = Inr dsn" for c ss dsn
    using that sqlserver_dsn_hardened by (simp add: sqlserver_def)
qed (auto simp: sqlserver_def sqlserver_validate_def sqlserver_connection_string_def
    sqlserver_harden_def db_permanent_def sqlserver_policy_def Let_def
    split: if_splits option.splits)

section \<open>Properties\<close>

definition sample_pg :: connection where
  "sample_pg = base_connection\<lparr>config := [(''host'', VStr ''db.example''), (''database'', VStr ''app''),
     (''schema'', VStr ''a&b''), (''readonly'', VBool True), (''max_rows'', VFloat (Fin 5 1))],
     secret_refs := [(''username'', ''secret:u'')]\<rparr>"

definition sample_pg_secrets :: secrets where
  "sample_pg_secrets = [(''username'', ''u@x''), (''password'', ''p:w'')]"

definition empty_sql :: sql where
  "empty_sql sent q = Inr \<lparr>sql_columns = [''a''], sql_rows = [[Bytes ''x'']], sql_truncated = False\<rparr>"

text \<open>Enough for a request to be sent, without a look at the connection string itself.\<close>

lemma db_query_sends:
  assumes "db_validate D c = None" "db_dsn D c ss = Inr dsn"
    "int_value (at (config c) ''max_rows'') 100 \<in> {1..1000}"
  shows "fst (db_query D T c ss statement args 0 []) \<noteq> []"
  using assms by (auto simp: db_query_def client_query_def send_def Let_def split: sum.splits)

lemma sample_pg_connects:
  "db_validate postgres sample_pg = None"
  "\<exists>dsn. db_dsn postgres sample_pg sample_pg_secrets = Inr dsn"
  "int_value (at (config sample_pg) ''max_rows'') 100 \<in> {1..1000}"
proof -
  show "db_validate postgres sample_pg = None" by code_simp
  have "trim_space (secret sample_pg_secrets ''connection_string'') = []"
    "trim_space (secret sample_pg_secrets ''username'') = ''u@x''" by code_simp+
  then show "\<exists>dsn. db_dsn postgres sample_pg sample_pg_secrets = Inr dsn"
    by (simp add: postgres_def postgres_connection_string_def Let_def)
  have "int_value (at (config sample_pg) ''max_rows'') 100 = 50" by code_simp
  then show "int_value (at (config sample_pg) ''max_rows'') 100 \<in> {1..1000}" by simp
qed

text \<open>
  C6: a sample query of the MySQL, PostgreSQL or SQL Server provider either fails permanently
  with nothing sent, or sends exactly one query, the trimmed input, and then the input is a
  read-only statement of the dialect, the row limit lies between 1 and 1000 and the
  connection has not switched its read-only flag off; the result is an output, or a retryable
  error when the transport fails.
\<close>
theorem sql_sample_read_only:
  assumes "(run, p) \<in> {(mysql_sample parse_dsn format_dsn new_config, mysql_policy),
      (postgres_sample, postgres_policy), (sqlserver_sample, sqlserver_policy)}"
    and "run U T c ss input args requested sent = (sent', r)"
  shows "sent' = sent \<and> (\<exists>e. r = Inl e \<and> is_permanent e) \<or>
    (\<exists>q. sent' = sent @ [q] \<and> sql_operation q = Query \<and> sql_statement q = trim_space input
      \<and> read_only_statement U p (sql_statement q)
      \<and> 1 \<le> sql_max_rows q \<and> sql_max_rows q \<le> 1000
      \<and> bool_value (at (config c) ''readonly'') True
      \<and> (case T sent q of Inl _ \<Rightarrow> \<exists>e. r = Inl e \<and> is_retryable e | Inr _ \<Rightarrow> \<exists>out. r = Inr out))"
proof -
  have settle: ?thesis if "read_only_database D" "db_policy D = p"
    "db_sample D U T c ss input args requested sent = (sent', r)" for D
    using read_only_database.sample_sends [OF that(1,3)] that(2)
    by (auto simp: read_only_database.query_request_def [OF that(1)] split: sum.splits)
  from assms(1) consider
      "run = mysql_sample parse_dsn format_dsn new_config" "p = mysql_policy"
    | "run = postgres_sample" "p = postgres_policy"
    | "run = sqlserver_sample" "p = sqlserver_policy" by blast
  then show ?thesis
  proof cases
    case 1
    then show ?thesis
      using settle [OF my.read_only_database_axioms] assms(2) by (simp add: mysql_sample_def mysql_def)
  next
    case 2
    then show ?thesis
      using settle [OF pg.read_only_database_axioms] assms(2)
      by (simp add: postgres_sample_def postgres_def)
  next
    case 3
    then show ?thesis
      using settle [OF ms.read_only_database_axioms] assms(2)
      by (simp add: sqlserver_sample_def sqlserver_def)
  qed
qed

theorem sql_sample_read_only_witness:
  "\<exists>q. fst (postgres_sample ascii_only empty_sql sample_pg sample_pg_secrets
      ''select 1;'' [] 0 []) = [q] \<and> read_only_statement ascii_only postgres_policy (sql_statement q)"
proof -
  have "validate_read_only ascii_only (trim_space ''select 1;'') (db_policy postgres) = []"
    by code_simp
  then have ne: "fst (postgres_sample ascii_only empty_sql sample_pg sample_pg_secrets
      ''select 1;'' [] 0 []) \<noteq> []"
    using db_query_sends [OF sample_pg_connects(1) _ sample_pg_connects(3)] sample_pg_connects(2)
    by (auto simp: postgres_sample_def db_sample_def Let_def)
  obtain s r where eq: "postgres_sample ascii_only empty_sql sample_pg sample_pg_secrets
      ''select 1;'' [] 0 [] = (s, r)"
    by (cases "postgres_sample ascii_only empty_sql sample_pg sample_pg_secrets ''select 1;'' [] 0 []")
  have "(postgres_sample, postgres_policy) \<in> {(mysql_sample undefined undefined undefined, mysql_policy),
      (postgres_sample, postgres_policy), (sqlserver_sample, sqlserver_policy)}"
    by simp
  from sql_sample_read_only [OF this eq] show ?thesis using ne eq by auto
qed

text \<open>
  C7: whatever a connection and its secrets hold, every request a provider sends, to test the
  connection, to list tables or to sample a query, goes to a connection string that demands a
  read-only session: the MySQL configuration has multiple statements, local files and clear
  text passwords off and sets \<open>transaction_read_only\<close>; the query of a PostgreSQL URL sets
  \<open>default_transaction_read_only\<close> and that of a SQL Server URL the read-only intent, over any
  value the given connection string has for them.
\<close>
theorem sql_sessions_hardened:
  assumes "(D, hard) \<in> {(mysql parse_dsn format_dsn new_config, mysql_hardened format_dsn),
      (postgres, postgres_hardened), (sqlserver, sqlserver_hardened)}"
    and "q \<in> set (fst (db_test D T c ss [])) \<union> set (fst (db_list_tables D T c ss n []))
      \<union> set (fst (db_sample D U T c ss input args n []))"
  shows "hard (sql_dsn q)"
proof -
  have "hardened_database D hard"
    using assms(1) my.hardened_database_axioms pg.hardened_database_axioms
      ms.hardened_database_axioms by auto
  then show ?thesis
    using assms(2) hardened_database.test_hardened [of D hard T c ss "[]"]
      hardened_database.query_hardened [of D hard T c ss "db_list D" "[]" n "[]"]
      hardened_database.sample_hardened [of D hard U T c ss input args n "[]"]
    by (auto simp: db_list_tables_def) (metis prod.collapse)+
qed

theorem sql_sessions_hardened_witness:
  "postgres_hardened (sql_dsn (hd (fst (db_list_tables postgres empty_sql sample_pg sample_pg_secrets 0 []))))"
proof -
  have "fst (db_list_tables postgres empty_sql sample_pg sample_pg_secrets 0 []) \<noteq> []"
    using db_query_sends [OF sample_pg_connects(1) _ sample_pg_connects(3)] sample_pg_connects(2)
    by (auto simp: db_list_tables_def)
  then show ?thesis
    by (intro sql_sessions_hardened [of postgres postgres_hardened undefined undefined undefined _
        empty_sql sample_pg sample_pg_secrets 0]) simp_all
qed

end
