(* ===== verification/Catalog.thy ===== *)
theory Catalog
  imports GoValue
begin

text \<open>
  The release catalog of official providers: its model
  (\<^verbatim>\<open>internal/domain/connector/model\<close>), the domain service that validates it
  (\<^verbatim>\<open>internal/domain/connector/service\<close>), the embedded repository
  (\<^verbatim>\<open>internal/infrastructure/catalog\<close>) and the application service over a repository
  (\<^verbatim>\<open>internal/application/connector\<close>). The decoder is that of \<^verbatim>\<open>encoding/json\<close> with unknown
  fields refused; of an object or array member given twice only the last is read here.
\<close>

section \<open>The model\<close>

record operation_entry =
  oe_key :: string
  oe_mode :: string
  oe_contract :: string

record provider_verification =
  pv_contract_version :: string
  pv_profile :: string
  pv_mode :: string
  pv_manifest :: string
  pv_suites :: "string list"
  pv_test_command :: string
  pv_isolated_profile :: string
  pv_isolated_command :: string
  pv_live_profile :: string
  pv_live_command :: string
  pv_required_secrets :: "string list"

record provider_entry =
  pe_connector :: string
  pe_provider :: string
  pe_revision :: string
  pe_import_path :: string
  pe_package :: string
  pe_constructor :: string
  pe_descriptor :: string
  pe_verification :: "provider_verification option"
  pe_operations :: "operation_entry list"

record sdk_identity =
  si_version :: string
  si_contract_version :: string
  si_contract_sha256 :: string

record catalog =
  contract_version :: string
  sdk :: sdk_identity
  providers :: "provider_entry list"

definition catalog_contract_version :: string where
  "catalog_contract_version = ''domainry-official-connector-catalog-v2''"

definition identity :: "provider_entry \<Rightarrow> string" where
  "identity p = pe_connector p @ '':'' @ pe_provider p"

datatype catalog_error = DecodeFailed | RepositoryRequired | UnsupportedVersion string
  | EmptyIdentity | DuplicateProvider string | NotSorted string string
  | NoVerification string | OperationsNotSorted string

section \<open>The domain service\<close>

fun strings_sorted :: "string list \<Rightarrow> bool" where
  "strings_sorted (x # y # zs) \<longleftrightarrow> \<not> y < x \<and> strings_sorted (y # zs)"
| "strings_sorted _ = True"

fun check_providers :: "string list \<Rightarrow> string \<Rightarrow> provider_entry list \<Rightarrow> catalog_error option" where
  "check_providers seen previous [] = None"
| "check_providers seen previous (p # ps) =
     (if trim_space (pe_connector p) = [] \<or> trim_space (pe_provider p) = [] then Some EmptyIdentity
      else if identity p \<in> set seen then Some (DuplicateProvider (identity p))
      else if previous \<noteq> [] \<and> identity p < previous then Some (NotSorted previous (identity p))
      else if pe_verification p = None then Some (NoVerification (identity p))
      else if \<not> strings_sorted (map oe_key (pe_operations p))
      then Some (OperationsNotSorted (identity p))
      else check_providers (identity p # seen) (identity p) ps)"

definition validate_catalog :: "catalog \<Rightarrow> catalog_error option" where
  "validate_catalog c =
     (if contract_version c \<noteq> catalog_contract_version
      then Some (UnsupportedVersion (contract_version c))
      else check_providers [] [] (providers c))"

section \<open>The embedded repository\<close>

text \<open>
  Decoding with unknown fields refused: \<open>null\<close> leaves a value as it is, here the zero value,
  and a member is matched with the field of its name up to case.
\<close>

fun strict_members :: "string list \<Rightarrow> json \<Rightarrow> (string \<times> json) list option" where
  "strict_members names (JObj kvs) =
     (if list_all (\<lambda>kv. list_ex (equal_fold (fst kv)) names) kvs then Some kvs else None)"
| "strict_members names JNull = Some []"
| "strict_members names _ = None"

definition last_or :: "'a \<Rightarrow> 'a list \<Rightarrow> 'a" where
  "last_or d xs = (if xs = [] then d else last xs)"

abbreviation and_then :: "'a option \<Rightarrow> ('a \<Rightarrow> 'b option) \<Rightarrow> 'b option" where
  "and_then x f \<equiv> (case x of None \<Rightarrow> None | Some a \<Rightarrow> f a)"

fun decode_array :: "(json \<Rightarrow> 'a option) \<Rightarrow> json \<Rightarrow> 'a list option" where
  "decode_array f (JArr vs) = all_some (map f vs)"
| "decode_array f _ = None"

fun decode_text :: "json \<Rightarrow> string option" where
  "decode_text (JStr s) = Some s"
| "decode_text JNull = Some []"
| "decode_text _ = None"

definition field_list :: "(json \<Rightarrow> 'a option) \<Rightarrow> string \<Rightarrow> (string \<times> json) list \<Rightarrow> 'a list option" where
  "field_list f k kvs = map_option (last_or []) (all_some (map (decode_array f) (field_vals k kvs)))"

definition field_of :: "(json \<Rightarrow> 'a option) \<Rightarrow> 'a \<Rightarrow> string \<Rightarrow> (string \<times> json) list \<Rightarrow> 'a option" where
  "field_of f d k kvs = map_option (last_or d) (all_some (map f (field_vals k kvs)))"

definition field_texts :: "string list \<Rightarrow> (string \<times> json) list \<Rightarrow> string list option" where
  "field_texts ks kvs = all_some (map (\<lambda>k. field_str k kvs) ks)"

definition decode_operation :: "json \<Rightarrow> operation_entry option" where
  "decode_operation j =
     and_then (strict_members [''key'', ''mode'', ''contract_sha256''] j) (\<lambda>kvs.
     and_then (field_texts [''key'', ''mode'', ''contract_sha256''] kvs) (\<lambda>ss.
       Some \<lparr>oe_key = ss ! 0, oe_mode = ss ! 1, oe_contract = ss ! 2\<rparr>))"

definition decode_verification :: "json \<Rightarrow> provider_verification option" where
  "decode_verification j =
     (let names = [''contract_version'', ''profile'', ''mode'', ''manifest_sha256'',
        ''test_command'', ''isolated_profile'', ''isolated_command'', ''live_profile'',
        ''live_command''] in
     and_then (strict_members ([''suites'', ''required_secrets''] @ names) j) (\<lambda>kvs.
     and_then (field_texts names kvs) (\<lambda>ss.
     and_then (field_list decode_text ''suites'' kvs) (\<lambda>suites.
     and_then (field_list decode_text ''required_secrets'' kvs) (\<lambda>secrets.
       Some \<lparr>pv_contract_version = ss ! 0, pv_profile = ss ! 1, pv_mode = ss ! 2,
         pv_manifest = ss ! 3, pv_suites = suites, pv_test_command = ss ! 4,
         pv_isolated_profile = ss ! 5, pv_isolated_command = ss ! 6, pv_live_profile = ss ! 7,
         pv_live_command = ss ! 8, pv_required_secrets = secrets\<rparr>)))))"

definition decode_provider :: "json \<Rightarrow> provider_entry option" where
  "decode_provider j =
     (let names = [''connector_key'', ''provider_key'', ''provider_revision'', ''import_path'',
        ''package_name'', ''constructor'', ''descriptor_sha256''] in
     and_then (strict_members ([''verification'', ''operations''] @ names) j) (\<lambda>kvs.
     and_then (field_texts names kvs) (\<lambda>ss.
     and_then (field_of (map_option Some \<circ> decode_verification) None ''verification'' kvs) (\<lambda>v.
     and_then (field_list decode_operation ''operations'' kvs) (\<lambda>ops.
       Some \<lparr>pe_connector = ss ! 0, pe_provider = ss ! 1, pe_revision = ss ! 2,
         pe_import_path = ss ! 3, pe_package = ss ! 4, pe_constructor = ss ! 5,
         pe_descriptor = ss ! 6, pe_verification = v, pe_operations = ops\<rparr>)))))"

definition decode_sdk :: "json \<Rightarrow> sdk_identity option" where
  "decode_sdk j =
     (let names = [''version'', ''contract_version'', ''contract_sha256''] in
     and_then (strict_members names j) (\<lambda>kvs. and_then (field_texts names kvs) (\<lambda>ss.
       Some \<lparr>si_version = ss ! 0, si_contract_version = ss ! 1, si_contract_sha256 = ss ! 2\<rparr>)))"

definition decode_catalog :: "json \<Rightarrow> catalog option" where
  "decode_catalog j =
     and_then (strict_members [''contract_version'', ''sdk'', ''providers''] j) (\<lambda>kvs.
     and_then (field_str ''contract_version'' kvs) (\<lambda>v.
     and_then (field_of decode_sdk \<lparr>si_version = [], si_contract_version = [],
       si_contract_sha256 = []\<rparr> ''sdk'' kvs) (\<lambda>s.
     and_then (field_list decode_provider ''providers'' kvs) (\<lambda>ps.
       Some \<lparr>contract_version = v, sdk = s, providers = ps\<rparr>))))"

text \<open>\<open>Decoder.Decode\<close> reads the first value of the text and leaves what follows it.\<close>

definition decode_document :: "string \<Rightarrow> catalog_error + catalog" where
  "decode_document raw =
     (case json_val (2 * length raw + 2) (skip_ws raw) of
        None \<Rightarrow> Inl DecodeFailed
      | Some (j, _) \<Rightarrow> (case decode_catalog j of None \<Rightarrow> Inl DecodeFailed | Some c \<Rightarrow> Inr c))"

datatype embedded_repository = Embedded string

fun embedded_load :: "embedded_repository \<Rightarrow> catalog_error + catalog" where
  "embedded_load (Embedded raw) = decode_document raw"

fun embedded_bytes :: "embedded_repository \<Rightarrow> string" where
  "embedded_bytes (Embedded raw) = raw"

section \<open>The application service\<close>

text \<open>Over what a repository loads; \<open>NewCatalogApplicationService\<close> has a nil repository too.\<close>

definition app_catalog :: "catalog_error + catalog \<Rightarrow> catalog_error + catalog" where
  "app_catalog loaded = (case loaded of
     Inl e \<Rightarrow> Inl e
   | Inr c \<Rightarrow> (case validate_catalog c of Some e \<Rightarrow> Inl e | None \<Rightarrow> Inr c))"

definition new_app :: "(catalog_error + catalog) option \<Rightarrow> catalog_error option" where
  "new_app repository = (case repository of
     None \<Rightarrow> Some RepositoryRequired
   | Some loaded \<Rightarrow> (case app_catalog loaded of Inl e \<Rightarrow> Some e | Inr _ \<Rightarrow> None))"

definition app_provider ::
  "catalog_error + catalog \<Rightarrow> string \<Rightarrow> string \<Rightarrow> catalog_error + provider_entry option" where
  "app_provider loaded ck pk = (case app_catalog loaded of
     Inl e \<Rightarrow> Inl e
   | Inr c \<Rightarrow> Inr (find (\<lambda>p. identity p = trim_space ck @ '':'' @ trim_space pk) (providers c)))"

section \<open>What a valid catalog is\<close>

definition provider_ok :: "provider_entry \<Rightarrow> bool" where
  "provider_ok p \<longleftrightarrow> trim_space (pe_connector p) \<noteq> [] \<and> trim_space (pe_provider p) \<noteq> []
     \<and> pe_verification p \<noteq> None \<and> sorted (map oe_key (pe_operations p))"

definition valid_catalog :: "catalog \<Rightarrow> bool" where
  "valid_catalog c \<longleftrightarrow> contract_version c = ''domainry-official-connector-catalog-v2''
     \<and> list_all provider_ok (providers c)
     \<and> sorted_wrt (<) (map identity (providers c))"

lemma strings_sorted_iff: "strings_sorted xs \<longleftrightarrow> sorted xs"
  by (induction xs rule: strings_sorted.induct) (auto simp: not_less dest: order.trans)

lemma empty_not_less: "\<not> s < ([] :: string)"
  by (cases s) simp_all

lemma check_providers_iff:
  assumes "\<forall>s \<in> set seen. s \<le> previous" "previous \<noteq> [] \<Longrightarrow> previous \<in> set seen" "previous = [] \<Longrightarrow> seen = []"
  shows "check_providers seen previous ps = None \<longleftrightarrow>
    list_all provider_ok ps \<and> sorted_wrt (<) (map identity ps)
      \<and> (\<forall>p \<in> set ps. previous = [] \<or> previous < identity p)"
  using assms
proof (induction ps arbitrary: seen previous)
  case Nil
  then show ?case by simp
next
  case (Cons p ps)
  let ?i = "identity p"
  have ne: "?i \<noteq> []" by (simp add: identity_def)
  have fresh: "(?i \<notin> set seen \<and> \<not> (previous \<noteq> [] \<and> ?i < previous)) \<longleftrightarrow>
      previous = [] \<or> previous < ?i"
    using Cons.prems by (metis empty_iff leD list.set(1) not_less_iff_gr_or_eq)
  show ?case
  proof (cases "provider_ok p \<and> (previous = [] \<or> previous < ?i)")
    case False
    then show ?thesis using fresh by (auto simp: provider_ok_def strings_sorted_iff)
  next
    case True
    then have step: "check_providers seen previous (p # ps) = check_providers (?i # seen) ?i ps"
      using fresh by (auto simp: provider_ok_def strings_sorted_iff)
    have le: "\<forall>s \<in> set (?i # seen). s \<le> ?i" "?i \<in> set (?i # seen)"
      using True Cons.prems by (auto intro: order.trans less_imp_le)
    have "previous < identity q" if "previous \<noteq> []" "?i < identity q" for q
      using True that by (metis less_trans)
    then show ?thesis
      unfolding step Cons.IH [OF le(1) _ ] using le(2) ne True
      by (subst Cons.IH) (auto simp: le)
  qed
qed

lemma validate_catalog_iff: "validate_catalog c = None \<longleftrightarrow> valid_catalog c"
  by (auto simp: validate_catalog_def valid_catalog_def catalog_contract_version_def
      check_providers_iff)

lemma valid_distinct: "valid_catalog c \<Longrightarrow> distinct (map identity (providers c))"
  by (simp add: valid_catalog_def strict_sorted_iff)

section \<open>A repository and the service over it\<close>

text \<open>What the service relies on: a repository loads what its bytes decode to.\<close>

locale catalog_repository =
  fixes load :: "'r \<Rightarrow> catalog_error + catalog"
    and bytes :: "'r \<Rightarrow> string"
    and decode :: "string \<Rightarrow> catalog_error + catalog"
  assumes load_bytes: "load r = decode (bytes r)"
begin

lemma started:
  assumes "new_app (Some (load r)) = None"
  obtains c where "decode (bytes r) = Inr c" "valid_catalog c" "app_catalog (load r) = Inr c"
proof (cases "load r")
  case (Inl e)
  then show ?thesis using assms by (simp add: new_app_def app_catalog_def)
next
  case (Inr c)
  then have "validate_catalog c = None"
    using assms by (simp add: new_app_def app_catalog_def split: option.splits)
  then have "valid_catalog c" "app_catalog (load r) = Inr c"
    using Inr by (simp_all add: app_catalog_def flip: validate_catalog_iff)
  then show ?thesis using that [of c] Inr load_bytes [of r] by simp
qed

lemma provider_lookup:
  assumes "new_app (Some (load r)) = None"
  shows "\<exists>c. decode (bytes r) = Inr c \<and> valid_catalog c \<and>
    (\<exists>found. app_provider (load r) ck pk = Inr found \<and>
      (\<forall>p. found = Some p \<longleftrightarrow> p \<in> set (providers c)
        \<and> identity p = trim_space ck @ '':'' @ trim_space pk))"
proof -
  obtain c where c: "decode (bytes r) = Inr c" "valid_catalog c" "app_catalog (load r) = Inr c"
    using started [OF assms] .
  let ?P = "\<lambda>p. identity p = trim_space ck @ '':'' @ trim_space pk"
  have inj: "p = q" if "p \<in> set (providers c)" "q \<in> set (providers c)" "identity p = identity q" for p q
    using valid_distinct [OF c(2)] that by (simp add: distinct_map inj_on_def)
  have "find ?P (providers c) = Some p \<longleftrightarrow> p \<in> set (providers c) \<and> ?P p" for p
  proof
    assume "find ?P (providers c) = Some p"
    then show "p \<in> set (providers c) \<and> ?P p" by (auto simp: find_Some_iff)
  next
    assume p: "p \<in> set (providers c) \<and> ?P p"
    then have "find ?P (providers c) \<noteq> None" by (auto simp: find_None_iff)
    then obtain q where q: "find ?P (providers c) = Some q" by auto
    then have "q \<in> set (providers c)" "?P q" by (auto simp: find_Some_iff)
    then have "q = p" using inj [of q p] p by simp
    with q show "find ?P (providers c) = Some p" by simp
  qed
  then show ?thesis using c by (auto simp: app_provider_def)
qed

lemma same_bytes: "bytes r = bytes s \<Longrightarrow> app_provider (load r) = app_provider (load s)"
  by (simp add: load_bytes)

end

interpretation embedded: catalog_repository embedded_load embedded_bytes decode_document
proof
  show "embedded_load r = decode_document (embedded_bytes r)" for r by (cases r) simp
qed

section \<open>Properties\<close>

definition q1 :: string where
  "q1 = [CHR 0x22]"

definition str_member :: "string \<Rightarrow> string \<Rightarrow> string" where
  "str_member k v = q1 @ k @ q1 @ '':'' @ q1 @ v @ q1"

definition sample_document :: string where
  "sample_document = ''{'' @ str_member ''contract_version'' catalog_contract_version @ '', '' @
     q1 @ ''sdk'' @ q1 @ '':{},'' @ q1 @ ''providers'' @ q1 @ '':[{'' @
     str_member ''connector_key'' ''sms'' @ '','' @ str_member ''provider_key'' ''twilio'' @ '','' @
     q1 @ ''verification'' @ q1 @ '':{},'' @ q1 @ ''operations'' @ q1 @ '':[{'' @
     str_member ''Key'' ''send'' @ ''}]}]}''"

text \<open>
  C9: the catalog service accepts exactly the catalogs of the supported version whose
  providers are named, verified, listed in strictly increasing order of their identity (so
  none twice), with their operations in order.
\<close>
theorem catalog_validate_exact:
  "validate_catalog c = None \<longleftrightarrow>
    contract_version c = ''domainry-official-connector-catalog-v2''
    \<and> sorted_wrt (<) (map identity (providers c))
    \<and> list_all (\<lambda>p. trim_space (pe_connector p) \<noteq> [] \<and> trim_space (pe_provider p) \<noteq> []
        \<and> pe_verification p \<noteq> None \<and> sorted (map oe_key (pe_operations p))) (providers c)"
  unfolding validate_catalog_iff valid_catalog_def provider_ok_def by blast

text \<open>
  C10: a catalog service that could be built over an embedded document serves a valid catalog
  decoded from it, its lookups never fail, and a lookup finds a provider exactly when the
  catalog lists one with the trimmed identity asked for, and then it is the only one.
\<close>
theorem catalog_lookup_exact:
  assumes "new_app (Some (embedded_load R)) = None"
  shows "\<exists>c. decode_document (embedded_bytes R) = Inr c \<and> valid_catalog c \<and>
    (\<exists>found. app_provider (embedded_load R) ck pk = Inr found \<and>
      (\<forall>p. found = Some p \<longleftrightarrow> p \<in> set (providers c)
        \<and> identity p = trim_space ck @ '':'' @ trim_space pk))"
  by (rule embedded.provider_lookup [OF assms])

theorem catalog_lookup_exact_witness:
  "\<exists>c p. decode_document sample_document = Inr c \<and> valid_catalog c \<and>
    app_provider (embedded_load (Embedded sample_document)) '' sms'' ''twilio'' = Inr (Some p)
    \<and> pe_provider p = ''twilio''"
proof -
  have found: "(case app_provider (embedded_load (Embedded sample_document)) '' sms'' ''twilio'' of
      Inr (Some p) \<Rightarrow> pe_provider p = ''twilio'' | _ \<Rightarrow> False)"
    by code_simp
  then have start: "new_app (Some (embedded_load (Embedded sample_document))) = None"
    by (auto simp: new_app_def app_provider_def split: sum.splits)
  obtain c where "decode_document sample_document = Inr c" "valid_catalog c"
    using catalog_lookup_exact [OF start, of "'' sms''" "''twilio''"] by auto
  then show ?thesis using found by (auto split: sum.splits option.splits)
qed

end
