(* ===== verification/ConnectorSchema.thy ===== *)
theory ConnectorSchema
  imports GoValue
begin

text \<open>
  The connector definitions and their validation (\<^verbatim>\<open>catalog/connector_contract.go\<close>,
  \<^verbatim>\<open>catalog/connector_validation.go\<close>, \<^verbatim>\<open>catalog/operation_contract.go\<close> and the loading of
  definitions in \<^verbatim>\<open>catalog/catalog.go\<close>). Regular expressions other than the two fixed
  patterns of the source, e-mail addresses and decimal literals are read by standard library
  parsers that a record of functions stands for.
\<close>

section \<open>The schema\<close>

type_synonym localized = "(string \<times> (string \<times> string) list) list"

record field_validation =
  min_length :: int
  max_length :: int
  fv_min :: "f64 option"
  fv_max :: "f64 option"
  pattern :: string
  options :: "string list"
  target :: string

record field_schema =
  fs_key :: string
  fs_name :: string
  fs_description :: string
  fs_type :: string
  fs_i18n :: localized
  fs_config :: obj
  fs_validation :: field_validation
  fs_options :: val
  fs_required :: bool
  fs_unique :: bool
  fs_default :: val
  fs_default_value :: val
  fs_disabled_at :: string

record provider_schema =
  ps_key :: string
  ps_revision :: string
  ps_name :: string
  ps_description :: string
  ps_i18n :: localized
  config_fields :: "field_schema list"
  secret_fields :: "field_schema list"
  operation_keys :: "string list"
  ps_readiness :: string
  startup_activation :: string

record operation_schema =
  os_key :: string
  os_name :: string
  os_description :: string
  os_i18n :: localized
  http_method :: string
  execution_mode :: string
  side_effect :: string
  op_input :: "field_schema list"
  op_output :: "field_schema list"
  timeout_default :: int
  timeout_max :: int
  idempotency_supported :: bool
  compensation :: string
  test_supported :: bool
  dry_run_supported :: bool

record connector_schema =
  cs_key :: string
  cs_type :: string
  cs_provider :: string
  version :: string
  minimum_runtime :: string
  feature_flags :: "string list"
  source :: string
  classification :: string
  lifecycle_status :: string
  replacement :: string
  cs_name :: string
  cs_description :: string
  cs_i18n :: localized
  capabilities :: "string list"
  cs_providers :: "provider_schema list"
  cs_operations :: "operation_schema list"
  cs_required :: bool
  cs_config_fields :: "string list"
  cs_secret_refs :: "string list"
  cs_readiness :: string
  definition_ready :: bool
  adapter_ready :: bool
  connection_ready :: bool
  cs_config :: obj


section \<open>Keys, versions and names\<close>

definition lower_letter :: "char \<Rightarrow> bool" where
  "lower_letter c \<longleftrightarrow> (let b = byte c in 97 \<le> b \<and> b \<le> 122)"

definition key_char :: "char \<Rightarrow> bool" where
  "key_char c \<longleftrightarrow> lower_letter c \<or> is_digit c \<or> c = CHR ''_'' \<or> c = CHR ''-''"

definition valid_key :: "string \<Rightarrow> bool" where
  "valid_key k \<longleftrightarrow> (case k of [] \<Rightarrow> False
     | c # cs \<Rightarrow> lower_letter c \<and> length cs \<le> 127 \<and> list_all key_char cs)"

definition drop_digits :: "string \<Rightarrow> string option" where
  "drop_digits s = (case s of [] \<Rightarrow> None
     | c # _ \<Rightarrow> if is_digit c then Some (dropWhile is_digit s) else None)"

definition version_tail :: "string \<Rightarrow> bool" where
  "version_tail s \<longleftrightarrow> (case s of [] \<Rightarrow> True
     | c # cs \<Rightarrow> (c = CHR ''-'' \<or> c = CHR ''+'') \<and> cs \<noteq> []
         \<and> list_all (\<lambda>x. is_digit x \<or> lower_letter (lower_char x) \<or> x = CHR ''.'' \<or> x = CHR ''-'') cs)"

definition drop_dot :: "string \<Rightarrow> string option" where
  "drop_dot s = (case s of [] \<Rightarrow> None | c # cs \<Rightarrow> if c = CHR ''.'' then Some cs else None)"

definition valid_version :: "string \<Rightarrow> bool" where
  "valid_version s \<longleftrightarrow>
     (case drop_digits s of None \<Rightarrow> False | Some r1 \<Rightarrow>
     (case drop_dot r1 of None \<Rightarrow> False | Some r2 \<Rightarrow>
     (case drop_digits r2 of None \<Rightarrow> False | Some r3 \<Rightarrow>
     (case drop_dot r3 of None \<Rightarrow> False | Some r4 \<Rightarrow>
     (case drop_digits r4 of None \<Rightarrow> False | Some r5 \<Rightarrow> version_tail r5)))))"

definition value_or_default :: "string \<Rightarrow> string \<Rightarrow> string" where
  "value_or_default v d = (let s = trim_space v in if s \<noteq> [] then s else d)"

definition localized_ok :: "string \<Rightarrow> string \<Rightarrow> localized \<Rightarrow> bool" where
  "localized_ok name description i18n \<longleftrightarrow>
     trim_space name \<noteq> [] \<and> trim_space description \<noteq> [] \<and>
     list_all (\<lambda>locale. let vs = get_or [] i18n locale in
        trim_space (get_or [] vs ''name'') \<noteq> [] \<and> trim_space (get_or [] vs ''description'') \<noteq> [])
       [''en-US'', ''zh-CN'']"

section \<open>Dependencies and empty values\<close>

definition dependency_item :: "val \<Rightarrow> string list" where
  "dependency_item v = (let k = trim_space (sprint v) in
     if v \<noteq> VNil \<and> k \<noteq> [] \<and> k \<noteq> ''<nil>'' then [k] else [])"

fun dependency_keys :: "val \<Rightarrow> string list" where
  "dependency_keys (VArr vs) = concat (map dependency_item vs)"
| "dependency_keys (VStrs ss) = filter (\<lambda>k. k \<noteq> []) (map trim_space ss)"
| "dependency_keys _ = []"


definition requires :: "field_schema \<Rightarrow> string list" where
  "requires f = dependency_keys (at (fs_config f) ''required_with'')"

section \<open>Validation of a definition\<close>

text \<open>
  An error is the fixed text of its message with the key it names; \<open>None\<close> is success. The
  two loops over the fields of a provider run one after the other.
\<close>

type_synonym def_error = "string \<times> string"

definition credential_kinds :: "string list" where
  "credential_kinds = [''api_key'', ''basic_auth_password'', ''bearer_token'', ''certificate'',
     ''connection_string'', ''database_password'', ''generic_secret'', ''identifier'',
     ''oauth_client_secret'', ''private_key'', ''refresh_token'', ''service_account'',
     ''signing_secret'']"

definition secret_field_error :: "field_schema \<Rightarrow> string option" where
  "secret_field_error f =
     (let text = (\<lambda>k. trim_space (sprint (at (fs_config f) k))) in
      if at (fs_config f) ''sensitive'' \<noteq> VBool True \<or> at (fs_config f) ''write_only'' \<noteq> VBool True
      then Some ''must be sensitive and write-only''
      else if text ''credential_kind'' \<notin> set credential_kinds
      then Some ''requires a supported credential kind''
      else if text ''material_format''
         \<notin> {''opaque'', ''text'', ''json_object'', ''pem_or_opaque'', ''pem_or_reference'', ''uri_or_dsn''}
      then Some ''requires a supported material format''
      else if at (fs_config f) ''rotation_policy'' \<noteq> VStr ''manual''
         \<or> text ''expiry_policy'' \<notin> {''none'', ''optional''}
         \<or> text ''test_requirement'' \<notin> {''optional'', ''when_bound''}
      then Some ''requires lifecycle and test policies''
      else None)"

definition config_field_error :: "field_schema \<Rightarrow> string option" where
  "config_field_error f =
     (if fs_key f = ''provider'' then Some ''duplicates top-level provider_key''
      else if fs_type f = ''text'' then
        (if max_length (fs_validation f) \<le> 0 then Some ''requires a maximum length'' else None)
      else if fs_type f = ''integer'' then
        (case (fv_min (fs_validation f), fv_max (fs_validation f)) of
           (Some a, Some b) \<Rightarrow> if f64_less b a then Some ''requires a numeric range'' else None
         | _ \<Rightarrow> Some ''requires a numeric range'')
      else if fs_type f = ''boolean'' then
        (case fs_default f of VBool _ \<Rightarrow> None | _ \<Rightarrow> Some ''requires a boolean default'')
      else if fs_type f = ''json'' then
        (if at (fs_config f) ''json_shape'' \<notin> {VStr ''object'', VStr ''array''}
         then Some ''requires an explicit JSON shape'' else None)
      else None)"

fun check_fields :: "bool \<Rightarrow> string list \<Rightarrow> field_schema list \<Rightarrow> def_error option" where
  "check_fields secret seen [] = None"
| "check_fields secret seen (f # fs) =
     (if \<not> valid_key (fs_key f) then Some (''has invalid field key'', fs_key f)
      else if fs_key f \<in> set seen then Some (''has duplicate field key'', fs_key f)
      else if \<not> localized_ok (fs_name f) (fs_description f) (fs_i18n f)
      then Some (''requires name and description'', fs_key f)
      else (case (if secret then secret_field_error f else config_field_error f) of
        Some e \<Rightarrow> Some (e, fs_key f)
      | None \<Rightarrow> check_fields secret (fs_key f # seen) fs))"

definition bad_dependency :: "string list \<Rightarrow> field_schema \<Rightarrow> string option" where
  "bad_dependency keys f = find (\<lambda>d. d = fs_key f \<or> d \<notin> set keys) (requires f)"

fun check_dependencies :: "string list \<Rightarrow> field_schema list \<Rightarrow> def_error option" where
  "check_dependencies keys [] = None"
| "check_dependencies keys (f # fs) =
     (case bad_dependency keys f of
        Some d \<Rightarrow> Some (''has unknown required_with dependency'', d)
      | None \<Rightarrow> check_dependencies keys fs)"

definition validate_fields :: "field_schema list \<Rightarrow> bool \<Rightarrow> def_error option" where
  "validate_fields fs secret =
     (case check_fields secret [] fs of
        Some e \<Rightarrow> Some e
      | None \<Rightarrow> if secret then None else check_dependencies (map fs_key fs) fs)"

fun check_provider_schemas :: "string list \<Rightarrow> provider_schema list \<Rightarrow> def_error option" where
  "check_provider_schemas seen [] = None"
| "check_provider_schemas seen (p # ps) =
     (if \<not> valid_key (ps_key p) then Some (''has invalid provider key'', ps_key p)
      else if ps_key p \<in> set seen then Some (''has duplicate provider key'', ps_key p)
      else if \<not> localized_ok (ps_name p) (ps_description p) (ps_i18n p)
      then Some (''requires name and description'', ps_key p)
      else (case validate_fields (config_fields p) False of
        Some e \<Rightarrow> Some e
      | None \<Rightarrow> (case validate_fields (secret_fields p) True of
          Some e \<Rightarrow> Some e
        | None \<Rightarrow> check_provider_schemas (ps_key p # seen) ps)))"

definition operation_error :: "operation_schema \<Rightarrow> string option" where
  "operation_error o' =
     (if \<not> localized_ok (os_name o') (os_description o') (os_i18n o')
      then Some ''requires name and description''
      else if http_method o' \<notin> {''DELETE'', ''GET'', ''PATCH'', ''POST'', ''PUT'', ''SMTP''}
      then Some ''has invalid method''
      else if execution_mode o' \<notin> {''sync'', ''async'', ''operation''}
      then Some ''has invalid execution mode''
      else if side_effect o' \<notin> {''read'', ''reserve'', ''write''} then Some ''has invalid side effect''
      else if timeout_default o' \<le> 0 \<or> timeout_max o' \<le> 0 \<or> timeout_default o' > timeout_max o'
      then Some ''has invalid timeout contract''
      else None)"

fun check_operations :: "string list \<Rightarrow> operation_schema list \<Rightarrow> def_error option" where
  "check_operations seen [] = None"
| "check_operations seen (o' # ops) =
     (if \<not> valid_key (os_key o') then Some (''has invalid operation key'', os_key o')
      else if os_key o' \<in> set seen then Some (''has duplicate operation key'', os_key o')
      else (case operation_error o' of
        Some e \<Rightarrow> Some (e, os_key o')
      | None \<Rightarrow> check_operations (os_key o' # seen) ops))"

definition check_compensations :: "operation_schema list \<Rightarrow> def_error option" where
  "check_compensations ops =
     map_option (\<lambda>o'. (''references unknown compensation operation'', os_key o'))
       (find (\<lambda>o'. trim_space (compensation o') \<noteq> []
                  \<and> trim_space (compensation o') \<notin> set (map os_key ops)) ops)"

definition connector_feature_flags :: "connector_schema \<Rightarrow> string list" where
  "connector_feature_flags c = sort ([''provider_catalog'']
     @ (if list_ex (\<lambda>p. config_fields p \<noteq> []) (cs_providers c) then [''typed_config''] else [])
     @ (if list_ex (\<lambda>p. secret_fields p \<noteq> []) (cs_providers c) then [''typed_secrets''] else [])
     @ (if cs_operations c \<noteq> [] then [''operations''] else [])
     @ (if list_ex (\<lambda>o'. os_key o' = ''test_connection'') (cs_operations c)
        then [''connection_test''] else []))"

definition head_error :: "string \<Rightarrow> connector_schema \<Rightarrow> string option" where
  "head_error directory c =
     (if trim_space (cs_key c) = [] then Some ''has no key''
      else if \<not> valid_key (cs_key c) then Some ''has invalid key''
      else if cs_key c \<noteq> directory then Some ''does not match directory''
      else if trim_space (cs_type c) = [] then Some ''has no type''
      else if trim_space (cs_provider c) = [] then Some ''has no provider family''
      else if source c \<noteq> ''connectors:'' @ cs_key c then Some ''has invalid source''
      else if \<not> valid_version (trim_space (version c)) then Some ''has invalid version''
      else if \<not> valid_version (trim_space (minimum_runtime c))
      then Some ''has invalid minimum runtime version''
      else if value_or_default (classification c) ''external_connector''
         \<notin> {''external_connector'', ''mixed'', ''runtime_native''}
      then Some ''has invalid classification''
      else let lifecycle = value_or_default (lifecycle_status c) ''active'' in
      if lifecycle \<notin> {''active'', ''reclassified'', ''retired''} then Some ''has invalid lifecycle status''
      else if lifecycle \<noteq> ''active'' \<and> trim_space (replacement c) = []
      then Some ''requires replacement_capability''
      else if \<not> localized_ok (cs_name c) (cs_description c) (cs_i18n c)
      then Some ''requires name and description''
      else None)"

definition legacy_key :: "string \<Rightarrow> bool" where
  "legacy_key k \<longleftrightarrow> k = ''providers'' \<or> has_suffix (trim_space k) ''_providers''"

definition validate_definition :: "string \<Rightarrow> connector_schema \<Rightarrow> def_error option" where
  "validate_definition directory c =
     (case head_error directory c of Some e \<Rightarrow> Some (e, cs_key c) | None \<Rightarrow>
     (case find legacy_key (map fst (cs_config c)) of
        Some k \<Rightarrow> Some (''keeps legacy provider catalog'', k) | None \<Rightarrow>
     (case check_provider_schemas [] (cs_providers c) of Some e \<Rightarrow> Some e | None \<Rightarrow>
     (case check_operations [] (cs_operations c) of Some e \<Rightarrow> Some e | None \<Rightarrow>
     (case check_compensations (cs_operations c) of Some e \<Rightarrow> Some e | None \<Rightarrow>
       if feature_flags c \<noteq> connector_feature_flags c
       then Some (''feature flags do not match contract'', cs_key c) else None)))))"

section \<open>Loading the definitions\<close>

text \<open>
  The embedded files are given as directories with their texts, in the order of the paths;
  \<open>decode\<close> stands for the reflection of \<^verbatim>\<open>encoding/json\<close> on the schema.
\<close>

fun load_documents :: "(string \<Rightarrow> connector_schema option) \<Rightarrow> (string \<times> string) list
    \<Rightarrow> def_error + (connector_schema \<times> string) list" where
  "load_documents decode [] = Inr []"
| "load_documents decode ((directory, raw) # files) =
     (case decode raw of
        None \<Rightarrow> Inl (''decode Connector definition'', directory)
      | Some c \<Rightarrow> (case validate_definition directory c of
          Some e \<Rightarrow> Inl e
        | None \<Rightarrow> (case load_documents decode files of
            Inl e \<Rightarrow> Inl e
          | Inr rest \<Rightarrow> Inr ((c, raw) # rest))))"

definition load_definitions :: "(string \<Rightarrow> connector_schema option) \<Rightarrow> (string \<times> string) list
    \<Rightarrow> def_error + (connector_schema \<times> string) list" where
  "load_definitions decode files = (case load_documents decode files of
     Inl e \<Rightarrow> Inl e | Inr ds \<Rightarrow> Inr (sort_key (\<lambda>d. cs_key (fst d)) ds))"

definition definitions :: "(string \<Rightarrow> connector_schema option) \<Rightarrow> (string \<times> string) list
    \<Rightarrow> def_error + (string \<times> string \<times> string) list" where
  "definitions decode files = (case load_definitions decode files of
     Inl e \<Rightarrow> Inl e
   | Inr ds \<Rightarrow> Inr (map (\<lambda>(c, raw). (cs_key c,
       (if trim_space (cs_name c) = [] then cs_key c else trim_space (cs_name c)), raw)) ds))"

section \<open>The configuration of a connection\<close>














definition find_provider :: "connector_schema \<Rightarrow> string \<Rightarrow> provider_schema option" where
  "find_provider c pk = find (\<lambda>p. ps_key p = pk) (cs_providers c)"







section \<open>Secret references and operation contracts\<close>

definition named_text :: "string \<Rightarrow> string list" where
  "named_text s = (let t = trim_space s in if t \<noteq> [] \<and> t \<noteq> ''<nil>'' then [t] else [])"

definition required_secret_refs :: "connector_schema \<Rightarrow> string list" where
  "required_secret_refs c = sort (remdups (case at (cs_config c) ''required_secret_refs'' of
     VStrs ss \<Rightarrow> concat (map named_text ss)
   | VArr vs \<Rightarrow> concat (map (named_text \<circ> sprint) vs)
   | VStr s \<Rightarrow> concat (map named_text (split_on (CHR '','') s))
   | _ \<Rightarrow> []))"

definition json_member :: "string \<Rightarrow> string \<Rightarrow> string" where
  "json_member k v = quote_str k @ '':'' @ v"

definition json_object :: "string option list \<Rightarrow> string option" where
  "json_object ms = map_option (\<lambda>ss. ''{'' @ join '','' (filter (\<lambda>s. s \<noteq> []) ss) @ ''}'') (all_some ms)"

text \<open>A member left out when it is empty is the empty text.\<close>

definition optional_any :: "string \<Rightarrow> val \<Rightarrow> string option" where
  "optional_any k v = (if v = VNil then Some [] else map_option (json_member k) (marshal v))"

definition optional_int :: "string \<Rightarrow> int \<Rightarrow> string option" where
  "optional_int k i = Some (if i = 0 then [] else json_member k (itoa i))"

definition optional_float :: "string \<Rightarrow> f64 option \<Rightarrow> string option" where
  "optional_float k x = (case x of None \<Rightarrow> Some [] | Some f \<Rightarrow> map_option (json_member k) (json_float f))"

definition optional_text :: "string \<Rightarrow> string \<Rightarrow> string option" where
  "optional_text k s = Some (if s = [] then [] else json_member k (quote_str s))"

definition json_bool :: "bool \<Rightarrow> string" where
  "json_bool b = (if b then ''true'' else ''false'')"

definition validation_json :: "field_validation \<Rightarrow> string option" where
  "validation_json v = json_object [optional_int ''min_length'' (min_length v),
     optional_int ''max_length'' (max_length v), optional_float ''min'' (fv_min v),
     optional_float ''max'' (fv_max v), optional_text ''pattern'' (pattern v),
     (if options v = [] then Some []
      else Some (json_member ''options'' (''['' @ join '','' (map quote_str (options v)) @ '']''))),
     optional_text ''target'' (target v)]"

definition field_json :: "field_schema \<Rightarrow> string option" where
  "field_json f = json_object [Some (json_member ''key'' (quote_str (fs_key f))),
     Some (json_member ''type'' (quote_str (fs_type f))),
     Some (json_member ''required'' (json_bool (fs_required f))),
     optional_any ''default'' (fs_default f), optional_any ''default_value'' (fs_default_value f),
     map_option (json_member ''validation'') (validation_json (fs_validation f)),
     optional_any ''options'' (fs_options f)]"

definition fields_json :: "field_schema list \<Rightarrow> string option" where
  "fields_json fs = map_option (\<lambda>ss. ''['' @ join '','' ss @ '']'') (all_some (map field_json fs))"

definition contract_json :: "string \<Rightarrow> operation_schema \<Rightarrow> string option" where
  "contract_json ck o' = json_object [Some (json_member ''connector_key'' (quote_str ck)),
     Some (json_member ''key'' (quote_str (os_key o'))),
     Some (json_member ''method'' (quote_str (http_method o'))),
     Some (json_member ''execution_mode'' (quote_str (execution_mode o'))),
     Some (json_member ''side_effect'' (quote_str (side_effect o'))),
     map_option (json_member ''input'') (fields_json (op_input o')),
     map_option (json_member ''output'') (fields_json (op_output o')),
     Some (json_member ''idempotency_supported'' (json_bool (idempotency_supported o'))),
     Some (json_member ''compensation_operation'' (quote_str (compensation o')))]"

text \<open>\<open>sha256_hex\<close> is the digest in hexadecimal, a parameter.\<close>

definition operation_contract :: "(string \<Rightarrow> string) \<Rightarrow> string \<Rightarrow> string \<Rightarrow> operation_schema \<Rightarrow> string option" where
  "operation_contract sha256_hex ck provider o' = map_option sha256_hex (contract_json ck o')"

section \<open>What an accepted definition is\<close>

definition field_ok :: "bool \<Rightarrow> field_schema \<Rightarrow> bool" where
  "field_ok secret f \<longleftrightarrow> valid_key (fs_key f)
     \<and> localized_ok (fs_name f) (fs_description f) (fs_i18n f)
     \<and> (if secret then secret_field_error f else config_field_error f) = None"

definition fields_ok :: "bool \<Rightarrow> field_schema list \<Rightarrow> bool" where
  "fields_ok secret fs \<longleftrightarrow> distinct (map fs_key fs) \<and> list_all (field_ok secret) fs
     \<and> (secret \<or> list_all (\<lambda>f. set (requires f) \<subseteq> set (map fs_key fs) - {fs_key f}) fs)"

definition provider_schema_ok :: "provider_schema \<Rightarrow> bool" where
  "provider_schema_ok p \<longleftrightarrow> valid_key (ps_key p)
     \<and> localized_ok (ps_name p) (ps_description p) (ps_i18n p)
     \<and> fields_ok False (config_fields p) \<and> fields_ok True (secret_fields p)"

definition operation_ok :: "operation_schema \<Rightarrow> bool" where
  "operation_ok o' \<longleftrightarrow> valid_key (os_key o') \<and> operation_error o' = None"

definition definition_ok :: "string \<Rightarrow> connector_schema \<Rightarrow> bool" where
  "definition_ok directory c \<longleftrightarrow> head_error directory c = None
     \<and> (\<forall>k \<in> fst ` set (cs_config c). \<not> legacy_key k)
     \<and> distinct (map ps_key (cs_providers c)) \<and> list_all provider_schema_ok (cs_providers c)
     \<and> distinct (map os_key (cs_operations c)) \<and> list_all operation_ok (cs_operations c)
     \<and> list_all (\<lambda>o'. trim_space (compensation o') \<in> {[]} \<union> set (map os_key (cs_operations c)))
         (cs_operations c)
     \<and> feature_flags c = connector_feature_flags c"

lemma check_fields_iff:
  "check_fields secret seen fs = None \<longleftrightarrow>
    distinct (map fs_key fs) \<and> set (map fs_key fs) \<inter> set seen = {} \<and> list_all (field_ok secret) fs"
proof (induction fs arbitrary: seen)
  case (Cons f fs)
  show ?case
    using Cons.IH [of "fs_key f # seen"] by (cases secret) (auto simp: field_ok_def split: option.splits)
qed simp

lemma bad_dependency_None:
  "bad_dependency keys f = None \<longleftrightarrow> set (requires f) \<subseteq> set keys - {fs_key f}"
  by (auto simp: bad_dependency_def find_None_iff)

lemma check_dependencies_iff:
  "check_dependencies keys fs = None \<longleftrightarrow>
    list_all (\<lambda>f. set (requires f) \<subseteq> set keys - {fs_key f}) fs"
  by (induction fs) (simp_all add: chain_None bad_dependency_None)

lemma validate_fields_iff: "validate_fields fs secret = None \<longleftrightarrow> fields_ok secret fs"
proof -
  have "check_fields secret [] fs = None \<longleftrightarrow> distinct (map fs_key fs) \<and> list_all (field_ok secret) fs"
    by (simp add: check_fields_iff)
  then show ?thesis
    by (cases "check_fields secret [] fs")
      (auto simp: validate_fields_def fields_ok_def check_dependencies_iff)
qed

lemma check_provider_schemas_iff:
  "check_provider_schemas seen ps = None \<longleftrightarrow> distinct (map ps_key ps)
    \<and> set (map ps_key ps) \<inter> set seen = {} \<and> list_all provider_schema_ok ps"
proof (induction ps arbitrary: seen)
  case (Cons p ps)
  have "(case validate_fields (config_fields p) False of Some e \<Rightarrow> Some e
      | None \<Rightarrow> (case validate_fields (secret_fields p) True of Some e \<Rightarrow> Some e | None \<Rightarrow> r)) = None
    \<longleftrightarrow> fields_ok False (config_fields p) \<and> fields_ok True (secret_fields p) \<and> r = None" for r
    by (auto simp: validate_fields_iff [symmetric] split: option.splits)
  then show ?case
    using Cons.IH [of "ps_key p # seen"] by (auto simp: provider_schema_ok_def)
qed simp

lemma check_operations_iff:
  "check_operations seen ops = None \<longleftrightarrow> distinct (map os_key ops)
    \<and> set (map os_key ops) \<inter> set seen = {} \<and> list_all operation_ok ops"
proof (induction ops arbitrary: seen)
  case (Cons o' ops)
  show ?case
    using Cons.IH [of "os_key o' # seen"] by (auto simp: operation_ok_def split: option.splits)
qed simp

lemma check_compensations_iff:
  "check_compensations ops = None \<longleftrightarrow>
    list_all (\<lambda>o'. trim_space (compensation o') \<in> {[]} \<union> set (map os_key ops)) ops"
  by (auto simp: check_compensations_def find_None_iff list_all_iff)

lemma validate_definition_iff: "validate_definition d c = None \<longleftrightarrow> definition_ok d c"
  by (simp add: validate_definition_def definition_ok_def chain_None check_provider_schemas_iff
      check_operations_iff check_compensations_iff find_None_iff)

lemma head_error_key: "head_error d c = None \<Longrightarrow> cs_key c = d"
  by (auto simp: head_error_def split: if_splits)

lemma load_documents_props:
  "load_documents decode files = Inr ds \<Longrightarrow>
    map (\<lambda>d. cs_key (fst d)) ds = map fst files \<and> map snd ds = map snd files
    \<and> list_all (\<lambda>d. definition_ok (cs_key (fst d)) (fst d) \<and> decode (snd d) = Some (fst d)) ds"
proof (induction decode files arbitrary: ds rule: load_documents.induct)
  case (2 decode directory raw files)
  then show ?case
    by (auto split: option.splits sum.splits
        simp: validate_definition_iff dest: head_error_key
        simp flip: definition_ok_def)
      (auto simp: definition_ok_def dest: head_error_key)
qed simp

lemma load_definitions_props:
  assumes "load_definitions decode files = Inr ds" "distinct (map fst files)"
  shows "sorted_wrt (<) (map (\<lambda>d. cs_key (fst d)) ds)"
    and "set (map (\<lambda>d. (cs_key (fst d), snd d)) ds) = set files"
    and "list_all (\<lambda>d. definition_ok (cs_key (fst d)) (fst d) \<and> decode (snd d) = Some (fst d)) ds"
proof -
  let ?k = "\<lambda>d :: connector_schema \<times> string. cs_key (fst d)"
  obtain es where es: "load_documents decode files = Inr es" "ds = sort_key ?k es"
    using assms(1) by (auto simp: load_definitions_def split: sum.splits)
  note props = load_documents_props [OF es(1)]
  have "distinct (map ?k es)" using props assms(2) by simp
  then have "distinct (map ?k ds)" by (simp add: es(2) distinct_map)
  then show "sorted_wrt (<) (map ?k ds)"
    using es(2) by (simp add: strict_sorted_iff)
  have "map (\<lambda>d. (?k d, snd d)) es = zip (map ?k es) (map snd es)"
    by (simp add: zip_map_map zip_same_conv_map)
  also have "\<dots> = files" using props by (simp add: zip_map_fst_snd)
  finally have "set (map (\<lambda>d. (?k d, snd d)) es) = set files" by simp
  then show "set (map (\<lambda>d. (?k d, snd d)) ds) = set files" using es(2) by simp
  show "list_all (\<lambda>d. definition_ok (?k d) (fst d) \<and> decode (snd d) = Some (fst d)) ds"
    using props es(2) by (simp add: list_all_iff)
qed

section \<open>Defaults\<close>











lemma find_provider_member: "find_provider c pk = Some p \<Longrightarrow> p \<in> set (cs_providers c) \<and> ps_key p = pk"
  by (auto simp: find_provider_def find_Some_iff)

section \<open>What an accepted configuration is\<close>









lemma required_secret_refs_sorted:
  "sorted_wrt (<) (required_secret_refs c) \<and> [] \<notin> set (required_secret_refs c)"
  by (auto simp: required_secret_refs_def strict_sorted_iff named_text_def Let_def
      split: val.splits if_splits)

text \<open>The contract of an operation leaves its presentation and its provider out.\<close>

lemma operation_contract_presentation:
  "operation_contract h ck pk (o'\<lparr>os_name := n, os_description := d, os_i18n := i,
     timeout_default := t, timeout_max := t', test_supported := b, dry_run_supported := b'\<rparr>)
    = operation_contract h ck pk' o'"
  by (simp add: operation_contract_def contract_json_def)

section \<open>Properties\<close>

definition sample_i18n :: localized where
  "sample_i18n = [(''en-US'', [(''name'', ''n''), (''description'', ''d'')]),
     (''zh-CN'', [(''name'', ''n''), (''description'', ''d'')])]"

definition sample_validation :: field_validation where
  "sample_validation = \<lparr>min_length = 0, max_length = 5, fv_min = None, fv_max = None, pattern = [],
     options = [], target = []\<rparr>"

definition sample_field :: field_schema where
  "sample_field = \<lparr>fs_key = ''host'', fs_name = ''n'', fs_description = ''d'', fs_type = ''text'',
     fs_i18n = sample_i18n, fs_config = [(''required_with'', VArr [VStr ''port''])],
     fs_validation = sample_validation, fs_options = VNil, fs_required = True, fs_unique = False,
     fs_default = VNil, fs_default_value = VNil, fs_disabled_at = []\<rparr>"

definition port_field :: field_schema where
  "port_field = sample_field\<lparr>fs_key := ''port'', fs_type := ''integer'', fs_config := [],
     fs_default := VFloat (Fin 8 1), fs_required := False, fs_validation := sample_validation\<lparr>
       fv_min := Some (Fin 1 0), fv_max := Some (Fin 65535 0)\<rparr>\<rparr>"

definition sample_provider :: provider_schema where
  "sample_provider = \<lparr>ps_key = ''smtp'', ps_revision = [], ps_name = ''n'', ps_description = ''d'',
     ps_i18n = sample_i18n, config_fields = [port_field, sample_field], secret_fields = [],
     operation_keys = [], ps_readiness = [], startup_activation = []\<rparr>"

definition sample_connector :: connector_schema where
  "sample_connector = \<lparr>cs_key = ''mail'', cs_type = ''http'', cs_provider = ''p'', version = ''1.0.0'',
     minimum_runtime = ''1.0.0'', feature_flags = [''provider_catalog'', ''typed_config''],
     source = ''connectors:mail'', classification = [], lifecycle_status = [], replacement = [],
     cs_name = ''n'', cs_description = ''d'', cs_i18n = sample_i18n, capabilities = [],
     cs_providers = [sample_provider], cs_operations = [], cs_required = False,
     cs_config_fields = [], cs_secret_refs = [], cs_readiness = [], definition_ready = True,
     adapter_ready = True, connection_ready = True, cs_config = []\<rparr>"



lemma sample_definition_valid: "validate_definition ''mail'' sample_connector = None"
  by code_simp



text \<open>
  C12: the definitions that load are those of all the embedded files, each decoded from its
  file and accepted, in strictly increasing order of their keys, which are the names of the
  directories.
\<close>
theorem definitions_ordered:
  assumes "load_definitions decode files = Inr ds" "distinct (map fst files)"
  shows "sorted_wrt (<) (map (\<lambda>d. cs_key (fst d)) ds)
    \<and> set (map (\<lambda>d. (cs_key (fst d), snd d)) ds) = set files
    \<and> list_all (\<lambda>d. definition_ok (cs_key (fst d)) (fst d) \<and> decode (snd d) = Some (fst d)) ds"
  using load_definitions_props [OF assms] by blast

theorem definitions_ordered_witness:
  "definition_ok ''mail'' sample_connector"
proof -
  have "load_definitions (\<lambda>_. Some sample_connector) [(''mail'', ''{}'')] = Inr [(sample_connector, ''{}'')]"
    by (simp add: load_definitions_def sample_definition_valid)
  from definitions_ordered [OF this] show ?thesis by (simp add: sample_connector_def)
qed





end
