(* ===== verification/OAuth2.thy ===== *)
theory OAuth2
  imports Sdk
begin

text \<open>
  The OAuth grants of the providers (\<^verbatim>\<open>internal/oauth2\<close>): the authorization URL with PKCE,
  the exchange of a code, the refresh of a token and client credentials. Tokens, codes and
  client credentials travel in the secret parts of a request only.
\<close>

section \<open>Text helpers of the standard library\<close>

definition b64_digit :: "nat \<Rightarrow> char" where
  "b64_digit n = (if n < 26 then char_of (65 + n) else if n < 52 then char_of (71 + n)
     else if n < 62 then char_of (n - 4) else if n = 62 then CHR ''+'' else CHR ''/'')"

fun base64 :: "string \<Rightarrow> string" where
  "base64 (a # b # c # s) = (let x = byte a; y = byte b; z = byte c in
     [b64_digit (x div 4), b64_digit (x mod 4 * 16 + y div 16),
      b64_digit (y mod 16 * 4 + z div 64), b64_digit (z mod 64)] @ base64 s)"
| "base64 [a, b] = (let x = byte a; y = byte b in
     [b64_digit (x div 4), b64_digit (x mod 4 * 16 + y div 16), b64_digit (y mod 16 * 4), CHR ''=''])"
| "base64 [a] = (let x = byte a in
     [b64_digit (x div 4), b64_digit (x mod 4 * 16), CHR ''='', CHR ''=''])"
| "base64 [] = []"

text \<open>
  The length that \<open>RawURLEncoding.DecodeString\<close> decodes to; line ends are skipped, and four
  digits give three bytes.
\<close>

definition b64url_length :: "string \<Rightarrow> nat option" where
  "b64url_length s = (let t = filter (\<lambda>c. c \<noteq> CHR 0x0D \<and> c \<noteq> CHR 0x0A) s in
     if list_all (\<lambda>c. is_alnum c \<or> c = CHR ''-'' \<or> c = CHR ''_'') t \<and> length t mod 4 \<noteq> 1
     then Some (length t * 6 div 8) else None)"

text \<open>\<open>strings.Fields\<close>.\<close>

function fields_from :: "string \<Rightarrow> string \<Rightarrow> string list" where
  "fields_from cur s =
     (if s = [] then (if cur = [] then [] else [cur])
      else let k = lead_len space_seqs s in
        if k = 0 then fields_from (cur @ [hd s]) (tl s)
        else (if cur = [] then [] else [cur]) @ fields_from [] (drop k s))"
  by pat_completeness auto
termination
  by (relation "measure (length \<circ> snd)") auto

declare fields_from.simps [simp del]

definition string_fields :: "string \<Rightarrow> string list" where
  "string_fields s = fields_from [] s"

text \<open>Members of a JSON document decoded into fields.\<close>

definition document_members :: "string \<Rightarrow> (string \<times> json) list option" where
  "document_members body = (case json_parse body of None \<Rightarrow> None | Some j \<Rightarrow> json_members_of j)"

fun last_number :: "string \<Rightarrow> json list \<Rightarrow> string option" where
  "last_number acc [] = Some acc"
| "last_number acc (JNum s # vs) = last_number s vs"
| "last_number acc (JStr s # vs) =
     (case json_num s of Some (_, rest) \<Rightarrow> if rest = [] then last_number s vs else None | None \<Rightarrow> None)"
| "last_number acc (_ # vs) = None"

definition field_number :: "string \<Rightarrow> (string \<times> json) list \<Rightarrow> string option" where
  "field_number k kvs = last_number [] (field_vals k kvs)"

fun last_pointer :: "string option \<Rightarrow> json list \<Rightarrow> string option option" where
  "last_pointer acc [] = Some acc"
| "last_pointer acc (JStr s # vs) = last_pointer (Some s) vs"
| "last_pointer acc (JNull # vs) = last_pointer None vs"
| "last_pointer acc (_ # vs) = None"

definition field_pointer :: "string \<Rightarrow> (string \<times> json) list \<Rightarrow> string option option" where
  "field_pointer k kvs = last_pointer None (map snd (filter (\<lambda>kv. equal_fold (fst kv) k) kvs))"

section \<open>Authorization\<close>

record authorization_request =
  ar_client_id :: string
  ar_redirect :: string
  ar_state :: string
  ar_challenge :: string
  ar_scopes :: "string list"

definition oauth_endpoint :: "string \<Rightarrow> url option" where
  "oauth_endpoint raw = (case url_parse raw of
     None \<Rightarrow> None
   | Some u \<Rightarrow>
       if host u = [] \<or> user u \<noteq> None \<or> fragment u \<noteq> [] \<or> raw_query u \<noteq> []
          \<or> trim_space raw \<noteq> raw
          \<or> (scheme u \<noteq> ''https'' \<and> \<not> (scheme u = ''http'' \<and> is_loopback (hostname u)))
       then None else Some u)"

definition scope_char :: "char \<Rightarrow> bool" where
  "scope_char c \<longleftrightarrow> (let b = byte c in \<not> (b < 33 \<or> b > 126 \<or> b = 34 \<or> b = 92))"

fun check_scopes :: "string list \<Rightarrow> string list \<Rightarrow> string option" where
  "check_scopes seen [] = None"
| "check_scopes seen (s # ss) =
     (if s = [] \<or> length s > 512 \<or> \<not> valid_utf8 s then Some ''OAuth scope is invalid''
      else if \<not> list_all scope_char s then Some ''OAuth scope is invalid''
      else if s \<in> set seen then Some ''OAuth scope is duplicated''
      else check_scopes (s # seen) ss)"

definition normalize_scopes :: "string list \<Rightarrow> string + string list" where
  "normalize_scopes ss =
     (if ss = [] \<or> length ss > 64 then Inl ''OAuth explicit scopes are required''
      else (case check_scopes [] ss of Some e \<Rightarrow> Inl e | None \<Rightarrow> Inr (sort ss)))"

definition validate_authorization :: "authorization_request \<Rightarrow> string option" where
  "validate_authorization r =
     (if trim_space (ar_client_id r) = [] then Some ''OAuth client ID is required''
      else if oauth_endpoint (ar_redirect r) = None
      then Some ''OAuth callback must use HTTPS or loopback HTTP without userinfo or fragment''
      else if length (ar_state r) < 32 \<or> length (ar_state r) > 512
         \<or> trim_space (ar_state r) \<noteq> ar_state r
      then Some ''OAuth state is invalid''
      else if b64url_length (ar_challenge r) \<noteq> Some 32
      then Some ''OAuth S256 code challenge is required''
      else (case normalize_scopes (ar_scopes r) of Inl e \<Rightarrow> Some e | Inr _ \<Rightarrow> None))"

definition authorization_query :: "authorization_request \<Rightarrow> url_values \<Rightarrow> url_values" where
  "authorization_query r params =
     put ''code_challenge_method'' [''S256'']
     (put ''code_challenge'' [ar_challenge r]
     (put ''state'' [ar_state r]
     (put ''scope'' [join '' '' (ar_scopes r)]
     (put ''redirect_uri'' [ar_redirect r]
     (put ''client_id'' [ar_client_id r]
     (put ''response_type'' [''code'']
     (fold (\<lambda>(k, vs). put k vs) params [])))))))"

definition authorization_url ::
  "string \<Rightarrow> authorization_request \<Rightarrow> url_values \<Rightarrow> string res" where
  "authorization_url endpoint r params =
     (case validate_authorization r of
        Some e \<Rightarrow> Inl (Plain e)
      | None \<Rightarrow> (case oauth_endpoint endpoint of
          None \<Rightarrow> Inl (Plain ''OAuth endpoint is invalid'')
        | Some u \<Rightarrow> Inr (url_string (u\<lparr>raw_query := encode_values (authorization_query r params)\<rparr>))))"

section \<open>The code exchange\<close>

record exchange_request =
  ex_redirect :: string
  ex_scopes :: "string list"
  ex_client_id :: string
  ex_client_secret :: string
  ex_code :: string
  ex_verifier :: string

record oauth_tokens =
  access_token :: string
  refresh_token :: string
  token_type :: string
  granted_scopes :: "string list"
  expires_in :: int

definition verifier_char :: "char \<Rightarrow> bool" where
  "verifier_char c \<longleftrightarrow> is_alnum c \<or> c \<in> set ''-._~''"

definition json_form_headers :: headers where
  "json_form_headers = [(''Accept'', [''application/json'']),
     (''Content-Type'', [''application/x-www-form-urlencoded''])]"

definition exchange_plan :: "bool \<Rightarrow> string \<Rightarrow> exchange_request \<Rightarrow> string \<Rightarrow> gerr + http_request" where
  "exchange_plan has_transport endpoint r pfx =
     (let invalid = Inl (Permanent (pfx @ ''.authorization_configuration_invalid'')
            (Msg ''OAuth code exchange configuration is invalid'')) in
      if \<not> has_transport then invalid
      else if oauth_endpoint endpoint = None then invalid
      else if oauth_endpoint (ex_redirect r) = None then invalid
      else if isl (normalize_scopes (ex_scopes r)) then invalid
      else if trim_space (ex_client_id r) = [] \<or> trim_space (ex_client_secret r) = []
         \<or> trim_space (ex_code r) = [] \<or> length (ex_code r) > 16384
         \<or> length (ex_verifier r) < 43 \<or> length (ex_verifier r) > 128 then invalid
      else if \<not> list_all verifier_char (ex_verifier r) then invalid
      else Inr ((plain_request ''POST'' endpoint json_form_headers
             (encode_values [(''grant_type'', [''authorization_code'']),
                             (''redirect_uri'', [ex_redirect r])]))
        \<lparr>req_secret_form := [(''client_id'', ex_client_id r), (''client_secret'', ex_client_secret r),
           (''code'', ex_code r), (''code_verifier'', ex_verifier r)],
         req_max := 1048576\<rparr>))"

definition exchange_unknown :: "string \<Rightarrow> gerr" where
  "exchange_unknown pfx = Uncertain (pfx @ ''.authorization_exchange_unknown'')
     (Msg ''OAuth authorization code may have been consumed; start a new authorization'')"

definition rejection_codes :: "string list" where
  "rejection_codes = [''invalid_request'', ''invalid_client'', ''invalid_grant'',
     ''unauthorized_client'', ''unsupported_grant_type'', ''invalid_scope'', ''access_denied'']"

definition read_tokens :: "string list \<Rightarrow> string \<Rightarrow> oauth_tokens option" where
  "read_tokens requested body =
     (case document_members body of None \<Rightarrow> None | Some kvs \<Rightarrow>
     (case (field_str ''access_token'' kvs, field_str ''refresh_token'' kvs,
            field_str ''token_type'' kvs, field_pointer ''scope'' kvs, field_number ''expires_in'' kvs) of
        (Some acc, Some ref, Some ty, Some sc, Some ex) \<Rightarrow>
          if trim_space acc = [] \<or> \<not> equal_fold ty ''Bearer'' then None
          else (case (if ex = [] then Some 0 else (case parse_int64 ex of (n, ok) \<Rightarrow>
                   if \<not> ok \<or> n \<le> 0 \<or> n > 31536000 then None else Some n)) of
             None \<Rightarrow> None
           | Some n \<Rightarrow>
               (case (case sc of None \<Rightarrow> normalize_scopes requested
                      | Some s \<Rightarrow> normalize_scopes (string_fields s)) of
                  Inl _ \<Rightarrow> None
                | Inr scopes \<Rightarrow> Some \<lparr>access_token = acc, refresh_token = ref,
                    token_type = ''Bearer'', granted_scopes = scopes, expires_in = n\<rparr>))
      | _ \<Rightarrow> None))"

definition exchange_read ::
  "exchange_request \<Rightarrow> string \<Rightarrow> string + http_response \<Rightarrow> oauth_tokens res" where
  "exchange_read r pfx answer =
     (case answer of
        Inl _ \<Rightarrow> Inl (exchange_unknown pfx)
      | Inr resp \<Rightarrow>
          if length (resp_body resp) > 1048576 then Inl (exchange_unknown pfx)
          else if resp_status resp < 200 \<or> resp_status resp \<ge> 300 then
            (if resp_status resp = 400 \<or> resp_status resp = 401 then
               (case document_members (resp_body resp) of
                  None \<Rightarrow> Inl (exchange_unknown pfx)
                | Some kvs \<Rightarrow> (case field_str ''error'' kvs of
                    None \<Rightarrow> Inl (exchange_unknown pfx)
                  | Some code \<Rightarrow>
                      if code \<in> set rejection_codes
                      then Inl (Permanent (pfx @ ''.authorization_rejected'')
                             (Msg ''OAuth authorization was rejected''))
                      else Inl (exchange_unknown pfx)))
             else Inl (exchange_unknown pfx))
          else (case read_tokens (ex_scopes r) (resp_body resp) of
            None \<Rightarrow> Inl (exchange_unknown pfx) | Some tokens \<Rightarrow> Inr tokens))"

text \<open>The transport is an option: the code refuses a nil one.\<close>

definition exchange_code ::
  "http option \<Rightarrow> string \<Rightarrow> exchange_request \<Rightarrow> string \<Rightarrow> http_request list
    \<Rightarrow> http_request list \<times> oauth_tokens res" where
  "exchange_code transport endpoint r pfx sent =
     (case exchange_plan (transport \<noteq> None) endpoint r pfx of
        Inl e \<Rightarrow> (sent, Inl e)
      | Inr q \<Rightarrow> (case send (the transport) q sent of
          (sent', answer) \<Rightarrow> (sent', exchange_read r pfx answer)))"

section \<open>Refresh and client credentials\<close>

record refresh_request =
  rf_endpoint :: string
  rf_token :: string
  rf_client_id :: string
  rf_client_secret :: string
  rf_scope :: string
  rf_secret_optional :: bool
  rf_authentication :: string
  rf_prefix :: string

record token =
  tk_access :: string
  tk_refresh :: string

definition basic_authorization :: "string \<Rightarrow> string \<Rightarrow> string" where
  "basic_authorization cid cs = ''Basic '' @ base64 (query_escape cid @ '':'' @ query_escape cs)"

definition token_endpoint_ok :: "string \<Rightarrow> bool" where
  "token_endpoint_ok endpoint = (case url_parse (trim_space endpoint) of
     None \<Rightarrow> False
   | Some u \<Rightarrow> host u \<noteq> [] \<and> user u = None
       \<and> (scheme u = ''https'' \<or> (scheme u = ''http'' \<and> is_loopback (hostname u))))"

definition validate_refresh :: "refresh_request \<Rightarrow> string option" where
  "validate_refresh r =
     (if \<not> token_endpoint_ok (rf_endpoint r)
      then Some ''OAuth token endpoint must use HTTPS or loopback HTTP''
      else if trim_space (rf_token r) = [] \<or> trim_space (rf_client_id r) = []
      then Some ''OAuth refresh credentials are required''
      else if trim_space (rf_client_secret r) = []
         \<and> (\<not> rf_secret_optional r \<or> rf_authentication r \<noteq> ''form'')
      then Some ''OAuth client secret is required''
      else if rf_authentication r \<noteq> ''form'' \<and> rf_authentication r \<noteq> ''basic''
      then Some ''OAuth client authentication is unsupported''
      else None)"

definition error_prefix :: "string \<Rightarrow> string" where
  "error_prefix p = (if trim_space p = [] then ''oauth2'' else trim_space p)"

definition scope_form :: "string \<Rightarrow> string \<Rightarrow> url_values" where
  "scope_form grant scope = (if trim_space scope \<noteq> []
     then put ''scope'' [trim_space scope] [(''grant_type'', [grant])]
     else [(''grant_type'', [grant])])"

definition refresh_plan :: "refresh_request \<Rightarrow> gerr + http_request" where
  "refresh_plan r =
     (case validate_refresh r of
        Some e \<Rightarrow> Inl (Permanent (error_prefix (rf_prefix r) @ ''.refresh_configuration_invalid'') (Msg e))
      | None \<Rightarrow>
          (let base = plain_request ''POST'' (trim_space (rf_endpoint r)) json_form_headers
                 (encode_values (scope_form ''refresh_token'' (rf_scope r)))
           in Inr (if rf_authentication r = ''form''
             then base\<lparr>req_secret_form := [(''refresh_token'', rf_token r), (''client_id'', rf_client_id r)]
               @ (if rf_client_secret r \<noteq> [] then [(''client_secret'', rf_client_secret r)] else [])\<rparr>
             else base\<lparr>req_secret_form := [(''refresh_token'', rf_token r)],
               req_secret_headers := [(''Authorization'',
                 [basic_authorization (rf_client_id r) (rf_client_secret r)])]\<rparr>)))"

definition token_read :: "string \<Rightarrow> string \<Rightarrow> bool \<Rightarrow> string + http_response \<Rightarrow> token res" where
  "token_read pfx name with_refresh answer =
     (case answer of
        Inl m \<Rightarrow> Inl (Retryable (pfx @ name @ ''_network_error'') (TransportErr m))
      | Inr resp \<Rightarrow>
          if \<not> ok_status (resp_status resp) then
            (let cause = Msg (''OAuth token endpoint returned HTTP '' @ itoa (resp_status resp)) in
             if resp_status resp = 429 \<or> resp_status resp \<ge> 500
             then Inl (Retryable (pfx @ name @ ''_http_'' @ itoa (resp_status resp)) cause)
             else Inl (Permanent (pfx @ name @ ''_rejected'') cause))
          else (case document_members (resp_body resp) of
            None \<Rightarrow> Inl (Permanent (pfx @ name @ ''_response_invalid'') (Msg ''OAuth token response is invalid''))
          | Some kvs \<Rightarrow>
              (case (field_str ''access_token'' kvs,
                     if with_refresh then field_str ''refresh_token'' kvs else Some []) of
                 (Some acc, Some ref) \<Rightarrow>
                   if trim_space acc = []
                   then Inl (Permanent (pfx @ name @ ''_response_invalid'')
                          (Msg ''OAuth token response is invalid''))
                   else Inr \<lparr>tk_access = trim_space acc, tk_refresh = trim_space ref\<rparr>
               | _ \<Rightarrow> Inl (Permanent (pfx @ name @ ''_response_invalid'')
                          (Msg ''OAuth token response is invalid'')))))"

definition refresh ::
  "http option \<Rightarrow> refresh_request \<Rightarrow> http_request list \<Rightarrow> http_request list \<times> token res" where
  "refresh transport r sent =
     (case transport of
        None \<Rightarrow> (sent, Inl (Plain ''OAuth transport is required''))
      | Some T \<Rightarrow> (case refresh_plan r of
          Inl e \<Rightarrow> (sent, Inl e)
        | Inr q \<Rightarrow> (case send T q sent of
            (sent', answer) \<Rightarrow>
              (sent', token_read (error_prefix (rf_prefix r)) ''.refresh'' True answer))))"

record credentials_request =
  cc_endpoint :: string
  cc_client_id :: string
  cc_client_secret :: string
  cc_scope :: string
  cc_prefix :: string
  cc_authentication :: string

definition credentials_plan :: "credentials_request \<Rightarrow> gerr + http_request" where
  "credentials_plan r =
     (let code = error_prefix (cc_prefix r) @ ''.client_credentials_configuration_invalid'' in
      if \<not> token_endpoint_ok (cc_endpoint r) \<or> trim_space (cc_client_id r) = []
         \<or> trim_space (cc_client_secret r) = []
      then Inl (Permanent code (Msg ''valid endpoint and client credentials are required''))
      else let base = (plain_request ''POST'' (url_string (the (url_parse (trim_space (cc_endpoint r)))))
             json_form_headers (encode_values (scope_form ''client_credentials'' (cc_scope r))))
             \<lparr>req_max := 1048576\<rparr> in
      if cc_authentication r = [] \<or> cc_authentication r = ''form''
      then Inr (base\<lparr>req_secret_form := [(''client_id'', cc_client_id r),
             (''client_secret'', cc_client_secret r)]\<rparr>)
      else if cc_authentication r = ''basic''
      then Inr (base\<lparr>req_secret_headers := [(''Authorization'',
             [basic_authorization (cc_client_id r) (cc_client_secret r)])]\<rparr>)
      else Inl (Permanent code (Msg ''unsupported token endpoint authentication method'')))"

definition client_credentials ::
  "http option \<Rightarrow> credentials_request \<Rightarrow> http_request list \<Rightarrow> http_request list \<times> token res" where
  "client_credentials transport r sent =
     (case transport of
        None \<Rightarrow> (sent, Inl (Plain ''OAuth transport is required''))
      | Some T \<Rightarrow> (case credentials_plan r of
          Inl e \<Rightarrow> (sent, Inl e)
        | Inr q \<Rightarrow> (case send T q sent of
            (sent', answer) \<Rightarrow>
              (sent', token_read (error_prefix (cc_prefix r)) ''.client_credentials'' False answer))))"

section \<open>One request each\<close>

interpretation exchange: one_request
  "\<lambda>T. exchange_code (Some T) endpoint r pfx" "map_sum Inl id (exchange_plan True endpoint r pfx)"
  "exchange_read r pfx"
  for endpoint r pfx
  by unfold_locales (simp add: exchange_code_def run_plan_def send_def split: sum.splits)

interpretation refreshing: one_request
  "\<lambda>T. refresh (Some T) r" "map_sum Inl id (refresh_plan r)" "token_read (error_prefix (rf_prefix r)) ''.refresh'' True"
  for r
  by unfold_locales (simp add: refresh_def run_plan_def send_def split: sum.splits)

interpretation credentials: one_request
  "\<lambda>T. client_credentials (Some T) r" "map_sum Inl id (credentials_plan r)"
  "token_read (error_prefix (cc_prefix r)) ''.client_credentials'' False"
  for r
  by unfold_locales (simp add: client_credentials_def run_plan_def send_def split: sum.splits)

section \<open>Lemmas on the grants\<close>

lemma distinct_put_all:
  "distinct (map fst q) \<Longrightarrow> distinct (map fst (fold (\<lambda>(k, vs). put k vs) ps q))"
  by (induction ps arbitrary: q) (auto simp: distinct_put)

lemma authorization_query_distinct: "distinct (map fst (authorization_query r params))"
  by (simp add: authorization_query_def distinct_put distinct_put_all)

lemma oauth_endpoint_safe:
  "oauth_endpoint raw = Some u \<Longrightarrow> host u \<noteq> [] \<and> user u = None \<and> fragment u = []
    \<and> (scheme u = ''https'' \<or> scheme u = ''http'' \<and> is_loopback (hostname u))"
  by (cases "user u") (auto simp: oauth_endpoint_def split: option.splits if_splits)

lemma check_scopes_iff:
  "check_scopes seen ss = None \<longleftrightarrow> distinct ss \<and> set ss \<inter> set seen = {}
    \<and> list_all (\<lambda>s. s \<noteq> [] \<and> length s \<le> 512 \<and> valid_utf8 s \<and> list_all scope_char s) ss"
proof (induction ss arbitrary: seen)
  case (Cons s ss)
  show ?case using Cons.IH [of "s # seen"] by auto
qed simp

lemma normalize_scopes_props:
  "normalize_scopes ss = Inr rs \<Longrightarrow> sorted_wrt (<) rs \<and> set rs = set ss \<and> rs \<noteq> []
    \<and> list_all (list_all scope_char) rs"
proof -
  assume n: "normalize_scopes ss = Inr rs"
  then have ok: "ss \<noteq> []" "check_scopes [] ss = None" "rs = sort ss"
    by (auto simp: normalize_scopes_def split: if_splits option.splits)
  then have "distinct ss" "list_all (list_all scope_char) ss"
    by (auto simp: check_scopes_iff list_all_iff)
  moreover have "sort ss \<noteq> []" using ok(1) by (metis set_empty set_sort)
  ultimately show ?thesis using ok by (simp add: strict_sorted_iff list_all_iff)
qed

definition tokens_ok :: "oauth_tokens \<Rightarrow> bool" where
  "tokens_ok t \<longleftrightarrow> trim_space (access_token t) \<noteq> [] \<and> token_type t = ''Bearer''
     \<and> 0 \<le> expires_in t \<and> expires_in t \<le> 31536000 \<and> granted_scopes t \<noteq> []
     \<and> sorted_wrt (<) (granted_scopes t)"

lemma read_tokens_ok: "read_tokens ss body = Some t \<Longrightarrow> tokens_ok t"
proof -
  assume r: "read_tokens ss body = Some t"
  then obtain kvs acc ref ty sc ex n rs where
    f: "document_members body = Some kvs" "field_str ''access_token'' kvs = Some acc"
      "field_str ''refresh_token'' kvs = Some ref" "field_str ''token_type'' kvs = Some ty"
      "field_pointer ''scope'' kvs = Some sc" "field_number ''expires_in'' kvs = Some ex"
    and acc: "trim_space acc \<noteq> []"
    and n: "(if ex = [] then Some 0 else (case parse_int64 ex of (n, ok) \<Rightarrow>
                   if \<not> ok \<or> n \<le> 0 \<or> n > 31536000 then None else Some n)) = Some n"
    and rs: "(case sc of None \<Rightarrow> normalize_scopes ss | Some s \<Rightarrow> normalize_scopes (string_fields s)) = Inr rs"
    and t: "t = \<lparr>access_token = acc, refresh_token = ref, token_type = ''Bearer'',
      granted_scopes = rs, expires_in = n\<rparr>"
    unfolding read_tokens_def by (auto split: option.splits if_splits sum.splits)
  have "0 \<le> n \<and> n \<le> 31536000" using n by (auto split: if_splits prod.splits)
  moreover have "rs \<noteq> [] \<and> sorted_wrt (<) rs"
    using rs normalize_scopes_props by (auto split: option.splits)
  ultimately show ?thesis using acc by (simp add: t tokens_ok_def)
qed

lemma exchange_read_cases:
  "case exchange_read r pfx answer of
     Inr t \<Rightarrow> tokens_ok t \<and> (\<exists>resp. answer = Inr resp \<and> ok_status (resp_status resp))
   | Inl e \<Rightarrow> e = exchange_unknown pfx
       \<or> (is_permanent e \<and> (\<exists>resp. answer = Inr resp \<and> resp_status resp \<in> {400, 401}))"
proof (cases answer)
  case (Inl m)
  then show ?thesis by (simp add: exchange_read_def)
next
  case (Inr resp)
  then show ?thesis
    by (auto simp: exchange_read_def ok_status_def read_tokens_ok split: option.splits)
qed

lemma exchange_plan_permanent: "exchange_plan b endpoint r pfx = Inl e \<Longrightarrow> is_permanent e"
  by (auto simp: exchange_plan_def Let_def split: if_splits)

section \<open>Properties\<close>

definition sample_authorization :: authorization_request where
  "sample_authorization = \<lparr>ar_client_id = ''app'', ar_redirect = ''http://localhost/cb'',
     ar_state = replicate 32 (CHR ''s''), ar_challenge = replicate 43 (CHR ''A''),
     ar_scopes = [''mail'']\<rparr>"

definition sample_exchange :: exchange_request where
  "sample_exchange = \<lparr>ex_redirect = ''https://a.b/'', ex_scopes = [''mail''], ex_client_id = ''app'',
     ex_client_secret = ''s3'', ex_code = ''c0de'', ex_verifier = replicate 43 (CHR ''v'')\<rparr>"

definition sample_refresh :: refresh_request where
  "sample_refresh = \<lparr>rf_endpoint = ''https://a.b/'', rf_token = ''r'', rf_client_id = ''app'',
     rf_client_secret = ''s3'', rf_scope = [], rf_secret_optional = False,
     rf_authentication = ''basic'', rf_prefix = []\<rparr>"

text \<open>
  C16: an authorization URL that is built stays on the given endpoint, which uses HTTPS or
  loopback HTTP and carries no credentials, and the query of the URL, read back, has exactly
  the fixed values of the code flow with PKCE: parameters of a provider cannot override them.
\<close>
theorem oauth_url_keeps_pkce:
  assumes "authorization_url endpoint r params = Inr s"
  shows "\<exists>u. s = url_string u \<and> host u \<noteq> [] \<and> user u = None
    \<and> (scheme u = ''https'' \<or> scheme u = ''http'' \<and> is_loopback (hostname u))
    \<and> (let q = parse_query (raw_query u) in
        get_or [] q ''response_type'' = [''code''] \<and> get_or [] q ''client_id'' = [ar_client_id r]
        \<and> get_or [] q ''redirect_uri'' = [ar_redirect r] \<and> get_or [] q ''state'' = [ar_state r]
        \<and> get_or [] q ''scope'' = [join '' '' (ar_scopes r)]
        \<and> get_or [] q ''code_challenge'' = [ar_challenge r]
        \<and> get_or [] q ''code_challenge_method'' = [''S256''])"
proof -
  obtain u where u: "oauth_endpoint endpoint = Some u"
    "s = url_string (u\<lparr>raw_query := encode_values (authorization_query r params)\<rparr>)"
    using assms by (auto simp: authorization_url_def split: option.splits)
  let ?u = "u\<lparr>raw_query := encode_values (authorization_query r params)\<rparr>"
  have "get_or [] (parse_query (raw_query ?u)) k = get_or [] (authorization_query r params) k" for k
    by (simp add: get_parse_encode authorization_query_distinct)
  moreover have "hostname ?u = hostname u" by (simp add: hostname_def)
  ultimately show ?thesis
    using u oauth_endpoint_safe [OF u(1)]
    by (intro exI [of _ ?u]) (simp add: authorization_query_def get_or_put Let_def)
qed

theorem oauth_url_keeps_pkce_witness:
  "\<exists>s u. authorization_url ''https://id.example/auth'' sample_authorization
      [(''response_type'', [''token''])] = Inr s \<and> s = url_string u
    \<and> get_or [] (parse_query (raw_query u)) ''response_type'' = [''code'']"
proof -
  have "validate_authorization sample_authorization = None" by code_simp
  moreover have "oauth_endpoint ''https://id.example/auth'' \<noteq> None" by code_simp
  ultimately obtain s where s: "authorization_url ''https://id.example/auth'' sample_authorization
      [(''response_type'', [''token''])] = Inr s"
    by (auto simp: authorization_url_def)
  from oauth_url_keeps_pkce [OF this] s show ?thesis by (auto simp: Let_def)
qed

text \<open>
  C15: the exchange of a code sends at most one request. Refused without one, it fails
  permanently; once sent, it ends in tokens that are well formed, in the uncertain outcome,
  or, on a 400 or 401, in a permanent rejection; it never asks for a retry, which could use
  the code a second time.
\<close>
theorem oauth_exchange_outcome:
  assumes "exchange_code transport endpoint r pfx sent = (sent', res)"
  shows "sent' = sent \<and> (\<exists>e. res = Inl e \<and> is_permanent e) \<or>
    (\<exists>T q. transport = Some T \<and> sent' = sent @ [q] \<and>
      (case res of
         Inr t \<Rightarrow> tokens_ok t \<and> (\<exists>resp. T sent q = Inr resp \<and> ok_status (resp_status resp))
       | Inl e \<Rightarrow> is_uncertain e
           \<or> is_permanent e \<and> (\<exists>resp. T sent q = Inr resp \<and> resp_status resp \<in> {400, 401})))"
proof (cases transport)
  case None
  then show ?thesis
    using assms by (auto simp: exchange_code_def exchange_plan_def Let_def)
next
  case (Some T)
  show ?thesis
  proof (cases "exchange_plan True endpoint r pfx")
    case (Inl e)
    then show ?thesis
      using assms Some exchange_plan_permanent [OF Inl]
      by (auto simp: exchange.op_plan run_plan_def)
  next
    case (Inr q)
    then have "sent' = sent @ [q]" "res = exchange_read r pfx (T sent q)"
      using assms Some by (simp_all add: exchange.op_plan run_plan_def)
    then show ?thesis
      using Some exchange_read_cases [where r = r and pfx = pfx and answer = "T sent q"]
      by (auto simp: exchange_unknown_def split: sum.splits)
  qed
qed

theorem oauth_exchange_outcome_witness:
  "\<exists>e. snd (exchange_code (Some dead_http) ''https://a.b/'' sample_exchange ''p'' []) = Inl e
    \<and> is_uncertain e"
proof -
  have plan: "\<not> isl (exchange_plan True ''https://a.b/'' sample_exchange ''p'')" by code_simp
  then have "fst (exchange_code (Some dead_http) ''https://a.b/'' sample_exchange ''p'' []) \<noteq> []"
    by (auto simp: exchange_code_def send_def split: sum.splits)
  moreover obtain s r where eq: "exchange_code (Some dead_http) ''https://a.b/'' sample_exchange ''p'' [] = (s, r)"
    by (cases "exchange_code (Some dead_http) ''https://a.b/'' sample_exchange ''p'' []")
  ultimately show ?thesis
    using oauth_exchange_outcome [OF eq] by (cases r) (auto simp: dead_http_def)
qed

text \<open>
  C17: tokens, codes and client credentials do not show in the public part of a token
  request: two refreshes, two credential grants or two exchanges that differ in their secrets
  only, and that are sent at all, send the same public request, over any transports.
\<close>
theorem oauth_secrets_hidden:
  "(fst (refresh (Some T) r []) = [q] \<and>
     fst (refresh (Some T') (r\<lparr>rf_token := tok, rf_client_id := cid, rf_client_secret := cs\<rparr>) []) = [q']
     \<longrightarrow> public_part q = public_part q')
    \<and> (fst (client_credentials (Some T) c []) = [q] \<and>
     fst (client_credentials (Some T') (c\<lparr>cc_client_id := cid, cc_client_secret := cs\<rparr>) []) = [q']
     \<longrightarrow> public_part q = public_part q')
    \<and> (fst (exchange_code (Some T) endpoint x pfx []) = [q] \<and>
     fst (exchange_code (Some T') endpoint (x\<lparr>ex_client_id := cid, ex_client_secret := cs,
       ex_code := code, ex_verifier := ver\<rparr>) pfx []) = [q']
     \<longrightarrow> public_part q = public_part q')"
proof (intro conjI)
  show "fst (refresh (Some T) r []) = [q] \<and>
     fst (refresh (Some T') (r\<lparr>rf_token := tok, rf_client_id := cid, rf_client_secret := cs\<rparr>) []) = [q']
     \<longrightarrow> public_part q = public_part q'"
    by (auto simp: refreshing.op_plan run_plan_def refresh_plan_def Let_def public_part_def
        plain_request_def split: sum.splits option.splits if_splits)
  show "fst (client_credentials (Some T) c []) = [q] \<and>
     fst (client_credentials (Some T') (c\<lparr>cc_client_id := cid, cc_client_secret := cs\<rparr>) []) = [q']
     \<longrightarrow> public_part q = public_part q'"
    by (auto simp: credentials.op_plan run_plan_def credentials_plan_def Let_def public_part_def
        plain_request_def split: sum.splits if_splits)
  show "fst (exchange_code (Some T) endpoint x pfx []) = [q] \<and>
     fst (exchange_code (Some T') endpoint (x\<lparr>ex_client_id := cid, ex_client_secret := cs,
       ex_code := code, ex_verifier := ver\<rparr>) pfx []) = [q']
     \<longrightarrow> public_part q = public_part q'"
    by (auto simp: exchange.op_plan run_plan_def exchange_plan_def Let_def public_part_def
        plain_request_def split: sum.splits if_splits)
qed

theorem oauth_secrets_hidden_witness:
  "\<exists>q q'. fst (refresh (Some dead_http) sample_refresh []) = [q]
    \<and> fst (refresh (Some dead_http) (sample_refresh\<lparr>rf_token := ''other'', rf_client_id := ''x'',
        rf_client_secret := ''y''\<rparr>) []) = [q'] \<and> public_part q = public_part q'"
proof -
  let ?r = "sample_refresh\<lparr>rf_token := ''other'', rf_client_id := ''x'', rf_client_secret := ''y''\<rparr>"
  have "validate_refresh sample_refresh = None" "validate_refresh ?r = None" by code_simp+
  then obtain q q' where "fst (refresh (Some dead_http) sample_refresh []) = [q]"
    "fst (refresh (Some dead_http) ?r []) = [q']"
    by (simp add: refreshing.op_plan run_plan_def refresh_plan_def Let_def)
  then show ?thesis
    using oauth_secrets_hidden [where T = dead_http and T' = dead_http and r = sample_refresh
        and q = q and q' = q' and tok = "''other''" and cid = "''x''" and cs = "''y''"]
    by blast
qed

end
