(* ===== verification/Crypto.thy ===== *)
theory Crypto
  imports GoBase "HOL-Library.Word"
begin

text \<open>
  The digests of the standard library that the connectors sign and verify with:
  \<^verbatim>\<open>crypto/sha1\<close>, \<^verbatim>\<open>crypto/sha256\<close>, \<^verbatim>\<open>crypto/hmac\<close> and \<^verbatim>\<open>encoding/hex\<close>, on 32-bit words
  with wrapping addition as the standards define them.
\<close>

unbundle bit_operations_syntax

section \<open>Blocks\<close>

definition ror :: "nat \<Rightarrow> 32 word \<Rightarrow> 32 word" where
  "ror n x = drop_bit n x OR push_bit (32 - n) x"

definition rol :: "nat \<Rightarrow> 32 word \<Rightarrow> 32 word" where
  "rol n x = push_bit n x OR drop_bit (32 - n) x"

fun be_words :: "string \<Rightarrow> 32 word list" where
  "be_words (a # b # c # d # s) =
     word_of_nat (((of_char a * 256 + of_char b) * 256 + of_char c) * 256 + of_char d) # be_words s"
| "be_words _ = []"

definition be_bytes :: "32 word \<Rightarrow> string" where
  "be_bytes w = (let n = unat w in
     [char_of (n div 16777216), char_of (n div 65536 mod 256), char_of (n div 256 mod 256),
      char_of (n mod 256)])"

text \<open>The message, a one bit, zeros, and the length in bits in eight bytes.\<close>

definition pad_blocks :: "string \<Rightarrow> string" where
  "pad_blocks s = s @ CHR 0x80 # replicate ((119 - length s mod 64) mod 64) (CHR 0x00)
     @ be_bytes (word_of_nat (8 * length s div 4294967296)) @ be_bytes (word_of_nat (8 * length s))"

fun blocks :: "nat \<Rightarrow> 'a list \<Rightarrow> 'a list list" where
  "blocks 0 xs = []"
| "blocks (Suc n) xs = take 16 xs # blocks n (drop 16 xs)"

definition message_blocks :: "string \<Rightarrow> 32 word list list" where
  "message_blocks s = (let ws = be_words (pad_blocks s) in blocks (length ws div 16) ws)"

section \<open>SHA-256\<close>

text \<open>
  The constants are the first 32 bits of the fractional parts of the square roots of the first
  eight primes and of the cube roots of the first sixty-four; \<open>root_bits\<close> finds the whole part
  of a root bit by bit.
\<close>

fun root_bits :: "nat \<Rightarrow> nat \<Rightarrow> nat \<Rightarrow> nat \<Rightarrow> nat" where
  "root_bits k n r 0 = r"
| "root_bits k n r (Suc b) = root_bits k n (if (r + 2 ^ b) ^ k \<le> n then r + 2 ^ b else r) b"

definition first_primes :: "nat list" where
  "first_primes = filter (\<lambda>n. list_all (\<lambda>d. n mod d \<noteq> 0) [2..<min n 18]) [2..<312]"

definition sha256_k :: "32 word list" where
  "sha256_k = map (\<lambda>p. word_of_nat (root_bits 3 (p * 2 ^ 96) 0 36)) first_primes"

definition sha256_init :: "32 word list" where
  "sha256_init = map (\<lambda>p. word_of_nat (root_bits 2 (p * 2 ^ 64) 0 36)) [2, 3, 5, 7, 11, 13, 17, 19]"

text \<open>The schedule keeps the last sixteen words; each round takes the first and adds one.\<close>

definition sha256_next :: "32 word list \<Rightarrow> 32 word" where
  "sha256_next ws = (let a = ws ! 1; b = ws ! 14 in
     (ror 17 b XOR ror 19 b XOR drop_bit 10 b) + ws ! 9
       + (ror 7 a XOR ror 18 a XOR drop_bit 3 a) + ws ! 0)"

definition sha256_round :: "32 word \<Rightarrow> 32 word \<Rightarrow> 32 word list \<Rightarrow> 32 word list" where
  "sha256_round k w st = (case st of
     [a, b, c, d, e, f, g, h] \<Rightarrow>
       let t1 = h + (ror 6 e XOR ror 11 e XOR ror 25 e) + ((e AND f) XOR (NOT e AND g)) + k + w;
           t2 = (ror 2 a XOR ror 13 a XOR ror 22 a) + ((a AND b) XOR (a AND c) XOR (b AND c))
       in [t1 + t2, a, b, c, d + t1, e, f, g]
   | _ \<Rightarrow> st)"

fun sha256_rounds :: "32 word list \<Rightarrow> 32 word list \<Rightarrow> 32 word list \<Rightarrow> 32 word list" where
  "sha256_rounds [] ws st = st"
| "sha256_rounds (k # ks) ws st =
     sha256_rounds ks (tl ws @ [sha256_next ws]) (sha256_round k (hd ws) st)"

definition sha256_block :: "32 word list \<Rightarrow> 32 word list \<Rightarrow> 32 word list" where
  "sha256_block st b = map2 (+) st (sha256_rounds sha256_k b st)"

definition sha256 :: "string \<Rightarrow> string" where
  "sha256 s = concat (map be_bytes (foldl sha256_block sha256_init (message_blocks s)))"

section \<open>SHA-1\<close>

definition sha1_init :: "32 word list" where
  "sha1_init = [0x67452301, 0xefcdab89, 0x98badcfe, 0x10325476, 0xc3d2e1f0]"

definition sha1_next :: "32 word list \<Rightarrow> 32 word" where
  "sha1_next ws = rol 1 (ws ! 13 XOR ws ! 8 XOR ws ! 2 XOR ws ! 0)"

definition sha1_mix :: "nat \<Rightarrow> 32 word \<Rightarrow> 32 word \<Rightarrow> 32 word \<Rightarrow> 32 word \<times> 32 word" where
  "sha1_mix t b c d =
     (if t < 20 then ((b AND c) OR (NOT b AND d), 0x5a827999)
      else if t < 40 then (b XOR c XOR d, 0x6ed9eba1)
      else if t < 60 then ((b AND c) OR (b AND d) OR (c AND d), 0x8f1bbcdc)
      else (b XOR c XOR d, 0xca62c1d6))"

definition sha1_round :: "nat \<Rightarrow> 32 word \<Rightarrow> 32 word list \<Rightarrow> 32 word list" where
  "sha1_round t w st = (case st of
     [a, b, c, d, e] \<Rightarrow>
       (case sha1_mix t b c d of (f, k) \<Rightarrow> [rol 5 a + f + e + k + w, a, rol 30 b, c, d])
   | _ \<Rightarrow> st)"

fun sha1_rounds :: "nat list \<Rightarrow> 32 word list \<Rightarrow> 32 word list \<Rightarrow> 32 word list" where
  "sha1_rounds [] ws st = st"
| "sha1_rounds (t # ts) ws st =
     sha1_rounds ts (tl ws @ [sha1_next ws]) (sha1_round t (hd ws) st)"

definition sha1_block :: "32 word list \<Rightarrow> 32 word list \<Rightarrow> 32 word list" where
  "sha1_block st b = map2 (+) st (sha1_rounds [0..<80] b st)"

definition sha1 :: "string \<Rightarrow> string" where
  "sha1 s = concat (map be_bytes (foldl sha1_block sha1_init (message_blocks s)))"

section \<open>HMAC and hexadecimal\<close>

definition xor_pad :: "nat \<Rightarrow> string \<Rightarrow> string" where
  "xor_pad n k = map (\<lambda>c. char_of (n XOR of_char c)) (k @ replicate (64 - length k) (CHR 0x00))"

definition hmac :: "(string \<Rightarrow> string) \<Rightarrow> string \<Rightarrow> string \<Rightarrow> string" where
  "hmac digest key msg = (let k = (if length key > 64 then digest key else key) in
     digest (xor_pad 92 k @ digest (xor_pad 54 k @ msg)))"

definition low_hex :: "nat \<Rightarrow> char" where
  "low_hex n = (if n < 10 then char_of (48 + n) else char_of (87 + n))"

definition hex_encode :: "string \<Rightarrow> string" where
  "hex_encode s = concat (map (\<lambda>c. [low_hex (of_char c div 16), low_hex (of_char c mod 16)]) s)"

abbreviation hmac_sha256_hex :: "string \<Rightarrow> string \<Rightarrow> string" where
  "hmac_sha256_hex key msg \<equiv> hex_encode (hmac sha256 key msg)"

section \<open>Sizes and known answers\<close>

lemma sha256_round_length:
  assumes "length st = 8"
  shows "length (sha256_round k w st) = 8"
proof -
  obtain a b c d e f g h where "st = [a, b, c, d, e, f, g, h]"
    using assms by (auto simp: length_Suc_conv eval_nat_numeral)
  then show ?thesis by (simp add: sha256_round_def Let_def)
qed

lemma length_sha256_rounds: "length st = 8 \<Longrightarrow> length (sha256_rounds ks ws st) = 8"
  by (induction ks ws st rule: sha256_rounds.induct) (simp_all add: sha256_round_length)

lemma length_sha256_fold: "length st = 8 \<Longrightarrow> length (foldl sha256_block st bs) = 8"
  by (induction bs arbitrary: st) (simp_all add: sha256_block_def length_sha256_rounds)

lemma length_sha256_init: "length sha256_init = 8"
  by (simp add: sha256_init_def)

lemma length_sha256 [simp]: "length (sha256 s) = 32"
proof -
  have "length (foldl sha256_block sha256_init (message_blocks s)) = 8"
    by (rule length_sha256_fold) (rule length_sha256_init)
  moreover have "length (concat (map be_bytes ws)) = 4 * length ws" for ws
    by (induction ws) (simp_all add: be_bytes_def Let_def)
  ultimately show ?thesis by (simp add: sha256_def)
qed

lemma low_hex_inj: "m < 16 \<Longrightarrow> n < 16 \<Longrightarrow> low_hex m = low_hex n \<longleftrightarrow> m = n"
  by (auto simp: low_hex_def of_char_eq_iff [symmetric] simp del: of_char_eq_iff)

lemma hex_encode_inj: "hex_encode s = hex_encode t \<longleftrightarrow> s = t"
proof (induction s arbitrary: t)
  case Nil
  then show ?case by (cases t) (auto simp: hex_encode_def)
next
  case (Cons c s)
  have lt: "(of_char x :: nat) div 16 < 16" for x
    by (rule less_mult_imp_div_less) (metis of_char_mod_256 mod_less_divisor zero_less_numeral mult.commute numeral_times_numeral semiring_norm(12) semiring_norm(13))
  show ?case
  proof (cases t)
    case Nil
    then show ?thesis by (simp add: hex_encode_def)
  next
    case (Cons d u)
    have "c = d" if "(of_char c :: nat) div 16 = of_char d div 16" "(of_char c :: nat) mod 16 = of_char d mod 16"
      using that by (metis div_mult_mod_eq of_char_eq_iff)
    then show ?thesis using Cons Cons.IH [of u] lt
      by (auto simp: hex_encode_def low_hex_inj)
  qed
qed

lemma length_hex_encode [simp]: "length (hex_encode s) = 2 * length s"
  by (induction s) (simp_all add: hex_encode_def)

end
