(* ===== verification/Webhook.thy ===== *)
theory Webhook
  imports Sdk Crypto
begin

text \<open>
  What the webhook verifiers of the providers share: the request the runtime hands over, the
  event a verifier returns, header lookup, the time window, and the contract of a verifier as
  a locale. The context of a call is the error of a cancelled one. Times of
  requests, receipts and evidence are nanoseconds since 1970; a signed time stamp is seconds.
\<close>

section \<open>Requests and events\<close>

record webhook_request =
  wh_context :: "string option"
  wh_connection :: connection
  wh_secrets :: secrets
  wh_headers :: headers
  wh_query :: headers
  wh_body :: string
  wh_received :: "int option"
  wh_now :: int

record external_identity =
  subject :: string
  subject_type :: string
  subject_name :: string
  subject_group :: string

record delivery_receipt =
  receipt_ref :: string
  receipt_status :: string
  receipt_error :: string
  receipt_time :: "int option"

record security_evidence =
  signature_verified :: bool
  evidence_nonce :: string
  evidence_device :: string
  evidence_time :: "int option"

record verified_webhook =
  event_type :: string
  external_id :: string
  event_payload :: string
  event_challenge :: string
  challenge_format :: string
  event_security :: "security_evidence option"
  event_identity :: "external_identity option"
  event_receipt :: "delivery_receipt option"

definition plain_event :: "string \<Rightarrow> string \<Rightarrow> string \<Rightarrow> verified_webhook" where
  "plain_event ty eid raw = \<lparr>event_type = ty, external_id = eid, event_payload = raw,
     event_challenge = [], challenge_format = [], event_security = None, event_identity = None,
     event_receipt = None\<rparr>"

text \<open>\<open>time.Unix(t, 0)\<close> of a signed event.\<close>

definition signed_at :: "int option \<Rightarrow> security_evidence option" where
  "signed_at t = Some \<lparr>signature_verified = True, evidence_nonce = [], evidence_device = [],
     evidence_time = map_option (\<lambda>s. s * 1000000000) t\<rparr>"

definition identity_of :: "string \<Rightarrow> string \<Rightarrow> string \<Rightarrow> string \<Rightarrow> external_identity option" where
  "identity_of s ty name grp = (if s = [] then None
     else Some \<lparr>subject = s, subject_type = ty, subject_name = name, subject_group = grp\<rparr>)"

section \<open>Lookup\<close>

text \<open>
  The first value of a header, by a scan over a Go map: names that differ in case only are
  found in the order of the list.
\<close>

fun header_value :: "headers \<Rightarrow> string \<Rightarrow> string" where
  "header_value [] k = []"
| "header_value ((name, vs) # hs) k =
     (if equal_fold name k \<and> vs \<noteq> [] then hd vs else header_value hs k)"

definition header_trimmed :: "headers \<Rightarrow> string \<Rightarrow> string" where
  "header_trimmed hs k = trim_space (header_value hs k)"

lemma header_value_found:
  "list_all (\<lambda>(n, vs). \<not> equal_fold n k) hs \<Longrightarrow> equal_fold n k \<Longrightarrow>
    header_value (hs @ (n, v # vs) # hs') k = v"
  by (induction hs) auto

section \<open>Time\<close>

text \<open>The arrival of a request, by the clock when the runtime gave none.\<close>

definition received_at :: "webhook_request \<Rightarrow> int" where
  "received_at r = (case wh_received r of None \<Rightarrow> wh_now r | Some t \<Rightarrow> t)"

abbreviation nanos :: int where
  "nanos \<equiv> 1000000000"

text \<open>\<open>t.Sub(u).Abs()\<close> saturates at the largest duration.\<close>

definition duration_abs :: "int \<Rightarrow> int" where
  "duration_abs d = min \<bar>d\<bar> max_int64"

definition within_tolerance :: "int \<Rightarrow> int \<Rightarrow> int \<Rightarrow> bool" where
  "within_tolerance received seconds tolerance \<longleftrightarrow>
     0 < tolerance \<and> duration_abs (received - seconds * nanos) \<le> tolerance"

lemma within_toleranceD:
  assumes "within_tolerance received seconds (wrap64 (n * nanos))"
  shows "\<bar>received - seconds * nanos\<bar> \<le> wrap64 (n * nanos)"
proof -
  have "even (wrap64 (n * nanos))"
    unfolding wrap64_def by (simp add: dvd_mod)
  then have "wrap64 (n * nanos) \<noteq> max_int64" by auto
  moreover have "wrap64 (n * nanos) \<le> max_int64"
    using int64_wrap64 [of "n * nanos"] by (simp add: int64_def)
  ultimately show ?thesis
    using assms by (simp add: within_tolerance_def duration_abs_def min_def split: if_splits)
qed

section \<open>The contract of a verifier\<close>

text \<open>
  A verifier lets a request through exactly when its context is live, it is authentic and its
  body names an event; the event it returns says what happened and to which object; every
  refusal is permanent, the error of a cancelled context apart.
\<close>

definition identified :: "verified_webhook \<Rightarrow> bool" where
  "identified v \<longleftrightarrow> event_type v \<noteq> [] \<and> external_id v \<noteq> []"

locale webhook_verifier =
  fixes verify :: "webhook_request \<Rightarrow> verified_webhook res"
    and authentic :: "webhook_request \<Rightarrow> bool"
    and named :: "webhook_request \<Rightarrow> bool"
  assumes accepts: "isl (verify r) \<longleftrightarrow> \<not> (wh_context r = None \<and> authentic r \<and> named r)"
    and accepted: "verify r = Inr v \<Longrightarrow> identified v"
    and refused: "wh_context r = None \<Longrightarrow> permanent_only (verify r)"
    and cancelled: "wh_context r = Some m \<Longrightarrow> verify r = Inl (Plain m)"
begin

lemma verdict:
  "case verify r of
     Inl e \<Rightarrow> \<not> (wh_context r = None \<and> authentic r \<and> named r)
       \<and> (is_permanent e \<or> (\<exists>m. wh_context r = Some m \<and> e = Plain m))
   | Inr v \<Rightarrow> wh_context r = None \<and> authentic r \<and> named r \<and> identified v"
proof (cases "verify r")
  case (Inl e)
  then have "is_permanent e \<or> (\<exists>m. wh_context r = Some m \<and> e = Plain m)"
    using refused [of r] cancelled [of r] by (cases "wh_context r") auto
  then show ?thesis using Inl accepts [of r] by auto
next
  case (Inr v)
  then show ?thesis using accepts [of r] accepted [OF Inr] by simp
qed

lemma forged: "\<not> authentic r \<Longrightarrow> isl (verify r)"
  using accepts by blast

end

end
