(* ===== verification/Stripe.thy ===== *)
theory Stripe
  imports Webhook
begin

text \<open>
  The Stripe provider (\<^verbatim>\<open>providers/payment/stripe\<close>): every operation of \<open>callOperation\<close> as the
  request it plans, \<open>execute\<close>, the reading of answers, and the webhook verifier.
\<close>

section \<open>Requests of the runtime\<close>

record operation_contract =
  op_key :: string
  op_contract :: string
  op_mode :: string

record call_request =
  cr_connector :: string
  cr_provider :: string
  cr_operation :: string
  cr_contract :: string
  cr_mode :: string
  cr_ref :: string
  cr_connection :: connection
  cr_secrets :: secrets
  cr_payload :: string

text \<open>A result and its error; the code returns both.\<close>

record call_result =
  result_payload :: string
  result_ref :: string

type_synonym outcome = "call_result \<times> gerr option"

definition no_result :: call_result where
  "no_result = \<lparr>result_payload = [], result_ref = []\<rparr>"

section \<open>Values\<close>

definition config_string :: "obj \<Rightarrow> string list \<Rightarrow> string" where
  "config_string m ks = first_text (map (clean_at m) ks)"

definition config_int :: "obj \<Rightarrow> int \<Rightarrow> string \<Rightarrow> int" where
  "config_int m fallback k = (case atoi (config_string m [k]) of None \<Rightarrow> fallback | Some n \<Rightarrow> n)"

definition positive_amount :: "obj \<Rightarrow> string \<Rightarrow> int res" where
  "positive_amount m k = (case parse_int64 (config_string m [k]) of
     (n, ok) \<Rightarrow> if \<not> ok \<or> n \<le> 0
       then Inl (Permanent ''stripe.amount_invalid'' (Msg ''positive integer amount is required''))
       else Inr n)"

definition stripe_secret :: "secrets \<Rightarrow> string \<Rightarrow> string res" where
  "stripe_secret ss k = (let v = trim_space (secret ss k) in
     if v = [] then Inl (Permanent ''stripe.secret_missing''
       (Msg (''resolved secret '' @ k @ '' is required''))) else Inr v)"

fun copy_query :: "string list \<Rightarrow> obj \<Rightarrow> url_values \<Rightarrow> url_values" where
  "copy_query [] m q = q"
| "copy_query (k # ks) m q = copy_query ks m
     (if config_string m [k] \<noteq> [] then put k [config_string m [k]] q else q)"

declare copy_query.simps [simp del]

fun string_list :: "val \<Rightarrow> string list" where
  "string_list (VArr vs) = filter ((\<noteq>) []) (map (\<lambda>v. trim_space (sprint v)) vs)"
| "string_list (VStrs ss) = filter ((\<noteq>) []) (map trim_space ss)"
| "string_list _ = []"

definition required_id :: "obj \<Rightarrow> string \<Rightarrow> string res" where
  "required_id m k = (let v = config_string m [k] in
     if v = [] then Inl (Permanent (''stripe.'' @ k @ ''_required'') (Msg (k @ '' is required'')))
     else Inr v)"

definition project_fields :: "string list \<Rightarrow> obj \<Rightarrow> obj" where
  "project_fields ks m = concat (map (\<lambda>k. case map_of m k of None \<Rightarrow> [] | Some v \<Rightarrow> [(k, v)]) ks)"

section \<open>Configuration\<close>

definition default_base_url :: string where
  "default_base_url = ''https://api.stripe.com''"

definition stripe_base :: "connection \<Rightarrow> string" where
  "stripe_base c = (let b = config_string (config c) [''base_url''] in
     if b = [] then default_base_url else b)"

definition stripe_validate :: "connection \<Rightarrow> gerr option" where
  "stripe_validate c = (case url_parse (stripe_base c) of
     None \<Rightarrow> Some (Permanent ''stripe.base_url_invalid'' (Msg ''HTTPS or loopback HTTP base URL is required''))
   | Some u \<Rightarrow>
       if host u = [] \<or> (scheme u \<noteq> ''https'' \<and> \<not> (scheme u = ''http'' \<and> is_loopback (hostname u)))
       then Some (Permanent ''stripe.base_url_invalid'' (Msg ''HTTPS or loopback HTTP base URL is required''))
       else None)"

fun find_contract :: "operation_contract list \<Rightarrow> call_request \<Rightarrow> gerr option" where
  "find_contract [] r =
     Some (Permanent ''stripe.operation_unsupported'' (Msg ''operation is not declared''))"
| "find_contract (d # ds) r =
     (if op_key d \<noteq> cr_operation r then find_contract ds r
      else if op_contract d \<noteq> cr_contract r \<or> op_mode d \<noteq> cr_mode r
      then Some (Permanent ''stripe.request_contract_invalid''
             (Msg ''operation contract identity does not match''))
      else None)"

definition stripe_validate_request :: "operation_contract list \<Rightarrow> call_request \<Rightarrow> gerr option" where
  "stripe_validate_request ops r =
     (if cr_connector r \<noteq> ''payment'' \<or> cr_provider r \<noteq> ''stripe''
      then Some (Permanent ''stripe.request_contract_invalid''
             (Msg ''Provider identity does not match Stripe''))
      else find_contract ops r)"

section \<open>One call of the API\<close>

definition execute_plan ::
  "connection \<Rightarrow> secrets \<Rightarrow> string \<Rightarrow> string \<Rightarrow> string \<Rightarrow> url_values \<Rightarrow> gerr + http_request" where
  "execute_plan c ss ref mth pth values =
     (let body = (if mth \<noteq> ''GET'' then encode_values values else []);
          endpoint = trim_right_char (CHR ''/'') (stripe_base c) @ pth @
            (if mth = ''GET'' \<and> values \<noteq> [] then ''?'' @ encode_values values else []) in
      case stripe_secret ss ''api_key'' of
        Inl e \<Rightarrow> Inl e
      | Inr key \<Rightarrow> Inr ((plain_request mth endpoint
          ([(''Accept'', [''application/json''])]
           @ (if body \<noteq> [] then [(''Content-Type'', [''application/x-www-form-urlencoded''])] else [])
           @ (if trim_space ref \<noteq> [] \<and> mth = ''POST'' then [(''Idempotency-Key'', [trim_space ref])] else []))
          body)
        \<lparr>req_secret_headers := [(''Authorization'', [''Bearer '' @ key])], req_max := 2097152\<rparr>))"

definition stripe_error_code :: "obj \<Rightarrow> int \<Rightarrow> string" where
  "stripe_error_code m status = (case at m ''error'' of
     VObj d \<Rightarrow> (let code = config_string d [''code'', ''type''] in
       if code \<noteq> [] then ''stripe.'' @ code else ''stripe.http_'' @ itoa status)
   | _ \<Rightarrow> ''stripe.http_'' @ itoa status)"

definition execute_read :: "string \<Rightarrow> string + http_response \<Rightarrow> val \<times> string \<times> gerr option" where
  "execute_read mth answer = (case answer of
     Inl m \<Rightarrow> (VNil, [], Some ((if mth = ''GET'' then Retryable else Uncertain)
                ''stripe.network_error'' (TransportErr m)))
   | Inr resp \<Rightarrow>
       (let status = resp_status resp in
        case (if resp_body resp = [] then Some (VObj []) else decode_map (resp_body resp)) of
          None \<Rightarrow> (VNil, ''http:'' @ itoa status, Some (Permanent ''stripe.response_invalid'' DecodeErr))
        | Some payload \<Rightarrow>
            (let eid = config_string (as_obj payload) [''id''];
                 ref = (if eid \<noteq> [] then ''stripe:'' @ eid else ''http:'' @ itoa status);
                 code = stripe_error_code (as_obj payload) status;
                 cause = Msg (''Stripe returned HTTP '' @ itoa status) in
             if ok_status status then (payload, ref, None)
             else if status = 429 \<or> status \<ge> 500 then (VNil, ref, Some (Retryable code cause))
             else (VNil, ref, Some (Permanent code cause)))))"

definition stripe_execute ::
  "connection \<Rightarrow> secrets \<Rightarrow> string \<Rightarrow> string \<Rightarrow> string \<Rightarrow> url_values \<Rightarrow> http \<Rightarrow> http_request list
    \<Rightarrow> http_request list \<times> val \<times> string \<times> gerr option" where
  "stripe_execute c ss ref mth pth values T sent =
     (case execute_plan c ss ref mth pth values of
        Inl e \<Rightarrow> (sent, VNil, [], Some e)
      | Inr q \<Rightarrow> (case send T q sent of (sent', answer) \<Rightarrow> (sent', execute_read mth answer)))"

section \<open>The operations\<close>

text \<open>Each gives a method, a path and the values of its form or query.\<close>

type_synonym planned = "(string \<times> string \<times> url_values) res"

definition currency_of :: "obj \<Rightarrow> string" where
  "currency_of m = to_lower (config_string m [''currency''])"

definition currency_or_default :: "obj \<Rightarrow> obj \<Rightarrow> string" where
  "currency_or_default m conf = (if currency_of m = [] then currency_of conf else currency_of m)"

definition payment_method_values :: "obj \<Rightarrow> url_values \<Rightarrow> url_values" where
  "payment_method_values m q =
     (let q1 = (case at m ''automatic_payment_methods'' of
          VBool b \<Rightarrow> put ''automatic_payment_methods[enabled]'' [if b then ''true'' else ''false''] q
        | _ \<Rightarrow> q)
      in fold (\<lambda>(i, p). put (''payment_method_types['' @ itoa (int i) @ '']'') [p])
           (enumerate 0 (string_list (at m ''payment_method_types''))) q1)"

definition currency_missing :: gerr where
  "currency_missing = Permanent ''stripe.currency_required'' (Msg ''currency is required'')"

definition create_payment_intent :: "obj \<Rightarrow> obj \<Rightarrow> planned" where
  "create_payment_intent conf m = (case positive_amount m ''amount'' of Inl e \<Rightarrow> Inl e | Inr n \<Rightarrow>
     (let cur = currency_or_default m conf in
      if cur = [] then Inl currency_missing
      else Inr (''POST'', ''/v1/payment_intents'', payment_method_values m
        (copy_query [''customer'', ''description'', ''payment_method''] m
          (put ''currency'' [cur] (put ''amount'' [itoa n] []))))))"

definition process_card_payment :: "obj \<Rightarrow> planned" where
  "process_card_payment m = (case positive_amount m ''amount'' of Inl e \<Rightarrow> Inl e | Inr n \<Rightarrow>
     (let cur = currency_of m in
      if cur = [] then Inl currency_missing
      else (case required_id m ''payment_method'' of Inl e \<Rightarrow> Inl e | Inr pm \<Rightarrow>
        Inr (''POST'', ''/v1/payment_intents'', copy_query [''receipt_email'', ''description''] m
          (put ''confirm'' [''true''] (put ''payment_method'' [pm]
            (put ''currency'' [cur] (put ''amount'' [itoa n] []))))))))"

definition create_refund :: "obj \<Rightarrow> planned" where
  "create_refund m = (let pi = config_string m [''payment_intent''] in
     if pi = [] then Inl (Permanent ''stripe.payment_intent_required'' (Msg ''payment_intent is required''))
     else if at m ''amount'' \<noteq> VNil then
       (case positive_amount m ''amount'' of Inl e \<Rightarrow> Inl e | Inr n \<Rightarrow>
         Inr (''POST'', ''/v1/refunds'', put ''amount'' [itoa n] (put ''payment_intent'' [pi] [])))
     else Inr (''POST'', ''/v1/refunds'', put ''payment_intent'' [pi] []))"

text \<open>An operation on one object: its path, and an optional action after it.\<close>

definition on_object :: "obj \<Rightarrow> string \<Rightarrow> string \<Rightarrow> string \<Rightarrow> string \<Rightarrow> string list \<Rightarrow> planned" where
  "on_object m key mth base action ks = (case required_id m key of Inl e \<Rightarrow> Inl e | Inr x \<Rightarrow>
     Inr (mth, base @ path_escape x @ action, copy_query ks m []))"

definition attach_payment_method :: "obj \<Rightarrow> planned" where
  "attach_payment_method m =
     (case required_id m ''payment_method'' of Inl e \<Rightarrow> Inl e | Inr pm \<Rightarrow>
     (case required_id m ''customer'' of Inl e \<Rightarrow> Inl e | Inr cus \<Rightarrow>
       Inr (''POST'', ''/v1/payment_methods/'' @ path_escape pm @ ''/attach'', put ''customer'' [cus] [])))"

definition create_checkout_session :: "obj \<Rightarrow> planned" where
  "create_checkout_session m =
     (let md = config_string m [''mode'']; price = config_string m [''price''] in
      if md = [] \<or> price = [] then Inl (Permanent ''stripe.checkout_fields_required''
        (Msg ''mode and price are required''))
      else Inr (''POST'', ''/v1/checkout/sessions'', payment_method_values m
        (copy_query [''locale''] m
        (copy_query [''success_url'', ''cancel_url'', ''customer'', ''customer_email'', ''client_reference_id''] m
        (put ''line_items[0][quantity]'' [itoa (config_int m 1 ''quantity'')]
        (put ''line_items[0][price]'' [price] (put ''mode'' [md] [])))))))"

definition create_subscription :: "obj \<Rightarrow> planned" where
  "create_subscription m =
     (case required_id m ''customer'' of Inl e \<Rightarrow> Inl e | Inr cus \<Rightarrow>
     (case required_id m ''price'' of Inl e \<Rightarrow> Inl e | Inr price \<Rightarrow>
       Inr (''POST'', ''/v1/subscriptions'', copy_query [''default_payment_method'', ''trial_end''] m
         (put ''items[0][price]'' [price] (put ''customer'' [cus] [])))))"

definition create_invoice :: "obj \<Rightarrow> planned" where
  "create_invoice m = (case required_id m ''customer'' of Inl e \<Rightarrow> Inl e | Inr cus \<Rightarrow>
     Inr (''POST'', ''/v1/invoices'',
       copy_query [''subscription'', ''description'', ''collection_method'', ''days_until_due''] m
         (put ''customer'' [cus] [])))"

definition create_invoice_item :: "obj \<Rightarrow> obj \<Rightarrow> planned" where
  "create_invoice_item conf m =
     (case required_id m ''customer'' of Inl e \<Rightarrow> Inl e | Inr cus \<Rightarrow>
     (case positive_amount m ''amount'' of Inl e \<Rightarrow> Inl e | Inr n \<Rightarrow>
       Inr (''POST'', ''/v1/invoiceitems'', copy_query [''invoice'', ''description''] m
         (put ''currency'' [currency_or_default m conf] (put ''amount'' [itoa n] (put ''customer'' [cus] []))))))"

definition create_payout :: "obj \<Rightarrow> obj \<Rightarrow> planned" where
  "create_payout conf m = (case positive_amount m ''amount'' of Inl e \<Rightarrow> Inl e | Inr n \<Rightarrow>
     Inr (''POST'', ''/v1/payouts'', copy_query [''description'', ''destination'', ''method''] m
       (put ''currency'' [currency_or_default m conf] (put ''amount'' [itoa n] []))))"

definition create_account_link :: "obj \<Rightarrow> planned" where
  "create_account_link m =
     (case required_id m ''account'' of Inl e \<Rightarrow> Inl e | Inr acc \<Rightarrow>
     (case required_id m ''refresh_url'' of Inl e \<Rightarrow> Inl e | Inr ref \<Rightarrow>
     (case required_id m ''return_url'' of Inl e \<Rightarrow> Inl e | Inr ret \<Rightarrow>
       Inr (''POST'', ''/v1/account_links'', put ''type'' [''account_onboarding'']
         (put ''return_url'' [ret] (put ''refresh_url'' [ref] (put ''account'' [acc] [])))))))"

definition stripe_plan :: "string \<Rightarrow> obj \<Rightarrow> obj \<Rightarrow> planned" where
  "stripe_plan op conf m =
    (if op = ''create_payment_intent'' then create_payment_intent conf m
     else if op = ''process_card_payment'' then process_card_payment m
     else if op = ''retrieve_payment_intent''
     then on_object m ''payment_intent'' ''GET'' ''/v1/payment_intents/'' [] []
     else if op = ''create_refund'' then create_refund m
     else if op = ''confirm_payment_intent'' \<or> op = ''capture_payment_intent'' \<or> op = ''cancel_payment_intent''
     then on_object m ''payment_intent'' ''POST'' ''/v1/payment_intents/''
       (''/'' @ trim_suffix op ''_payment_intent'')
       [''payment_method'', ''receipt_email'', ''amount_to_capture'', ''cancellation_reason'']
     else if op = ''create_customer''
     then Inr (''POST'', ''/v1/customers'', copy_query [''email'', ''name'', ''phone'', ''description''] m [])
     else if op = ''update_customer''
     then on_object m ''customer'' ''POST'' ''/v1/customers/'' [] [''email'', ''name'', ''phone'', ''description'']
     else if op = ''attach_payment_method'' then attach_payment_method m
     else if op = ''detach_payment_method''
     then on_object m ''payment_method'' ''POST'' ''/v1/payment_methods/'' ''/detach'' []
     else if op = ''create_checkout_session'' then create_checkout_session m
     else if op = ''expire_checkout_session''
     then on_object m ''session'' ''POST'' ''/v1/checkout/sessions/'' ''/expire'' []
     else if op = ''create_subscription'' then create_subscription m
     else if op = ''update_subscription''
     then on_object m ''subscription'' ''POST'' ''/v1/subscriptions/'' []
       [''default_payment_method'', ''cancel_at_period_end'', ''trial_end'', ''proration_behavior'']
     else if op = ''cancel_subscription''
     then on_object m ''subscription'' ''DELETE'' ''/v1/subscriptions/'' [] []
     else if op = ''create_invoice'' then create_invoice m
     else if op = ''create_invoice_item'' then create_invoice_item conf m
     else if op = ''finalize_invoice'' \<or> op = ''pay_invoice'' \<or> op = ''void_invoice''
     then on_object m ''invoice'' ''POST'' ''/v1/invoices/'' (''/'' @ trim_suffix op ''_invoice'') []
     else if op = ''list_disputes''
     then Inr (''GET'', ''/v1/disputes'', copy_query
       [''payment_intent'', ''charge'', ''starting_after'', ''ending_before'', ''limit''] m [])
     else if op = ''update_dispute''
     then on_object m ''dispute'' ''POST'' ''/v1/disputes/'' []
       [''evidence[customer_name]'', ''evidence[customer_email_address]'',
        ''evidence[product_description]'', ''submit'']
     else if op = ''list_balance_transactions''
     then Inr (''GET'', ''/v1/balance_transactions'', copy_query
       [''type'', ''payout'', ''source'', ''starting_after'', ''ending_before'', ''limit''] m [])
     else if op = ''list_refunds''
     then Inr (''GET'', ''/v1/refunds'', copy_query
       [''payment_intent'', ''charge'', ''starting_after'', ''ending_before'', ''limit''] m [])
     else if op = ''create_payout'' then create_payout conf m
     else if op = ''list_payouts''
     then Inr (''GET'', ''/v1/payouts'', copy_query
       [''status'', ''destination'', ''starting_after'', ''ending_before'', ''limit''] m [])
     else if op = ''retrieve_connect_account''
     then on_object m ''account'' ''GET'' ''/v1/accounts/'' [] []
     else if op = ''create_connect_account_link'' then create_account_link m
     else Inl (Permanent ''stripe.operation_unsupported'' (Msg ''operation is unsupported'')))"

definition call_finish :: "string \<Rightarrow> val \<times> string \<times> gerr option \<Rightarrow> outcome" where
  "call_finish op r = (case r of (payload, ref, err) \<Rightarrow>
     (let p = (if op = ''retrieve_payment_intent''
               then VObj (project_fields [''id'', ''status'', ''amount'', ''currency''] (as_obj payload))
               else payload) in
      case marshal p of
        None \<Rightarrow> (no_result, Some (Permanent ''stripe.response_invalid'' DecodeErr))
      | Some s \<Rightarrow> (\<lparr>result_payload = s, result_ref = ref\<rparr>, err)))"

definition call_operation ::
  "http \<Rightarrow> call_request \<Rightarrow> http_request list \<Rightarrow> http_request list \<times> outcome" where
  "call_operation T r sent = (case decode_map (cr_payload r) of
     None \<Rightarrow> (sent, no_result, Some (Permanent ''stripe.request_invalid'' DecodeErr))
   | Some v \<Rightarrow> (case stripe_plan (cr_operation r) (config (cr_connection r)) (as_obj v) of
       Inl e \<Rightarrow> (sent, no_result, Some e)
     | Inr (mth, pth, values) \<Rightarrow>
         (case stripe_execute (cr_connection r) (cr_secrets r) (cr_ref r) mth pth values T sent of
            (sent', x) \<Rightarrow> (sent', call_finish (cr_operation r) x))))"

definition call_test_connection ::
  "http \<Rightarrow> call_request \<Rightarrow> http_request list \<Rightarrow> http_request list \<times> outcome" where
  "call_test_connection T r sent =
     (case stripe_execute (cr_connection r) (cr_secrets r) (cr_ref r) ''GET'' ''/v1/balance'' [] T sent of
        (sent', payload, ref, Some e) \<Rightarrow> (sent', \<lparr>result_payload = [], result_ref = ref\<rparr>, Some e)
      | (sent', payload, ref, None) \<Rightarrow>
          (case marshal (VObj [(''connected'', VBool True), (''livemode'', at (as_obj payload) ''livemode'')]) of
             None \<Rightarrow> (sent', no_result, Some (Plain ''json''))
           | Some s \<Rightarrow> (sent', \<lparr>result_payload = s, result_ref = ref\<rparr>, None)))"

definition stripe_call ::
  "operation_contract list \<Rightarrow> http \<Rightarrow> call_request \<Rightarrow> http_request list \<Rightarrow> http_request list \<times> outcome" where
  "stripe_call ops T r sent = (case stripe_validate_request ops r of
     Some e \<Rightarrow> (sent, no_result, Some e)
   | None \<Rightarrow> if cr_operation r = ''test_connection'' then call_test_connection T r sent
       else call_operation T r sent)"

definition stripe_test_connection ::
  "http \<Rightarrow> connection \<Rightarrow> secrets \<Rightarrow> http_request list \<Rightarrow> http_request list \<times> string res" where
  "stripe_test_connection T c ss sent =
     (case call_test_connection T \<lparr>cr_connector = ''payment'', cr_provider = ''stripe'',
        cr_operation = ''test_connection'', cr_contract = [], cr_mode = [], cr_ref = [],
        cr_connection = c, cr_secrets = ss, cr_payload = []\<rparr> sent of
      (sent', res, Some e) \<Rightarrow> (sent', Inl e)
    | (sent', res, None) \<Rightarrow> (sent', Inr (result_payload res)))"

section \<open>Webhooks\<close>

fun signature_parts :: "int \<times> string list \<Rightarrow> string list \<Rightarrow> int \<times> string list" where
  "signature_parts acc [] = acc"
| "signature_parts (ts, sigs) (p # ps) = (let part = trim_space p in
     if CHR ''='' \<notin> set part then signature_parts (ts, sigs) ps
     else (case cut (CHR ''='') part of (key, raw) \<Rightarrow>
       if key = ''t'' then signature_parts (fst (parse_int64 raw), sigs) ps
       else if key = ''v1'' then signature_parts (ts, sigs @ [raw]) ps
       else signature_parts (ts, sigs) ps))"

definition parse_signature :: "string \<Rightarrow> (int \<times> string list) option" where
  "parse_signature s = (case signature_parts (0, []) (split_on (CHR '','') s) of
     (ts, sigs) \<Rightarrow> if ts \<le> 0 \<or> sigs = [] then None else Some (ts, sigs))"

definition nested_object :: "obj \<Rightarrow> obj" where
  "nested_object m = as_obj (at (as_obj (at m ''data'')) ''object'')"

definition stripe_verify :: "webhook_request \<Rightarrow> verified_webhook res" where
  "stripe_verify r = (case wh_context r of Some m \<Rightarrow> Inl (Plain m) | None \<Rightarrow>
     (case stripe_secret (wh_secrets r) ''webhook_secret'' of Inl e \<Rightarrow> Inl e | Inr sec \<Rightarrow>
     (case parse_signature (header_value (wh_headers r) ''Stripe-Signature'') of
        None \<Rightarrow> Inl (Permanent ''stripe.webhook_signature_invalid'' (Msg ''Stripe signature header is invalid''))
      | Some (ts, sigs) \<Rightarrow>
     (let tolerance = wrap64 (config_int (config (wh_connection r)) 300 ''webhook_tolerance_seconds'' * nanos) in
      if \<not> within_tolerance (received_at r) ts tolerance
      then Inl (Permanent ''stripe.webhook_timestamp_out_of_range''
        (Msg ''Stripe event timestamp is outside tolerance''))
      else if hmac_sha256_hex sec (itoa ts @ ''.'' @ wh_body r) \<notin> set sigs
      then Inl (Permanent ''stripe.webhook_signature_invalid'' (Msg ''Stripe signature does not match''))
      else (case decode_map (wh_body r) of
        None \<Rightarrow> Inl (Permanent ''stripe.webhook_payload_invalid'' DecodeErr)
      | Some payload \<Rightarrow>
          (let eid = config_string (as_obj payload) [''id'']; ty = config_string (as_obj payload) [''type''];
               customer = config_string (nested_object (as_obj payload)) [''customer''] in
           if eid = [] \<or> ty = [] then Inl (Permanent ''stripe.webhook_identity_missing''
             (Msg ''Stripe event id and type are required''))
           else Inr ((plain_event ty eid (wh_body r))
             \<lparr>event_security := signed_at (Some ts),
              event_identity := identity_of customer ''stripe_customer'' [] []\<rparr>)))))))"

section \<open>Writes\<close>

definition stripe_reads :: "string list" where
  "stripe_reads = [''test_connection'', ''retrieve_payment_intent'', ''list_disputes'',
     ''list_balance_transactions'', ''list_refunds'', ''list_payouts'', ''retrieve_connect_account'']"

definition retry_status :: "int \<Rightarrow> bool" where
  "retry_status n \<longleftrightarrow> n = 429 \<or> n \<ge> 500"

lemma execute_plan_permanent: "execute_plan c ss ref mth pth values = Inl e \<Longrightarrow> is_permanent e"
  by (auto simp: execute_plan_def stripe_secret_def Let_def split: if_splits)

lemma execute_read_cautious:
  assumes "mth \<noteq> ''GET''" "snd (snd (execute_read mth answer)) = Some e" "is_retryable e"
  shows "\<exists>resp. answer = Inr resp \<and> retry_status (resp_status resp)"
proof (cases answer)
  case (Inl m)
  then show ?thesis using assms by (auto simp: execute_read_def)
next
  case (Inr resp)
  then show ?thesis
    using assms by (auto simp: execute_read_def Let_def retry_status_def split: option.splits if_splits)
qed

lemma execute_is_planned:
  "stripe_execute c ss ref mth pth values T sent =
    run_plan (map_sum (\<lambda>e. (VNil, [], Some e)) id (execute_plan c ss ref mth pth values)) (execute_read mth) T sent"
  by (simp add: stripe_execute_def run_plan_def send_def split: sum.splits)

text \<open>The methods of the writes.\<close>

definition write_method :: "bool \<Rightarrow> string" where
  "write_method post = (if post then ''POST'' else ''DELETE'')"

lemma execute_plan_map_permanent:
  "map_sum (\<lambda>e. (VNil, [], Some e)) id (execute_plan c ss ref mth pth values) = Inl x \<Longrightarrow>
    \<exists>e. snd (snd x) = Some e \<and> is_permanent e"
  using execute_plan_permanent by (cases "execute_plan c ss ref mth pth values") auto

lemma execute_read_lost:
  "\<exists>e. snd (snd (execute_read (write_method post) (Inl m))) = Some e \<and> is_uncertain e"
  by (simp add: execute_read_def write_method_def)

interpretation writing: cautious_write
  "stripe_execute c ss ref (write_method post) pth values"
  "map_sum (\<lambda>e. (VNil, [], Some e)) id (execute_plan c ss ref (write_method post) pth values)"
  "execute_read (write_method post)" "\<lambda>x. snd (snd x)" retry_status
  for c ss ref post pth "values"
proof (unfold_locales, goal_cases)
  case 1 show ?case by (rule execute_is_planned)
next
  case (2 a e)
  then show ?case by (intro execute_read_cautious [of "write_method post"]) (simp_all add: write_method_def)
next
  case 3 then show ?case by (rule execute_plan_map_permanent)
next
  case 4 show ?case by (rule execute_read_lost)
qed

lemma on_object_method: "on_object m key mth base action ks = Inr (mth', p, v) \<Longrightarrow> mth' = mth"
  by (auto simp: on_object_def split: sum.splits)

lemma stripe_plan_write:
  assumes "stripe_plan op conf m = Inr (mth, pth, values)" "op \<notin> set stripe_reads"
  shows "mth = write_method (op \<noteq> ''cancel_subscription'')"
  using assms
  by (auto simp: stripe_plan_def stripe_reads_def write_method_def Let_def
      create_payment_intent_def process_card_payment_def create_refund_def attach_payment_method_def
      create_checkout_session_def create_subscription_def create_invoice_def create_invoice_item_def
      create_payout_def create_account_link_def dest!: on_object_method split: if_splits sum.splits)

lemma input_permanent [simp]:
  "permanent_only (positive_amount m k)" "permanent_only (required_id m k)"
  by (simp_all add: positive_amount_def required_id_def Let_def split: prod.split)

lemma operation_permanent [simp]:
  "permanent_only (create_payment_intent conf m)"
  "permanent_only (process_card_payment m)"
  "permanent_only (create_refund m)"
  "permanent_only (attach_payment_method m)"
  "permanent_only (create_checkout_session m)"
  "permanent_only (create_subscription m)"
  "permanent_only (create_invoice m)"
  "permanent_only (create_invoice_item conf m)"
  "permanent_only (create_payout conf m)"
  "permanent_only (create_account_link m)"
  "permanent_only (on_object m key mth base action ks)"
  by (simp_all add: create_payment_intent_def process_card_payment_def create_refund_def
      attach_payment_method_def create_checkout_session_def create_subscription_def create_invoice_def
      create_invoice_item_def create_payout_def create_account_link_def on_object_def
      currency_missing_def Let_def)

lemma stripe_plan_permanent: "permanent_only (stripe_plan op conf m)"
  by (simp add: stripe_plan_def)

lemma find_contract_permanent: "find_contract ops r = Some e \<Longrightarrow> is_permanent e"
  by (induction ops) (auto split: if_splits)

lemma stripe_validate_request_permanent: "stripe_validate_request ops r = Some e \<Longrightarrow> is_permanent e"
  by (auto simp: stripe_validate_request_def find_contract_permanent split: if_splits)

lemma call_finish_err:
  "snd (call_finish op (p, ref, err)) = err
    \<or> (\<exists>e. snd (call_finish op (p, ref, err)) = Some e \<and> is_permanent e \<and> p \<noteq> VNil)"
  by (cases "p = VNil") (auto simp: call_finish_def Let_def project_fields_def all_some_def split: option.splits)

lemma execute_plan_key:
  "execute_plan c ss ref ''POST'' pth values = Inr q \<Longrightarrow> trim_space ref \<noteq> [] \<Longrightarrow>
    (''Idempotency-Key'', [trim_space ref]) \<in> set (req_headers q)"
  by (auto simp: execute_plan_def plain_request_def Let_def split: sum.splits)

definition is_write :: "call_request \<Rightarrow> bool" where
  "is_write r \<longleftrightarrow> cr_operation r \<notin> set stripe_reads"

lemma stripe_write_steps:
  assumes "stripe_call ops T r sent = (sent', res, err)" "is_write r"
  obtains (refused) e where "sent' = sent" "err = Some e" "is_permanent e"
    | (called) post pth "values" x where "post = (cr_operation r \<noteq> ''cancel_subscription'')"
      "stripe_execute (cr_connection r) (cr_secrets r) (cr_ref r) (write_method post) pth values T sent = (sent', x)"
      "(res, err) = call_finish (cr_operation r) x"
proof (cases "stripe_validate_request ops r")
  case (Some e)
  then have "stripe_call ops T r sent = (sent, no_result, Some e)" by (simp add: stripe_call_def)
  then show ?thesis using assms(1) stripe_validate_request_permanent [OF Some]
    by (intro refused [of e]) simp_all
next
  case None
  have op: "call_operation T r sent = (sent', res, err)"
    using assms None by (auto simp: stripe_call_def is_write_def stripe_reads_def)
  show ?thesis
  proof (cases "decode_map (cr_payload r)")
    case None
    then show ?thesis using op refused by (auto simp: call_operation_def)
  next
    case (Some v)
    show ?thesis
    proof (cases "stripe_plan (cr_operation r) (config (cr_connection r)) (as_obj v)")
      case (Inl e)
      then show ?thesis using op Some permanent_onlyD [OF stripe_plan_permanent Inl]
        by (intro refused [of e]) (simp_all add: call_operation_def)
    next
      case (Inr p)
      obtain mth pth "values" where p: "p = (mth, pth, values)" by (cases p)
      have "mth = write_method (cr_operation r \<noteq> ''cancel_subscription'')"
        using stripe_plan_write [OF Inr [unfolded p]] assms(2) by (simp add: is_write_def)
      then show ?thesis
        using op Some Inr called [OF refl] by (auto simp: call_operation_def p split: prod.splits)
    qed
  qed
qed

text \<open>
  C18: a Stripe write sends at most one request. Refused without one, it fails permanently;
  when the answer is lost the outcome is uncertain, never an offer to retry; a retry is
  offered only on a 429 or a status of 500 and more; and a request with a reference carries
  it as the idempotency key, deletions apart.
\<close>
theorem stripe_write_outcome:
  assumes "stripe_call ops T r sent = (sent', res, err)" "is_write r"
  shows "sent' = sent \<and> (\<exists>e. err = Some e \<and> is_permanent e) \<or>
    (\<exists>q. sent' = sent @ [q] \<and>
      (trim_space (cr_ref r) \<noteq> [] \<and> cr_operation r \<noteq> ''cancel_subscription'' \<longrightarrow>
        (''Idempotency-Key'', [trim_space (cr_ref r)]) \<in> set (req_headers q)) \<and>
      (case T sent q of
         Inl m \<Rightarrow> \<exists>e. err = Some e \<and> is_uncertain e
       | Inr resp \<Rightarrow> \<forall>e. err = Some e \<longrightarrow> is_retryable e \<longrightarrow> retry_status (resp_status resp)))"
  using assms
proof (cases rule: stripe_write_steps)
  case (refused e)
  then show ?thesis by blast
next
  case (called post pth "values" x)
  obtain p ref ex where x: "x = (p, ref, ex)" by (cases x)
  have fin: "err = ex \<or> (\<exists>e. err = Some e \<and> is_permanent e \<and> p \<noteq> VNil)"
    using called(3) call_finish_err [of "cr_operation r" p ref ex] by (metis snd_conv x)
  from writing.outcome [OF called(2)] show ?thesis
  proof
    assume "sent' = sent \<and> (\<exists>e. snd (snd x) = Some e \<and> is_permanent e)"
    then show ?thesis using fin by (auto simp: x)
  next
    assume "\<exists>q. sent' = sent @ [q] \<and>
        map_sum (\<lambda>e. (VNil, [], Some e)) id (execute_plan (cr_connection r) (cr_secrets r) (cr_ref r)
          (write_method post) pth values) = Inr q \<and> x = execute_read (write_method post) (T sent q) \<and>
        (case T sent q of Inl m \<Rightarrow> \<exists>e. snd (snd x) = Some e \<and> is_uncertain e
         | Inr r \<Rightarrow> \<forall>e. snd (snd x) = Some e \<longrightarrow> is_retryable e \<longrightarrow> retry_status (resp_status r))"
    then obtain q where q: "sent' = sent @ [q]"
      "execute_plan (cr_connection r) (cr_secrets r) (cr_ref r) (write_method post) pth values = Inr q"
      "x = execute_read (write_method post) (T sent q)"
      "case T sent q of Inl m \<Rightarrow> \<exists>e. snd (snd x) = Some e \<and> is_uncertain e
         | Inr r \<Rightarrow> \<forall>e. snd (snd x) = Some e \<longrightarrow> is_retryable e \<longrightarrow> retry_status (resp_status r)"
      by (cases "execute_plan (cr_connection r) (cr_secrets r) (cr_ref r) (write_method post) pth values") auto
    have key: "trim_space (cr_ref r) \<noteq> [] \<and> cr_operation r \<noteq> ''cancel_subscription'' \<longrightarrow>
        (''Idempotency-Key'', [trim_space (cr_ref r)]) \<in> set (req_headers q)"
      using q(2) called(1) execute_plan_key by (auto simp: write_method_def)
    have "case T sent q of Inl m \<Rightarrow> \<exists>e. err = Some e \<and> is_uncertain e
       | Inr resp \<Rightarrow> \<forall>e. err = Some e \<longrightarrow> is_retryable e \<longrightarrow> retry_status (resp_status resp)"
    proof (cases "T sent q")
      case (Inl m)
      then have "p = VNil" using q(3) by (auto simp: x execute_read_def)
      then show ?thesis using Inl q(4) fin by (auto simp: x)
    next
      case (Inr resp)
      then show ?thesis using q(4) fin by (auto simp: x) (metis gerr.exhaust is_permanent.simps is_retryable.simps)
    qed
    then show ?thesis using q(1) key by blast
  qed
qed

definition stripe_sample :: call_request where
  "stripe_sample = \<lparr>cr_connector = ''payment'', cr_provider = ''stripe'',
     cr_operation = ''create_customer'', cr_contract = ''h'', cr_mode = ''enqueue'', cr_ref = ''r1'',
     cr_connection = base_connection, cr_secrets = [(''api_key'', ''k'')], cr_payload = ''{}''\<rparr>"

definition stripe_sample_contracts :: "operation_contract list" where
  "stripe_sample_contracts = [\<lparr>op_key = ''create_customer'', op_contract = ''h'', op_mode = ''enqueue''\<rparr>]"

theorem stripe_write_outcome_witness:
  "\<exists>q res e. stripe_call stripe_sample_contracts dead_http stripe_sample [] = ([q], res, Some e)
    \<and> is_uncertain e \<and> (''Idempotency-Key'', [''r1'']) \<in> set (req_headers q)"
proof -
  obtain s res err where eq: "stripe_call stripe_sample_contracts dead_http stripe_sample [] = (s, res, err)"
    by (cases "stripe_call stripe_sample_contracts dead_http stripe_sample []")
  have "fst (stripe_call stripe_sample_contracts dead_http stripe_sample []) \<noteq> []" by code_simp
  moreover have "is_write stripe_sample" by code_simp
  moreover have "trim_space (cr_ref stripe_sample) = ''r1''" "cr_operation stripe_sample \<noteq> ''cancel_subscription''"
    by code_simp+
  ultimately show ?thesis
    using stripe_write_outcome [OF eq] by (auto simp: eq dead_http_def)
qed

section \<open>Amounts\<close>

lemma nat_str_times10:
  assumes "0 < n"
  shows "nat_str (n * 10) = nat_str n @ ''0''"
proof -
  have "digit_char 0 = CHR ''0''" by code_simp
  then show ?thesis using assms by (simp add: nat_str.simps [of "n * 10"])
qed

lemma nat_str_times_power: "0 < n \<Longrightarrow> nat_str (n * 10 ^ k) = nat_str n @ replicate k (CHR ''0'')"
proof (induction k)
  case (Suc k)
  have "nat_str (n * 10 ^ Suc k) = nat_str ((n * 10 ^ k) * 10)" by (simp add: ac_simps)
  also have "\<dots> = nat_str (n * 10 ^ k) @ ''0''" using Suc.prems by (intro nat_str_times10) simp
  finally show ?case using Suc by (simp add: replicate_append_same)
qed simp

lemma length_nat_str_le: "0 < k \<Longrightarrow> length (nat_str n) \<le> k \<longleftrightarrow> n < 10 ^ k"
proof (induction n arbitrary: k rule: nat_str.induct)
  case (1 n)
  show ?case
  proof (cases "n < 10")
    case True
    moreover have "(10::nat) \<le> 10 ^ k" using 1(2) by (simp add: self_le_power)
    ultimately show ?thesis using 1(2) by (simp add: nat_str.simps [of n])
  next
    case False
    obtain j where k: "k = Suc j" using 1(2) by (cases k) auto
    have "n div 10 < 10 ^ j \<longleftrightarrow> n < 10 ^ Suc j" by (simp add: div_less_iff_less_mult mult.commute)
    then show ?thesis using False 1(1) [of j] k
      by (cases "j = 0") (simp_all add: nat_str.simps [of n])
  qed
qed

lemma strip_zeros_props:
  "strip_zeros m e = (m', e') \<Longrightarrow> 0 < m \<Longrightarrow> 0 < m' \<and> e \<le> e' \<and> m = m' * 10 ^ nat (e' - e)"
proof (induction m e rule: strip_zeros.induct)
  case (1 m e)
  show ?case
  proof (cases "m mod 10 = 0")
    case True
    then have "strip_zeros (m div 10) (e + 1) = (m', e')"
      using 1(2,3) by (simp add: strip_zeros.simps [of m e])
    moreover have "0 < m div 10" using True 1(3) by (simp add: dvd_imp_le mod_0_imp_dvd pos_imp_zdiv_pos_iff zdvd_imp_le)
    ultimately have *: "0 < m'" "e + 1 \<le> e'" "m div 10 = m' * 10 ^ nat (e' - (e + 1))"
      using 1(1) 1(3) True by auto
    have "nat (e' - e) = Suc (nat (e' - (e + 1)))" using *(2) by simp
    then have "m' * 10 ^ nat (e' - e) = m div 10 * 10" using *(3) by simp
    also have "\<dots> = m" using True by (simp add: mod_0_imp_dvd)
    finally show ?thesis using * by simp
  next
    case False
    then show ?thesis using 1(2,3) by (simp add: strip_zeros.simps [of m e])
  qed
qed

lemma digit_graphic: "is_digit c \<Longrightarrow> graphic c"
  by (simp add: is_digit_def graphic_def Let_def)

lemma nat_str_graphic: "graphic (hd (nat_str n))" "graphic (last (nat_str n))"
  using nat_str_digits [of n] digit_graphic by (simp_all add: list_all_iff)

lemma clean_number:
  assumes "sprint v \<noteq> []" "is_digit (hd (sprint v))" "is_digit (last (sprint v))"
  shows "clean v = sprint v"
proof -
  have "trim_space (sprint v) = sprint v"
    using assms digit_graphic by (intro trim_space_graphic) auto
  moreover have "sprint v \<noteq> ''<nil>''" using assms(2) by (auto simp: is_digit_def)
  ultimately show ?thesis by (simp add: clean_def)
qed

lemma parse_int64_letter: "is_digit (hd s) \<Longrightarrow> \<not> list_all is_digit s \<Longrightarrow> parse_int64 s = (0, False)"
  by (cases s) (auto simp: parse_digits_def dest: digit_not_sign)

lemma sprint_whole:
  assumes "0 < n"
  shows "sprint (VFloat (f64_of_int (int n))) = nat_str n \<and> n < 1000000
    \<or> (\<exists>a b. sprint (VFloat (f64_of_int (int n))) = a @ ''e+'' @ b \<and> a \<noteq> [] \<and> b \<noteq> []
         \<and> is_digit (hd a) \<and> is_digit (last b)) \<and> 1000000 \<le> n"
proof -
  obtain m e where s: "strip_zeros (int n) 0 = (m, e)" by (cases "strip_zeros (int n) 0")
  then have m: "0 < m" "0 \<le> e" "int n = m * 10 ^ nat e"
    using strip_zeros_props [OF s] assms by simp_all
  define ds where "ds = nat_str (nat m)"
  have n: "n = nat m * 10 ^ nat e"
  proof -
    have "int n = int (nat m * 10 ^ nat e)" using m by simp
    then show ?thesis by linarith
  qed
  have str: "nat_str n = ds @ replicate (nat e) (CHR ''0'')"
    unfolding n ds_def using m(1) by (intro nat_str_times_power) simp
  have f: "f64_of_int (int n) = Fin m e" using assms s by (simp add: f64_of_int_def dec_def)
  let ?dp = "int (length ds) + e"
  have dp: "int (length (nat_str n)) = ?dp" using m(2) by (simp add: str)
  have ds: "ds \<noteq> []" "list_all is_digit ds" by (simp_all add: ds_def nat_str_digits)
  have small: "?dp - 1 < 6 \<longleftrightarrow> n < 1000000"
    using length_nat_str_le [of 6 n] dp by (simp del: of_nat_less_iff) linarith
  have pos: "0 < ?dp" using ds(1) m(2) by (cases ds) auto
  have g: "fmt_g (Fin m e) = (if 6 \<le> ?dp - 1 then fmt_e ds (?dp - 1) else fmt_f ds ?dp)"
    using m(1) pos by (simp add: ds_def Let_def)
  show ?thesis
  proof (cases "n < 1000000")
    case True
    have "fmt_f ds ?dp = nat_str n"
      using m(2) pos by (simp add: fmt_f_def str Let_def nat_add_distrib)
    then show ?thesis using True small g f by simp
  next
    case False
    define b where "b = (if \<bar>?dp - 1\<bar> < 10 then ''0'' else []) @ nat_str (nat \<bar>?dp - 1\<bar>)"
    define a where "a = take 1 ds @ (if length ds > 1 then CHR ''.'' # drop 1 ds else [])"
    have "fmt_e ds (?dp - 1) = a @ ''e+'' @ b"
      using pos by (simp add: fmt_e_def exp_str_def a_def b_def)
    moreover have "a \<noteq> []" "is_digit (hd a)" using ds by (cases ds; simp add: a_def)+
    moreover have "b \<noteq> []" "is_digit (last b)"
      using nat_str_digits [of "nat \<bar>?dp - 1\<bar>"] by (simp_all add: b_def list_all_iff)
    ultimately show ?thesis using False small g f by auto
  qed
qed

text \<open>
  C19: an amount given as a JSON number reaches Stripe only below one million minor units:
  from there on the printed form has an exponent, which the integer parser refuses.
\<close>
theorem stripe_amount_limit:
  assumes "0 < n" "n \<le> 999999999999999"
  shows "positive_amount [(''amount'', VFloat (f64_of_int n))] ''amount'' =
    (if n < 1000000 then Inr n
     else Inl (Permanent ''stripe.amount_invalid'' (Msg ''positive integer amount is required'')))"
proof -
  let ?v = "VFloat (f64_of_int n)"
  have cs: "config_string [(''amount'', ?v)] [''amount''] = clean ?v"
    by (simp add: config_string_def clean_at_def at_def get_or_def first_text_def)
  have n: "int (nat n) = n" "0 < nat n" using assms by simp_all
  from sprint_whole [OF n(2)] show ?thesis
  proof
    assume s: "sprint (VFloat (f64_of_int (int (nat n)))) = nat_str (nat n) \<and> nat n < 1000000"
    then have "clean ?v = nat_str (nat n)"
      using n nat_str_digits [of "nat n"] by (subst clean_number) (simp_all add: list_all_iff)
    then show ?thesis
      using s n assms parse_int64_nat_str [of "nat n"] by (simp add: positive_amount_def cs) linarith
  next
    assume "(\<exists>a b. sprint (VFloat (f64_of_int (int (nat n)))) = a @ ''e+'' @ b \<and> a \<noteq> [] \<and> b \<noteq> []
         \<and> is_digit (hd a) \<and> is_digit (last b)) \<and> 1000000 \<le> nat n"
    then obtain a b where s: "sprint ?v = a @ ''e+'' @ b" "a \<noteq> []" "b \<noteq> []" "is_digit (hd a)"
      "is_digit (last b)" "1000000 \<le> n" using n by auto
    then have "clean ?v = a @ ''e+'' @ b" by (subst clean_number) simp_all
    moreover have "parse_int64 (a @ ''e+'' @ b) = (0, False)"
      using s by (intro parse_int64_letter) (auto simp: is_digit_def)
    ultimately show ?thesis using s by (simp add: positive_amount_def cs)
  qed
qed

theorem stripe_amount_limit_witness:
  "positive_amount [(''amount'', VFloat (f64_of_int 999999))] ''amount'' = Inr 999999"
  using stripe_amount_limit [of 999999] by simp

section \<open>What a charge carries\<close>

lemma get_value_copy_query: "k \<notin> set ks \<Longrightarrow> get_value (copy_query ks m q) k = get_value q k"
  by (induction ks arbitrary: q) (auto simp: copy_query.simps)

lemma distinct_copy_query:
  "distinct (map fst q) \<Longrightarrow> distinct (map fst (copy_query ks m q))"
  by (induction ks arbitrary: q) (auto simp: copy_query.simps distinct_put)

lemma get_value_fold_put:
  "(\<And>i. f i \<noteq> k) \<Longrightarrow> get_value (fold (\<lambda>(i, p). put (f i) [p]) xs q) k = get_value q k"
  by (induction xs arbitrary: q) auto

lemma distinct_fold_put:
  "distinct (map fst q) \<Longrightarrow> distinct (map fst (fold (\<lambda>(i, p). put (f i) [p]) xs q))"
  by (induction xs arbitrary: q) (auto simp: distinct_put)

lemma payment_method_values_frame:
  "hd k \<noteq> CHR ''p'' \<Longrightarrow> k \<noteq> [] \<Longrightarrow> k \<noteq> ''automatic_payment_methods[enabled]'' \<Longrightarrow>
    get_value (payment_method_values m q) k = get_value q k"
  unfolding payment_method_values_def Let_def
  by (subst get_value_fold_put) (auto split: val.split)

lemma distinct_payment_method_values:
  "distinct (map fst q) \<Longrightarrow> distinct (map fst (payment_method_values m q))"
  unfolding payment_method_values_def Let_def
  by (intro distinct_fold_put) (auto simp: distinct_put split: val.split)

lemma positive_amount_Inr: "positive_amount m k = Inr n \<Longrightarrow> 0 < n \<and> int64 n"
  using parse_int64_range [of "config_string m [k]"]
  by (auto simp: positive_amount_def split: prod.splits if_splits)

lemma currency_lower: "to_lower (currency_or_default m conf) = currency_or_default m conf"
  "to_lower (currency_of m) = currency_of m"
  by (simp_all add: currency_or_default_def currency_of_def)

definition charges :: "url_values \<Rightarrow> int \<Rightarrow> string \<Rightarrow> bool" where
  "charges q n cur \<longleftrightarrow> get_value q ''amount'' = itoa n \<and> get_value q ''currency'' = cur
     \<and> 0 < n \<and> int64 n \<and> cur \<noteq> [] \<and> to_lower cur = cur"

lemma charge_plans:
  "create_payment_intent conf m = Inr (mth, pth, q) \<Longrightarrow>
    mth = ''POST'' \<and> distinct (map fst q) \<and> (\<exists>n cur. charges q n cur)"
  "process_card_payment m = Inr (mth, pth, q) \<Longrightarrow>
    mth = ''POST'' \<and> distinct (map fst q) \<and> (\<exists>n cur. charges q n cur)"
  by (auto simp: create_payment_intent_def process_card_payment_def charges_def Let_def
      payment_method_values_frame get_value_copy_query distinct_payment_method_values
      distinct_copy_query distinct_put currency_lower dest!: positive_amount_Inr
      split: sum.splits if_splits)

text \<open>A charge reaches Stripe with a positive amount and a currency in lower case.\<close>

lemma stripe_charge_values:
  assumes "call_operation T r sent = (sent', res)" "sent' \<noteq> sent"
    "cr_operation r \<in> {''create_payment_intent'', ''process_card_payment''}"
  shows "\<exists>q n cur. sent' = sent @ [q] \<and> req_method q = ''POST'' \<and> charges (parse_query (req_body q)) n cur"
proof -
  obtain v mth pth "values" where v: "decode_map (cr_payload r) = Some v"
    "stripe_plan (cr_operation r) (config (cr_connection r)) (as_obj v) = Inr (mth, pth, values)"
    using assms(1,2) by (auto simp: call_operation_def split: option.splits sum.splits prod.splits)
  then have p: "mth = ''POST''" "distinct (map fst values)" "\<exists>n cur. charges values n cur"
    using assms(3) charge_plans by (fastforce simp: stripe_plan_def)+
  obtain x where x: "stripe_execute (cr_connection r) (cr_secrets r) (cr_ref r) mth pth values T sent = (sent', x)"
    using assms(1) v by (auto simp: call_operation_def split: prod.splits)
  then obtain q where q: "execute_plan (cr_connection r) (cr_secrets r) (cr_ref r) mth pth values = Inr q"
    "sent' = sent @ [q]"
    using assms(2) by (auto simp: stripe_execute_def send_def split: sum.splits)
  then have "req_body q = encode_values values" "req_method q = ''POST''"
    using p(1) by (auto simp: execute_plan_def Let_def plain_request_def split: sum.splits)
  then have "charges (parse_query (req_body q)) n cur = charges values n cur" for n cur
    by (simp add: charges_def get_value_parse_encode p(2))
  then show ?thesis using p(3) q(2) \<open>req_method q = ''POST''\<close> by blast
qed

section \<open>The webhook verifier\<close>

text \<open>What Stripe's documentation asks of a signed event.\<close>

definition stripe_authentic :: "webhook_request \<Rightarrow> bool" where
  "stripe_authentic r \<longleftrightarrow>
     (\<exists>ts sigs. parse_signature (header_value (wh_headers r) ''Stripe-Signature'') = Some (ts, sigs)
       \<and> trim_space (secret (wh_secrets r) ''webhook_secret'') \<noteq> []
       \<and> hmac_sha256_hex (trim_space (secret (wh_secrets r) ''webhook_secret''))
           (itoa ts @ ''.'' @ wh_body r) \<in> set sigs
       \<and> within_tolerance (received_at r) ts
           (wrap64 (config_int (config (wh_connection r)) 300 ''webhook_tolerance_seconds'' * nanos)))"

definition stripe_named :: "webhook_request \<Rightarrow> bool" where
  "stripe_named r \<longleftrightarrow> (case decode_map (wh_body r) of None \<Rightarrow> False
     | Some p \<Rightarrow> config_string (as_obj p) [''id''] \<noteq> [] \<and> config_string (as_obj p) [''type''] \<noteq> [])"

interpretation stripe_hooks: webhook_verifier stripe_verify stripe_authentic stripe_named
proof (unfold_locales, goal_cases)
  case 1 show ?case
    by (auto simp: stripe_verify_def stripe_authentic_def stripe_named_def stripe_secret_def Let_def
        split: option.splits)
next
  case 2 then show ?case
    by (auto simp: stripe_verify_def identified_def plain_event_def Let_def
        split: option.splits sum.splits prod.splits if_splits)
next
  case 3 then show ?case
    by (simp add: stripe_verify_def stripe_secret_def Let_def split: option.split prod.split)
next
  case 4 then show ?case by (simp add: stripe_verify_def)
qed

end
