(* ===== verification/GoPath.thy ===== *)
theory GoPath
  imports GoBase
begin

text \<open>
  \<^verbatim>\<open>path.Clean\<close>, and what it does to the walk that a slash-separated path describes: the
  cleaned path leads to the same place, and a relative path that climbs above its start keeps
  the dots that say so.
\<close>

section \<open>Cleaning\<close>

fun clean_parts :: "bool \<Rightarrow> string list \<Rightarrow> string list \<Rightarrow> string list" where
  "clean_parts rooted st [] = rev st"
| "clean_parts rooted st (c # cs) =
     (if c = [] \<or> c = ''.'' then clean_parts rooted st cs
      else if c = ''..'' then
        (case st of
           [] \<Rightarrow> clean_parts rooted (if rooted then [] else [''..'']) cs
         | t # ts \<Rightarrow> clean_parts rooted (if t = ''..'' then ''..'' # st else ts) cs)
      else clean_parts rooted (c # st) cs)"

definition path_clean :: "string \<Rightarrow> string" where
  "path_clean p =
     (let rooted = has_prefix p ''/'';
          s = join ''/'' (clean_parts rooted [] (split_on (CHR ''/'') p))
      in if rooted then CHR ''/'' # s else if s = [] then ''.'' else s)"

section \<open>Walks\<close>

text \<open>
  The place a relative path leads to, as the names on the way from the start; \<open>None\<close> when the
  walk climbs above the start.
\<close>

fun walk :: "string list \<Rightarrow> string list \<Rightarrow> string list option" where
  "walk st [] = Some (rev st)"
| "walk st (c # cs) =
     (if c = [] \<or> c = ''.'' then walk st cs
      else if c = ''..'' then (case st of [] \<Rightarrow> None | t # ts \<Rightarrow> walk ts cs)
      else walk (c # st) cs)"

definition proper_name :: "string \<Rightarrow> bool" where
  "proper_name n \<longleftrightarrow> n \<noteq> [] \<and> n \<noteq> ''.'' \<and> n \<noteq> ''..'' \<and> CHR ''/'' \<notin> set n"

lemma walk_names:
  "walk st cs = Some ns \<Longrightarrow> list_all proper_name st \<Longrightarrow> list_all (\<lambda>c. CHR ''/'' \<notin> set c) cs
    \<Longrightarrow> list_all proper_name ns"
  by (induction st cs rule: walk.induct)
    (auto simp: proper_name_def list_all_rev split: if_splits list.splits)

lemma clean_parts_walk:
  "walk st cs = Some ns \<Longrightarrow> list_all proper_name st \<Longrightarrow> list_all (\<lambda>c. CHR ''/'' \<notin> set c) cs
    \<Longrightarrow> clean_parts False st cs = ns"
  by (induction st cs rule: walk.induct)
    (auto simp: proper_name_def split: if_splits list.splits)

text \<open>Once the walk has left, the stack keeps a leading pair of dots.\<close>

lemma clean_parts_dots:
  "st \<noteq> [] \<Longrightarrow> last st = ''..'' \<Longrightarrow> hd (clean_parts False st cs) = ''..'' \<and> clean_parts False st cs \<noteq> []"
  by (induction False st cs rule: clean_parts.induct)
    (auto simp: hd_rev split: if_splits list.splits)

lemma clean_parts_escaped:
  "walk st cs = None \<Longrightarrow> list_all proper_name st \<Longrightarrow> list_all (\<lambda>c. CHR ''/'' \<notin> set c) cs \<Longrightarrow>
    hd (clean_parts False st cs) = ''..'' \<and> clean_parts False st cs \<noteq> []"
  by (induction st cs rule: walk.induct)
    (auto simp: proper_name_def clean_parts_dots split: if_splits list.splits)

text \<open>Cleaning a relative path gives the walk's names, or keeps the dots, never both.\<close>

lemma join_no_sep_hd:
  "ns \<noteq> [] \<Longrightarrow> hd ns = ''..'' \<Longrightarrow> join ''/'' ns = ''..'' \<or> has_prefix (join ''/'' ns) ''../''"
  by (cases ns; cases "tl ns") (auto simp: has_prefix_def join_Cons)

lemma join_proper:
  assumes "ns \<noteq> []" "list_all proper_name ns"
  shows "join ''/'' ns \<noteq> []" "join ''/'' ns \<noteq> ''.''" "join ''/'' ns \<noteq> ''..''"
    "\<not> has_prefix (join ''/'' ns) ''../''" "\<not> has_prefix (join ''/'' ns) ''/''"
proof -
  have s: "split_on (CHR ''/'') (join ''/'' ns) = ns"
    using assms by (intro split_on_join) (auto simp: list_all_iff proper_name_def)
  then show "join ''/'' ns \<noteq> []" "join ''/'' ns \<noteq> ''.''" "join ''/'' ns \<noteq> ''..''"
    using assms by (auto simp: proper_name_def)
  have "has_prefix (join ''/'' ns) (p @ ''/'') \<Longrightarrow> CHR ''/'' \<notin> set p \<Longrightarrow> hd ns = p" for p
    using s split_on_append [of "CHR ''/''" p] by (auto simp: has_prefix_def prefix_def)
  from this [of "''..''"] this [of "[]"]
  show "\<not> has_prefix (join ''/'' ns) ''../''" "\<not> has_prefix (join ''/'' ns) ''/''"
    using assms by (cases ns; auto simp: proper_name_def)+
qed

lemma path_clean_walk:
  assumes "\<not> has_prefix p ''/''"
  shows "case walk [] (split_on (CHR ''/'') p) of
      None \<Rightarrow> path_clean p = ''..'' \<or> has_prefix (path_clean p) ''../''
    | Some ns \<Rightarrow> list_all proper_name ns \<and> path_clean p = (if ns = [] then ''.'' else join ''/'' ns)"
proof -
  have parts: "list_all (\<lambda>c. CHR ''/'' \<notin> set c) (split_on (CHR ''/'') p)"
    using split_on_no_sep by (fastforce simp: list_all_iff)
  show ?thesis
  proof (cases "walk [] (split_on (CHR ''/'') p)")
    case None
    let ?c = "clean_parts False [] (split_on (CHR ''/'') p)"
    have c: "hd ?c = ''..''" "?c \<noteq> []" using clean_parts_escaped [OF None _ parts] by simp_all
    then have "join ''/'' ?c = ''..'' \<or> has_prefix (join ''/'' ?c) ''../''"
      by (intro join_no_sep_hd)
    moreover have "\<not> has_prefix [] ''../''" by (simp add: has_prefix_def)
    ultimately show ?thesis
      using None assms by (auto simp: path_clean_def Let_def)
  next
    case (Some ns)
    have "clean_parts False [] (split_on (CHR ''/'') p) = ns"
      using Some parts by (intro clean_parts_walk) simp_all
    moreover have "list_all proper_name ns" using walk_names [OF Some _ parts] by simp
    ultimately show ?thesis
      using Some assms join_proper(1) [of ns] by (simp add: path_clean_def Let_def)
  qed
qed

end
