(* ===== verification/LocalStorage.thy ===== *)
theory LocalStorage
  imports Sdk GoPath
begin

text \<open>
  The local file storage provider (\<^verbatim>\<open>providers/file_storage/local\<close>). The filesystem belongs to
  the runtime: it is a transport of filesystem requests. The MIME tables of the standard
  library are a parameter: the media type of a declared type with whether it parses, the type
  of a file extension, and the type sniffed from a content. Absolute paths are those of Unix.
\<close>

section \<open>The filesystem and the MIME tables\<close>

datatype fs_operation = Probe | WriteFile | ReadFile | DeleteFile

record fs_request =
  fs_root :: string
  fs_path :: string
  fs_operation :: fs_operation
  fs_content :: string
  fs_max_read :: int


record mime =
  media_type :: "string \<Rightarrow> string \<times> bool"
  type_by_extension :: "string \<Rightarrow> string"
  detect_type :: "string \<Rightarrow> string"

section \<open>Values\<close>

definition local_permanent :: "string \<Rightarrow> string \<Rightarrow> gerr" where
  "local_permanent sfx message = Permanent (''local.'' @ sfx) (Msg message)"

fun local_integer :: "val \<Rightarrow> int \<Rightarrow> int" where
  "local_integer (VInt i) d = i"
| "local_integer (VFloat f) d = f64_trunc f"
| "local_integer (VNum s) d = (case atoi s of Some i \<Rightarrow> i | None \<Rightarrow> d)"
| "local_integer (VStr s) d = (case atoi (trim_space s) of Some i \<Rightarrow> i | None \<Rightarrow> d)"
| "local_integer _ d = d"

definition local_boolean :: "val \<Rightarrow> bool \<Rightarrow> bool" where
  "local_boolean v d = (case v of VBool b \<Rightarrow> b
     | _ \<Rightarrow> (case parse_bool (clean v) of Some b \<Rightarrow> b | None \<Rightarrow> d))"

definition storage_root :: "connection \<Rightarrow> string" where
  "storage_root c = clean_at (config c) ''storage_root''"

definition max_file_bytes :: "connection \<Rightarrow> int" where
  "max_file_bytes c = local_integer (at (config c) ''max_file_bytes'') 1048576"

definition local_validate :: "connection \<Rightarrow> gerr option" where
  "local_validate c =
     (if storage_root c = [] then Some (local_permanent ''root_required'' ''storage_root is required'')
      else if \<not> has_prefix (storage_root c) ''/''
      then Some (local_permanent ''root_must_be_absolute'' ''storage_root must be absolute'')
      else if max_file_bytes c < 1
      then Some (local_permanent ''max_file_bytes_invalid'' ''max_file_bytes must be positive'')
      else None)"

definition slashes :: "string \<Rightarrow> string" where
  "slashes s = trim_space (map (\<lambda>c. if c = CHR 0x5C then CHR ''/'' else c) s)"

definition relative_path :: "string \<Rightarrow> string res" where
  "relative_path v =
     (if slashes v = [] \<or> has_prefix (slashes v) ''/''
      then Inl (local_permanent ''path_invalid'' ''path must be relative'')
      else let cleaned = path_clean (slashes v) in
        if cleaned = ''.'' \<or> cleaned = ''..'' \<or> has_prefix cleaned ''../''
        then Inl (local_permanent ''path_invalid'' ''path escapes the configured root'')
        else Inr cleaned)"

text \<open>\<open>path.Ext\<close>.\<close>

definition path_ext :: "string \<Rightarrow> string" where
  "path_ext s = (case cut_last (CHR ''.'') (last (split_on (CHR ''/'') s)) of
     None \<Rightarrow> [] | Some (_, e) \<Rightarrow> CHR ''.'' # e)"

definition file_content_type :: "mime \<Rightarrow> string \<Rightarrow> string \<Rightarrow> string \<Rightarrow> string res" where
  "file_content_type mm name content declared =
     (if trim_space declared \<noteq> [] then
        (case media_type mm (trim_space declared) of (ty, ok) \<Rightarrow>
           if ok then Inr ty else Inl (local_permanent ''content_type_invalid'' ''content_type is invalid''))
      else if type_by_extension mm (path_ext name) \<noteq> []
      then Inr (fst (media_type mm (type_by_extension mm (path_ext name))))
      else Inr (detect_type mm content))"

section \<open>Operations\<close>

definition on_path :: "connection \<Rightarrow> string \<Rightarrow> (string \<Rightarrow> typed + fs_request) \<Rightarrow> typed + fs_request" where
  "on_path c p f = (case local_validate c of
     Some e \<Rightarrow> Inl (failed e)
   | None \<Rightarrow> (case relative_path p of Inl e \<Rightarrow> Inl (failed e) | Inr cleaned \<Rightarrow> f cleaned))"

definition cleaned_path :: "string \<Rightarrow> string" where
  "cleaned_path p = (case relative_path p of Inl _ \<Rightarrow> [] | Inr cleaned \<Rightarrow> cleaned)"

definition text_of_type :: "string res \<Rightarrow> string" where
  "text_of_type t = (case t of Inl _ \<Rightarrow> [] | Inr ty \<Rightarrow> ty)"

definition put_plan :: "mime \<Rightarrow> connection \<Rightarrow> string \<Rightarrow> string \<Rightarrow> string \<Rightarrow> typed + fs_request" where
  "put_plan mm c p content declared = on_path c p (\<lambda>cleaned.
     if int (length content) > max_file_bytes c
     then Inl (failed (local_permanent ''file_too_large'' ''content exceeds max_file_bytes''))
     else (case file_content_type mm cleaned content declared of
        Inl e \<Rightarrow> Inl (failed e)
      | Inr _ \<Rightarrow> Inr \<lparr>fs_root = storage_root c, fs_path = cleaned, fs_operation = WriteFile,
          fs_content = content, fs_max_read = 0\<rparr>))"

definition put_read :: "mime \<Rightarrow> string \<Rightarrow> string \<Rightarrow> string \<Rightarrow> string + string \<Rightarrow> typed" where
  "put_read mm p content declared answer = (case answer of
     Inl m \<Rightarrow> failed (Uncertain ''local.write_failed'' (TransportErr m))
   | Inr _ \<Rightarrow> (VObj [(''path'', VStr (cleaned_path p)), (''bytes'', VInt (int (length content))),
       (''content_type'', VStr (text_of_type (file_content_type mm (cleaned_path p) content declared)))],
       ''file:'' @ cleaned_path p, None))"

definition local_put where
  "local_put mm c p content declared = run_plan (put_plan mm c p content declared) (put_read mm p content declared)"

definition get_plan :: "connection \<Rightarrow> string \<Rightarrow> typed + fs_request" where
  "get_plan c p = on_path c p (\<lambda>cleaned.
     Inr \<lparr>fs_root = storage_root c, fs_path = cleaned, fs_operation = ReadFile, fs_content = [],
       fs_max_read = max_file_bytes c\<rparr>)"

definition get_read :: "mime \<Rightarrow> string \<Rightarrow> string + string \<Rightarrow> typed" where
  "get_read mm p answer = (case answer of
     Inl m \<Rightarrow> failed (Retryable ''local.read_failed'' (TransportErr m))
   | Inr content \<Rightarrow> (VObj [(''path'', VStr (cleaned_path p)), (''content'', VStr content),
       (''bytes'', VInt (int (length content))),
       (''content_type'', VStr (text_of_type (file_content_type mm (cleaned_path p) content [])))],
       ''file:'' @ cleaned_path p, None))"

definition local_get where
  "local_get mm c p = run_plan (get_plan c p) (get_read mm p)"

definition delete_plan :: "connection \<Rightarrow> string \<Rightarrow> typed + fs_request" where
  "delete_plan c p =
     (if \<not> local_boolean (at (config c) ''allow_delete'') False
      then Inl (failed (local_permanent ''delete_forbidden'' ''delete is disabled''))
      else on_path c p (\<lambda>cleaned. Inr \<lparr>fs_root = storage_root c, fs_path = cleaned,
        fs_operation = DeleteFile, fs_content = [], fs_max_read = 0\<rparr>))"

definition delete_read :: "string \<Rightarrow> string + string \<Rightarrow> typed" where
  "delete_read p answer = (case answer of
     Inl m \<Rightarrow> failed (Uncertain ''local.delete_failed'' (TransportErr m))
   | Inr _ \<Rightarrow> (VObj [(''path'', VStr (cleaned_path p)), (''deleted'', VBool True)],
       ''file:'' @ cleaned_path p, None))"

definition local_delete where
  "local_delete c p = run_plan (delete_plan c p) (delete_read p)"

definition probe_plan :: "connection \<Rightarrow> typed + fs_request" where
  "probe_plan c = (case local_validate c of
     Some e \<Rightarrow> Inl (failed e)
   | None \<Rightarrow> Inr \<lparr>fs_root = storage_root c, fs_path = [], fs_operation = Probe, fs_content = [],
       fs_max_read = 0\<rparr>)"

definition probe_read :: "string + string \<Rightarrow> typed" where
  "probe_read answer = (case answer of
     Inl m \<Rightarrow> failed (Retryable ''local.root_unavailable'' (TransportErr m))
   | Inr _ \<Rightarrow> (VObj [(''connected'', VBool True)], ''file:root-ready'', None))"

definition local_test where
  "local_test c = run_plan (probe_plan c) probe_read"

interpretation putting: one_request "local_put mm c p content declared"
  "put_plan mm c p content declared" "put_read mm p content declared"
  for mm c p content declared
  by unfold_locales (simp add: local_put_def)

interpretation getting: one_request "local_get mm c p" "get_plan c p" "get_read mm p"
  for mm c p
  by unfold_locales (simp add: local_get_def)

interpretation deleting: one_request "local_delete c p" "delete_plan c p" "delete_read p"
  for c p
  by unfold_locales (simp add: local_delete_def)

section \<open>Where requests point\<close>

lemma relative_path_names:
  assumes "relative_path p = Inr cleaned"
  shows "\<exists>ns. walk [] (split_on (CHR ''/'') (slashes p)) = Some ns \<and> ns \<noteq> [] \<and>
    list_all proper_name ns \<and> cleaned = join ''/'' ns"
proof -
  have s: "\<not> has_prefix (slashes p) ''/''" "cleaned = path_clean (slashes p)"
    "cleaned \<noteq> ''.''" "cleaned \<noteq> ''..''" "\<not> has_prefix cleaned ''../''"
    using assms by (auto simp: relative_path_def Let_def split: if_splits)
  then show ?thesis
    using path_clean_walk [OF s(1)] by (auto split: option.splits if_splits)
qed

text \<open>
  A request inside the root: the root is the configured absolute one, and the path is made of
  proper names, the place the given path leads to without ever climbing above its start.
\<close>

definition inside_root :: "connection \<Rightarrow> string \<Rightarrow> fs_request \<Rightarrow> bool" where
  "inside_root c p q \<longleftrightarrow> fs_root q = storage_root c \<and> has_prefix (fs_root q) ''/'' \<and>
     (case walk [] (split_on (CHR ''/'') (slashes p)) of
        None \<Rightarrow> False
      | Some ns \<Rightarrow> ns \<noteq> [] \<and> list_all proper_name ns \<and> fs_path q = join ''/'' ns)"

lemma on_path_inside:
  assumes "on_path c p f = Inr q"
    "\<And>cleaned q. f cleaned = Inr q \<Longrightarrow> fs_root q = storage_root c \<and> fs_path q = cleaned"
  shows "inside_root c p q"
proof -
  obtain cleaned where "local_validate c = None" "relative_path p = Inr cleaned" "f cleaned = Inr q"
    using assms(1) by (auto simp: on_path_def split: option.splits sum.splits)
  then show ?thesis
    using assms(2) relative_path_names
    by (fastforce simp: inside_root_def local_validate_def split: if_splits option.splits)
qed

lemma plans_inside:
  "put_plan mm c p content declared = Inr q \<Longrightarrow> inside_root c p q
    \<and> int (length (fs_content q)) \<le> max_file_bytes c \<and> fs_operation q = WriteFile"
  "get_plan c p = Inr q \<Longrightarrow> inside_root c p q \<and> fs_operation q = ReadFile"
  "delete_plan c p = Inr q \<Longrightarrow> inside_root c p q \<and> fs_operation q = DeleteFile
    \<and> local_boolean (at (config c) ''allow_delete'') False"
proof -
  show "put_plan mm c p content declared = Inr q \<Longrightarrow> inside_root c p q
    \<and> int (length (fs_content q)) \<le> max_file_bytes c \<and> fs_operation q = WriteFile"
    using on_path_inside [of c p _ q]
    by (fastforce simp: put_plan_def on_path_def split: if_splits sum.splits option.splits)
  show "get_plan c p = Inr q \<Longrightarrow> inside_root c p q \<and> fs_operation q = ReadFile"
    using on_path_inside [of c p _ q]
    by (fastforce simp: get_plan_def on_path_def split: sum.splits option.splits)
  show "delete_plan c p = Inr q \<Longrightarrow> inside_root c p q \<and> fs_operation q = DeleteFile
    \<and> local_boolean (at (config c) ''allow_delete'') False"
    using on_path_inside [of c p _ q]
    by (fastforce simp: delete_plan_def on_path_def split: if_splits sum.splits option.splits)
qed

section \<open>The store behind the filesystem\<close>






section \<open>Properties\<close>



text \<open>
  C20: put, get and delete send at most one request, and it stays inside the configured root:
  an absolute root, and a path of proper names without dots or separators that the given path
  leads to without leaving its start; a write is within the size limit, and nothing is
  deleted unless deletion is allowed.
\<close>
theorem local_paths_contained:
  "(fst (local_put mm c p content declared T sent) = sent \<or>
     (\<exists>q. fst (local_put mm c p content declared T sent) = sent @ [q] \<and> inside_root c p q
        \<and> fs_operation q = WriteFile \<and> int (length (fs_content q)) \<le> max_file_bytes c))
   \<and> (fst (local_get mm c p T sent) = sent \<or>
     (\<exists>q. fst (local_get mm c p T sent) = sent @ [q] \<and> inside_root c p q \<and> fs_operation q = ReadFile))
   \<and> (fst (local_delete c p T sent) = sent \<or>
     (\<exists>q. fst (local_delete c p T sent) = sent @ [q] \<and> inside_root c p q \<and> fs_operation q = DeleteFile
        \<and> local_boolean (at (config c) ''allow_delete'') False))"
proof (intro conjI)
  show "fst (local_put mm c p content declared T sent) = sent \<or>
     (\<exists>q. fst (local_put mm c p content declared T sent) = sent @ [q] \<and> inside_root c p q
        \<and> fs_operation q = WriteFile \<and> int (length (fs_content q)) \<le> max_file_bytes c)"
    using plans_inside(1)
    by (cases "put_plan mm c p content declared") (simp_all add: putting.refused putting.sent)
  show "fst (local_get mm c p T sent) = sent \<or>
     (\<exists>q. fst (local_get mm c p T sent) = sent @ [q] \<and> inside_root c p q \<and> fs_operation q = ReadFile)"
    using plans_inside(2) by (cases "get_plan c p") (simp_all add: getting.refused getting.sent)
  show "fst (local_delete c p T sent) = sent \<or>
     (\<exists>q. fst (local_delete c p T sent) = sent @ [q] \<and> inside_root c p q \<and> fs_operation q = DeleteFile
        \<and> local_boolean (at (config c) ''allow_delete'') False)"
    using plans_inside(3) by (cases "delete_plan c p") (simp_all add: deleting.refused deleting.sent)
qed



end
