(* ===== verification/Snowflake.thy ===== *)
theory Snowflake
  imports Sdk SqlPolicy GoPath
begin

text \<open>
  The Snowflake SQL API client (\<^verbatim>\<open>internal/snowflakesql\<close>): a statement is posted, and while the
  server answers 202 its status is polled, until the context ends. The context is a function
  from the requests sent so far to the error of an ended context. The loop has no bound of its
  own, so the model of it is a partial function, with \<open>None\<close> for a loop that never returns.
\<close>

section \<open>Identity and configuration\<close>

record sf_identity =
  sf_connector :: string
  sf_provider :: string

definition sf_code :: "sf_identity \<Rightarrow> string \<Rightarrow> string" where
  "sf_code i sfx = sf_connector i @ ''.'' @ sf_provider i @ ''.'' @ sfx"

definition sf_permanent :: "sf_identity \<Rightarrow> string \<Rightarrow> string \<Rightarrow> gerr" where
  "sf_permanent i sfx message = Permanent (sf_code i sfx) (Msg message)"

definition sf_account :: "connection \<Rightarrow> string" where
  "sf_account c = first_text [trim_space (map_string (config c) ''account''),
     trim_space (map_string (config c) ''host'')]"

definition sf_token_type :: "connection \<Rightarrow> string" where
  "sf_token_type c = to_upper (map_string (config c) ''token_type'')"

definition sf_int :: "val \<Rightarrow> int \<Rightarrow> int" where
  "sf_int v d = (if v = VNil then d else
     (case atoi (trim_space (sprint v)) of None \<Rightarrow> 0 | Some n \<Rightarrow> n))"

definition sf_bool :: "val \<Rightarrow> bool \<Rightarrow> bool" where
  "sf_bool v d = (if v = VNil then d else
     (case parse_bool (trim_space (sprint v)) of None \<Rightarrow> False | Some b \<Rightarrow> b))"

definition sf_endpoint :: "sf_identity \<Rightarrow> connection \<Rightarrow> string res" where
  "sf_endpoint i c =
     (let base = trim_right_char (CHR ''/'') (map_string (config c) ''base_url'');
          raw = (if base = [] then ''https://'' @ sf_account c @ ''.snowflakecomputing.com'' else base) in
      case url_parse raw of
        None \<Rightarrow> Inl (sf_permanent i ''endpoint_invalid'' ''valid Snowflake endpoint is required'')
      | Some u \<Rightarrow>
          if host u = [] \<or> user u \<noteq> None
          then Inl (sf_permanent i ''endpoint_invalid'' ''valid Snowflake endpoint is required'')
          else if scheme u = ''http'' \<and> is_loopback (hostname u) then Inr raw
          else let h = to_lower (hostname u) in
            if scheme u \<noteq> ''https'' \<or> \<not> has_suffix h ''.snowflakecomputing.com''
               \<or> h = ''snowflakecomputing.com'' \<or> (escaped_path u \<noteq> [] \<and> escaped_path u \<noteq> ''/'')
            then Inl (sf_permanent i ''endpoint_invalid'' ''official Snowflake endpoint or loopback HTTP is required'')
            else Inr raw)"

definition sf_validate :: "sf_identity \<Rightarrow> connection \<Rightarrow> gerr option" where
  "sf_validate i c =
     (let timeout = sf_int (at (config c) ''timeout_seconds'') 30 in
      if sf_account c = [] \<and> map_string (config c) ''base_url'' = []
      then Some (sf_permanent i ''account_required'' ''account is required when base_url is not set'')
      else if map_of (config c) ''readonly'' \<noteq> None \<and> \<not> sf_bool (at (config c) ''readonly'') True
      then Some (sf_permanent i ''readonly_required'' ''readonly must be true'')
      else if sf_token_type c \<notin> set [[], ''OAUTH'', ''KEYPAIR_JWT'', ''PROGRAMMATIC_ACCESS_TOKEN'']
      then Some (sf_permanent i ''token_type_invalid'' ''token_type is unsupported'')
      else if timeout < 1 \<or> timeout > 300
      then Some (sf_permanent i ''timeout_invalid'' ''timeout_seconds must be between 1 and 300'')
      else (case sf_endpoint i c of Inl e \<Rightarrow> Some e | Inr _ \<Rightarrow> None))"

definition sf_max_rows :: "sf_identity \<Rightarrow> connection \<Rightarrow> int \<Rightarrow> int res" where
  "sf_max_rows i c n = (let v = (if n = 0 then sf_int (at (config c) ''max_rows'') 100 else n) in
     if v < 1 \<or> v > 1000 then Inl (sf_permanent i ''max_rows_invalid'' ''max_rows must be between 1 and 1000'')
     else Inr v)"

definition sf_status_path :: "sf_identity \<Rightarrow> val \<Rightarrow> string res" where
  "sf_status_path i v =
     (let raw = trim_space (sprint v); bad = Inl (sf_permanent i ''status_url_invalid''
          ''Snowflake statement status URL is invalid'') in
      case url_parse raw of
        None \<Rightarrow> bad
      | Some u \<Rightarrow>
          if raw = [] \<or> raw = ''<nil>'' \<or> scheme u \<noteq> [] \<or> host u \<noteq> []
             \<or> \<not> has_prefix (path u) ''/api/v2/statements/'' \<or> path_clean (path u) \<noteq> path u
          then bad else Inr (request_uri u))"

section \<open>One request\<close>

text \<open>The payload, the status, the reference and the error, which the code returns together.\<close>

type_synonym sf_answer = "val \<times> int \<times> string \<times> gerr option"

definition sf_plan ::
  "sf_identity \<Rightarrow> connection \<Rightarrow> secrets \<Rightarrow> string \<Rightarrow> string \<Rightarrow> val option \<Rightarrow> sf_answer + http_request" where
  "sf_plan i c ss mth pth body = (let token = trim_space (secret ss ''token'') in
     case sf_validate i c of
       Some e \<Rightarrow> Inl (VNil, 0, [], Some e)
     | None \<Rightarrow>
         if token = [] then Inl (VNil, 0, [], Some (sf_permanent i ''token_required''
           ''resolved Snowflake authentication token is required''))
         else (case sf_endpoint i c of
           Inl e \<Rightarrow> Inl (VNil, 0, [], Some e)
         | Inr base \<Rightarrow>
             (case (case body of None \<Rightarrow> Some [] | Some v \<Rightarrow> marshal v) of
                None \<Rightarrow> Inl (VNil, 0, [], Some (sf_permanent i ''request_invalid''
                  ''Snowflake request body is invalid''))
              | Some raw \<Rightarrow> Inr ((plain_request mth (base @ pth)
                  ([(''Accept'', [''application/json'']), (''Content-Type'', [''application/json'']),
                    (''User-Agent'', [''domainry-snowflake-connector/1.0''])]
                   @ (if sf_token_type c \<noteq> []
                      then [(''X-Snowflake-Authorization-Token-Type'', [sf_token_type c])] else []))
                  raw)
                \<lparr>req_secret_headers := [(''Authorization'', [''Bearer '' @ token])], req_max := 8388608\<rparr>))))"

definition sf_read :: "sf_identity \<Rightarrow> string + http_response \<Rightarrow> sf_answer" where
  "sf_read i answer = (case answer of
     Inl m \<Rightarrow> (VNil, 0, [], Some (Retryable (sf_code i ''network_error'') (TransportErr m)))
   | Inr resp \<Rightarrow>
       (let status = resp_status resp; ref = ''http:'' @ itoa status in
        case (if resp_body resp = [] then Some (VObj []) else decode_map (resp_body resp)) of
          None \<Rightarrow> (VNil, status, ref, Some (sf_permanent i ''response_invalid''
            ''Snowflake response is invalid JSON''))
        | Some payload \<Rightarrow>
            (let code = sf_code i (''http_'' @ itoa status);
                 cause = Msg (''provider returned HTTP '' @ itoa status) in
             if status \<noteq> 200 \<and> status \<noteq> 202 then
               (if status = 408 \<or> status = 429 \<or> status \<ge> 500
                then (payload, status, ref, Some (Retryable code cause))
                else (payload, status, ref, Some (Permanent code cause)))
             else (payload, status, ref, None))))"

definition sf_request where
  "sf_request i c ss mth pth body = run_plan (sf_plan i c ss mth pth body) (sf_read i)"

section \<open>Statements\<close>

definition sf_body :: "connection \<Rightarrow> string \<Rightarrow> val" where
  "sf_body c statement = VObj ([(''statement'', VStr statement),
     (''timeout'', VInt (sf_int (at (config c) ''timeout_seconds'') 30))]
     @ concat (map (\<lambda>k. if map_string (config c) k = [] then [] else [(k, VStr (map_string (config c) k))])
         [''database'', ''schema'', ''warehouse'', ''role'']))"

type_synonym sf_context = "http_request list \<Rightarrow> string option"

partial_function (option) sf_poll ::
  "sf_identity \<Rightarrow> connection \<Rightarrow> secrets \<Rightarrow> http \<Rightarrow> sf_context \<Rightarrow> val \<Rightarrow> int \<Rightarrow> string \<Rightarrow> http_request list
    \<Rightarrow> (http_request list \<times> typed) option" where
  "sf_poll i c ss T ctx payload status ref sent =
     (if status \<noteq> 202 then Some (sent, payload, ref, None)
      else (case sf_status_path i (at (as_obj payload) ''statementStatusUrl'') of
        Inl e \<Rightarrow> Some (sent, VNil, ref, Some e)
      | Inr pth \<Rightarrow> (case ctx sent of
          Some m \<Rightarrow> Some (sent, VNil, ref, Some (Plain m))
        | None \<Rightarrow> (case sf_request i c ss ''GET'' pth None T sent of
            (sent', payload', status', ref', err) \<Rightarrow>
              if err \<noteq> None then Some (sent', VNil, ref', err)
              else sf_poll i c ss T ctx payload' status' ref' sent'))))"

definition sf_execute ::
  "sf_identity \<Rightarrow> connection \<Rightarrow> secrets \<Rightarrow> http \<Rightarrow> sf_context \<Rightarrow> string \<Rightarrow> http_request list
    \<Rightarrow> (http_request list \<times> typed) option" where
  "sf_execute i c ss T ctx statement sent =
     (case sf_request i c ss ''POST'' ''/api/v2/statements'' (Some (sf_body c statement)) T sent of
        (sent', payload, status, ref, err) \<Rightarrow>
          if err \<noteq> None then Some (sent', VNil, ref, err)
          else sf_poll i c ss T ctx payload status ref sent')"

section \<open>Results\<close>

definition sf_columns :: "obj \<Rightarrow> string list" where
  "sf_columns m = map (\<lambda>v. map_string (as_obj v) ''name'')
     (filter is_obj (as_arr (at (as_obj (at m ''resultSetMetaData'')) ''rowType'')))"

fun sf_row :: "string list \<Rightarrow> val list \<Rightarrow> obj \<Rightarrow> obj" where
  "sf_row (k # ks) (v # vs) m = sf_row ks vs (put k v m)"
| "sf_row _ _ m = m"

fun sf_rows_of :: "string list \<Rightarrow> val list \<Rightarrow> val list" where
  "sf_rows_of ks [] = []"
| "sf_rows_of ks (VArr vs # rs) = VObj (sf_row ks vs []) # sf_rows_of ks rs"
| "sf_rows_of ks (_ # rs) = sf_rows_of ks rs"

definition sf_rows :: "obj \<Rightarrow> val list" where
  "sf_rows m = sf_rows_of (sf_columns m) (as_arr (at m ''data''))"

definition sf_more_partitions :: "obj \<Rightarrow> bool" where
  "sf_more_partitions m \<longleftrightarrow>
     1 < length (as_arr (at (as_obj (at m ''resultSetMetaData'')) ''partitionInfo''))"

definition sf_table :: "int \<Rightarrow> obj \<Rightarrow> val \<times> string" where
  "sf_table limit m =
     (let rows = sf_rows m; kept = (if int (length rows) > limit then take (nat limit) rows else rows) in
      (VObj [(''columns'', VStrs (sf_columns m)), (''rows'', VArr kept),
        (''row_count'', VInt (int (length kept))),
        (''truncated'', VBool (int (length rows) > limit \<or> sf_more_partitions m))],
       ''snowflake:rows:'' @ itoa (int (length kept))))"

definition sf_query ::
  "sf_identity \<Rightarrow> connection \<Rightarrow> secrets \<Rightarrow> http \<Rightarrow> sf_context \<Rightarrow> string \<Rightarrow> int \<Rightarrow> http_request list
    \<Rightarrow> (http_request list \<times> typed) option" where
  "sf_query i c ss T ctx statement n sent =
     (case sf_max_rows i c n of
        Inl e \<Rightarrow> Some (sent, failed e)
      | Inr limit \<Rightarrow> (case sf_execute i c ss T ctx statement sent of
          None \<Rightarrow> None
        | Some (sent', payload, ref, Some e) \<Rightarrow> Some (sent', VNil, ref, Some e)
        | Some (sent', payload, ref, None) \<Rightarrow>
            (case sf_table limit (as_obj payload) of (table, tref) \<Rightarrow> Some (sent', table, tref, None))))"

definition sf_list_tables where
  "sf_list_tables i c ss T ctx n = sf_query i c ss T ctx
     ''SELECT TABLE_CATALOG, TABLE_SCHEMA, TABLE_NAME, TABLE_TYPE FROM INFORMATION_SCHEMA.TABLES ORDER BY TABLE_SCHEMA, TABLE_NAME'' n"

definition sf_sample_query where
  "sf_sample_query U i c ss T ctx query n sent =
     (let code = snowflake_read_only U query in
      if code \<noteq> [] then Some (sent, failed (sf_permanent i code ''query must be one safe read-only statement''))
      else sf_query i c ss T ctx (trim_space query) n sent)"

definition sf_test_connection ::
  "sf_identity \<Rightarrow> connection \<Rightarrow> secrets \<Rightarrow> http \<Rightarrow> sf_context \<Rightarrow> http_request list
    \<Rightarrow> (http_request list \<times> typed) option" where
  "sf_test_connection i c ss T ctx sent =
     (case sf_execute i c ss T ctx ''SELECT CURRENT_ACCOUNT(), CURRENT_USER(), CURRENT_ROLE()'' sent of
        None \<Rightarrow> None
      | Some (sent', payload, ref, Some e) \<Rightarrow> Some (sent', VNil, ref, Some e)
      | Some (sent', payload, ref, None) \<Rightarrow>
          (let base = [(''connected'', VBool True), (''readonly'', VBool True)] in
           Some (sent', VObj (case sf_rows (as_obj payload) of
               [] \<Rightarrow> base
             | r # _ \<Rightarrow> base @ [(''account'', at (as_obj r) ''CURRENT_ACCOUNT()''),
                 (''user'', at (as_obj r) ''CURRENT_USER()''), (''role'', at (as_obj r) ''CURRENT_ROLE()'')]),
             ''snowflake:'' @ sf_account c, None)))"

section \<open>Polling as a step relation\<close>

type_synonym sf_state = "val \<times> int \<times> string \<times> http_request list"

inductive sf_step ::
  "sf_identity \<Rightarrow> connection \<Rightarrow> secrets \<Rightarrow> http \<Rightarrow> sf_context \<Rightarrow> sf_state \<Rightarrow> sf_state \<Rightarrow> bool"
  for i c ss T ctx where
  poll: "sf_status_path i (at (as_obj payload) ''statementStatusUrl'') = Inr pth \<Longrightarrow> ctx sent = None \<Longrightarrow>
    sf_request i c ss ''GET'' pth None T sent = (sent', payload', status', ref', None) \<Longrightarrow>
    sf_step i c ss T ctx (payload, 202, ref, sent) (payload', status', ref', sent')"

inductive_cases sf_stepE: "sf_step i c ss T ctx (payload, status, ref, sent) s'"

text \<open>How a loop ends in a state: the statement is done, or a poll is refused, cut off or fails.\<close>

definition sf_ends ::
  "sf_identity \<Rightarrow> connection \<Rightarrow> secrets \<Rightarrow> http \<Rightarrow> sf_context \<Rightarrow> sf_state \<Rightarrow> http_request list \<times> typed \<Rightarrow> bool" where
  "sf_ends i c ss T ctx s r \<longleftrightarrow> (case s of (payload, status, ref, sent) \<Rightarrow>
     if status \<noteq> 202 then r = (sent, payload, ref, None)
     else (case sf_status_path i (at (as_obj payload) ''statementStatusUrl'') of
        Inl e \<Rightarrow> r = (sent, VNil, ref, Some e)
      | Inr pth \<Rightarrow> (case ctx sent of
          Some m \<Rightarrow> r = (sent, VNil, ref, Some (Plain m))
        | None \<Rightarrow> (case sf_request i c ss ''GET'' pth None T sent of
            (sent', payload', status', ref', err) \<Rightarrow> err \<noteq> None \<and> r = (sent', VNil, ref', err)))))"

lemma sf_poll_ends:
  assumes "sf_poll i c ss T ctx payload status ref sent = Some r"
  shows "\<exists>s. (sf_step i c ss T ctx)\<^sup>*\<^sup>* (payload, status, ref, sent) s \<and> sf_ends i c ss T ctx s r"
  using assms
proof (induction rule: sf_poll.raw_induct [rotated 1, consumes 1, case_names step])
  case (step poll i c ss T ctx payload status ref sent r)
  let ?go = "\<lambda>r. sf_ends i c ss T ctx (payload, status, ref, sent) r"
  show ?case
  proof (cases "?go r")
    case True
    then show ?thesis by blast
  next
    case False
    then obtain pth sent' payload' status' ref' where s: "status = 202"
      "sf_status_path i (at (as_obj payload) ''statementStatusUrl'') = Inr pth" "ctx sent = None"
      "sf_request i c ss ''GET'' pth None T sent = (sent', payload', status', ref', None)"
      "poll i c ss T ctx payload' status' ref' sent' = Some r"
      using step(2) by (auto simp: sf_ends_def split: if_splits sum.splits option.splits prod.splits)
    then have "sf_step i c ss T ctx (payload, status, ref, sent) (payload', status', ref', sent')"
      using poll by blast
    then show ?thesis using step(1) [OF s(5)] by (meson converse_rtranclp_into_rtranclp)
  qed
qed

section \<open>Where polls point\<close>

lemma set_path_opaque: "set_path p u = Some u' \<Longrightarrow> opaque u' = opaque u"
  by (auto simp: set_path_def split: option.splits)

lemma parse_rest_opaque: "parse_rest r u = Some u' \<Longrightarrow> opaque u = [] \<Longrightarrow> path u = [] \<Longrightarrow> path u' \<noteq> [] \<Longrightarrow> opaque u' = []"
  by (auto simp: parse_rest_def Let_def dest!: set_path_opaque split: if_splits option.splits)

lemma set_fragment_fields: "set_fragment f u = Some u' \<Longrightarrow> opaque u' = opaque u \<and> path u' = path u"
  by (auto simp: set_fragment_def split: option.splits)

lemma url_parse_opaque: "url_parse raw = Some u \<Longrightarrow> path u \<noteq> [] \<Longrightarrow> opaque u = []"
proof -
  assume u: "url_parse raw = Some u" "path u \<noteq> []"
  have q: "split_query rest v = (r, v') \<Longrightarrow> opaque v' = opaque v \<and> path v' = path v" for rest v r v'
    by (auto simp: split_query_def split: if_splits prod.splits)
  have e: "opaque (empty_url\<lparr>scheme := s\<rparr>) = []" "path (empty_url\<lparr>scheme := s\<rparr>) = []"
    "opaque (empty_url\<lparr>path := s\<rparr>) = []" for s by (simp_all add: empty_url_def)
  from u show ?thesis
    by (auto simp: url_parse_def e dest!: q set_fragment_fields
        split: prod.splits if_splits option.splits) (metis e parse_rest_opaque)+
qed

lemma unescape_path_hd:
  "unescape EncPath s = Some (c # t) \<Longrightarrow> s \<noteq> [] \<and> (hd s = c \<or> hd s = CHR ''%'')"
  by (cases s) (auto split: if_splits list.splits option.splits)

lemma escaped_path_hd:
  assumes "path u = CHR ''/'' # t"
  shows "escaped_path u \<noteq> [] \<and> hd (escaped_path u) \<in> {CHR ''/'', CHR ''%''}"
proof -
  have "escape EncPath (path u) = CHR ''/'' # escape EncPath t"
    by (simp add: assms escape_def escape_char_def should_escape_def is_alnum_def)
  then show ?thesis
    using unescape_path_hd [of "raw_path u" "CHR ''/''" t] by (auto simp: escaped_path_def assms)
qed

text \<open>A poll: a GET without a body, under the statements path of the configured endpoint.\<close>

definition sf_poll_request :: "sf_identity \<Rightarrow> connection \<Rightarrow> http_request \<Rightarrow> bool" where
  "sf_poll_request i c q \<longleftrightarrow> req_method q = ''GET'' \<and> req_body q = [] \<and>
     (\<exists>base u. sf_endpoint i c = Inr base \<and> req_url q = base @ request_uri u
        \<and> scheme u = [] \<and> host u = [] \<and> has_prefix (path u) ''/api/v2/statements/''
        \<and> path_clean (path u) = path u \<and> request_uri u \<noteq> []
        \<and> hd (request_uri u) \<in> {CHR ''/'', CHR ''%''})"

lemma sf_status_path_url:
  assumes "sf_status_path i v = Inr pth"
  shows "\<exists>u. pth = request_uri u \<and> scheme u = [] \<and> host u = []
    \<and> has_prefix (path u) ''/api/v2/statements/'' \<and> path_clean (path u) = path u
    \<and> request_uri u \<noteq> [] \<and> hd (request_uri u) \<in> {CHR ''/'', CHR ''%''}"
proof -
  obtain u where u: "url_parse (trim_space (sprint v)) = Some u" "pth = request_uri u" "scheme u = []"
    "host u = []" "has_prefix (path u) ''/api/v2/statements/''" "path_clean (path u) = path u"
    using assms by (auto simp: sf_status_path_def Let_def split: option.splits if_splits)
  obtain t where t: "path u = CHR ''/'' # t" using u(5) by (auto simp: has_prefix_def prefix_def)
  then have "opaque u = []" using url_parse_opaque [OF u(1)] by simp
  then have "\<exists>s. request_uri u = escaped_path u @ s"
    using escaped_path_hd [OF t] by (simp add: request_uri_def Let_def)
  then show ?thesis using u escaped_path_hd [OF t] by (intro exI [of _ u]) auto
qed

lemma sf_plan_request:
  "sf_plan i c ss mth pth body = Inr q \<Longrightarrow> \<exists>base. sf_endpoint i c = Inr base \<and> req_method q = mth
    \<and> req_url q = base @ pth \<and> (body = None \<longrightarrow> req_body q = [])"
  by (auto simp: sf_plan_def Let_def plain_request_def split: option.splits sum.splits if_splits)

lemma sf_request_sends:
  assumes "sf_request i c ss mth pth body T sent = (sent', payload, status, ref, err)"
  shows "sent' = sent \<and> err \<noteq> None \<or>
    (\<exists>q. sent' = sent @ [q] \<and> sf_plan i c ss mth pth body = Inr q
      \<and> (err = None \<longrightarrow> (\<exists>r. T sent q = Inr r \<and> resp_status r = status \<and> status \<in> {200, 202})))"
proof (cases "sf_plan i c ss mth pth body")
  case (Inl x)
  then show ?thesis using assms
    by (auto simp: sf_request_def run_plan_def sf_plan_def Let_def dest: sym
        split: option.splits sum.splits if_splits)
next
  case (Inr q)
  then show ?thesis using assms
    by (auto simp: sf_request_def run_plan_def sf_read_def Let_def split: option.splits sum.splits if_splits)
qed

lemma sf_get_polls:
  assumes "sf_request i c ss ''GET'' pth None T sent = (sent', x)" "sf_status_path i v = Inr pth"
  shows "\<exists>qs. sent' = sent @ qs \<and> list_all (sf_poll_request i c) qs"
proof -
  obtain payload status ref err where x: "x = (payload, status, ref, err)" by (cases x)
  from sf_request_sends [OF assms(1) [unfolded x]] show ?thesis
  proof
    assume "sent' = sent \<and> err \<noteq> None"
    then show ?thesis by simp
  next
    assume "\<exists>q. sent' = sent @ [q] \<and> sf_plan i c ss ''GET'' pth None = Inr q
      \<and> (err = None \<longrightarrow> (\<exists>r. T sent q = Inr r \<and> resp_status r = status \<and> status \<in> {200, 202}))"
    then obtain q where q: "sent' = sent @ [q]" "sf_plan i c ss ''GET'' pth None = Inr q" by blast
    have "sf_poll_request i c q"
      using sf_plan_request [OF q(2)] sf_status_path_url [OF assms(2)]
      by (auto simp: sf_poll_request_def)
    then show ?thesis using q(1) by simp
  qed
qed

lemma sf_steps_poll:
  "(sf_step i c ss T ctx)\<^sup>*\<^sup>* s s' \<Longrightarrow>
    \<exists>qs. snd (snd (snd s')) = snd (snd (snd s)) @ qs \<and> list_all (sf_poll_request i c) qs"
proof (induction rule: rtranclp_induct)
  case base
  show ?case by simp
next
  case (step s1 s2)
  from step(2) obtain qs where "snd (snd (snd s2)) = snd (snd (snd s1)) @ qs" "list_all (sf_poll_request i c) qs"
    by (cases rule: sf_step.cases) (auto dest: sf_get_polls)
  then show ?case using step(3) by auto
qed

lemma sf_ends_polls:
  "sf_ends i c ss T ctx (payload, status, ref, sent) (sent', res) \<Longrightarrow>
    \<exists>qs. sent' = sent @ qs \<and> list_all (sf_poll_request i c) qs"
  by (auto simp: sf_ends_def split: if_splits sum.splits option.splits prod.splits dest: sf_get_polls)

text \<open>
  C22: what a statement sends: one POST of the statement to the configured endpoint, and after
  it only polls, GETs without a body under the statements path of that same endpoint whatever
  status URL the server names.
\<close>
theorem snowflake_polls_stay:
  assumes "sf_execute i c ss T ctx statement sent = Some (sent', res)"
  shows "sent' = sent \<or> (\<exists>q qs base. sent' = sent @ q # qs \<and> sf_endpoint i c = Inr base
    \<and> req_method q = ''POST'' \<and> req_url q = base @ ''/api/v2/statements''
    \<and> list_all (sf_poll_request i c) qs)"
proof -
  obtain s1 payload status ref err where r:
    "sf_request i c ss ''POST'' ''/api/v2/statements'' (Some (sf_body c statement)) T sent
      = (s1, payload, status, ref, err)"
    by (metis prod_cases5)
  have rest: "\<exists>qs. sent' = s1 @ qs \<and> list_all (sf_poll_request i c) qs"
  proof (cases "err = None")
    case True
    then have "sf_poll i c ss T ctx payload status ref s1 = Some (sent', res)"
      using assms r by (simp add: sf_execute_def)
    from sf_poll_ends [OF this] obtain s where
      s: "(sf_step i c ss T ctx)\<^sup>*\<^sup>* (payload, status, ref, s1) s" "sf_ends i c ss T ctx s (sent', res)"
      by blast
    obtain p2 st2 ref2 s2 where s2: "s = (p2, st2, ref2, s2)" by (cases s)
    show ?thesis
      using sf_steps_poll [OF s(1)] sf_ends_polls [OF s(2) [unfolded s2]] by (auto simp: s2)
  next
    case False
    then show ?thesis using assms r by (simp add: sf_execute_def)
  qed
  from sf_request_sends [OF r] show ?thesis
  proof
    assume "s1 = sent \<and> err \<noteq> None"
    then show ?thesis using assms r by (auto simp: sf_execute_def)
  next
    assume "\<exists>q. s1 = sent @ [q] \<and>
      sf_plan i c ss ''POST'' ''/api/v2/statements'' (Some (sf_body c statement)) = Inr q \<and>
      (err = None \<longrightarrow> (\<exists>r. T sent q = Inr r \<and> resp_status r = status \<and> status \<in> {200, 202}))"
    then obtain q where q: "s1 = sent @ [q]"
      "sf_plan i c ss ''POST'' ''/api/v2/statements'' (Some (sf_body c statement)) = Inr q" by blast
    then show ?thesis using sf_plan_request [OF q(2)] rest by auto
  qed
qed

definition sf_sample :: connection where
  "sf_sample = base_connection\<lparr>config := [(''base_url'', VStr ''http://localhost'')]\<rparr>"

definition sf_id :: sf_identity where
  "sf_id = \<lparr>sf_connector = ''d'', sf_provider = ''s''\<rparr>"

text \<open>A server that accepts the statement and finishes it on the first poll.\<close>

definition sf_server :: http where
  "sf_server sent q = (if sent = []
     then Inr \<lparr>resp_status = 202, resp_headers = [],
       resp_body = ''{\"statementStatusUrl\":\"/api/v2/statements/h\"}''\<rparr>
     else Inr \<lparr>resp_status = 200, resp_headers = [], resp_body = ''{}''\<rparr>)"

lemma sf_sample_plans:
  "\<exists>q. sf_plan sf_id sf_sample [(''token'', ''t'')] mth pth None = Inr q"
  "\<exists>q. sf_plan sf_id sf_sample [(''token'', ''t'')] mth pth (Some (sf_body sf_sample ''s'')) = Inr q"
proof -
  have v: "sf_validate sf_id sf_sample = None" by code_simp
  have e: "sf_endpoint sf_id sf_sample = Inr ''http://localhost''" by code_simp
  have t: "trim_space (secret [(''token'', ''t'')] ''token'') = ''t''" by code_simp
  have b: "marshal (sf_body sf_sample ''s'') \<noteq> None" by (rule marshal_total) code_simp
  then obtain raw where "marshal (sf_body sf_sample ''s'') = Some raw" by auto
  then show "\<exists>q. sf_plan sf_id sf_sample [(''token'', ''t'')] mth pth None = Inr q"
    "\<exists>q. sf_plan sf_id sf_sample [(''token'', ''t'')] mth pth (Some (sf_body sf_sample ''s'')) = Inr q"
    by (simp_all add: sf_plan_def v e t Let_def)
qed

section \<open>Termination\<close>

lemma sf_poll_returns:
  assumes "\<And>s q. n \<le> length s \<Longrightarrow> ctx s \<noteq> None \<or> (\<forall>r. T s q = Inr r \<longrightarrow> resp_status r \<noteq> 202)"
  shows "sf_poll i c ss T ctx payload status ref sent \<noteq> None"
proof (induction "Suc n - length sent" arbitrary: payload status ref sent rule: less_induct)
  case less
  obtain sent' payload' status' ref' err where r: "\<And>pth. sf_status_path i (at (as_obj payload) ''statementStatusUrl'') = Inr pth
      \<Longrightarrow> sf_request i c ss ''GET'' pth None T sent = (sent', payload', status', ref', err)"
    by (metis prod_cases5 sum.inject(2))
  have go: "sf_poll i c ss T ctx payload' status' ref' sent' \<noteq> None"
    if pth: "sf_status_path i (at (as_obj payload) ''statementStatusUrl'') = Inr pth"
      and ctx: "ctx sent = None" and err: "err = None" for pth
  proof -
    obtain q resp where q: "sent' = sent @ [q]" "T sent q = Inr resp" "resp_status resp = status'"
      using sf_request_sends [OF r [OF pth]] err by auto
    show ?thesis
    proof (cases "n \<le> length sent")
      case True
      then have "status' \<noteq> 202" using assms [OF True, of q] ctx q by auto
      then show ?thesis by (simp add: sf_poll.simps)
    next
      case False
      then show ?thesis using q(1) by (intro less) simp
    qed
  qed
  show ?case
  proof (cases "sf_status_path i (at (as_obj payload) ''statementStatusUrl'')")
    case (Inl e)
    then show ?thesis by (simp add: sf_poll.simps)
  next
    case (Inr pth)
    show ?thesis using go [OF Inr] by (subst sf_poll.simps) (simp add: Inr r [OF Inr] split: option.split)
  qed
qed

text \<open>
  C23: a statement returns as soon as polling can end: when from some number of requests on
  the server no longer answers 202 or the context has ended, the call does return.
\<close>
theorem snowflake_returns:
  assumes "\<And>s q. n \<le> length s \<Longrightarrow> ctx s \<noteq> None \<or> (\<forall>r. T s q = Inr r \<longrightarrow> resp_status r \<noteq> 202)"
  shows "\<exists>sent' res. sf_execute i c ss T ctx statement sent = Some (sent', res)"
proof -
  have "sf_poll i c ss T ctx payload status ref s \<noteq> None" for payload status ref s
    using assms by (rule sf_poll_returns)
  then have "sf_execute i c ss T ctx statement sent \<noteq> None"
    by (simp add: sf_execute_def split: prod.split)
  then show ?thesis by auto
qed

theorem snowflake_returns_witness:
  "\<exists>sent' res. sf_execute sf_id sf_sample [(''token'', ''t'')] sf_server (\<lambda>_. None) ''s'' [] = Some (sent', res)"
proof (rule snowflake_returns)
  fix s :: "http_request list" and q
  assume "1 \<le> length s"
  then show "(None :: string option) \<noteq> None \<or> (\<forall>r. sf_server s q = Inr r \<longrightarrow> resp_status r \<noteq> 202)"
    by (auto simp: sf_server_def)
qed

theorem snowflake_polls_stay_witness:
  "\<exists>sent' res base q qs. sf_execute sf_id sf_sample [(''token'', ''t'')] sf_server (\<lambda>_. Some ''deadline'') ''s'' []
      = Some (sent', res) \<and> sent' = q # qs \<and> req_url q = base @ ''/api/v2/statements''
      \<and> list_all (sf_poll_request sf_id sf_sample) qs"
proof -
  obtain q where q: "sf_plan sf_id sf_sample [(''token'', ''t'')] ''POST'' ''/api/v2/statements''
      (Some (sf_body sf_sample ''s'')) = Inr q"
    using sf_sample_plans(2) by blast
  have d: "decode_map ''{\"statementStatusUrl\":\"/api/v2/statements/h\"}''
      = Some (VObj [(''statementStatusUrl'', VStr ''/api/v2/statements/h'')])" by code_simp
  have "\<not> isl (sf_status_path sf_id (VStr ''/api/v2/statements/h''))" by code_simp
  then obtain pth where p: "sf_status_path sf_id (VStr ''/api/v2/statements/h'') = Inr pth"
    by (cases "sf_status_path sf_id (VStr ''/api/v2/statements/h'')") auto
  have "sf_request sf_id sf_sample [(''token'', ''t'')] ''POST'' ''/api/v2/statements''
      (Some (sf_body sf_sample ''s'')) sf_server [] = ([q], VObj [(''statementStatusUrl'',
        VStr ''/api/v2/statements/h'')], 202, ''http:'' @ itoa 202, None)"
    by (simp add: sf_request_def run_plan_def q sf_read_def sf_server_def d Let_def)
  then obtain res where eq: "sf_execute sf_id sf_sample [(''token'', ''t'')] sf_server (\<lambda>_. Some ''deadline'') ''s'' []
      = Some ([q], res)"
    by (simp add: sf_execute_def sf_poll.simps at_def get_or_def p)
  from snowflake_polls_stay [OF eq] show ?thesis using eq by (auto simp del: split_paired_Ex)
qed

end
