(* ===== verification/Base64.thy ===== *)
theory Base64
  imports GoValue GoUrl
begin

text \<open>
  Base64 as \<^verbatim>\<open>encoding/base64\<close> writes and reads it: the unpadded URL-safe form of the mail
  cursors and the padded standard form of signatures. Reading undoes writing in both.
\<close>

section \<open>Unpadded URL-safe base64\<close>

definition url_digit :: "nat \<Rightarrow> char" where
  "url_digit n = (if n < 26 then char_of (65 + n) else if n < 52 then char_of (71 + n)
     else if n < 62 then char_of (n - 4) else if n = 62 then CHR ''-'' else CHR ''_'')"

definition url_digit_val :: "char \<Rightarrow> nat option" where
  "url_digit_val c = (let b = byte c in
     if 65 \<le> b \<and> b \<le> 90 then Some (b - 65) else if 97 \<le> b \<and> b \<le> 122 then Some (b - 71)
     else if 48 \<le> b \<and> b \<le> 57 then Some (b + 4) else if c = CHR ''-'' then Some 62
     else if c = CHR ''_'' then Some 63 else None)"

fun base64url :: "string \<Rightarrow> string" where
  "base64url (a # b # c # s) = (let x = byte a; y = byte b; z = byte c in
     [url_digit (x div 4), url_digit (x mod 4 * 16 + y div 16),
      url_digit (y mod 16 * 4 + z div 64), url_digit (z mod 64)] @ base64url s)"
| "base64url [a, b] = (let x = byte a; y = byte b in
     [url_digit (x div 4), url_digit (x mod 4 * 16 + y div 16), url_digit (y mod 16 * 4)])"
| "base64url [a] = (let x = byte a in [url_digit (x div 4), url_digit (x mod 4 * 16)])"
| "base64url [] = []"

fun unbase64url_digits :: "nat list \<Rightarrow> string option" where
  "unbase64url_digits (p # q # r # t # s) = map_option (\<lambda>u.
     char_of (p * 4 + q div 16) # char_of (q mod 16 * 16 + r div 4) # char_of (r mod 4 * 64 + t) # u)
     (unbase64url_digits s)"
| "unbase64url_digits [p, q, r] = Some [char_of (p * 4 + q div 16), char_of (q mod 16 * 16 + r div 4)]"
| "unbase64url_digits [p, q] = Some [char_of (p * 4 + q div 16)]"
| "unbase64url_digits [p] = None"
| "unbase64url_digits [] = Some []"

definition unbase64url :: "string \<Rightarrow> string option" where
  "unbase64url s = (case all_some (map url_digit_val
       (filter (\<lambda>c. c \<noteq> CHR 0x0D \<and> c \<noteq> CHR 0x0A) s)) of
     None \<Rightarrow> None | Some ds \<Rightarrow> unbase64url_digits ds)"

lemma url_digit_val [simp]: "n < 64 \<Longrightarrow> url_digit_val (url_digit n) = Some n"
  by (auto simp: url_digit_def url_digit_val_def Let_def)

lemma url_digit_no_break: "n < 64 \<Longrightarrow> url_digit n \<noteq> CHR 0x0D \<and> url_digit n \<noteq> CHR 0x0A"
  using url_digit_val [of n] by (auto simp: url_digit_val_def Let_def)

fun base64_values :: "string \<Rightarrow> nat list" where
  "base64_values (a # b # c # s) = (let x = byte a; y = byte b; z = byte c in
     [x div 4, x mod 4 * 16 + y div 16, y mod 16 * 4 + z div 64, z mod 64] @ base64_values s)"
| "base64_values [a, b] = (let x = byte a; y = byte b in [x div 4, x mod 4 * 16 + y div 16, y mod 16 * 4])"
| "base64_values [a] = (let x = byte a in [x div 4, x mod 4 * 16])"
| "base64_values [] = []"

lemma base64url_values: "base64url s = map url_digit (base64_values s)"
  by (induction s rule: base64url.induct) (simp_all add: Let_def)

lemma byte_bound: "byte c < 256"
  by (rule of_char_bound)

lemma value_bounds:
  "byte c div 4 < 64" "byte c div 16 < 16" "byte c div 64 < 4"
  by (rule less_mult_imp_div_less; use byte_bound [of c] in simp)+

lemma value_sums:
  "byte c mod 4 * 16 < 64" "byte c mod 16 * 4 < 64"
  "byte c mod 4 * 16 + byte d div 16 < 64" "byte c mod 16 * 4 + byte d div 64 < 64"
proof -
  have "byte c mod 4 < 4" "byte c mod 16 < 16" by simp_all
  then show "byte c mod 4 * 16 < 64" "byte c mod 16 * 4 < 64"
    "byte c mod 4 * 16 + byte d div 16 < 64" "byte c mod 16 * 4 + byte d div 64 < 64"
    using value_bounds [of d] by linarith+
qed

lemma base64_values_small: "list_all (\<lambda>n. n < 64) (base64_values s)"
  by (induction s rule: base64_values.induct)
    (simp_all only: base64_values.simps Let_def append_Cons append_Nil list.pred_inject value_bounds value_sums, simp_all)

lemma group_values:
  "byte a div 4 * 4 + (byte a mod 4 * 16 + byte b div 16) div 16 = byte a"
  "(byte a mod 4 * 16 + byte b div 16) mod 16 * 16 + (byte b mod 16 * 4 + byte c div 64) div 4 = byte b"
  "(byte b mod 16 * 4 + byte c div 64) mod 4 * 64 + byte c mod 64 = byte c"
  "(byte a mod 4 * 16 + byte b div 16) mod 16 * 16 + byte b mod 16 * 4 div 4 = byte b"
  "byte a div 4 * 4 + byte a mod 4 * 16 div 16 = byte a"
  using value_bounds [of b] value_bounds [of c] by simp_all

lemma unbase64url_values: "unbase64url_digits (base64_values s) = Some s"
  by (induction s rule: base64_values.induct)
    (simp_all only: base64_values.simps Let_def append_Cons append_Nil unbase64url_digits.simps
      group_values char_of_char option.map)

lemma all_some_map: "all_some (map (\<lambda>x. Some (f x)) xs) = Some (map f xs)"
  by (auto simp: all_some_def)

lemma unbase64url_base64url: "unbase64url (base64url s) = Some s"
proof -
  let ?v = "base64_values s"
  have small: "\<And>n. n \<in> set ?v \<Longrightarrow> n < 64" using base64_values_small [of s] by (simp add: list_all_iff)
  then have "filter (\<lambda>c. c \<noteq> CHR 0x0D \<and> c \<noteq> CHR 0x0A) (map url_digit ?v) = map url_digit ?v"
    by (intro filter_True) (auto dest: url_digit_no_break)
  moreover have "map url_digit_val (map url_digit ?v) = map Some ?v" using small by simp
  ultimately show ?thesis
    using all_some_map [of id ?v]
    by (simp add: unbase64url_def base64url_values unbase64url_values del: map_map)
qed

section \<open>Padded standard base64\<close>

definition std_digit :: "nat \<Rightarrow> char" where
  "std_digit n = (if n < 26 then char_of (65 + n) else if n < 52 then char_of (71 + n)
     else if n < 62 then char_of (n - 4) else if n = 62 then CHR ''+'' else CHR ''/'')"

definition std_digit_val :: "char \<Rightarrow> nat option" where
  "std_digit_val c = (let b = byte c in
     if 65 \<le> b \<and> b \<le> 90 then Some (b - 65) else if 97 \<le> b \<and> b \<le> 122 then Some (b - 71)
     else if 48 \<le> b \<and> b \<le> 57 then Some (b + 4) else if c = CHR ''+'' then Some 62
     else if c = CHR ''/'' then Some 63 else None)"

definition base64_pad :: "nat \<Rightarrow> string" where
  "base64_pad n = replicate ((4 - n mod 4) mod 4) (CHR ''='')"

definition base64_std :: "string \<Rightarrow> string" where
  "base64_std s = (let ds = map std_digit (base64_values s) in ds @ base64_pad (length ds))"

text \<open>Line breaks are skipped; the padding must complete the last group.\<close>

definition unbase64_std :: "string \<Rightarrow> string option" where
  "unbase64_std s =
     (let t = filter (\<lambda>c. c \<noteq> CHR 0x0D \<and> c \<noteq> CHR 0x0A) s;
          ds = takeWhile ((\<noteq>) (CHR ''='')) t; ps = dropWhile ((\<noteq>) (CHR ''='')) t in
      if ps \<noteq> base64_pad (length ds) then None
      else (case all_some (map std_digit_val ds) of None \<Rightarrow> None | Some vs \<Rightarrow> unbase64url_digits vs))"

lemma std_digit_val [simp]: "n < 64 \<Longrightarrow> std_digit_val (std_digit n) = Some n"
  by (auto simp: std_digit_def std_digit_val_def Let_def)

lemma std_digit_plain:
  "n < 64 \<Longrightarrow> std_digit n \<noteq> CHR 0x0D \<and> std_digit n \<noteq> CHR 0x0A \<and> std_digit n \<noteq> CHR ''=''"
  using std_digit_val [of n] by (auto simp: std_digit_val_def Let_def)

lemma unbase64_base64_std: "unbase64_std (base64_std s) = Some s"
proof -
  let ?v = "base64_values s"
  let ?d = "map std_digit ?v"
  have small: "\<And>n. n \<in> set ?v \<Longrightarrow> n < 64" using base64_values_small [of s] by (simp add: list_all_iff)
  then have "filter (\<lambda>c. c \<noteq> CHR 0x0D \<and> c \<noteq> CHR 0x0A) ?d = ?d"
    by (intro filter_True) (auto dest: std_digit_plain)
  moreover have "filter (\<lambda>c. c \<noteq> CHR 0x0D \<and> c \<noteq> CHR 0x0A) (base64_pad n) = base64_pad n" for n
    by (intro filter_True) (auto simp: base64_pad_def)
  moreover have ne: "c \<in> set ?d \<Longrightarrow> c \<noteq> CHR ''=''" for c using small std_digit_plain by auto
  then have "takeWhile ((\<noteq>) (CHR ''='')) (?d @ base64_pad n) = ?d"
    "dropWhile ((\<noteq>) (CHR ''='')) (?d @ base64_pad n) = base64_pad n" for n
    by (auto simp: takeWhile_append dropWhile_append base64_pad_def takeWhile_eq_Nil_iff
        hd_replicate intro!: takeWhile_eq_all_conv [THEN iffD2])
  moreover have "map std_digit_val ?d = map Some ?v" using small by simp
  ultimately show ?thesis
    using all_some_map [of id ?v]
    by (simp add: unbase64_std_def base64_std_def Let_def unbase64url_values del: map_map)
qed

end
