(* ===== verification/JsonText.thy ===== *)
theory JsonText
  imports Base64
begin

text \<open>
  Reading back printed JSON: what \<open>json.Marshal\<close> writes, \<open>json.Unmarshal\<close> parses to the same
  value, for values whose strings are valid UTF-8 and whose numbers are whole. The lemmas on
  single strings, numbers, arrays and members are what the formats of the providers rest on.
\<close>

section \<open>JSON strings\<close>

lemma wide_len_prefix:
  assumes "wide_len bs = k" "k \<noteq> 0"
  shows "wide_len (take k bs @ r) = k \<and> k \<le> 4"
proof -
  obtain a b cs where bs: "bs = a # b # cs"
    using assms by (auto simp: wide_len_def split: list.splits)
  show ?thesis
  proof (cases "194 \<le> a \<and> a \<le> 223 \<and> cont b")
    case True
    then have "k = 2" using assms by (simp add: bs wide_len_def)
    then show ?thesis using True by (simp add: bs wide_len_def take_Cons')
  next
    case no2: False
    then obtain c ds where cs: "cs = c # ds"
      using assms by (auto simp: bs wide_len_def split: list.splits)
    let ?three = "(a = 224 \<and> 160 \<le> b \<and> b \<le> 191 \<or> 225 \<le> a \<and> a \<le> 236 \<and> cont b
               \<or> a = 237 \<and> 128 \<le> b \<and> b \<le> 159 \<or> 238 \<le> a \<and> a \<le> 239 \<and> cont b) \<and> cont c"
    show ?thesis
    proof (cases ?three)
      case True
      then have "k = 3" using assms no2 by (simp add: bs cs wide_len_def)
      moreover have "wide_len (a # b # c # r) = 3" using True no2 by (simp add: wide_len_def)
      ultimately show ?thesis by (simp add: bs cs take_Cons')
    next
      case no3: False
      then obtain d es where ds: "ds = d # es"
        using assms no2 by (auto simp: bs cs wide_len_def split: list.splits)
      let ?four = "(a = 240 \<and> 144 \<le> b \<and> b \<le> 191 \<or> 241 \<le> a \<and> a \<le> 243 \<and> cont b
                   \<or> a = 244 \<and> 128 \<le> b \<and> b \<le> 143) \<and> cont c \<and> cont d"
      have four: ?four
      proof (rule ccontr)
        assume n: "\<not> ?four"
        have "wide_len (a # b # c # d # es) = 0"
          unfolding wide_len_def list.case if_not_P [OF no2] if_not_P [OF no3] if_not_P [OF n] ..
        then show False using assms by (simp add: bs cs ds)
      qed
      have w: "wide_len (a # b # c # d # xs) = 4" for xs
        unfolding wide_len_def list.case if_not_P [OF no2] if_not_P [OF no3] if_P [OF four] ..
      then have "k = 4" using assms by (simp add: bs cs ds)
      then show ?thesis using w by (simp add: bs cs ds take_Cons')
    qed
  qed
qed

lemma rune_len_prefix:
  assumes "rune_len s = k" "k \<noteq> 0"
  shows "rune_len (take k s @ r) = k"
proof (cases s)
  case Nil
  then show ?thesis using assms by simp
next
  case (Cons c cs)
  show ?thesis
  proof (cases "byte c < 128")
    case True
    then show ?thesis using assms Cons by (auto simp: take_Cons')
  next
    case False
    let ?bs = "map byte (c # take 3 cs)"
    have w: "wide_len ?bs = k" using False assms Cons by simp
    have k: "k \<le> 4" "wide_len (take k ?bs @ map byte (take (4 - k) r)) = k"
      using wide_len_prefix [OF w assms(2)] by simp_all
    have "k \<le> length s" using rune_len_le [of s] assms by simp
    then have l: "length (take (k - 1) cs) = k - 1" using Cons by simp
    have m: "min 3 (k - 1) = k - 1" "min (k - 1) 3 = k - 1" "3 - (k - 1) = 4 - k"
      using k(1) assms(2) by linarith+
    have "take 3 (take (k - 1) cs @ r) = take (k - 1) cs @ take (4 - k) r"
      by (simp only: take_append take_take l m)
    moreover have "take k ?bs = byte c # map byte (take (k - 1) cs)"
      using assms(2) m by (cases k) (simp_all add: take_map)
    ultimately have "map byte (c # take 3 (take (k - 1) cs @ r)) = take k ?bs @ map byte (take (4 - k) r)"
      by simp
    moreover have "take k s @ r = c # (take (k - 1) cs @ r)"
      using assms(2) Cons by (cases k) simp_all
    ultimately show ?thesis
      using k(2) by (simp only: rune_len.simps if_not_P [OF False])
  qed
qed

lemma hex_val_digit: "n < 16 \<Longrightarrow> hex_val (hex_digit n) = Some n"
  by (auto simp: hex_val_def hex_digit_def Let_def)

lemma hex4_byte:
  "byte c < 256 \<Longrightarrow> hex4 (CHR ''0'' # CHR ''0'' # hex_digit (byte c div 16) # hex_digit (byte c mod 16) # r) = Some (byte c)"
proof -
  have "hex_val (CHR ''0'') = Some 0" by code_simp
  moreover have "hex_val (hex_digit (byte c div 16)) = Some (byte c div 16)"
    "hex_val (hex_digit (byte c mod 16)) = Some (byte c mod 16)"
    using value_bounds(2) [of c] by (simp_all add: hex_val_digit)
  ultimately show ?thesis by (simp add: hex4_def)
qed

lemma escaped_chars:
  "byte c = 34 \<Longrightarrow> c = CHR 0x22"
  "byte c = 92 \<Longrightarrow> c = CHR 0x5C"
  "byte c = 8 \<Longrightarrow> c = CHR 0x08"
  "byte c = 12 \<Longrightarrow> c = CHR 0x0C"
  "byte c = 10 \<Longrightarrow> c = CHR 0x0A"
  "byte c = 13 \<Longrightarrow> c = CHR 0x0D"
  "byte c = 9 \<Longrightarrow> c = CHR 0x09"
  using of_char_eq_iff [of c "CHR 0x22", where ?'a = nat]
    of_char_eq_iff [of c "CHR 0x5C", where ?'a = nat]
    of_char_eq_iff [of c "CHR 0x08", where ?'a = nat]
    of_char_eq_iff [of c "CHR 0x0C", where ?'a = nat]
    of_char_eq_iff [of c "CHR 0x0A", where ?'a = nat]
    of_char_eq_iff [of c "CHR 0x0D", where ?'a = nat]
    of_char_eq_iff [of c "CHR 0x09", where ?'a = nat]
  by simp_all

lemma escapes:
  "simple_escape (CHR 0x22) = Some (CHR 0x22)"
  "simple_escape (CHR 0x5C) = Some (CHR 0x5C)"
  "simple_escape (CHR ''b'') = Some (CHR 0x08)"
  "simple_escape (CHR ''f'') = Some (CHR 0x0C)"
  "simple_escape (CHR ''n'') = Some (CHR 0x0A)"
  "simple_escape (CHR ''r'') = Some (CHR 0x0D)"
  "simple_escape (CHR ''t'') = Some (CHR 0x09)"
  by code_simp+

lemma json_str_escape:
  "simple_escape e = Some d \<Longrightarrow> e \<noteq> CHR ''u'' \<Longrightarrow> json_str n r = Some (s, rest) \<Longrightarrow>
    json_str (Suc n) (CHR 0x5C # e # r) = Some (d # s, rest)"
  by (simp add: prepend_def)

lemma json_str_code:
  assumes "byte c < 128" "json_str n r = Some (s, rest)"
  shows "json_str (Suc n) (CHR 0x5C # CHR ''u'' # CHR ''0'' # CHR ''0'' # hex_digit (byte c div 16)
    # hex_digit (byte c mod 16) # r) = Some (c # s, rest)"
proof -
  have "hex4 (CHR ''0'' # CHR ''0'' # hex_digit (byte c div 16) # hex_digit (byte c mod 16) # r) = Some (byte c)"
    using assms(1) by (intro hex4_byte) simp
  moreover have "encode_rune (byte c) = [c]" using assms(1) by (simp add: encode_rune_def)
  ultimately show ?thesis using assms by (simp add: Let_def prepend_def)
qed

lemma json_str_plain:
  assumes "rune_len s = k" "k \<noteq> 0" "hd s \<noteq> CHR 0x22" "hd s \<noteq> CHR 0x5C" "32 \<le> byte (hd s)"
    "json_str n r = Some (u, rest)"
  shows "json_str (Suc n) (take k s @ r) = Some (take k s @ u, rest)"
proof -
  have k: "k \<le> length s" using rune_len_le [of s] assms(1) by simp
  obtain c cs where s: "take k s @ r = c # cs" "c = hd s"
    using assms(2) k by (cases s; cases k) auto
  have l: "rune_len (c # cs) = k" using rune_len_prefix [OF assms(1,2), of r] s by simp
  have "take k (c # cs) = take k s" "drop k (c # cs) = r"
    unfolding s(1) [symmetric] using k by simp_all
  then show ?thesis
    using assms s(2) l unfolding s(1) by (simp add: Let_def prepend_def del: rune_len.simps)
qed

lemma json_str_byte:
  assumes "byte c < 128" "json_str n r = Some (s, rest)"
  shows "json_str (Suc n) (esc_byte c @ r) = Some (c # s, rest)"
proof -
  have plain: "json_str (Suc n) (c # r) = Some (c # s, rest)"
    if "c \<noteq> CHR 0x22" "c \<noteq> CHR 0x5C" "32 \<le> byte c"
    using json_str_plain [of "[c]" 1 n r s rest] assms that by simp
  consider "byte c = 34" | "byte c = 92" | "byte c = 8" | "byte c = 12" | "byte c = 10" | "byte c = 13"
    | "byte c = 9" | "byte c \<notin> {34, 92, 8, 12, 10, 13, 9}" by blast
  then show ?thesis
  proof cases
    case 8
    show ?thesis
    proof (cases "byte c < 32 \<or> byte c = 60 \<or> byte c = 62 \<or> byte c = 38")
      case True
      then show ?thesis using 8 json_str_code [OF assms] by (simp add: esc_byte_def Let_def)
    next
      case False
      then have "c \<noteq> CHR 0x22" "c \<noteq> CHR 0x5C" "32 \<le> byte c" using 8 by auto
      then show ?thesis using plain 8 False by (simp add: esc_byte_def Let_def)
    qed
  qed (use assms(2) in \<open>auto dest!: escaped_chars simp: esc_byte_def Let_def escapes json_str_escape simp del: json_str.simps\<close>)
qed

lemma separators:
  "encode_rune 8232 = [CHR 0xE2, CHR 0x80, CHR 0xA8]" "encode_rune 8233 = [CHR 0xE2, CHR 0x80, CHR 0xA9]"
proof -
  have c: "char_of (226 :: nat) = CHR 0xE2" "char_of (128 :: nat) = CHR 0x80"
    "char_of (168 :: nat) = CHR 0xA8" "char_of (169 :: nat) = CHR 0xA9"
    using char_of_char [of "CHR 0xE2", where ?'a = nat] char_of_char [of "CHR 0x80", where ?'a = nat]
      char_of_char [of "CHR 0xA8", where ?'a = nat] char_of_char [of "CHR 0xA9", where ?'a = nat]
    by (simp_all del: char_of_char)
  show "encode_rune 8232 = [CHR 0xE2, CHR 0x80, CHR 0xA8]" "encode_rune 8233 = [CHR 0xE2, CHR 0x80, CHR 0xA9]"
    by (simp_all add: encode_rune_def c)
qed

text \<open>Reading the body of a printed string gives the string back, and stops at its quote.\<close>

lemma json_str_esc_str:
  "valid_utf8 s \<Longrightarrow> length s < n \<Longrightarrow> json_str n (esc_str s @ CHR 0x22 # rest) = Some (s, rest)"
proof (induction s arbitrary: n rule: esc_str.induct)
  case (1 s)
  obtain m where n: "n = Suc m" using 1(7) by (cases n) auto
  show ?case
  proof (cases "s = []")
    case True
    then show ?thesis by (simp add: n esc_str.simps [of "[]"])
  next
    case ne: False
    define k where "k = rune_len s"
    have k: "k \<noteq> 0" "valid_utf8 (drop k s)" "k \<le> length s"
      using 1(6) ne rune_len_le [of s] by (auto simp: k_def valid_utf8.simps [of s] split: if_splits)
    have m: "length (drop k s) < m" using 1(7) k n by simp
    have s: "take k s @ drop k s = s" by simp
    show ?thesis
    proof (cases "k = 1")
      case True
      have "json_str m (esc_str (drop 1 s) @ CHR 0x22 # rest) = Some (drop 1 s, rest)"
        using 1(2) [OF ne k_def k(1) True] k(2) m True by simp
      moreover have "byte (hd s) < 128"
        using True ne by (cases s) (auto simp: k_def wide_len_def split: if_splits list.splits)
      ultimately have "json_str (Suc m) (esc_byte (hd s) @ esc_str (drop 1 s) @ CHR 0x22 # rest) = Some (hd s # drop 1 s, rest)"
        by (rule json_str_byte [rotated])
      moreover have "esc_str s = esc_byte (hd s) @ esc_str (drop 1 s)"
        using ne True by (simp add: esc_str.simps [of s] k_def [symmetric])
      moreover have "hd s # drop 1 s = s" using ne by (cases s) simp_all
      ultimately show ?thesis by (simp add: n)
    next
      case k1: False
      have IH: "json_str m (esc_str (drop k s) @ CHR 0x22 # rest) = Some (drop k s, rest)"
        using 1(3,4,5) [OF ne k_def k(1) k1] k(2) m by blast
      have hi: "128 \<le> byte (hd s)" using k1 ne k(1) by (cases s) (auto simp: k_def split: if_splits)
      have sep: ?thesis if t: "take k s = encode_rune u" and u: "u = 8232 \<or> u = 8233"
        and e: "esc_str s = CHR 0x5C # CHR ''u'' # CHR ''2'' # CHR ''0'' # CHR ''2'' # d # esc_str (drop k s)"
        and d: "hex_val d = Some (u - 8224)" for u d
      proof -
        have "hex_val (CHR ''2'') = Some 2" "hex_val (CHR ''0'') = Some 0" by code_simp+
        then have "hex4 (CHR ''2'' # CHR ''0'' # CHR ''2'' # d # r) = Some u" for r
          using u d by (auto simp: hex4_def)
        then have "json_str (Suc m) (esc_str s @ CHR 0x22 # rest) = Some (encode_rune u @ drop k s, rest)"
          using IH u by (auto simp: e Let_def prepend_def)
        then show ?thesis using s by (simp add: n t [symmetric])
      qed
      consider (ls) "take k s = [CHR 0xE2, CHR 0x80, CHR 0xA8]" | (ps) "take k s = [CHR 0xE2, CHR 0x80, CHR 0xA9]"
        | (other) "take k s \<noteq> [CHR 0xE2, CHR 0x80, CHR 0xA8]" "take k s \<noteq> [CHR 0xE2, CHR 0x80, CHR 0xA9]" by blast
      then show ?thesis
      proof cases
        case ls
        have "hex_val (CHR ''8'') = Some (8232 - 8224)" by code_simp
        moreover have "esc_str s = CHR 0x5C # ''u2028'' @ esc_str (drop k s)"
          using esc_str.simps [of s, folded k_def, unfolded Let_def if_not_P [OF ne] if_not_P [OF k(1)]
            if_not_P [OF k1] if_P [OF ls]] .
        ultimately show ?thesis using ls separators by (intro sep [of 8232 "CHR ''8''"]) simp_all
      next
        case ps
        have "hex_val (CHR ''9'') = Some (8233 - 8224)" by code_simp
        moreover have "take k s \<noteq> [CHR 0xE2, CHR 0x80, CHR 0xA8]" using ps by simp
        then have "esc_str s = CHR 0x5C # ''u2029'' @ esc_str (drop k s)"
          using esc_str.simps [of s, folded k_def, unfolded Let_def if_not_P [OF ne] if_not_P [OF k(1)]
            if_not_P [OF k1]] by (simp only: if_not_P [of "take k s = [CHR 0xE2, CHR 0x80, CHR 0xA8]"] if_P [OF ps] if_False)
        ultimately show ?thesis using ps separators by (intro sep [of 8233 "CHR ''9''"]) simp_all
      next
        case other
        have "esc_str s = take k s @ esc_str (drop k s)"
          by (simp only: esc_str.simps [of s] Let_def k_def [symmetric] if_False ne k(1) k1 other)
        moreover have "hd s \<noteq> CHR 0x22" "hd s \<noteq> CHR 0x5C" "32 \<le> byte (hd s)" using hi by auto
        ultimately show ?thesis
          using json_str_plain [OF k_def [symmetric] k(1) _ _ _ IH] by (simp only: n append_assoc s simp_thms)
      qed
    qed
  qed
qed

lemma length_esc_byte: "1 \<le> length (esc_byte c)"
  by (auto simp: esc_byte_def Let_def)

lemma rune_len_4: "rune_len s \<le> 4"
proof (cases s)
  case (Cons c cs)
  have "wide_len (map byte (c # take 3 cs)) \<le> 4"
    by (rule order.trans [OF wide_len_le]) simp
  then show ?thesis by (simp only: Cons rune_len.simps split: if_split) simp
qed simp

lemma length_esc_str: "length s \<le> length (esc_str s)"
proof (induction "length s" arbitrary: s rule: less_induct)
  case less
  show ?case
  proof (cases "s = []")
    case False
    define k where "k = rune_len s"
    have le: "length (drop j s) \<le> length (esc_str (drop j s))" if "0 < j" for j
      using False that by (intro less) simp
    have "length s - 1 \<le> length (esc_str (tl s))" using le [of 1] by (simp add: drop_Suc)
    moreover have "length s - k \<le> length (esc_str (drop k s))" if "k \<noteq> 0" using le [of k] that by simp
    moreover have "k \<le> length s" using rune_len_le [of s] by (simp only: k_def)
    ultimately show ?thesis
      using False length_esc_byte [of "hd s"] le [of 1] rune_len_4 [of s, folded k_def]
      by (simp only: esc_str.simps [of s] k_def [symmetric] Let_def split: if_split) auto
  qed simp
qed

section \<open>Numbers\<close>

text \<open>Whole numbers.\<close>

lemma nat_str_hd_zero: "hd (nat_str n) = CHR ''0'' \<Longrightarrow> n = 0"
proof (induction n rule: nat_str.induct)
  case (1 n)
  show ?case
  proof (cases "n < 10")
    case True
    then have "digit_val (hd (nat_str n)) = n" by (simp add: nat_str.simps [of n])
    moreover have "digit_val (CHR ''0'') = 0" by code_simp
    ultimately show ?thesis using 1(2) by simp
  next
    case False
    then have "hd (nat_str n) = hd (nat_str (n div 10))" by (simp add: nat_str.simps [of n])
    then show ?thesis using 1 False by simp
  qed
qed


text \<open>What may follow a number in printed text.\<close>

definition stops :: "string \<Rightarrow> bool" where
  "stops r \<longleftrightarrow> r = [] \<or> hd r \<in> {CHR '','', CHR '']'', CHR ''}''}"

lemma stops_simps [simp]:
  "stops []" "stops (CHR '','' # r)" "stops (CHR '']'' # r)" "stops (CHR ''}'' # r)"
  by (simp_all add: stops_def)

lemma span_digits_nat_str:
  assumes "stops r"
  shows "span_digits (nat_str n @ r) = (nat_str n, r)"
proof -
  have "r = [] \<or> \<not> is_digit (hd r)" using assms by (auto simp: stops_def is_digit_def)
  then have "takeWhile is_digit r = []" "dropWhile is_digit r = r" by (cases r; simp)+
  then show ?thesis
    using nat_str_digits [of n] by (simp add: span_digits_def list_all_iff takeWhile_append dropWhile_append)
qed

lemma json_num_nat_str:
  assumes "stops r" "sg = [] \<or> sg = ''-''"
  shows "json_num (sg @ nat_str n @ r) = Some (sg @ nat_str n, r)"
proof -
  have hd: "is_digit (hd (nat_str n))" using nat_str_digits [of n] by (simp add: list_all_iff)
  have nosg: "take 1 (nat_str n @ r) \<noteq> ''-''"
    using digit_not_sign [OF hd] by (cases "nat_str n") auto
  have z: "(if hd (nat_str n) = CHR ''0'' then (''0'', tl (nat_str n) @ r) else (nat_str n, r)) = (nat_str n, r)"
    using nat_str_hd_zero [of n] by (auto simp: nat_str.simps [of 0] digit_char_def)
  have "num_fraction r = Some ([], r)" "num_exponent r = Some ([], r)"
    using assms(1) by (auto simp: num_fraction_def num_exponent_def stops_def split: list.split)
  then show ?thesis
    using assms(2) nosg z by (auto simp: json_num_def Let_def span_digits_nat_str [OF assms(1)])
qed

section \<open>Printed values\<close>

text \<open>
  A text that reads as a JSON value, whatever follows: it starts with no blank, and fuel for
  two steps a character is enough.
\<close>

definition reads :: "string \<Rightarrow> json \<Rightarrow> bool" where
  "reads s j \<longleftrightarrow> s \<noteq> [] \<and> byte (hd s) \<notin> {32, 9, 10, 13, 93, 125}
     \<and> (\<forall>n r. stops r \<longrightarrow> 2 * length s + 1 \<le> n \<longrightarrow> json_val n (s @ r) = Some (j, r))"

lemma skip_ws_Cons: "byte c \<notin> {32, 9, 10, 13} \<Longrightarrow> skip_ws (c # r) = c # r"
  by (simp add: skip_ws_def)

lemma skip_ws_Nil: "skip_ws [] = []"
  by (simp add: skip_ws_def)

lemma readsD:
  assumes "reads s j"
  shows "skip_ws (s @ r) = s @ r" "take 1 (s @ r) \<noteq> '']''" "take 1 (s @ r) \<noteq> ''}''"
    "stops r \<Longrightarrow> 2 * length s + 1 \<le> n \<Longrightarrow> json_val n (s @ r) = Some (j, r)"
  using assms by (cases s; auto simp: reads_def skip_ws_Cons)+

lemma reads_number:
  assumes "sg = [] \<or> sg = ''-''"
  shows "reads (sg @ nat_str k) (JNum (sg @ nat_str k))"
proof -
  obtain d ds where s: "nat_str k = d # ds" by (cases "nat_str k") auto
  have d: "is_digit d" using nat_str_digits [of k] by (simp add: s)
  then have d': "d \<noteq> CHR ''{''" "d \<noteq> CHR ''[''" "d \<noteq> CHR 0x22" "d \<noteq> CHR ''t''" "d \<noteq> CHR ''f''" "d \<noteq> CHR ''n''"
    "byte d \<notin> {32, 9, 10, 13, 93, 125}"
    by (auto simp: is_digit_def)
  have "json_val n ((sg @ nat_str k) @ r) = Some (JNum (sg @ nat_str k), r)" if "stops r" "n \<noteq> 0" for n r
    using json_num_nat_str [OF that(1) assms, of k] that(2) assms d'
    by (cases n) (auto simp: s has_prefix_def)
  then show ?thesis using assms d' by (auto simp: reads_def s)
qed

lemma reads_int: "reads (itoa i) (JNum (itoa i))"
  using reads_number [of "''-''" "nat (- i)"] reads_number [of "[]" "nat i"] by (simp add: itoa_def)

lemma reads_string:
  assumes "valid_utf8 s"
  shows "reads (quote_str s) (JStr s)"
proof -
  have "json_val n (quote_str s @ r) = Some (JStr s, r)" if len: "2 * length (quote_str s) + 1 \<le> n" for n r
  proof -
    obtain m where n: "n = Suc m" using len by (cases n) auto
    have "length s < m" using len length_esc_str [of s] by (simp add: quote_str_def n)
    then show ?thesis using json_str_esc_str [OF assms, of m r] by (simp add: quote_str_def n)
  qed
  then show ?thesis by (simp add: reads_def quote_str_def)
qed

lemma json_val_words:
  "n \<noteq> 0 \<Longrightarrow> json_val n (''null'' @ r) = Some (JNull, r)"
  "n \<noteq> 0 \<Longrightarrow> json_val n (''true'' @ r) = Some (JBool True, r)"
  "n \<noteq> 0 \<Longrightarrow> json_val n (''false'' @ r) = Some (JBool False, r)"
  by (cases n; simp add: has_prefix_def)+

lemma reads_words: "reads ''null'' JNull" "reads ''true'' (JBool True)" "reads ''false'' (JBool False)"
  using json_val_words by (auto simp: reads_def)

text \<open>The elements of an array up to its bracket, and the members of an object.\<close>

lemma json_elems_join:
  "ss \<noteq> [] \<Longrightarrow> list_all2 reads ss js \<Longrightarrow> 2 * length (join '','' ss) + 2 \<le> n \<Longrightarrow>
    json_elems n (join '','' ss @ CHR '']'' # r) = Some (js, r)"
proof (induction ss arbitrary: js n)
  case (Cons s ss)
  obtain j js' where j: "js = j # js'" "reads s j" "list_all2 reads ss js'"
    using Cons.prems(2) by (cases js) auto
  obtain m where n: "n = Suc m" using Cons.prems(3) by (cases n) auto
  show ?case
  proof (cases "ss = []")
    case True
    then show ?thesis
      using Cons.prems j by (simp add: n readsD(4) skip_ws_Cons)
  next
    case False
    then have len: "2 * length s + 1 \<le> m" "2 * length (join '','' ss) + 2 \<le> m"
      using Cons.prems(3) by (simp_all add: n join_Cons)
    have ws: "skip_ws (join '','' ss @ r') = join '','' ss @ r'" for r'
    proof -
      obtain s' ss' where "ss = s' # ss'" using False by (cases ss) auto
      then show ?thesis
        using j(3) readsD(1) [of s'] by (cases "ss' = []") (auto simp: list_all2_Cons1 join_Cons)
    qed
    show ?thesis
      using Cons.IH [OF False j(3) len(2)] readsD(4) [OF j(2) _ len(1)] False
      by (simp add: n join_Cons skip_ws_Cons ws j(1))
  qed
qed simp

definition member_text :: "string \<times> string \<Rightarrow> string" where
  "member_text = (\<lambda>(k, s). quote_str k @ '':'' @ s)"

definition reads_member :: "string \<times> string \<Rightarrow> string \<times> json \<Rightarrow> bool" where
  "reads_member m j \<longleftrightarrow> fst j = fst m \<and> valid_utf8 (fst m) \<and> reads (snd m) (snd j)"

lemma member_text_hd: "skip_ws (join '','' (map member_text (m # ms)) @ r) = join '','' (map member_text (m # ms)) @ r"
  by (cases ms) (auto simp: member_text_def quote_str_def skip_ws_Cons split: prod.split)

lemma json_members_join:
  "ms \<noteq> [] \<Longrightarrow> list_all2 reads_member ms js \<Longrightarrow> 2 * length (join '','' (map member_text ms)) + 2 \<le> n \<Longrightarrow>
    json_members n (join '','' (map member_text ms) @ CHR ''}'' # r) = Some (js, r)"
proof (induction ms arbitrary: js n)
  case (Cons m ms)
  obtain k s where m: "m = (k, s)" by (cases m)
  obtain kj js' where kj: "js = kj # js'" "reads_member m kj" "list_all2 reads_member ms js'"
    using Cons.prems(2) by (auto simp: list_all2_Cons1)
  obtain j where j: "js = (k, j) # js'" "valid_utf8 k" "reads s j" "list_all2 reads_member ms js'"
    using kj by (cases kj) (auto simp: m reads_member_def)
  obtain p where n: "n = Suc p" using Cons.prems(3) by (cases n) auto
  have len: "length k < p" "2 * length s + 1 \<le> p"
    using Cons.prems(3) length_esc_str [of k]
    by (cases ms; simp add: n m member_text_def quote_str_def)+
  have key: "json_str p (esc_str k @ CHR 0x22 # r') = Some (k, r')" for r'
    using json_str_esc_str [OF j(2) len(1)] by simp
  show ?case
  proof (cases ms)
    case Nil
    then show ?thesis
      using j readsD(1,4) [OF j(3)] len(2)
      by (simp add: n m member_text_def quote_str_def key skip_ws_Cons)
  next
    case (Cons m' ms')
    have "2 * length (join '','' (map member_text ms)) + 2 \<le> p"
      using Cons.prems(3) by (simp add: n m Cons member_text_def quote_str_def)
    then have "json_members p (join '','' (map member_text ms) @ CHR ''}'' # r) = Some (js', r)"
      using Cons.IH [OF _ j(4)] Cons by simp
    moreover have "join '','' (map member_text (m # ms)) @ CHR ''}'' # r = quote_str k @ CHR '':'' # s @ CHR '','' #
      (join '','' (map member_text ms) @ CHR ''}'' # r)"
      by (simp add: m Cons member_text_def)
    ultimately show ?thesis
      using member_text_hd [of m' ms'] readsD(1,4) [OF j(3)] len(2) unfolding Cons [symmetric]
      by (simp add: n quote_str_def key skip_ws_Cons j(1))
  qed
qed simp

lemma reads_array:
  assumes "list_all2 reads ss js"
  shows "reads (''['' @ join '','' ss @ '']'') (JArr js)"
proof -
  have "json_val n ((''['' @ join '','' ss @ '']'') @ r) = Some (JArr js, r)"
    if n: "2 * length (''['' @ join '','' ss @ '']'') + 1 \<le> n" for n r
  proof -
    obtain m where m: "n = Suc m" "2 * length (join '','' ss) + 2 \<le> m" using n by (cases n) auto
    show ?thesis
    proof (cases ss)
      case Nil
      then show ?thesis using assms by (simp add: m skip_ws_Cons)
    next
      case (Cons s ss')
      then obtain j where "reads s j" using assms by (auto simp: list_all2_Cons1)
      note s = readsD(1,2) [OF this]
      have "skip_ws (join '','' ss @ r') = join '','' ss @ r'" "take 1 (join '','' ss @ r') \<noteq> '']''" for r'
        using s by (cases ss'; simp add: Cons)+
      then show ?thesis using json_elems_join [OF _ assms m(2), of r] Cons by (simp add: m(1))
    qed
  qed
  then show ?thesis by (simp add: reads_def)
qed

lemma reads_object:
  assumes "list_all2 reads_member ms js"
  shows "reads (''{'' @ join '','' (map member_text ms) @ ''}'') (JObj js)"
proof -
  have "json_val n ((''{'' @ join '','' (map member_text ms) @ ''}'') @ r) = Some (JObj js, r)"
    if n: "2 * length (''{'' @ join '','' (map member_text ms) @ ''}'') + 1 \<le> n" for n r
  proof -
    obtain p where p: "n = Suc p" "2 * length (join '','' (map member_text ms)) + 2 \<le> p" using n by (cases n) auto
    show ?thesis
    proof (cases ms)
      case Nil
      then show ?thesis using assms by (simp add: p skip_ws_Cons)
    next
      case (Cons m ms')
      have "take 1 (join '','' (map member_text ms) @ r') \<noteq> ''}''" for r'
        by (cases ms') (auto simp: Cons member_text_def quote_str_def split: prod.split)
      then show ?thesis
        using json_members_join [OF _ assms p(2), of r] member_text_hd [of m ms'] Cons by (simp add: p(1))
    qed
  qed
  then show ?thesis by (simp add: reads_def)
qed

section \<open>The round trip\<close>

lemma json_parse_reads: "reads s j \<Longrightarrow> json_parse s = Some j"
  using readsD(1,4) [of s j "[]"] by (simp add: json_parse_def skip_ws_Nil del: json_val.simps)

fun text_val :: "val \<Rightarrow> bool" where
  "text_val (VFloat f) = False"
| "text_val (VNum s) = False"
| "text_val (VStr s) = valid_utf8 s"
| "text_val (VStrs ss) = list_all valid_utf8 ss"
| "text_val (VArr vs) = list_all text_val vs"
| "text_val (VObj kvs) = list_all (\<lambda>kv. valid_utf8 (fst kv) \<and> text_val (snd kv)) kvs"
| "text_val _ = True"

fun json_of :: "val \<Rightarrow> json" where
  "json_of VNil = JNull"
| "json_of (VBool b) = JBool b"
| "json_of (VInt i) = JNum (itoa i)"
| "json_of (VFloat f) = JNum (fmt_g f)"
| "json_of (VNum s) = JNum s"
| "json_of (VStr s) = JStr s"
| "json_of (VStrs ss) = JArr (map JStr ss)"
| "json_of (VArr vs) = JArr (map json_of vs)"
| "json_of (VObj kvs) = JObj (sort_key fst (map (\<lambda>kv. (fst kv, json_of (snd kv))) kvs))"

lemma text_val_finite: "text_val v \<Longrightarrow> finite_val v"
  by (induction v rule: text_val.induct) (auto simp: list_all_iff)

lemma insort_key_map: "(\<And>x. f (g x) = h x) \<Longrightarrow> insort_key f (g x) (map g xs) = map g (insort_key h x xs)"
  by (induction xs) auto

lemma sort_key_map: "(\<And>x. f (g x) = h x) \<Longrightarrow> sort_key f (map g xs) = map g (sort_key h xs)"
  by (induction xs) (simp_all add: insort_key_map)

lemma marshal_object:
  assumes "list_all (\<lambda>kv. marshal (snd kv) \<noteq> None) kvs"
  shows "marshal (VObj kvs) = Some (''{'' @ join '',''
    (map member_text (sort_key fst (map (\<lambda>kv. (fst kv, the (marshal (snd kv)))) kvs))) @ ''}'')"
proof -
  let ?f = "\<lambda>kv. map_option (\<lambda>s. (fst kv, s)) (marshal (snd kv))"
  have "all_some (map ?f kvs) = Some (map the (map ?f kvs))"
    using assms by (intro all_some_Some) (auto simp: list_all_iff)
  also have "map the (map ?f kvs) = map (\<lambda>kv. (fst kv, the (marshal (snd kv)))) kvs"
    using assms by (auto simp: list_all_iff)
  finally show ?thesis by (simp add: member_text_def)
qed

lemma marshal_reads: "text_val v \<Longrightarrow> reads (the (marshal v)) (json_of v)"
proof (induction v rule: marshal.induct)
  case (7 ss)
  then show ?case
    using reads_array [of "map quote_str ss" "map JStr ss"]
    by (simp add: list_all2_conv_all_nth list_all_length reads_string)
next
  case (8 vs)
  have "all_some (map marshal vs) = Some (map the (map marshal vs))"
    using 8(2) marshal_total [OF text_val_finite] by (intro all_some_Some) (auto simp: list_all_iff)
  moreover have "list_all2 reads (map the (map marshal vs)) (map json_of vs)"
    using 8 by (simp add: list_all2_conv_all_nth list_all_length)
  ultimately show ?case using reads_array by simp
next
  case (9 kvs)
  let ?s = "\<lambda>kv. (fst kv, the (marshal (snd kv)))" and ?j = "\<lambda>kv. (fst kv, json_of (snd kv))"
  have m: "list_all (\<lambda>kv. marshal (snd kv) \<noteq> None) kvs"
    using 9(2) marshal_total [OF text_val_finite] by (auto simp: list_all_iff)
  have "\<forall>kv\<in>set (sort_key fst kvs). reads_member (?s kv) (?j kv)"
    using 9 by (auto simp: list_all_iff reads_member_def)
  then have "list_all2 reads_member (map ?s (sort_key fst kvs)) (map ?j (sort_key fst kvs))"
    by (simp add: list.rel_map list_all2_same)
  from reads_object [OF this] show ?case
    by (simp add: marshal_object [OF m] sort_key_map [of fst ?s fst] sort_key_map [of fst ?j fst] del: marshal.simps)
qed (simp_all add: reads_words reads_int reads_string)

lemma json_roundtrip: "text_val v \<Longrightarrow> marshal v = Some s \<Longrightarrow> json_parse s = Some (json_of v)"
  using marshal_reads [of v] by (simp add: json_parse_reads)

end
