(* ===== verification/MailCursor.thy ===== *)
theory MailCursor
  imports Catalog JsonText Crypto
begin

text \<open>
  Mail continuations (\<^verbatim>\<open>internal/mailpaging\<close>): a cursor binds the page token of a provider to
  the query it came from, as JSON in unpadded URL-safe base64. The lemmas show that reading
  undoes writing, on the level of base64, of printed JSON and of whole cursors.
\<close>

section \<open>Cursors\<close>

record cursor =
  cursor_version :: int
  cursor_scope :: string
  cursor_token :: string
  cursor_seen :: int

definition mail_scope :: "string list \<Rightarrow> string" where
  "mail_scope parts = hex_encode (sha256 (if parts = [] then ''null'' else the (marshal (VStrs parts))))"

definition control_rune :: "nat \<Rightarrow> bool" where
  "control_rune r \<longleftrightarrow> r < 32 \<or> 127 \<le> r \<and> r < 160"

definition valid_token :: "string \<Rightarrow> bool" where
  "valid_token s \<longleftrightarrow> s \<noteq> [] \<and> length s \<le> 4096 \<and> valid_utf8 s \<and> \<not> list_ex control_rune (runes s)"

definition cursor_json :: "cursor \<Rightarrow> string" where
  "cursor_json c = ''{\"version\":'' @ itoa (cursor_version c) @ '',\"scope\":'' @ quote_str (cursor_scope c)
     @ '',\"token\":'' @ quote_str (cursor_token c) @ '',\"seen\":'' @ itoa (cursor_seen c) @ ''}''"

definition encode_cursor :: "string \<Rightarrow> string \<Rightarrow> int \<Rightarrow> string res" where
  "encode_cursor scope token seen =
     (if \<not> valid_token token \<or> seen < 0 then Inl (Plain ''invalid mail continuation'')
      else let out = base64url (cursor_json \<lparr>cursor_version = 1, cursor_scope = scope,
             cursor_token = token, cursor_seen = seen\<rparr>) in
        if length out > 8192 then Inl (Plain ''mail continuation exceeds limit'') else Inr out)"

definition zero_cursor :: cursor where
  "zero_cursor = \<lparr>cursor_version = 0, cursor_scope = [], cursor_token = [], cursor_seen = 0\<rparr>"

definition cursor_of_json :: "json \<Rightarrow> cursor option" where
  "cursor_of_json j = and_then (strict_members [''version'', ''scope'', ''token'', ''seen''] j) (\<lambda>kvs.
     (case (field_int ''version'' kvs, field_str ''scope'' kvs, field_str ''token'' kvs, field_int ''seen'' kvs) of
        (Some v, Some s, Some t, Some n) \<Rightarrow>
          Some \<lparr>cursor_version = v, cursor_scope = s, cursor_token = t, cursor_seen = n\<rparr>
      | _ \<Rightarrow> None))"

definition decode_cursor :: "string \<Rightarrow> string \<Rightarrow> cursor res" where
  "decode_cursor scope raw =
     (if raw = [] then Inr zero_cursor
      else if length raw > 8192 then Inl (Plain ''invalid mail continuation'')
      else (case and_then (unbase64url raw) (\<lambda>b. and_then (json_parse b) cursor_of_json) of
        None \<Rightarrow> Inl (Plain ''invalid mail continuation'')
      | Some c \<Rightarrow>
          if cursor_version c \<noteq> 1 \<or> cursor_scope c \<noteq> scope \<or> \<not> valid_token (cursor_token c)
             \<or> cursor_seen c < 0
          then Inl (Plain ''invalid mail continuation'') else Inr c))"

section \<open>Reading a printed cursor\<close>

text \<open>The members of a cursor in the order of the struct.\<close>

definition cursor_members :: "cursor \<Rightarrow> (string \<times> string) list" where
  "cursor_members c = [(''version'', itoa (cursor_version c)), (''scope'', quote_str (cursor_scope c)),
     (''token'', quote_str (cursor_token c)), (''seen'', itoa (cursor_seen c))]"

lemma cursor_json_members: "cursor_json c = ''{'' @ join '','' (map member_text (cursor_members c)) @ ''}''"
proof -
  have "quote_str ''version'' = ''\"version\"''" "quote_str ''scope'' = ''\"scope\"''"
    "quote_str ''token'' = ''\"token\"''" "quote_str ''seen'' = ''\"seen\"''" by code_simp+
  then show ?thesis by (simp add: cursor_json_def cursor_members_def member_text_def)
qed

lemma json_parse_cursor:
  assumes "valid_utf8 (cursor_scope c)" "valid_utf8 (cursor_token c)"
  shows "json_parse (cursor_json c) = Some (JObj [(''version'', JNum (itoa (cursor_version c))),
    (''scope'', JStr (cursor_scope c)), (''token'', JStr (cursor_token c)),
    (''seen'', JNum (itoa (cursor_seen c)))])"
proof -
  have "valid_utf8 ''version''" "valid_utf8 ''scope''" "valid_utf8 ''token''" "valid_utf8 ''seen''"
    by code_simp+
  then show ?thesis
    unfolding cursor_json_members
    by (intro json_parse_reads reads_object)
      (simp add: cursor_members_def reads_member_def reads_int reads_string assms)
qed

lemma cursor_of_printed:
  assumes "int64 v" "int64 n"
  shows "cursor_of_json (JObj [(''version'', JNum (itoa v)), (''scope'', JStr s),
    (''token'', JStr t), (''seen'', JNum (itoa n))])
    = Some \<lparr>cursor_version = v, cursor_scope = s, cursor_token = t, cursor_seen = n\<rparr>"
proof -
  have "atoi (itoa v) = Some v" "atoi (itoa n) = Some n"
    using assms by (simp_all add: atoi_def parse_int64_itoa)
  then show ?thesis
    by (simp add: cursor_of_json_def equal_fold_code to_lower_def lower_char_def Let_def field_int_def
        field_str_def field_vals_def)
qed

text \<open>
  C24: a continuation that was encoded for a query decodes, for that query, to exactly the
  token and count it was made of, and for no other query.
\<close>
theorem mail_cursor_roundtrip:
  assumes "encode_cursor scope token seen = Inr raw" "valid_utf8 scope" "int64 seen"
  shows "decode_cursor scope' raw = (if scope' = scope
    then Inr \<lparr>cursor_version = 1, cursor_scope = scope, cursor_token = token, cursor_seen = seen\<rparr>
    else Inl (Plain ''invalid mail continuation''))"
proof -
  let ?c = "\<lparr>cursor_version = 1, cursor_scope = scope, cursor_token = token, cursor_seen = seen\<rparr>"
  have e: "valid_token token" "0 \<le> seen" "raw = base64url (cursor_json ?c)" "length raw \<le> 8192"
    using assms(1) by (auto simp: encode_cursor_def Let_def split: if_splits)
  have "json_parse (cursor_json ?c) = Some (JObj [(''version'', JNum (itoa 1)), (''scope'', JStr scope),
    (''token'', JStr token), (''seen'', JNum (itoa seen))])"
    using json_parse_cursor [of ?c] e(1,2) assms(2) by (simp add: valid_token_def)
  moreover have "raw \<noteq> []" by (simp add: e(3) base64url_values cursor_json_def)
  moreover have "int64 1" by (simp add: int64_def)
  ultimately show ?thesis
    using e(1,2,4) cursor_of_printed [OF \<open>int64 1\<close> assms(3)]
    by (simp add: decode_cursor_def e(3) unbase64url_base64url)
qed

theorem mail_cursor_roundtrip_witness:
  "\<exists>raw. encode_cursor ''q'' ''next'' 5 = Inr raw
    \<and> decode_cursor ''q'' raw = Inr \<lparr>cursor_version = 1, cursor_scope = ''q'', cursor_token = ''next'', cursor_seen = 5\<rparr>
    \<and> decode_cursor ''other'' raw = Inl (Plain ''invalid mail continuation'')"
proof -
  have "\<not> isl (encode_cursor ''q'' ''next'' 5)" by code_simp
  then obtain raw where raw: "encode_cursor ''q'' ''next'' 5 = Inr raw"
    by (cases "encode_cursor ''q'' ''next'' 5") auto
  have "valid_utf8 ''q''" by code_simp
  moreover have "int64 5" by (simp add: int64_def)
  ultimately show ?thesis using raw mail_cursor_roundtrip [OF raw] by auto
qed

end
