(* ===== verification/GoTime.thy ===== *)
theory GoTime
  imports GoBase
begin

text \<open>
  Instants as Go's \<open>time\<close> package prints and reads them. An instant is a number of nanoseconds
  since 1970 in UTC; dates follow the proleptic Gregorian calendar.
\<close>

section \<open>The calendar\<close>

definition leap_year :: "int \<Rightarrow> bool" where
  "leap_year y \<longleftrightarrow> y mod 4 = 0 \<and> (y mod 100 \<noteq> 0 \<or> y mod 400 = 0)"

definition month_days :: "int \<Rightarrow> int \<Rightarrow> int" where
  "month_days y m = (if m = 2 then if leap_year y then 29 else 28
     else if m \<in> {4, 6, 9, 11} then 30 else 31)"

text \<open>The days from 1970-01-01 to a date, counting years from March.\<close>

definition days_of_date :: "int \<Rightarrow> int \<Rightarrow> int \<Rightarrow> int" where
  "days_of_date y m d =
     (let y' = (if m \<le> 2 then y - 1 else y); k = y' mod 400;
          n = (153 * ((m + 9) mod 12) + 2) div 5 + d - 1 in
      y' div 400 * 146097 + k * 365 + k div 4 - k div 100 + n - 719468)"

definition date_of_days :: "int \<Rightarrow> int \<times> int \<times> int" where
  "date_of_days z =
     (let w = z + 719468; c = w mod 146097;
          k = (c - c div 1460 + c div 36524 - c div 146096) div 365;
          n = c - (365 * k + k div 4 - k div 100); p = (5 * n + 2) div 153;
          m = (if p < 10 then p + 3 else p - 9) in
      (k + w div 146097 * 400 + (if m \<le> 2 then 1 else 0), m, n - (153 * p + 2) div 5 + 1))"

section \<open>Printing\<close>

definition pad_to :: "nat \<Rightarrow> nat \<Rightarrow> string" where
  "pad_to w n = replicate (w - length (nat_str n)) (CHR ''0'') @ nat_str n"

definition pad_int :: "nat \<Rightarrow> int \<Rightarrow> string" where
  "pad_int w i = (if i < 0 then CHR ''-'' # pad_to w (nat (- i)) else pad_to w (nat i))"

definition clock_text :: "int \<Rightarrow> string" where
  "clock_text s = pad_int 2 (s div 3600) @ '':'' @ pad_int 2 (s div 60 mod 60) @ '':'' @ pad_int 2 (s mod 60)"

text \<open>\<open>t.In(zone).Format("2006-01-02" + sep + "15:04:05")\<close>, for a zone of a fixed offset in seconds.\<close>

definition format_local :: "string \<Rightarrow> int \<Rightarrow> int \<Rightarrow> string" where
  "format_local sep offset t =
     (let s = t div 1000000000 + offset in
      case date_of_days (s div 86400) of (y, m, d) \<Rightarrow>
        pad_int 4 y @ ''-'' @ pad_int 2 m @ ''-'' @ pad_int 2 d @ sep @ clock_text (s mod 86400))"

definition format_rfc3339 :: "int \<Rightarrow> string" where
  "format_rfc3339 t = format_local ''T'' 0 t @ ''Z''"

section \<open>Parsing\<close>

text \<open>\<open>getnum\<close>: two digits, or one where \<open>fixed\<close> is not set.\<close>

fun getnum :: "bool \<Rightarrow> string \<Rightarrow> (int \<times> string) option" where
  "getnum fixed (a # b # s) =
     (if \<not> is_digit a then None
      else if is_digit b then Some (int (digit_val a * 10 + digit_val b), s)
      else if fixed then None else Some (int (digit_val a), b # s))"
| "getnum fixed [a] = (if is_digit a \<and> \<not> fixed then Some (int (digit_val a), []) else None)"
| "getnum fixed [] = None"

definition get_year :: "string \<Rightarrow> (int \<times> string) option" where
  "get_year s = (if length s \<ge> 4 \<and> list_all is_digit (take 4 s)
     then Some (int (nat_of_digits 0 (take 4 s)), drop 4 s) else None)"

fun expect :: "char \<Rightarrow> string \<Rightarrow> string option" where
  "expect c [] = None"
| "expect c (x # s) = (if x = c then Some s else None)"

text \<open>A blank of the layout stands for any number of blanks, none at the end of the text included.\<close>

definition skip_blanks :: "string \<Rightarrow> string option" where
  "skip_blanks s = (if s \<noteq> [] \<and> hd s \<noteq> CHR '' '' then None else Some (dropWhile ((=) (CHR '' '')) s))"

text \<open>A fraction after the seconds is read even where the layout has none; nine digits count.\<close>

definition fraction :: "string \<Rightarrow> int \<times> string" where
  "fraction s = (case s of
     p # d # r \<Rightarrow> if (p = CHR ''.'' \<or> p = CHR '','') \<and> is_digit d
       then let ds = takeWhile is_digit (d # r); k = take 9 ds in
         (int (nat_of_digits 0 k * 10 ^ (9 - length k)), drop (length ds) (d # r))
       else (0, s)
   | _ \<Rightarrow> (0, s))"

definition within :: "int \<Rightarrow> int \<Rightarrow> (int \<times> string) option \<Rightarrow> (int \<times> string) option" where
  "within a b x = (case x of None \<Rightarrow> None | Some (n, s) \<Rightarrow> if a \<le> n \<and> n \<le> b then Some (n, s) else None)"

definition parse_date_part :: "string \<Rightarrow> ((int \<times> int \<times> int) \<times> string) option" where
  "parse_date_part s =
     Option.bind (get_year s) (\<lambda>(y, s).
     Option.bind (expect (CHR ''-'') s) (\<lambda>s.
     Option.bind (within 1 12 (getnum True s)) (\<lambda>(m, s).
     Option.bind (expect (CHR ''-'') s) (\<lambda>s.
     Option.bind (getnum True s) (\<lambda>(d, s). Some ((y, m, d), s))))))"

definition parse_clock_part :: "string \<Rightarrow> ((int \<times> int) \<times> string) option" where
  "parse_clock_part s =
     Option.bind (within 0 23 (getnum False s)) (\<lambda>(h, s).
     Option.bind (expect (CHR '':'') s) (\<lambda>s.
     Option.bind (within 0 59 (getnum True s)) (\<lambda>(m, s).
     Option.bind (expect (CHR '':'') s) (\<lambda>s.
     Option.bind (within 0 59 (getnum True s)) (\<lambda>(x, s).
       case fraction s of (f, s) \<Rightarrow> Some ((h * 3600 + m * 60 + x, f), s))))))"

text \<open>A zone is \<open>Z\<close> or a signed offset, up to 24 hours and 60 minutes.\<close>

definition parse_zone :: "string \<Rightarrow> (int \<times> string) option" where
  "parse_zone s = (case s of
     [] \<Rightarrow> None
   | c # r \<Rightarrow> if c = CHR ''Z'' then Some (0, r)
       else Option.bind (within 0 24 (getnum True r)) (\<lambda>(h, r).
         Option.bind (expect (CHR '':'') r) (\<lambda>r.
         Option.bind (within 0 60 (getnum True r)) (\<lambda>(m, r).
           if c = CHR ''+'' then Some (h * 3600 + m * 60, r)
           else if c = CHR ''-'' then Some (- (h * 3600 + m * 60), r) else None))))"

definition instant_of :: "int \<times> int \<times> int \<Rightarrow> int \<times> int \<Rightarrow> int \<Rightarrow> int option" where
  "instant_of = (\<lambda>(y, m, d) (s, f) offset.
     if 1 \<le> d \<and> d \<le> month_days y m
     then Some ((days_of_date y m d * 86400 + s - offset) * 1000000000 + f) else None)"

definition parse_rfc3339 :: "string \<Rightarrow> int option" where
  "parse_rfc3339 s =
     Option.bind (parse_date_part s) (\<lambda>(d, s).
     Option.bind (expect (CHR ''T'') s) (\<lambda>s.
     Option.bind (parse_clock_part s) (\<lambda>(t, s).
     Option.bind (parse_zone s) (\<lambda>(z, s). if s = [] then instant_of d t z else None))))"

text \<open>\<open>time.Parse("2006-01-02", s)\<close>.\<close>

definition parse_day :: "string \<Rightarrow> (int \<times> int \<times> int) option" where
  "parse_day s = (case parse_date_part s of
     Some ((y, mo, d), []) \<Rightarrow> if 1 \<le> d \<and> d \<le> month_days y mo then Some (y, mo, d) else None | _ \<Rightarrow> None)"

text \<open>\<open>ParseInLocation("2006-01-02 15:04:05", s, zone)\<close>.\<close>

definition parse_local :: "int \<Rightarrow> string \<Rightarrow> int option" where
  "parse_local offset s =
     Option.bind (parse_date_part s) (\<lambda>(d, s).
     Option.bind (skip_blanks s) (\<lambda>s.
     Option.bind (parse_clock_part s) (\<lambda>(t, s). if s = [] then instant_of d t offset else None)))"

section \<open>Durations\<close>

text \<open>\<open>t.Sub(u)\<close> saturates; \<open>Round\<close> rounds halves away from zero.\<close>

definition time_sub :: "int \<Rightarrow> int \<Rightarrow> int" where
  "time_sub t u = max min_int64 (min max_int64 (t - u))"

definition round_to :: "int \<Rightarrow> int \<Rightarrow> int" where
  "round_to m d = (if d mod m + d mod m < m then d - d mod m else min max_int64 (d + m - d mod m))"

end
