(* ===== verification/Payments.thy ===== *)
theory Payments
  imports Webhook Base64 GoTime
begin

text \<open>
  What the two RSA-signed payment gateways (\<^verbatim>\<open>providers/payment/alipay\<close> and
  \<^verbatim>\<open>providers/payment/wechat_pay\<close>) have in common: members of JSON maps that must be strings,
  the check of the gateway address, amounts in minor units as decimal texts, and the
  classification of failures. RSA and the parsing of keys are outside the program: a signer
  takes a private key to a signing function, a checker a public key to a test of signatures.
\<close>

section \<open>Keys\<close>

type_synonym signer = "string \<Rightarrow> (string \<Rightarrow> string option) option"

type_synonym checker = "string \<Rightarrow> (string \<Rightarrow> string \<Rightarrow> bool) option"

section \<open>Members\<close>

definition obj_string :: "obj \<Rightarrow> string \<Rightarrow> string" where
  "obj_string m k = (case as_str (at m k) of None \<Rightarrow> [] | Some s \<Rightarrow> trim_space s)"

definition first_string :: "obj \<Rightarrow> string list \<Rightarrow> string" where
  "first_string m ks = first_text (map (obj_string m) ks)"

text \<open>The members of a map that is built text by text, without the empty ones.\<close>

definition put_text :: "string \<Rightarrow> string \<Rightarrow> obj \<Rightarrow> obj" where
  "put_text k s m = (if s = [] then m else put k (VStr s) m)"

lemma at_put_text [simp]: "k \<noteq> k' \<Longrightarrow> at (put_text k s m) k' = at m k'"
  by (simp add: put_text_def)

section \<open>Configuration\<close>

definition loopback :: "string \<Rightarrow> bool" where
  "loopback h \<longleftrightarrow> h = ''localhost'' \<or> h = ''127.0.0.1'' \<or> h = ''::1''"

definition gateway_ok :: "string \<Rightarrow> bool" where
  "gateway_ok s = (case url_parse s of None \<Rightarrow> False
     | Some u \<Rightarrow> host u \<noteq> [] \<and> user u = None \<and> raw_query u = [] \<and> fragment u = []
         \<and> (scheme u = ''https'' \<or> scheme u = ''http'' \<and> loopback (hostname u)))"

definition timeout_ok :: "connection \<Rightarrow> bool" where
  "timeout_ok c = (let t = int_value (at (config c) ''timeout_seconds'') 15 in 1 \<le> t \<and> t \<le> 120)"

section \<open>Amounts\<close>

text \<open>\<open>Sprintf("%d.%02d", a/100, a%100)\<close>; a negative rest is printed with its sign.\<close>

definition two_digits :: "int \<Rightarrow> string" where
  "two_digits i = (if i < 0 then CHR ''-'' # nat_str (nat (- i)) else pad_to 2 (nat i))"

definition minor_amount_text :: "int \<Rightarrow> string" where
  "minor_amount_text a = itoa (go_div a 100) @ ''.'' @ two_digits (go_mod a 100)"

definition decimal_to_minor :: "string \<Rightarrow> int option" where
  "decimal_to_minor s =
     (let parts = split_on (CHR ''.'') (trim_space s) in
      if length parts > 2 then None
      else (case parse_int64 (hd parts) of (whole, ok) \<Rightarrow>
        if \<not> ok then None
        else (let frac = (if length parts = 2 then parts ! 1 else []) in
          if length frac > 2 then None
          else (case parse_int64 (frac @ replicate (2 - length frac) (CHR ''0'')) of (cents, ok) \<Rightarrow>
            if ok then Some (wrap64 (wrap64 (whole * 100) + cents)) else None))))"

lemma two_digits_props:
  assumes "0 \<le> i" "i < 100"
  shows "length (two_digits i) = 2" "list_all is_digit (two_digits i)"
    "nat_of_digits 0 (two_digits i) = nat i"
proof -
  have n: "nat i < 100" using assms by simp
  have "length (two_digits i) = 2 \<and> list_all is_digit (two_digits i)
    \<and> nat_of_digits 0 (two_digits i) = nat i"
  proof (cases "nat i < 10")
    case True
    then have "nat_str (nat i) = [digit_char (nat i)]" by (simp add: nat_str.simps [of "nat i"])
    moreover have "is_digit (CHR ''0'')" "digit_val (CHR ''0'') = 0"
      by (simp_all add: is_digit_def digit_val_def)
    ultimately show ?thesis using True assms
      by (simp add: two_digits_def pad_to_def)
  next
    case False
    then have "nat i div 10 < 10" "nat_str (nat i) = [digit_char (nat i div 10), digit_char (nat i mod 10)]"
      using n by (simp_all add: nat_str.simps [of "nat i"] nat_str.simps [of "nat i div 10"])
    then show ?thesis using assms by (simp add: two_digits_def pad_to_def)
  qed
  then show "length (two_digits i) = 2" "list_all is_digit (two_digits i)"
    "nat_of_digits 0 (two_digits i) = nat i" by simp_all
qed

lemma digits_parse:
  assumes "list_all is_digit ds" "ds \<noteq> []" "int (nat_of_digits 0 ds) \<le> max_int64"
  shows "parse_int64 ds = (int (nat_of_digits 0 ds), True)"
  using assms by (cases ds) (auto simp: parse_digits_def dest: digit_not_sign)

lemma digits_no_dot: "list_all is_digit ds \<Longrightarrow> CHR ''.'' \<notin> set ds"
  by (auto simp: list_all_iff is_digit_def)

lemma digits_graphic: "list_all is_digit ds \<Longrightarrow> c \<in> set ds \<Longrightarrow> graphic c"
  by (auto simp: list_all_iff is_digit_def graphic_def Let_def)

text \<open>An amount in minor units survives printing and reading.\<close>

lemma decimal_minor_text:
  assumes "0 \<le> a" "a \<le> max_int64"
  shows "decimal_to_minor (minor_amount_text a) = Some a"
proof -
  let ?w = "a div 100" and ?c = "a mod 100"
  let ?s = "itoa ?w @ ''.'' @ two_digits ?c"
  have c: "0 \<le> ?c" "?c < 100" by simp_all
  note td = two_digits_props [OF c]
  have w: "0 \<le> ?w" "?w \<le> max_int64" using assms by (simp_all add: pos_imp_zdiv_nonneg_iff)
  have wd: "list_all is_digit (itoa ?w)" "itoa ?w \<noteq> []"
    using w nat_str_digits by (simp_all add: itoa_def)
  have wv: "int64 ?w" using w by (simp add: int64_def)
  have printed: "minor_amount_text a = ?s" using assms by (simp add: minor_amount_text_def)
  have tne: "two_digits ?c \<noteq> []" using td(1) by auto
  have "graphic (hd ?s)" "graphic (last ?s)"
    using digits_graphic [OF wd(1)] digits_graphic [OF td(2)] wd(2) tne by simp_all
  then have trim: "trim_space ?s = ?s" by (intro trim_space_graphic) simp_all
  have split: "split_on (CHR ''.'') ?s = [itoa ?w, two_digits ?c]"
    using digits_no_dot [OF wd(1)] digits_no_dot [OF td(2)]
    by (simp add: split_on_append split_on_idle)
  have cents: "parse_int64 (two_digits ?c) = (?c, True)"
    using digits_parse [OF td(2) tne] td(3) c by simp
  have small: "int64 (?w * 100)" "int64 (?w * 100 + ?c)" "?w * 100 + ?c = a"
    using assms w by (simp_all add: int64_def)
  show ?thesis
    unfolding printed decimal_to_minor_def trim split
    using td(1) cents small by (simp add: parse_int64_itoa [OF wv] Let_def)
qed

section \<open>Failures\<close>

definition failure :: "bool \<Rightarrow> string \<Rightarrow> cause \<Rightarrow> gerr" where
  "failure write code cause = (if write then Uncertain code cause else Retryable code cause)"

lemma failure_simps [simp]:
  "is_permanent (failure w c m) = False" "is_uncertain (failure True c m)"
  "is_retryable (failure w c m) = (\<not> w)"
  by (simp_all add: failure_def)

text \<open>A delivery keeps the reference of a result and its error.\<close>

definition delivered :: "typed \<Rightarrow> string \<times> gerr option" where
  "delivered r = snd r"

text \<open>Only an answer that was not taken up may be retried.\<close>

definition throttled :: "int \<Rightarrow> bool" where
  "throttled n \<longleftrightarrow> n = 429"

end
