(* ===== verification/Alipay.thy ===== *)
theory Alipay
  imports Payments
begin

text \<open>
  The Alipay provider (\<^verbatim>\<open>providers/payment/alipay\<close>): validation, the signed gateway call,
  the operations and the webhook verifier. The clock and RSA are parameters.
\<close>

section \<open>Configuration\<close>

definition alipay_error :: "string \<Rightarrow> string \<Rightarrow> gerr" where
  "alipay_error code msg = Permanent (''alipay.'' @ code) (Msg msg)"

definition alipay_gateway :: "connection \<Rightarrow> string" where
  "alipay_gateway c = config_default c ''base_url'' ''https://openapi.alipay.com/gateway.do''"

definition alipay_validate :: "connection \<Rightarrow> gerr option" where
  "alipay_validate c =
     (if \<not> gateway_ok (alipay_gateway c)
      then Some (alipay_error ''base_url_invalid'' ''HTTPS or loopback HTTP gateway is required'')
      else if config_text c ''app_id'' = [] \<or> config_text c ''notify_url'' = []
      then Some (alipay_error ''config_required'' ''app_id and notify_url are required'')
      else if to_upper (config_default c ''sign_type'' ''RSA2'') \<noteq> ''RSA2''
      then Some (alipay_error ''sign_type_invalid'' ''RSA2 is required'')
      else if \<not> timeout_ok c
      then Some (alipay_error ''timeout_invalid'' ''timeout_seconds is invalid'')
      else None)"

section \<open>The gateway call\<close>

text \<open>The text that is signed: the non-empty values in the order of their keys.\<close>

definition canonical :: "url_values \<Rightarrow> string list \<Rightarrow> string" where
  "canonical q excluded = join ''&''
     (map (\<lambda>k. k @ ''='' @ get_value q k)
       (filter (\<lambda>k. get_value q k \<noteq> [])
         (sort (filter (\<lambda>k. k \<notin> set excluded) (map fst q)))))"

record alipay_call =
  ac_operation :: string
  ac_order :: string
  ac_refund :: string
  ac_method :: string
  ac_key :: string
  ac_biz :: obj
  ac_write :: bool

definition alipay_normalize :: "string \<Rightarrow> string \<Rightarrow> string \<Rightarrow> obj \<Rightarrow> obj" where
  "alipay_normalize op order refund m =
     (let order' = (if order = [] then obj_string m ''out_trade_no'' else order);
          refund' = (if refund = [] then obj_string m ''out_request_no'' else refund);
          minor = (\<lambda>k to r. if obj_string m k = [] then r
            else (case decimal_to_minor (obj_string m k) of None \<Rightarrow> r | Some a \<Rightarrow> put to (VInt a) r));
          s0 = first_string m [''trade_status'', ''refund_status''];
          s1 = (if s0 = [] \<and> op = ''create_native_payment_order'' then ''WAIT_BUYER_PAY'' else s0);
          s2 = (if s1 = [] \<and> op = ''close_payment_order'' then ''TRADE_CLOSED'' else s1);
          status = (if s2 = [] \<and> op = ''create_payment_refund'' \<and> obj_string m ''fund_change'' = ''Y''
            then ''REFUND_SUCCESS'' else s2);
          date = first_string m [''send_pay_date'', ''gmt_refund_pay''] in
      put ''currency'' (VStr ''CNY'')
      (minor ''total_amount'' ''amount_minor''
      (put_text (if op = ''query_payment_refund'' then ''refunded_at'' else ''paid_at'') date
      (put_text ''status'' (to_lower status)
      (put_text ''code_url'' (obj_string m ''qr_code'')
      (minor ''refund_fee'' ''refund_amount_minor''
      (put_text ''provider_order_no'' (obj_string m ''trade_no'')
      (put_text ''merchant_refund_no'' refund'
      (put_text ''merchant_order_no'' order' [])))))))))"

definition alipay_values :: "int \<Rightarrow> connection \<Rightarrow> alipay_call \<Rightarrow> string \<Rightarrow> url_values" where
  "alipay_values now c call biz =
     [(''app_id'', [config_text c ''app_id'']), (''method'', [ac_method call]),
      (''format'', [''JSON'']), (''charset'', [config_default c ''charset'' ''utf-8'']),
      (''sign_type'', [''RSA2'']), (''timestamp'', [format_local '' '' 28800 now]),
      (''version'', [''1.0'']), (''notify_url'', [config_text c ''notify_url'']),
      (''biz_content'', [biz])]"

definition alipay_plan ::
  "signer \<Rightarrow> int \<Rightarrow> connection \<Rightarrow> secrets \<Rightarrow> alipay_call \<Rightarrow> typed + http_request" where
  "alipay_plan sign now c ss call =
     (case alipay_validate c of Some e \<Rightarrow> Inl (failed e) | None \<Rightarrow>
     (case marshal (VObj (ac_biz call)) of
        None \<Rightarrow> Inl (failed (alipay_error ''request_invalid'' ''request is invalid''))
      | Some biz \<Rightarrow>
     (let q = alipay_values now c call biz in
      case sign (secret ss ''merchant_private_key'') of
        None \<Rightarrow> Inl (failed (alipay_error ''private_key_invalid'' ''merchant private key is invalid''))
      | Some f \<Rightarrow> (case f (canonical q []) of
          None \<Rightarrow> Inl (failed (alipay_error ''sign_failed'' ''request signing failed''))
        | Some signature \<Rightarrow> Inr ((plain_request ''POST'' (alipay_gateway c)
            [(''Accept'', [''application/json'']),
             (''Content-Type'', [''application/x-www-form-urlencoded;charset=''
                @ config_default c ''charset'' ''utf-8''])]
            (encode_values q))
          \<lparr>req_secret_form := [(''sign'', base64_std signature)], req_max := 4194304\<rparr>)))))"

definition alipay_read :: "alipay_call \<Rightarrow> string + http_response \<Rightarrow> typed" where
  "alipay_read call answer = (case answer of
     Inl m \<Rightarrow> failed (failure (ac_write call) ''alipay.network_error'' (TransportErr m))
   | Inr resp \<Rightarrow>
     (let n = resp_status resp; ref = ''http:'' @ itoa n; payload = decode_map (resp_body resp);
          cause = Msg (''Alipay returned HTTP '' @ itoa n) in
      if \<not> ok_status n then
        (if n = 429 then (VNil, ref, Some (Retryable ''alipay.http_429'' cause))
         else if n \<ge> 500 then (VNil, ref, Some (failure (ac_write call) (''alipay.http_'' @ itoa n) cause))
         else (VNil, ref, Some (Permanent (''alipay.http_'' @ itoa n) cause)))
      else (case payload of
        None \<Rightarrow> (VNil, ref, Some (failure (ac_write call) ''alipay.response_invalid''
          (Msg ''Alipay response is invalid JSON'')))
      | Some v \<Rightarrow>
        (let r = at (as_obj v) (ac_key call) in
         if \<not> is_obj r then (VNil, ref, Some (failure (ac_write call) ''alipay.response_invalid''
           (Msg ''Alipay response envelope is invalid'')))
         else if obj_string (as_obj r) ''code'' \<noteq> ''10000'' then
           (r, ref, Some (Permanent (''alipay.'' @
              (if obj_string (as_obj r) ''sub_code'' = [] then ''business_error''
               else obj_string (as_obj r) ''sub_code''))
              (Msg ''Alipay rejected the request'')))
         else
           (let rid = first_string (as_obj r) [''trade_no'', ''out_trade_no'', ''out_request_no''] in
            (VObj (alipay_normalize (ac_operation call) (ac_order call) (ac_refund call) (as_obj r)),
             (if rid \<noteq> [] then ''alipay:'' @ rid
              else if ac_order call \<noteq> [] then ''alipay:'' @ ac_order call
              else if ac_refund call \<noteq> [] then ''alipay:'' @ ac_refund call else ref), None))))))"

definition alipay_execute ::
  "signer \<Rightarrow> int \<Rightarrow> connection \<Rightarrow> secrets \<Rightarrow> alipay_call \<Rightarrow> http \<Rightarrow> http_request list
    \<Rightarrow> http_request list \<times> typed" where
  "alipay_execute sign now c ss call = run_plan (alipay_plan sign now c ss call) (alipay_read call)"

section \<open>Operations\<close>

record native_order =
  merchant_order_no :: string
  amount_minor :: int
  order_subject :: string
  description :: string
  expires_at :: string

record refund_order =
  refund_order_no :: string
  refund_refund_no :: string
  refund_amount_minor :: int
  total_amount_minor :: int
  refund_reason :: string

text \<open>The minutes a payment stays open, rounded, at least one.\<close>

definition timeout_express :: "int \<Rightarrow> string \<Rightarrow> string" where
  "timeout_express now expires = (case parse_rfc3339 expires of None \<Rightarrow> []
     | Some t \<Rightarrow> (let left = time_sub t now in
         if 0 < left then itoa (max 1 (go_div (round_to (60 * nanos) left) (60 * nanos))) @ ''m'' else []))"

definition alipay_create_payment :: "int \<Rightarrow> native_order \<Rightarrow> alipay_call res" where
  "alipay_create_payment now i =
     (if trim_space (merchant_order_no i) = [] \<or> trim_space (order_subject i) = [] \<or> amount_minor i \<le> 0
      then Inl (alipay_error ''payment_fields_required''
        ''merchant_order_no, subject and positive amount are required'')
      else Inr \<lparr>ac_operation = ''create_native_payment_order'', ac_order = merchant_order_no i,
        ac_refund = [], ac_method = ''alipay.trade.precreate'',
        ac_key = ''alipay_trade_precreate_response'',
        ac_biz = put_text ''timeout_express''
            (if expires_at i = [] then [] else timeout_express now (expires_at i))
          (put_text ''body'' (description i)
            [(''out_trade_no'', VStr (merchant_order_no i)),
             (''total_amount'', VStr (minor_amount_text (amount_minor i))),
             (''subject'', VStr (order_subject i))]),
        ac_write = True\<rparr>)"

definition alipay_close_payment :: "string \<Rightarrow> alipay_call res" where
  "alipay_close_payment order = (let x = trim_space order in
     if x = [] then Inl (alipay_error ''merchant_order_no_required'' ''merchant_order_no is required'')
     else Inr \<lparr>ac_operation = ''close_payment_order'', ac_order = x, ac_refund = [],
       ac_method = ''alipay.trade.close'', ac_key = ''alipay_trade_close_response'',
       ac_biz = [(''out_trade_no'', VStr x)], ac_write = True\<rparr>)"

definition alipay_create_refund :: "refund_order \<Rightarrow> alipay_call res" where
  "alipay_create_refund i =
     (if trim_space (refund_order_no i) = [] \<or> trim_space (refund_refund_no i) = []
         \<or> refund_amount_minor i \<le> 0 \<or> total_amount_minor i \<le> 0
         \<or> refund_amount_minor i > total_amount_minor i
      then Inl (alipay_error ''refund_fields_invalid'' ''refund fields and amounts are invalid'')
      else Inr \<lparr>ac_operation = ''create_payment_refund'', ac_order = refund_order_no i,
        ac_refund = refund_refund_no i, ac_method = ''alipay.trade.refund'',
        ac_key = ''alipay_trade_refund_response'',
        ac_biz = put_text ''refund_reason'' (refund_reason i)
          [(''out_trade_no'', VStr (refund_order_no i)), (''out_request_no'', VStr (refund_refund_no i)),
           (''refund_amount'', VStr (minor_amount_text (refund_amount_minor i)))],
        ac_write = True\<rparr>)"

definition alipay_query_payment :: "string \<Rightarrow> alipay_call res" where
  "alipay_query_payment order = (let x = trim_space order in
     if x = [] then Inl (alipay_error ''merchant_order_no_required'' ''merchant_order_no is required'')
     else Inr \<lparr>ac_operation = ''query_payment_order'', ac_order = x, ac_refund = [],
       ac_method = ''alipay.trade.query'', ac_key = ''alipay_trade_query_response'',
       ac_biz = [(''out_trade_no'', VStr x)], ac_write = False\<rparr>)"

definition alipay_query_refund :: "string \<Rightarrow> string \<Rightarrow> alipay_call res" where
  "alipay_query_refund order refund =
     (if trim_space order = [] \<or> trim_space refund = []
      then Inl (alipay_error ''refund_query_fields_required''
        ''merchant order and refund numbers are required'')
      else Inr \<lparr>ac_operation = ''query_payment_refund'', ac_order = order, ac_refund = refund,
        ac_method = ''alipay.trade.fastpay.refund.query'',
        ac_key = ''alipay_trade_fastpay_refund_query_response'',
        ac_biz = [(''out_trade_no'', VStr order), (''out_request_no'', VStr refund)],
        ac_write = False\<rparr>)"

text \<open>A call that its operation refused, or that is sent; a delivery drops the output.\<close>

definition alipay_run ::
  "signer \<Rightarrow> int \<Rightarrow> connection \<Rightarrow> secrets \<Rightarrow> alipay_call res \<Rightarrow> http \<Rightarrow> http_request list
    \<Rightarrow> http_request list \<times> typed" where
  "alipay_run sign now c ss call T sent = (case call of
     Inl e \<Rightarrow> (sent, failed e) | Inr x \<Rightarrow> alipay_execute sign now c ss x T sent)"

definition alipay_deliver ::
  "signer \<Rightarrow> int \<Rightarrow> connection \<Rightarrow> secrets \<Rightarrow> alipay_call res \<Rightarrow> http \<Rightarrow> http_request list
    \<Rightarrow> http_request list \<times> string \<times> gerr option" where
  "alipay_deliver sign now c ss call T sent =
     (case alipay_run sign now c ss call T sent of (sent', r) \<Rightarrow> (sent', delivered r))"

text \<open>The connection test asks for an order that does not exist.\<close>

definition alipay_probe :: alipay_call where
  "alipay_probe = \<lparr>ac_operation = ''query_payment_order'', ac_order = ''domainry-connection-probe'',
     ac_refund = [], ac_method = ''alipay.trade.query'', ac_key = ''alipay_trade_query_response'',
     ac_biz = [(''out_trade_no'', VStr ''domainry-connection-probe'')], ac_write = False\<rparr>"

definition alipay_test ::
  "signer \<Rightarrow> int \<Rightarrow> connection \<Rightarrow> secrets \<Rightarrow> http \<Rightarrow> http_request list \<Rightarrow> http_request list \<times> typed" where
  "alipay_test sign now c ss T sent = (case alipay_execute sign now c ss alipay_probe T sent of
     (sent', r) \<Rightarrow> (sent', case Option.bind (typed_err r) err_code of
         Some code \<Rightarrow> if contains_str code ''ACQ.TRADE_NOT_EXIST''
           then (VObj [(''connected'', VBool True)], ''alipay:connected'', None) else r
       | None \<Rightarrow> r))"

definition alipay_test_connection ::
  "signer \<Rightarrow> int \<Rightarrow> connection \<Rightarrow> secrets \<Rightarrow> http \<Rightarrow> http_request list \<Rightarrow> http_request list \<times> string res" where
  "alipay_test_connection sign now c ss T sent = (case alipay_test sign now c ss T sent of
     (sent', out, ref, Some e) \<Rightarrow> (sent', Inl e)
   | (sent', out, ref, None) \<Rightarrow> (sent', Inr (marshal_or [] out)))"

section \<open>Webhooks\<close>

definition alipay_event_time :: "webhook_request \<Rightarrow> url_values \<Rightarrow> int" where
  "alipay_event_time r q = (case parse_local 28800 (get_value q ''notify_time'') of
     Some t \<Rightarrow> t
   | None \<Rightarrow> received_at r)"

definition alipay_receipt :: "string \<Rightarrow> string \<Rightarrow> int \<Rightarrow> delivery_receipt option" where
  "alipay_receipt ty order t =
     (if ty = ''TRADE_SUCCESS'' \<or> ty = ''TRADE_FINISHED''
      then Some \<lparr>receipt_ref = ''alipay:'' @ order, receipt_status = ''delivered'',
        receipt_error = [], receipt_time = Some t\<rparr>
      else if ty = ''TRADE_CLOSED''
      then Some \<lparr>receipt_ref = ''alipay:'' @ order, receipt_status = ''failed'',
        receipt_error = ''trade_closed'', receipt_time = Some t\<rparr>
      else None)"

definition alipay_event :: "webhook_request \<Rightarrow> url_values \<Rightarrow> verified_webhook" where
  "alipay_event r q =
     (let order = trim_space (get_value q ''out_trade_no''); nid = trim_space (get_value q ''notify_id'');
          ty = trim_space (get_value q ''trade_status'');
          eid = (if nid = [] then order @ '':'' @ ty @ '':'' @ get_value q ''gmt_payment'' else nid);
          t = alipay_event_time r q;
          tx = trim_space (get_value q ''trade_no''); tx' = (if tx = [] then order else tx);
          payment = VObj [(''event_type'', VStr ty), (''merchant_order_no'', VStr order),
            (''provider_transaction_id'', VStr tx'), (''provider_status'', VStr ty),
            (''paid_amount'', VStr (trim_space (get_value q ''total_amount''))),
            (''currency'', VStr ''CNY''), (''occurred_at'', VStr (format_rfc3339 t)),
            (''callback_digest'', VStr (hex_encode (sha256 (wh_body r))))];
          payload = put ''_payment'' payment
            (map (\<lambda>k. (k, VStr (get_value q k))) (filter (\<lambda>k. k \<noteq> ''sign'') (map fst q))) in
      (plain_event ty eid (marshal_or [] (VObj payload)))
        \<lparr>event_security := Some \<lparr>signature_verified = True, evidence_nonce = eid,
           evidence_device = get_value q ''seller_id'', evidence_time = Some t\<rparr>,
         event_identity := Some \<lparr>subject = order, subject_type = ''merchant_order'',
           subject_name = [], subject_group = []\<rparr>,
         event_receipt := alipay_receipt ty order t\<rparr>)"

definition alipay_verify :: "checker \<Rightarrow> webhook_request \<Rightarrow> verified_webhook res" where
  "alipay_verify check r = (case wh_context r of Some m \<Rightarrow> Inl (Plain m) | None \<Rightarrow>
     (case parse_query_strict (wh_body r) of
        None \<Rightarrow> Inl (alipay_error ''webhook_payload_invalid'' ''webhook payload is invalid'')
      | Some q \<Rightarrow>
     (let ty = to_upper (get_value q ''sign_type''); app = config_text (wh_connection r) ''app_id'' in
      if get_value q ''sign'' = [] \<or> (ty \<noteq> [] \<and> ty \<noteq> ''RSA2'')
      then Inl (alipay_error ''webhook_signature_invalid'' ''webhook signature is invalid'')
      else (case check (secret (wh_secrets r) ''platform_public_key'') of
        None \<Rightarrow> Inl (alipay_error ''platform_key_invalid'' ''platform public key is invalid'')
      | Some f \<Rightarrow> (case unbase64_std (get_value q ''sign'') of
        None \<Rightarrow> Inl (alipay_error ''webhook_signature_invalid'' ''webhook signature is invalid'')
      | Some s \<Rightarrow>
          if \<not> f (canonical q [''sign'', ''sign_type'']) s
          then Inl (alipay_error ''webhook_signature_invalid'' ''webhook signature does not match'')
          else if app \<noteq> [] \<and> get_value q ''app_id'' \<noteq> app
          then Inl (alipay_error ''webhook_app_id_mismatch'' ''webhook app ID does not match'')
          else if trim_space (get_value q ''out_trade_no'') = [] \<or> trim_space (get_value q ''trade_status'') = []
          then Inl (alipay_error ''webhook_identity_missing'' ''webhook identity is missing'')
          else Inr (alipay_event r q))))))"

section \<open>Amounts\<close>

text \<open>
  C26: the amount of a payment or refund, in minor units up to the largest 64-bit integer,
  reaches Alipay as a decimal text that reads back as the same amount.
\<close>
theorem alipay_amounts_exact:
  assumes "alipay_create_payment now i = Inr p" "amount_minor i \<le> max_int64"
    "alipay_create_refund r = Inr q" "refund_amount_minor r \<le> max_int64"
  shows "(\<exists>s. at (ac_biz p) ''total_amount'' = VStr s \<and> decimal_to_minor s = Some (amount_minor i))
    \<and> (\<exists>s. at (ac_biz q) ''refund_amount'' = VStr s \<and> decimal_to_minor s = Some (refund_amount_minor r))"
proof -
  have "at (ac_biz p) ''total_amount'' = VStr (minor_amount_text (amount_minor i)) \<and> 0 < amount_minor i"
    using assms(1) by (auto simp: alipay_create_payment_def at_def get_or_def put_text_def put_def
        split: if_splits)
  moreover have "at (ac_biz q) ''refund_amount'' = VStr (minor_amount_text (refund_amount_minor r))
      \<and> 0 < refund_amount_minor r"
    using assms(3) by (auto simp: alipay_create_refund_def at_def get_or_def put_text_def put_def
        split: if_splits)
  ultimately show ?thesis using assms(2,4) by (simp add: decimal_minor_text)
qed

definition sample_order :: native_order where
  "sample_order = \<lparr>merchant_order_no = ''m1'', amount_minor = 12345, order_subject = ''tea'',
     description = [], expires_at = []\<rparr>"

definition sample_refund :: refund_order where
  "sample_refund = \<lparr>refund_order_no = ''m1'', refund_refund_no = ''r1'', refund_amount_minor = 7,
     total_amount_minor = 12345, refund_reason = []\<rparr>"

theorem alipay_amounts_exact_witness:
  "\<exists>p q. alipay_create_payment 0 sample_order = Inr p \<and> alipay_create_refund sample_refund = Inr q
    \<and> (\<exists>s. at (ac_biz p) ''total_amount'' = VStr s \<and> decimal_to_minor s = Some 12345)"
proof -
  have "\<not> isl (alipay_create_payment 0 sample_order)" "\<not> isl (alipay_create_refund sample_refund)"
    by code_simp+
  then obtain p q where "alipay_create_payment 0 sample_order = Inr p"
    "alipay_create_refund sample_refund = Inr q"
    by (metis isl_def sum.collapse(2))
  then show ?thesis
    using alipay_amounts_exact [of 0 sample_order p sample_refund q]
    by (simp add: sample_order_def sample_refund_def)
qed

section \<open>Writes\<close>

lemma alipay_plan_permanent:
  "alipay_plan sign now c ss call = Inl x \<Longrightarrow> \<exists>e. typed_err x = Some e \<and> is_permanent e"
  by (auto simp: alipay_plan_def alipay_validate_def alipay_error_def Let_def
      split: option.splits if_splits)

lemma alipay_read_cautious:
  "ac_write call \<Longrightarrow> typed_err (alipay_read call a) = Some e \<Longrightarrow> is_retryable e
    \<Longrightarrow> \<exists>r. a = Inr r \<and> throttled (resp_status r)"
  by (cases a) (auto simp: alipay_read_def Let_def throttled_def split: if_splits option.splits)

lemma alipay_read_lost: "ac_write call \<Longrightarrow> \<exists>e. typed_err (alipay_read call (Inl m)) = Some e \<and> is_uncertain e"
  by (simp add: alipay_read_def)

interpretation alipay_writes: cautious_write
  "alipay_execute sign now c ss (call\<lparr>ac_write := True\<rparr>)"
  "alipay_plan sign now c ss (call\<lparr>ac_write := True\<rparr>)"
  "alipay_read (call\<lparr>ac_write := True\<rparr>)" typed_err throttled
  for sign now c ss call
proof (unfold_locales, goal_cases)
  case (1 T sent) show ?case by (simp add: alipay_execute_def)
next
  case (2 a e) then show ?case using alipay_read_cautious [of "call\<lparr>ac_write := True\<rparr>"] by simp
next
  case (3 x) then show ?case by (rule alipay_plan_permanent)
next
  case (4 m) show ?case using alipay_read_lost [of "call\<lparr>ac_write := True\<rparr>"] by simp
qed

lemma alipay_write_calls:
  "w \<in> {alipay_create_payment now i, alipay_close_payment x, alipay_create_refund r} \<Longrightarrow>
    (\<exists>e. w = Inl e \<and> is_permanent e) \<or> (\<exists>call. w = Inr (call\<lparr>ac_write := True\<rparr>))"
  by (auto simp: alipay_create_payment_def alipay_close_payment_def alipay_create_refund_def
      alipay_error_def Let_def intro!: exI [of _ "projr w"])

text \<open>
  An Alipay write is either refused for good before anything is sent, or sends one request;
  when the answer to it is lost its outcome is uncertain, and it is offered for a retry only
  when the gateway answered that it throttled the request.
\<close>

lemma alipay_write_outcome:
  assumes "w \<in> {alipay_create_payment now i, alipay_close_payment x, alipay_create_refund r}"
    "alipay_deliver sign now c ss w T sent = (sent', ref, err)"
  shows "sent' = sent \<and> (\<exists>e. err = Some e \<and> is_permanent e) \<or>
    (\<exists>q. sent' = sent @ [q] \<and> (case T sent q of
        Inl m \<Rightarrow> \<exists>e. err = Some e \<and> is_uncertain e
      | Inr a \<Rightarrow> \<forall>e. err = Some e \<longrightarrow> is_retryable e \<longrightarrow> resp_status a = 429))"
  using alipay_write_calls [OF assms(1)]
proof (elim disjE exE conjE)
  fix e assume "w = Inl e" "is_permanent e"
  then show ?thesis using assms(2) by (auto simp: alipay_deliver_def alipay_run_def delivered_def failed_def)
next
  fix call assume w: "w = Inr (call\<lparr>ac_write := True\<rparr>)"
  obtain s res where x: "alipay_execute sign now c ss (call\<lparr>ac_write := True\<rparr>) T sent = (s, res)"
    by (cases "alipay_execute sign now c ss (call\<lparr>ac_write := True\<rparr>) T sent")
  then have "s = sent'" "snd res = (ref, err)"
    using assms(2) w by (simp_all add: alipay_deliver_def alipay_run_def delivered_def)
  then show ?thesis
    using alipay_writes.outcome [OF x] by (fastforce simp: throttled_def split: sum.splits)
qed

section \<open>Signatures\<close>

lemma canonical_sorted:
  assumes "distinct (map fst q)"
  shows "canonical q ex = join ''&'' (map (\<lambda>k. k @ ''='' @ get_value q k)
    (sorted_list_of_set {k. get_value q k \<noteq> [] \<and> k \<notin> set ex}))"
proof -
  let ?ks = "filter (\<lambda>k. get_value q k \<noteq> []) (sort (filter (\<lambda>k. k \<notin> set ex) (map fst q)))"
  have mem: "k \<in> set (map fst q)" if "get_value q k \<noteq> []" for k
    using that by (auto simp: get_value_def get_or_def image_iff split: option.splits dest: map_of_SomeD)
      (metis fst_conv map_of_SomeD)
  have set: "{k. get_value q k \<noteq> [] \<and> k \<notin> set ex} = set ?ks" using mem by auto
  have "sorted ?ks" "distinct ?ks" using assms by (simp_all add: sorted_wrt_filter)
  then have "sorted_list_of_set (set ?ks) = ?ks" by (rule sorted_list_of_set.idem_if_sorted_distinct)
  then show ?thesis unfolding set by (simp only: canonical_def)
qed

lemma canonical_cong:
  assumes "distinct (map fst p)" "distinct (map fst q)"
    "\<And>k. k \<notin> set ex \<Longrightarrow> get_value p k = get_value q k" "\<And>k. k \<in> set ex \<Longrightarrow> get_value q k = []"
  shows "canonical p ex = canonical q []"
proof -
  have set: "{k. get_value p k \<noteq> [] \<and> k \<notin> set ex} = {k. get_value q k \<noteq> [] \<and> k \<notin> set []}"
  proof (rule Collect_cong)
    fix k show "(get_value p k \<noteq> [] \<and> k \<notin> set ex) = (get_value q k \<noteq> [] \<and> k \<notin> set [])"
      using assms(3,4) [of k] by (cases "k \<in> set ex") simp_all
  qed
  have fin: "finite {k. get_value q k \<noteq> [] \<and> k \<notin> set []}"
    by (rule finite_subset [of _ "set (map fst q)"])
      (auto simp: get_value_def get_or_def image_iff split: option.splits dest: map_of_SomeD, metis fst_conv map_of_SomeD)
  have "k @ ''='' @ get_value p k = k @ ''='' @ get_value q k"
    if "k \<in> set (sorted_list_of_set {k. get_value q k \<noteq> [] \<and> k \<notin> set []})" for k
    using that fin assms(3,4) [of k] by auto
  then show ?thesis
    unfolding canonical_sorted [OF assms(1)] canonical_sorted [OF assms(2)] set
    by (intro arg_cong [of _ _ "join ''&''"] map_cong refl) auto
qed

text \<open>The form the gateway receives: the transport adds the secret values to the body.\<close>

definition gateway_form :: "http_request \<Rightarrow> url_values" where
  "gateway_form q = fold (\<lambda>(k, v). put k [v]) (req_secret_form q) (parse_query (req_body q))"

lemma alipay_plan_request:
  assumes "alipay_plan sign now c ss call = Inr q"
  obtains biz f s where "sign (secret ss ''merchant_private_key'') = Some f"
    "f (canonical (alipay_values now c call biz) []) = Some s"
    "req_body q = encode_values (alipay_values now c call biz)"
    "req_secret_form q = [(''sign'', base64_std s)]"
  using assms by (auto simp: alipay_plan_def plain_request_def Let_def split: option.splits)

text \<open>
  C25: the signature that travels with a gateway call is the one of the text the gateway
  rebuilds from the form it receives, so a call with the merchant's key passes its check.
\<close>
theorem alipay_signature_matches:
  assumes "alipay_execute sign now c ss call T sent = (sent @ [q], res)"
  shows "\<exists>f s. sign (secret ss ''merchant_private_key'') = Some f
    \<and> f (canonical (gateway_form q) [''sign'']) = Some s
    \<and> unbase64_std (get_value (gateway_form q) ''sign'') = Some s"
proof -
  have "alipay_plan sign now c ss call = Inr q"
    using assms by (auto simp: alipay_execute_def run_plan_def split: sum.splits)
  then obtain biz f s where p: "sign (secret ss ''merchant_private_key'') = Some f"
    "f (canonical (alipay_values now c call biz) []) = Some s"
    "req_body q = encode_values (alipay_values now c call biz)"
    "req_secret_form q = [(''sign'', base64_std s)]" by (rule alipay_plan_request)
  let ?v = "alipay_values now c call biz"
  have d: "distinct (map fst ?v)" by (simp add: alipay_values_def)
  have form: "gateway_form q = put ''sign'' [base64_std s] (parse_query (encode_values ?v))"
    by (simp add: gateway_form_def p)
  have "canonical (gateway_form q) [''sign''] = canonical ?v []"
    unfolding form
    by (rule canonical_cong) (auto simp: d distinct_put distinct_parse_query get_value_parse_encode,
        simp add: alipay_values_def get_value_def get_or_def)
  then show ?thesis using p(1,2) by (simp add: form unbase64_base64_std)
qed

definition alipay_sample :: connection where
  "alipay_sample = base_connection\<lparr>config := [(''app_id'', VStr ''a''), (''notify_url'', VStr ''n'')]\<rparr>"

lemma alipay_sample_valid: "alipay_validate alipay_sample = None"
  by code_simp

theorem alipay_signature_matches_witness:
  "\<exists>q res. alipay_execute (\<lambda>k. Some (\<lambda>m. Some m)) 0 alipay_sample [] alipay_probe dead_http [] = ([q], res)
    \<and> unbase64_std (get_value (gateway_form q) ''sign'') = Some (canonical (gateway_form q) [''sign''])"
proof -
  have "marshal (VObj (ac_biz alipay_probe)) \<noteq> None" by (rule marshal_total) (simp add: alipay_probe_def)
  then obtain q where "alipay_plan (\<lambda>k. Some (\<lambda>m. Some m)) 0 alipay_sample [] alipay_probe = Inr q"
    by (auto simp: alipay_plan_def alipay_sample_valid Let_def simp del: marshal.simps)
  then obtain res where x: "alipay_execute (\<lambda>k. Some (\<lambda>m. Some m)) 0 alipay_sample [] alipay_probe dead_http []
      = ([] @ [q], res)"
    by (simp add: alipay_execute_def run_plan_def)
  from alipay_signature_matches [OF x] show ?thesis using x by (auto simp del: split_paired_Ex)
qed

section \<open>The webhook verifier\<close>

text \<open>What Alipay's documentation asks of a notification.\<close>

definition alipay_authentic :: "checker \<Rightarrow> webhook_request \<Rightarrow> bool" where
  "alipay_authentic check r \<longleftrightarrow> (\<exists>q f s. parse_query_strict (wh_body r) = Some q
     \<and> get_value q ''sign'' \<noteq> [] \<and> to_upper (get_value q ''sign_type'') \<in> {[], ''RSA2''}
     \<and> check (secret (wh_secrets r) ''platform_public_key'') = Some f
     \<and> unbase64_std (get_value q ''sign'') = Some s
     \<and> f (canonical q [''sign'', ''sign_type'']) s
     \<and> config_text (wh_connection r) ''app_id'' \<in> {[], get_value q ''app_id''})"

definition alipay_named :: "webhook_request \<Rightarrow> bool" where
  "alipay_named r \<longleftrightarrow> (case parse_query_strict (wh_body r) of None \<Rightarrow> False
     | Some q \<Rightarrow> trim_space (get_value q ''out_trade_no'') \<noteq> [] \<and> trim_space (get_value q ''trade_status'') \<noteq> [])"

interpretation alipay_hooks: webhook_verifier "alipay_verify check" "alipay_authentic check" alipay_named
  for check
proof (unfold_locales, goal_cases)
  case (1 r) show ?case
    by (auto simp: alipay_verify_def alipay_authentic_def alipay_named_def Let_def split: option.splits)
next
  case (2 r v) then show ?case
    by (auto simp: alipay_verify_def alipay_event_def identified_def plain_event_def Let_def
        split: option.splits if_splits)
next
  case (3 r) then show ?case
    by (simp add: alipay_verify_def alipay_error_def Let_def split: option.split)
next
  case (4 r m) then show ?case by (simp add: alipay_verify_def)
qed

end
