(* ===== verification/WechatPay.thy ===== *)
theory WechatPay
  imports Payments
begin

text \<open>
  The WeChat Pay provider (\<^verbatim>\<open>providers/payment/wechat_pay\<close>): validation, the signed call, the
  operations and the webhook verifier. The clock, the random bytes, RSA and AES-GCM are
  parameters; opening a sealed text panics in Go on a nonce of the wrong length, which the
  model returns as a value.
\<close>

section \<open>Configuration\<close>

definition wechat_error :: "string \<Rightarrow> string \<Rightarrow> gerr" where
  "wechat_error code msg = Permanent (''wechat_pay.'' @ code) (Msg msg)"

definition wechat_base :: "connection \<Rightarrow> string" where
  "wechat_base c = config_default c ''base_url'' ''https://api.mch.weixin.qq.com''"

definition wechat_validate :: "connection \<Rightarrow> gerr option" where
  "wechat_validate c =
     (if \<not> gateway_ok (wechat_base c)
      then Some (wechat_error ''base_url_invalid'' ''HTTPS or loopback HTTP base URL is required'')
      else (case find (\<lambda>k. config_text c k = [])
          [''app_id'', ''merchant_id'', ''merchant_serial_no'', ''notify_url''] of
        Some k \<Rightarrow> Some (wechat_error (k @ ''_required'') (k @ '' is required''))
      | None \<Rightarrow>
          if \<not> timeout_ok c then Some (wechat_error ''timeout_invalid'' ''timeout_seconds is invalid'')
          else None))"

definition wechat_currency :: "connection \<Rightarrow> string \<Rightarrow> string" where
  "wechat_currency c input = (let v = to_upper (trim_space input) in
     if v = [] then to_upper (config_default c ''currency'' ''CNY'') else v)"

section \<open>Numbers of an answer\<close>

text \<open>A float64 counts when it is a whole number that an int64 holds.\<close>

fun whole_f64 :: "f64 \<Rightarrow> int option" where
  "whole_f64 (Fin m e) = (if m = 0 then Some 0
     else if e < 0 then None
     else if int64 (m * 10 ^ nat e) then Some (m * 10 ^ nat e) else None)"
| "whole_f64 _ = None"

fun member_int :: "val \<Rightarrow> int option" where
  "member_int (VInt i) = Some i"
| "member_int (VFloat f) = whole_f64 f"
| "member_int (VNum s) = Some (fst (parse_int64 s))"
| "member_int _ = None"

fun first_int :: "obj \<Rightarrow> string list \<Rightarrow> int" where
  "first_int m [] = 0"
| "first_int m (k # ks) = (case member_int (at m k) of Some i \<Rightarrow> i | None \<Rightarrow> first_int m ks)"

section \<open>The signed call\<close>

record wechat_call =
  wc_operation :: string
  wc_order :: string
  wc_refund :: string
  wc_method :: string
  wc_path :: string
  wc_body :: "obj option"
  wc_write :: bool

definition wechat_normalize :: "string \<Rightarrow> string \<Rightarrow> string \<Rightarrow> obj \<Rightarrow> obj" where
  "wechat_normalize op order refund m =
     (let order' = (if order = [] then obj_string m ''out_trade_no'' else order);
          refund' = (if refund = [] then obj_string m ''out_refund_no'' else refund);
          s0 = first_string m [''trade_state'', ''status''];
          s1 = (if s0 = [] \<and> op = ''create_native_payment_order'' then ''NOTPAY'' else s0);
          status = (if s1 = [] \<and> op = ''close_payment_order'' then ''CLOSED'' else s1);
          r = put_text ''paid_at'' (obj_string m ''success_time'')
            (put_text ''status'' (to_lower status)
            (put_text ''code_url'' (obj_string m ''code_url'')
            (put_text ''provider_refund_no'' (obj_string m ''refund_id'')
            (put_text ''provider_order_no'' (obj_string m ''transaction_id'')
            (put_text ''merchant_refund_no'' refund'
            (put_text ''merchant_order_no'' order' []))))));
          amount = at m ''amount''; total = first_int (as_obj amount) [''total'', ''payer_total'', ''refund''] in
      if is_obj amount then
        put_text ''currency'' (obj_string (as_obj amount) ''currency'')
          (if total > 0 then put ''amount_minor'' (VInt total) r else r)
      else r)"

definition wechat_message :: "string \<Rightarrow> string \<Rightarrow> string \<Rightarrow> string \<Rightarrow> string \<Rightarrow> string" where
  "wechat_message mth pth timestamp nonce body =
     mth @ [CHR 0x0A] @ pth @ [CHR 0x0A] @ timestamp @ [CHR 0x0A] @ nonce @ [CHR 0x0A] @ body @ [CHR 0x0A]"

definition wechat_authorization :: "connection \<Rightarrow> string \<Rightarrow> string \<Rightarrow> string \<Rightarrow> string" where
  "wechat_authorization c nonce timestamp signature =
     (let q = [CHR 0x22] in
      ''WECHATPAY2-SHA256-RSA2048 mchid='' @ q @ config_text c ''merchant_id'' @ q
      @ '',nonce_str='' @ q @ nonce @ q @ '',timestamp='' @ q @ timestamp @ q
      @ '',serial_no='' @ q @ config_text c ''merchant_serial_no'' @ q
      @ '',signature='' @ q @ base64_std signature @ q)"

definition wechat_plan ::
  "signer \<Rightarrow> int \<Rightarrow> string option \<Rightarrow> connection \<Rightarrow> secrets \<Rightarrow> wechat_call \<Rightarrow> typed + http_request" where
  "wechat_plan sign now random c ss call =
     (case wechat_validate c of Some e \<Rightarrow> Inl (failed e) | None \<Rightarrow>
     (case (case wc_body call of None \<Rightarrow> Some [] | Some m \<Rightarrow> marshal (VObj m)) of
        None \<Rightarrow> Inl (failed (wechat_error ''request_invalid'' ''request is invalid''))
      | Some body \<Rightarrow>
     (case sign (secret ss ''merchant_private_key'') of
        None \<Rightarrow> Inl (failed (wechat_error ''private_key_invalid'' ''merchant private key is invalid''))
      | Some f \<Rightarrow> (case random of
        None \<Rightarrow> Inl (failed (wechat_error ''nonce_failed'' ''nonce generation failed''))
      | Some bytes \<Rightarrow>
     (let timestamp = itoa (now div nanos); nonce = base64url bytes in
      case f (wechat_message (wc_method call) (wc_path call) timestamp nonce body) of
        None \<Rightarrow> Inl (failed (wechat_error ''sign_failed'' ''request signing failed''))
      | Some signature \<Rightarrow> Inr ((plain_request (wc_method call)
            (trim_right_char (CHR ''/'') (wechat_base c) @ wc_path call)
            ((''Accept'', [''application/json''])
              # (if wc_method call \<noteq> ''GET'' then [(''Content-Type'', [''application/json''])] else []))
            body)
          \<lparr>req_secret_headers := [(''Authorization'', [wechat_authorization c nonce timestamp signature])],
           req_max := 4194304\<rparr>))))))"

definition wechat_read :: "wechat_call \<Rightarrow> string + http_response \<Rightarrow> typed" where
  "wechat_read call answer = (case answer of
     Inl m \<Rightarrow> failed (failure (wc_write call) ''wechat_pay.network_error'' (TransportErr m))
   | Inr resp \<Rightarrow>
     (let n = resp_status resp; ref = ''http:'' @ itoa n;
          decoded = (if resp_body resp = [] then Some (VObj []) else decode_map (resp_body resp));
          payload = (case decoded of None \<Rightarrow> VObj [] | Some v \<Rightarrow> v); m = as_obj payload;
          code = (if obj_string m ''code'' = [] then ''http_'' @ itoa n else obj_string m ''code'');
          cause = Msg (''WeChat Pay returned HTTP '' @ itoa n) in
      if \<not> ok_status n then
        (payload, ref, Some
          (if n = 429 then Retryable (''wechat_pay.'' @ code) cause
           else if n \<ge> 500 then failure (wc_write call) (''wechat_pay.'' @ code) cause
           else Permanent (''wechat_pay.'' @ code) cause))
      else if decoded = None then (VNil, ref, Some (failure (wc_write call) ''wechat_pay.response_invalid''
        (Msg ''WeChat Pay response is invalid JSON'')))
      else (let rid = first_string m [''out_trade_no'', ''out_refund_no'', ''transaction_id'', ''refund_id''] in
        (VObj (wechat_normalize (wc_operation call) (wc_order call) (wc_refund call) m),
         (if rid \<noteq> [] then ''wechat_pay:'' @ rid
          else if wc_order call \<noteq> [] then ''wechat_pay:'' @ wc_order call
          else if wc_refund call \<noteq> [] then ''wechat_pay:'' @ wc_refund call else ref), None))))"

definition wechat_execute ::
  "signer \<Rightarrow> int \<Rightarrow> string option \<Rightarrow> connection \<Rightarrow> secrets \<Rightarrow> wechat_call \<Rightarrow> http \<Rightarrow> http_request list
    \<Rightarrow> http_request list \<times> typed" where
  "wechat_execute sign now random c ss call =
     run_plan (wechat_plan sign now random c ss call) (wechat_read call)"

section \<open>Operations\<close>

record wx_order =
  wx_order_no :: string
  wx_amount_minor :: int
  wx_subject :: string
  wx_expires_at :: string
  wx_currency :: string

record wx_refund =
  wxr_order_no :: string
  wxr_refund_no :: string
  wxr_refund_minor :: int
  wxr_total_minor :: int
  wxr_reason :: string
  wxr_currency :: string

definition wechat_create_payment :: "connection \<Rightarrow> wx_order \<Rightarrow> wechat_call res" where
  "wechat_create_payment c i =
     (if trim_space (wx_order_no i) = [] \<or> trim_space (wx_subject i) = [] \<or> wx_amount_minor i \<le> 0
      then Inl (wechat_error ''payment_fields_required''
        ''merchant_order_no, subject and positive amount are required'')
      else Inr \<lparr>wc_operation = ''create_native_payment_order'', wc_order = wx_order_no i, wc_refund = [],
        wc_method = ''POST'', wc_path = ''/v3/pay/transactions/native'',
        wc_body = Some (put_text ''time_expire'' (wx_expires_at i)
          [(''appid'', VStr (config_text c ''app_id'')), (''mchid'', VStr (config_text c ''merchant_id'')),
           (''description'', VStr (wx_subject i)), (''out_trade_no'', VStr (wx_order_no i)),
           (''notify_url'', VStr (config_text c ''notify_url'')),
           (''amount'', VObj [(''total'', VInt (wx_amount_minor i)),
              (''currency'', VStr (wechat_currency c (wx_currency i)))])]),
        wc_write = True\<rparr>)"

definition wechat_close_payment :: "connection \<Rightarrow> string \<Rightarrow> wechat_call res" where
  "wechat_close_payment c order = (let x = trim_space order in
     if x = [] then Inl (wechat_error ''merchant_order_no_required'' ''merchant_order_no is required'')
     else Inr \<lparr>wc_operation = ''close_payment_order'', wc_order = x, wc_refund = [], wc_method = ''POST'',
       wc_path = ''/v3/pay/transactions/out-trade-no/'' @ path_escape x @ ''/close'',
       wc_body = Some [(''mchid'', VStr (config_text c ''merchant_id''))], wc_write = True\<rparr>)"

definition wechat_create_refund :: "connection \<Rightarrow> wx_refund \<Rightarrow> wechat_call res" where
  "wechat_create_refund c i =
     (if trim_space (wxr_order_no i) = [] \<or> trim_space (wxr_refund_no i) = []
         \<or> wxr_refund_minor i \<le> 0 \<or> wxr_total_minor i \<le> 0 \<or> wxr_refund_minor i > wxr_total_minor i
      then Inl (wechat_error ''refund_fields_invalid'' ''refund fields and amounts are invalid'')
      else Inr \<lparr>wc_operation = ''create_payment_refund'', wc_order = wxr_order_no i,
        wc_refund = wxr_refund_no i, wc_method = ''POST'', wc_path = ''/v3/refund/domestic/refunds'',
        wc_body = Some (put_text ''notify_url'' (config_text c ''refund_notify_url'')
          [(''out_trade_no'', VStr (wxr_order_no i)), (''out_refund_no'', VStr (wxr_refund_no i)),
           (''reason'', VStr (wxr_reason i)),
           (''amount'', VObj [(''refund'', VInt (wxr_refund_minor i)), (''total'', VInt (wxr_total_minor i)),
              (''currency'', VStr (wechat_currency c (wxr_currency i)))])]),
        wc_write = True\<rparr>)"

definition wechat_order_path :: "connection \<Rightarrow> string \<Rightarrow> string" where
  "wechat_order_path c escaped = ''/v3/pay/transactions/out-trade-no/'' @ escaped
     @ ''?mchid='' @ query_escape (config_text c ''merchant_id'')"



definition wechat_run ::
  "signer \<Rightarrow> int \<Rightarrow> string option \<Rightarrow> connection \<Rightarrow> secrets \<Rightarrow> wechat_call res \<Rightarrow> http \<Rightarrow> http_request list
    \<Rightarrow> http_request list \<times> typed" where
  "wechat_run sign now random c ss call T sent = (case call of
     Inl e \<Rightarrow> (sent, failed e) | Inr x \<Rightarrow> wechat_execute sign now random c ss x T sent)"

definition wechat_deliver ::
  "signer \<Rightarrow> int \<Rightarrow> string option \<Rightarrow> connection \<Rightarrow> secrets \<Rightarrow> wechat_call res \<Rightarrow> http \<Rightarrow> http_request list
    \<Rightarrow> http_request list \<times> string \<times> gerr option" where
  "wechat_deliver sign now random c ss call T sent =
     (case wechat_run sign now random c ss call T sent of (sent', r) \<Rightarrow> (sent', delivered r))"

definition wechat_probe :: "connection \<Rightarrow> wechat_call" where
  "wechat_probe c = \<lparr>wc_operation = ''query_payment_order'', wc_order = ''domainry-connection-probe'',
     wc_refund = [], wc_method = ''GET'', wc_path = wechat_order_path c ''domainry-connection-probe'',
     wc_body = None, wc_write = False\<rparr>"

definition wechat_test ::
  "signer \<Rightarrow> int \<Rightarrow> string option \<Rightarrow> connection \<Rightarrow> secrets \<Rightarrow> http \<Rightarrow> http_request list
    \<Rightarrow> http_request list \<times> typed" where
  "wechat_test sign now random c ss T sent =
     (case wechat_execute sign now random c ss (wechat_probe c) T sent of
        (sent', r) \<Rightarrow> (sent', case Option.bind (typed_err r) err_code of
            Some code \<Rightarrow> if contains_str (to_upper code) ''ORDER_NOT_EXIST''
              then (VObj [(''connected'', VBool True)], ''wechat_pay:connected'', None) else r
          | None \<Rightarrow> r))"

definition wechat_test_connection ::
  "signer \<Rightarrow> int \<Rightarrow> string option \<Rightarrow> connection \<Rightarrow> secrets \<Rightarrow> http \<Rightarrow> http_request list
    \<Rightarrow> http_request list \<times> string res" where
  "wechat_test_connection sign now random c ss T sent = (case wechat_test sign now random c ss T sent of
     (sent', out, ref, Some e) \<Rightarrow> (sent', Inl e)
   | (sent', out, ref, None) \<Rightarrow> (sent', Inr (marshal_or [] out)))"

section \<open>Webhooks\<close>

record wechat_envelope =
  env_id :: string
  env_type :: string
  env_algorithm :: string
  env_ciphertext :: string
  env_nonce :: string
  env_associated :: string

definition decode_envelope :: "string \<Rightarrow> wechat_envelope option" where
  "decode_envelope body =
     Option.bind (json_parse body) (\<lambda>j.
     Option.bind (json_members_of j) (\<lambda>kvs.
     Option.bind (field_str ''id'' kvs) (\<lambda>i.
     Option.bind (field_str ''event_type'' kvs) (\<lambda>ty.
     Option.bind (nested_members (field_vals ''resource'' kvs)) (\<lambda>rs.
     Option.bind (field_str ''algorithm'' rs) (\<lambda>alg.
     Option.bind (field_str ''ciphertext'' rs) (\<lambda>ct.
     Option.bind (field_str ''nonce'' rs) (\<lambda>n.
     Option.bind (field_str ''associated_data'' rs) (\<lambda>ad.
       Some \<lparr>env_id = i, env_type = ty, env_algorithm = alg, env_ciphertext = ct, env_nonce = n,
         env_associated = ad\<rparr>)))))))))"

text \<open>
  \<open>gcm.Open\<close> with a key, nonce, sealed text and associated data. The outcome of \<open>decrypt\<close> is
  \<open>None\<close> for the panic on a nonce that is not 12 bytes long.
\<close>

type_synonym aead = "string \<Rightarrow> string \<Rightarrow> string \<Rightarrow> string \<Rightarrow> string option"

definition wechat_decrypt :: "aead \<Rightarrow> string \<Rightarrow> wechat_envelope \<Rightarrow> string option option" where
  "wechat_decrypt aead key env =
     (if length key \<noteq> 32 then Some None
      else (case unbase64_std (env_ciphertext env) of
        None \<Rightarrow> Some None
      | Some sealed \<Rightarrow> if length (env_nonce env) \<noteq> 12 then None
          else Some (aead key (env_nonce env) sealed (env_associated env))))"

definition wechat_summary :: "obj \<Rightarrow> string \<Rightarrow> string \<Rightarrow> obj" where
  "wechat_summary m ty digest =
     (let amount = as_obj (at m ''amount'');
          paid = first_int amount [''payer_total'', ''total''];
          refunded = first_int amount [''refund'', ''payer_refund''];
          r = [(''event_type'', VStr (trim_space ty)), (''merchant_order_no'', VStr (obj_string m ''out_trade_no'')),
            (''merchant_refund_no'', VStr (obj_string m ''out_refund_no'')),
            (''provider_transaction_id'', VStr (obj_string m ''transaction_id'')),
            (''provider_refund_id'', VStr (obj_string m ''refund_id'')),
            (''provider_status'', VStr (first_string m [''trade_state'', ''refund_status''])),
            (''currency'', VStr (obj_string amount ''currency'')),
            (''occurred_at'', VStr (obj_string m ''success_time'')), (''callback_digest'', VStr digest)];
          r1 = (if paid \<ge> 0 then put ''paid_amount'' (VStr (minor_amount_text paid)) r else r) in
      if refunded > 0 then put ''refunded_amount'' (VStr (minor_amount_text refunded)) r1 else r1)"

definition wechat_receipt :: "obj \<Rightarrow> string \<Rightarrow> delivery_receipt option" where
  "wechat_receipt m order =
     (let status = to_upper (first_string m [''trade_state'', ''refund_status'']) in
      if status = ''SUCCESS''
      then Some \<lparr>receipt_ref = ''wechat_pay:'' @ order, receipt_status = ''delivered'', receipt_error = [],
        receipt_time = parse_rfc3339 (obj_string m ''success_time'')\<rparr>
      else if status \<in> set [''CLOSED'', ''REVOKED'', ''PAYERROR'', ''ABNORMAL'']
      then Some \<lparr>receipt_ref = ''wechat_pay:'' @ order, receipt_status = ''failed'',
        receipt_error = to_lower status, receipt_time = None\<rparr>
      else None)"

text \<open>Whether the decrypted payment belongs to the configured application.\<close>

definition wechat_app_ok :: "connection \<Rightarrow> string \<Rightarrow> obj \<Rightarrow> bool" where
  "wechat_app_ok c ty m =
     (let app = config_text c ''app_id''; callback = obj_string m ''appid'' in
      \<not> (app = [] \<or> (callback \<noteq> [] \<and> callback \<noteq> app)
         \<or> (has_prefix (to_upper ty) ''TRANSACTION.'' \<and> callback \<noteq> app)))"

definition wechat_order_of :: "obj \<Rightarrow> string" where
  "wechat_order_of m = first_string m [''out_trade_no'', ''out_refund_no'']"

definition wechat_event :: "webhook_request \<Rightarrow> wechat_envelope \<Rightarrow> int \<Rightarrow> obj \<Rightarrow> verified_webhook" where
  "wechat_event r env seconds m =
     (let payload = put ''_payment''
            (VObj (wechat_summary m (env_type env) (hex_encode (sha256 (wh_body r))))) m;
          order = wechat_order_of payload in
      (plain_event (env_type env) (env_id env) (marshal_or [] (VObj payload)))
        \<lparr>event_security := Some \<lparr>signature_verified = True,
           evidence_nonce = header_value (wh_headers r) ''Wechatpay-Nonce'',
           evidence_device = header_value (wh_headers r) ''Wechatpay-Serial'',
           evidence_time = Some (seconds * nanos)\<rparr>,
         event_identity := Some \<lparr>subject = order, subject_type = ''merchant_order'',
           subject_name = [], subject_group = []\<rparr>,
         event_receipt := wechat_receipt payload order\<rparr>)"

text \<open>Reading an authentic body; the outer \<open>None\<close> is the panic.\<close>

definition wechat_open ::
  "aead \<Rightarrow> webhook_request \<Rightarrow> int \<Rightarrow> verified_webhook res option" where
  "wechat_open aead r seconds =
     (let bad = Some (Inl (wechat_error ''webhook_payload_invalid'' ''webhook envelope is invalid'')) in
      case decode_envelope (wh_body r) of None \<Rightarrow> bad
      | Some env \<Rightarrow>
          if env_id env = [] \<or> env_type env = [] \<or> env_algorithm env \<noteq> ''AEAD_AES_256_GCM'' then bad
          else (case wechat_decrypt aead (secret (wh_secrets r) ''api_v3_key'') env of
            None \<Rightarrow> None
          | Some None \<Rightarrow> Some (Inl (wechat_error ''webhook_decrypt_failed''
              ''webhook resource cannot be decrypted''))
          | Some (Some plain) \<Rightarrow> (case decode_map plain of
              None \<Rightarrow> Some (Inl (wechat_error ''webhook_payload_invalid'' ''webhook payload is invalid''))
            | Some v \<Rightarrow>
               (let m = as_obj v; mch = config_text (wh_connection r) ''merchant_id'' in
                if mch = [] \<or> obj_string m ''mchid'' \<noteq> mch
                then Some (Inl (wechat_error ''webhook_merchant_id_mismatch'' ''merchant ID does not match''))
                else if \<not> wechat_app_ok (wh_connection r) (env_type env) m
                then Some (Inl (wechat_error ''webhook_app_id_mismatch'' ''app ID does not match''))
                else if wechat_order_of m = []
                then Some (Inl (wechat_error ''webhook_identity_missing'' ''payment identity is missing''))
                else Some (Inr (wechat_event r env seconds m))))))"

definition wechat_verify :: "checker \<Rightarrow> aead \<Rightarrow> webhook_request \<Rightarrow> verified_webhook res option" where
  "wechat_verify check aead r = (case wh_context r of Some m \<Rightarrow> Some (Inl (Plain m)) | None \<Rightarrow>
     (let h = header_value (wh_headers r); timestamp = h ''Wechatpay-Timestamp'';
          nonce = h ''Wechatpay-Nonce''; signature = h ''Wechatpay-Signature'' in
      case parse_int64 timestamp of (seconds, ok) \<Rightarrow>
      if \<not> ok \<or> nonce = [] \<or> signature = [] \<or> h ''Wechatpay-Serial'' = []
      then Some (Inl (wechat_error ''webhook_signature_invalid'' ''signature headers are invalid''))
      else if \<not> within_tolerance (received_at r) seconds
          (wrap64 (int_value (at (config (wh_connection r)) ''webhook_tolerance_seconds'') 300 * nanos))
      then Some (Inl (wechat_error ''webhook_timestamp_out_of_range''
        ''webhook timestamp is outside tolerance''))
      else (case check (secret (wh_secrets r) ''platform_public_key'') of
        None \<Rightarrow> Some (Inl (wechat_error ''platform_key_invalid'' ''platform key is invalid''))
      | Some f \<Rightarrow> (case unbase64_std signature of
        None \<Rightarrow> Some (Inl (wechat_error ''webhook_signature_invalid'' ''signature is invalid''))
      | Some s \<Rightarrow>
          if \<not> f (timestamp @ [CHR 0x0A] @ nonce @ [CHR 0x0A] @ wh_body r @ [CHR 0x0A]) s
          then Some (Inl (wechat_error ''webhook_signature_invalid'' ''signature does not match''))
          else wechat_open aead r seconds))))"

section \<open>Writes\<close>

lemma wechat_plan_permanent:
  "wechat_plan sign now random c ss call = Inl x \<Longrightarrow> \<exists>e. typed_err x = Some e \<and> is_permanent e"
  by (auto simp: wechat_plan_def wechat_validate_def wechat_error_def Let_def
      split: option.splits if_splits)

lemma wechat_read_cautious:
  "wc_write call \<Longrightarrow> typed_err (wechat_read call a) = Some e \<Longrightarrow> is_retryable e
    \<Longrightarrow> \<exists>r. a = Inr r \<and> throttled (resp_status r)"
  by (cases a) (auto simp: wechat_read_def Let_def throttled_def split: if_splits option.splits)

interpretation wechat_writes: cautious_write
  "wechat_execute sign now random c ss (call\<lparr>wc_write := True\<rparr>)"
  "wechat_plan sign now random c ss (call\<lparr>wc_write := True\<rparr>)"
  "wechat_read (call\<lparr>wc_write := True\<rparr>)" typed_err throttled
  for sign now random c ss call
proof (unfold_locales, goal_cases)
  case (1 T sent) show ?case by (simp add: wechat_execute_def)
next
  case (2 a e) then show ?case using wechat_read_cautious [of "call\<lparr>wc_write := True\<rparr>"] by simp
next
  case (3 x) then show ?case by (rule wechat_plan_permanent)
next
  case (4 m) show ?case by (simp add: wechat_read_def)
qed

lemma wechat_write_calls:
  "w \<in> {wechat_create_payment c i, wechat_close_payment c x, wechat_create_refund c r} \<Longrightarrow>
    (\<exists>e. w = Inl e \<and> is_permanent e) \<or> (\<exists>call. w = Inr (call\<lparr>wc_write := True\<rparr>))"
  by (auto simp: wechat_create_payment_def wechat_close_payment_def wechat_create_refund_def
      wechat_error_def Let_def intro!: exI [of _ "projr w"])

text \<open>
  A WeChat Pay write is either refused for good before anything is sent, or sends one
  request; when the answer to it is lost its outcome is uncertain, and it is offered for a
  retry only when the gateway answered that it throttled the request.
\<close>

lemma wechat_write_outcome:
  assumes "w \<in> {wechat_create_payment c i, wechat_close_payment c x, wechat_create_refund c r}"
    "wechat_deliver sign now random c ss w T sent = (sent', ref, err)"
  shows "sent' = sent \<and> (\<exists>e. err = Some e \<and> is_permanent e) \<or>
    (\<exists>q. sent' = sent @ [q] \<and> (case T sent q of
        Inl m \<Rightarrow> \<exists>e. err = Some e \<and> is_uncertain e
      | Inr a \<Rightarrow> \<forall>e. err = Some e \<longrightarrow> is_retryable e \<longrightarrow> resp_status a = 429))"
  using wechat_write_calls [OF assms(1)]
proof (elim disjE exE conjE)
  fix e assume "w = Inl e" "is_permanent e"
  then show ?thesis using assms(2) by (auto simp: wechat_deliver_def wechat_run_def delivered_def failed_def)
next
  fix call assume w: "w = Inr (call\<lparr>wc_write := True\<rparr>)"
  obtain s res where x: "wechat_execute sign now random c ss (call\<lparr>wc_write := True\<rparr>) T sent = (s, res)"
    by (cases "wechat_execute sign now random c ss (call\<lparr>wc_write := True\<rparr>) T sent")
  then have "s = sent'" "snd res = (ref, err)"
    using assms(2) w by (simp_all add: wechat_deliver_def wechat_run_def delivered_def)
  then show ?thesis
    using wechat_writes.outcome [OF x] by (fastforce simp: throttled_def split: sum.splits)
qed

section \<open>Signed messages\<close>











text \<open>Every request carries the signature of exactly its method, the path after the base address, and its body.\<close>

lemma wechat_signature_covers:
  assumes "wechat_execute sign now random c ss call T sent = (sent @ [q], res)"
  shows "\<exists>f bytes s. sign (secret ss ''merchant_private_key'') = Some f \<and> random = Some bytes
    \<and> req_url q = trim_right_char (CHR ''/'') (wechat_base c) @ wc_path call
    \<and> f (wechat_message (req_method q) (wc_path call) (itoa (now div nanos)) (base64url bytes) (req_body q)) = Some s
    \<and> req_secret_headers q
      = [(''Authorization'', [wechat_authorization c (base64url bytes) (itoa (now div nanos)) s])]"
proof -
  have "wechat_plan sign now random c ss call = Inr q"
    using assms by (auto simp: wechat_execute_def run_plan_def split: sum.splits)
  then show ?thesis
    by (auto simp: wechat_plan_def plain_request_def Let_def split: option.splits)
qed

section \<open>The webhook verifier\<close>

text \<open>What WeChat Pay's documentation asks of a notification, and of what it seals.\<close>

definition wechat_authentic :: "checker \<Rightarrow> webhook_request \<Rightarrow> bool" where
  "wechat_authentic check r \<longleftrightarrow>
     (let h = header_value (wh_headers r) in
      \<exists>seconds f s. parse_int64 (h ''Wechatpay-Timestamp'') = (seconds, True)
       \<and> h ''Wechatpay-Nonce'' \<noteq> [] \<and> h ''Wechatpay-Signature'' \<noteq> [] \<and> h ''Wechatpay-Serial'' \<noteq> []
       \<and> within_tolerance (received_at r) seconds
          (wrap64 (int_value (at (config (wh_connection r)) ''webhook_tolerance_seconds'') 300 * nanos))
       \<and> check (secret (wh_secrets r) ''platform_public_key'') = Some f
       \<and> unbase64_std (h ''Wechatpay-Signature'') = Some s
       \<and> f (h ''Wechatpay-Timestamp'' @ [CHR 0x0A] @ h ''Wechatpay-Nonce'' @ [CHR 0x0A]
            @ wh_body r @ [CHR 0x0A]) s)"

definition wechat_sealed :: "webhook_request \<Rightarrow> wechat_envelope \<Rightarrow> bool" where
  "wechat_sealed r env \<longleftrightarrow> decode_envelope (wh_body r) = Some env \<and> env_id env \<noteq> [] \<and> env_type env \<noteq> []
     \<and> env_algorithm env = ''AEAD_AES_256_GCM''"

definition wechat_genuine :: "aead \<Rightarrow> webhook_request \<Rightarrow> bool" where
  "wechat_genuine aead r \<longleftrightarrow> (\<exists>env plain v. wechat_sealed r env
     \<and> wechat_decrypt aead (secret (wh_secrets r) ''api_v3_key'') env = Some (Some plain)
     \<and> decode_map plain = Some v
     \<and> config_text (wh_connection r) ''merchant_id'' \<noteq> []
     \<and> obj_string (as_obj v) ''mchid'' = config_text (wh_connection r) ''merchant_id''
     \<and> wechat_app_ok (wh_connection r) (env_type env) (as_obj v)
     \<and> wechat_order_of (as_obj v) \<noteq> [])"

lemma wechat_verify_authentic:
  "wh_context r = None \<Longrightarrow> wechat_authentic check r \<Longrightarrow>
    \<exists>seconds. wechat_verify check aead r = wechat_open aead r seconds"
  by (auto simp: wechat_authentic_def wechat_verify_def Let_def)

lemma wechat_verify_not_authentic:
  "wh_context r = None \<Longrightarrow> \<not> wechat_authentic check r \<Longrightarrow>
    \<exists>e. wechat_verify check aead r = Some (Inl e) \<and> is_permanent e"
  by (auto simp: wechat_authentic_def wechat_verify_def wechat_error_def Let_def
      split: option.splits prod.splits if_splits)

lemma wechat_open_verdict:
  "case wechat_open aead r seconds of
     None \<Rightarrow> \<exists>env. wechat_sealed r env \<and> length (env_nonce env) \<noteq> 12
   | Some (Inl e) \<Rightarrow> is_permanent e \<and> \<not> wechat_genuine aead r
   | Some (Inr v) \<Rightarrow> wechat_genuine aead r \<and> identified v"
  by (auto simp: wechat_open_def wechat_sealed_def wechat_genuine_def wechat_error_def wechat_decrypt_def
      identified_def wechat_event_def plain_event_def Let_def split: option.splits if_splits sum.splits)

text \<open>
  C28: a WeChat Pay notification is let through only when it is signed in time by the platform,
  its sealed part opens under the merchant's key and names the merchant, the application and
  an order; other ones are refused for good. The verifier panics only on an authentic envelope
  whose nonce is not 12 bytes long.
\<close>
theorem wechat_webhook_verdict:
  assumes "wh_context r = None"
  shows "case wechat_verify check aead r of
     None \<Rightarrow> wechat_authentic check r \<and> (\<exists>env. wechat_sealed r env \<and> length (env_nonce env) \<noteq> 12)
   | Some (Inl e) \<Rightarrow> is_permanent e \<and> \<not> (wechat_authentic check r \<and> wechat_genuine aead r)
   | Some (Inr v) \<Rightarrow> wechat_authentic check r \<and> wechat_genuine aead r \<and> identified v"
proof (cases "wechat_authentic check r")
  case True
  then obtain seconds where "wechat_verify check aead r = wechat_open aead r seconds"
    using wechat_verify_authentic [OF assms True, where aead = aead] by blast
  then show ?thesis
    using True wechat_open_verdict [where aead = aead and r = r and seconds = seconds] by (simp split: option.splits sum.splits)
next
  case False
  then show ?thesis using wechat_verify_not_authentic [OF assms False, where aead = aead] by auto
qed

definition wechat_sample_webhook :: webhook_request where
  "wechat_sample_webhook = \<lparr>wh_context = None, wh_connection = base_connection, wh_secrets = [],
     wh_headers = [], wh_query = [], wh_body = [], wh_received = None, wh_now = 0\<rparr>"

theorem wechat_webhook_verdict_witness:
  "case wechat_verify (\<lambda>k. None) (\<lambda>k n s a. None) wechat_sample_webhook of
     Some (Inl e) \<Rightarrow> is_permanent e | _ \<Rightarrow> False"
proof -
  have "\<not> wechat_authentic (\<lambda>k. None) wechat_sample_webhook" by (simp add: wechat_authentic_def Let_def)
  then show ?thesis
    using wechat_webhook_verdict [of wechat_sample_webhook "\<lambda>k. None" "\<lambda>k n s a. None"]
    by (simp add: wechat_sample_webhook_def split: option.splits sum.splits)
qed

end
