(* ===== verification/GoHost.thy ===== *)
theory GoHost
  imports GoUrl
begin

text \<open>
  Where the host of a parsed URL comes from. A provider that accepts a bare domain because it
  parses as the whole host of \<open>https://domain\<close> may put paths behind it: the URL so built still
  has exactly that host.
\<close>

lemma unescape_length: "unescape md s = Some t \<Longrightarrow> length t \<le> length s"
proof (induction md s arbitrary: t rule: unescape.induct)
  case (2 md c s)
  show ?case
  proof (cases "c = CHR ''%''")
    case True
    then show ?thesis using 2 by (fastforce split: list.splits option.splits if_splits simp: Let_def)
  next
    case False
    then show ?thesis using 2 by (fastforce split: option.splits if_splits simp: Let_def)
  qed
qed simp

lemma unescape_literal_length: "unescape_literal h = Some t \<Longrightarrow> length t \<le> length h"
proof (cases "index_of ''%25'' h")
  case None
  then show "unescape_literal h = Some t \<Longrightarrow> length t \<le> length h"
    by (simp add: unescape_literal_def unescape_length)
next
  case (Some i)
  assume "unescape_literal h = Some t"
  then obtain a z where "unescape EncHost (take i h) = Some a" "unescape EncZone (drop i h) = Some z" "t = a @ z"
    using Some by (auto simp: unescape_literal_def split: option.splits)
  then have "length a \<le> length (take i h)" "length z \<le> length (drop i h)" "t = a @ z"
    by (simp_all only: unescape_length)
  moreover have "length (take i h) + length (drop i h) = length h"
    by (metis append_take_drop_id length_append)
  ultimately show "length t \<le> length h" by (simp only: length_append)
qed

lemma cut_last_Some: "cut_last c s = Some (a, b) \<Longrightarrow> s = a @ [c] @ b"
proof -
  assume "cut_last c s = Some (a, b)"
  then have m: "c \<in> set s" and a: "a = rev (drop 1 (dropWhile ((\<noteq>) c) (rev s)))"
    and b: "b = rev (takeWhile ((\<noteq>) c) (rev s))"
    by (auto simp: cut_last_def split: if_splits)
  from m have "dropWhile ((\<noteq>) c) (rev s) = c # drop 1 (dropWhile ((\<noteq>) c) (rev s))"
    by (metis (mono_tags, lifting) drop0 drop_Suc_Cons dropWhile_eq_Nil_conv hd_dropWhile list.exhaust_sel
        One_nat_def set_rev)
  then have "rev s = takeWhile ((\<noteq>) c) (rev s) @ c # drop 1 (dropWhile ((\<noteq>) c) (rev s))"
    by (metis takeWhile_dropWhile_id)
  then show "s = a @ [c] @ b" unfolding a b by (metis append.assoc append_Cons append_Nil rev.simps(2) rev_append rev_rev_ident)
qed

lemma parse_host_length: "parse_host sch h = Some t \<Longrightarrow> length t \<le> length h"
proof (cases "cut_last (CHR ''['') h")
  case None
  then show "parse_host sch h = Some t \<Longrightarrow> length t \<le> length h"
    by (auto simp: parse_host_def unescape_length split: if_splits)
next
  case (Some pr)
  obtain pre rest where pr: "pr = (pre, rest)" by (cases pr)
  assume "parse_host sch h = Some t"
  then obtain lit port a where *: "pre = []" "cut_last (CHR '']'') rest = Some (lit, port)"
    "unescape_literal lit = Some a" "t = ''['' @ a @ '']'' @ port"
    using Some by (auto simp: parse_host_def pr split: if_splits option.splits)
  have "h = ''['' @ rest" using cut_last_Some [OF Some [unfolded pr]] *(1) by simp
  moreover have "rest = lit @ '']'' @ port" using cut_last_Some [OF *(2)] by simp
  ultimately show "length t \<le> length h" using *(4) unescape_literal_length [OF *(3)] by simp
qed

lemma parse_authority_host:
  "parse_authority sch a = Some (us, h) \<Longrightarrow>
    us = None \<and> length h \<le> length a \<or> us \<noteq> None \<and> length h < length a"
  by (fastforce simp: parse_authority_def split: option.splits
      dest!: cut_last_Some dest: parse_host_length)

section \<open>A domain that is its own host\<close>

definition url_plain :: "char \<Rightarrow> bool" where
  "url_plain c \<longleftrightarrow> c \<noteq> CHR ''#'' \<and> c \<noteq> CHR ''?'' \<and> \<not> (of_char c :: nat) < 32 \<and> (of_char c :: nat) \<noteq> 127"

definition whole_host :: "string \<Rightarrow> string \<Rightarrow> bool" where
  "whole_host sch d \<longleftrightarrow> list_all url_plain d \<and> CHR ''/'' \<notin> set d \<and> parse_authority sch d = Some (None, d)"

lemma get_scheme_web:
  "get_scheme (''https://'' @ s) = Some (''https'', ''//'' @ s)"
  "get_scheme (''http://'' @ s) = Some (''http'', ''//'' @ s)"
  by (simp_all add: get_scheme_def is_alnum_def is_alpha_def)

lemma takeWhile_none: "takeWhile ((\<noteq>) c) s = s \<Longrightarrow> c \<notin> set s"
  unfolding takeWhile_eq_all_conv by auto

lemma cut_none: "c \<notin> set s \<Longrightarrow> cut c s = (s, [])"
  unfolding cut_def by (induction s) auto

lemma split_query_plain: "CHR ''?'' \<notin> set s \<Longrightarrow> split_query s u = (s, u\<lparr>raw_query := []\<rparr>)"
proof -
  assume q: "CHR ''?'' \<notin> set s"
  then have "\<not> has_suffix s ''?''" unfolding has_suffix_def suffix_def by auto
  then show ?thesis using cut_none [OF q] by (simp add: split_query_def)
qed

lemma web_schemes: "sch \<in> {''http'', ''https''} \<Longrightarrow> get_scheme (sch @ ''://'' @ s) = Some (sch, ''//'' @ s) \<and> to_lower sch = sch \<and> sch \<noteq> []"
  using get_scheme_web [of s] by (auto simp: to_lower_def lower_char_def)

lemma takeWhile_length_all: "length xs \<le> length (takeWhile P xs) \<Longrightarrow> takeWhile P xs = xs"
  by (metis dual_order.antisym length_takeWhile_le takeWhile_eq_take take_all)

lemma split_query_rest:
  "fst (split_query s u) = takeWhile ((\<noteq>) (CHR ''?'')) s" "scheme (snd (split_query s u)) = scheme u"
proof -
  have tw: "butlast s = takeWhile ((\<noteq>) (CHR ''?'')) s"
    if "has_suffix s ''?''" "CHR ''?'' \<notin> set (butlast s)"
  proof -
    from that(1) obtain t where t: "s = t @ ''?''" unfolding has_suffix_def suffix_def by blast
    then have "takeWhile ((\<noteq>) (CHR ''?'')) t = t"
      using that(2) unfolding t takeWhile_eq_all_conv by auto
    then show ?thesis using t by (simp add: takeWhile_append)
  qed
  show "fst (split_query s u) = takeWhile ((\<noteq>) (CHR ''?'')) s"
  proof (cases "has_suffix s ''?'' \<and> CHR ''?'' \<notin> set (butlast s)")
    case True
    then have "fst (split_query s u) = butlast s" by (simp only: split_query_def if_True simp_thms fst_conv)
    then show ?thesis using tw True by simp
  next
    case False
    then show ?thesis by (simp only: split_query_def if_False cut_def prod.case fst_conv)
  qed
  show "scheme (snd (split_query s u)) = scheme u" by (simp add: split_query_def cut_def)
qed

lemma url_parse_web:
  assumes "cut (CHR ''#'') raw = (t, frag)" "t \<noteq> ''*''" "get_scheme t = Some (sch, rest)"
    "to_lower sch = sch" "split_query rest (empty_url\<lparr>scheme := sch\<rparr>) = (r, v)"
  shows "url_parse raw =
    (if list_ex (\<lambda>c. (of_char c :: nat) < 32 \<or> (of_char c :: nat) = 127) t then None
     else (case parse_rest r v of None \<Rightarrow> None
       | Some w \<Rightarrow> if frag = [] then Some w else set_fragment frag w))"
  by (simp only: url_parse_def assms prod.case option.case if_False refl)

lemma parse_rest_web:
  "scheme v = sch \<Longrightarrow> sch \<noteq> [] \<Longrightarrow> parse_rest (''//'' @ d) v =
     (case parse_authority sch (takeWhile ((\<noteq>) (CHR ''/'')) d) of
        None \<Rightarrow> None
      | Some (us, h) \<Rightarrow> set_path (dropWhile ((\<noteq>) (CHR ''/'')) d) (v\<lparr>user := us, host := h\<rparr>))"
  by (simp add: parse_rest_def has_prefix_def)

lemma set_path_host: "set_path p u = Some w \<Longrightarrow> host w = host u \<and> user w = user u \<and> scheme w = scheme u"
  by (auto simp: set_path_def split: option.splits)

text \<open>A domain that parses as the whole host of its URL has nothing but a host in it.\<close>

lemma url_parse_domain:
  assumes sch: "sch \<in> {''http'', ''https''}" and p: "url_parse (sch @ ''://'' @ d) = Some u" "host u = d"
  shows "whole_host sch d"
proof -
  let ?s = "takeWhile ((\<noteq>) (CHR ''#'')) (sch @ ''://'' @ d)"
  let ?d = "takeWhile ((\<noteq>) (CHR ''#'')) d"
  let ?e = "takeWhile ((\<noteq>) (CHR ''?'')) ?d"
  let ?a = "takeWhile ((\<noteq>) (CHR ''/'')) ?e"
  have s: "?s = sch @ ''://'' @ ?d" using sch by auto
  have ns: "?s \<noteq> ''*''" using sch by (auto simp: s)
  obtain r v where sq: "split_query (''//'' @ ?d) (empty_url\<lparr>scheme := sch\<rparr>) = (r, v)"
    by (cases "split_query (''//'' @ ?d) (empty_url\<lparr>scheme := sch\<rparr>)")
  obtain t frag where c: "cut (CHR ''#'') (sch @ ''://'' @ d) = (t, frag)" and t: "t = ?s"
    by (simp add: cut_def)
  have gs: "get_scheme t = Some (sch, ''//'' @ ?d)" "to_lower sch = sch"
    using web_schemes [OF sch, of ?d] unfolding t s by simp_all
  have "url_parse (sch @ ''://'' @ d) =
      (if list_ex (\<lambda>c. (of_char c :: nat) < 32 \<or> (of_char c :: nat) = 127) t then None
       else (case parse_rest r v of None \<Rightarrow> None
         | Some w \<Rightarrow> if frag = [] then Some w else set_fragment frag w))"
    by (rule url_parse_web [OF c _ gs sq]) (use ns in \<open>simp only: t not_False_eq_True\<close>)
  then obtain w where w: "parse_rest r v = Some w" "host u = host w"
    and ctl: "\<not> list_ex (\<lambda>c. (of_char c :: nat) < 32 \<or> (of_char c :: nat) = 127) ?s"
    using p(1) by (auto simp: t set_fragment_def split: if_splits option.splits)
  have r: "r = ''//'' @ ?e" and v: "scheme v = sch"
    using split_query_rest [of "''//'' @ ?d" "empty_url\<lparr>scheme := sch\<rparr>"] sq by simp_all
  obtain us where a: "parse_authority sch ?a = Some (us, d)"
    using w p(2) parse_rest_web [OF v, of ?e] web_schemes [OF sch] unfolding r
    by (auto split: option.splits dest: set_path_host)
  have len: "length d \<le> length ?a" using parse_authority_host [OF a] by auto
  have le: "length ?a \<le> length ?e" "length ?e \<le> length ?d" "length ?d \<le> length d"
    by (rule length_takeWhile_le)+
  have d: "?d = d" using len le by (intro takeWhile_length_all) linarith
  then have e: "?e = d" using len le by (metis order_trans takeWhile_length_all)
  then have a': "?a = d" using len le by (metis takeWhile_length_all)
  have user_none: "us = None" using parse_authority_host [OF a] a' by auto
  have "CHR ''#'' \<notin> set d" "CHR ''?'' \<notin> set d" "CHR ''/'' \<notin> set d"
    using takeWhile_none [OF d] takeWhile_none [OF e [unfolded d]] takeWhile_none [OF a' [unfolded e]]
    by blast+
  moreover have "\<not> list_ex (\<lambda>c. (of_char c :: nat) < 32 \<or> (of_char c :: nat) = 127) d"
    using ctl unfolding s d by simp
  ultimately show ?thesis
    using a unfolding whole_host_def a' user_none
    by (auto simp: list_all_iff list_ex_iff url_plain_def)
qed

text \<open>A plain path behind such a domain leaves the host as it is.\<close>

definition plain_path :: "string \<Rightarrow> bool" where
  "plain_path p \<longleftrightarrow> list_all url_plain p \<and> CHR ''%'' \<notin> set p \<and> (p = [] \<or> hd p = CHR ''/'')"

lemma unescape_plain: "CHR ''%'' \<notin> set p \<Longrightarrow> unescape EncPath p = Some p"
  by (induction EncPath p rule: unescape.induct) (auto simp: Let_def)

lemma url_parse_under_domain:
  assumes sch: "sch \<in> {''http'', ''https''}" and d: "whole_host sch d" and p: "plain_path p"
  shows "\<exists>u. url_parse (sch @ ''://'' @ d @ p) = Some u \<and> host u = d \<and> scheme u = sch \<and> user u = None"
proof -
  have pl: "list_all url_plain (d @ p)" and slash: "CHR ''/'' \<notin> set d"
    and a: "parse_authority sch d = Some (None, d)"
    using d p by (auto simp: whole_host_def plain_path_def)
  have plc: "\<And>c. c \<in> set (d @ p) \<Longrightarrow> c \<noteq> CHR ''#'' \<and> c \<noteq> CHR ''?''
      \<and> \<not> ((of_char c :: nat) < 32 \<or> (of_char c :: nat) = 127)"
    using pl unfolding list_all_iff url_plain_def by blast
  have schc: "CHR ''#'' \<notin> set (sch @ ''://'')"
    "\<not> list_ex (\<lambda>c. (of_char c :: nat) < 32 \<or> (of_char c :: nat) = 127) (sch @ ''://'')"
    using sch by auto
  have eq: "sch @ ''://'' @ d @ p = (sch @ ''://'') @ d @ p" by simp
  have "CHR ''#'' \<notin> set (sch @ ''://'' @ d @ p)"
    unfolding eq set_append [of "sch @ ''://''"] using schc(1) plc by blast
  then have cut: "cut (CHR ''#'') (sch @ ''://'' @ d @ p) = (sch @ ''://'' @ d @ p, [])"
    by (rule cut_none)
  have ctl: "\<not> list_ex (\<lambda>c. (of_char c :: nat) < 32 \<or> (of_char c :: nat) = 127) (sch @ ''://'' @ d @ p)"
    using schc(2) plc unfolding eq list_ex_iff set_append [of "sch @ ''://''"] by blast
  have ns: "sch @ ''://'' @ d @ p \<noteq> ''*''" using sch by auto
  have "CHR ''?'' \<notin> set (d @ p)" using plc by blast
  then have "CHR ''?'' \<notin> set (''//'' @ d @ p)" by simp
  then have sq: "split_query (''//'' @ d @ p) (empty_url\<lparr>scheme := sch\<rparr>)
      = (''//'' @ d @ p, (empty_url\<lparr>scheme := sch\<rparr>)\<lparr>raw_query := []\<rparr>)" by (rule split_query_plain)
  have tw: "takeWhile ((\<noteq>) (CHR ''/'')) (d @ p) = d" "dropWhile ((\<noteq>) (CHR ''/'')) (d @ p) = p"
    using slash p by (cases p; auto simp: plain_path_def takeWhile_append dropWhile_append)+
  have un: "unescape EncPath p = Some p" using p by (intro unescape_plain) (simp add: plain_path_def)
  have "parse_rest (''//'' @ d @ p) ((empty_url\<lparr>scheme := sch\<rparr>)\<lparr>raw_query := []\<rparr>)
      = set_path p ((empty_url\<lparr>scheme := sch, raw_query := []\<rparr>)\<lparr>user := None, host := d\<rparr>)"
    using web_schemes [OF sch] a by (subst parse_rest_web [where sch = sch]) (simp_all add: tw)
  moreover have gs: "get_scheme (sch @ ''://'' @ d @ p) = Some (sch, ''//'' @ d @ p)" "to_lower sch = sch"
    using web_schemes [OF sch, of "d @ p"] by simp_all
  note parsed = url_parse_web [OF cut ns gs sq]
  ultimately show ?thesis
    using ctl unfolding parsed by (simp add: set_path_def un)
qed

text \<open>Only PostgreSQL URLs read their hosts in another way.\<close>

lemma whole_host_web: "whole_host ''https'' d = whole_host ''http'' d"
proof -
  have eq: "parse_host ''https'' h = parse_host ''http'' h" for h
    by (cases "cut_last (CHR ''['') h") (simp_all add: parse_host_def)
  show ?thesis unfolding whole_host_def parse_authority_def eq ..
qed

text \<open>The name of such a host ends at its port.\<close>

lemma hostname_whole:
  assumes "whole_host ''https'' (host u)" "\<not> has_prefix (host u) ''[''"
  shows "hostname u = takeWhile ((\<noteq>) (CHR '':'')) (host u)"
proof -
  let ?d = "host u"
  have at: "cut_last (CHR ''@'') ?d = None" and p: "parse_host ''https'' ?d = Some ?d"
    using assms(1) by (auto simp: whole_host_def parse_authority_def split: option.splits)
  have br: "cut_last (CHR ''['') ?d = None"
  proof (cases "cut_last (CHR ''['') ?d")
    case (Some pr)
    obtain pre rest where pr: "pr = (pre, rest)" by (cases pr)
    have "pre = []" using p Some by (auto simp: parse_host_def pr split: if_splits)
    then have "?d = ''['' @ rest" using cut_last_Some [OF Some [unfolded pr]] by simp
    then show ?thesis using assms(2) by (simp add: has_prefix_def)
  qed
  have "strip_port ?d = takeWhile ((\<noteq>) (CHR '':'')) ?d"
  proof (cases "CHR '':'' \<in> set ?d")
    case True
    then have "valid_port (dropWhile ((\<noteq>) (CHR '':'')) ?d)"
      using p br by (auto simp: parse_host_def split: if_splits)
    moreover have "dropWhile ((\<noteq>) (CHR '':'')) ?d \<noteq> []" using True by (auto simp: dropWhile_eq_Nil_conv)
    ultimately obtain ds where ds: "dropWhile ((\<noteq>) (CHR '':'')) ?d = CHR '':'' # ds" "list_all is_digit ds"
      by (cases "dropWhile ((\<noteq>) (CHR '':'')) ?d") (auto simp: valid_port_def)
    let ?a = "takeWhile ((\<noteq>) (CHR '':'')) ?d"
    have d: "?d = ?a @ CHR '':'' # ds" using ds(1) by (metis takeWhile_dropWhile_id)
    have no: "CHR '':'' \<notin> set ds" using ds(2) by (auto simp: list_all_iff is_digit_def)
    have "takeWhile ((\<noteq>) (CHR '':'')) (rev ds @ CHR '':'' # rev ?a) = rev ds"
      "dropWhile ((\<noteq>) (CHR '':'')) (rev ds @ CHR '':'' # rev ?a) = CHR '':'' # rev ?a"
      using no by (simp_all add: takeWhile_append dropWhile_append takeWhile_eq_all_conv)
    then have "cut_last (CHR '':'') (?a @ CHR '':'' # ds) = Some (?a, ds)"
      unfolding cut_last_def by simp
    then show ?thesis using d ds(2) by (simp add: strip_port_def)
  next
    case False
    then have tw: "takeWhile ((\<noteq>) (CHR '':'')) ?d = ?d"
      unfolding takeWhile_eq_all_conv by auto
    show ?thesis unfolding tw using False by (simp add: strip_port_def cut_last_def)
  qed
  moreover have "\<not> has_prefix (takeWhile ((\<noteq>) (CHR '':'')) ?d) ''[''"
    using assms(2) by (cases ?d) (auto simp: has_prefix_def)
  ultimately show ?thesis by (simp add: hostname_def Let_def)
qed

end
