(* ===== verification/Shopify.thy ===== *)
theory Shopify
  imports Webhook Base64 GoHost Payments
begin

text \<open>
  The Shopify protocol (\<^verbatim>\<open>internal/shopify\<close>) and its two providers
  (\<^verbatim>\<open>providers/ecommerce/shopify\<close>, \<^verbatim>\<open>providers/logistics/shopify_fulfillment\<close>): shop domains,
  GraphQL calls, and webhooks signed with the app secret.
\<close>

section \<open>The protocol\<close>

record shop_config =
  shop_domain :: string
  shop_version :: string

definition version_pattern :: "string \<Rightarrow> bool" where
  "version_pattern s \<longleftrightarrow> length s = 7 \<and> list_all is_digit (take 4 s) \<and> s ! 4 = CHR ''-''
     \<and> drop 5 s \<in> set [''01'', ''02'', ''03'', ''04'', ''05'', ''06'', ''07'', ''08'', ''09'', ''10'', ''11'', ''12'']"

definition api_version :: "shop_config \<Rightarrow> string" where
  "api_version g = (if trim_space (shop_version g) = [] then ''2026-04'' else trim_space (shop_version g))"

text \<open>The text of the error, if there is one.\<close>

definition shop_validate :: "shop_config \<Rightarrow> string option" where
  "shop_validate g = (let d = to_lower (trim_space (shop_domain g)) in
     case url_parse (''https://'' @ d) of
       None \<Rightarrow> Some ''valid Shopify shop domain is required''
     | Some u \<Rightarrow>
         if host u = [] \<or> user u \<noteq> None \<or> path u \<noteq> [] \<or> raw_query u \<noteq> [] \<or> fragment u \<noteq> [] \<or> host u \<noteq> d
         then Some ''valid Shopify shop domain is required''
         else if \<not> has_suffix (hostname u) ''.myshopify.com'' \<and> \<not> is_loopback (hostname u)
         then Some ''myshopify.com shop domain or loopback host is required''
         else if \<not> version_pattern (api_version g) then Some ''Shopify API version must use YYYY-MM''
         else None)"

definition shop_endpoint :: "shop_config \<Rightarrow> string" where
  "shop_endpoint g =
     (if is_loopback (hd (split_on (CHR '':'') (trim_space (shop_domain g)))) then ''http'' else ''https'')
     @ ''://'' @ to_lower (trim_space (shop_domain g)) @ ''/admin/api/'' @ api_version g @ ''/graphql.json''"

definition shop_plan :: "shop_config \<Rightarrow> string \<Rightarrow> string \<Rightarrow> val \<Rightarrow> typed + http_request" where
  "shop_plan g token query variables =
     (case shop_validate g of Some m \<Rightarrow> Inl (failed (Permanent ''shopify.endpoint_invalid'' (Msg m)))
      | None \<Rightarrow>
     (if trim_space token = [] then Inl (failed (Permanent ''shopify.access_token_required''
        (Msg ''resolved Shopify access token is required'')))
      else (case marshal (VObj [(''query'', VStr query), (''variables'', variables)]) of
        None \<Rightarrow> Inl (failed (Permanent ''shopify.request_invalid'' DecodeErr))
      | Some raw \<Rightarrow> Inr ((plain_request ''POST'' (shop_endpoint g)
          [(''Accept'', [''application/json'']), (''Content-Type'', [''application/json''])] raw)
        \<lparr>req_secret_headers := [(''X-Shopify-Access-Token'', [trim_space token])], req_max := 4194304\<rparr>))))"

definition shop_read :: "bool \<Rightarrow> string + http_response \<Rightarrow> typed" where
  "shop_read write answer = (case answer of
     Inl m \<Rightarrow> failed (failure write ''shopify.network_error'' (TransportErr m))
   | Inr resp \<Rightarrow>
     (let n = resp_status resp; ref = ''http:'' @ itoa n;
          decoded = (if resp_body resp = [] then Some (VObj []) else decode_map (resp_body resp));
          payload = (case decoded of None \<Rightarrow> VObj [] | Some v \<Rightarrow> v);
          cause = Msg (''Shopify returned HTTP '' @ itoa n); code = ''shopify.http_'' @ itoa n in
      if \<not> ok_status n then (payload, ref, Some
        (if n = 429 then Retryable code cause
         else if n = 408 \<or> n \<ge> 500 then failure write code cause
         else Permanent code cause))
      else if decoded = None then (VNil, ref, Some
        ((if write then Uncertain else Permanent) ''shopify.response_invalid''
          (Msg ''Shopify response is invalid JSON'')))
      else if as_arr (at (as_obj payload) ''errors'') \<noteq> [] then (payload, ref, Some
        (Permanent ''shopify.graphql_error'' (Msg ''Shopify rejected the GraphQL operation'')))
      else (payload, ref, None)))"

definition shop_execute ::
  "shop_config \<Rightarrow> string \<Rightarrow> string \<Rightarrow> val \<Rightarrow> bool \<Rightarrow> http \<Rightarrow> http_request list \<Rightarrow> http_request list \<times> typed" where
  "shop_execute g token query variables write =
     run_plan (shop_plan g token query variables) (shop_read write)"

definition shop_gid :: "string \<Rightarrow> string \<Rightarrow> string" where
  "shop_gid kind v = (let s = trim_space v in
     if has_prefix s ''gid://shopify/'' then s else ''gid://shopify/'' @ kind @ ''/'' @ s)"

definition id_from_gid :: "string \<Rightarrow> string" where
  "id_from_gid v = last (split_on (CHR ''/'') (trim_space v))"

section \<open>Webhooks of the protocol\<close>

record shop_webhook =
  hook_topic :: string
  hook_delivery :: string
  hook_domain :: string
  hook_payload :: val
  hook_raw :: string

definition shop_hook :: "webhook_request \<Rightarrow> shop_webhook res" where
  "shop_hook r = (case wh_context r of Some m \<Rightarrow> Inl (Plain m) | None \<Rightarrow>
     (let sec = trim_space (secret (wh_secrets r) ''webhook_secret''); h = header_trimmed (wh_headers r) in
      if sec = [] then Inl (Permanent ''shopify.webhook_secret_required''
        (Msg ''resolved Shopify webhook secret is required''))
      else if base64_std (hmac sha256 sec (wh_body r)) \<noteq> h ''X-Shopify-Hmac-Sha256''
      then Inl (Permanent ''shopify.webhook_signature_invalid''
        (Msg ''Shopify webhook signature does not match''))
      else (case decode_map (wh_body r) of
        None \<Rightarrow> Inl (Permanent ''shopify.webhook_payload_invalid''
          (Msg ''Shopify webhook payload is invalid JSON''))
      | Some v \<Rightarrow> (let topic = to_lower (h ''X-Shopify-Topic'') in
          if topic = [] then Inl (Permanent ''shopify.webhook_identity_missing''
            (Msg ''Shopify webhook topic is missing''))
          else Inr \<lparr>hook_topic = topic, hook_delivery = h ''X-Shopify-Webhook-Id'',
            hook_domain = to_lower (h ''X-Shopify-Shop-Domain''), hook_payload = v, hook_raw = wh_body r\<rparr>))))"

definition shop_event :: "shop_webhook \<Rightarrow> string \<Rightarrow> verified_webhook" where
  "shop_event e eid = (plain_event (map (\<lambda>c. if c = CHR ''/'' then CHR ''.'' else c) (hook_topic e)) eid (hook_raw e))
     \<lparr>event_security := signed_at None,
      event_identity := identity_of (hook_domain e) ''shopify_shop'' [] []\<rparr>"

section \<open>The ecommerce provider\<close>

definition protocol_config :: "connection \<Rightarrow> shop_config" where
  "protocol_config c = \<lparr>shop_domain = config_text c ''shop_domain'', shop_version = config_text c ''api_version''\<rparr>"

definition nullable :: "string \<Rightarrow> val" where
  "nullable s = (if trim_space s = [] then VNil else VStr s)"

text \<open>\<open>fmt.Sscan\<close> of a number reads its sign and its first digits.\<close>

definition scan_int :: "string \<Rightarrow> int option" where
  "scan_int s = (let neg = has_prefix s ''-''; ds = takeWhile is_digit (if neg then tl s else s) in
     case parse_int64 ((if neg then ''-'' else []) @ ds) of (n, ok) \<Rightarrow> if ok then Some n else None)"

fun shop_int :: "val \<Rightarrow> int \<Rightarrow> int" where
  "shop_int (VInt i) d = i"
| "shop_int (VFloat f) d = f64_trunc f"
| "shop_int (VNum s) d = (case scan_int s of Some i \<Rightarrow> i | None \<Rightarrow> d)"
| "shop_int _ d = d"

definition shopify_validate :: "connection \<Rightarrow> gerr option" where
  "shopify_validate c = (case shop_validate (protocol_config c) of
     Some m \<Rightarrow> Some (Permanent ''shopify.endpoint_invalid'' (Msg m))
   | None \<Rightarrow> (let t = shop_int (at (config c) ''timeout_seconds'') 30 in
       if t < 1 \<or> t > 120 then Some (Permanent ''shopify.timeout_invalid''
         (Msg ''timeout_seconds must be between 1 and 120'')) else None))"

record shop_list_input =
  page_size :: int
  page_limit :: int
  page_cursor :: string
  page_query :: string

definition page_count :: "int \<Rightarrow> int \<Rightarrow> int" where
  "page_count n limit = (if n > 0 then n else if limit > 0 then limit else 50)"

definition products_query :: string where
  "products_query = ''query Products($first:Int!,$after:String,$query:String){products(first:$first,after:$after,query:$query){nodes{id title handle status updatedAt variants(first:100){nodes{id sku price inventoryQuantity}}}pageInfo{hasNextPage endCursor}}}''"

definition orders_query :: string where
  "orders_query = ''query Orders($first:Int!,$after:String,$query:String){orders(first:$first,after:$after,query:$query){nodes{id name createdAt updatedAt displayFinancialStatus displayFulfillmentStatus totalPriceSet{shopMoney{amount currencyCode}} customer{id email}}pageInfo{hasNextPage endCursor}}}''"

definition customers_query :: string where
  "customers_query = ''query Customers($first:Int!,$after:String,$query:String){customers(first:$first,after:$after,query:$query){nodes{id displayName email phone createdAt updatedAt numberOfOrders amountSpent{amount currencyCode}}pageInfo{hasNextPage endCursor}}}''"

definition shopify_list ::
  "string \<Rightarrow> connection \<Rightarrow> secrets \<Rightarrow> shop_list_input \<Rightarrow> http \<Rightarrow> http_request list \<Rightarrow> http_request list \<times> typed" where
  "shopify_list query c ss i = shop_execute (protocol_config c) (secret ss ''access_token'') query
     (VObj [(''first'', VInt (page_count (page_size i) (page_limit i))), (''after'', nullable (page_cursor i)),
       (''query'', nullable (page_query i))]) False"

definition shopify_test ::
  "connection \<Rightarrow> secrets \<Rightarrow> http \<Rightarrow> http_request list \<Rightarrow> http_request list \<times> typed" where
  "shopify_test c ss T sent =
     (case shop_execute (protocol_config c) (secret ss ''access_token'')
        ''query Shop { shop { id name myshopifyDomain currencyCode } }'' VNil False T sent of
      (sent', payload, ref, err) \<Rightarrow>
        (sent', payload,
         (if err \<noteq> None then ref
          else (case as_str (at (as_obj (at (as_obj (at (as_obj payload) ''data'')) ''shop'')) ''id'') of
            None \<Rightarrow> ref | Some s \<Rightarrow> if s = [] then ref else ''shopify:shop:'' @ id_from_gid s)), err))"

definition shop_test_connection :: "http_request list \<times> typed \<Rightarrow> http_request list \<times> string res" where
  "shop_test_connection r = (case r of
     (sent', out, ref, Some e) \<Rightarrow> (sent', Inl e)
   | (sent', out, ref, None) \<Rightarrow> (sent', Inr (marshal_or [] out)))"

definition shopify_verify :: "webhook_request \<Rightarrow> verified_webhook res" where
  "shopify_verify r = (case shop_hook r of Inl e \<Rightarrow> Inl e
   | Inr e \<Rightarrow> if hook_delivery e = [] then Inl (Permanent ''shopify.webhook_identity_missing''
       (Msg ''Shopify webhook ID is missing'')) else Inr (shop_event e (hook_delivery e)))"

section \<open>The fulfillment provider\<close>

definition ful_error :: "string \<Rightarrow> string \<Rightarrow> gerr" where
  "ful_error code msg = Permanent (''shopify_fulfillment.'' @ code) (Msg msg)"

fun ful_int :: "val \<Rightarrow> int \<Rightarrow> int" where
  "ful_int (VInt i) d = i"
| "ful_int (VFloat f) d = f64_trunc f"
| "ful_int _ d = d"

definition ful_validate :: "connection \<Rightarrow> gerr option" where
  "ful_validate c = (case shop_validate (protocol_config c) of
     Some m \<Rightarrow> Some (ful_error ''endpoint_invalid'' m)
   | None \<Rightarrow> (let t = ful_int (at (config c) ''timeout_seconds'') 30 in
       if t < 1 \<or> t > 120 then Some (ful_error ''timeout_invalid''
         ''timeout_seconds must be between 1 and 120'') else None))"

definition mutations :: "string list" where
  "mutations = [''fulfillmentCreate'', ''fulfillmentTrackingInfoUpdate'', ''fulfillmentCancel'']"

definition mutation_of :: "obj \<Rightarrow> string \<Rightarrow> obj" where
  "mutation_of m k = as_obj (at (as_obj (at m ''data'')) k)"

definition user_error :: "obj \<Rightarrow> string" where
  "user_error m = (case find (\<lambda>k. as_arr (at (mutation_of m k) ''userErrors'') \<noteq> []) mutations of
     None \<Rightarrow> [] | Some k \<Rightarrow> sprint (hd (as_arr (at (mutation_of m k) ''userErrors''))))"

definition fulfillment_id :: "obj \<Rightarrow> string" where
  "fulfillment_id m = first_text (map (\<lambda>k.
     case as_str (at (as_obj (at (mutation_of m k) ''fulfillment'')) ''id'') of None \<Rightarrow> [] | Some s \<Rightarrow> s) mutations)"

definition ful_finish :: "typed \<Rightarrow> typed" where
  "ful_finish r = (case r of
     (payload, ref, Some e) \<Rightarrow> (payload, ref, Some e)
   | (payload, ref, None) \<Rightarrow>
       if user_error (as_obj payload) \<noteq> []
       then (payload, ref, Some (ful_error ''user_error'' (user_error (as_obj payload))))
       else (payload, (if fulfillment_id (as_obj payload) = [] then ref
               else ''shopify:'' @ id_from_gid (fulfillment_id (as_obj payload))), None))"

definition ful_execute ::
  "connection \<Rightarrow> secrets \<Rightarrow> string \<Rightarrow> val \<Rightarrow> bool \<Rightarrow> http \<Rightarrow> http_request list \<Rightarrow> http_request list \<times> typed" where
  "ful_execute c ss query variables write T sent =
     (case shop_execute (protocol_config c) (secret ss ''access_token'') query variables write T sent of
        (sent', r) \<Rightarrow> (sent', ful_finish r))"

datatype ful_input =
    ListOrders string int int string
  | CreateFulfillment "obj" string
  | UpdateTracking string "obj" "bool option"
  | CancelFulfillment string

definition list_mutation :: string where
  "list_mutation = ''query FulfillmentOrders($id:ID!,$first:Int!,$after:String){order(id:$id){id fulfillmentOrders(first:$first,after:$after){nodes{id status requestStatus fulfillAt assignedLocation{location{id name}} lineItems(first:100){nodes{id remainingQuantity totalQuantity}}} pageInfo{hasNextPage endCursor}}}}''"

definition create_mutation :: string where
  "create_mutation = ''mutation CreateFulfillment($fulfillment:FulfillmentInput!,$message:String){fulfillmentCreate(fulfillment:$fulfillment,message:$message){fulfillment{id status trackingInfo{company number url}} userErrors{field message}}}''"

definition update_mutation :: string where
  "update_mutation = ''mutation UpdateTracking($id:ID!,$trackingInfo:FulfillmentTrackingInput!,$notifyCustomer:Boolean){fulfillmentTrackingInfoUpdate(fulfillmentId:$id,trackingInfoInput:$trackingInfo,notifyCustomer:$notifyCustomer){fulfillment{id status trackingInfo{company number url}} userErrors{field message}}}''"

definition cancel_mutation :: string where
  "cancel_mutation = ''mutation CancelFulfillment($id:ID!){fulfillmentCancel(id:$id){fulfillment{id status} userErrors{field message}}}''"

text \<open>The query, the variables and whether it writes; or the refusal.\<close>

fun ful_request :: "ful_input \<Rightarrow> (string \<times> val \<times> bool) res" where
  "ful_request (ListOrders order psize limit cursor) =
     (if trim_space order = [] then Inl (ful_error ''order_id_required'' ''order_id is required'')
      else Inr (list_mutation, VObj [(''id'', VStr (shop_gid ''Order'' order)),
        (''first'', VInt (page_count psize limit)), (''after'', nullable cursor)], False))"
| "ful_request (CreateFulfillment m message) =
     (if at m ''lineItemsByFulfillmentOrder'' = VNil
      then Inl (ful_error ''fulfillment_input_required'' ''lineItemsByFulfillmentOrder is required'')
      else Inr (create_mutation, VObj [(''fulfillment'', VObj m), (''message'', nullable message)], True))"
| "ful_request (UpdateTracking x m notify) =
     (if trim_space x = [] \<or> m = []
      then Inl (ful_error ''tracking_fields_required'' ''fulfillment_id and tracking input are required'')
      else Inr (update_mutation, VObj [(''id'', VStr (shop_gid ''Fulfillment'' x)), (''trackingInfo'', VObj m),
        (''notifyCustomer'', (case notify of None \<Rightarrow> VNil | Some b \<Rightarrow> VBool b))], True))"
| "ful_request (CancelFulfillment x) =
     (if trim_space x = [] then Inl (ful_error ''fulfillment_id_required'' ''fulfillment_id is required'')
      else Inr (cancel_mutation, VObj [(''id'', VStr (shop_gid ''Fulfillment'' x))], True))"

definition ful_call ::
  "connection \<Rightarrow> secrets \<Rightarrow> ful_input \<Rightarrow> http \<Rightarrow> http_request list \<Rightarrow> http_request list \<times> typed" where
  "ful_call c ss i T sent = (case ful_request i of
     Inl e \<Rightarrow> (sent, failed e)
   | Inr (query, variables, write) \<Rightarrow> ful_execute c ss query variables write T sent)"

definition ful_test ::
  "connection \<Rightarrow> secrets \<Rightarrow> http \<Rightarrow> http_request list \<Rightarrow> http_request list \<times> typed" where
  "ful_test c ss = shop_execute (protocol_config c) (secret ss ''access_token'')
     ''query Shop { shop { id name myshopifyDomain } }'' VNil False"

text \<open>\<open>Sprintf("%.0f", x)\<close>, halves to even.\<close>

fun fmt_f0 :: "f64 \<Rightarrow> string" where
  "fmt_f0 (Fin m e) =
     (if e \<ge> 0 then itoa (m * 10 ^ nat e)
      else let p = 10 ^ nat (- e); a = \<bar>m\<bar> div p; r = 2 * (\<bar>m\<bar> mod p);
               n = (if r > p \<or> (r = p \<and> odd a) then a + 1 else a) in
        (if m < 0 then ''-'' else []) @ itoa n)"
| "fmt_f0 PosInf = ''+Inf''"
| "fmt_f0 NegInf = ''-Inf''"
| "fmt_f0 NaN = ''NaN''"

fun number_string :: "val \<Rightarrow> string" where
  "number_string (VStr s) = trim_space s"
| "number_string (VFloat f) = fmt_f0 f"
| "number_string _ = []"

definition ful_event_id :: "shop_webhook \<Rightarrow> string" where
  "ful_event_id e =
     (if hook_delivery e \<noteq> [] then hook_delivery e
      else let p = as_obj (hook_payload e); a = number_string (at p ''id'');
               b = (if a = [] then number_string (at p ''admin_graphql_api_id'') else a) in
        if has_prefix b ''gid://'' then id_from_gid b else b)"

definition ful_verify :: "webhook_request \<Rightarrow> verified_webhook res" where
  "ful_verify r = (case shop_hook r of Inl e \<Rightarrow> Inl e
   | Inr e \<Rightarrow> if ful_event_id e = [] then Inl (ful_error ''webhook_identity_missing''
       ''Shopify webhook identity is missing'') else Inr (shop_event e (ful_event_id e)))"

section \<open>Where the token goes\<close>

lemma version_plain:
  assumes "version_pattern v"
  shows "plain_path (''/admin/api/'' @ v @ ''/graphql.json'')"
proof -
  have "set v \<subseteq> set (take 4 v) \<union> {v ! 4} \<union> set (drop 5 v)"
    using assms by (subst id_take_nth_drop [of 4 v]) (auto simp: version_pattern_def)
  moreover have "set (drop 5 v) \<subseteq> set ''0123456789''" using assms by (auto simp: version_pattern_def)
  moreover have "c \<in> set (take 4 v) \<Longrightarrow> is_digit c" for c
    using assms by (auto simp: version_pattern_def list_all_iff)
  moreover have "is_digit c \<Longrightarrow> url_plain c \<and> c \<noteq> CHR ''%''" for c
    by (auto simp: url_plain_def is_digit_def Let_def)
  moreover have "url_plain (CHR ''-'')" by code_simp
  moreover have "list_all (\<lambda>c. url_plain c \<and> c \<noteq> CHR ''%'') ''0123456789''" by code_simp
  ultimately have "url_plain c \<and> c \<noteq> CHR ''%''" if "c \<in> set v" for c
    using that assms by (fastforce simp: version_pattern_def list_all_iff)
  moreover have "list_all (\<lambda>c. url_plain c \<and> c \<noteq> CHR ''%'') (''/admin/api/'' @ ''/graphql.json'')" by code_simp
  ultimately show ?thesis by (auto simp: plain_path_def list_all_iff)
qed

lemma loopback_lower: "is_loopback (to_lower s) = is_loopback s"
  by (simp add: is_loopback_def Let_def)

lemma shop_validate_domain:
  assumes "shop_validate g = None"
  obtains u where "url_parse (''https://'' @ to_lower (trim_space (shop_domain g))) = Some u"
    "host u = to_lower (trim_space (shop_domain g))"
    "has_suffix (hostname u) ''.myshopify.com'' \<or> is_loopback (hostname u)"
    "version_pattern (api_version g)" "host u \<noteq> []"
  using assms by (auto simp: shop_validate_def Let_def split: option.splits if_splits)

lemma split_on_hd: "hd (split_on c s) = takeWhile ((\<noteq>) c) s"
  by (induction s) (auto split: list.splits)

lemma lower_char_colon: "lower_char c = CHR '':'' \<longleftrightarrow> c = CHR '':''"
proof (cases "65 \<le> byte c \<and> byte c \<le> 90")
  case True
  then have "byte (lower_char c) = byte c + 32" by (simp add: lower_char_def Let_def)
  then show ?thesis using True by auto
next
  case False
  show ?thesis by (simp only: lower_char_def Let_def if_not_P [OF False])
qed

lemma to_lower_colon: "takeWhile ((\<noteq>) (CHR '':'')) (to_lower s) = to_lower (takeWhile ((\<noteq>) (CHR '':'')) s)"
proof -
  have "CHR '':'' \<noteq> lower_char c \<longleftrightarrow> CHR '':'' \<noteq> c" for c using lower_char_colon [of c] by metis
  then show ?thesis by (induction s) (simp_all add: to_lower_def)
qed

lemma loopback_no_bracket: "is_loopback h \<Longrightarrow> \<not> has_prefix h ''[''"
proof -
  assume l: "is_loopback h"
  show ?thesis
  proof
    assume "has_prefix h ''[''"
    then obtain t where h: "h = CHR ''['' # t" by (auto simp: has_prefix_def prefix_def)
    have "graphic (CHR ''['')" by code_simp
    then have tl: "trim_left_with space_seqs h = h"
      using lead_len_graphic [of "CHR ''[''" space_seqs t] space_seqs_not_graphic
      by (simp add: h trim_left_with_idle)
    have "prefix (trim_space h) h" unfolding trim_space_def tl by (rule trim_right_with_prefix)
    then have "trim_space h = [] \<or> hd (trim_space h) = CHR ''[''" by (cases "trim_space h") (auto simp: h)
    then show False using l by (auto simp: is_loopback_def Let_def to_lower_def lower_char_def)
  qed
qed

text \<open>
  C29: the access token of a shop leaves only in a header of a request whose URL parses to a
  host under \<open>.myshopify.com\<close>, over HTTPS, or to a loopback host; a shop domain that smuggles
  in a path, a user or another host is never called.
\<close>
theorem shopify_token_stays:
  assumes "shop_execute g token query variables write T sent = (sent @ [q], res)"
  shows "\<exists>u. url_parse (req_url q) = Some u \<and> user u = None \<and> host u = to_lower (trim_space (shop_domain g))
    \<and> (scheme u = ''https'' \<and> has_suffix (hostname u) ''.myshopify.com'' \<or> is_loopback (hostname u))"
proof -
  let ?d = "to_lower (trim_space (shop_domain g))"
  let ?p = "''/admin/api/'' @ api_version g @ ''/graphql.json''"
  have plan: "shop_plan g token query variables = Inr q"
    using assms by (auto simp: shop_execute_def run_plan_def split: sum.splits)
  then have v: "shop_validate g = None" and q: "req_url q = shop_endpoint g"
    by (auto simp: shop_plan_def plain_request_def split: option.splits if_splits)
  obtain u where u: "url_parse (''https://'' @ ?d) = Some u" "host u = ?d"
    "has_suffix (hostname u) ''.myshopify.com'' \<or> is_loopback (hostname u)"
    "version_pattern (api_version g)" using v by (rule shop_validate_domain)
  have whole: "whole_host ''https'' ?d"
    using url_parse_domain [of "''https''" ?d u] u(1,2) by simp
  define sch where "sch = (if is_loopback (hd (split_on (CHR '':'') (trim_space (shop_domain g)))) then ''http'' else ''https'')"
  have "sch \<in> {''http'', ''https''}" "whole_host sch ?d"
    using whole whole_host_web by (auto simp: sch_def)
  then obtain w where w: "url_parse (sch @ ''://'' @ ?d @ ?p) = Some w" "host w = ?d" "scheme w = sch" "user w = None"
    using url_parse_under_domain [OF _ _ version_plain [OF u(4)]] by blast
  have names: "hostname w = hostname u" using w(2) u(2) by (simp add: hostname_def)
  have "is_loopback (hostname w)" if "sch = ''http''"
  proof -
    have l: "is_loopback (takeWhile ((\<noteq>) (CHR '':'')) ?d)"
      using that by (simp add: sch_def split_on_hd to_lower_colon loopback_lower split: if_splits)
    have "\<not> has_prefix ?d ''[''"
    proof
      assume "has_prefix ?d ''[''"
      then obtain t where "?d = CHR ''['' # t" by (auto simp: has_prefix_def prefix_def)
      then have "has_prefix (takeWhile ((\<noteq>) (CHR '':'')) ?d) ''[''" by (simp add: has_prefix_def)
      then show False using loopback_no_bracket [OF l] by simp
    qed
    then show ?thesis using hostname_whole [of w] whole l w(2) by simp
  qed
  moreover have "sch = ''http'' \<or> sch = ''https''" by (simp add: sch_def)
  ultimately show ?thesis
    using w u(3) names by (auto simp: q shop_endpoint_def sch_def [symmetric])
qed

definition shop_sample :: shop_config where
  "shop_sample = \<lparr>shop_domain = ''tea.myshopify.com'', shop_version = []\<rparr>"

lemma shop_sample_valid: "shop_validate shop_sample = None"
  by code_simp

theorem shopify_token_stays_witness:
  "\<exists>q res. shop_execute shop_sample ''t'' ''q'' VNil False dead_http [] = ([q], res)
    \<and> (\<exists>u. url_parse (req_url q) = Some u \<and> host u = ''tea.myshopify.com'')"
proof -
  have tok: "trim_space ''t'' \<noteq> []" and d: "to_lower (trim_space (shop_domain shop_sample)) = ''tea.myshopify.com''"
    by code_simp+
  have "marshal (VObj [(''query'', VStr ''q''), (''variables'', VNil)]) \<noteq> None"
    by (rule marshal_total) simp
  then obtain q where "shop_plan shop_sample ''t'' ''q'' VNil = Inr q"
    using tok by (auto simp: shop_plan_def shop_sample_valid simp del: marshal.simps)
  then obtain res where x: "shop_execute shop_sample ''t'' ''q'' VNil False dead_http [] = ([] @ [q], res)"
    by (simp add: shop_execute_def run_plan_def)
  from shopify_token_stays [OF x] show ?thesis using x d by (auto simp del: split_paired_Ex)
qed

section \<open>Writes\<close>

lemma shop_plan_permanent:
  "shop_plan g token query variables = Inl x \<Longrightarrow> \<exists>e. typed_err x = Some e \<and> is_permanent e"
  by (auto simp: shop_plan_def split: option.splits if_splits)

lemma shop_read_cautious:
  "typed_err (shop_read True a) = Some e \<Longrightarrow> is_retryable e \<Longrightarrow> \<exists>r. a = Inr r \<and> throttled (resp_status r)"
  by (cases a) (auto simp: shop_read_def Let_def throttled_def split: if_splits option.splits)

interpretation shop_writes: cautious_write "shop_execute g token query variables True"
  "shop_plan g token query variables" "shop_read True" typed_err throttled
  for g token query variables
proof (unfold_locales, goal_cases)
  case (1 T sent) show ?case by (simp add: shop_execute_def)
next
  case (2 a e) then show ?case by (rule shop_read_cautious)
next
  case (3 x) then show ?case by (rule shop_plan_permanent)
next
  case (4 m) show ?case by (simp add: shop_read_def)
qed

lemma ful_finish_err:
  "typed_err (ful_finish x) = (case typed_err x of Some e \<Rightarrow> Some e
     | None \<Rightarrow> if user_error (as_obj (fst x)) = [] then None
         else Some (ful_error ''user_error'' (user_error (as_obj (fst x)))))"
  by (cases x) (auto simp: ful_finish_def split: option.splits)

lemma ful_request_permanent: "ful_request i = Inl e \<Longrightarrow> is_permanent e"
  by (cases i) (auto simp: ful_error_def split: if_splits)

lemma ful_request_write: "ful_request i = Inr (query, variables, write) \<Longrightarrow> write \<longleftrightarrow> (\<nexists>a b c d. i = ListOrders a b c d)"
  by (cases i) (auto split: if_splits)

text \<open>
  A fulfillment write is either refused for good before anything is sent, or sends one
  request; when the answer to it is lost its outcome is uncertain, and it is offered for a
  retry only when Shopify answered that it throttled the request.
\<close>

lemma fulfillment_write_outcome:
  assumes "ful_call c ss i T sent = (sent', res)" "\<nexists>a b d e. i = ListOrders a b d e"
  shows "sent' = sent \<and> (\<exists>e. typed_err res = Some e \<and> is_permanent e) \<or>
    (\<exists>q. sent' = sent @ [q] \<and> (case T sent q of
        Inl m \<Rightarrow> \<exists>e. typed_err res = Some e \<and> is_uncertain e
      | Inr a \<Rightarrow> \<forall>e. typed_err res = Some e \<longrightarrow> is_retryable e \<longrightarrow> resp_status a = 429))"
proof (cases "ful_request i")
  case (Inl e)
  then show ?thesis using assms(1) ful_request_permanent [OF Inl] by (auto simp: ful_call_def)
next
  case (Inr p)
  obtain query variables wr where p: "p = (query, variables, wr)" by (cases p)
  have w: "wr" using ful_request_write [OF Inr [unfolded p]] assms(2) by blast
  obtain s x where x: "shop_execute (protocol_config c) (secret ss ''access_token'') query variables True T sent = (s, x)"
    by (cases "shop_execute (protocol_config c) (secret ss ''access_token'') query variables True T sent")
  have "sent' = s" "res = ful_finish x"
    using assms(1) x w by (simp_all add: ful_call_def Inr p ful_execute_def)
  then show ?thesis
    using shop_writes.outcome [OF x]
    by (auto simp: ful_finish_err ful_error_def throttled_def split: sum.splits option.splits)
qed

section \<open>The webhook verifiers\<close>

text \<open>What Shopify's documentation asks of a delivery.\<close>

definition shop_authentic :: "webhook_request \<Rightarrow> bool" where
  "shop_authentic r \<longleftrightarrow> (let sec = trim_space (secret (wh_secrets r) ''webhook_secret'') in
     sec \<noteq> [] \<and> header_trimmed (wh_headers r) ''X-Shopify-Hmac-Sha256'' = base64_std (hmac sha256 sec (wh_body r)))"

definition shop_delivery :: "webhook_request \<Rightarrow> shop_webhook option" where
  "shop_delivery r = (case decode_map (wh_body r) of None \<Rightarrow> None
     | Some v \<Rightarrow> if header_trimmed (wh_headers r) ''X-Shopify-Topic'' = [] then None
         else Some \<lparr>hook_topic = to_lower (header_trimmed (wh_headers r) ''X-Shopify-Topic''),
           hook_delivery = header_trimmed (wh_headers r) ''X-Shopify-Webhook-Id'',
           hook_domain = to_lower (header_trimmed (wh_headers r) ''X-Shopify-Shop-Domain''),
           hook_payload = v, hook_raw = wh_body r\<rparr>)"

definition shopify_named :: "webhook_request \<Rightarrow> bool" where
  "shopify_named r \<longleftrightarrow> (case shop_delivery r of None \<Rightarrow> False | Some e \<Rightarrow> hook_delivery e \<noteq> [])"

definition ful_named :: "webhook_request \<Rightarrow> bool" where
  "ful_named r \<longleftrightarrow> (case shop_delivery r of None \<Rightarrow> False | Some e \<Rightarrow> ful_event_id e \<noteq> [])"

lemma shop_hook_cases:
  "wh_context r = Some m \<Longrightarrow> shop_hook r = Inl (Plain m)"
  "wh_context r = None \<Longrightarrow> shop_hook r = Inr e \<longleftrightarrow> shop_authentic r \<and> shop_delivery r = Some e"
  "wh_context r = None \<Longrightarrow> permanent_only (shop_hook r)"
  by (auto simp: shop_hook_def shop_authentic_def shop_delivery_def Let_def split: option.split if_splits)

lemma shop_verify_cases:
  "isl (case shop_hook r of Inl e \<Rightarrow> Inl e | Inr e \<Rightarrow> if n e = [] then Inl (x e) else Inr (y e)) \<longleftrightarrow>
    \<not> (wh_context r = None \<and> shop_authentic r
       \<and> (case shop_delivery r of None \<Rightarrow> False | Some e \<Rightarrow> n e \<noteq> []))"
proof (cases "wh_context r")
  case None
  note h = shop_hook_cases(2) [OF None]
  show ?thesis
  proof (cases "shop_hook r")
    case (Inl e)
    then have "\<not> (shop_authentic r \<and> shop_delivery r = Some e')" for e' using h [of e'] by simp
    then show ?thesis using Inl by (simp split: option.split) blast
  next
    case (Inr e)
    then show ?thesis using h [of e] None by simp
  qed
next
  case (Some m)
  then show ?thesis using shop_hook_cases(1) [OF Some] by simp
qed

lemma shop_hook_topic: "shop_hook r = Inr e \<Longrightarrow> hook_topic e \<noteq> []"
  by (auto simp: shop_hook_def Let_def split: option.splits if_splits)

lemma shop_event_identified:
  "shop_hook r = Inr e \<Longrightarrow> x \<noteq> [] \<Longrightarrow> identified (shop_event e x)"
  by (drule shop_hook_topic) (simp add: identified_def shop_event_def plain_event_def)

interpretation shopify_hooks: webhook_verifier shopify_verify shop_authentic shopify_named
proof (unfold_locales, goal_cases)
  case (1 r) show ?case unfolding shopify_verify_def shopify_named_def by (rule shop_verify_cases)
next
  case (2 r v) then show ?case
    by (auto simp: shopify_verify_def shop_event_identified split: sum.splits if_splits)
next
  case (3 r) then show ?case using shop_hook_cases(3) [of r]
    by (simp add: shopify_verify_def)
next
  case (4 r m) then show ?case by (simp add: shopify_verify_def shop_hook_cases(1))
qed

interpretation fulfillment_hooks: webhook_verifier ful_verify shop_authentic ful_named
proof (unfold_locales, goal_cases)
  case (1 r) show ?case unfolding ful_verify_def ful_named_def by (rule shop_verify_cases)
next
  case (2 r v) then show ?case
    by (auto simp: ful_verify_def shop_event_identified split: sum.splits if_splits)
next
  case (3 r) then show ?case using shop_hook_cases(3) [of r]
    by (simp add: ful_verify_def ful_error_def)
next
  case (4 r m) then show ?case by (simp add: ful_verify_def shop_hook_cases(1))
qed

end
