(* ===== verification/ApiCall.thy ===== *)
theory ApiCall
  imports Webhook Base64 Payments
begin

text \<open>
  The JSON call that many providers make in the same wording: a base URL that must be HTTPS or
  loopback HTTP, one request with an optional JSON body, and the reading of its answer, where
  a write that got no readable answer is uncertain. The providers differ in their names, in
  where they look for an error code and in the reference they make from an answer; these are
  the parameters here. What follows for all writes is proved in a locale.
\<close>

section \<open>Base URLs\<close>

text \<open>This loopback test takes every host name that starts with \<open>127.\<close>.\<close>

definition loopback127 :: "string \<Rightarrow> bool" where
  "loopback127 h \<longleftrightarrow> h = ''localhost'' \<or> has_prefix h ''127.'' \<or> h = ''::1''"

definition web_endpoint :: "(string \<Rightarrow> bool) \<Rightarrow> string \<Rightarrow> bool" where
  "web_endpoint loop s = (case url_parse s of None \<Rightarrow> False
     | Some u \<Rightarrow> host u \<noteq> [] \<and> user u = None \<and> raw_query u = [] \<and> fragment u = []
         \<and> (scheme u = ''https'' \<or> scheme u = ''http'' \<and> loop (hostname u)))"

definition trimmed_base :: "connection \<Rightarrow> string \<Rightarrow> string" where
  "trimmed_base c d = (let v = trim_right_char (CHR ''/'') (clean_at (config c) ''base_url'') in
     if v \<noteq> [] then v else d)"

section \<open>Answers\<close>

definition decode_output :: "string \<Rightarrow> val option" where
  "decode_output body = (if body = [] then Some (VObj []) else decode_map body)"

text \<open>Only an answer that was not taken up may be retried.\<close>

definition api_read ::
  "string \<Rightarrow> string \<Rightarrow> (obj \<Rightarrow> string) \<Rightarrow> (obj \<Rightarrow> string \<Rightarrow> val \<times> string) \<Rightarrow> bool
    \<Rightarrow> string + http_response \<Rightarrow> typed" where
  "api_read pre title code_of ok_of write answer = (case answer of
     Inl m \<Rightarrow> failed (failure write (pre @ ''.network_error'') (TransportErr m))
   | Inr resp \<Rightarrow>
     (let n = resp_status resp; ref = ''http:'' @ itoa n; decoded = decode_output (resp_body resp);
          payload = (case decoded of None \<Rightarrow> VObj [] | Some v \<Rightarrow> v);
          found = code_of (as_obj payload);
          code = pre @ ''.'' @ (if found = [] then ''http_'' @ itoa n else found);
          cause = Msg (title @ '' returned HTTP '' @ itoa n) in
      if \<not> ok_status n then (payload, ref, Some
        (if n = 429 then Retryable code cause
         else if n \<ge> 500 then failure write code cause
         else Permanent code cause))
      else if decoded = None then (VNil, ref, Some (failure write (pre @ ''.response_invalid'')
        (Msg (title @ '' response is invalid JSON''))))
      else (case ok_of (as_obj payload) ref of (out, ref') \<Rightarrow>
        ((if out = VNil then payload else out), ref', None))))"

lemma api_read_cautious:
  "typed_err (api_read pre title code_of ok_of True a) = Some e \<Longrightarrow> is_retryable e
    \<Longrightarrow> \<exists>r. a = Inr r \<and> throttled (resp_status r)"
  by (cases a) (auto simp: api_read_def Let_def throttled_def split: if_splits option.splits prod.splits)

section \<open>Connection tests\<close>

text \<open>The connection test of these providers reports the output of the test operation.\<close>

definition test_details :: "http_request list \<times> typed \<Rightarrow> http_request list \<times> string res" where
  "test_details r = (case r of
     (sent', out, ref, Some e) \<Rightarrow> (sent', Inl e)
   | (sent', out, ref, None) \<Rightarrow> (sent', Inr (marshal_or [] out)))"

section \<open>Cautious writes\<close>

text \<open>What a cautious write does, as a predicate on its run.\<close>

definition cautious_run ::
  "http \<Rightarrow> http_request list \<Rightarrow> http_request list \<times> 'a \<Rightarrow> gerr option \<Rightarrow> bool" where
  "cautious_run T sent run err \<longleftrightarrow>
     fst run = sent \<and> (\<exists>e. err = Some e \<and> is_permanent e) \<or>
     (\<exists>q. fst run = sent @ [q] \<and> (case T sent q of
        Inl m \<Rightarrow> \<exists>e. err = Some e \<and> is_uncertain e
      | Inr a \<Rightarrow> \<forall>e. err = Some e \<longrightarrow> is_retryable e \<longrightarrow> resp_status a = 429))"

text \<open>
  Some services answer with a success and say in the body that they did not take the request
  up. \<open>busy\<close> tells which answers say so.
\<close>

definition cautious_by ::
  "(http_response \<Rightarrow> bool) \<Rightarrow> http \<Rightarrow> http_request list \<Rightarrow> http_request list \<times> 'a \<Rightarrow> gerr option \<Rightarrow> bool" where
  "cautious_by busy T sent run err \<longleftrightarrow>
     fst run = sent \<and> (\<exists>e. err = Some e \<and> is_permanent e) \<or>
     (\<exists>q. fst run = sent @ [q] \<and> (case T sent q of
        Inl m \<Rightarrow> \<exists>e. err = Some e \<and> is_uncertain e
      | Inr a \<Rightarrow> \<forall>e. err = Some e \<longrightarrow> is_retryable e \<longrightarrow> busy a))"

lemma cautious_by_throttled:
  "cautious_by (\<lambda>a. throttled (resp_status a)) T sent run err = cautious_run T sent run err"
  by (simp add: cautious_by_def cautious_run_def throttled_def)

lemma cautious_by_mono:
  assumes "cautious_by busy T sent run err" "\<And>a. busy a \<Longrightarrow> busy' a"
  shows "cautious_by busy' T sent run err"
  unfolding cautious_by_def
proof (cases "fst run = sent \<and> (\<exists>e. err = Some e \<and> is_permanent e)", goal_cases)
  case 1
  then show ?case by (rule disjI1)
next
  case 2
  then obtain q where "fst run = sent @ [q]" and a: "case T sent q of
      Inl m \<Rightarrow> \<exists>e. err = Some e \<and> is_uncertain e
    | Inr a \<Rightarrow> \<forall>e. err = Some e \<longrightarrow> is_retryable e \<longrightarrow> busy a"
    using assms(1) unfolding cautious_by_def by blast
  moreover have "case T sent q of
      Inl m \<Rightarrow> \<exists>e. err = Some e \<and> is_uncertain e
    | Inr a \<Rightarrow> \<forall>e. err = Some e \<longrightarrow> is_retryable e \<longrightarrow> busy' a"
    using a assms(2) by (auto split: sum.splits)
  ultimately show ?case by (intro disjI2 exI [of _ q] conjI)
qed

locale typed_write = cautious_write op plan read typed_err throttled for op plan and read :: "_ \<Rightarrow> typed"
begin

lemma cautious: "cautious_run T sent (op T sent) (typed_err (snd (op T sent)))"
  using outcome [of T sent "fst (op T sent)" "snd (op T sent)"]
  by (auto simp: cautious_run_def throttled_def split: sum.splits)

end

locale api_write =
  fixes op :: "http \<Rightarrow> http_request list \<Rightarrow> http_request list \<times> typed"
    and plan :: "typed + http_request"
    and pre :: string and title :: string
    and code_of :: "obj \<Rightarrow> string" and ok_of :: "obj \<Rightarrow> string \<Rightarrow> val \<times> string"
  assumes op_runs: "op T sent = run_plan plan (api_read pre title code_of ok_of True) T sent"
    and plan_refuses: "plan = Inl x \<Longrightarrow> \<exists>e. typed_err x = Some e \<and> is_permanent e"

sublocale api_write \<subseteq> typed_write op plan "api_read pre title code_of ok_of True"
proof (unfold_locales, goal_cases)
  case (1 T sent) show ?case by (rule op_runs)
next
  case (2 a e) then show ?case by (rule api_read_cautious)
next
  case (3 x) then show ?case by (rule plan_refuses)
next
  case (4 m) show ?case by (simp add: api_read_def)
qed

lemma cautious_refused: "is_permanent e \<Longrightarrow> cautious_run T sent (sent, r) (Some e)"
  by (simp add: cautious_run_def)

end
