(* ===== verification/Zendesk.thy ===== *)
theory Zendesk
  imports ApiCall
begin

text \<open>
  The Zendesk provider (\<^verbatim>\<open>providers/support/zendesk\<close>): tickets over the JSON API with basic
  authentication, and the webhook verifier, which signs the time stamp and the body.
\<close>

section \<open>Calls\<close>

definition zendesk_error :: "string \<Rightarrow> string \<Rightarrow> gerr" where
  "zendesk_error suf msg = Permanent (''zendesk.'' @ suf) (Msg msg)"

definition zendesk_base :: "connection \<Rightarrow> string" where
  "zendesk_base c = trimmed_base c (''https://'' @ clean_at (config c) ''subdomain'' @ ''.zendesk.com'')"

definition zendesk_validate :: "connection \<Rightarrow> gerr option" where
  "zendesk_validate c =
     (if clean_at (config c) ''email'' = [] then Some (zendesk_error ''email_required'' ''email is required'')
      else if \<not> web_endpoint loopback127 (zendesk_base c)
      then Some (zendesk_error ''endpoint_invalid'' ''HTTPS or loopback HTTP endpoint is required'')
      else None)"

fun json_id :: "val \<Rightarrow> string" where
  "json_id (VStr s) = s"
| "json_id (VFloat f) = itoa (f64_trunc f)"
| "json_id (VNum s) = s"
| "json_id _ = []"

definition zendesk_ok :: "obj \<Rightarrow> string \<Rightarrow> val \<times> string" where
  "zendesk_ok m ref = (VNil, (case find (\<lambda>k. json_id (at (as_obj (at m k)) ''id'') \<noteq> []) [''ticket'', ''user''] of
     None \<Rightarrow> ref
   | Some k \<Rightarrow> ''zendesk:'' @ k @ '':'' @ json_id (at (as_obj (at m k)) ''id'')))"

definition zendesk_plan ::
  "connection \<Rightarrow> secrets \<Rightarrow> string \<Rightarrow> string \<Rightarrow> string \<Rightarrow> val option \<Rightarrow> bool \<Rightarrow> typed + http_request" where
  "zendesk_plan c ss ref mth pth payload write =
     (case zendesk_validate c of Some e \<Rightarrow> Inl (failed e) | None \<Rightarrow>
     (let token = trim_space (secret ss ''api_token'') in
      if token = [] then Inl (failed (zendesk_error ''api_token_required'' ''resolved API token is required''))
      else (case (case payload of None \<Rightarrow> Some [] | Some v \<Rightarrow> marshal v) of
        None \<Rightarrow> Inl (failed (zendesk_error ''request_invalid'' ''request is invalid''))
      | Some body \<Rightarrow> Inr ((plain_request mth (zendesk_base c @ pth)
          ([(''Accept'', [''application/json''])]
           @ (if payload \<noteq> None then [(''Content-Type'', [''application/json''])] else [])
           @ (if ref \<noteq> [] \<and> write then [(''Idempotency-Key'', [ref])] else [])) body)
        \<lparr>req_secret_headers := [(''Authorization'', [''Basic '' @
            base64_std (clean_at (config c) ''email'' @ ''/token:'' @ token)])],
         req_max := 4194304\<rparr>))))"

definition zendesk_execute where
  "zendesk_execute c ss ref mth pth payload write =
     run_plan (zendesk_plan c ss ref mth pth payload write)
       (api_read ''zendesk'' ''Zendesk'' (\<lambda>m. clean_at m ''error'') zendesk_ok write)"

datatype ticket_request = CreateTicket obj | UpdateTicket obj | GetTicket string | ListTickets | TestUser

text \<open>The method, the path, the payload and whether the call writes; or the refusal.\<close>

fun ticket_call :: "ticket_request \<Rightarrow> (string \<times> string \<times> val option \<times> bool) res" where
  "ticket_call TestUser = Inr (''GET'', ''/api/v2/users/me.json'', None, False)"
| "ticket_call ListTickets = Inr (''GET'', ''/api/v2/tickets.json'', None, False)"
| "ticket_call (GetTicket x) = (let i = trim_space x in
     if i = [] then Inl (zendesk_error ''ticket_id_required'' ''ticket_id is required'')
     else Inr (''GET'', ''/api/v2/tickets/'' @ path_escape i @ ''.json'', None, False))"
| "ticket_call (CreateTicket m) =
     (if m = [] then Inl (zendesk_error ''ticket_required'' ''ticket input is required'')
      else Inr (''POST'', ''/api/v2/tickets.json'', Some (VObj [(''ticket'', VObj m)]), True))"
| "ticket_call (UpdateTicket m) = (let i = clean_at m ''ticket_id'' in
     if i = [] then Inl (zendesk_error ''ticket_id_required'' ''ticket_id is required'')
     else Inr (''PUT'', ''/api/v2/tickets/'' @ path_escape i @ ''.json'',
       Some (VObj [(''ticket'', VObj (filter (\<lambda>kv. fst kv \<noteq> ''ticket_id'') m))]), True))"

definition zendesk_call ::
  "connection \<Rightarrow> secrets \<Rightarrow> string \<Rightarrow> ticket_request \<Rightarrow> http \<Rightarrow> http_request list \<Rightarrow> http_request list \<times> typed" where
  "zendesk_call c ss ref i T sent = (case ticket_call i of
     Inl e \<Rightarrow> (sent, failed e)
   | Inr (mth, pth, payload, write) \<Rightarrow> zendesk_execute c ss ref mth pth payload write T sent)"

definition zendesk_test_connection ::
  "connection \<Rightarrow> secrets \<Rightarrow> http \<Rightarrow> http_request list \<Rightarrow> http_request list \<times> string res" where
  "zendesk_test_connection c ss T sent = (case zendesk_call c ss [] TestUser T sent of
     (sent', out, ref, Some e) \<Rightarrow> (sent', Inl e)
   | (sent', out, ref, None) \<Rightarrow> (sent', Inr (marshal_or [] out)))"

interpretation zendesk_writes: api_write "zendesk_execute c ss ref mth pth payload True"
  "zendesk_plan c ss ref mth pth payload True" "''zendesk''" "''Zendesk''" "\<lambda>m. clean_at m ''error''" zendesk_ok
  for c ss ref mth pth payload
  by unfold_locales (auto simp: zendesk_execute_def zendesk_plan_def zendesk_validate_def zendesk_error_def failed_def Let_def
      split: option.splits if_splits)

lemma ticket_call_permanent: "ticket_call i = Inl e \<Longrightarrow> is_permanent e"
  by (cases i) (auto simp: zendesk_error_def Let_def split: if_splits)

lemma zendesk_cautious:
  assumes "(\<exists>m. i = CreateTicket m) \<or> (\<exists>m. i = UpdateTicket m)"
  shows "cautious_run T sent (zendesk_call c ss ref i T sent) (typed_err (snd (zendesk_call c ss ref i T sent)))"
proof (cases "ticket_call i")
  case (Inl e)
  then show ?thesis using ticket_call_permanent [OF Inl] by (simp add: zendesk_call_def cautious_refused)
next
  case (Inr p)
  then obtain mth pth payload where "p = (mth, pth, payload, True)"
    using assms by (auto simp: Let_def split: if_splits)
  then have "zendesk_call c ss ref i T sent = zendesk_execute c ss ref mth pth payload True T sent"
    using Inr by (simp add: zendesk_call_def)
  then show ?thesis by (simp only: zendesk_writes.cautious)
qed

section \<open>Webhooks\<close>

definition zendesk_verify :: "webhook_request \<Rightarrow> verified_webhook res" where
  "zendesk_verify r = (case wh_context r of Some m \<Rightarrow> Inl (Plain m) | None \<Rightarrow>
     (let sec = secret (wh_secrets r) ''webhook_secret'';
          timestamp = header_value (wh_headers r) ''X-Zendesk-Webhook-Signature-Timestamp'';
          actual = header_value (wh_headers r) ''X-Zendesk-Webhook-Signature'' in
      if sec = [] then Inl (zendesk_error ''webhook_secret_required'' ''resolved webhook secret is required'')
      else if timestamp = [] \<or> base64_std (hmac sha256 sec (timestamp @ wh_body r)) \<noteq> trim_space actual
      then Inl (zendesk_error ''webhook_signature_invalid'' ''webhook signature is invalid'')
      else (case decode_map (wh_body r) of
        None \<Rightarrow> Inl (zendesk_error ''webhook_payload_invalid'' ''webhook payload is invalid'')
      | Some v \<Rightarrow>
         (let m = as_obj v; i = first_text [clean_at m ''id'', clean_at m ''ticket_id''];
              ty = first_text [clean_at m ''type'', ''ticket.updated''] in
          if i = [] then Inl (zendesk_error ''webhook_identity_missing'' ''webhook identity is missing'')
          else Inr (plain_event ty i (marshal_or [] v))))))"

text \<open>What Zendesk's documentation asks of a delivery.\<close>

definition zendesk_authentic :: "webhook_request \<Rightarrow> bool" where
  "zendesk_authentic r \<longleftrightarrow>
     (let sec = secret (wh_secrets r) ''webhook_secret'';
          timestamp = header_value (wh_headers r) ''X-Zendesk-Webhook-Signature-Timestamp'' in
      sec \<noteq> [] \<and> timestamp \<noteq> [] \<and> trim_space (header_value (wh_headers r) ''X-Zendesk-Webhook-Signature'')
        = base64_std (hmac sha256 sec (timestamp @ wh_body r)))"

definition zendesk_named :: "webhook_request \<Rightarrow> bool" where
  "zendesk_named r \<longleftrightarrow> (case decode_map (wh_body r) of None \<Rightarrow> False
     | Some v \<Rightarrow> clean_at (as_obj v) ''id'' \<noteq> [] \<or> clean_at (as_obj v) ''ticket_id'' \<noteq> [])"

lemma first_text_Nil: "first_text ss = [] \<longleftrightarrow> (\<forall>s\<in>set ss. s = [])"
  by (induction ss) (auto simp: first_text_def)

interpretation zendesk_hooks: webhook_verifier zendesk_verify zendesk_authentic zendesk_named
proof (unfold_locales, goal_cases)
  case (1 r) show ?case
    by (auto simp: zendesk_verify_def zendesk_authentic_def zendesk_named_def first_text_Nil Let_def
        split: option.splits)
next
  case (2 r v) then show ?case
    by (auto simp: zendesk_verify_def identified_def plain_event_def first_text_Nil Let_def
        split: option.splits if_splits)
next
  case (3 r) then show ?case
    by (simp add: zendesk_verify_def zendesk_error_def Let_def split: option.split)
next
  case (4 r m) then show ?case by (simp add: zendesk_verify_def)
qed

end
