(* ===== verification/Twilio.thy ===== *)
theory Twilio
  imports ApiCall
begin

text \<open>
  The Twilio provider (\<^verbatim>\<open>providers/telephony/twilio\<close>): text messages as forms with basic
  authentication, and the webhook verifier, which signs the callback URL and the sorted form.
\<close>

section \<open>Calls\<close>

definition twilio_error :: "string \<Rightarrow> string \<Rightarrow> gerr" where
  "twilio_error suf msg = Permanent (''twilio.'' @ suf) (Msg msg)"

definition twilio_base :: "connection \<Rightarrow> string" where
  "twilio_base c = trimmed_base c ''https://api.twilio.com''"

definition twilio_validate :: "connection \<Rightarrow> gerr option" where
  "twilio_validate c =
     (if clean_at (config c) ''from_number'' = []
      then Some (twilio_error ''from_number_required'' ''from_number is required'')
      else if \<not> web_endpoint loopback127 (twilio_base c)
      then Some (twilio_error ''endpoint_invalid'' ''HTTPS or loopback HTTP endpoint is required'')
      else None)"

definition twilio_ok :: "obj \<Rightarrow> string \<Rightarrow> val \<times> string" where
  "twilio_ok m ref = (VNil, if clean_at m ''sid'' = [] then ref else ''twilio:'' @ clean_at m ''sid'')"

definition twilio_plan ::
  "connection \<Rightarrow> secrets \<Rightarrow> string \<Rightarrow> string \<Rightarrow> string \<Rightarrow> url_values option \<Rightarrow> bool \<Rightarrow> typed + http_request" where
  "twilio_plan c ss ref mth pth form write =
     (case twilio_validate c of Some e \<Rightarrow> Inl (failed e) | None \<Rightarrow>
     (let sid = trim_space (secret ss ''account_sid''); token = trim_space (secret ss ''auth_token'') in
      if sid = [] \<or> token = [] then Inl (failed (twilio_error ''credentials_required''
        ''resolved account SID and auth token are required''))
      else Inr ((plain_request mth (twilio_base c @ pth)
          ([(''Accept'', [''application/json''])]
           @ (if form \<noteq> None then [(''Content-Type'', [''application/x-www-form-urlencoded''])] else [])
           @ (if ref \<noteq> [] \<and> write then [(''Idempotency-Key'', [ref])] else []))
          (case form of None \<Rightarrow> [] | Some q \<Rightarrow> encode_values q))
        \<lparr>req_secret_headers := [(''Authorization'', [''Basic '' @ base64_std (sid @ '':'' @ token)])],
         req_max := 4194304\<rparr>)))"

definition twilio_execute where
  "twilio_execute c ss ref mth pth form write =
     run_plan (twilio_plan c ss ref mth pth form write) (api_read ''twilio'' ''Twilio'' (\<lambda>m. []) twilio_ok write)"

definition twilio_account_path :: "string \<Rightarrow> string \<Rightarrow> string" where
  "twilio_account_path sid s = ''/2010-04-01/Accounts/'' @ path_escape sid @ s"

definition twilio_test ::
  "connection \<Rightarrow> secrets \<Rightarrow> string \<Rightarrow> http \<Rightarrow> http_request list \<Rightarrow> http_request list \<times> typed" where
  "twilio_test c ss ref T sent = (let sid = trim_space (secret ss ''account_sid'') in
     if sid = [] then (sent, failed (twilio_error ''account_sid_required'' ''resolved account SID is required''))
     else twilio_execute c ss ref ''GET'' (twilio_account_path sid ''.json'') None False T sent)"

definition twilio_test_connection ::
  "connection \<Rightarrow> secrets \<Rightarrow> http \<Rightarrow> http_request list \<Rightarrow> http_request list \<times> string res" where
  "twilio_test_connection c ss T sent = (case twilio_test c ss [] T sent of
     (sent', out, ref, Some e) \<Rightarrow> (sent', Inl e)
   | (sent', out, ref, None) \<Rightarrow> (sent', Inr (marshal_or [] out)))"

record sms_input =
  sms_to :: string
  sms_from :: string
  sms_body :: string

definition twilio_form :: "connection \<Rightarrow> sms_input \<Rightarrow> url_values" where
  "twilio_form c i = (let from = (if trim_space (sms_from i) = [] then clean_at (config c) ''from_number''
        else trim_space (sms_from i)); callback = clean_at (config c) ''webhook_url'' in
     [(''To'', [trim_space (sms_to i)]), (''From'', [from]), (''Body'', [trim_space (sms_body i)])]
     @ (if callback = [] then [] else [(''StatusCallback'', [callback])]))"

definition twilio_send_sms ::
  "connection \<Rightarrow> secrets \<Rightarrow> string \<Rightarrow> sms_input \<Rightarrow> http \<Rightarrow> http_request list \<Rightarrow> http_request list \<times> typed" where
  "twilio_send_sms c ss ref i T sent =
     (let q = twilio_form c i; sid = trim_space (secret ss ''account_sid'') in
      if get_value q ''To'' = [] \<or> get_value q ''From'' = [] \<or> get_value q ''Body'' = []
      then (sent, failed (twilio_error ''message_invalid'' ''to, from and body are required''))
      else if sid = []
      then (sent, failed (twilio_error ''account_sid_required'' ''resolved account SID is required''))
      else twilio_execute c ss ref ''POST'' (twilio_account_path sid ''/Messages.json'') (Some q) True T sent)"

interpretation twilio_writes: api_write "twilio_execute c ss ref mth pth form True"
  "twilio_plan c ss ref mth pth form True" "''twilio''" "''Twilio''" "\<lambda>m. []" twilio_ok
  for c ss ref mth pth form
  by unfold_locales (auto simp: twilio_execute_def twilio_plan_def twilio_validate_def twilio_error_def
      failed_def Let_def split: option.splits if_splits)

lemma twilio_cautious:
  "cautious_run T sent (twilio_send_sms c ss ref i T sent) (typed_err (snd (twilio_send_sms c ss ref i T sent)))"
  by (simp add: twilio_send_sms_def Let_def cautious_refused twilio_error_def twilio_writes.cautious)

section \<open>Webhooks\<close>

text \<open>The text that is signed: the URL, then every key with each of its values, both in order.\<close>

definition twilio_signed_text :: "string \<Rightarrow> url_values \<Rightarrow> string" where
  "twilio_signed_text u form =
     u @ concat (concat (map (\<lambda>k. map (\<lambda>v. k @ v) (sort (get_or [] form k))) (sort (map fst form))))"

definition twilio_signature_ok :: "string \<Rightarrow> string \<Rightarrow> url_values \<Rightarrow> string \<Rightarrow> bool" where
  "twilio_signature_ok sec u form actual \<longleftrightarrow>
     trim_space actual = base64_std (hmac sha1 sec (twilio_signed_text u form))"

definition twilio_first :: "url_values \<Rightarrow> string list \<Rightarrow> string" where
  "twilio_first form ks = first_text (map (\<lambda>k. trim_space (get_value form k)) ks)"

definition twilio_event_type :: "url_values \<Rightarrow> string" where
  "twilio_event_type form =
     (let ty = ''message.status.'' @ to_lower (twilio_first form [''MessageStatus'', ''SmsStatus'']) in
      if has_suffix ty ''.'' then ''call.status.'' @ to_lower (twilio_first form [''CallStatus'']) else ty)"

definition twilio_payload :: "url_values \<Rightarrow> val" where
  "twilio_payload form = VObj (map (\<lambda>(k, vs). (k, case vs of [v] \<Rightarrow> VStr v | _ \<Rightarrow> VStrs vs)) form)"

definition twilio_verify :: "webhook_request \<Rightarrow> verified_webhook res" where
  "twilio_verify r = (case wh_context r of Some m \<Rightarrow> Inl (Plain m) | None \<Rightarrow>
     (let token = secret (wh_secrets r) ''auth_token'';
          u = clean_at (config (wh_connection r)) ''webhook_url'' in
      if token = [] then Inl (twilio_error ''auth_token_required'' ''resolved auth token is required'')
      else (case parse_query_strict (wh_body r) of
        None \<Rightarrow> Inl (twilio_error ''webhook_payload_invalid'' ''webhook payload is invalid'')
      | Some form \<Rightarrow>
          if u = [] \<or> \<not> twilio_signature_ok token u form (header_value (wh_headers r) ''X-Twilio-Signature'')
          then Inl (twilio_error ''webhook_signature_invalid'' ''webhook signature is invalid'')
          else (let i = twilio_first form [''MessageSid'', ''CallSid'', ''SmsSid''] in
            if i = [] then Inl (twilio_error ''webhook_identity_missing'' ''webhook identity is missing'')
            else Inr ((plain_event (twilio_event_type form) i (marshal_or [] (twilio_payload form)))
              \<lparr>event_identity := identity_of (twilio_first form [''From'']) ''phone'' [] []\<rparr>)))))"

text \<open>What Twilio's documentation asks of a callback.\<close>

definition twilio_authentic :: "webhook_request \<Rightarrow> bool" where
  "twilio_authentic r \<longleftrightarrow> (\<exists>form. parse_query_strict (wh_body r) = Some form
     \<and> secret (wh_secrets r) ''auth_token'' \<noteq> [] \<and> clean_at (config (wh_connection r)) ''webhook_url'' \<noteq> []
     \<and> twilio_signature_ok (secret (wh_secrets r) ''auth_token'') (clean_at (config (wh_connection r)) ''webhook_url'')
         form (header_value (wh_headers r) ''X-Twilio-Signature''))"

definition twilio_named :: "webhook_request \<Rightarrow> bool" where
  "twilio_named r \<longleftrightarrow> (case parse_query_strict (wh_body r) of None \<Rightarrow> False
     | Some form \<Rightarrow> twilio_first form [''MessageSid'', ''CallSid'', ''SmsSid''] \<noteq> [])"

lemma twilio_event_type_named: "twilio_event_type form \<noteq> []"
  by (simp add: twilio_event_type_def Let_def)

interpretation twilio_hooks: webhook_verifier twilio_verify twilio_authentic twilio_named
proof (unfold_locales, goal_cases)
  case (1 r) show ?case
    by (auto simp: twilio_verify_def twilio_authentic_def twilio_named_def Let_def split: option.splits)
next
  case (2 r v) then show ?case
    by (auto simp: twilio_verify_def identified_def plain_event_def twilio_event_type_named Let_def
        split: option.splits if_splits)
next
  case (3 r) then show ?case
    by (simp add: twilio_verify_def twilio_error_def Let_def split: option.split)
next
  case (4 r m) then show ?case by (simp add: twilio_verify_def)
qed

text \<open>
  The signed text does not separate keys from values, so two different forms can have it in
  common; this is a weakness of the scheme that a verifier cannot repair.
\<close>

lemma twilio_text_ambiguous:
  "twilio_signed_text u [(''To'', [''1'']), (''ToCity'', [''X''])] = twilio_signed_text u [(''To'', [''1'', ''CityX''])]"
  by (simp add: twilio_signed_text_def get_or_def)

end
