(* ===== verification/Notification.thy ===== *)
theory Notification
  imports Catalog JsonText Sdk
begin

text \<open>
  Portable notification content and its translation into the native message of each chat
  provider (\<^verbatim>\<open>internal/notificationmessage\<close>): \<^verbatim>\<open>content.go\<close> decodes and validates the closed
  wire shape, \<^verbatim>\<open>compile.go\<close> lays it out. The maps the code builds are \<^typ>\<open>val\<close> objects.
\<close>

section \<open>Content\<close>

record fact =
  fact_key :: string
  fact_value :: string

record action =
  action_label :: string
  action_url :: string
  action_style :: string

record template_component =
  tc_type :: string
  tc_sub_type :: string
  tc_index :: string
  tc_parameters :: "string list"

record provider_template =
  pt_name :: string
  pt_language :: string
  pt_components :: "template_component list"

record template_snapshot =
  ts_key :: string
  ts_version :: int
  ts_locale :: string
  ts_content_hash :: string
  ts_variables_hash :: string

record content =
  schema_version :: int
  nc_subject :: string
  nc_title :: string
  nc_text :: string
  nc_html :: string
  nc_markdown :: string
  nc_message :: string
  nc_product :: string
  nc_facts :: "fact list"
  nc_actions :: "action list"
  nc_provider_template :: "provider_template option"
  nc_template :: template_snapshot
  nc_metadata :: obj

section \<open>Decoding (\<open>content.go\<close>)\<close>

text \<open>
  Unknown members are refused at every level but inside the metadata. A \<open>null\<close> empties a list
  or a pointer and leaves other fields alone. The input is the text of a Go map, so a member
  can be met twice only under names that differ in case; the elements of a list that is met
  twice are those of the last one here, where Go overlays them on the earlier ones.
\<close>

definition all_vals :: "string \<Rightarrow> (string \<times> json) list \<Rightarrow> json list" where
  "all_vals k kvs = map snd (filter (\<lambda>kv. equal_fold (fst kv) k) kvs)"

definition since_null :: "json list \<Rightarrow> json list" where
  "since_null vs = rev (takeWhile (\<lambda>v. v \<noteq> JNull) (rev vs))"

definition field_slice :: "(json \<Rightarrow> 'a option) \<Rightarrow> string \<Rightarrow> (string \<times> json) list \<Rightarrow> 'a list option" where
  "field_slice f k kvs = and_then (all_some (map (decode_array f) (field_vals k kvs)))
     (\<lambda>_. map_option (last_or []) (all_some (map (decode_array f) (since_null (all_vals k kvs)))))"

definition decode_fact :: "json \<Rightarrow> fact option" where
  "decode_fact j = and_then (strict_members [''key'', ''value''] j) (\<lambda>kvs.
     and_then (field_texts [''key'', ''value''] kvs) (\<lambda>ss.
       Some \<lparr>fact_key = ss ! 0, fact_value = ss ! 1\<rparr>))"

definition decode_action :: "json \<Rightarrow> action option" where
  "decode_action j = and_then (strict_members [''label'', ''url'', ''style''] j) (\<lambda>kvs.
     and_then (field_texts [''label'', ''url'', ''style''] kvs) (\<lambda>ss.
       Some \<lparr>action_label = ss ! 0, action_url = ss ! 1, action_style = ss ! 2\<rparr>))"

definition decode_component :: "json \<Rightarrow> template_component option" where
  "decode_component j = and_then (strict_members [''type'', ''sub_type'', ''index'', ''parameters''] j) (\<lambda>kvs.
     and_then (field_texts [''type'', ''sub_type'', ''index''] kvs) (\<lambda>ss.
     and_then (field_slice decode_text ''parameters'' kvs) (\<lambda>ps.
       Some \<lparr>tc_type = ss ! 0, tc_sub_type = ss ! 1, tc_index = ss ! 2, tc_parameters = ps\<rparr>)))"

text \<open>The pointer: the objects since the last \<open>null\<close> fill one value.\<close>

definition decode_provider_template :: "json list \<Rightarrow> provider_template option option" where
  "decode_provider_template vs = and_then (all_some (map (strict_members [''name'', ''language'', ''components''])
       (filter (\<lambda>v. v \<noteq> JNull) vs))) (\<lambda>_.
     and_then (nested_members (since_null vs)) (\<lambda>kvs.
     and_then (field_texts [''name'', ''language''] kvs) (\<lambda>ss.
     and_then (field_slice decode_component ''components'' kvs) (\<lambda>cs.
       Some (if since_null vs = [] then None
         else Some \<lparr>pt_name = ss ! 0, pt_language = ss ! 1, pt_components = cs\<rparr>)))))"

definition decode_snapshot :: "(string \<times> json) list \<Rightarrow> template_snapshot option" where
  "decode_snapshot kvs0 = (let names = [''key'', ''locale'', ''content_hash'', ''variables_hash''] in
     and_then (strict_members (''version'' # names) (JObj kvs0)) (\<lambda>kvs.
     and_then (field_texts names kvs) (\<lambda>ss.
     and_then (field_int ''version'' kvs) (\<lambda>v.
       Some \<lparr>ts_key = ss ! 0, ts_version = v, ts_locale = ss ! 1, ts_content_hash = ss ! 2,
         ts_variables_hash = ss ! 3\<rparr>))))"

fun decode_object :: "json \<Rightarrow> obj option" where
  "decode_object (JObj kvs) = map_option as_obj (val_of_json (JObj kvs))"
| "decode_object _ = None"

definition content_names :: "string list" where
  "content_names = [''subject'', ''title'', ''text'', ''html'', ''markdown'', ''message'', ''product_name'']"

definition content_of_json :: "json \<Rightarrow> content option" where
  "content_of_json j =
     and_then (strict_members ([''schema_version'', ''facts'', ''actions'', ''provider_template'', ''template'',
       ''metadata''] @ content_names) j) (\<lambda>kvs.
     and_then (field_int ''schema_version'' kvs) (\<lambda>v.
     and_then (field_texts content_names kvs) (\<lambda>ss.
     and_then (field_slice decode_fact ''facts'' kvs) (\<lambda>fs.
     and_then (field_slice decode_action ''actions'' kvs) (\<lambda>acts.
     and_then (decode_provider_template (all_vals ''provider_template'' kvs)) (\<lambda>pt.
     and_then (and_then (nested_members (field_vals ''template'' kvs)) decode_snapshot) (\<lambda>ts.
     and_then (all_some (map decode_object (field_vals ''metadata'' kvs))) (\<lambda>ms.
       Some \<lparr>schema_version = v, nc_subject = ss ! 0, nc_title = ss ! 1, nc_text = ss ! 2, nc_html = ss ! 3,
         nc_markdown = ss ! 4, nc_message = ss ! 5, nc_product = ss ! 6, nc_facts = fs, nc_actions = acts,
         nc_provider_template = pt, nc_template = ts, nc_metadata = concat ms\<rparr>))))))))"

datatype content_error = ContentRequired | EncodeFailed | ContentUndecodable | VersionUnsupported
  | MessageRequired | ProductRequired | SnapshotIncomplete | ActionIncomplete
  | ProviderUnsupported string

definition blank :: "string \<Rightarrow> bool" where
  "blank s \<longleftrightarrow> trim_space s = []"

definition check_content :: "content \<Rightarrow> content_error option" where
  "check_content c =
     (if schema_version c \<noteq> 1 then Some VersionUnsupported
      else if blank (nc_message c) then Some MessageRequired
      else if blank (nc_product c) then Some ProductRequired
      else let t = nc_template c in
      if blank (ts_key t) \<or> ts_version t \<le> 0 \<or> blank (ts_locale t) \<or> blank (ts_content_hash t)
         \<or> blank (ts_variables_hash t)
      then Some SnapshotIncomplete
      else if list_ex (\<lambda>a. blank (action_label a) \<or> blank (action_url a)) (nc_actions c)
      then Some ActionIncomplete else None)"

definition decode_content :: "obj \<Rightarrow> content_error + content" where
  "decode_content m =
     (if m = [] then Inl ContentRequired
      else (case marshal (VObj m) of
        None \<Rightarrow> Inl EncodeFailed
      | Some raw \<Rightarrow> (case and_then (json_parse raw) content_of_json of
          None \<Rightarrow> Inl ContentUndecodable
        | Some c \<Rightarrow> (case check_content c of Some e \<Rightarrow> Inl e | None \<Rightarrow> Inr c))))"

section \<open>Layouts (\<open>compile.go\<close>)\<close>

definition heading :: "content \<Rightarrow> string" where
  "heading c = (if \<not> blank (nc_title c) then nc_title c else nc_subject c)"

definition body_text :: "content \<Rightarrow> string" where
  "body_text c = (if \<not> blank (nc_markdown c) then nc_markdown c else nc_text c)"

abbreviation nl :: string where
  "nl \<equiv> [CHR 0x0A]"

definition template_parameter :: "template_component \<Rightarrow> string \<Rightarrow> val" where
  "template_parameter k p =
     (if tc_type k = ''button'' \<and> tc_sub_type k = ''quick_reply''
      then VObj [(''type'', VStr ''payload''), (''payload'', VStr p)]
      else VObj [(''type'', VStr ''text''), (''text'', VStr p)])"

definition template_component_map :: "template_component \<Rightarrow> val" where
  "template_component_map k = VObj ([(''type'', VStr (tc_type k)),
       (''parameters'', VArr (map (template_parameter k) (tc_parameters k)))]
     @ (if tc_sub_type k = [] then [] else [(''sub_type'', VStr (tc_sub_type k))])
     @ (if tc_index k = [] then [] else [(''index'', VStr (tc_index k))]))"

definition compile_whatsapp :: "content \<Rightarrow> obj" where
  "compile_whatsapp c = (case nc_provider_template c of
     None \<Rightarrow> [(''type'', VStr ''text''),
       (''text'', VObj [(''preview_url'', VBool False), (''body'', VStr (nc_message c))])]
   | Some t \<Rightarrow> [(''type'', VStr ''template''), (''template'', VObj [(''name'', VStr (pt_name t)),
       (''language'', VObj [(''code'', VStr (pt_language t))]),
       (''components'', VArr (map template_component_map (pt_components t)))])])"

definition slack_button :: "nat \<Rightarrow> action \<Rightarrow> val" where
  "slack_button i a = VObj ([(''type'', VStr ''button''),
       (''text'', VObj [(''type'', VStr ''plain_text''), (''text'', VStr (action_label a))]),
       (''url'', VStr (action_url a)), (''action_id'', VStr (''notification_action_'' @ nat_str (i + 1)))]
     @ (if action_style a = ''primary'' \<or> action_style a = ''danger'' then [(''style'', VStr (action_style a))] else []))"

definition compile_slack :: "content \<Rightarrow> obj" where
  "compile_slack c = [(''text'', VStr (nc_message c)), (''blocks'', VArr (
     (if heading c = [] then [] else [VObj [(''type'', VStr ''header''),
        (''text'', VObj [(''type'', VStr ''plain_text''), (''text'', VStr (heading c))])]])
     @ [VObj [(''type'', VStr ''section''),
        (''text'', VObj [(''type'', VStr ''mrkdwn''), (''text'', VStr (body_text c))])]]
     @ (if nc_facts c = [] then [] else [VObj [(''type'', VStr ''section''), (''fields'', VArr (map (\<lambda>f.
        VObj [(''type'', VStr ''mrkdwn''), (''text'', VStr (''*'' @ fact_key f @ ''*'' @ nl @ fact_value f))])
          (nc_facts c)))]])
     @ (if nc_actions c = [] then [] else [VObj [(''type'', VStr ''actions''),
        (''elements'', VArr (map (\<lambda>(i, a). slack_button i a) (enumerate 0 (nc_actions c))))]])))]"

definition feishu_card :: "content \<Rightarrow> val" where
  "feishu_card c = VObj [(''config'', VObj [(''wide_screen_mode'', VBool True)]),
     (''header'', VObj [(''template'', VStr ''blue''),
        (''title'', VObj [(''tag'', VStr ''plain_text''), (''content'', VStr (heading c))])]),
     (''elements'', VArr (
       [VObj [(''tag'', VStr ''markdown''), (''content'', VStr (body_text c))]]
       @ (if nc_facts c = [] then [] else [VObj [(''tag'', VStr ''div''), (''fields'', VArr (map (\<lambda>f.
          VObj [(''is_short'', VBool True), (''text'', VObj [(''tag'', VStr ''lark_md''),
            (''content'', VStr (''**'' @ fact_key f @ ''**'' @ nl @ fact_value f))])]) (nc_facts c)))]])
       @ (if nc_actions c = [] then [] else [VObj [(''tag'', VStr ''action''), (''actions'', VArr (map (\<lambda>a.
          VObj [(''tag'', VStr ''button''),
            (''text'', VObj [(''tag'', VStr ''plain_text''), (''content'', VStr (action_label a))]),
            (''url'', VStr (action_url a)),
            (''type'', VStr (if action_style a = ''primary'' \<or> action_style a = ''danger''
               then action_style a else ''default''))]) (nc_actions c)))]])))]"

definition compile_feishu :: "content \<Rightarrow> content_error + obj" where
  "compile_feishu c = (case marshal (feishu_card c) of None \<Rightarrow> Inl EncodeFailed
     | Some s \<Rightarrow> Inr [(''msg_type'', VStr ''interactive''), (''content'', VStr s)])"

text \<open>The separator after a fact's key is U+FF1A.\<close>

definition dingtalk_text :: "content \<Rightarrow> string" where
  "dingtalk_text c = ''### '' @ heading c @ nl @ nl @ body_text c @ concat (map (\<lambda>f.
     nl @ nl @ ''**'' @ fact_key f @ [CHR 0xEF, CHR 0xBC, CHR 0x9A] @ ''** '' @ fact_value f) (nc_facts c))"

definition compile_dingtalk :: "content \<Rightarrow> obj" where
  "compile_dingtalk c =
     (if nc_actions c = []
      then [(''msgtype'', VStr ''markdown''),
        (''markdown'', VObj [(''title'', VStr (heading c)), (''text'', VStr (dingtalk_text c))])]
      else [(''msgtype'', VStr ''actionCard''), (''actionCard'', VObj [(''title'', VStr (heading c)),
        (''text'', VStr (dingtalk_text c)), (''btnOrientation'', VStr ''0''),
        (''btns'', VArr (map (\<lambda>a. VObj [(''title'', VStr (action_label a)), (''actionURL'', VStr (action_url a))])
          (nc_actions c)))])])"

definition compile_enterprise_wechat :: "content \<Rightarrow> obj" where
  "compile_enterprise_wechat c =
     (if nc_actions c = []
      then [(''msgtype'', VStr ''markdown''),
        (''markdown'', VObj [(''content'', VStr (''**'' @ heading c @ ''**'' @ nl @ body_text c))])]
      else [(''msgtype'', VStr ''template_card''), (''template_card'', VObj [(''card_type'', VStr ''text_notice''),
        (''source'', VObj [(''desc'', VStr (trim_space (nc_product c)))]),
        (''main_title'', VObj [(''title'', VStr (heading c))]),
        (''sub_title_text'', VStr (body_text c)),
        (''horizontal_content_list'', VArr (map (\<lambda>f.
          VObj [(''keyname'', VStr (fact_key f)), (''value'', VStr (fact_value f))]) (nc_facts c))),
        (''jump_list'', VArr (map (\<lambda>a.
          VObj [(''type'', VInt 1), (''title'', VStr (action_label a)), (''url'', VStr (action_url a))]) (nc_actions c))),
        (''card_action'', VObj [(''type'', VInt 1), (''url'', VStr (action_url (hd (nc_actions c))))])])])"

definition compile_discord :: "content \<Rightarrow> obj" where
  "compile_discord c = [(''content'', VStr (nc_message c)),
     (''embeds'', VArr [VObj [(''title'', VStr (heading c)), (''description'', VStr (body_text c)),
        (''color'', VInt 5793266),
        (''fields'', VArr (map (\<lambda>f. VObj [(''name'', VStr (fact_key f)), (''value'', VStr (fact_value f)),
           (''inline'', VBool True)]) (nc_facts c))),
        (''footer'', VObj [(''text'', VStr (trim_space (nc_product c)))])]]),
     (''allowed_mentions'', VObj [(''parse'', VArr [])])]
     @ (if nc_actions c = [] then [] else [(''components'', VArr [VObj [(''type'', VInt 1),
        (''components'', VArr (map (\<lambda>a. VObj [(''type'', VInt 2), (''style'', VInt 5),
           (''label'', VStr (action_label a)), (''url'', VStr (action_url a))]) (nc_actions c)))]])])"

text \<open>\<open>html.EscapeString\<close>.\<close>

definition html_escape :: "string \<Rightarrow> string" where
  "html_escape s = concat (map (\<lambda>c. if c = CHR ''&'' then ''&amp;'' else if c = CHR 0x27 then ''&#39;''
     else if c = CHR ''<'' then ''&lt;'' else if c = CHR ''>'' then ''&gt;''
     else if c = CHR 0x22 then ''&#34;'' else [c]) s)"

definition compile_google_chat :: "content \<Rightarrow> obj" where
  "compile_google_chat c = [(''text'', VStr (nc_message c)),
     (''cardsV2'', VArr [VObj [(''cardId'', VStr ''domainry-notification''),
       (''card'', VObj [(''header'', VObj [(''title'', VStr (heading c))]),
         (''sections'', VArr [VObj [(''widgets'', VArr (
           [VObj [(''textParagraph'', VObj [(''text'', VStr (html_escape (body_text c)))])]]
           @ map (\<lambda>f. VObj [(''decoratedText'', VObj [(''topLabel'', VStr (fact_key f)),
               (''text'', VStr (fact_value f))])]) (nc_facts c)
           @ (if nc_actions c = [] then [] else [VObj [(''buttonList'', VObj [(''buttons'', VArr (map (\<lambda>a.
               VObj [(''text'', VStr (action_label a)), (''onClick'', VObj [(''openLink'',
                 VObj [(''url'', VStr (action_url a))])])]) (nc_actions c)))])]])))]])])]])]"

definition teams_card :: "content \<Rightarrow> val" where
  "teams_card c = VObj [(''type'', VStr ''AdaptiveCard''),
     (''$schema'', VStr ''http://adaptivecards.io/schemas/adaptive-card.json''), (''version'', VStr ''1.4''),
     (''body'', VArr (
       [VObj [(''type'', VStr ''TextBlock''), (''text'', VStr (heading c)), (''size'', VStr ''Medium''),
          (''weight'', VStr ''Bolder''), (''wrap'', VBool True)],
        VObj [(''type'', VStr ''TextBlock''), (''text'', VStr (body_text c)), (''wrap'', VBool True)]]
       @ (if nc_facts c = [] then [] else [VObj [(''type'', VStr ''FactSet''), (''facts'', VArr (map (\<lambda>f.
          VObj [(''title'', VStr (fact_key f)), (''value'', VStr (fact_value f))]) (nc_facts c)))]]))),
     (''actions'', VArr (map (\<lambda>a. VObj [(''type'', VStr ''Action.OpenUrl''), (''title'', VStr (action_label a)),
        (''url'', VStr (action_url a))]) (nc_actions c)))]"

definition compile_teams :: "content \<Rightarrow> content_error + obj" where
  "compile_teams c = (case marshal (teams_card c) of None \<Rightarrow> Inl EncodeFailed
     | Some s \<Rightarrow> Inr [(''body'', VObj [(''contentType'', VStr ''html''),
          (''content'', VStr ''<attachment id=\"domainry-notification-card\"></attachment>'')]),
        (''attachments'', VArr [VObj [(''id'', VStr ''domainry-notification-card''),
          (''contentType'', VStr ''application/vnd.microsoft.card.adaptive''), (''content'', VStr s)]])])"

definition line_fact :: "fact \<Rightarrow> val" where
  "line_fact f = VObj [(''type'', VStr ''box''), (''layout'', VStr ''baseline''), (''margin'', VStr ''sm''),
     (''contents'', VArr [
       VObj [(''type'', VStr ''text''), (''text'', VStr (fact_key f)), (''color'', VStr ''#888888''),
         (''size'', VStr ''sm''), (''flex'', VInt 2)],
       VObj [(''type'', VStr ''text''), (''text'', VStr (fact_value f)), (''wrap'', VBool True),
         (''size'', VStr ''sm''), (''flex'', VInt 3)]])]"

definition line_button :: "action \<Rightarrow> val" where
  "line_button a = VObj [(''type'', VStr ''button''),
     (''style'', VStr (if action_style a = ''primary'' then ''primary'' else ''secondary'')),
     (''action'', VObj [(''type'', VStr ''uri''), (''label'', VStr (action_label a)), (''uri'', VStr (action_url a))])]"

definition compile_line_message :: "content \<Rightarrow> bool \<Rightarrow> obj" where
  "compile_line_message c wrapped =
     (let contents = [VObj [(''type'', VStr ''text''), (''text'', VStr (heading c)), (''weight'', VStr ''bold''),
              (''size'', VStr ''xl''), (''wrap'', VBool True)],
            VObj [(''type'', VStr ''text''), (''text'', VStr (body_text c)), (''wrap'', VBool True),
              (''margin'', VStr ''md'')]] @ map line_fact (nc_facts c);
          bubble = VObj ([(''type'', VStr ''bubble''), (''body'', VObj [(''type'', VStr ''box''),
              (''layout'', VStr ''vertical''), (''contents'', VArr contents)])]
            @ (if nc_actions c = [] then [] else [(''footer'', VObj [(''type'', VStr ''box''),
              (''layout'', VStr ''vertical''), (''spacing'', VStr ''sm''),
              (''contents'', VArr (map line_button (nc_actions c)))])]));
          message = VObj [(''type'', VStr ''flex''), (''altText'', VStr (nc_message c)), (''contents'', bubble)]
      in if wrapped then [(''messages'', VArr [message])] else [(''content'', message)])"

definition compile_content :: "string \<Rightarrow> content \<Rightarrow> content_error + obj" where
  "compile_content p c = (let k = trim_space p in
     if k = ''slack'' then Inr (compile_slack c)
     else if k = ''feishu'' then compile_feishu c
     else if k = ''dingtalk'' then Inr (compile_dingtalk c)
     else if k = ''enterprise_wechat'' then Inr (compile_enterprise_wechat c)
     else if k = ''discord'' then Inr (compile_discord c)
     else if k = ''google_workspace'' then Inr (compile_google_chat c)
     else if k = ''teams'' \<or> k = ''microsoft_365'' then compile_teams c
     else if k = ''line_works'' then Inr (compile_line_message c False)
     else if k = ''line'' then Inr (compile_line_message c True)
     else if k = ''meta_cloud_api'' then Inr (compile_whatsapp c)
     else Inl (ProviderUnsupported p))"

text \<open>Old messages carry a provider's payload; the empty list stands for the nil map.\<close>

definition resolve_payload :: "string \<Rightarrow> obj \<Rightarrow> obj \<Rightarrow> content_error + obj" where
  "resolve_payload p m legacy =
     (if m \<noteq> [] then (case decode_content m of Inl e \<Rightarrow> Inl e | Inr c \<Rightarrow> compile_content p c)
      else Inr legacy)"

text \<open>The texts of the errors; an encoder or decoder error has a text of its own.\<close>

fun content_cause :: "content_error \<Rightarrow> cause" where
  "content_cause ContentRequired = Msg ''notification_content is required''"
| "content_cause VersionUnsupported = Msg ''notification_content schema_version must be 1''"
| "content_cause MessageRequired = Msg ''notification_content message is required''"
| "content_cause ProductRequired = Msg ''notification_content product_name is required''"
| "content_cause SnapshotIncomplete = Msg ''notification_content template snapshot is incomplete''"
| "content_cause ActionIncomplete = Msg ''notification_content action label and url are required''"
| "content_cause (ProviderUnsupported p) = Msg (''notification provider '' @ quote_str p @ '' is unsupported'')"
| "content_cause _ = DecodeErr"

section \<open>What a message conveys\<close>

text \<open>
  The texts of a value, at every depth. A message carries a text when one of its own texts
  contains it, or contains the JSON form of a text that does: cards travel as JSON inside a
  message.
\<close>

fun val_texts :: "val \<Rightarrow> string list" where
  "val_texts (VStr s) = [s]"
| "val_texts (VStrs ss) = ss"
| "val_texts (VArr vs) = concat (map val_texts vs)"
| "val_texts (VObj kvs) = concat (map (\<lambda>kv. val_texts (snd kv)) kvs)"
| "val_texts _ = []"

definition carries :: "obj \<Rightarrow> string \<Rightarrow> bool" where
  "carries m s \<longleftrightarrow> (\<exists>x t. x \<in> set (val_texts (VObj m)) \<and> sublist s t \<and> (t = x \<or> sublist (quote_str t) x))"

lemma carries_text: "x \<in> set (val_texts (VObj m)) \<Longrightarrow> sublist s x \<Longrightarrow> carries m s"
  by (auto simp: carries_def)

lemma sublist_within: "sublist s t \<Longrightarrow> sublist s (a @ t @ b)"
  by (rule sublist_order.order.trans [OF _ sublist_appendI])

lemma sublist_join: "s \<in> set ss \<Longrightarrow> sublist s (join sep ss)"
proof (induction ss)
  case (Cons t ss)
  show ?case
  proof (cases "ss = []")
    case False
    then have j: "join sep (t # ss) = t @ sep @ join sep ss" by (rule join_Cons)
    show ?thesis
    proof (cases "s = t")
      case False
      then have "sublist s (join sep ss)" using Cons by simp
      then show ?thesis unfolding j using sublist_within [of _ _ "t @ sep" "[]"] by simp
    qed (simp add: j)
  qed (use Cons in simp)
qed simp

text \<open>Every text of a value is quoted in its JSON form.\<close>

lemma marshal_quotes:
  "marshal v = Some s \<Longrightarrow> t \<in> set (val_texts v) \<Longrightarrow> sublist (quote_str t) s"
proof (induction v arbitrary: s rule: marshal.induct)
  case (7 ss)
  then have "sublist (quote_str t) (join '','' (map quote_str ss))" by (intro sublist_join) auto
  then have "sublist (quote_str t) (''['' @ join '','' (map quote_str ss) @ '']'')" by (rule sublist_within)
  then show ?case using 7(1) by simp
next
  case (8 vs)
  from 8(3) obtain v where v: "v \<in> set vs" "t \<in> set (val_texts v)" by auto
  from 8(2) obtain ss where ss: "all_some (map marshal vs) = Some ss" "s = ''['' @ join '','' ss @ '']''"
    by (auto split: option.splits)
  then have n: "None \<notin> set (map marshal vs)" "the (marshal v) \<in> set ss"
    using v by (auto simp: all_some_def split: if_splits)
  from n(1) have "marshal v = Some (the (marshal v))" using v(1) by (cases "marshal v") force+
  from 8(1) [OF v(1) this v(2)] have "sublist (quote_str t) (join '','' ss)"
    using sublist_order.order.trans sublist_join [OF n(2)] by blast
  then show ?case unfolding ss(2) by (rule sublist_within)
next
  case (9 kvs)
  let ?f = "\<lambda>kv. map_option (\<lambda>s. (fst kv, s)) (marshal (snd kv))"
  let ?t = "\<lambda>(k, s). quote_str k @ '':'' @ s"
  from 9(3) obtain kv where kv: "kv \<in> set kvs" "t \<in> set (val_texts (snd kv))" by auto
  from 9(2) obtain es where es: "all_some (map ?f kvs) = Some es"
    "s = ''{'' @ join '','' (map ?t (sort_key fst es)) @ ''}''"
    by (auto split: option.splits)
  from es(1) have n: "None \<notin> set (map ?f kvs)" "es = map the (map ?f kvs)"
    by (auto simp: all_some_def split: if_splits)
  from n(1) kv(1) have m: "marshal (snd kv) = Some (the (marshal (snd kv)))"
    by (cases "marshal (snd kv)") force+
  have "the (?f kv) = (fst kv, the (marshal (snd kv)))" by (subst m) simp
  then have "(fst kv, the (marshal (snd kv))) \<in> set (sort_key fst es)"
    using kv(1) n(2) by (metis (no_types, lifting) image_eqI list.set_map set_sort)
  then have e: "quote_str (fst kv) @ '':'' @ the (marshal (snd kv)) \<in> set (map ?t (sort_key fst es))"
    by force
  have "sublist (quote_str t) (quote_str (fst kv) @ '':'' @ the (marshal (snd kv)))"
    using sublist_within [OF 9(1) [OF kv(1) m kv(2)], of "quote_str (fst kv) @ '':''" "[]"] by simp
  then have "sublist (quote_str t) (join '','' (map ?t (sort_key fst es)))"
    using sublist_order.order.trans sublist_join [OF e] by blast
  then show ?case unfolding es(2) by (rule sublist_within)
qed auto

lemma carries_card:
  assumes "marshal v = Some s" "s \<in> set (val_texts (VObj m))" "x \<in> set (val_texts v)" "sublist t x"
  shows "carries m t"
  unfolding carries_def using assms(2-4) marshal_quotes [OF assms(1,3)] by blast

text \<open>The facts, the buttons, the heading and the body, which one provider writes as HTML.\<close>

definition conveys :: "content \<Rightarrow> obj \<Rightarrow> bool" where
  "conveys c m \<longleftrightarrow>
     (\<forall>f \<in> set (nc_facts c). carries m (fact_key f) \<and> carries m (fact_value f)) \<and>
     (\<forall>a \<in> set (nc_actions c). carries m (action_label a) \<and> carries m (action_url a)) \<and>
     carries m (heading c) \<and> (carries m (body_text c) \<or> carries m (html_escape (body_text c)))"

text \<open>
  What each provider has room for: WhatsApp the one-line message, an Enterprise WeChat message
  without buttons the heading and the body, all others everything.
\<close>

definition shown :: "string \<Rightarrow> content \<Rightarrow> content" where
  "shown k c =
     (if k = ''meta_cloud_api''
      then c\<lparr>nc_facts := [], nc_actions := [], nc_title := [], nc_subject := [], nc_markdown := [],
        nc_text := (if nc_provider_template c = None then nc_message c else [])\<rparr>
      else if k = ''enterprise_wechat'' \<and> nc_actions c = [] then c\<lparr>nc_facts := []\<rparr>
      else c)"

definition notification_providers :: "string list" where
  "notification_providers = [''slack'', ''feishu'', ''dingtalk'', ''enterprise_wechat'', ''discord'',
     ''google_workspace'', ''teams'', ''microsoft_365'', ''line_works'', ''line'', ''meta_cloud_api'']"

lemma blank_Nil [simp]: "blank []"
  by (simp add: blank_def)

text \<open>It is enough to name the texts of a set that are carried.\<close>

lemma conveysI:
  assumes "\<And>x s. x \<in> T \<Longrightarrow> sublist s x \<Longrightarrow> carries m s"
    and "\<And>f. f \<in> set (nc_facts c) \<Longrightarrow> k f \<in> T \<and> v f \<in> T \<and> sublist (fact_key f) (k f) \<and> sublist (fact_value f) (v f)"
    and "\<And>a. a \<in> set (nc_actions c) \<Longrightarrow> action_label a \<in> T \<and> action_url a \<in> T"
    and "h \<in> T \<and> sublist (heading c) h"
    and "b \<in> T \<and> (sublist (body_text c) b \<or> sublist (html_escape (body_text c)) b)"
  shows "conveys c m"
  unfolding conveys_def using assms by (blast intro: sublist_order.order.refl)

lemmas conveys_texts = conveysI [where T = "set (val_texts (VObj m))" and m = m for m, OF carries_text]

lemma slack_buttons:
  "a \<in> set as \<Longrightarrow> \<exists>i. (i, a) \<in> set (enumerate n as)"
  by (induction as arbitrary: n) auto

lemma sublist_between: "sublist s (a @ s @ b)" "sublist s (s @ b)" "sublist s (a @ s)"
  by simp_all

lemma marked: "sublist k (a @ k @ b @ v) \<and> sublist v (a @ k @ b @ v)"
  using sublist_between(3) [of v "a @ k @ b"] by simp_all

lemma conveys_slack: "conveys c (compile_slack c)"
proof (rule conveys_texts [where k = "\<lambda>f. ''*'' @ fact_key f @ ''*'' @ nl @ fact_value f"
      and v = "\<lambda>f. ''*'' @ fact_key f @ ''*'' @ nl @ fact_value f" and b = "body_text c"
      and h = "if heading c = [] then nc_message c else heading c"], goal_cases)
  case (3 f)
  have "sublist (fact_key f) (''*'' @ fact_key f @ ''*'' @ nl @ fact_value f)" by (rule sublist_between)
  moreover have "sublist (fact_value f) ((''*'' @ fact_key f @ ''*'' @ nl) @ fact_value f)" by (rule sublist_between)
  ultimately show ?case using 3 by (auto simp: compile_slack_def)
next
  case (4 a)
  from slack_buttons [OF this] obtain i where "(i, a) \<in> set (enumerate 0 (nc_actions c))" by blast
  then show ?case using 4 by (auto simp: compile_slack_def slack_button_def intro!: bexI)
qed (auto simp: compile_slack_def)

lemma conveys_dingtalk: "conveys c (compile_dingtalk c)"
proof (rule conveys_texts [where k = "\<lambda>f. dingtalk_text c" and v = "\<lambda>f. dingtalk_text c"
      and b = "dingtalk_text c" and h = "heading c"], goal_cases)
  let ?w = "\<lambda>f. nl @ nl @ ''**'' @ fact_key f @ [CHR 0xEF, CHR 0xBC, CHR 0x9A] @ ''** '' @ fact_value f"
  let ?a = "''### '' @ heading c @ nl @ nl"
  case (3 f)
  obtain fs gs where "nc_facts c = fs @ f # gs" using 3 by (auto dest: split_list)
  then have t: "dingtalk_text c = (?a @ body_text c @ concat (map ?w fs)) @ ?w f @ concat (map ?w gs)"
    by (simp add: dingtalk_text_def)
  have w: "sublist (fact_key f) (?w f)" "sublist (fact_value f) (?w f)"
    using marked [of "fact_key f" "nl @ nl @ ''**''" "[CHR 0xEF, CHR 0xBC, CHR 0x9A] @ ''** ''" "fact_value f"]
    by simp_all
  have "sublist (fact_key f) (dingtalk_text c)" "sublist (fact_value f) (dingtalk_text c)"
    unfolding t by (rule sublist_within [OF w(1)], rule sublist_within [OF w(2)])
  then show ?case by (simp add: compile_dingtalk_def)
next
  case 6
  have "sublist (body_text c) ((''### '' @ heading c @ nl @ nl) @ body_text c @ concat (map (\<lambda>f.
     nl @ nl @ ''**'' @ fact_key f @ [CHR 0xEF, CHR 0xBC, CHR 0x9A] @ ''** '' @ fact_value f) (nc_facts c)))"
    by (rule sublist_between)
  then show ?case by (simp add: compile_dingtalk_def dingtalk_text_def)
qed (auto simp: compile_dingtalk_def)

lemma conveys_enterprise_wechat:
  "conveys (shown ''enterprise_wechat'' c) (compile_enterprise_wechat c)"
proof (cases "nc_actions c = []")
  case True
  let ?t = "''**'' @ heading c @ ''**'' @ nl @ body_text c"
  have "sublist (heading c) ?t" "sublist (body_text c) ?t"
    using marked [of "heading c" "''**''" "''**'' @ nl" "body_text c"] by simp_all
  moreover have "heading (shown ''enterprise_wechat'' c) = heading c"
    "body_text (shown ''enterprise_wechat'' c) = body_text c"
    by (simp_all add: shown_def heading_def body_text_def)
  ultimately show ?thesis
    using True by (intro conveys_texts [where h = ?t and b = ?t])
      (auto simp: compile_enterprise_wechat_def shown_def)
next
  case False
  then show ?thesis
    by (intro conveys_texts [where k = fact_key and v = fact_value and h = "heading c" and b = "body_text c"])
      (auto simp: compile_enterprise_wechat_def shown_def)
qed

lemma conveys_discord: "conveys c (compile_discord c)"
  by (rule conveys_texts [where k = fact_key and v = fact_value and h = "heading c" and b = "body_text c"])
    (auto simp: compile_discord_def)

lemma conveys_google_chat: "conveys c (compile_google_chat c)"
  by (rule conveys_texts [where k = fact_key and v = fact_value and h = "heading c"
        and b = "html_escape (body_text c)"])
    (auto simp: compile_google_chat_def)

lemma conveys_line: "conveys c (compile_line_message c w)"
  by (rule conveys_texts [where k = fact_key and v = fact_value and h = "heading c" and b = "body_text c"])
    (auto simp: compile_line_message_def Let_def line_fact_def line_button_def)

lemma conveys_whatsapp: "conveys (shown ''meta_cloud_api'' c) (compile_whatsapp c)"
proof (rule conveys_texts [where h = "if nc_provider_template c = None then ''text'' else ''template''" and b = "if nc_provider_template c = None then nc_message c else ''template''"], goal_cases)
  case 5
  then show ?case by (auto simp: shown_def heading_def compile_whatsapp_def split: option.split)
next
  case 6
  show ?case
    by (auto simp: shown_def body_text_def compile_whatsapp_def split: option.split)
qed (auto simp: shown_def)

text \<open>The two cards have a JSON form whatever the content.\<close>

lemma card_finite: "finite_val (feishu_card c)" "finite_val (teams_card c)"
  by (auto simp: feishu_card_def teams_card_def list_all_iff)

lemma conveys_feishu: "\<exists>m. compile_feishu c = Inr m \<and> conveys c m"
proof -
  obtain s where s: "marshal (feishu_card c) = Some s" using marshal_total [OF card_finite(1)] by blast
  obtain m where m: "compile_feishu c = Inr m" "s \<in> set (val_texts (VObj m))"
    using s by (auto simp: compile_feishu_def)
  let ?w = "\<lambda>f. ''**'' @ fact_key f @ ''**'' @ nl @ fact_value f"
  have "sublist (fact_key f) (?w f)" "sublist (fact_value f) (?w f)" for f
    using marked [of "fact_key f" "''**''" "''**'' @ nl" "fact_value f"] by simp_all
  then have "conveys c m"
    by (intro conveysI [where T = "set (val_texts (feishu_card c))" and k = ?w and v = ?w
          and h = "heading c" and b = "body_text c", OF carries_card [OF s m(2)]])
      (auto simp: feishu_card_def)
  then show ?thesis using m(1) by simp
qed

lemma conveys_teams: "\<exists>m. compile_teams c = Inr m \<and> conveys c m"
proof -
  obtain s where s: "marshal (teams_card c) = Some s" using marshal_total [OF card_finite(2)] by blast
  obtain m where m: "compile_teams c = Inr m" "s \<in> set (val_texts (VObj m))"
    using s by (auto simp: compile_teams_def)
  have "conveys c m"
    by (rule conveysI [where T = "set (val_texts (teams_card c))" and k = fact_key and v = fact_value
          and h = "heading c" and b = "body_text c", OF carries_card [OF s m(2)]])
      (auto simp: teams_card_def)
  then show ?thesis using m(1) by simp
qed

lemma shown_other: "k \<noteq> ''meta_cloud_api'' \<Longrightarrow> k \<noteq> ''enterprise_wechat'' \<Longrightarrow> shown k c = c"
  by (simp add: shown_def)

text \<open>
  C30: a notification is compiled exactly for the known providers, and the message carries the
  heading, the body, every fact and every button with its address; only WhatsApp is reduced to
  the one-line message, and an Enterprise WeChat message without buttons loses its facts.
\<close>
theorem notification_conveys:
  "case compile_content p c of
     Inl e \<Rightarrow> trim_space p \<notin> set notification_providers
   | Inr m \<Rightarrow> trim_space p \<in> set notification_providers \<and> conveys (shown (trim_space p) c) m"
proof -
  obtain f t where "compile_feishu c = Inr f" "conveys c f" "compile_teams c = Inr t" "conveys c t"
    using conveys_feishu conveys_teams by blast
  then show ?thesis
    by (simp add: compile_content_def Let_def notification_providers_def conveys_slack conveys_dingtalk
        conveys_enterprise_wechat conveys_discord conveys_google_chat conveys_line conveys_whatsapp shown_other)
qed

end
