(* ===== verification/Meta.thy ===== *)
theory Meta
  imports ApiCall Notification
begin

text \<open>
  Meta's Graph API providers: WhatsApp (\<^verbatim>\<open>providers/whatsapp/meta_cloud_api\<close>) and Facebook
  Messenger (\<^verbatim>\<open>providers/social_message/facebook_messenger\<close>). Their webhook verifiers have one
  shape: the answer to a subscription challenge, or a body signed with the app secret.
\<close>

section \<open>Graph calls\<close>

definition graph_base :: "(string \<Rightarrow> string) \<Rightarrow> string" where
  "graph_base cfg = (let v = trim_right_char (CHR ''/'') (cfg ''base_url'') in
     if v \<noteq> [] then v
     else ''https://graph.facebook.com/'' @ (if cfg ''graph_version'' = [] then ''v23.0'' else cfg ''graph_version''))"

definition graph_request :: "string \<Rightarrow> string \<Rightarrow> string \<Rightarrow> string \<Rightarrow> val option \<Rightarrow> string option \<Rightarrow> http_request" where
  "graph_request base token mth pth payload body =
     (plain_request mth (base @ pth)
       ([(''Accept'', [''application/json''])]
        @ (if payload = None then [] else [(''Content-Type'', [''application/json''])]))
       (case body of None \<Rightarrow> [] | Some s \<Rightarrow> s))
     \<lparr>req_secret_headers := [(''Authorization'', [''Bearer '' @ token])], req_max := 4194304\<rparr>"

text \<open>The request of an execution, after the checks of the connection.\<close>

definition graph_plan ::
  "(string \<Rightarrow> string \<Rightarrow> gerr) \<Rightarrow> gerr option \<Rightarrow> string \<Rightarrow> secrets \<Rightarrow> string \<Rightarrow> string \<Rightarrow> val option
    \<Rightarrow> typed + http_request" where
  "graph_plan err invalid base ss mth pth payload =
     (case invalid of Some e \<Rightarrow> Inl (failed e) | None \<Rightarrow>
     (let token = trim_space (secret ss ''access_token'') in
      if token = [] then Inl (failed (err ''access_token_required'' ''resolved access token is required''))
      else (case payload of
        None \<Rightarrow> Inr (graph_request base token mth pth None None)
      | Some v \<Rightarrow> (case marshal v of
          None \<Rightarrow> Inl (failed (err ''request_invalid'' ''request is invalid''))
        | Some b \<Rightarrow> Inr (graph_request base token mth pth payload (Some b))))))"

section \<open>WhatsApp\<close>

definition whatsapp_error :: "string \<Rightarrow> string \<Rightarrow> gerr" where
  "whatsapp_error suf msg = Permanent (''whatsapp.'' @ suf) (Msg msg)"

definition whatsapp_base :: "connection \<Rightarrow> string" where
  "whatsapp_base c = graph_base (clean_at (config c))"

definition whatsapp_validate :: "connection \<Rightarrow> gerr option" where
  "whatsapp_validate c =
     (if clean_at (config c) ''phone_number_id'' = []
      then Some (whatsapp_error ''phone_number_id_required'' ''phone_number_id is required'')
      else if \<not> web_endpoint loopback127 (whatsapp_base c)
      then Some (whatsapp_error ''endpoint_invalid'' ''HTTPS or loopback HTTP endpoint is required'')
      else None)"

text \<open>The reference of a sent message, and the shape of a list of templates.\<close>

definition whatsapp_ok :: "obj \<Rightarrow> string \<Rightarrow> val \<times> string" where
  "whatsapp_ok m ref =
     (let i = (case as_arr (at m ''messages'') of [] \<Rightarrow> [] | v # _ \<Rightarrow> clean_at (as_obj v) ''id'') in
      (case at m ''data'' of
         VArr vs \<Rightarrow> VObj [(''templates'', VArr vs), (''paging'', at m ''paging'')]
       | _ \<Rightarrow> VNil,
       if i = [] then ref else ''whatsapp:'' @ i))"

definition whatsapp_plan :: "connection \<Rightarrow> secrets \<Rightarrow> string \<Rightarrow> string \<Rightarrow> val option \<Rightarrow> typed + http_request" where
  "whatsapp_plan c ss mth pth payload =
     graph_plan whatsapp_error (whatsapp_validate c) (whatsapp_base c) ss mth pth payload"

definition whatsapp_execute where
  "whatsapp_execute c ss mth pth payload write = run_plan (whatsapp_plan c ss mth pth payload)
     (api_read ''whatsapp'' ''WhatsApp'' (\<lambda>m. []) whatsapp_ok write)"

definition whatsapp_path :: "connection \<Rightarrow> string \<Rightarrow> string" where
  "whatsapp_path c s = ''/'' @ path_escape (clean_at (config c) ''phone_number_id'') @ s"

definition whatsapp_test :: "connection \<Rightarrow> secrets \<Rightarrow> http \<Rightarrow> http_request list \<Rightarrow> http_request list \<times> typed" where
  "whatsapp_test c ss = whatsapp_execute c ss ''GET''
     (whatsapp_path c ''?fields=id%2Cdisplay_phone_number%2Cverified_name'') None False"

definition whatsapp_test_connection where
  "whatsapp_test_connection c ss T sent = test_details (whatsapp_test c ss T sent)"

record whatsapp_input =
  wa_recipient :: string
  wa_message :: string
  wa_payload :: obj
  wa_content :: obj

definition whatsapp_message :: "whatsapp_input \<Rightarrow> obj res" where
  "whatsapp_message i =
     (let recipient = trim_space (wa_recipient i); message = trim_space (wa_message i) in
      if recipient = [] \<or> message = []
      then Inl (whatsapp_error ''message_invalid'' ''recipient and message are required'')
      else (case resolve_payload ''meta_cloud_api'' (wa_content i) (wa_payload i) of
        Inl e \<Rightarrow> Inl (Permanent ''whatsapp.notification_content_invalid'' (content_cause e))
      | Inr m \<Rightarrow>
          (let p = (if m = [] then [(''type'', VStr ''text''),
              (''text'', VObj [(''preview_url'', VBool False), (''body'', VStr message)])] else m) in
           Inr (put ''to'' (VStr recipient) (put ''recipient_type'' (VStr ''individual'')
             (put ''messaging_product'' (VStr ''whatsapp'') p))))))"

definition whatsapp_send ::
  "connection \<Rightarrow> secrets \<Rightarrow> whatsapp_input \<Rightarrow> http \<Rightarrow> http_request list \<Rightarrow> http_request list \<times> typed" where
  "whatsapp_send c ss i T sent = (case whatsapp_message i of
     Inl e \<Rightarrow> (sent, failed e)
   | Inr p \<Rightarrow> whatsapp_execute c ss ''POST'' (whatsapp_path c ''/messages'') (Some (VObj p)) True T sent)"

definition whatsapp_list_templates ::
  "connection \<Rightarrow> secrets \<Rightarrow> string \<Rightarrow> http \<Rightarrow> http_request list \<Rightarrow> http_request list \<times> typed" where
  "whatsapp_list_templates c ss status T sent =
     (let account = clean_at (config c) ''business_account_id''; st = to_upper (trim_space status);
          q = [(''fields'', [''name,status,language,category,components'']), (''limit'', [''200''])] in
      if account = []
      then (sent, failed (whatsapp_error ''business_account_id_required'' ''business_account_id is required''))
      else whatsapp_execute c ss ''GET'' (''/'' @ path_escape account @ ''/message_templates?''
        @ encode_values (if st = [] then q else put ''status'' [st] q)) None False T sent)"

lemma graph_plan_permanent:
  assumes "\<And>suf msg. is_permanent (err suf msg)" "\<And>e. invalid = Some e \<Longrightarrow> is_permanent e"
    "graph_plan err invalid base ss mth pth payload = Inl x"
  shows "\<exists>e. typed_err x = Some e \<and> is_permanent e"
  using assms by (auto simp: graph_plan_def failed_def Let_def split: option.splits if_splits)

lemma whatsapp_validate_permanent: "whatsapp_validate c = Some e \<Longrightarrow> is_permanent e"
  by (auto simp: whatsapp_validate_def whatsapp_error_def split: if_splits)

interpretation whatsapp_writes: api_write "whatsapp_execute c ss mth pth payload True"
  "whatsapp_plan c ss mth pth payload" "''whatsapp''" "''WhatsApp''" "\<lambda>m. []" whatsapp_ok
  for c ss mth pth payload
proof
  fix x assume "whatsapp_plan c ss mth pth payload = Inl x"
  then show "\<exists>e. typed_err x = Some e \<and> is_permanent e"
    unfolding whatsapp_plan_def
    by (rule graph_plan_permanent [rotated 2]) (simp_all add: whatsapp_error_def whatsapp_validate_permanent)
qed (simp add: whatsapp_execute_def)

lemma whatsapp_cautious:
  "cautious_run T sent (whatsapp_send c ss i T sent) (typed_err (snd (whatsapp_send c ss i T sent)))"
proof -
  have "is_permanent e" if "whatsapp_message i = Inl e" for e
    using that by (auto simp: whatsapp_message_def whatsapp_error_def Let_def split: if_splits sum.splits)
  then show ?thesis
    by (simp add: whatsapp_send_def cautious_refused whatsapp_writes.cautious split: sum.split)
qed

section \<open>Facebook Messenger\<close>

text \<open>Here a missing configuration value reads as \<open><nil>\<close>, not as empty.\<close>

definition messenger_text :: "connection \<Rightarrow> string \<Rightarrow> string" where
  "messenger_text c k = trim_space (sprint (at (config c) k))"

definition messenger_error :: "string \<Rightarrow> string \<Rightarrow> gerr" where
  "messenger_error suf msg = Permanent (''facebook_messenger.'' @ suf) (Msg msg)"

definition messenger_base :: "connection \<Rightarrow> string" where
  "messenger_base c = graph_base (messenger_text c)"

definition messenger_validate :: "connection \<Rightarrow> gerr option" where
  "messenger_validate c =
     (if messenger_text c ''page_id'' = [] then Some (messenger_error ''page_id_required'' ''page_id is required'')
      else if \<not> web_endpoint loopback127 (messenger_base c)
      then Some (messenger_error ''endpoint_invalid'' ''HTTPS or loopback HTTP endpoint is required'')
      else None)"

definition messenger_ok :: "obj \<Rightarrow> string \<Rightarrow> val \<times> string" where
  "messenger_ok m ref = (VNil, if clean_at m ''message_id'' = [] then ref else ''facebook:'' @ clean_at m ''message_id'')"

definition messenger_plan :: "connection \<Rightarrow> secrets \<Rightarrow> string \<Rightarrow> string \<Rightarrow> val option \<Rightarrow> typed + http_request" where
  "messenger_plan c ss mth pth payload =
     graph_plan messenger_error (messenger_validate c) (messenger_base c) ss mth pth payload"

definition messenger_execute where
  "messenger_execute c ss mth pth payload write = run_plan (messenger_plan c ss mth pth payload)
     (api_read ''facebook_messenger'' ''Facebook Messenger'' (\<lambda>m. []) messenger_ok write)"

definition messenger_path :: "connection \<Rightarrow> string \<Rightarrow> string" where
  "messenger_path c s = ''/'' @ path_escape (messenger_text c ''page_id'') @ s"

definition messenger_send ::
  "connection \<Rightarrow> secrets \<Rightarrow> string \<Rightarrow> string \<Rightarrow> http \<Rightarrow> http_request list \<Rightarrow> http_request list \<times> typed" where
  "messenger_send c ss recipient message T sent =
     (if trim_space recipient = [] \<or> trim_space message = []
      then (sent, failed (messenger_error ''message_invalid'' ''recipient_id and message are required''))
      else messenger_execute c ss ''POST'' (messenger_path c ''/messages'') (Some (VObj
        [(''messaging_type'', VStr ''RESPONSE''), (''recipient'', VObj [(''id'', VStr recipient)]),
         (''message'', VObj [(''text'', VStr message)])])) True T sent)"

definition messenger_test :: "connection \<Rightarrow> secrets \<Rightarrow> http \<Rightarrow> http_request list \<Rightarrow> http_request list \<times> typed" where
  "messenger_test c ss = messenger_execute c ss ''GET'' (messenger_path c ''?fields=id%2Cname'') None False"

definition messenger_test_connection where
  "messenger_test_connection c ss T sent = test_details (messenger_test c ss T sent)"

lemma messenger_validate_permanent: "messenger_validate c = Some e \<Longrightarrow> is_permanent e"
  by (auto simp: messenger_validate_def messenger_error_def split: if_splits)

interpretation messenger_writes: api_write "messenger_execute c ss mth pth payload True"
  "messenger_plan c ss mth pth payload" "''facebook_messenger''" "''Facebook Messenger''" "\<lambda>m. []" messenger_ok
  for c ss mth pth payload
proof
  fix x assume "messenger_plan c ss mth pth payload = Inl x"
  then show "\<exists>e. typed_err x = Some e \<and> is_permanent e"
    unfolding messenger_plan_def
    by (rule graph_plan_permanent [rotated 2]) (simp_all add: messenger_error_def messenger_validate_permanent)
qed (simp add: messenger_execute_def)

lemma messenger_cautious:
  "cautious_run T sent (messenger_send c ss rcp msg T sent) (typed_err (snd (messenger_send c ss rcp msg T sent)))"
  by (simp add: messenger_send_def cautious_refused messenger_error_def messenger_writes.cautious)

section \<open>Webhooks\<close>

definition signed_by_app :: "webhook_request \<Rightarrow> bool" where
  "signed_by_app r \<longleftrightarrow> to_lower (header_trimmed (wh_headers r) ''X-Hub-Signature-256'')
     = ''sha256='' @ hmac_sha256_hex (secret (wh_secrets r) ''app_secret'') (wh_body r)"

text \<open>
  \<open>err\<close> makes the provider's errors, \<open>token_key\<close> names the secret of the subscription and
  \<open>event_of\<close> reads the event from the payload.
\<close>

definition hub_verify ::
  "(string \<Rightarrow> string \<Rightarrow> gerr) \<Rightarrow> string \<Rightarrow> (obj \<Rightarrow> verified_webhook) \<Rightarrow> webhook_request \<Rightarrow> verified_webhook res" where
  "hub_verify err token_key event_of r =
     (case wh_context r of Some m \<Rightarrow> Inl (Plain m) | None \<Rightarrow>
     (let challenge = header_trimmed (wh_query r) ''hub.challenge''; token = secret (wh_secrets r) token_key in
      if challenge \<noteq> [] then
        (if header_trimmed (wh_query r) ''hub.mode'' \<noteq> ''subscribe'' \<or> token = []
            \<or> token \<noteq> header_trimmed (wh_query r) ''hub.verify_token''
         then Inl (err ''webhook_verify_token_invalid'' ''webhook verify token is invalid'')
         else Inr ((plain_event ''url_verification'' (''challenge:'' @ challenge) [])
           \<lparr>event_challenge := challenge, challenge_format := ''text/plain''\<rparr>))
      else if secret (wh_secrets r) ''app_secret'' = []
      then Inl (err ''app_secret_required'' ''resolved app secret is required'')
      else if \<not> signed_by_app r then Inl (err ''webhook_signature_invalid'' ''webhook signature is invalid'')
      else (case decode_map (wh_body r) of
        None \<Rightarrow> Inl (err ''webhook_payload_invalid'' ''webhook payload is invalid'')
      | Some p \<Rightarrow> (let v = event_of (as_obj p) in
          if event_type v = [] \<or> external_id v = []
          then Inl (err ''webhook_identity_missing'' ''webhook identity is missing'')
          else Inr (v\<lparr>event_payload := marshal_or [] p\<rparr>)))))"

definition no_event :: verified_webhook where
  "no_event = plain_event [] [] []"

text \<open>The first message or status of the first change that has one.\<close>

definition whatsapp_status_error :: "obj \<Rightarrow> string" where
  "whatsapp_status_error status = (case as_arr (at status ''errors'') of [] \<Rightarrow> []
     | v # _ \<Rightarrow> first_text (map (clean_at (as_obj v)) [''title'', ''message'', ''code'']))"

definition whatsapp_change :: "obj \<Rightarrow> verified_webhook option" where
  "whatsapp_change v = (case as_arr (at v ''messages'') of
     m # _ \<Rightarrow> Some ((plain_event ''message'' (clean_at (as_obj m) ''id'') [])
       \<lparr>event_identity := identity_of (clean_at (as_obj m) ''from'') ''phone'' [] []\<rparr>)
   | [] \<Rightarrow> (case as_arr (at v ''statuses'') of
       s # _ \<Rightarrow> (let st = as_obj s; i = clean_at st ''id''; state = clean_at st ''status'' in
         Some ((plain_event (''message_status.'' @ state) i [])
           \<lparr>event_receipt := Some \<lparr>receipt_ref = ''whatsapp:'' @ i, receipt_status = state,
              receipt_error = whatsapp_status_error st,
              receipt_time = Some (fst (parse_int64 (clean_at st ''timestamp'')) * nanos)\<rparr>\<rparr>))
     | [] \<Rightarrow> None))"

definition first_some :: "'a option list \<Rightarrow> 'a option" where
  "first_some xs = (case dropWhile ((=) None) xs of [] \<Rightarrow> None | x # _ \<Rightarrow> x)"

definition whatsapp_event :: "obj \<Rightarrow> verified_webhook" where
  "whatsapp_event p = (case first_some (concat (map (\<lambda>e. map (\<lambda>ch.
       whatsapp_change (as_obj (at (as_obj ch) ''value''))) (as_arr (at (as_obj e) ''changes'')))
       (as_arr (at p ''entry'')))) of
     None \<Rightarrow> no_event | Some v \<Rightarrow> v)"

definition whatsapp_verify :: "webhook_request \<Rightarrow> verified_webhook res" where
  "whatsapp_verify = hub_verify whatsapp_error ''webhook_verify_token'' whatsapp_event"

definition messenger_message :: "obj \<Rightarrow> verified_webhook option" where
  "messenger_message m =
     (let sender = identity_of (clean_at (as_obj (at m ''sender'')) ''id'') ''social_user'' [] [] in
      if is_obj (at m ''message'')
      then Some ((plain_event ''message'' (clean_at (as_obj (at m ''message'')) ''mid'') [])\<lparr>event_identity := sender\<rparr>)
      else if is_obj (at m ''delivery'')
      then (let d = as_obj (at m ''delivery'') in
        Some ((plain_event ''message.delivery'' (case as_arr (at d ''mids'') of
            v # _ \<Rightarrow> clean v
          | [] \<Rightarrow> ''watermark:'' @ clean_at d ''watermark'') [])\<lparr>event_identity := sender\<rparr>))
      else None)"

definition messenger_event :: "obj \<Rightarrow> verified_webhook" where
  "messenger_event p = (case first_some (concat (map (\<lambda>e. map (\<lambda>m. messenger_message (as_obj m))
       (as_arr (at (as_obj e) ''messaging''))) (as_arr (at p ''entry'')))) of
     None \<Rightarrow> no_event | Some v \<Rightarrow> v)"

definition messenger_verify :: "webhook_request \<Rightarrow> verified_webhook res" where
  "messenger_verify = hub_verify messenger_error ''webhook_secret'' messenger_event"

text \<open>What Meta's documentation asks of a delivery: a known verify token, or the app's signature.\<close>

definition hub_authentic :: "string \<Rightarrow> webhook_request \<Rightarrow> bool" where
  "hub_authentic token_key r \<longleftrightarrow>
     (if header_trimmed (wh_query r) ''hub.challenge'' \<noteq> []
      then header_trimmed (wh_query r) ''hub.mode'' = ''subscribe'' \<and> secret (wh_secrets r) token_key \<noteq> []
        \<and> header_trimmed (wh_query r) ''hub.verify_token'' = secret (wh_secrets r) token_key
      else secret (wh_secrets r) ''app_secret'' \<noteq> [] \<and> signed_by_app r)"

definition hub_named :: "(obj \<Rightarrow> verified_webhook) \<Rightarrow> webhook_request \<Rightarrow> bool" where
  "hub_named event_of r \<longleftrightarrow> header_trimmed (wh_query r) ''hub.challenge'' \<noteq> [] \<or>
     (case decode_map (wh_body r) of None \<Rightarrow> False | Some p \<Rightarrow> identified (event_of (as_obj p)))"

lemma hub_verifier:
  assumes "\<And>suf msg. is_permanent (err suf msg)"
  shows "webhook_verifier (hub_verify err key event_of) (hub_authentic key) (hub_named event_of)"
proof (unfold_locales, goal_cases)
  case (1 r)
  show ?case
    by (auto simp: hub_verify_def hub_authentic_def hub_named_def identified_def Let_def split: option.splits)
next
  case (2 r v)
  then show ?case
    by (auto simp: hub_verify_def identified_def plain_event_def Let_def split: option.splits if_splits)
next
  case (3 r)
  then show ?case using assms by (simp add: hub_verify_def permanent_only_def Let_def split: option.split)
next
  case (4 r m)
  then show ?case by (simp add: hub_verify_def)
qed

interpretation whatsapp_hooks: webhook_verifier whatsapp_verify "hub_authentic ''webhook_verify_token''"
  "hub_named whatsapp_event"
  unfolding whatsapp_verify_def by (rule hub_verifier) (simp add: whatsapp_error_def)

interpretation messenger_hooks: webhook_verifier messenger_verify "hub_authentic ''webhook_secret''"
  "hub_named messenger_event"
  unfolding messenger_verify_def by (rule hub_verifier) (simp add: messenger_error_def)

end
