(* ===== verification/GoText.thy ===== *)
theory GoText
  imports JsonText
begin

text \<open>
  More of Go's \<open>strings\<close> and \<open>unicode/utf8\<close>: replacement, sets of characters, the runes of a
  concatenation, and the repair of invalid UTF-8.
\<close>

section \<open>Replacement\<close>

text \<open>\<open>strings.ReplaceAll\<close> for an old text that is not empty.\<close>

function replace_all :: "string \<Rightarrow> string \<Rightarrow> string \<Rightarrow> string" where
  "replace_all old new s =
     (if s = [] \<or> old = [] then s
      else if has_prefix s old then new @ replace_all old new (drop (length old) s)
      else hd s # replace_all old new (tl s))"
  by pat_completeness auto
termination
  by (relation "measure (\<lambda>(old, new, s). length s)") auto

declare replace_all.simps [simp del]

definition contains_any_char :: "string \<Rightarrow> string \<Rightarrow> bool" where
  "contains_any_char s cs \<longleftrightarrow> list_ex (\<lambda>c. c \<in> set cs) s"

definition trim_prefix :: "string \<Rightarrow> string \<Rightarrow> string" where
  "trim_prefix s p = (if has_prefix s p then drop (length p) s else s)"

lemma set_replace_all: "set (replace_all old new s) \<subseteq> set new \<union> set s"
proof (induction old new s rule: replace_all.induct)
  case (1 old new s)
  show ?case
  proof (cases "s = [] \<or> old = []")
    case True
    then show ?thesis by (auto simp: replace_all.simps [of old new s])
  next
    case False
    then have "set (tl s) \<subseteq> set s" by (cases s) auto
    with 1 False show ?thesis
      using set_drop_subset [of "length old" s] hd_in_set [of s]
      by (auto simp: replace_all.simps [of old new s])
  qed
qed

section \<open>Runes of a concatenation\<close>

lemma valid_utf8_Nil [simp]: "valid_utf8 []"
  by (simp add: valid_utf8.simps)

lemma runes_Nil [simp]: "runes [] = []"
  by (simp add: runes.simps)

text \<open>One whole rune at the head.\<close>

lemma rune_head:
  assumes "rune_len s = k" "k \<noteq> 0"
  shows "valid_utf8 (take k s @ r) = valid_utf8 r"
    and "runes (take k s @ r) = decode_rune (take k s) # runes r"
proof -
  have k: "rune_len (take k s @ r) = k" by (rule rune_len_prefix [OF assms])
  have l: "k \<le> length s" using rune_len_le [of s] assms(1) by simp
  have ne: "take k s @ r \<noteq> []" using assms l by (cases s) auto
  have d: "drop k (take k s @ r) = r" "take k (take k s @ r) = take k s" using l by simp_all
  show "valid_utf8 (take k s @ r) = valid_utf8 r"
    using ne d assms(2) by (subst valid_utf8.simps) (simp only: k if_False simp_thms)
  show "runes (take k s @ r) = decode_rune (take k s) # runes r"
    using ne d assms(2) by (subst runes.simps) (simp only: k if_False simp_thms)
qed

lemma valid_utf8_append: "valid_utf8 s \<Longrightarrow> valid_utf8 (s @ r) = valid_utf8 r \<and> runes (s @ r) = runes s @ runes r"
proof (induction s rule: valid_utf8.induct)
  case (1 s)
  show ?case
  proof (cases "s = []")
    case False
    define k where "k = rune_len s"
    have k: "k \<noteq> 0" "valid_utf8 (drop k s)"
      using 1(2) False by (simp_all add: valid_utf8.simps [of s] k_def split: if_splits)
    have IH: "valid_utf8 (drop k s @ r) = valid_utf8 r" "runes (drop k s @ r) = runes (drop k s) @ runes r"
      using 1(1) [OF False _ k(2) [unfolded k_def]] k(1) by (simp_all add: k_def)
    have s: "s @ r = take k s @ (drop k s @ r)" "s = take k s @ drop k s" by simp_all
    show ?thesis
      using rune_head [OF k_def [symmetric] k(1), of "drop k s @ r"]
        rune_head(2) [OF k_def [symmetric] k(1), of "drop k s"] IH
      by (simp only: s(1) [symmetric] s(2) [symmetric] append_Cons simp_thms)
  qed simp
qed

section \<open>Repair\<close>

text \<open>\<open>strings.ToValidUTF8(s, "\<^verbatim>\<open>U+FFFD\<close>")\<close>: a run of invalid bytes gives one replacement.\<close>

function repair_utf8 :: "bool \<Rightarrow> string \<Rightarrow> string" where
  "repair_utf8 bad s =
     (if s = [] then []
      else if rune_len s = 0 then (if bad then [] else rune_error) @ repair_utf8 True (tl s)
      else take (rune_len s) s @ repair_utf8 False (drop (rune_len s) s))"
  by pat_completeness auto
termination
  by (relation "measure (\<lambda>(bad, s). length s)") auto

declare repair_utf8.simps [simp del]

definition to_valid_utf8 :: "string \<Rightarrow> string" where
  "to_valid_utf8 s = repair_utf8 False s"

lemma rune_error_valid: "valid_utf8 rune_error"
  by code_simp

lemma valid_repair: "valid_utf8 (repair_utf8 bad s)"
proof (induction bad s rule: repair_utf8.induct)
  case (1 bad s)
  define k where "k = rune_len s"
  show ?case
  proof (cases "s = []")
    case False
    show ?thesis
    proof (cases "k = 0")
      case True
      then show ?thesis
        using False 1(1) rune_error_valid valid_utf8_append
        by (subst repair_utf8.simps) (simp add: k_def del: rune_len.simps)
    next
      case k: False
      have "valid_utf8 (repair_utf8 False (drop k s))" using 1(2) [OF False] k by (simp add: k_def)
      moreover have "repair_utf8 bad s = take k s @ repair_utf8 False (drop k s)"
        using False k by (subst repair_utf8.simps) (simp only: k_def [symmetric] if_False simp_thms)
      ultimately show ?thesis using rune_head(1) [OF k_def [symmetric] k] by (simp only:)
    qed
  qed (simp add: repair_utf8.simps)
qed

lemma valid_to_valid_utf8: "valid_utf8 (to_valid_utf8 s)"
  by (simp add: to_valid_utf8_def valid_repair)

lemma repair_valid: "valid_utf8 s \<Longrightarrow> repair_utf8 bad s = s"
proof (induction bad s rule: repair_utf8.induct)
  case (1 bad s)
  define k where "k = rune_len s"
  show ?case
  proof (cases "s = []")
    case False
    then have k: "k \<noteq> 0" "valid_utf8 (drop k s)"
      using 1(3) by (simp_all add: valid_utf8.simps [of s] k_def split: if_splits)
    then have "repair_utf8 False (drop k s) = drop k s" using 1(2) [OF False] by (simp add: k_def)
    then show ?thesis
      using False k by (subst repair_utf8.simps) (simp only: k_def [symmetric] if_False simp_thms append_take_drop_id)
  qed (simp add: repair_utf8.simps)
qed

text \<open>Cutting back to the last whole rune.\<close>

function cut_back :: "string \<Rightarrow> string" where
  "cut_back s = (if valid_utf8 s then s else cut_back (butlast s))"
  by pat_completeness auto
termination
  by (relation "measure length") (auto simp: length_butlast intro!: diff_less)

declare cut_back.simps [simp del]

lemma cut_back_props: "valid_utf8 (cut_back s) \<and> prefix (cut_back s) s"
proof (induction s rule: cut_back.induct)
  case (1 s)
  show ?case
  proof (cases "valid_utf8 s")
    case False
    have "prefix (butlast s) s" by (rule prefixeq_butlast)
    then show ?thesis
      using 1 False by (auto simp: cut_back.simps [of s] intro: prefix_order.trans)
  qed (simp add: cut_back.simps)
qed

text \<open>It cuts no further than needed, which is at most three bytes from the end of valid text.\<close>

lemma cut_back_longest: "valid_utf8 p \<Longrightarrow> prefix p s \<Longrightarrow> length p \<le> length (cut_back s)"
proof (induction s rule: cut_back.induct)
  case (1 s)
  show ?case
  proof (cases "valid_utf8 s")
    case True
    then show ?thesis using 1(3) by (simp add: cut_back.simps prefix_length_le)
  next
    case False
    then have "p \<noteq> s" using 1(2) by blast
    then have "prefix p (butlast s)" using 1(3) by (cases s rule: rev_cases) (auto simp: prefix_snoc)
    then show ?thesis using 1 False by (simp add: cut_back.simps [of s])
  qed
qed

lemma rune_boundary:
  "valid_utf8 s \<Longrightarrow> n \<le> length s \<Longrightarrow> \<exists>m \<le> n. n < m + 4 \<and> valid_utf8 (take m s)"
proof (induction s arbitrary: n rule: valid_utf8.induct)
  case (1 s)
  show ?case
  proof (cases "s = []")
    case True
    then show ?thesis using 1(3) by simp
  next
    case False
    define k where "k = rune_len s"
    have k: "k \<noteq> 0" "valid_utf8 (drop k s)" "k \<le> 4"
      using 1(2) False rune_len_4 [of s] by (simp_all add: valid_utf8.simps [of s] k_def split: if_splits)
    show ?thesis
    proof (cases "n < k")
      case True
      then show ?thesis using k(3) by (intro exI [of _ 0]) simp
    next
      case False
      have "n - k \<le> length (drop k s)" using 1(3) by simp
      from 1(1) [OF \<open>s \<noteq> []\<close> _ k(2) [unfolded k_def] this [unfolded k_def]] k(1)
      obtain m where m: "m \<le> n - k" "n - k < m + 4" "valid_utf8 (take m (drop k s))"
        unfolding k_def by blast
      have "take (k + m) s = take k s @ take m (drop k s)" by (simp add: take_add)
      then have "valid_utf8 (take (k + m) s)" using rune_head(1) [OF k_def [symmetric] k(1)] m(3) by simp
      moreover have "k + m \<le> n" "n < k + m + 4" using m(1,2) False by linarith+
      ultimately show ?thesis by blast
    qed
  qed
qed

lemma take_is_prefix_take: "m \<le> n \<Longrightarrow> prefix (take m s) (take n s)"
  by (metis append_take_drop_id min.absorb1 prefixI take_take)

lemma cut_back_tight:
  assumes "valid_utf8 s" "n \<le> length s"
  shows "n < length (cut_back (take n s)) + 4"
proof -
  obtain m where m: "m \<le> n" "n < m + 4" "valid_utf8 (take m s)" using rune_boundary [OF assms] by blast
  have "prefix (take m s) (take n s)" using m(1) by (simp add: take_is_prefix_take)
  then have "m \<le> length (cut_back (take n s))" using cut_back_longest [OF m(3)] m(1) assms(2) by force
  then show ?thesis using m(2) by simp
qed

end
