(* ===== verification/Tally.thy ===== *)
theory Tally
  imports ApiCall GoText
begin

text \<open>
  The Tally protocol (\<^verbatim>\<open>internal/tally/protocol.go\<close>) and the two providers that are its
  shells (\<^verbatim>\<open>providers/website_form/tally\<close> and \<^verbatim>\<open>providers/lead_source/tally\<close>).
\<close>

section \<open>Values\<close>

text \<open>\<open>FirstValue\<close> takes the first printed value that is not empty.\<close>

definition first_value :: "val list \<Rightarrow> string" where
  "first_value vs = first_text (map clean vs)"

definition tally_error :: "string \<Rightarrow> string \<Rightarrow> gerr" where
  "tally_error code msg = Permanent (''tally.'' @ code) (Msg msg)"

definition tally_base :: "connection \<Rightarrow> string" where
  "tally_base c = (let v = trim_right_char (CHR ''/'') (map_string (config c) ''base_url'') in
     if v \<noteq> [] then v else ''https://api.tally.so'')"

definition tally_version :: "connection \<Rightarrow> string" where
  "tally_version c = (let v = map_string (config c) ''api_version'' in if v \<noteq> [] then v else ''2026-02-05'')"

text \<open>\<open>time.Parse("2006-01-02", s)\<close> succeeds.\<close>

definition day_text :: "string \<Rightarrow> bool" where
  "day_text s \<longleftrightarrow> parse_day s \<noteq> None"

definition tally_validate :: "connection \<Rightarrow> gerr option" where
  "tally_validate c =
     (if trim_space (map_string (config c) ''form_id'') = []
      then Some (tally_error ''form_id_required'' ''form ID is required'')
      else if (case url_parse (tally_base c) of None \<Rightarrow> True
         | Some u \<Rightarrow> host u = [] \<or> user u \<noteq> None
             \<or> \<not> (scheme u = ''https'' \<or> scheme u = ''http'' \<and> is_loopback (hostname u)))
      then Some (tally_error ''endpoint_invalid'' ''HTTPS or loopback HTTP endpoint is required'')
      else if \<not> day_text (tally_version c)
      then Some (tally_error ''api_version_invalid'' ''Tally API version must be YYYY-MM-DD'')
      else None)"

section \<open>The connection test\<close>

definition tally_plan :: "connection \<Rightarrow> secrets \<Rightarrow> typed + http_request" where
  "tally_plan c ss = (case tally_validate c of Some e \<Rightarrow> Inl (failed e) | None \<Rightarrow>
     (let token = trim_space (secret ss ''api_token'') in
      if token = [] then Inl (failed (tally_error ''api_token_required'' ''resolved API token is required''))
      else Inr ((plain_request ''GET'' (tally_base c @ ''/forms/'' @ path_escape (map_string (config c) ''form_id''))
          [(''Accept'', [''application/json'']), (''tally-version'', [tally_version c])] [])
        \<lparr>req_secret_headers := [(''Authorization'', [''Bearer '' @ token])], req_max := 4194304\<rparr>)))"

definition tally_read :: "string + http_response \<Rightarrow> typed" where
  "tally_read answer = (case answer of
     Inl m \<Rightarrow> failed (Retryable ''tally.network_error'' (TransportErr m))
   | Inr resp \<Rightarrow>
     (let n = resp_status resp; ref = ''http:'' @ itoa n in
      case decode_map (resp_body resp) of
        None \<Rightarrow> (VNil, ref, Some (tally_error ''response_invalid'' ''provider response is invalid JSON''))
      | Some p \<Rightarrow>
         (let i = map_string (as_obj p) ''id''; code = ''tally.http_'' @ itoa n;
              cause = Msg (''provider returned HTTP '' @ itoa n) in
          if \<not> ok_status n
          then (p, ref, Some ((if n = 429 \<or> n \<ge> 500 then Retryable else Permanent) code cause))
          else (p, if i = [] then ref else ''tally:form:'' @ i, None))))"

definition tally_test :: "connection \<Rightarrow> secrets \<Rightarrow> http \<Rightarrow> http_request list \<Rightarrow> http_request list \<times> typed" where
  "tally_test c ss = run_plan (tally_plan c ss) tally_read"

text \<open>The shells report the form, on a failure too.\<close>

definition tally_call ::
  "connection \<Rightarrow> secrets \<Rightarrow> http \<Rightarrow> http_request list \<Rightarrow> http_request list \<times> typed" where
  "tally_call c ss T sent = (case tally_test c ss T sent of (sent', form, ref, err) \<Rightarrow>
     (sent', VObj [(''connected'', VBool (err = None)), (''form'', form)], ref, err))"

definition tally_test_connection ::
  "connection \<Rightarrow> secrets \<Rightarrow> http \<Rightarrow> http_request list \<Rightarrow> http_request list \<times> string res" where
  "tally_test_connection c ss T sent = (case tally_test c ss T sent of
     (sent', form, ref, Some e) \<Rightarrow> (sent', Inl e)
   | (sent', form, ref, None) \<Rightarrow> (sent', case marshal (VObj [(''form'', form), (''response_ref'', VStr ref)]) of
        None \<Rightarrow> Inl (Plain ''json: unsupported value'') | Some s \<Rightarrow> Inr s))"

interpretation tally_tests: one_request "tally_test c ss" "tally_plan c ss" tally_read for c ss
  by unfold_locales (simp add: tally_test_def)

section \<open>Webhooks\<close>

fun tally_identity_of :: "val list \<Rightarrow> external_identity option" where
  "tally_identity_of [] = None"
| "tally_identity_of (raw # rest) =
     (let f = as_obj raw; kind = to_lower (first_value [at f ''type'', at f ''key'', at f ''label'']);
          v = first_value [at f ''value''] in
      if contains_str kind ''email'' \<and> contains_str v ''@''
      then Some \<lparr>subject = v, subject_type = ''email'', subject_name = [], subject_group = []\<rparr>
      else tally_identity_of rest)"

definition tally_identity :: "obj \<Rightarrow> external_identity option" where
  "tally_identity data = tally_identity_of (as_arr (at data ''fields''))"

definition tally_signature_ok :: "string \<Rightarrow> webhook_request \<Rightarrow> bool" where
  "tally_signature_ok sec r \<longleftrightarrow>
     trim_space (trim_prefix (header_trimmed (wh_headers r) ''Tally-Signature'') ''sha256='')
       = base64_std (hmac sha256 sec (wh_body r))"

definition tally_event :: "val \<Rightarrow> verified_webhook res" where
  "tally_event p =
     (let m = as_obj p; data = as_obj (at m ''data'');
          i = first_value [at m ''eventId'', at data ''responseId'', at data ''submissionId''] in
      if i = [] then Inl (tally_error ''webhook_identity_missing'' ''webhook event identity is missing'')
      else (case marshal p of
        None \<Rightarrow> Inl (Permanent ''tally.webhook_payload_invalid'' DecodeErr)
      | Some raw \<Rightarrow> Inr ((plain_event (to_lower (first_value [at m ''eventType'', VStr ''FORM_RESPONSE''])) i raw)
          \<lparr>event_security := signed_at None, event_identity := tally_identity data\<rparr>)))"

definition tally_verify :: "webhook_request \<Rightarrow> verified_webhook res" where
  "tally_verify r = (case wh_context r of Some m \<Rightarrow> Inl (Plain m) | None \<Rightarrow>
     (let sec = trim_space (secret (wh_secrets r) ''webhook_secret'') in
      if sec = [] then Inl (tally_error ''webhook_secret_required'' ''resolved webhook signing secret is required'')
      else if \<not> tally_signature_ok sec r
      then Inl (tally_error ''webhook_signature_invalid'' ''webhook signature is invalid'')
      else (case decode_map (wh_body r) of
        None \<Rightarrow> Inl (tally_error ''webhook_payload_invalid'' ''webhook payload is invalid JSON'')
      | Some p \<Rightarrow> tally_event p)))"

definition tally_authentic :: "webhook_request \<Rightarrow> bool" where
  "tally_authentic r \<longleftrightarrow> (let sec = trim_space (secret (wh_secrets r) ''webhook_secret'') in
     sec \<noteq> [] \<and> tally_signature_ok sec r)"

definition tally_named :: "webhook_request \<Rightarrow> bool" where
  "tally_named r \<longleftrightarrow> (case decode_map (wh_body r) of None \<Rightarrow> False | Some p \<Rightarrow> \<not> isl (tally_event p))"

lemma first_value_default: "first_value [v, VStr ''FORM_RESPONSE''] \<noteq> []"
proof -
  have "clean (VStr ''FORM_RESPONSE'') \<noteq> []" by code_simp
  then show ?thesis by (simp add: first_value_def first_text_def)
qed

interpretation tally_hooks: webhook_verifier tally_verify tally_authentic tally_named
proof (unfold_locales, goal_cases)
  case (1 r) show ?case
    by (auto simp: tally_verify_def tally_authentic_def tally_named_def Let_def split: option.splits)
next
  case (2 r v) then show ?case
    by (auto simp: tally_verify_def tally_event_def identified_def plain_event_def first_value_default Let_def
        split: option.splits if_splits)
next
  case (3 r) then show ?case
    by (simp add: tally_verify_def tally_event_def tally_error_def Let_def split: option.split)
next
  case (4 r m) then show ?case by (simp add: tally_verify_def)
qed

end
