(* ===== verification/WebhookSender.thy ===== *)
theory WebhookSender
  imports ApiCall
begin

text \<open>
  The outgoing webhook provider (\<^verbatim>\<open>providers/webhook/http\<close>): one JSON request to a configured
  address, with configured and caller headers and an optional signature.
\<close>

definition hook_error :: "string \<Rightarrow> string \<Rightarrow> gerr" where
  "hook_error suf msg = Permanent (''webhook.'' @ suf) (Msg msg)"

definition hook_text :: "connection \<Rightarrow> string \<Rightarrow> string \<Rightarrow> string" where
  "hook_text c k d = (if clean_at (config c) k \<noteq> [] then clean_at (config c) k else d)"

definition hook_validate :: "connection \<Rightarrow> gerr option" where
  "hook_validate c =
     (let mth = to_upper (clean_at (config c) ''method''); alg = clean_at (config c) ''signature_algorithm'' in
      if (case url_parse (clean_at (config c) ''url'') of None \<Rightarrow> True
         | Some u \<Rightarrow> host u = [] \<or> user u \<noteq> None \<or> fragment u \<noteq> []
             \<or> \<not> (scheme u = ''https'' \<or> scheme u = ''http'' \<and> loopback127 (hostname u)))
      then Some (hook_error ''url_invalid'' ''HTTPS or loopback HTTP endpoint is required'')
      else if mth \<notin> set [[], ''POST'', ''PUT'', ''PATCH'']
      then Some (hook_error ''method_unsupported'' ''HTTP method is unsupported'')
      else if alg \<notin> set [[], ''hmac_sha256_hex'', ''feishu_sha256_hex'']
      then Some (hook_error ''signature_algorithm_unsupported'' ''signature algorithm is unsupported'')
      else None)"

section \<open>Signatures\<close>

definition compute_signature :: "string \<Rightarrow> string \<Rightarrow> string \<Rightarrow> string \<Rightarrow> string \<Rightarrow> string" where
  "compute_signature alg sec timestamp nonce body =
     (if alg = ''feishu_sha256_hex'' then hex_encode (sha256 (timestamp @ nonce @ sec @ body))
      else hmac_sha256_hex sec (timestamp @ nonce @ body))"

text \<open>Without a request reference the nonce depends on the second alone.\<close>

definition hook_nonce :: "string \<Rightarrow> string \<Rightarrow> string" where
  "hook_nonce ref timestamp = (if trim_space ref \<noteq> [] then trim_space ref
     else hex_encode (take 8 (sha256 (''send'' @ timestamp))))"

definition signature_headers :: "int \<Rightarrow> connection \<Rightarrow> secrets \<Rightarrow> string \<Rightarrow> string \<Rightarrow> headers res" where
  "signature_headers now c ss ref body =
     (let alg = clean_at (config c) ''signature_algorithm'';
          sec = trim_space (secret ss (hook_text c ''signature_secret_ref_name'' ''webhook_secret'')) in
      if alg = [] then Inr []
      else if sec = [] then Inl (hook_error ''signature_secret_required'' ''resolved signature secret is required'')
      else (let timestamp = itoa (now div 1000000000); nonce = hook_nonce ref timestamp in
        Inr (put ''X-Integration-Signature-Algorithm'' [alg]
          (put (hook_text c ''signature_nonce_header'' ''X-Integration-Nonce'') [nonce]
          (put (hook_text c ''signature_timestamp_header'' ''X-Integration-Timestamp'') [timestamp]
          [(hook_text c ''signature_header'' ''X-Integration-Signature'',
            [compute_signature alg sec timestamp nonce body])])))))"

section \<open>Calls\<close>

text \<open>
  Configured headers are read from a map of any values; names that are equal once trimmed
  are taken in the order of the list, where Go takes them in the order of a map.
\<close>

definition configured_headers :: "connection \<Rightarrow> (string \<times> string) list" where
  "configured_headers c = fold (\<lambda>(k, v). put (trim_space k) (clean v)) (as_obj (at (config c) ''headers'')) []"

definition put_headers :: "(string \<times> string) list \<Rightarrow> headers \<Rightarrow> headers" where
  "put_headers kvs hs = fold (\<lambda>(k, v) hs. if k \<noteq> [] \<and> v \<noteq> [] then put k [v] hs else hs) kvs hs"

definition hook_plan ::
  "int \<Rightarrow> connection \<Rightarrow> secrets \<Rightarrow> string \<Rightarrow> (string \<times> string) list \<Rightarrow> obj \<Rightarrow> typed + http_request" where
  "hook_plan now c ss ref caller payload =
     (case hook_validate c of Some e \<Rightarrow> Inl (failed e) | None \<Rightarrow>
     (case marshal (VObj payload) of
        None \<Rightarrow> Inl (failed (hook_error ''encode_failed'' ''request payload cannot be encoded''))
      | Some body \<Rightarrow> (case signature_headers now c ss ref body of
          Inl e \<Rightarrow> Inl (failed e)
        | Inr sigs \<Rightarrow>
            Inr ((plain_request (to_upper (hook_text c ''method'' ''POST'')) (clean_at (config c) ''url'')
              (put_headers caller (put_headers (configured_headers c)
                ([(''Content-Type'', [''application/json'']), (''User-Agent'', [''domainry-webhook-http/1.0'']),
                  (''X-Integration-Operation'', [''send''])]
                 @ (if ref = [] then [] else [(''X-Integration-Request-Ref'', [ref])])))) body)
            \<lparr>req_secret_headers := sigs, req_max := 1048576\<rparr>))))"

definition hook_read :: "bool \<Rightarrow> string + http_response \<Rightarrow> typed" where
  "hook_read write answer = (case answer of
     Inl m \<Rightarrow> failed (failure write ''webhook.network_error'' (TransportErr m))
   | Inr resp \<Rightarrow>
     (let n = resp_status resp; ref = ''http:'' @ itoa n; decoded = decode_output (resp_body resp);
          out = (case decoded of None \<Rightarrow> VObj [] | Some v \<Rightarrow> v); code = ''webhook.http_'' @ itoa n;
          cause = Msg (''webhook endpoint returned HTTP '' @ itoa n) in
      if \<not> ok_status n then (out, ref, Some
        (if n = 429 then Retryable code cause
         else if n \<ge> 500 then failure write code cause else Permanent code cause))
      else if decoded = None then (VNil, ref, Some (failure write ''webhook.response_invalid''
        (Msg ''webhook response is invalid JSON'')))
      else (if write then VObj [(''status_code'', VInt n)] else out, ref, None)))"

definition hook_execute where
  "hook_execute now c ss ref caller payload write =
     run_plan (hook_plan now c ss ref caller payload) (hook_read write)"

definition hook_send ::
  "int \<Rightarrow> connection \<Rightarrow> secrets \<Rightarrow> string \<Rightarrow> (string \<times> string) list \<Rightarrow> obj \<Rightarrow> http \<Rightarrow> http_request list
    \<Rightarrow> http_request list \<times> string \<times> gerr option" where
  "hook_send now c ss ref caller payload T sent =
     (case hook_execute now c ss ref caller payload True T sent of (sent', r) \<Rightarrow> (sent', delivered r))"

definition hook_test ::
  "int \<Rightarrow> connection \<Rightarrow> secrets \<Rightarrow> string \<Rightarrow> (string \<times> string) list \<Rightarrow> http \<Rightarrow> http_request list
    \<Rightarrow> http_request list \<times> typed" where
  "hook_test now c ss ref caller = hook_execute now c ss ref caller [] False"

definition hook_test_connection where
  "hook_test_connection now c ss T sent = test_details (hook_test now c ss [] [] T sent)"

lemma hook_plan_permanent: "hook_plan now c ss ref caller payload = Inl x \<Longrightarrow> \<exists>e. typed_err x = Some e \<and> is_permanent e"
  by (auto simp: hook_plan_def hook_validate_def signature_headers_def hook_error_def failed_def Let_def
      split: option.splits sum.splits if_splits)

interpretation hook_writes: typed_write "hook_execute now c ss ref caller payload True"
  "hook_plan now c ss ref caller payload" "hook_read True"
  for now c ss ref caller payload
proof (unfold_locales, goal_cases)
  case 1 show ?case by (simp add: hook_execute_def)
next
  case (2 a e) then show ?case
    by (cases a) (auto simp: hook_read_def failed_def throttled_def Let_def split: if_splits option.splits)
next
  case (3 x) then show ?case by (rule hook_plan_permanent)
next
  case (4 m) show ?case by (simp add: hook_read_def)
qed

lemma hook_cautious:
  "cautious_run T sent (hook_send now c ss ref caller payload T sent)
     (snd (snd (hook_send now c ss ref caller payload T sent)))"
  using hook_writes.cautious [of T sent now c ss ref caller payload]
  by (auto simp: hook_send_def delivered_def cautious_run_def split: prod.splits sum.splits)

end
