(* ===== verification/MailText.thy ===== *)
theory MailText
  imports GoText MailCursor
begin

text \<open>
  Mail text (\<^verbatim>\<open>internal/mailcontent/text.go\<close>) and the text of HTML
  (\<^verbatim>\<open>internal/textcontent/html.go\<close>). The HTML tokenizer, the character sets and the parser of
  address lists are libraries: the tokens, a decoder and the parsed addresses are parameters.
\<close>

section \<open>Bounded text\<close>

text \<open>What \<open>strings.Map\<close> makes of one rune: its bytes, a blank, or nothing.\<close>

definition mail_rune :: "bool \<Rightarrow> string \<Rightarrow> string \<times> bool" where
  "mail_rune multiline c =
     (let r = decode_rune c in
      if \<not> control_rune r then (c, False)
      else if multiline \<and> (r = 10 \<or> r = 9) then (c, False)
      else if r = 13 \<or> r = 10 \<or> r = 9 then ('' '', False)
      else ([], True))"

function mail_map :: "bool \<Rightarrow> string \<Rightarrow> string \<times> bool" where
  "mail_map multiline s =
     (if s = [] then ([], False)
      else let k = max 1 (rune_len s); c = (if rune_len s = 0 then rune_error else take k s);
        (t, x) = mail_rune multiline c; (u, y) = mail_map multiline (drop k s) in (t @ u, x \<or> y))"
  by pat_completeness auto
termination
  by (relation "measure (\<lambda>(multiline, s). length s)") auto

declare mail_map.simps [simp del]

definition crlf :: string where
  "crlf = [CHR 0x0D, CHR 0x0A]"

definition mail_text :: "string \<Rightarrow> nat \<Rightarrow> bool \<Rightarrow> string \<times> bool" where
  "mail_text s mx multiline =
     (case mail_map multiline (replace_all crlf [CHR 0x0A] (to_valid_utf8 s)) of (t, dropped) \<Rightarrow>
       (if length t > mx then (cut_back (take mx t), True) else (t, \<not> valid_utf8 s \<or> dropped)))"

section \<open>Decoding\<close>

text \<open>
  \<open>charset\<close> looks up a character set: the decoder of a known one, which gives the text or an
  error.
\<close>

type_synonym charset = "string \<Rightarrow> (string \<Rightarrow> string option) option"

definition mail_decode :: "charset \<Rightarrow> string \<Rightarrow> string \<Rightarrow> string res" where
  "mail_decode cs data encoding0 =
     (let encoding = to_lower (trim_space encoding0) in
      if encoding \<in> set [[], ''utf-8'', ''utf8'', ''us-ascii''] then
        (if \<not> valid_utf8 data then Inl (Plain ''invalid mail text encoding'')
         else if encoding = ''us-ascii'' \<and> list_ex (\<lambda>b. byte b > 127) data
         then Inl (Plain ''invalid ASCII mail text'') else Inr data)
      else (case cs encoding of
        None \<Rightarrow> Inl (Plain ''unsupported mail charset'')
      | Some decode \<Rightarrow> (case decode data of
          None \<Rightarrow> Inl (Plain ''invalid mail text encoding'')
        | Some b \<Rightarrow>
            if length b > 4194304 \<or> \<not> valid_utf8 b \<or> contains_str b rune_error
            then Inl (Plain ''invalid mail text encoding'') else Inr b)))"

text \<open>\<open>decode_header\<close> is \<open>mime.WordDecoder.DecodeHeader\<close> with the character sets.\<close>

definition mail_header :: "(string \<Rightarrow> string option) \<Rightarrow> string \<Rightarrow> nat \<Rightarrow> string \<times> bool" where
  "mail_header decode_header v mx = (case decode_header v of
     None \<Rightarrow> ([], True) | Some s \<Rightarrow> mail_text s mx False)"

section \<open>Addresses\<close>

record mail_address =
  ma_name :: string
  ma_address :: string

text \<open>The items of one list; the loop stops at the fiftieth address that was kept.\<close>

fun address_items :: "mail_address list \<Rightarrow> mail_address list \<Rightarrow> bool \<Rightarrow> mail_address list \<times> bool" where
  "address_items [] out omitted = (out, omitted)"
| "address_items (i # xs) out omitted =
     (if length out = 50 then (out, True)
      else (case mail_text (ma_address i) 320 False of (a, bad) \<Rightarrow>
        if bad \<or> a = [] then address_items xs out True
        else (case mail_text (ma_name i) 512 False of (n, cropped) \<Rightarrow>
          address_items xs (out @ [\<lparr>ma_name = n, ma_address = a\<rparr>]) (omitted \<or> cropped))))"

fun address_lists :: "(string \<Rightarrow> mail_address list option) \<Rightarrow> string list \<Rightarrow> mail_address list \<Rightarrow> bool
    \<Rightarrow> mail_address list \<times> bool" where
  "address_lists parse [] out omitted = (out, omitted)"
| "address_lists parse (v # vs) out omitted = (case parse v of
     None \<Rightarrow> address_lists parse vs out True
   | Some xs \<Rightarrow> (case address_items xs out omitted of (out', omitted') \<Rightarrow> address_lists parse vs out' omitted'))"

definition mail_addresses :: "(string \<Rightarrow> mail_address list option) \<Rightarrow> string list \<Rightarrow> mail_address list \<times> bool" where
  "mail_addresses parse vs = address_lists parse vs [] False"

section \<open>What bounded text is\<close>

text \<open>Text of at most so many bytes, whole runes only, with no control rune but the allowed ones.\<close>

definition allowed_rune :: "bool \<Rightarrow> nat \<Rightarrow> bool" where
  "allowed_rune multiline r \<longleftrightarrow> control_rune r \<longrightarrow> multiline \<and> (r = 10 \<or> r = 9)"

definition plain_text :: "bool \<Rightarrow> string \<Rightarrow> bool" where
  "plain_text multiline s \<longleftrightarrow> valid_utf8 s \<and> list_all (allowed_rune multiline) (runes s)"

lemma plain_text_append: "plain_text m s \<Longrightarrow> plain_text m t \<Longrightarrow> plain_text m (s @ t)"
  by (simp add: plain_text_def valid_utf8_append)

lemma plain_text_prefix:
  assumes "plain_text m t" "valid_utf8 s" "prefix s t"
  shows "plain_text m s"
proof -
  obtain r where "t = s @ r" using assms(3) by (auto simp: prefix_def)
  then show ?thesis using assms(1,2) by (simp add: plain_text_def valid_utf8_append)
qed

lemma rune_chunk:
  assumes "rune_len s = k" "k \<noteq> 0"
  shows "valid_utf8 (take k s)" "runes (take k s) = [decode_rune (take k s)]"
  using rune_head [OF assms, of "[]"] by simp_all

lemma rune_error_rune: "decode_rune rune_error = 65533" "runes rune_error = [65533]"
proof -
  have "rune_len rune_error = 3" by (simp add: rune_error_def wide_len_def cont_def)
  then show d: "decode_rune rune_error = 65533" by (simp add: decode_rune_def rune_error_def)
  show "runes rune_error = [65533]"
    using rune_chunk(2) [OF \<open>rune_len rune_error = 3\<close>] d by (simp add: rune_error_def)
qed

lemma mail_rune_plain:
  assumes "valid_utf8 c" "runes c = [decode_rune c]"
  shows "plain_text m (fst (mail_rune m c))"
proof -
  have "plain_text m '' ''"
  proof -
    have "valid_utf8 '' ''" "runes '' '' = [32]" by code_simp+
    then show ?thesis by (simp add: plain_text_def allowed_rune_def control_rune_def)
  qed
  moreover have "plain_text m []" by (simp add: plain_text_def)
  ultimately show ?thesis
    using assms by (simp add: mail_rune_def Let_def plain_text_def allowed_rune_def)
qed

lemma mail_map_plain: "plain_text m (fst (mail_map m s))"
proof (induction m s rule: mail_map.induct)
  case (1 m s)
  show ?case
  proof (cases "s = []")
    case False
    define k where "k = rune_len s"
    define c where "c = (if k = 0 then rune_error else take (max 1 k) s)"
    have c: "valid_utf8 c" "runes c = [decode_rune c]"
    proof -
      show "valid_utf8 c" using rune_chunk(1) [of s k] rune_error_valid by (cases "k = 0") (auto simp: c_def k_def max_def)
      show "runes c = [decode_rune c]"
        using rune_chunk(2) [of s k] rune_error_rune by (cases "k = 0") (auto simp: c_def k_def max_def)
    qed
    have "fst (mail_map m s) = fst (mail_rune m c) @ fst (mail_map m (drop (max 1 k) s))"
      using False by (subst mail_map.simps) (simp add: c_def k_def Let_def split: prod.split del: rune_len.simps)
    moreover have "plain_text m (fst (mail_map m (drop (max 1 k) s)))"
      using 1 [OF False refl refl, of "mail_rune m c" "fst (mail_rune m c)" "snd (mail_rune m c)"] by (simp add: c_def k_def)
    ultimately show ?thesis using mail_rune_plain [OF c] by (simp add: plain_text_append)
  qed (simp add: mail_map.simps plain_text_def)
qed

lemma mail_text_plain: "mail_text s mx m = (t, ch) \<Longrightarrow> plain_text m t \<and> length t \<le> mx"
proof -
  obtain u d where u: "mail_map m (replace_all crlf [CHR 0x0A] (to_valid_utf8 s)) = (u, d)" by (rule prod.exhaust)
  have p: "plain_text m u" using mail_map_plain [of m "replace_all crlf [CHR 0x0A] (to_valid_utf8 s)"] by (simp add: u)
  assume "mail_text s mx m = (t, ch)"
  then consider "t = u" "length u \<le> mx" | "t = cut_back (take mx u)"
    by (auto simp: mail_text_def u split: if_splits)
  then show ?thesis
  proof cases
    case 2
    have "prefix t u" using cut_back_props [of "take mx u"] take_is_prefix [of mx u] 2
      by (auto intro: prefix_order.trans)
    moreover have "length t \<le> mx"
      using prefix_length_le [of t "take mx u"] cut_back_props [of "take mx u"] 2 by simp
    ultimately show ?thesis using plain_text_prefix [OF p] cut_back_props [of "take mx u"] 2 by simp
  qed (use p in simp)
qed

text \<open>Nothing is dropped unless the text is flagged: the runes are kept, some as blanks.\<close>

definition blanked :: "bool \<Rightarrow> nat \<Rightarrow> nat" where
  "blanked m r = (if r = 13 \<or> \<not> m \<and> (r = 10 \<or> r = 9) then 32 else r)"

lemma blank_runes: "runes '' '' = [32]" "valid_utf8 '' ''"
  by code_simp+

lemma mail_rune_kept:
  assumes "valid_utf8 c" "runes c = [decode_rune c]" "\<not> snd (mail_rune m c)"
  shows "runes (fst (mail_rune m c)) = [blanked m (decode_rune c)]"
  using assms by (auto simp: mail_rune_def Let_def blanked_def blank_runes control_rune_def split: if_splits)

lemma mail_map_step:
  assumes "s \<noteq> []"
  obtains c s' where "valid_utf8 c" "runes c = [decode_rune c]"
    "fst (mail_map m s) = fst (mail_rune m c) @ fst (mail_map m s')"
    "snd (mail_map m s) = (snd (mail_rune m c) \<or> snd (mail_map m s'))"
    "runes s = decode_rune c # runes s'" "length s' < length s"
proof -
  define k where "k = rune_len s"
  define c where "c = (if k = 0 then rune_error else take (max 1 k) s)"
  have "valid_utf8 c" using rune_chunk(1) [of s k] rune_error_valid by (cases "k = 0") (auto simp: c_def k_def max_def)
  moreover have "runes c = [decode_rune c]"
    using rune_chunk(2) [of s k] rune_error_rune by (cases "k = 0") (auto simp: c_def k_def max_def)
  moreover have "fst (mail_map m s) = fst (mail_rune m c) @ fst (mail_map m (drop (max 1 k) s))"
    "snd (mail_map m s) = (snd (mail_rune m c) \<or> snd (mail_map m (drop (max 1 k) s)))"
    using assms by (subst mail_map.simps, simp add: c_def k_def Let_def split: prod.split del: rune_len.simps)+
  moreover have "runes s = decode_rune c # runes (drop (max 1 k) s)"
    using assms by (subst runes.simps)
      (auto simp: c_def k_def rune_error_rune max_def drop_Suc simp del: rune_len.simps)
  moreover have "length (drop (max 1 k) s) < length s" using assms by simp
  ultimately show ?thesis using that by blast
qed

lemma mail_map_kept: "\<not> snd (mail_map m s) \<Longrightarrow> runes (fst (mail_map m s)) = map (blanked m) (runes s)"
proof (induction s rule: length_induct)
  case (1 s)
  show ?case
  proof (cases "s = []")
    case False
    from mail_map_step [OF this] obtain c s' where c: "valid_utf8 c" "runes c = [decode_rune c]"
      "fst (mail_map m s) = fst (mail_rune m c) @ fst (mail_map m s')"
      "snd (mail_map m s) = (snd (mail_rune m c) \<or> snd (mail_map m s'))"
      "runes s = decode_rune c # runes s'" "length s' < length s" .
    have "valid_utf8 (fst (mail_rune m c))" using mail_rune_plain [OF c(1,2)] by (simp add: plain_text_def)
    then show ?thesis
      using 1 c mail_rune_kept [OF c(1,2)] by (simp add: valid_utf8_append)
  qed (simp add: mail_map.simps)
qed

text \<open>
  C33: bounded mail text is valid UTF-8 of at most the given number of bytes without control
  characters, but for line ends and tabs where they are allowed; when it is not flagged as
  changed, its runes are those of the source, with some white space as blanks.
\<close>
theorem mail_text_bounded:
  "case mail_text s mx m of (t, changed) \<Rightarrow>
     plain_text m t \<and> length t \<le> mx \<and>
     (changed \<or> valid_utf8 s \<and> runes t = map (blanked m) (runes (replace_all crlf [CHR 0x0A] s)))"
proof -
  obtain t ch where t: "mail_text s mx m = (t, ch)" by (rule prod.exhaust)
  have "valid_utf8 s \<and> runes t = map (blanked m) (runes (replace_all crlf [CHR 0x0A] s))" if "\<not> ch"
  proof -
    have v: "valid_utf8 s" "to_valid_utf8 s = s"
      using t that by (auto simp: mail_text_def to_valid_utf8_def repair_valid split: prod.splits if_splits)
    then show ?thesis
      using t that mail_map_kept [of m "replace_all crlf [CHR 0x0A] s"]
      by (auto simp: mail_text_def split: prod.splits if_splits)
  qed
  then show ?thesis using mail_text_plain [OF t] by (simp add: t) blast
qed

end
