(* ===== verification/HtmlText.thy ===== *)
theory HtmlText
  imports GoBase
begin

text \<open>
  The text of an HTML document (\<^verbatim>\<open>internal/textcontent/html.go\<close>), a state machine over the
  tokens of \<^verbatim>\<open>golang.org/x/net/html\<close>. The tokenizer is a library: the list of tokens up to the
  final error token, and whether that one is the end of the input, are parameters.
\<close>

section \<open>The machine\<close>

text \<open>Comments and doctypes are \<open>OtherToken\<close>.\<close>

datatype html_token = StartTag string | SelfClosing string | EndTag string | TextToken string
  | OtherToken

record html_state =
  hs_out :: string
  hs_ignored :: string
  hs_depth :: int

definition html_init :: html_state where
  "html_init = \<lparr>hs_out = [], hs_ignored = [], hs_depth = 0\<rparr>"

definition hidden_tags :: "string list" where
  "hidden_tags = [''head'', ''script'', ''style'', ''template'', ''svg'', ''object'', ''iframe'']"

definition break_tags :: "string list" where
  "break_tags = [''br'', ''p'', ''div'', ''li'', ''tr'', ''table'', ''blockquote'', ''h1'', ''h2'', ''h3'', ''hr'']"

definition block_tags :: "string list" where
  "block_tags = [''p'', ''div'', ''li'', ''tr'', ''table'', ''blockquote'', ''h1'', ''h2'', ''h3'']"

definition html_write :: "string \<Rightarrow> html_state \<Rightarrow> html_state" where
  "html_write s h = h\<lparr>hs_out := hs_out h @ s\<rparr>"

definition html_start :: "bool \<Rightarrow> string \<Rightarrow> html_state \<Rightarrow> html_state" where
  "html_start closing tag h =
     (if hs_ignored h \<noteq> []
      then (if tag = hs_ignored h \<and> \<not> closing then h\<lparr>hs_depth := hs_depth h + 1\<rparr> else h)
      else if tag \<in> set hidden_tags
      then (if closing then h else h\<lparr>hs_ignored := tag, hs_depth := 1\<rparr>)
      else if tag \<in> set break_tags then html_write [CHR 0x0A] h else h)"

definition html_end :: "string \<Rightarrow> html_state \<Rightarrow> html_state" where
  "html_end tag h =
     (if hs_ignored h \<noteq> []
      then (if tag = hs_ignored h
        then (let h' = h\<lparr>hs_depth := hs_depth h - 1\<rparr> in
          if hs_depth h' = 0 then h'\<lparr>hs_ignored := []\<rparr> else h')
        else h)
      else if tag \<in> set block_tags then html_write [CHR 0x0A] h
      else if tag = ''td'' \<or> tag = ''th'' then html_write [CHR 0x09] h else h)"

fun html_step :: "html_token \<Rightarrow> html_state \<Rightarrow> html_state" where
  "html_step (StartTag tag) h = html_start False tag h"
| "html_step (SelfClosing tag) h = html_start True tag h"
| "html_step (EndTag tag) h = html_end tag h"
| "html_step (TextToken s) h = (if hs_ignored h = [] then html_write s h else h)"
| "html_step OtherToken h = h"

definition html_run :: "html_token list \<Rightarrow> html_state \<Rightarrow> html_state" where
  "html_run ts h = fold html_step ts h"

definition html_text :: "html_token list \<Rightarrow> bool \<Rightarrow> string res" where
  "html_text ts eof = (let h = html_run ts html_init in
     if \<not> eof \<or> hs_ignored h \<noteq> [] then Inl (Plain ''invalid HTML'') else Inr (hs_out h))"

section \<open>Hidden elements\<close>

text \<open>Content in which the tags of one name are balanced, whatever else it holds.\<close>

inductive balanced :: "string \<Rightarrow> html_token list \<Rightarrow> bool" for tag where
  balanced_Nil: "balanced tag []"
| balanced_skip: "balanced tag ts \<Longrightarrow> t \<noteq> StartTag tag \<Longrightarrow> t \<noteq> EndTag tag \<Longrightarrow> balanced tag (t # ts)"
| balanced_nest: "balanced tag us \<Longrightarrow> balanced tag ts \<Longrightarrow> balanced tag (StartTag tag # us @ EndTag tag # ts)"

lemma html_run_simps [simp]:
  "html_run [] h = h" "html_run (t # ts) h = html_run ts (html_step t h)"
  "html_run (ts @ us) h = html_run us (html_run ts h)"
  by (simp_all add: html_run_def)

lemma html_step_hidden:
  assumes "hs_ignored h = tag" "tag \<noteq> []" "t \<noteq> StartTag tag" "t \<noteq> EndTag tag"
  shows "html_step t h = h"
  using assms by (cases t) (auto simp: html_start_def html_end_def)

lemma html_run_hidden:
  "balanced tag ts \<Longrightarrow> hs_ignored h = tag \<Longrightarrow> tag \<noteq> [] \<Longrightarrow> 0 < hs_depth h \<Longrightarrow> html_run ts h = h"
proof (induction arbitrary: h rule: balanced.induct)
  case (balanced_skip ts t)
  then show ?case using html_step_hidden [of h tag t] by simp
next
  case (balanced_nest us ts)
  let ?h = "h\<lparr>hs_depth := hs_depth h + 1\<rparr>"
  have "html_step (StartTag tag) h = ?h" using balanced_nest.prems by (simp add: html_start_def)
  moreover have "html_run us ?h = ?h" using balanced_nest by simp
  moreover have "html_step (EndTag tag) ?h = h"
    using balanced_nest.prems by (simp add: html_end_def Let_def)
  ultimately show ?case using balanced_nest by simp
qed simp

text \<open>A hidden element is open exactly while the depth is positive.\<close>

definition html_ok :: "html_state \<Rightarrow> bool" where
  "html_ok h \<longleftrightarrow> (if hs_ignored h = [] then hs_depth h = 0 else 0 < hs_depth h)"

lemma hidden_not_Nil: "tag \<in> set hidden_tags \<Longrightarrow> tag \<noteq> []"
  by (auto simp: hidden_tags_def)

lemma html_step_ok: "html_ok h \<Longrightarrow> html_ok (html_step t h)"
  by (cases "hs_ignored h = []"; cases t)
    (auto simp: html_ok_def html_start_def html_end_def html_write_def Let_def hidden_not_Nil)

lemma html_run_ok: "html_ok h \<Longrightarrow> html_ok (html_run ts h)"
  by (induction ts arbitrary: h) (auto simp: html_step_ok)

lemma html_init_ok: "html_ok html_init"
  by (simp add: html_ok_def html_init_def)

text \<open>Where the machine stands after a prefix: no hidden element is open.\<close>

definition open_text :: "html_token list \<Rightarrow> bool" where
  "open_text ts \<longleftrightarrow> hs_ignored (html_run ts html_init) = []"

text \<open>
  C34: a script, style or other hidden element leaves no trace in the text, whatever its
  content: the document reads as if the element were not there.
\<close>
theorem html_hides_elements:
  assumes "tag \<in> set hidden_tags" "balanced tag body" "open_text pre"
  shows "html_text (pre @ StartTag tag # body @ EndTag tag # post) eof = html_text (pre @ post) eof"
proof -
  let ?h = "html_run pre html_init" and ?g = "(html_run pre html_init)\<lparr>hs_ignored := tag, hs_depth := 1\<rparr>"
  have ne: "tag \<noteq> []" using assms(1) by (rule hidden_not_Nil)
  have "html_step (StartTag tag) ?h = ?g" using assms(1,3) by (simp add: html_start_def open_text_def)
  moreover have "html_run body ?g = ?g" using html_run_hidden [OF assms(2)] ne by simp
  moreover have "html_step (EndTag tag) ?g = ?h\<lparr>hs_depth := 0\<rparr>"
    using ne assms(3) by (simp add: html_end_def Let_def open_text_def)
  moreover have "?h\<lparr>hs_depth := 0\<rparr> = ?h"
    using html_run_ok [OF html_init_ok, of pre] assms(3) by (simp add: html_ok_def open_text_def)
  ultimately show ?thesis by (simp add: html_text_def Let_def)
qed

theorem html_hides_elements_witness:
  "html_text [TextToken ''a'', StartTag ''script'', TextToken ''x'', StartTag ''p'', EndTag ''script'', TextToken ''b''] True
    = Inr ''ab''"
proof -
  have "html_text ([TextToken ''a''] @ StartTag ''script'' # [TextToken ''x'', StartTag ''p''] @ EndTag ''script'' # [TextToken ''b'']) True
    = html_text ([TextToken ''a''] @ [TextToken ''b'']) True"
    by (rule html_hides_elements) (auto simp: hidden_tags_def open_text_def html_init_def html_write_def
        intro!: balanced.intros)
  then show ?thesis by (simp add: html_text_def html_init_def html_write_def)
qed

end
