(* ===== verification/GoIp.thy ===== *)
theory GoIp
  imports GoBase
begin

text \<open>
  \<^verbatim>\<open>net.ParseIP\<close> and \<^verbatim>\<open>IP.IsLoopback\<close>: an address is its sixteen bytes, an IPv4 one in the
  form that embeds it. A zone makes a text no address.
\<close>

section \<open>Parsing\<close>

definition ip4_field :: "string \<Rightarrow> nat option" where
  "ip4_field s = (if s \<noteq> [] \<and> list_all is_digit s \<and> (length s = 1 \<or> hd s \<noteq> CHR ''0'') \<and> nat_of_digits 0 s \<le> 255
     then Some (nat_of_digits 0 s) else None)"

definition parse_ip4 :: "string \<Rightarrow> nat list option" where
  "parse_ip4 s = (case map ip4_field (split_on (CHR ''.'') s) of
     [Some a, Some b, Some c, Some d] \<Rightarrow> Some [a, b, c, d] | _ \<Rightarrow> None)"

definition hex_val :: "char \<Rightarrow> nat option" where
  "hex_val c = (let n = of_char c in
     if 48 \<le> n \<and> n \<le> 57 then Some (n - 48) else if 97 \<le> n \<and> n \<le> 102 then Some (n - 87)
     else if 65 \<le> n \<and> n \<le> 70 then Some (n - 55) else None)"

definition hex_group :: "string \<Rightarrow> nat" where
  "hex_group s = fold (\<lambda>c n. 16 * n + the (hex_val c)) s 0"

text \<open>
  The groups of an IPv6 address, at most as many as are left: the bytes so far, where the two
  colons were, and the rest of the text.
\<close>

fun ip6_scan :: "nat \<Rightarrow> nat list \<Rightarrow> nat option \<Rightarrow> string \<Rightarrow> (nat list \<times> nat option \<times> string) option" where
  "ip6_scan 0 bs e s = Some (bs, e, s)"
| "ip6_scan (Suc n) bs e s =
     (let h = takeWhile (\<lambda>c. hex_val c \<noteq> None) s; r = dropWhile (\<lambda>c. hex_val c \<noteq> None) s;
          bs' = bs @ [hex_group h div 256, hex_group h mod 256] in
      if h = [] \<or> length h > 4 then None
      else if take 1 r = ''.''
      then (if e = None \<and> length bs \<noteq> 12 \<or> length bs + 4 > 16 then None
        else map_option (\<lambda>v. (bs @ v, e, [])) (parse_ip4 s))
      else (case r of [] \<Rightarrow> Some (bs', e, [])
        | c # t \<Rightarrow>
            if c \<noteq> CHR '':'' \<or> t = [] then None
            else if take 1 t \<noteq> '':'' then ip6_scan n bs' e t
            else if e \<noteq> None then None
            else if drop 1 t = [] then Some (bs', Some (length bs'), [])
            else ip6_scan n bs' (Some (length bs')) (drop 1 t)))"

text \<open>The two colons stand for the zeros that are missing, of which there has to be one.\<close>

definition ip6_expand :: "nat list \<Rightarrow> nat option \<Rightarrow> nat list option" where
  "ip6_expand bs e = (case e of
     None \<Rightarrow> if length bs < 16 then None else Some bs
   | Some k \<Rightarrow> if length bs < 16 then Some (take k bs @ replicate (16 - length bs) 0 @ drop k bs) else None)"

definition parse_ip6 :: "string \<Rightarrow> nat list option" where
  "parse_ip6 s =
     (if CHR ''%'' \<in> set s then None
      else let e = (if take 2 s = ''::'' then Some 0 else None); t = (if e = None then s else drop 2 s) in
        if e \<noteq> None \<and> t = [] then Some (replicate 16 0)
        else (case ip6_scan 8 [] e t of
            None \<Rightarrow> None
          | Some (bs, e', r) \<Rightarrow> if r \<noteq> [] then None else ip6_expand bs e'))"

definition ip4_in_ip6 :: "nat list" where
  "ip4_in_ip6 = replicate 10 0 @ [255, 255]"

text \<open>The first separator tells which kind of address it is.\<close>

definition parse_ip :: "string \<Rightarrow> nat list option" where
  "parse_ip s = (case dropWhile (\<lambda>c. c \<notin> {CHR ''.'', CHR '':'', CHR ''%''}) s of
     [] \<Rightarrow> None
   | c # t \<Rightarrow> if c = CHR ''.'' then map_option (\<lambda>v. ip4_in_ip6 @ v) (parse_ip4 s)
       else if c = CHR '':'' then parse_ip6 s else None)"

definition ip_loopback :: "string \<Rightarrow> bool" where
  "ip_loopback s = (case parse_ip s of None \<Rightarrow> False
     | Some bs \<Rightarrow> if take 12 bs = ip4_in_ip6 then bs ! 12 = 127 else bs = replicate 15 0 @ [1])"

section \<open>An address has sixteen bytes\<close>

lemma parse_ip4_length: "parse_ip4 s = Some v \<Longrightarrow> length v = 4"
  by (auto simp: parse_ip4_def split: list.splits option.splits)

lemma ip6_scan_length:
  "ip6_scan n bs e s = Some (bs', e', r) \<Longrightarrow> length bs + 2 * n \<le> 16 \<Longrightarrow> length bs' \<le> 16"
proof (induction n bs e s arbitrary: bs' e' r rule: ip6_scan.induct)
  case (2 n bs e s)
  then show ?case by (fastforce simp: Let_def dest!: parse_ip4_length split: if_splits list.splits)
qed simp

lemma ip6_expand_length:
  "length bs \<le> 16 \<Longrightarrow> ip6_expand bs e = Some v \<Longrightarrow> length v = 16"
  by (auto simp: ip6_expand_def split: option.splits if_splits)

lemma parse_ip_length: "parse_ip s = Some v \<Longrightarrow> length v = 16"
proof -
  have six: "length v = 16" if "parse_ip6 s = Some v" for v
    using that ip6_scan_length [of 8 "[]"] ip6_expand_length
    by (fastforce simp: parse_ip6_def Let_def split: if_splits option.splits prod.splits)
  assume "parse_ip s = Some v"
  then show "length v = 16"
    using six by (auto simp: parse_ip_def ip4_in_ip6_def dest: parse_ip4_length split: list.splits if_splits)
qed

lemma loopback_ip4: "ip_loopback ''127.8.9.10''" "\<not> ip_loopback ''127.0.0.01''" "\<not> ip_loopback ''127.1''"
  by (simp_all add: ip_loopback_def parse_ip_def parse_ip4_def ip4_field_def ip4_in_ip6_def is_digit_def digit_val_def nth_append)

lemma loopback_ip6: "ip_loopback ''::1''"
  by code_simp

end
