(* ===== verification/UrlBase.thy ===== *)
theory UrlBase
  imports Sdk GoHost GoIp
begin

text \<open>
  Requests under a base URL. The providers check a configured base and then append a path to
  its text: whatever the path holds, the scheme, the host and the user of the base stay.
\<close>

section \<open>The front of a URL\<close>

text \<open>What is read before the path: the scheme, and the authority behind two slashes.\<close>

abbreviation before :: "char \<Rightarrow> string \<Rightarrow> string" where
  "before c \<equiv> takeWhile ((\<noteq>) c)"

definition url_front :: "string \<Rightarrow> (string \<times> string) option" where
  "url_front raw = (case get_scheme (before (CHR ''#'') raw) of None \<Rightarrow> None
   | Some (sch, rest) \<Rightarrow>
       if sch \<noteq> [] \<and> has_prefix (before (CHR ''?'') rest) ''//''
       then Some (to_lower sch, before (CHR ''/'') (drop 2 (before (CHR ''?'') rest))) else None)"

lemma split_query_front:
  "host (snd (split_query s u)) = host u" "user (snd (split_query s u)) = user u"
  by (simp_all add: split_query_def cut_def)

lemma set_fragment_front: "set_fragment f u = Some w \<Longrightarrow> scheme w = scheme u \<and> host w = host u \<and> user w = user u"
  by (auto simp: set_fragment_def split: option.splits)

lemma parse_rest_front:
  assumes "parse_rest r v = Some w" "host v = []" "user v = None"
  shows "scheme w = scheme v \<and> (scheme v \<noteq> [] \<longrightarrow>
    (if has_prefix r ''//'' then parse_authority (scheme v) (before (CHR ''/'') (drop 2 r)) = Some (user w, host w)
     else host w = [] \<and> user w = None))"
proof (cases "has_prefix r ''//''")
  case True
  then have "has_prefix r ''/''" by (auto simp: has_prefix_def prefix_def)
  then show ?thesis using assms True
    by (auto simp: parse_rest_def Let_def split: if_splits option.splits dest!: set_path_host)
next
  case False
  then show ?thesis using assms
    by (auto simp: parse_rest_def split: if_splits dest!: set_path_host)
qed

lemma url_parse_parts:
  assumes "url_parse raw = Some u" "before (CHR ''#'') raw \<noteq> ''*''"
  obtains sch rest where
    "get_scheme (before (CHR ''#'') raw) = Some (sch, rest)" "scheme u = to_lower sch"
    "sch \<noteq> [] \<Longrightarrow> if has_prefix (before (CHR ''?'') rest) ''//''
     then parse_authority (scheme u) (before (CHR ''/'') (drop 2 (before (CHR ''?'') rest))) = Some (user u, host u)
     else host u = [] \<and> user u = None"
proof -
  let ?s = "before (CHR ''#'') raw"
  obtain frag where c: "cut (CHR ''#'') raw = (?s, frag)" by (simp add: cut_def)
  let ?e = "case get_scheme ?s of None \<Rightarrow> None
      | Some (sch, rest) \<Rightarrow> (case split_query rest (empty_url\<lparr>scheme := to_lower sch\<rparr>) of (r, u) \<Rightarrow> parse_rest r u)"
  have "?e \<noteq> None"
  proof
    assume "?e = None"
    then show False using assms by (simp add: url_parse_def c split: if_splits)
  qed
  then obtain sch rest r v w where gs: "get_scheme ?s = Some (sch, rest)"
    and sq: "split_query rest (empty_url\<lparr>scheme := to_lower sch\<rparr>) = (r, v)" and w: "parse_rest r v = Some w"
    by (auto split: option.splits prod.splits)
  have u: "u = w \<or> set_fragment frag w = Some u"
    using assms by (auto simp: url_parse_def c gs sq w split: if_splits)
  have v: "scheme v = to_lower sch" "host v = []" "user v = None" "r = before (CHR ''?'') rest"
    using split_query_rest [of rest "empty_url\<lparr>scheme := to_lower sch\<rparr>"]
      split_query_front [of rest "empty_url\<lparr>scheme := to_lower sch\<rparr>"] sq by (simp_all add: empty_url_def)
  have same: "scheme u = scheme w" "host u = host w" "user u = user w"
    using u by (auto dest!: set_fragment_front)
  note front = parse_rest_front [OF w v(2,3), unfolded v(1,4)]
  show ?thesis
  proof (rule that [OF gs])
    show "scheme u = to_lower sch" using front same(1) by simp
  next
    assume "sch \<noteq> []"
    then have "to_lower sch \<noteq> []" by (simp add: to_lower_def)
    then show "if has_prefix (before (CHR ''?'') rest) ''//''
     then parse_authority (scheme u) (before (CHR ''/'') (drop 2 (before (CHR ''?'') rest))) = Some (user u, host u)
     else host u = [] \<and> user u = None" using front same by simp
  qed
qed

lemma url_parse_front:
  assumes "url_parse raw = Some u" "scheme u \<noteq> []" "host u \<noteq> []"
  obtains a where "url_front raw = Some (scheme u, a)" "parse_authority (scheme u) a = Some (user u, host u)"
proof -
  have "before (CHR ''#'') raw \<noteq> ''*''"
  proof
    assume "before (CHR ''#'') raw = ''*''"
    then show False using assms(1,2)
      by (auto simp: url_parse_def cut_def empty_url_def split: if_splits dest!: set_fragment_front)
  qed
  from url_parse_parts [OF assms(1) this] obtain sch rest where
    s: "get_scheme (before (CHR ''#'') raw) = Some (sch, rest)" "scheme u = to_lower sch"
    and a: "sch \<noteq> [] \<Longrightarrow> if has_prefix (before (CHR ''?'') rest) ''//''
     then parse_authority (scheme u) (before (CHR ''/'') (drop 2 (before (CHR ''?'') rest))) = Some (user u, host u)
     else host u = [] \<and> user u = None" by blast
  have sch: "sch \<noteq> []" using s(2) assms(2) by (auto simp: to_lower_def)
  note a = a [OF this]
  then have p: "has_prefix (before (CHR ''?'') rest) ''//''" using assms(3) by (auto split: if_splits)
  show ?thesis using that [of "before (CHR ''/'') (drop 2 (before (CHR ''?'') rest))"] a p s sch
    by (simp add: url_front_def)
qed

lemma url_front_parse:
  assumes "url_front raw = Some (s, a)" "url_parse raw = Some v"
  shows "scheme v = s \<and> parse_authority s a = Some (user v, host v)"
proof -
  obtain sch rest where s: "get_scheme (before (CHR ''#'') raw) = Some (sch, rest)" "sch \<noteq> []"
    "has_prefix (before (CHR ''?'') rest) ''//''" "s = to_lower sch"
    "a = before (CHR ''/'') (drop 2 (before (CHR ''?'') rest))"
    using assms(1) by (auto simp: url_front_def split: option.splits if_splits)
  have "before (CHR ''#'') raw \<noteq> ''*''"
  proof
    assume "before (CHR ''#'') raw = ''*''"
    then show False using s(1,2) by (simp add: get_scheme_def is_alnum_def)
  qed
  from url_parse_parts [OF assms(2) this] show ?thesis using s by (auto split: if_splits)
qed

section \<open>Appended paths\<close>

text \<open>A text with more behind it that starts with one of these bytes, such as a path or a query.\<close>

definition tail_in :: "char set \<Rightarrow> string \<Rightarrow> bool" where
  "tail_in S y \<longleftrightarrow> y = [] \<or> hd y \<in> S"

lemma before_tail:
  assumes "tail_in S y"
  shows "\<exists>z. before c (s @ y) = before c s @ z \<and> tail_in (S - {c}) z"
proof (cases "c \<in> set s")
  case True
  then show ?thesis by (intro exI [of _ "[]"]) (simp add: takeWhile_append1 tail_in_def)
next
  case False
  then have s: "before c s = s" unfolding takeWhile_eq_all_conv by auto
  have "before c (s @ y) = s @ before c y"
    using False by (intro takeWhile_append2) auto
  moreover have "tail_in (S - {c}) (before c y)" using assms by (cases y) (auto simp: tail_in_def)
  ultimately show ?thesis unfolding s by blast
qed

lemma before_slash: "tail_in {CHR ''/''} y \<Longrightarrow> before (CHR ''/'') (s @ y) = before (CHR ''/'') s"
  by (induction s) (cases y; simp add: tail_in_def)+

definition url_tail :: "string \<Rightarrow> bool" where
  "url_tail = tail_in {CHR ''/'', CHR ''?'', CHR ''#''}"

text \<open>How a scheme is read, over the bytes that it may hold.\<close>

definition scheme_char :: "char \<Rightarrow> bool" where
  "scheme_char c \<longleftrightarrow> is_alnum c \<or> c \<in> set ''+-.''"

lemma get_scheme_chars:
  "get_scheme t = (case dropWhile scheme_char t of
      c # rest \<Rightarrow>
        if c = CHR '':'' then
          (let sch = takeWhile scheme_char t in
           if sch = [] then None else if is_alpha (hd sch) then Some (sch, rest) else Some ([], t))
        else Some ([], t)
    | [] \<Rightarrow> Some ([], t))"
  by (simp only: get_scheme_def scheme_char_def [abs_def])

lemma get_scheme_some:
  "get_scheme s = Some (sch, rest) \<and> sch \<noteq> [] \<longleftrightarrow>
     dropWhile scheme_char s = CHR '':'' # rest \<and> sch = takeWhile scheme_char s \<and> sch \<noteq> [] \<and> is_alpha (hd sch)"
proof (cases "dropWhile scheme_char s")
  case Nil
  then show ?thesis unfolding get_scheme_chars Nil by auto
next
  case (Cons c t)
  then show ?thesis unfolding get_scheme_chars Cons by (auto simp: Let_def)
qed

lemma get_scheme_append:
  assumes "get_scheme s = Some (sch, rest)" "sch \<noteq> []"
  shows "get_scheme (s @ y) = Some (sch, rest @ y)"
proof -
  have d: "dropWhile scheme_char s = CHR '':'' # rest" "sch = takeWhile scheme_char s" "is_alpha (hd sch)"
    using assms get_scheme_some by blast+
  have "CHR '':'' \<in> set s" using d(1) set_dropWhileD [of "CHR '':''" scheme_char s] by simp
  moreover have "\<not> scheme_char (CHR '':'')" using hd_dropWhile [of scheme_char s] d(1) by simp
  ultimately have "dropWhile scheme_char (s @ y) = dropWhile scheme_char s @ y"
    "takeWhile scheme_char (s @ y) = takeWhile scheme_char s"
    by (auto simp: dropWhile_append1 takeWhile_append1)
  then show ?thesis using assms(2) d get_scheme_some [of "s @ y" sch "rest @ y"] by simp
qed

lemma get_scheme_unappend:
  assumes "get_scheme (s @ y) = Some (sch, rest)" "sch \<noteq> []" "tail_in {CHR ''/''} y"
  shows "\<exists>rest'. get_scheme s = Some (sch, rest') \<and> rest = rest' @ y"
proof -
  have d: "dropWhile scheme_char (s @ y) = CHR '':'' # rest" "sch = takeWhile scheme_char (s @ y)" "is_alpha (hd sch)"
    using assms get_scheme_some by blast+
  have "\<exists>x\<in>set s. \<not> scheme_char x"
  proof (rule ccontr)
    assume "\<not> (\<exists>x\<in>set s. \<not> scheme_char x)"
    then have "dropWhile scheme_char (s @ y) = dropWhile scheme_char y" by (simp add: dropWhile_append2)
    moreover have "dropWhile scheme_char y = y"
      using assms(3) by (cases y) (auto simp: tail_in_def scheme_char_def is_alnum_def)
    ultimately show False using d(1) assms(3) by (auto simp: tail_in_def)
  qed
  then have a: "dropWhile scheme_char (s @ y) = dropWhile scheme_char s @ y"
    "takeWhile scheme_char (s @ y) = takeWhile scheme_char s" "dropWhile scheme_char s \<noteq> []"
    by (auto simp: dropWhile_append1 takeWhile_append1)
  then obtain rest' where "dropWhile scheme_char s = CHR '':'' # rest'" "rest = rest' @ y"
    using d(1) by (cases "dropWhile scheme_char s") auto
  then show ?thesis using a d assms(2) get_scheme_some [of s sch rest'] by auto
qed

lemma url_front_append:
  assumes "url_front b = Some x" "url_tail p"
  shows "url_front (b @ p) = Some x"
proof -
  obtain sch rest where s: "get_scheme (before (CHR ''#'') b) = Some (sch, rest)" "sch \<noteq> []"
    "has_prefix (before (CHR ''?'') rest) ''//''"
    "x = (to_lower sch, before (CHR ''/'') (drop 2 (before (CHR ''?'') rest)))"
    using assms(1) by (auto simp: url_front_def split: option.splits if_splits)
  obtain y where y: "before (CHR ''#'') (b @ p) = before (CHR ''#'') b @ y"
    "tail_in ({CHR ''/'', CHR ''?'', CHR ''#''} - {CHR ''#''}) y"
    using before_tail [OF assms(2) [unfolded url_tail_def]] by blast
  obtain z where z0: "before (CHR ''?'') (rest @ y) = before (CHR ''?'') rest @ z"
    "tail_in ({CHR ''/'', CHR ''?'', CHR ''#''} - {CHR ''#''} - {CHR ''?''}) z"
    using before_tail [OF y(2)] by blast
  have "{CHR ''/'', CHR ''?'', CHR ''#''} - {CHR ''#''} - {CHR ''?''} = {CHR ''/''}" by auto
  note z = z0 [unfolded this]
  have "get_scheme (before (CHR ''#'') (b @ p)) = Some (sch, rest @ y)"
    unfolding y(1) by (rule get_scheme_append [OF s(1,2)])
  moreover have "has_prefix (before (CHR ''?'') rest @ z) ''//''" using s(3) by (auto simp: has_prefix_def)
  moreover have "2 \<le> length (before (CHR ''?'') rest)" using s(3) by (auto simp: has_prefix_def prefix_def)
  then have "before (CHR ''/'') (drop 2 (before (CHR ''?'') rest @ z)) = before (CHR ''/'') (drop 2 (before (CHR ''?'') rest))"
    using before_slash [OF z(2), of "drop 2 (before (CHR ''?'') rest)"] by simp
  ultimately show ?thesis using s z(1) by (simp add: url_front_def)
qed

lemma url_append_stays:
  assumes "url_parse b = Some u" "scheme u \<noteq> []" "host u \<noteq> []" "url_tail p" "url_parse (b @ p) = Some v"
  shows "scheme v = scheme u \<and> host v = host u \<and> user v = user u"
proof -
  obtain a where a: "url_front b = Some (scheme u, a)" "parse_authority (scheme u) a = Some (user u, host u)"
    by (rule url_parse_front [OF assms(1-3)])
  from url_front_parse [OF url_front_append [OF a(1) assms(4)] assms(5)] show ?thesis using a(2) by simp
qed

text \<open>Slashes at the end of the base may be taken away before the path is appended.\<close>

lemma before_absent: "set p \<subseteq> {CHR ''/''} \<Longrightarrow> c \<noteq> CHR ''/'' \<Longrightarrow> before c p = p"
  unfolding takeWhile_eq_all_conv by auto

lemma before_only: "set xs \<subseteq> {c} \<Longrightarrow> before c xs = []"
  by (cases xs) auto

lemma url_front_unappend:
  assumes "url_front (b @ p) = Some (s, a)" "a \<noteq> []" "set p \<subseteq> {CHR ''/''}"
  shows "url_front b = Some (s, a)"
proof -
  have sl: "tail_in {CHR ''/''} p" using assms(3) by (cases p) (auto simp: tail_in_def)
  obtain sch rest1 where g: "get_scheme (before (CHR ''#'') (b @ p)) = Some (sch, rest1)" "sch \<noteq> []" "s = to_lower sch"
    "has_prefix (before (CHR ''?'') rest1) ''//''" "a = before (CHR ''/'') (drop 2 (before (CHR ''?'') rest1))"
    using assms(1) by (auto simp: url_front_def split: option.splits if_splits)
  show ?thesis
  proof (cases "CHR ''#'' \<in> set b")
    case True
    then have "before (CHR ''#'') (b @ p) = before (CHR ''#'') b" by (simp add: takeWhile_append1)
    then show ?thesis using g by (simp add: url_front_def)
  next
    case False
    then have b: "before (CHR ''#'') b = b" unfolding takeWhile_eq_all_conv by auto
    have "before (CHR ''#'') (b @ p) = b @ before (CHR ''#'') p" using False by (intro takeWhile_append2) auto
    then have bp: "before (CHR ''#'') (b @ p) = b @ p" using before_absent [OF assms(3)] by simp
    obtain rest where r: "get_scheme b = Some (sch, rest)" "rest1 = rest @ p"
      using get_scheme_unappend [OF g(1) [unfolded bp] g(2) sl] by blast
    have "before (CHR ''?'') rest1 = before (CHR ''?'') rest @ (if CHR ''?'' \<in> set rest then [] else p)"
    proof (cases "CHR ''?'' \<in> set rest")
      case True
      then show ?thesis by (simp add: r(2) takeWhile_append1)
    next
      case False
      then have e1: "before (CHR ''?'') rest = rest" unfolding takeWhile_eq_all_conv by auto
      have e2: "before (CHR ''?'') (rest @ p) = rest @ before (CHR ''?'') p" using False by (intro takeWhile_append2) auto
      have e3: "before (CHR ''?'') p = p" by (rule before_absent [OF assms(3)]) simp
      show ?thesis unfolding r(2) e1 e2 e3 using False by simp
    qed
    then obtain z where z: "before (CHR ''?'') rest1 = before (CHR ''?'') rest @ z" "set z \<subseteq> {CHR ''/''}"
      using assms(3) by (cases "CHR ''?'' \<in> set rest") auto
    let ?r = "before (CHR ''?'') rest"
    have len: "2 \<le> length ?r"
    proof (rule ccontr)
      assume "\<not> 2 \<le> length ?r"
      then have "set (drop 2 (?r @ z)) \<subseteq> {CHR ''/''}" using z(2) by (auto dest: in_set_dropD)
      then have "before (CHR ''/'') (drop 2 (?r @ z)) = []" by (rule before_only)
      then show False using g(5) assms(2) z(1) by simp
    qed
    have pre: "has_prefix ?r ''//''"
      using g(4) len unfolding z(1) has_prefix_def
      by (auto intro: prefix_length_prefix [of "''//''" "?r @ z" ?r])
    have "tail_in {CHR ''/''} z" using z(2) by (cases z) (auto simp: tail_in_def)
    then have "a = before (CHR ''/'') (drop 2 ?r)"
      using g(5) len before_slash [of z "drop 2 ?r"] by (simp add: z(1))
    then show ?thesis using r(1) g(2,3) pre by (simp add: url_front_def b)
  qed
qed

lemma trim_right_char_split: "\<exists>p. s = trim_right_char c s @ p \<and> set p \<subseteq> {c}"
proof -
  have "rev s = takeWhile ((=) c) (rev s) @ dropWhile ((=) c) (rev s)" by simp
  then have "s = trim_right_char c s @ rev (takeWhile ((=) c) (rev s))"
    unfolding trim_right_char_def by (metis rev_append rev_rev_ident)
  moreover have "set (rev (takeWhile ((=) c) (rev s))) \<subseteq> {c}" by (auto dest: set_takeWhileD)
  ultimately show ?thesis by blast
qed

lemma url_trimmed_stays:
  assumes "url_parse b = Some u" "scheme u \<noteq> []" "host u \<noteq> []" "url_tail p"
    "url_parse (trim_right_char (CHR ''/'') b @ p) = Some v"
  shows "scheme v = scheme u \<and> host v = host u \<and> user v = user u"
proof -
  obtain a where a: "url_front b = Some (scheme u, a)" "parse_authority (scheme u) a = Some (user u, host u)"
    by (rule url_parse_front [OF assms(1-3)])
  have "a \<noteq> []" using a(2) assms(3) by (auto simp: parse_authority_def parse_host_def cut_last_def)
  obtain y where y: "b = trim_right_char (CHR ''/'') b @ y" "set y \<subseteq> {CHR ''/''}"
    using trim_right_char_split by blast
  have "url_front (trim_right_char (CHR ''/'') b) = Some (scheme u, a)"
    by (rule url_front_unappend [OF _ \<open>a \<noteq> []\<close> y(2)]) (use a(1) y(1) in simp)
  from url_front_parse [OF url_front_append [OF this assms(4)] assms(5)] show ?thesis using a(2) by simp
qed

section \<open>Secure origins\<close>

text \<open>HTTPS, or HTTP to this machine; no user information.\<close>

definition secure_url :: "url \<Rightarrow> bool" where
  "secure_url u \<longleftrightarrow> host u \<noteq> [] \<and> user u = None
     \<and> (scheme u = ''https'' \<or> scheme u = ''http'' \<and> is_loopback (hostname u))"

definition secure_endpoint :: "string \<Rightarrow> bool" where
  "secure_endpoint s = (case url_parse s of None \<Rightarrow> False | Some u \<Rightarrow> secure_url u)"

text \<open>Some providers take every loopback address for this machine.\<close>

definition this_machine :: "string \<Rightarrow> bool" where
  "this_machine h \<longleftrightarrow> is_loopback h \<or> equal_fold h ''localhost'' \<or> ip_loopback h"

definition trusted_url :: "url \<Rightarrow> bool" where
  "trusted_url u \<longleftrightarrow> host u \<noteq> [] \<and> user u = None
     \<and> (scheme u = ''https'' \<or> scheme u = ''http'' \<and> this_machine (hostname u))"

definition trusted_endpoint :: "string \<Rightarrow> bool" where
  "trusted_endpoint s = (case url_parse s of None \<Rightarrow> False | Some u \<Rightarrow> trusted_url u)"

lemma secure_trusted: "secure_endpoint s \<Longrightarrow> trusted_endpoint s"
  by (auto simp: secure_endpoint_def trusted_endpoint_def secure_url_def trusted_url_def this_machine_def split: option.splits)

definition same_origin :: "url \<Rightarrow> url \<Rightarrow> bool" where
  "same_origin u v \<longleftrightarrow> scheme v = scheme u \<and> host v = host u \<and> user v = user u"

text \<open>The address of a request: the text of a URL, or a text that is read as one.\<close>

definition reaches :: "url \<Rightarrow> http_request \<Rightarrow> bool" where
  "reaches u q \<longleftrightarrow> (\<exists>v. req_url q = url_string v \<and> same_origin u v)
     \<or> (\<forall>v. url_parse (req_url q) = Some v \<longrightarrow> same_origin u v)"

definition stays_at :: "string \<Rightarrow> http_request \<Rightarrow> bool" where
  "stays_at b q = (case url_parse b of None \<Rightarrow> False | Some u \<Rightarrow> trusted_url u \<and> reaches u q)"

lemma trusted_append:
  assumes "url_parse b = Some u" "trusted_url u" "url_tail p" "url_parse (b @ p) = Some v"
  shows "same_origin u v"
  using url_append_stays [OF assms(1) _ _ assms(3,4)] assms(2) by (auto simp: same_origin_def trusted_url_def)

text \<open>A query that is merged into the one of the parsed URL, as \<open>values.Add\<close> does.\<close>

definition merge_query :: "url_values \<Rightarrow> url \<Rightarrow> url" where
  "merge_query q u = u\<lparr>raw_query := encode_values
     (fold (\<lambda>(k, vs) m. fold (add_value k) vs m) q (parse_query (raw_query u)))\<rparr>"

lemma same_origin_refl [simp]: "same_origin u u"
  by (simp add: same_origin_def)

lemma same_origin_query [simp]:
  "same_origin u (v\<lparr>raw_query := q\<rparr>) = same_origin u v" "same_origin u (merge_query m v) = same_origin u v"
  by (simp_all add: same_origin_def merge_query_def)

lemma trusted_at_parsed:
  assumes "trusted_endpoint b" "url_tail p" "url_parse (b @ p) = Some v" "req_url q = url_string w" "same_origin v w"
  shows "stays_at b q"
proof -
  obtain u where u: "url_parse b = Some u" "trusted_url u"
    using assms(1) by (auto simp: trusted_endpoint_def split: option.splits)
  have "same_origin u v" by (rule trusted_append [OF u assms(2,3)])
  then have "same_origin u w" using assms(5) by (simp add: same_origin_def)
  then show ?thesis using u assms(4) by (auto simp: stays_at_def reaches_def)
qed

lemma trusted_at_text:
  assumes "trusted_endpoint b" "url_tail p" "req_url q = b @ p"
  shows "stays_at b q"
proof -
  obtain u where u: "url_parse b = Some u" "trusted_url u"
    using assms(1) by (auto simp: trusted_endpoint_def split: option.splits)
  then have "\<forall>v. url_parse (req_url q) = Some v \<longrightarrow> same_origin u v"
    using trusted_append [OF u assms(2)] assms(3) by simp
  then show ?thesis using u by (auto simp: stays_at_def reaches_def)
qed

text \<open>Slashes at the end of the base are taken away before the path is appended.\<close>

lemma trusted_at_trimmed:
  assumes "trusted_endpoint b" "url_tail p" "req_url q = trim_right_char (CHR ''/'') b @ p"
  shows "stays_at b q"
proof -
  obtain u where u: "url_parse b = Some u" "trusted_url u"
    using assms(1) by (auto simp: trusted_endpoint_def split: option.splits)
  then have n: "scheme u \<noteq> []" "host u \<noteq> []" by (auto simp: trusted_url_def)
  have "same_origin u v" if "url_parse (req_url q) = Some v" for v
    using url_trimmed_stays [OF u(1) n assms(2) that [unfolded assms(3)]] unfolding same_origin_def by blast
  then show ?thesis using u by (auto simp: stays_at_def reaches_def)
qed

lemmas stays_at_parsed = trusted_at_parsed [OF secure_trusted]
  and stays_at_text = trusted_at_text [OF secure_trusted]
  and stays_at_trimmed = trusted_at_trimmed [OF secure_trusted]

lemma url_tail_simps [simp]:
  "url_tail []" "url_tail (CHR ''/'' # p)" "url_tail (CHR ''?'' # p)"
  "url_tail (p @ q) \<longleftrightarrow> (if p = [] then url_tail q else url_tail p)"
  by (auto simp: url_tail_def tail_in_def)

end
