(* ===== verification/FeishuToken.thy ===== *)
theory FeishuToken
  imports UrlBase
begin

text \<open>
  The tenant token of a Feishu application (\<^verbatim>\<open>internal/feishu/tenant_token.go\<close>), fetched with
  the credentials in the secret part of the request. \<open>None\<close> is the missing transport.
\<close>

record token_request =
  tr_endpoint :: string
  tr_app_id :: string
  tr_app_secret :: string
  tr_prefix :: string

record tenant_token =
  tt_access :: string
  tt_expires :: int

definition token_prefix :: "token_request \<Rightarrow> string" where
  "token_prefix r = (if trim_space (tr_prefix r) = [] then ''feishu'' else trim_space (tr_prefix r))"

definition token_plan :: "token_request \<Rightarrow> tenant_token res + http_request" where
  "token_plan r =
     (if \<not> secure_endpoint (trim_space (tr_endpoint r)) \<or> trim_space (tr_app_id r) = []
         \<or> trim_space (tr_app_secret r) = []
      then Inl (Inl (Permanent (token_prefix r @ ''.token_configuration_invalid'')
        (Msg ''valid Feishu token endpoint, app ID, and app secret are required'')))
      else Inr ((plain_request ''POST'' (trim_space (tr_endpoint r))
          [(''Accept'', [''application/json'']), (''Content-Type'', [''application/json; charset=utf-8''])] ''{}'')
        \<lparr>req_secret_json := [(''app_id'', trim_space (tr_app_id r)), (''app_secret'', trim_space (tr_app_secret r))],
         req_max := 1048576\<rparr>))"

text \<open>The members of the answer: the code, the token and its life; the message is not used.\<close>

definition token_members :: "string \<Rightarrow> (int \<times> string \<times> int) option" where
  "token_members body = (case Option.bind (json_parse body) json_members_of of
     None \<Rightarrow> None
   | Some kvs \<Rightarrow> (case (field_int ''code'' kvs, field_str ''msg'' kvs,
         field_str ''tenant_access_token'' kvs, field_int ''expire'' kvs) of
       (Some c, Some m, Some t, Some x) \<Rightarrow> Some (c, t, x)
     | _ \<Rightarrow> None))"

definition token_read :: "string \<Rightarrow> string + http_response \<Rightarrow> tenant_token res" where
  "token_read pre answer = (case answer of
     Inl m \<Rightarrow> Inl (Retryable (pre @ ''.token_network_error'') (TransportErr m))
   | Inr resp \<Rightarrow>
     (let n = resp_status resp; code = pre @ ''.token_http_'' @ itoa n;
          cause = Msg (''Feishu token endpoint returned HTTP '' @ itoa n) in
      if \<not> ok_status n
      then Inl ((if n = 429 \<or> n \<ge> 500 then Retryable else Permanent) code cause)
      else (case token_members (resp_body resp) of
        None \<Rightarrow> Inl (Permanent (pre @ ''.token_response_invalid'') DecodeErr)
      | Some (c, t, x) \<Rightarrow>
          if c \<noteq> 0 then Inl (Permanent (pre @ ''.token_rejected'')
            (Msg (''Feishu token endpoint returned code '' @ itoa c)))
          else if trim_space t = [] then Inl (Permanent (pre @ ''.token_response_invalid'')
            (Msg ''Feishu token response lacks tenant_access_token''))
          else Inr \<lparr>tt_access = trim_space t, tt_expires = x\<rparr>)))"

definition fetch_tenant_token ::
  "http option \<Rightarrow> token_request \<Rightarrow> http_request list \<Rightarrow> http_request list \<times> tenant_token res" where
  "fetch_tenant_token transport r sent = (case transport of
     None \<Rightarrow> (sent, Inl (Plain ''Feishu transport is required''))
   | Some T \<Rightarrow> run_plan (token_plan r) (token_read (token_prefix r)) T sent)"

interpretation token_fetch: one_request "\<lambda>T. fetch_tenant_token (Some T) r" "token_plan r" "token_read (token_prefix r)"
  for r
  by unfold_locales (simp add: fetch_tenant_token_def)

text \<open>A token that was fetched is not blank, and came from an answer with code 0.\<close>

lemma fetched_token:
  assumes "fetch_tenant_token (Some T) r sent = (sent', Inr t)"
  shows "tt_access t \<noteq> [] \<and> (\<exists>q resp. sent' = sent @ [q] \<and> T sent q = Inr resp \<and> ok_status (resp_status resp)
    \<and> secure_endpoint (req_url q) \<and> req_body q = ''{}'')"
proof -
  obtain q where q: "token_plan r = Inr q" "sent' = sent @ [q]" "token_read (token_prefix r) (T sent q) = Inr t"
    using assms by (cases "token_plan r") (auto simp: token_fetch.refused token_fetch.sent token_plan_def split: if_splits)
  have "req_url q = trim_space (tr_endpoint r)" "req_body q = ''{}''" "secure_endpoint (trim_space (tr_endpoint r))"
    using q(1) by (auto simp: token_plan_def plain_request_def split: if_splits)
  moreover have "tt_access t \<noteq> [] \<and> (\<exists>resp. T sent q = Inr resp \<and> ok_status (resp_status resp))"
    using q(3) by (auto simp: token_read_def Let_def split: sum.splits option.splits if_splits)
  ultimately show ?thesis using q(2) by auto
qed

end
