(* ===== verification/Mqtt.thy ===== *)
theory Mqtt
  imports GoText Sdk
begin

text \<open>
  MQTT telemetry (\<^verbatim>\<open>internal/mqtttelemetry\<close>), the policy that the MQTT and AWS IoT providers
  share. The MQTT client is the runtime's: a transport, or \<open>None\<close> where there is none.
\<close>

record mqtt_options =
  require_tls :: bool
  require_certificate :: bool

record mqtt_request =
  mq_broker :: string
  mq_client :: string
  mq_topic :: string
  mq_payload :: string
  mq_qos :: int
  mq_probe :: bool
  mq_timeout :: int
  mq_server_name :: string
  mq_ca_pem :: string
  mq_secrets :: "string list"

record mqtt_result =
  mr_connected :: bool
  mr_accepted :: bool
  mr_packet :: int

type_synonym mqtt = "(mqtt_request, mqtt_result) transport"

record publish_input =
  pi_device :: string
  pi_event :: string
  pi_metrics :: obj
  pi_timestamp :: val

definition mqtt_error :: "string \<Rightarrow> string \<Rightarrow> gerr" where
  "mqtt_error code msg = Permanent (''mqtt.'' @ code) (Msg msg)"

definition mqtt_loopback :: "string \<Rightarrow> bool" where
  "mqtt_loopback h \<longleftrightarrow> h = ''localhost'' \<or> h = ''127.0.0.1'' \<or> h = ''::1''"

definition topic_template :: "connection \<Rightarrow> string" where
  "topic_template c = config_default c ''topic'' ''devices/{device_id}/telemetry''"

definition topic_ok :: "string \<Rightarrow> bool" where
  "topic_ok s \<longleftrightarrow> length s \<le> 65535 \<and> \<not> contains_any_char s [CHR 0x00, CHR ''#'', CHR ''+'']"

definition mqtt_timeout :: "connection \<Rightarrow> int" where
  "mqtt_timeout c = int_value (at (config c) ''timeout_seconds'') 15"

definition mqtt_validate :: "mqtt_options \<Rightarrow> connection \<Rightarrow> gerr option" where
  "mqtt_validate p c =
     (case url_parse (config_text c ''broker_url'') of
        None \<Rightarrow> Some (mqtt_error ''broker_invalid'' ''valid MQTT broker URL is required'')
      | Some u \<Rightarrow>
        if host u = [] \<or> user u \<noteq> None \<or> raw_query u \<noteq> [] \<or> fragment u \<noteq> []
           \<or> scheme u \<noteq> ''mqtt'' \<and> scheme u \<noteq> ''mqtts''
        then Some (mqtt_error ''broker_invalid'' ''valid MQTT broker URL is required'')
        else if require_tls p \<and> scheme u \<noteq> ''mqtts'' then Some (mqtt_error ''tls_required'' ''TLS is required'')
        else if scheme u = ''mqtt'' \<and> \<not> mqtt_loopback (hostname u)
        then Some (mqtt_error ''plaintext_forbidden'' ''plaintext MQTT is restricted to loopback'')
        else if topic_template c = [] \<or> \<not> topic_ok (topic_template c)
        then Some (mqtt_error ''topic_invalid'' ''publish topic template is invalid'')
        else if mqtt_timeout c < 1 \<or> mqtt_timeout c > 300
        then Some (mqtt_error ''timeout_invalid'' ''timeout_seconds is invalid'')
        else None)"

section \<open>Execution\<close>

definition mqtt_plan ::
  "mqtt_options \<Rightarrow> bool \<Rightarrow> connection \<Rightarrow> secrets \<Rightarrow> string \<Rightarrow> string \<Rightarrow> bool \<Rightarrow> mqtt_result res + mqtt_request" where
  "mqtt_plan p available c ss topic payload probe =
     (case mqtt_validate p c of Some e \<Rightarrow> Inl (Inl e) | None \<Rightarrow>
      if require_certificate p \<and> (trim_space (secret ss ''certificate'') = [] \<or> trim_space (secret ss ''private_key'') = [])
      then Inl (Inl (mqtt_error ''client_certificate_required'' ''client certificate and private key are required''))
      else if \<not> available
      then Inl (Inl (mqtt_error ''transport_unavailable'' ''Runtime does not provide MQTT transport capability''))
      else Inr \<lparr>mq_broker = config_text c ''broker_url'', mq_client = config_text c ''client_id'', mq_topic = topic,
        mq_payload = payload, mq_qos = 1, mq_probe = probe, mq_timeout = wrap64 (mqtt_timeout c * 1000000000),
        mq_server_name = config_text c ''tls_server_name'', mq_ca_pem = config_text c ''tls_ca_pem'',
        mq_secrets = map (secret ss) [''mqtt_username'', ''mqtt_password'', ''certificate'', ''private_key'']\<rparr>)"

definition mqtt_read :: "bool \<Rightarrow> string + mqtt_result \<Rightarrow> mqtt_result res" where
  "mqtt_read probe answer = (case answer of
     Inl m \<Rightarrow> Inl (if probe then Retryable ''mqtt.connection_failed'' (TransportErr m)
       else Uncertain ''mqtt.publish_uncertain'' (TransportErr m))
   | Inr r \<Rightarrow> if \<not> mr_connected r \<or> \<not> probe \<and> \<not> mr_accepted r
       then Inl (mqtt_error ''result_invalid'' ''Runtime MQTT result is invalid'') else Inr r)"

definition no_mqtt :: mqtt where
  "no_mqtt sent q = Inl ''no transport''"

definition mqtt_execute ::
  "mqtt_options \<Rightarrow> mqtt option \<Rightarrow> connection \<Rightarrow> secrets \<Rightarrow> string \<Rightarrow> string \<Rightarrow> bool \<Rightarrow> mqtt_request list
    \<Rightarrow> mqtt_request list \<times> mqtt_result res" where
  "mqtt_execute p transport c ss topic payload probe =
     run_plan (mqtt_plan p (transport \<noteq> None) c ss topic payload probe) (mqtt_read probe)
       (case transport of None \<Rightarrow> no_mqtt | Some T \<Rightarrow> T)"

definition mqtt_test ::
  "mqtt_options \<Rightarrow> mqtt option \<Rightarrow> connection \<Rightarrow> secrets \<Rightarrow> mqtt_request list \<Rightarrow> mqtt_request list \<times> typed" where
  "mqtt_test p transport c ss sent = (case mqtt_execute p transport c ss [] [] True sent of
     (sent', Inl e) \<Rightarrow> (sent', failed e)
   | (sent', Inr r) \<Rightarrow> (sent', VObj [(''connected'', VBool (mr_connected r))], ''mqtt:connected'', None))"

definition mqtt_test_connection ::
  "mqtt_options \<Rightarrow> mqtt option \<Rightarrow> connection \<Rightarrow> secrets \<Rightarrow> mqtt_request list \<Rightarrow> mqtt_request list \<times> (bool \<times> string) res" where
  "mqtt_test_connection p transport c ss sent = (case mqtt_test p transport c ss sent of
     (sent', out, ref, Some e) \<Rightarrow> (sent', Inl e)
   | (sent', out, ref, None) \<Rightarrow> (sent', Inr (at (as_obj out) ''connected'' = VBool True, marshal_or [] out)))"

definition telemetry_payload :: "publish_input \<Rightarrow> val" where
  "telemetry_payload i = VObj ([(''device_id'', VStr (trim_space (pi_device i))),
     (''event_id'', VStr (trim_space (pi_event i))), (''metrics'', VObj (pi_metrics i))]
     @ (if pi_timestamp i = VNil then [] else [(''timestamp'', pi_timestamp i)]))"

definition publish_topic :: "connection \<Rightarrow> publish_input \<Rightarrow> string" where
  "publish_topic c i = replace_all ''{device_id}'' (trim_space (pi_device i)) (topic_template c)"

definition mqtt_publish ::
  "mqtt_options \<Rightarrow> mqtt option \<Rightarrow> connection \<Rightarrow> secrets \<Rightarrow> publish_input \<Rightarrow> mqtt_request list
    \<Rightarrow> mqtt_request list \<times> typed" where
  "mqtt_publish p transport c ss i sent =
     (if trim_space (pi_device i) = [] \<or> trim_space (pi_event i) = [] \<or> pi_metrics i = []
      then (sent, failed (mqtt_error ''payload_invalid'' ''device_id, event_id and metrics are required''))
      else (case marshal (telemetry_payload i) of
        None \<Rightarrow> (sent, failed (mqtt_error ''payload_invalid'' ''telemetry payload is invalid or too large''))
      | Some raw \<Rightarrow>
          if length raw > 1048576
          then (sent, failed (mqtt_error ''payload_invalid'' ''telemetry payload is invalid or too large''))
          else if \<not> topic_ok (publish_topic c i)
          then (sent, failed (mqtt_error ''topic_invalid'' ''resolved publish topic is invalid''))
          else (case mqtt_execute p transport c ss (publish_topic c i) raw False sent of
              (sent', Inl e) \<Rightarrow> (sent', failed e)
            | (sent', Inr r) \<Rightarrow> (sent', VObj [(''accepted'', VBool (mr_accepted r)), (''packet_id'', VInt (mr_packet r))],
                ''mqtt:'' @ itoa (mr_packet r), None))))"

section \<open>What reaches the broker\<close>

text \<open>A broker that is reached over TLS, or on the machine itself.\<close>

definition broker_safe :: "mqtt_options \<Rightarrow> string \<Rightarrow> bool" where
  "broker_safe p s \<longleftrightarrow> (\<exists>u. url_parse s = Some u \<and> host u \<noteq> [] \<and> user u = None
     \<and> (scheme u = ''mqtts'' \<or> scheme u = ''mqtt'' \<and> mqtt_loopback (hostname u) \<and> \<not> require_tls p))"

lemma mqtt_plan_request:
  assumes "mqtt_plan p available c ss topic payload probe = Inr q"
  shows "broker_safe p (mq_broker q) \<and> mq_topic q = topic \<and> mq_payload q = payload \<and> mq_qos q = 1
    \<and> mq_probe q = probe \<and> 1000000000 \<le> mq_timeout q \<and> mq_timeout q \<le> 300000000000"
proof -
  have v: "mqtt_validate p c = None" using assms by (auto simp: mqtt_plan_def split: option.splits)
  then have t: "1 \<le> mqtt_timeout c" "mqtt_timeout c \<le> 300" and b: "broker_safe p (config_text c ''broker_url'')"
    by (auto simp: mqtt_validate_def broker_safe_def simp del: not_None_eq split: option.splits if_splits)
  have "int64 (mqtt_timeout c * 1000000000)" using t by (simp add: int64_def)
  then show ?thesis using assms v t b by (auto simp: mqtt_plan_def split: if_splits)
qed

lemma mqtt_plan_permanent: "mqtt_plan p available c ss topic payload probe = Inl x \<Longrightarrow> \<exists>e. x = Inl e \<and> is_permanent e"
  by (auto simp: mqtt_plan_def mqtt_validate_def mqtt_error_def split: option.splits if_splits)

lemma mqtt_execute_cases:
  obtains (refused) e where "mqtt_execute p transport c ss topic payload probe sent = (sent, Inl e)" "is_permanent e"
  | (sent) q T where "mqtt_plan p True c ss topic payload probe = Inr q" "transport = Some T"
      "mqtt_execute p transport c ss topic payload probe sent = (sent @ [q], mqtt_read probe (T sent q))"
proof (cases "mqtt_plan p (transport \<noteq> None) c ss topic payload probe")
  case (Inl x)
  then show ?thesis
    using mqtt_plan_permanent [OF Inl] refused by (auto simp: mqtt_execute_def run_plan_def)
next
  case (Inr q)
  then obtain T where "transport = Some T" by (cases transport) (auto simp: mqtt_plan_def split: option.splits if_splits)
  then show ?thesis using Inr sent by (simp add: mqtt_execute_def run_plan_def)
qed

definition published :: "mqtt_options \<Rightarrow> mqtt_request \<Rightarrow> bool" where
  "published p q \<longleftrightarrow> broker_safe p (mq_broker q) \<and> topic_ok (mq_topic q) \<and> length (mq_payload q) \<le> 1048576
     \<and> mq_qos q = 1 \<and> 1000000000 \<le> mq_timeout q \<and> mq_timeout q \<le> 300000000000"

text \<open>
  C35: a publication is refused for good with nothing sent, or it is one message over TLS or to
  this machine, on a topic of legal length without wildcards, of at most one MiB and with a
  timeout of 1 to 300 seconds; and when the broker's answer is lost, the outcome is uncertain.
\<close>
theorem mqtt_publish_bounded:
  "case mqtt_publish p transport c ss i sent of (sent', out, ref, err) \<Rightarrow>
     sent' = sent \<and> (\<exists>e. err = Some e \<and> is_permanent e) \<or>
     (\<exists>q T. sent' = sent @ [q] \<and> transport = Some T \<and> published p q \<and>
       (case T sent q of Inl m \<Rightarrow> \<exists>e. err = Some e \<and> is_uncertain e
        | Inr r \<Rightarrow> (case err of None \<Rightarrow> mr_connected r \<and> mr_accepted r | Some e \<Rightarrow> is_permanent e)))"
proof (cases "mqtt_publish p transport c ss i sent = (sent, failed (mqtt_error ''payload_invalid'' ''device_id, event_id and metrics are required''))
    \<or> mqtt_publish p transport c ss i sent = (sent, failed (mqtt_error ''payload_invalid'' ''telemetry payload is invalid or too large''))
    \<or> mqtt_publish p transport c ss i sent = (sent, failed (mqtt_error ''topic_invalid'' ''resolved publish topic is invalid''))")
  case True
  then show ?thesis by (auto simp: failed_def mqtt_error_def)
next
  case False
  then obtain raw where raw: "length raw \<le> 1048576" "topic_ok (publish_topic c i)"
    "mqtt_publish p transport c ss i sent = (case mqtt_execute p transport c ss (publish_topic c i) raw False sent of
       (sent', Inl e) \<Rightarrow> (sent', failed e)
     | (sent', Inr r) \<Rightarrow> (sent', VObj [(''accepted'', VBool (mr_accepted r)), (''packet_id'', VInt (mr_packet r))],
         ''mqtt:'' @ itoa (mr_packet r), None))"
    by (auto simp: mqtt_publish_def not_less split: option.splits if_splits)
  show ?thesis
  proof (cases rule: mqtt_execute_cases [of p transport c ss "publish_topic c i" raw False sent])
    case (refused e)
    then show ?thesis by (simp add: raw(3) failed_def)
  next
    case (sent q T)
    have "published p q" using mqtt_plan_request [OF sent(1)] raw(1,2) by (simp add: published_def)
    then show ?thesis
      unfolding raw(3) sent(3) using sent(2)
      by (cases "T sent q") (simp_all add: mqtt_read_def failed_def mqtt_error_def)
  qed
qed

end
