(* ===== verification/ReleaseHttp.thy ===== *)
theory ReleaseHttp
  imports Sdk
begin

text \<open>
  The HTTP transport of the release gates (\<^verbatim>\<open>internal/releaseverify/http.go\<close>): it puts the
  secret parts of a request in their places and bounds the answer. The HTTP client is a
  parameter, from the request on the wire to the status, the headers and the whole body.
\<close>

section \<open>Requests on the wire\<close>

record wire_request =
  wr_method :: string
  wr_url :: string
  wr_headers :: headers
  wr_body :: string

text \<open>
  \<open>http.NewRequestWithContext\<close> wants a method that is a token and an address that parses; the
  empty method is GET.
\<close>

definition token_char :: "char \<Rightarrow> bool" where
  "token_char c \<longleftrightarrow> is_alnum c \<or> c \<in> set [CHR ''!'', CHR ''#'', CHR ''$'', CHR ''%'', CHR ''&'', CHR 0x27, CHR ''*'',
     CHR ''+'', CHR ''-'', CHR ''.'', CHR ''^'', CHR ''_'', CHR 0x60, CHR ''|'', CHR ''~'']"

definition new_request :: "string \<Rightarrow> string \<Rightarrow> string \<Rightarrow> wire_request option" where
  "new_request mth u body = (let mth' = (if mth = [] then ''GET'' else mth) in
     if list_all token_char mth' \<and> url_parse u \<noteq> None
     then Some \<lparr>wr_method = mth', wr_url = u, wr_headers = [], wr_body = body\<rparr> else None)"

text \<open>\<open>Header.Add\<close> writes a name of token characters in its canonical case.\<close>

fun canonical_from :: "bool \<Rightarrow> string \<Rightarrow> string" where
  "canonical_from start [] = []"
| "canonical_from start (c # cs) =
     (if start then upper_char c else lower_char c) # canonical_from (c = CHR ''-'') cs"

definition canonical_key :: "string \<Rightarrow> string" where
  "canonical_key k = (if list_all token_char k then canonical_from True k else k)"

definition add_headers :: "headers \<Rightarrow> headers \<Rightarrow> headers" where
  "add_headers hs out = fold (\<lambda>(k, vs) out. fold (\<lambda>v. add_value (canonical_key k) v) vs out) hs out"

section \<open>Secret parameters\<close>

text \<open>
  Every secret parameter is set, unless the public ones already have its name. The texts of
  the library's own errors are placeholders.
\<close>

definition has_key :: "url_values \<Rightarrow> string \<Rightarrow> bool" where
  "has_key q k \<longleftrightarrow> k \<in> set (map fst q)"

fun set_secrets :: "(string \<times> string) list \<Rightarrow> url_values \<Rightarrow> url_values option" where
  "set_secrets [] q = Some q"
| "set_secrets ((k, v) # ss) q = (if has_key q k then None else set_secrets ss (put k [v] q))"

definition release_plan :: "http_request \<Rightarrow> wire_request res" where
  "release_plan r =
     (case url_parse (req_url r) of None \<Rightarrow> Inl (Plain ''parse error'') | Some u \<Rightarrow>
     (case set_secrets (req_secret_query r) (parse_query (raw_query u)) of
        None \<Rightarrow> Inl (Plain ''secret query collides with public query'')
      | Some q \<Rightarrow>
     (case (if req_secret_form r = [] then Inr (req_body r)
            else (case parse_query_strict (req_body r) of
              None \<Rightarrow> Inl (Plain ''parse error'')
            | Some form \<Rightarrow> (case set_secrets (req_secret_form r) form of
                None \<Rightarrow> Inl (Plain ''secret form collides with public form'')
              | Some form' \<Rightarrow> Inr (encode_values form')))) of
        Inl e \<Rightarrow> Inl e
      | Inr body \<Rightarrow>
     (case new_request (req_method r) (url_string (u\<lparr>raw_query := encode_values q\<rparr>)) body of
        None \<Rightarrow> Inl (Plain ''request error'')
      | Some w \<Rightarrow>
          if req_secret_json r \<noteq> []
          then Inl (Plain ''secret JSON injection is not supported by release verifier'')
          else Inr (w\<lparr>wr_headers := add_headers (req_secret_headers r) (add_headers (req_headers r) [])\<rparr>)))))"

section \<open>Answers\<close>

type_synonym http_client = "wire_request \<Rightarrow> string + http_response"

text \<open>
  At most one byte over the limit is read. The sum wraps around at the largest limit, and then
  nothing is read.
\<close>

definition release_read :: "int \<Rightarrow> string + http_response \<Rightarrow> http_response res" where
  "release_read mx answer = (case answer of
     Inl m \<Rightarrow> Inl (Plain m)
   | Inr a \<Rightarrow>
     (let limit = (if mx \<le> 0 then 2097152 else mx);
          body = take (nat (wrap64 (limit + 1))) (resp_body a) in
      if int (length body) > limit then Inl (Plain ''release verification response exceeded limit'')
      else Inr (a\<lparr>resp_body := body\<rparr>)))"

definition release_round_trip :: "http_client \<Rightarrow> http_request \<Rightarrow> http_response res" where
  "release_round_trip client r = (case release_plan r of
     Inl e \<Rightarrow> Inl e | Inr w \<Rightarrow> release_read (req_max r) (client w))"

section \<open>What the transport promises\<close>

lemma set_secrets_distinct:
  "set_secrets ss q = Some q' \<Longrightarrow> distinct (map fst q) \<Longrightarrow> distinct (map fst q')"
  by (induction ss q rule: set_secrets.induct) (auto simp: distinct_put split: if_splits)

lemma has_key_put [simp]: "has_key (put k v q) k' \<longleftrightarrow> k = k' \<or> has_key q k'"
proof -
  have "has_key m j \<longleftrightarrow> map_of m j \<noteq> None" for m :: url_values and j
    by (simp add: has_key_def map_of_eq_None_iff)
  then show ?thesis by simp
qed

lemma set_secrets_keeps:
  "set_secrets ss q = Some q' \<Longrightarrow> has_key q k \<Longrightarrow> get_or [] q' k = get_or [] q k"
  by (induction ss q rule: set_secrets.induct) (auto simp: get_or_put split: if_splits)

lemma set_secrets_fresh:
  "(k, v) \<in> set ss \<Longrightarrow> set_secrets ss q = Some q' \<Longrightarrow> \<not> has_key q k"
  by (induction ss q rule: set_secrets.induct) (auto split: if_splits)

lemma set_secrets_sets:
  "set_secrets ss q = Some q' \<Longrightarrow> (k, v) \<in> set ss \<Longrightarrow> get_or [] q' k = [v]"
proof (induction ss q rule: set_secrets.induct)
  case (2 k' v' ss q)
  show ?case
  proof (cases "(k, v) = (k', v')")
    case True
    then show ?thesis
      using 2 set_secrets_keeps [of ss "put k' [v'] q" q' k'] by (auto simp: get_or_put split: if_splits)
  qed (use 2 in \<open>auto split: if_splits\<close>)
qed simp

text \<open>
  On the wire every public query parameter keeps its values and every secret one has its
  own value and no other; a name that is used by both is refused.
\<close>
lemma release_query_exact:
  assumes "release_plan r = Inr w" "url_parse (req_url r) = Some u"
  shows "\<exists>q. wr_url w = url_string (u\<lparr>raw_query := q\<rparr>)
    \<and> (\<forall>(k, v) \<in> set (req_secret_query r). get_or [] (parse_query q) k = [v] \<and> \<not> has_key (parse_query (raw_query u)) k)
    \<and> (\<forall>k. has_key (parse_query (raw_query u)) k \<longrightarrow>
        get_or [] (parse_query q) k = get_or [] (parse_query (raw_query u)) k)"
proof -
  obtain q where q: "set_secrets (req_secret_query r) (parse_query (raw_query u)) = Some q"
    "wr_url w = url_string (u\<lparr>raw_query := encode_values q\<rparr>)"
    using assms by (auto simp: release_plan_def new_request_def Let_def split: option.splits sum.splits if_splits)
  have g: "get_or [] (parse_query (encode_values q)) k = get_or [] q k" for k
    by (rule get_parse_encode) (rule set_secrets_distinct [OF q(1) distinct_parse_query])
  have "\<not> has_key (parse_query (raw_query u)) k" if "(k, v) \<in> set (req_secret_query r)" for k v
    using that q(1) by (rule set_secrets_fresh)
  then show ?thesis
    using q(2) g set_secrets_sets [OF q(1)] set_secrets_keeps [OF q(1)]
    by (intro exI [of _ "encode_values q"]) auto
qed

text \<open>
  C36: an answer is passed on whole or, over the limit, refused, never cut off; but with the
  largest limit the sum wraps around and every body is lost.
\<close>
theorem release_answer_whole:
  assumes "int64 mx"
  shows "release_read mx (Inr a) =
    (if mx = max_int64 then Inr (a\<lparr>resp_body := []\<rparr>)
     else if int (length (resp_body a)) > (if mx \<le> 0 then 2097152 else mx)
     then Inl (Plain ''release verification response exceeded limit'') else Inr a)"
proof (cases "mx = max_int64")
  case True
  have "wrap64 (max_int64 + 1) = min_int64" by (simp add: wrap64_def)
  then show ?thesis using True by (simp add: release_read_def Let_def)
next
  case False
  define l where "l = (if mx \<le> 0 then 2097152 else mx)"
  have l: "0 < l" "int64 (l + 1)" using assms False by (auto simp: l_def int64_def)
  then have n: "nat (wrap64 (l + 1)) = nat l + 1" by (simp add: nat_add_distrib)
  show ?thesis
  proof (cases "int (length (resp_body a)) > l")
    case True
    then have "int (length (take (nat l + 1) (resp_body a))) > l" using l(1) by simp
    then show ?thesis using True False n by (simp add: release_read_def Let_def l_def [symmetric])
  next
    case small: False
    then have "take (nat l + 1) (resp_body a) = resp_body a" using l(1) by simp
    then show ?thesis using small False n by (simp add: release_read_def Let_def l_def [symmetric])
  qed
qed

theorem release_answer_whole_witness:
  "release_read 5 (Inr \<lparr>resp_status = 200, resp_headers = [], resp_body = ''hello''\<rparr>)
    = Inr \<lparr>resp_status = 200, resp_headers = [], resp_body = ''hello''\<rparr>"
  using release_answer_whole [of 5 "\<lparr>resp_status = 200, resp_headers = [], resp_body = ''hello''\<rparr>"]
  by (simp add: int64_def)

end
