(* ===== verification/RestCall.thy ===== *)
theory RestCall
  imports ApiCall UrlBase
begin

text \<open>
  The JSON calls of the providers that join a path to a configured base: the checks before the
  request, in the order of the code, the request, and the reading of its answer. The providers
  of one family share their wording; what differs is a parameter here.
\<close>

section \<open>Requests\<close>

text \<open>A configured text with its default.\<close>

definition map_default :: "connection \<Rightarrow> string \<Rightarrow> string \<Rightarrow> string" where
  "map_default c k d = (if map_string (config c) k \<noteq> [] then map_string (config c) k else d)"

text \<open>
  The body of a call is absent, or it is the encoding of a value, which itself is \<open>None\<close> where the
  value has no encoding.
\<close>

record rest_call =
  rc_method :: string
  rc_path :: string
  rc_query :: url_values
  rc_body :: "string option option"
  rc_write :: bool

definition get_call :: "string \<Rightarrow> url_values \<Rightarrow> rest_call" where
  "get_call p q = \<lparr>rc_method = ''GET'', rc_path = p, rc_query = q, rc_body = None, rc_write = False\<rparr>"

definition write_call :: "string \<Rightarrow> string \<Rightarrow> url_values \<Rightarrow> string option \<Rightarrow> rest_call" where
  "write_call mth p q b = \<lparr>rc_method = mth, rc_path = p, rc_query = q, rc_body = Some b, rc_write = True\<rparr>"

text \<open>A query that is sent as a body.\<close>

definition query_call :: "string \<Rightarrow> string option \<Rightarrow> rest_call" where
  "query_call p b = \<lparr>rc_method = ''POST'', rc_path = p, rc_query = [], rc_body = Some b, rc_write = False\<rparr>"

lemma rest_call_simps [simp]:
  "rc_path (query_call p b) = p" "rc_write (query_call p b) = False"
  "rc_path (get_call p q) = p" "rc_write (get_call p q) = False"
  "rc_path (write_call mth p q b) = p" "rc_write (write_call mth p q b) = True"
  by (simp_all add: get_call_def write_call_def query_call_def)

definition json_body :: "string option option \<Rightarrow> string option" where
  "json_body b = (case b of None \<Rightarrow> Some [] | Some v \<Rightarrow> v)"

definition json_headers :: "string option option \<Rightarrow> headers" where
  "json_headers b = (''Accept'', [''application/json'']) # (if b = None then [] else [(''Content-Type'', [''application/json''])])"

definition authorized :: "string \<Rightarrow> http_request \<Rightarrow> http_request" where
  "authorized a q = q\<lparr>req_secret_headers := [(''Authorization'', [a])], req_max := 4194304\<rparr>"

text \<open>
  The configuration is checked, then the credential, then the address, then the body. \<open>build\<close>
  makes the request of the address and the encoded body.
\<close>

definition rest_plan ::
  "gerr option \<Rightarrow> string \<times> gerr \<Rightarrow> string res \<Rightarrow> string option option \<times> gerr \<Rightarrow> (string \<Rightarrow> string \<Rightarrow> http_request)
    \<Rightarrow> typed + http_request" where
  "rest_plan validated token target body build =
     (case validated of Some e \<Rightarrow> Inl (failed e) | None \<Rightarrow>
      if fst token = [] then Inl (failed (snd token))
      else (case target of Inl e \<Rightarrow> Inl (failed e)
      | Inr u \<Rightarrow> (case json_body (fst body) of None \<Rightarrow> Inl (failed (snd body))
        | Some raw \<Rightarrow> Inr (build u raw))))"

lemma rest_plan_permanent:
  assumes "rest_plan validated token target body build = Inl x"
    "\<And>e. validated = Some e \<Longrightarrow> is_permanent e" "is_permanent (snd token)"
    "\<And>e. target = Inl e \<Longrightarrow> is_permanent e" "is_permanent (snd body)"
  shows "\<exists>e. typed_err x = Some e \<and> is_permanent e"
  using assms by (auto simp: rest_plan_def failed_def split: option.splits sum.splits if_splits)

lemma rest_plan_request:
  assumes "rest_plan validated token target body build = Inr q"
  obtains u raw where "validated = None" "target = Inr u" "json_body (fst body) = Some raw" "q = build u raw"
  using assms by (auto simp: rest_plan_def split: option.splits sum.splits if_splits)

text \<open>The same without a look at a credential, which the caller has checked.\<close>

definition call_plan ::
  "gerr option \<Rightarrow> string res \<Rightarrow> string option option \<times> gerr \<Rightarrow> (string \<Rightarrow> string \<Rightarrow> http_request) \<Rightarrow> typed + http_request" where
  "call_plan validated target body build =
     (case validated of Some e \<Rightarrow> Inl (failed e)
      | None \<Rightarrow> (case target of Inl e \<Rightarrow> Inl (failed e)
        | Inr u \<Rightarrow> (case json_body (fst body) of None \<Rightarrow> Inl (failed (snd body))
          | Some raw \<Rightarrow> Inr (build u raw))))"

lemma call_plan_rest: "call_plan validated target body build = rest_plan validated (''t'', Plain []) target body build"
  by (simp add: call_plan_def rest_plan_def)

lemma call_plan_permanent:
  assumes "call_plan validated target body build = Inl x" "\<And>e. validated = Some e \<Longrightarrow> is_permanent e"
    "\<And>e. target = Inl e \<Longrightarrow> is_permanent e" "is_permanent (snd body)"
  shows "\<exists>e. typed_err x = Some e \<and> is_permanent e"
  using assms by (auto simp: call_plan_def failed_def split: option.splits sum.splits)

text \<open>A target that is parsed and gets its query merged in, or is joined as text.\<close>

definition parsed_target :: "string \<Rightarrow> gerr \<Rightarrow> string \<Rightarrow> (url \<Rightarrow> url) \<Rightarrow> string res" where
  "parsed_target b e p f = (case url_parse (b @ p) of None \<Rightarrow> Inl e | Some u \<Rightarrow> Inr (url_string (f u)))"

definition text_target :: "string \<Rightarrow> string \<Rightarrow> url_values \<Rightarrow> string" where
  "text_target b p q = b @ p @ (if q = [] then [] else CHR ''?'' # encode_values q)"

lemma stays_parsed_target:
  assumes "parsed_target b e p f = Inr u" "secure_endpoint b" "url_tail p" "\<And>v. same_origin v (f v)" "req_url q = u"
  shows "stays_at b q"
proof -
  obtain v where "url_parse (b @ p) = Some v" "u = url_string (f v)"
    using assms(1) by (auto simp: parsed_target_def split: option.splits)
  then show ?thesis using stays_at_parsed [OF assms(2,3)] assms(4,5) by blast
qed

lemma stays_text_target:
  assumes "secure_endpoint b" "url_tail p" "req_url q = text_target b p m"
  shows "stays_at b q"
  by (rule stays_at_text [OF assms(1), of "p @ (if m = [] then [] else CHR ''?'' # encode_values m)"])
    (use assms in \<open>simp_all add: text_target_def\<close>)

lemma plan_stays_parsed:
  assumes "rest_plan validated token (parsed_target b e p f) body build = Inr q"
    "validated = None \<Longrightarrow> secure_endpoint b" "url_tail p" "\<And>v. same_origin v (f v)" "\<And>u raw. req_url (build u raw) = u"
  shows "stays_at b q"
  using assms(1)
proof (rule rest_plan_request)
  fix u raw assume u: "validated = None" "parsed_target b e p f = Inr u" "q = build u raw"
  show ?thesis by (rule stays_parsed_target [OF u(2) assms(2) [OF u(1)] assms(3,4)]) (simp add: u(3) assms(5))
qed

lemma plan_stays_text:
  assumes "rest_plan validated token (Inr (text_target b p m)) body build = Inr q"
    "validated = None \<Longrightarrow> secure_endpoint b" "url_tail p" "\<And>u raw. req_url (build u raw) = u"
  shows "stays_at b q"
  using assms(1)
proof (rule rest_plan_request)
  fix u raw assume u: "validated = None" "Inr (text_target b p m) = (Inr u :: string res)" "q = build u raw"
  show ?thesis by (rule stays_text_target [OF assms(2) [OF u(1)] assms(3), of q m]) (use u(2,3) assms(4) in simp)
qed

lemma req_url_plain [simp]: "req_url (authorized a (plain_request mth u hs b)) = u"
  by (simp add: authorized_def plain_request_def)

lemma plan_stays_whole:
  assumes "rest_plan validated token (Inr b) body build = Inr q" "validated = None \<Longrightarrow> secure_endpoint b"
    "\<And>u raw. req_url (build u raw) = u"
  shows "stays_at b q"
proof -
  have "text_target b [] [] = b" by (simp add: text_target_def)
  then show ?thesis using plan_stays_text [of validated token b "[]" "[]" body build q] assms by simp
qed

text \<open>The slashes at the end of the base are taken away.\<close>

lemma plan_stays_trimmed:
  assumes "rest_plan validated token (Inr (text_target (trim_right_char (CHR ''/'') b) p m)) body build = Inr q"
    "validated = None \<Longrightarrow> secure_endpoint b" "url_tail p" "\<And>u raw. req_url (build u raw) = u"
  shows "stays_at b q"
  using assms(1)
proof (rule rest_plan_request)
  fix u raw
  assume u: "validated = None" "Inr (text_target (trim_right_char (CHR ''/'') b) p m) = (Inr u :: string res)" "q = build u raw"
  let ?tail = "p @ (if m = [] then [] else CHR ''?'' # encode_values m)"
  have "req_url q = trim_right_char (CHR ''/'') b @ ?tail" using u(2,3) assms(4) by (simp add: text_target_def)
  then show ?thesis by (rule stays_at_trimmed [OF assms(2) [OF u(1)], rotated]) (use assms(3) in simp)
qed

text \<open>The encoding of a struct: its members in the order of the fields.\<close>

definition object_text :: "(string \<times> string option) list \<Rightarrow> string option" where
  "object_text kvs = map_option (\<lambda>ss. ''{'' @ join '','' ss @ ''}'')
     (all_some (map (\<lambda>(k, v). map_option (\<lambda>s. quote_str k @ '':'' @ s) v) kvs))"

text \<open>Members with \<open>omitempty\<close>: a pointer that is set, a text that is not empty.\<close>

definition opt_member :: "string \<Rightarrow> val option \<Rightarrow> (string \<times> string option) list" where
  "opt_member k v = (case v of None \<Rightarrow> [] | Some x \<Rightarrow> [(k, marshal x)])"

definition text_member :: "string \<Rightarrow> string \<Rightarrow> (string \<times> string option) list" where
  "text_member k s = (if s = [] then [] else [(k, marshal (VStr s))])"

section \<open>Answers\<close>

text \<open>
  \<open>late_read\<close> parses the body before it looks at the status, so that an unreadable answer is
  permanent whatever its status; \<open>status_read\<close> looks at the status first. \<open>code_of\<close> makes the
  error code of an answer and its status, \<open>ok_of\<close> the result of an accepted one.
\<close>

definition blank_or_map :: "string \<Rightarrow> val option" where
  "blank_or_map s = (if trim_space s = [] then Some (VObj []) else decode_map s)"

definition status_error :: "bool \<Rightarrow> int \<Rightarrow> string \<Rightarrow> cause \<Rightarrow> gerr" where
  "status_error write n code cause =
     (if n = 429 then Retryable code cause
      else if n \<ge> 500 then failure write code cause else Permanent code cause)"

definition late_read ::
  "(string \<Rightarrow> val option) \<Rightarrow> string \<Rightarrow> (obj \<Rightarrow> int \<Rightarrow> string) \<Rightarrow> (obj \<Rightarrow> string option) \<Rightarrow> bool \<Rightarrow> string + http_response \<Rightarrow> typed" where
  "late_read decode pre code_of ref_of write answer = (case answer of
     Inl m \<Rightarrow> failed (failure write (pre @ ''.network_error'') (TransportErr m))
   | Inr resp \<Rightarrow>
     (let n = resp_status resp; ref = ''http:'' @ itoa n in
      case decode (resp_body resp) of
        None \<Rightarrow> (VNil, ref, Some (Permanent (pre @ ''.response_invalid'') (Msg ''provider response is invalid JSON'')))
      | Some v \<Rightarrow>
          if \<not> ok_status n then (v, ref, Some (status_error write n (code_of (as_obj v) n)
            (Msg (''provider returned HTTP '' @ itoa n))))
          else (v, (case ref_of (as_obj v) of None \<Rightarrow> ref | Some s \<Rightarrow> s), None)))"

text \<open>
  \<open>answer_read\<close> looks at the status first. \<open>decode\<close> reads the body, \<open>wrap\<close> makes the output of what
  it gave, and \<open>ok_of\<close> the result of an accepted answer from both.
\<close>

definition answer_read ::
  "(string \<Rightarrow> val option) \<Rightarrow> (val option \<Rightarrow> val) \<Rightarrow> string \<Rightarrow> string \<Rightarrow> string \<Rightarrow> (obj \<Rightarrow> int \<Rightarrow> string)
    \<Rightarrow> (val \<Rightarrow> val \<Rightarrow> string \<Rightarrow> typed) \<Rightarrow> bool \<Rightarrow> string + http_response \<Rightarrow> typed" where
  "answer_read decode wrap pre title invalid code_of ok_of write answer = (case answer of
     Inl m \<Rightarrow> failed (failure write (pre @ ''.network_error'') (TransportErr m))
   | Inr resp \<Rightarrow>
     (let n = resp_status resp; ref = ''http:'' @ itoa n; decoded = decode (resp_body resp); v = wrap decoded in
      if \<not> ok_status n then (v, ref, Some (if n = 408 then failure write (code_of (as_obj v) n) (Msg (title @ itoa n))
        else status_error write n (code_of (as_obj v) n) (Msg (title @ itoa n))))
      else (case decoded of
          None \<Rightarrow> (VNil, ref, Some (if write then Uncertain (pre @ ''.response_invalid'') (Msg invalid)
            else Permanent (pre @ ''.response_invalid'') (Msg invalid)))
        | Some raw \<Rightarrow> ok_of raw v ref)))"

definition map_or_empty :: "val option \<Rightarrow> val" where
  "map_or_empty v = (case v of None \<Rightarrow> VObj [] | Some x \<Rightarrow> x)"

definition status_read ::
  "string \<Rightarrow> string \<Rightarrow> string \<Rightarrow> (obj \<Rightarrow> int \<Rightarrow> string) \<Rightarrow> (val \<Rightarrow> string \<Rightarrow> typed) \<Rightarrow> bool
    \<Rightarrow> string + http_response \<Rightarrow> typed" where
  "status_read pre title invalid code_of ok_of =
     answer_read decode_output map_or_empty pre title invalid code_of (\<lambda>raw v ref. ok_of v ref)"

text \<open>An accepted answer with a reference of its own, or the one of the status.\<close>

definition accepted_as :: "(val \<Rightarrow> string) \<Rightarrow> val \<Rightarrow> string \<Rightarrow> typed" where
  "accepted_as ref_of v ref = (v, (if ref_of v \<noteq> [] then ref_of v else ref), None)"

lemma late_read_cautious:
  "typed_err (late_read decode pre code_of ref_of True a) = Some e \<Longrightarrow> is_retryable e
    \<Longrightarrow> \<exists>r. a = Inr r \<and> throttled (resp_status r)"
  by (cases a) (auto simp: late_read_def status_error_def throttled_def Let_def split: if_splits option.splits)

lemma late_read_lost: "\<exists>e. typed_err (late_read decode pre code_of ref_of True (Inl m)) = Some e \<and> is_uncertain e"
  by (simp add: late_read_def)

lemma answer_read_cautious:
  assumes "typed_err (answer_read decode wrap pre title invalid code_of ok_of True a) = Some e" "is_retryable e"
    "\<And>raw v ref e. typed_err (ok_of raw v ref) = Some e \<Longrightarrow> \<not> is_retryable e"
  shows "\<exists>r. a = Inr r \<and> throttled (resp_status r)"
  using assms by (cases a) (auto simp: answer_read_def status_error_def throttled_def Let_def split: if_splits option.splits)

lemma answer_read_lost:
  "\<exists>e. typed_err (answer_read decode wrap pre title invalid code_of ok_of True (Inl m)) = Some e \<and> is_uncertain e"
  by (simp add: answer_read_def)

lemma status_read_cautious:
  assumes "typed_err (status_read pre title invalid code_of ok_of True a) = Some e" "is_retryable e"
    "\<And>v ref e. typed_err (ok_of v ref) = Some e \<Longrightarrow> \<not> is_retryable e"
  shows "\<exists>r. a = Inr r \<and> throttled (resp_status r)"
  using assms(1,2) unfolding status_read_def by (rule answer_read_cautious) (rule assms(3))

text \<open>An accepted answer may say that the service was busy.\<close>

lemma status_read_busy:
  assumes "typed_err (status_read pre title invalid code_of ok_of True a) = Some e" "is_retryable e"
    "\<And>v ref e. typed_err (ok_of v ref) = Some e \<Longrightarrow> is_retryable e \<Longrightarrow> limited v"
  shows "\<exists>r. a = Inr r \<and> (throttled (resp_status r)
    \<or> ok_status (resp_status r) \<and> limited (map_or_empty (decode_output (resp_body r))))"
  using assms by (cases a) (auto simp: status_read_def answer_read_def status_error_def throttled_def Let_def map_or_empty_def
      split: if_splits option.splits)

lemma status_read_lost: "\<exists>e. typed_err (status_read pre title invalid code_of ok_of True (Inl m)) = Some e \<and> is_uncertain e"
  unfolding status_read_def by (rule answer_read_lost)

lemma accepted_as_err [simp]: "typed_err (accepted_as f v ref) = None"
  by (simp add: accepted_as_def)

section \<open>Where requests go\<close>

text \<open>At most so many requests, each one to one of the base addresses.\<close>

definition sends_at :: "string list \<Rightarrow> nat \<Rightarrow> http_request list \<Rightarrow> http_request list \<Rightarrow> bool" where
  "sends_at bs n s s' \<longleftrightarrow> (\<exists>qs. s' = s @ qs \<and> length qs \<le> n \<and> list_all (\<lambda>q. list_ex (\<lambda>b. stays_at b q) bs) qs)"

lemma sends_at_refl [simp]: "sends_at bs n s s"
  by (simp add: sends_at_def)

lemma sends_at_one: "stays_at b q \<Longrightarrow> b \<in> set bs \<Longrightarrow> 0 < n \<Longrightarrow> sends_at bs n s (s @ [q])"
  by (auto simp: sends_at_def list_ex_iff)

lemma sends_at_trans: "sends_at bs n s t \<Longrightarrow> sends_at bs m t u \<Longrightarrow> n + m \<le> k \<Longrightarrow> sends_at bs k s u"
  by (fastforce simp: sends_at_def)

lemma sends_at_mono: "sends_at bs n s t \<Longrightarrow> n \<le> k \<Longrightarrow> sends_at bs k s t"
  by (fastforce simp: sends_at_def)

lemma sends_at_request:
  "s' = s \<or> (\<exists>q. s' = s @ [q] \<and> stays_at b q) \<Longrightarrow> sends_at [b] 1 s s'"
  by (auto simp: sends_at_def)

section \<open>Providers\<close>

text \<open>An operation refuses its input or makes one call.\<close>

definition rest_run ::
  "(rest_call \<Rightarrow> typed + http_request) \<Rightarrow> (bool \<Rightarrow> string + http_response \<Rightarrow> typed) \<Rightarrow> rest_call res
    \<Rightarrow> http \<Rightarrow> http_request list \<Rightarrow> http_request list \<times> typed" where
  "rest_run plan read call T sent = (case call of
     Inl e \<Rightarrow> (sent, failed e) | Inr k \<Rightarrow> run_plan (plan k) (read (rc_write k)) T sent)"

text \<open>
  What a provider promises: a refusal is for good, a request stays at the configured base, and
  the reading of a write is cautious. What follows for its operations is proved here.
\<close>

locale rest_base =
  fixes plan :: "connection \<Rightarrow> secrets \<Rightarrow> rest_call \<Rightarrow> typed + http_request"
    and base :: "connection \<Rightarrow> string"
  assumes plan_permanent: "plan c ss k = Inl x \<Longrightarrow> \<exists>e. typed_err x = Some e \<and> is_permanent e"
    and plan_stays: "plan c ss k = Inr q \<Longrightarrow> url_tail (rc_path k) \<Longrightarrow> stays_at (base c) q"
begin

lemma run_stays:
  assumes "\<And>k. call = Inr k \<Longrightarrow> url_tail (rc_path k)"
  shows "fst (rest_run (plan c ss) read call T sent) = sent
    \<or> (\<exists>q. fst (rest_run (plan c ss) read call T sent) = sent @ [q] \<and> stays_at (base c) q)"
proof (cases call)
  case (Inl e)
  then show ?thesis by (simp add: rest_run_def)
next
  case (Inr k)
  then show ?thesis using plan_stays [of c ss k] assms by (cases "plan c ss k") (auto simp: rest_run_def run_plan_def)
qed

end

text \<open>\<open>busy\<close> tells which answers say that a write was not taken up.\<close>

locale rest_answers = rest_base plan base for plan and base +
  fixes read :: "bool \<Rightarrow> string + http_response \<Rightarrow> typed"
    and busy :: "http_response \<Rightarrow> bool"
  assumes read_busy: "typed_err (read True a) = Some e \<Longrightarrow> is_retryable e \<Longrightarrow> \<exists>r. a = Inr r \<and> busy r"
    and read_lost: "\<exists>e. typed_err (read True (Inl m)) = Some e \<and> is_uncertain e"
begin

lemma plan_cautious:
  "cautious_by busy T sent (run_plan (plan c ss k) (read True) T sent)
    (typed_err (snd (run_plan (plan c ss k) (read True) T sent)))"
proof (cases "plan c ss k")
  case (Inl x)
  then show ?thesis using plan_permanent [OF Inl] by (simp add: cautious_by_def run_plan_def)
next
  case (Inr q)
  then show ?thesis using read_lost read_busy [of "T sent q"]
    by (cases "T sent q") (auto simp: cautious_by_def run_plan_def)
qed

lemma run_cautious_by:
  assumes "\<And>e. call = Inl e \<Longrightarrow> is_permanent e" "\<And>k. call = Inr k \<Longrightarrow> rc_write k"
  shows "cautious_by busy T sent (rest_run (plan c ss) read call T sent)
    (typed_err (snd (rest_run (plan c ss) read call T sent)))"
proof (cases call)
  case (Inl e)
  then show ?thesis using assms(1) by (simp add: rest_run_def cautious_by_def)
next
  case (Inr k)
  then show ?thesis using assms(2) plan_cautious [of T sent c ss k] by (simp add: rest_run_def)
qed

end

text \<open>The usual case: only the status 429 says that the request was not taken up.\<close>

locale rest_provider =
  fixes plan :: "connection \<Rightarrow> secrets \<Rightarrow> rest_call \<Rightarrow> typed + http_request"
    and read :: "bool \<Rightarrow> string + http_response \<Rightarrow> typed"
    and base :: "connection \<Rightarrow> string"
  assumes plan_refuses: "plan c ss k = Inl x \<Longrightarrow> \<exists>e. typed_err x = Some e \<and> is_permanent e"
    and plan_at_base: "plan c ss k = Inr q \<Longrightarrow> url_tail (rc_path k) \<Longrightarrow> stays_at (base c) q"
    and read_cautious: "typed_err (read True a) = Some e \<Longrightarrow> is_retryable e
      \<Longrightarrow> \<exists>r. a = Inr r \<and> throttled (resp_status r)"
    and read_unanswered: "\<exists>e. typed_err (read True (Inl m)) = Some e \<and> is_uncertain e"

sublocale rest_provider \<subseteq> rest_answers plan base read "\<lambda>r. throttled (resp_status r)"
  by unfold_locales (auto intro: plan_refuses plan_at_base read_cautious read_unanswered)

context rest_provider begin

lemma run_cautious:
  assumes "\<And>e. call = Inl e \<Longrightarrow> is_permanent e" "\<And>k. call = Inr k \<Longrightarrow> rc_write k"
  shows "cautious_run T sent (rest_run (plan c ss) read call T sent)
    (typed_err (snd (rest_run (plan c ss) read call T sent)))"
  using run_cautious_by [OF assms] by (simp add: cautious_by_throttled)

end

end
