(* ===== verification/HelpCenter.thy ===== *)
theory HelpCenter
  imports RestCall GoTime
begin

text \<open>
  What the help centre providers share in the same wording: the token of an error code, the
  check of JSON members that are passed through, page numbers, and the connection test.
\<close>

section \<open>Error codes\<close>

definition token_step :: "string \<Rightarrow> nat \<Rightarrow> string" where
  "token_step t r = (if 97 \<le> r \<and> r \<le> 122 \<or> 48 \<le> r \<and> r \<le> 57 then t @ [char_of r]
     else if t \<noteq> [] then t @ ''_'' else t)"

definition code_token :: "string \<Rightarrow> string" where
  "code_token s = (let t = trim_right_char (CHR ''_'')
       (dropWhile ((=) (CHR ''_'')) (foldl token_step [] (runes (to_lower (trim_space s))))) in
     if t \<noteq> [] then t else ''unknown'')"

text \<open>A code made from a member of the answer, or from the status.\<close>

definition help_code :: "string \<Rightarrow> string \<Rightarrow> int \<Rightarrow> string" where
  "help_code pre s n = (if s \<noteq> [] then pre @ ''.provider_'' @ code_token s else pre @ ''.http_'' @ itoa n)"

section \<open>Inputs\<close>

text \<open>A \<open>json.RawMessage\<close> that has to be an object.\<close>

definition raw_object :: "string \<Rightarrow> val option" where
  "raw_object raw = (case decode_map raw of Some (VObj m) \<Rightarrow> Some (VObj m) | _ \<Rightarrow> None)"

text \<open>\<open>json.Unmarshal\<close> into a value of any kind.\<close>

definition raw_value :: "string \<Rightarrow> val option" where
  "raw_value raw = Option.bind (json_parse raw) val_of_json"

text \<open>A cursor that is a page number; the first page without one.\<close>

definition page_number :: "string \<Rightarrow> int option" where
  "page_number cursor = (if trim_space cursor = [] then Some 1
     else (case atoi (trim_space cursor) of None \<Rightarrow> None | Some n \<Rightarrow> if n < 1 then None else Some n))"

definition page_size :: "int \<Rightarrow> int \<Rightarrow> int \<Rightarrow> int option" where
  "page_size standard maximum n = (let k = (if n = 0 then standard else n) in
     if k < 1 \<or> k > maximum then None else Some k)"

definition set_text :: "string \<Rightarrow> string \<Rightarrow> obj \<Rightarrow> obj" where
  "set_text k s m = (if trim_space s = [] then m else put k (VStr (trim_space s)) m)"

text \<open>Members that are checked one after the other; the code takes them in the order of a map.\<close>

fun raw_members :: "(string \<Rightarrow> string \<Rightarrow> (string \<times> val) res) \<Rightarrow> (string \<times> string) list \<Rightarrow> obj \<Rightarrow> obj res" where
  "raw_members check [] m = Inr m"
| "raw_members check ((k, raw) # xs) m =
     (if raw = [] then raw_members check xs m
      else (case check k raw of Inl e \<Rightarrow> Inl e | Inr (k', v) \<Rightarrow> raw_members check xs (put k' v m)))"

lemma raw_members_permanent:
  "raw_members check xs m = Inl e \<Longrightarrow> (\<And>k raw e. check k raw = Inl e \<Longrightarrow> is_permanent e) \<Longrightarrow> is_permanent e"
  by (induction check xs m rule: raw_members.induct) (auto split: if_splits sum.splits prod.splits)

section \<open>Connection tests\<close>

definition help_details :: "string \<Rightarrow> http_request list \<times> typed \<Rightarrow> http_request list \<times> string res" where
  "help_details k r = (case r of
     (sent', out, ref, Some e) \<Rightarrow> (sent', Inl e)
   | (sent', out, ref, None) \<Rightarrow> (sent', Inr (marshal_or [] (VObj [(k, out), (''response_ref'', VStr ref)]))))"

section \<open>The window of a search\<close>

text \<open>
  The product of page and size must not exceed 1000; it is computed in 64 bits. Up to the page
  below the check is exact, beyond it the product can wrap around.
\<close>

definition window_ok :: "int \<Rightarrow> int \<Rightarrow> bool" where
  "window_ok page n \<longleftrightarrow> wrap64 (page * n) \<le> 1000"

lemma window_exact:
  assumes "1 \<le> page" "page \<le> 92233720368547758" "1 \<le> n" "n \<le> 100"
  shows "window_ok page n \<longleftrightarrow> page * n \<le> 1000"
proof -
  have "0 \<le> page * n" "page * n \<le> 92233720368547758 * 100"
    using assms by (simp, intro mult_mono) auto
  then have "wrap64 (page * n) = page * n" by (intro wrap64_id) (simp add: int64_def)
  then show ?thesis by (simp add: window_ok_def)
qed

lemma window_wraps: "window_ok 288230376151711744 64"
  by (simp add: window_ok_def wrap64_def)

end
