(* ===== verification/HelpDocs.thy ===== *)
theory HelpDocs
  imports HelpCenter Base64
begin

text \<open>Documentation sites as help centres: ReadMe, Help Scout Docs and GitBook.\<close>

section \<open>ReadMe guides\<close>

text \<open>The ReadMe guides provider (\<^verbatim>\<open>providers/help_center/readme\<close>).\<close>

definition readme_error :: "string \<Rightarrow> string \<Rightarrow> gerr" where
  "readme_error code msg = Permanent (''readme.'' @ code) (Msg msg)"

definition readme_unsupported :: "string \<Rightarrow> gerr" where
  "readme_unsupported f = readme_error (f @ ''_unsupported'') (f @ '' is not supported by ReadMe'')"

definition readme_base :: "connection \<Rightarrow> string" where
  "readme_base c = (let v = trim_right_char (CHR ''/'') (map_string (config c) ''base_url'') in
     if v \<noteq> [] then v else ''https://api.readme.com/v2'')"

definition readme_branch :: "connection \<Rightarrow> string" where
  "readme_branch c = map_string (config c) ''branch''"

definition readme_collection :: "connection \<Rightarrow> string" where
  "readme_collection c = map_string (config c) ''collection_id''"

definition readme_validate :: "connection \<Rightarrow> gerr option" where
  "readme_validate c =
     (if \<not> secure_endpoint (readme_base c)
      then Some (readme_error ''endpoint_invalid'' ''HTTPS or loopback HTTP endpoint is required'')
      else if readme_branch c = [] then Some (readme_error ''branch_required'' ''branch is required'')
      else if readme_collection c = []
      then Some (readme_error ''collection_id_required'' ''default guide category title is required'')
      else None)"

subsection \<open>Calls\<close>

definition readme_plan :: "connection \<Rightarrow> secrets \<Rightarrow> rest_call \<Rightarrow> typed + http_request" where
  "readme_plan c ss k = (let key = trim_space (secret ss ''api_key''); invalid = Permanent ''readme.request_invalid'' DecodeErr in
     rest_plan (readme_validate c) (key, readme_error ''api_key_required'' ''resolved API key is required'')
       (parsed_target (readme_base c) invalid (rc_path k) (merge_query (rc_query k))) (rc_body k, invalid)
       (\<lambda>u raw. authorized (''Bearer '' @ key) (plain_request (rc_method k) u (json_headers (rc_body k)) raw)))"

definition readme_code :: "obj \<Rightarrow> int \<Rightarrow> string" where
  "readme_code m n = help_code ''readme'' (map_string m ''error'') n"

definition readme_ref :: "obj \<Rightarrow> string option" where
  "readme_ref m = (let s = first_text (map (map_string m) [''slug'', ''uri'', ''id'']) in
     if s = [] then None else Some (''readme:guide:'' @ s))"

definition readme_read :: "bool \<Rightarrow> string + http_response \<Rightarrow> typed" where
  "readme_read = late_read blank_or_map ''readme'' readme_code readme_ref"

subsection \<open>Guides\<close>

record guide_content =
  gc_body :: string
  gc_type :: string

text \<open>The fields of both bodies; the category only belongs to the one of an update.\<close>

record guide_body =
  gb_title :: string
  gb_slug :: string
  gb_content :: "guide_content option"
  gb_state :: string
  gb_type :: string
  gb_crawlers :: string
  gb_position :: "f64 option"
  gb_appearance :: string
  gb_category :: string
  gb_metadata :: string
  gb_parent :: string
  gb_privacy :: string

definition guide_enums :: "guide_body \<Rightarrow> gerr option" where
  "guide_enums b =
     (if trim_space (gb_state b) \<notin> set [[], ''current'', ''deprecated'']
      then Some (readme_error ''state_invalid'' ''state must be current or deprecated'')
      else if trim_space (gb_type b) \<notin> set [[], ''basic'', ''link'']
      then Some (readme_error ''type_invalid'' ''guide type must be basic or link'')
      else if trim_space (gb_crawlers b) \<notin> set [[], ''enabled'', ''disabled'']
      then Some (readme_error ''allow_crawlers_invalid'' ''allow_crawlers must be enabled or disabled'')
      else None)"

definition guide_object :: "string \<Rightarrow> string \<Rightarrow> (string \<times> val) res" where
  "guide_object k raw = (case raw_object raw of
     None \<Rightarrow> Inl (readme_error (k @ ''_invalid'') (k @ '' must be a JSON object'')) | Some v \<Rightarrow> Inr (k, v))"

definition guide_content_member :: "guide_content option \<Rightarrow> obj \<Rightarrow> obj res" where
  "guide_content_member co m = (case co of None \<Rightarrow> Inr m
   | Some x \<Rightarrow> (let ty = (if trim_space (gc_type x) = [] then ''markdown'' else trim_space (gc_type x)) in
       if ty \<notin> set [''markdown'', ''html'']
       then Inl (readme_error ''content_type_invalid'' ''content type must be markdown or html'')
       else Inr (put ''content'' (VObj [(''body'', VStr (gc_body x)), (''type'', VStr ty)]) m)))"

definition copy_guide_fields :: "guide_body \<Rightarrow> (string \<times> string) list \<Rightarrow> obj \<Rightarrow> obj res" where
  "copy_guide_fields b objects m0 =
     (case guide_content_member (gb_content b) (set_text ''slug'' (gb_slug b) m0) of
        Inl e \<Rightarrow> Inl e
      | Inr m \<Rightarrow>
         (let m' = set_text ''allow_crawlers'' (gb_crawlers b) (set_text ''type'' (gb_type b) (set_text ''state'' (gb_state b) m)) in
          case gb_position b of
            Some p \<Rightarrow>
              if f64_less p (Fin 0 0) then Inl (readme_error ''position_invalid'' ''position cannot be negative'')
              else raw_members guide_object objects (put ''position'' (VFloat p) m')
          | None \<Rightarrow> raw_members guide_object objects m'))"

definition category_uri :: "connection \<Rightarrow> string \<Rightarrow> string" where
  "category_uri c category =
     ''/branches/'' @ path_escape (readme_branch c) @ ''/categories/guides/'' @ path_escape category"

definition create_guide :: "connection \<Rightarrow> string \<Rightarrow> guide_body \<Rightarrow> obj res" where
  "create_guide c category b =
     (if trim_space (gb_title b) = [] then Inl (readme_error ''title_required'' ''guide title is required'')
      else (case guide_enums b of Some e \<Rightarrow> Inl e
      | None \<Rightarrow> copy_guide_fields b [(''appearance'', gb_appearance b), (''metadata'', gb_metadata b),
            (''parent'', gb_parent b), (''privacy'', gb_privacy b)]
          [(''title'', VStr (trim_space (gb_title b))),
           (''category'', VObj [(''uri'', VStr (category_uri c category))])]))"

definition update_guide :: "guide_body \<Rightarrow> obj res" where
  "update_guide b = (case guide_enums b of Some e \<Rightarrow> Inl e
   | None \<Rightarrow> (case copy_guide_fields b [(''appearance'', gb_appearance b), (''category'', gb_category b),
         (''metadata'', gb_metadata b), (''parent'', gb_parent b), (''privacy'', gb_privacy b)]
       (set_text ''title'' (gb_title b) []) of
       Inl e \<Rightarrow> Inl e
     | Inr m \<Rightarrow> if m = [] then Inl (readme_error ''update_fields_required'' ''at least one supported guide field is required'')
         else Inr m))"

definition readme_pages :: "string \<Rightarrow> int \<Rightarrow> int \<Rightarrow> (int \<times> int) res" where
  "readme_pages cursor n maximum = (case page_number cursor of
     None \<Rightarrow> Inl (readme_error ''cursor_invalid'' ''cursor must be a positive page number'')
   | Some p \<Rightarrow> (case page_size 50 maximum n of
       None \<Rightarrow> Inl (readme_error ''page_size_invalid'' (''page size must be between 1 and '' @ itoa maximum))
     | Some k \<Rightarrow> Inr (p, k)))"

definition page_values :: "int \<times> int \<Rightarrow> url_values" where
  "page_values = (\<lambda>(p, k). [(''page'', [itoa p]), (''per_page'', [itoa k])])"

datatype readme_input = ReadmeList string string int string | ReadmeGet string string
  | ReadmeSearch string string string int | ReadmeCollections string string int
  | ReadmeCreate string guide_body | ReadmeUpdate string guide_body | ReadmeTest

fun readme_call :: "connection \<Rightarrow> readme_input \<Rightarrow> rest_call res" where
  "readme_call c ReadmeTest = Inr (get_call ''/projects/me'' [])"
| "readme_call c (ReadmeList locale cursor n since) =
     (if trim_space locale \<noteq> [] then Inl (readme_unsupported ''locale'')
      else if trim_space since \<noteq> [] then Inl (readme_unsupported ''incremental_filter'')
      else (case readme_pages cursor n 100 of Inl e \<Rightarrow> Inl e
      | Inr pk \<Rightarrow> Inr (get_call (''/branches/'' @ path_escape (readme_branch c) @ ''/categories/guides/''
          @ path_escape (readme_collection c) @ ''/pages'') (page_values pk))))"
| "readme_call c (ReadmeGet i locale) =
     (if trim_space locale \<noteq> [] then Inl (readme_unsupported ''locale'')
      else if trim_space i = [] then Inl (readme_error ''article_id_required'' ''article slug is required'')
      else Inr (get_call (''/branches/'' @ path_escape (readme_branch c) @ ''/guides/'' @ path_escape (trim_space i)) []))"
| "readme_call c (ReadmeSearch query locale cursor n) =
     (if trim_space locale \<noteq> [] then Inl (readme_unsupported ''locale'')
      else if trim_space query = [] then Inl (readme_error ''query_required'' ''search query is required'')
      else (case readme_pages cursor n 50 of Inl e \<Rightarrow> Inl e
      | Inr pk \<Rightarrow>
          if \<not> window_ok (fst pk) (snd pk)
          then Inl (readme_error ''pagination_window_invalid'' ''page multiplied by page_size cannot exceed 1000'')
          else Inr (get_call ''/search'' (page_values pk @ [(''query'', [trim_space query]), (''section'', [''guides'']),
            (''version'', [readme_branch c])]))))"
| "readme_call c (ReadmeCollections locale cursor n) =
     (if trim_space locale \<noteq> [] then Inl (readme_unsupported ''locale'')
      else if trim_space cursor \<noteq> [] \<or> n \<noteq> 0 then Inl (readme_unsupported ''collection_pagination'')
      else Inr (get_call (''/branches/'' @ path_escape (readme_branch c) @ ''/categories/guides'') []))"
| "readme_call c (ReadmeCreate category b) =
     (if trim_space category = [] then Inl (readme_error ''collection_id_required'' ''guide category title is required'')
      else (case create_guide c (trim_space category) b of Inl e \<Rightarrow> Inl e
      | Inr m \<Rightarrow> Inr (write_call ''POST'' (''/branches/'' @ path_escape (readme_branch c) @ ''/guides'') [] (marshal (VObj m)))))"
| "readme_call c (ReadmeUpdate i b) =
     (if trim_space i = [] then Inl (readme_error ''article_id_required'' ''article slug is required'')
      else (case update_guide b of Inl e \<Rightarrow> Inl e
      | Inr m \<Rightarrow> Inr (write_call ''PATCH'' (''/branches/'' @ path_escape (readme_branch c) @ ''/guides/''
          @ path_escape (trim_space i)) [] (marshal (VObj m)))))"

definition readme_run where
  "readme_run c ss i = rest_run (readme_plan c ss) readme_read (readme_call c i)"

definition readme_test_connection where
  "readme_test_connection c ss T sent = help_details ''project'' (readme_run c ss ReadmeTest T sent)"

subsection \<open>Contracts\<close>

lemma readme_error_permanent [simp]: "is_permanent (readme_error code msg)" "is_permanent (readme_unsupported f)"
  by (simp_all add: readme_error_def readme_unsupported_def)

lemma readme_validate_ok: "readme_validate c = None \<Longrightarrow> secure_endpoint (readme_base c)"
  by (simp add: readme_validate_def split: if_splits)

interpretation readme_calls: rest_provider readme_plan readme_read readme_base
proof (unfold_locales, goal_cases)
  case (1 c ss k x) then show ?case unfolding readme_plan_def Let_def
    by (rule rest_plan_permanent) (auto simp: readme_validate_def parsed_target_def split: if_splits option.splits)
next
  case (2 c ss k q) from 2(1) show ?case unfolding readme_plan_def Let_def
    by (rule plan_stays_parsed) (simp_all add: readme_validate_ok 2)
next
  case (3 a e) then show ?case unfolding readme_read_def by (rule late_read_cautious)
next
  case (4 m) show ?case unfolding readme_read_def by (rule late_read_lost)
qed

lemma guide_fields_permanent: "copy_guide_fields b objects m = Inl e \<Longrightarrow> is_permanent e"
  by (auto simp: copy_guide_fields_def guide_content_member_def guide_object_def Let_def
      split: option.splits sum.splits if_splits dest!: raw_members_permanent)

lemma readme_call_permanent: "readme_call c i = Inl e \<Longrightarrow> is_permanent e"
  by (cases i) (auto simp: readme_pages_def create_guide_def update_guide_def guide_enums_def
      dest: guide_fields_permanent split: option.splits sum.splits if_splits)

lemma readme_call_path: "readme_call c i = Inr k \<Longrightarrow> url_tail (rc_path k)"
  by (cases i) (auto split: sum.splits if_splits)

definition readme_writes :: "readme_input \<Rightarrow> bool" where
  "readme_writes i \<longleftrightarrow> (case i of ReadmeCreate _ _ \<Rightarrow> True | ReadmeUpdate _ _ \<Rightarrow> True | _ \<Rightarrow> False)"

lemma readme_call_write: "readme_call c i = Inr k \<Longrightarrow> rc_write k = readme_writes i"
  by (cases i) (auto simp: readme_writes_def split: sum.splits if_splits)

lemma readme_cautious:
  "readme_writes i \<Longrightarrow> cautious_run T sent (readme_run c ss i T sent) (typed_err (snd (readme_run c ss i T sent)))"
  unfolding readme_run_def by (rule readme_calls.run_cautious) (auto dest: readme_call_permanent readme_call_write)

lemma readme_stays:
  "fst (readme_run c ss i T sent) = sent
    \<or> (\<exists>q. fst (readme_run c ss i T sent) = sent @ [q] \<and> stays_at (readme_base c) q)"
  unfolding readme_run_def by (rule readme_calls.run_stays) (rule readme_call_path)

section \<open>Help Scout Docs\<close>

text \<open>The Help Scout Docs provider (\<^verbatim>\<open>providers/help_center/help_scout_docs\<close>).\<close>

definition scout_error :: "string \<Rightarrow> string \<Rightarrow> gerr" where
  "scout_error code msg = Permanent (''help_scout_docs.'' @ code) (Msg msg)"

definition scout_unsupported :: "string \<Rightarrow> gerr" where
  "scout_unsupported f = scout_error (f @ ''_unsupported'') (f @ '' is not supported by Help Scout Docs'')"

definition scout_base :: "connection \<Rightarrow> string" where
  "scout_base c = (let v = trim_right_char (CHR ''/'') (map_string (config c) ''base_url'') in
     if v \<noteq> [] then v else ''https://docsapi.helpscout.net/v1'')"

definition scout_collection :: "connection \<Rightarrow> string" where
  "scout_collection c = map_string (config c) ''collection_id''"

definition scout_validate :: "connection \<Rightarrow> gerr option" where
  "scout_validate c =
     (if \<not> secure_endpoint (scout_base c)
      then Some (scout_error ''endpoint_invalid'' ''HTTPS or loopback HTTP endpoint is required'')
      else if scout_collection c = []
      then Some (scout_error ''collection_id_required'' ''default collection ID is required'')
      else None)"

definition scout_plan :: "connection \<Rightarrow> secrets \<Rightarrow> rest_call \<Rightarrow> typed + http_request" where
  "scout_plan c ss k = (let key = trim_space (secret ss ''api_key''); invalid = Permanent ''help_scout_docs.request_invalid'' DecodeErr in
     rest_plan (scout_validate c) (key, scout_error ''api_key_required'' ''resolved API key is required'')
       (parsed_target (scout_base c) invalid (rc_path k) (merge_query (rc_query k))) (rc_body k, invalid)
       (\<lambda>u raw. authorized (''Basic '' @ base64_std (key @ '':X''))
          (plain_request (rc_method k) u (json_headers (rc_body k)) raw)))"

definition scout_code :: "obj \<Rightarrow> int \<Rightarrow> string" where
  "scout_code m n = help_code ''help_scout_docs'' (map_string m ''error'') n"

definition scout_ref :: "obj \<Rightarrow> string option" where
  "scout_ref m = (let i = map_string (as_obj (at m ''article'')) ''id'' in
     if i = [] then None else Some (''help_scout_docs:article:'' @ i))"

definition scout_read :: "bool \<Rightarrow> string + http_response \<Rightarrow> typed" where
  "scout_read = late_read blank_or_map ''help_scout_docs'' scout_code scout_ref"

subsection \<open>Articles\<close>

record scout_create =
  sc_status :: string
  sc_slug :: string
  sc_name :: string
  sc_text :: string
  sc_categories :: "string list option"
  sc_related :: "string list option"
  sc_keywords :: "string list option"

record scout_update =
  su_status :: string
  su_slug :: string
  su_name :: string
  su_text :: string
  su_categories :: string
  su_related :: string
  su_keywords :: string

definition scout_status :: "string \<Rightarrow> gerr option" where
  "scout_status s = (if trim_space s \<in> set [[], ''published'', ''notpublished''] then None
     else Some (scout_error ''status_invalid'' ''status must be published or notpublished''))"

definition put_strings :: "string \<Rightarrow> string list option \<Rightarrow> obj \<Rightarrow> obj" where
  "put_strings k xs m = (case xs of None \<Rightarrow> m | Some ys \<Rightarrow> put k (VStrs ys) m)"

definition scout_create_body :: "string \<Rightarrow> scout_create \<Rightarrow> obj res" where
  "scout_create_body collection b =
     (if trim_space (sc_name b) = [] \<or> trim_space (sc_text b) = []
      then Inl (scout_error ''create_fields_required'' ''article name and text are required'')
      else (case scout_status (sc_status b) of Some e \<Rightarrow> Inl e
      | None \<Rightarrow> Inr (put_strings ''keywords'' (sc_keywords b) (put_strings ''related'' (sc_related b)
          (put_strings ''categories'' (sc_categories b) (set_text ''slug'' (sc_slug b) (set_text ''status'' (sc_status b)
            [(''collectionId'', VStr collection), (''name'', VStr (trim_space (sc_name b))), (''text'', VStr (sc_text b))])))))))"

text \<open>\<open>json.Unmarshal\<close> into a slice of strings, where a null element leaves the empty string.\<close>

definition string_element :: "json \<Rightarrow> string option" where
  "string_element j = (case j of JStr s \<Rightarrow> Some s | JNull \<Rightarrow> Some [] | _ \<Rightarrow> None)"

definition raw_strings :: "string \<Rightarrow> val option" where
  "raw_strings raw = (case json_parse raw of
     Some JNull \<Rightarrow> Some VNil
   | Some (JArr js) \<Rightarrow> map_option VStrs (all_some (map string_element js))
   | _ \<Rightarrow> None)"

definition scout_list :: "string \<Rightarrow> string \<Rightarrow> (string \<times> val) res" where
  "scout_list k raw = (case raw_strings raw of
     None \<Rightarrow> Inl (scout_error ''article_field_invalid'' (k @ '' must be null or an array of strings''))
   | Some v \<Rightarrow> Inr (k, v))"

definition scout_update_body :: "scout_update \<Rightarrow> obj res" where
  "scout_update_body b = (case scout_status (su_status b) of Some e \<Rightarrow> Inl e
   | None \<Rightarrow> (case raw_members scout_list
        [(''categories'', su_categories b), (''related'', su_related b), (''keywords'', su_keywords b)]
        (set_text ''text'' (su_text b) (set_text ''name'' (su_name b) (set_text ''slug'' (su_slug b)
          (set_text ''status'' (su_status b) [])))) of
       Inl e \<Rightarrow> Inl e
     | Inr m \<Rightarrow> if m = [] then Inl (scout_error ''update_fields_required'' ''at least one supported article field is required'')
         else Inr m))"

definition scout_pages :: "string \<Rightarrow> int \<Rightarrow> bool \<Rightarrow> url_values res" where
  "scout_pages cursor n sized =
     (if trim_space cursor \<noteq> [] \<and> page_number cursor = None
      then Inl (scout_error ''cursor_invalid'' ''cursor must be a positive page number'')
      else (let q = (case page_number cursor of Some p \<Rightarrow> if trim_space cursor = [] then [] else [(''page'', [itoa p])] | None \<Rightarrow> []) in
        if \<not> sized then Inr q
        else (case page_size 50 100 n of
          None \<Rightarrow> Inl (scout_error ''page_size_invalid'' ''page size must be between 1 and 100'')
        | Some k \<Rightarrow> Inr (q @ [(''pageSize'', [itoa k])]))))"

datatype scout_input = ScoutList string string int string | ScoutGet string string
  | ScoutSearch string string string int | ScoutCollections string string int
  | ScoutCreate string scout_create | ScoutUpdate string scout_update | ScoutTest

fun scout_call :: "connection \<Rightarrow> scout_input \<Rightarrow> rest_call res" where
  "scout_call c ScoutTest = Inr (get_call ''/collections'' [(''page'', [''1''])])"
| "scout_call c (ScoutList locale cursor n since) =
     (if trim_space since \<noteq> [] then Inl (scout_unsupported ''incremental_filter'')
      else if trim_space locale \<noteq> [] then Inl (scout_unsupported ''locale'')
      else (case scout_pages cursor n True of Inl e \<Rightarrow> Inl e
      | Inr q \<Rightarrow> Inr (get_call (''/collections/'' @ path_escape (scout_collection c) @ ''/articles'') q)))"
| "scout_call c (ScoutGet i locale) =
     (if trim_space locale \<noteq> [] then Inl (scout_unsupported ''locale'')
      else if trim_space i = [] then Inl (scout_error ''article_id_required'' ''article ID is required'')
      else Inr (get_call (''/articles/'' @ path_escape (trim_space i)) []))"
| "scout_call c (ScoutSearch query locale cursor n) =
     (if trim_space locale \<noteq> [] then Inl (scout_unsupported ''locale'')
      else if n \<noteq> 0 then Inl (scout_unsupported ''search_page_size'')
      else if trim_space query = [] then Inl (scout_error ''query_required'' ''search query is required'')
      else (case scout_pages cursor 0 False of Inl e \<Rightarrow> Inl e
      | Inr q \<Rightarrow> Inr (get_call ''/search/articles'' (q @ [(''query'', [trim_space query]), (''status'', [''published'']),
          (''collectionId'', [scout_collection c])]))))"
| "scout_call c (ScoutCollections locale cursor n) =
     (if trim_space locale \<noteq> [] then Inl (scout_unsupported ''locale'')
      else (case scout_pages cursor n True of Inl e \<Rightarrow> Inl e | Inr q \<Rightarrow> Inr (get_call ''/collections'' q)))"
| "scout_call c (ScoutCreate collection b) =
     (if trim_space collection = [] then Inl (scout_error ''collection_id_required'' ''collection ID is required'')
      else (case scout_create_body (trim_space collection) b of Inl e \<Rightarrow> Inl e
      | Inr m \<Rightarrow> Inr (write_call ''POST'' ''/articles'' [(''reload'', [''true''])] (marshal (VObj m)))))"
| "scout_call c (ScoutUpdate i b) =
     (if trim_space i = [] then Inl (scout_error ''article_id_required'' ''article ID is required'')
      else (case scout_update_body b of Inl e \<Rightarrow> Inl e
      | Inr m \<Rightarrow> Inr (write_call ''PUT'' (''/articles/'' @ path_escape (trim_space i)) [(''reload'', [''true''])]
          (marshal (VObj m)))))"

definition scout_run where
  "scout_run c ss i = rest_run (scout_plan c ss) scout_read (scout_call c i)"

definition scout_test_connection where
  "scout_test_connection c ss T sent = help_details ''collections'' (scout_run c ss ScoutTest T sent)"

subsection \<open>Contracts\<close>

lemma scout_error_permanent [simp]: "is_permanent (scout_error code msg)" "is_permanent (scout_unsupported f)"
  by (simp_all add: scout_error_def scout_unsupported_def)

lemma scout_validate_ok: "scout_validate c = None \<Longrightarrow> secure_endpoint (scout_base c)"
  by (simp add: scout_validate_def split: if_splits)

interpretation scout_calls: rest_provider scout_plan scout_read scout_base
proof (unfold_locales, goal_cases)
  case (1 c ss k x) then show ?case unfolding scout_plan_def Let_def
    by (rule rest_plan_permanent) (auto simp: scout_validate_def parsed_target_def split: if_splits option.splits)
next
  case (2 c ss k q) from 2(1) show ?case unfolding scout_plan_def Let_def
    by (rule plan_stays_parsed) (simp_all add: scout_validate_ok 2)
next
  case (3 a e) then show ?case unfolding scout_read_def by (rule late_read_cautious)
next
  case (4 m) show ?case unfolding scout_read_def by (rule late_read_lost)
qed

lemma scout_update_permanent: "scout_update_body b = Inl e \<Longrightarrow> is_permanent e"
  by (auto simp: scout_update_body_def scout_status_def scout_list_def simp del: raw_members.simps
      split: option.splits sum.splits if_splits dest!: raw_members_permanent)

lemma scout_pages_permanent: "scout_pages cursor n sized = Inl e \<Longrightarrow> is_permanent e"
  by (auto simp: scout_pages_def Let_def split: option.splits if_splits)

lemma scout_create_permanent: "scout_create_body c b = Inl e \<Longrightarrow> is_permanent e"
  by (auto simp: scout_create_body_def scout_status_def split: if_splits)

lemma scout_call_permanent: "scout_call c i = Inl e \<Longrightarrow> is_permanent e"
  by (cases i) (auto dest: scout_pages_permanent scout_create_permanent scout_update_permanent
      split: sum.splits if_splits)

lemma scout_call_path: "scout_call c i = Inr k \<Longrightarrow> url_tail (rc_path k)"
  by (cases i) (auto split: sum.splits if_splits)

definition scout_writes :: "scout_input \<Rightarrow> bool" where
  "scout_writes i \<longleftrightarrow> (case i of ScoutCreate _ _ \<Rightarrow> True | ScoutUpdate _ _ \<Rightarrow> True | _ \<Rightarrow> False)"

lemma scout_call_write: "scout_call c i = Inr k \<Longrightarrow> rc_write k = scout_writes i"
  by (cases i) (auto simp: scout_writes_def split: sum.splits if_splits)

lemma scout_cautious:
  "scout_writes i \<Longrightarrow> cautious_run T sent (scout_run c ss i T sent) (typed_err (snd (scout_run c ss i T sent)))"
  unfolding scout_run_def by (rule scout_calls.run_cautious) (auto dest: scout_call_permanent scout_call_write)

lemma scout_stays:
  "fst (scout_run c ss i T sent) = sent
    \<or> (\<exists>q. fst (scout_run c ss i T sent) = sent @ [q] \<and> stays_at (scout_base c) q)"
  unfolding scout_run_def by (rule scout_calls.run_stays) (rule scout_call_path)

section \<open>GitBook\<close>

text \<open>The GitBook provider (\<^verbatim>\<open>providers/help_center/gitbook\<close>), which only reads.\<close>

definition gitbook_error :: "string \<Rightarrow> string \<Rightarrow> gerr" where
  "gitbook_error code msg = Permanent (''gitbook.'' @ code) (Msg msg)"

definition gitbook_base :: "connection \<Rightarrow> string" where
  "gitbook_base c = (let v = trim_right_char (CHR ''/'') (map_string (config c) ''base_url'') in
     if v \<noteq> [] then v else ''https://api.gitbook.com/v1'')"

definition gitbook_space :: "connection \<Rightarrow> string" where
  "gitbook_space c = map_string (config c) ''space_id''"

definition gitbook_organization :: "connection \<Rightarrow> string" where
  "gitbook_organization c = map_string (config c) ''organization_id''"

definition gitbook_validate :: "connection \<Rightarrow> gerr option" where
  "gitbook_validate c =
     (if \<not> secure_endpoint (gitbook_base c)
      then Some (gitbook_error ''endpoint_invalid'' ''HTTPS or loopback HTTP endpoint is required'')
      else if gitbook_space c = [] then Some (gitbook_error ''space_id_required'' ''space ID is required'')
      else if gitbook_organization c = []
      then Some (gitbook_error ''organization_id_required'' ''organization ID is required'') else None)"

definition gitbook_plan :: "connection \<Rightarrow> secrets \<Rightarrow> rest_call \<Rightarrow> typed + http_request" where
  "gitbook_plan c ss k = (let token = trim_space (secret ss ''access_token'') in
     rest_plan (gitbook_validate c) (token, gitbook_error ''access_token_required'' ''resolved access token is required'')
       (parsed_target (gitbook_base c) (Permanent ''gitbook.request_invalid'' DecodeErr) (rc_path k) (merge_query (rc_query k)))
       (None, Permanent ''gitbook.request_invalid'' DecodeErr)
       (\<lambda>u raw. authorized (''Bearer '' @ token) (plain_request ''GET'' u (json_headers None) [])))"

definition gitbook_code :: "obj \<Rightarrow> int \<Rightarrow> string" where
  "gitbook_code m n = help_code ''gitbook'' (map_string m ''code'') n"

definition gitbook_ref :: "obj \<Rightarrow> string option" where
  "gitbook_ref m = (let i = map_string m ''id'' in if i = [] then None else Some (''gitbook:'' @ i))"

text \<open>An empty answer is not valid here.\<close>

definition gitbook_read :: "string + http_response \<Rightarrow> typed" where
  "gitbook_read = late_read decode_map ''gitbook'' gitbook_code gitbook_ref False"

definition gitbook_pages :: "string \<Rightarrow> int \<Rightarrow> url_values res" where
  "gitbook_pages cursor n = (case page_size 50 1000 n of
     None \<Rightarrow> Inl (gitbook_error ''page_size_invalid'' ''page size must be between 1 and 1000'')
   | Some k \<Rightarrow> Inr ((''limit'', [itoa k]) # (if trim_space cursor = [] then [] else [(''page'', [trim_space cursor])])))"

datatype gitbook_input = GitbookList string | GitbookGet string | GitbookSearch string string int
  | GitbookCollections string int | GitbookTest

fun gitbook_call :: "connection \<Rightarrow> gitbook_input \<Rightarrow> rest_call res" where
  "gitbook_call c GitbookTest = Inr (get_call ''/user'' [])"
| "gitbook_call c (GitbookList since) =
     (if trim_space since \<noteq> []
      then Inl (gitbook_error ''incremental_filter_unsupported'' ''GitBook list pages does not support updated_since'')
      else Inr (get_call (''/spaces/'' @ path_escape (gitbook_space c) @ ''/content/pages'') []))"
| "gitbook_call c (GitbookGet i) =
     (if trim_space i = [] then Inl (gitbook_error ''article_id_required'' ''article ID is required'')
      else Inr (get_call (''/spaces/'' @ path_escape (gitbook_space c) @ ''/content/page/'' @ path_escape (trim_space i))
        [(''format'', [''markdown''])]))"
| "gitbook_call c (GitbookSearch query cursor n) =
     (if trim_space query = [] then Inl (gitbook_error ''query_required'' ''search query is required'')
      else (case gitbook_pages cursor n of Inl e \<Rightarrow> Inl e
      | Inr q \<Rightarrow> Inr (get_call (''/spaces/'' @ path_escape (gitbook_space c) @ ''/search'') (q @ [(''query'', [trim_space query])]))))"
| "gitbook_call c (GitbookCollections cursor n) =
     (case gitbook_pages cursor n of Inl e \<Rightarrow> Inl e
      | Inr q \<Rightarrow> Inr (get_call (''/orgs/'' @ path_escape (gitbook_organization c) @ ''/collections'') q))"

definition gitbook_run where
  "gitbook_run c ss i = rest_run (gitbook_plan c ss) (\<lambda>w. gitbook_read) (gitbook_call c i)"

definition gitbook_test_connection where
  "gitbook_test_connection c ss T sent = help_details ''user'' (gitbook_run c ss GitbookTest T sent)"

subsection \<open>Contracts\<close>

lemma gitbook_validate_ok: "gitbook_validate c = None \<Longrightarrow> secure_endpoint (gitbook_base c)"
  by (simp add: gitbook_validate_def split: if_splits)

lemma gitbook_plan_stays:
  "gitbook_plan c ss k = Inr q \<Longrightarrow> url_tail (rc_path k) \<Longrightarrow> stays_at (gitbook_base c) q"
  unfolding gitbook_plan_def Let_def by (erule plan_stays_parsed) (simp_all add: gitbook_validate_ok)

lemma gitbook_call_path: "gitbook_call c i = Inr k \<Longrightarrow> url_tail (rc_path k)"
  by (cases i) (auto split: sum.splits if_splits)

lemma gitbook_run_stays:
  "fst (gitbook_run c ss i T sent) = sent \<or> (\<exists>q. fst (gitbook_run c ss i T sent) = sent @ [q] \<and> stays_at (gitbook_base c) q)"
  using gitbook_plan_stays gitbook_call_path
  by (auto simp: gitbook_run_def rest_run_def run_plan_def split: sum.splits)

end
