(* ===== verification/HelpDesks.thy ===== *)
theory HelpDesks
  imports HelpCenter Base64
begin

text \<open>The articles of help desks: Intercom and Zendesk Guide.\<close>

section \<open>Intercom\<close>

text \<open>The Intercom articles provider (\<^verbatim>\<open>providers/help_center/intercom_articles\<close>).\<close>

definition intercom_error :: "string \<Rightarrow> string \<Rightarrow> gerr" where
  "intercom_error code msg = Permanent (''intercom_articles.'' @ code) (Msg msg)"

definition intercom_unsupported :: "string \<Rightarrow> gerr" where
  "intercom_unsupported f = intercom_error (f @ ''_unsupported'') (f @ '' is not supported by Intercom Articles'')"

definition intercom_base :: "connection \<Rightarrow> string" where
  "intercom_base c = (let v = trim_right_char (CHR ''/'') (map_string (config c) ''base_url'') in
     if v \<noteq> [] then v else ''https://api.intercom.io'')"

definition intercom_version :: "connection \<Rightarrow> string" where
  "intercom_version c = (let v = map_string (config c) ''api_version'' in if v \<noteq> [] then v else ''2.16'')"

text \<open>The pattern \<^verbatim>\<open>^[0-9]+\.[0-9]+$\<close>.\<close>

definition numeric_version :: "string \<Rightarrow> bool" where
  "numeric_version s = (case split_on (CHR ''.'') s of
     [a, b] \<Rightarrow> a \<noteq> [] \<and> b \<noteq> [] \<and> list_all is_digit a \<and> list_all is_digit b | _ \<Rightarrow> False)"

definition intercom_validate :: "connection \<Rightarrow> gerr option" where
  "intercom_validate c =
     (if \<not> secure_endpoint (intercom_base c)
      then Some (intercom_error ''endpoint_invalid'' ''HTTPS or loopback HTTP endpoint is required'')
      else if \<not> numeric_version (intercom_version c)
      then Some (intercom_error ''api_version_invalid'' ''API version must be a numeric major.minor version'')
      else None)"

definition intercom_plan :: "connection \<Rightarrow> secrets \<Rightarrow> rest_call \<Rightarrow> typed + http_request" where
  "intercom_plan c ss k = (let token = trim_space (secret ss ''access_token'');
       invalid = Permanent ''intercom_articles.request_invalid'' DecodeErr in
     rest_plan (intercom_validate c) (token, intercom_error ''access_token_required'' ''resolved access token is required'')
       (parsed_target (intercom_base c) invalid (rc_path k) (merge_query (rc_query k))) (rc_body k, invalid)
       (\<lambda>u raw. authorized (''Bearer '' @ token) (plain_request (rc_method k) u
          (put ''Intercom-Version'' [intercom_version c] (json_headers (rc_body k))) raw)))"

text \<open>The member \<open>type\<close> comes before the code of the first error.\<close>

definition intercom_code :: "obj \<Rightarrow> int \<Rightarrow> string" where
  "intercom_code m n =
     (if map_string m ''type'' \<noteq> [] then help_code ''intercom_articles'' (map_string m ''type'') n
      else (case as_arr (at m ''errors'') of
        x # _ \<Rightarrow> help_code ''intercom_articles'' (map_string (as_obj x) ''code'') n
      | [] \<Rightarrow> help_code ''intercom_articles'' [] n))"

definition intercom_ref :: "obj \<Rightarrow> string option" where
  "intercom_ref m = (let i = map_string m ''id'' in if i = [] then None else Some (''intercom_articles:article:'' @ i))"

definition intercom_read :: "bool \<Rightarrow> string + http_response \<Rightarrow> typed" where
  "intercom_read = late_read blank_or_map ''intercom_articles'' intercom_code intercom_ref"

subsection \<open>Articles\<close>

record intercom_create =
  ic_title :: string
  ic_description :: string
  ic_body :: string
  ic_author :: int
  ic_state :: string
  ic_translated :: string

record intercom_update =
  iu_title :: string
  iu_description :: "string option"
  iu_body :: "string option"
  iu_author :: int
  iu_state :: string
  iu_parent :: int
  iu_parent_type :: string
  iu_translated :: string

definition intercom_state :: "string \<Rightarrow> gerr option" where
  "intercom_state s = (if trim_space s \<in> set [[], ''published'', ''draft''] then None
     else Some (intercom_error ''state_invalid'' ''state must be published or draft''))"

definition intercom_object :: "string \<Rightarrow> gerr option" where
  "intercom_object raw = (if raw = [] \<or> raw_object raw \<noteq> None then None
     else Some (intercom_error ''translated_content_invalid'' ''translated_content must be a JSON object''))"

definition put_translated :: "string \<Rightarrow> obj \<Rightarrow> obj" where
  "put_translated raw m = (if raw = [] then m
     else put ''translated_content'' (case raw_value raw of None \<Rightarrow> VNil | Some v \<Rightarrow> v) m)"

definition put_exact :: "string \<Rightarrow> string \<Rightarrow> obj \<Rightarrow> obj" where
  "put_exact k s m = (if s = [] then m else put k (VStr s) m)"

definition put_option :: "string \<Rightarrow> val option \<Rightarrow> obj \<Rightarrow> obj" where
  "put_option k v m = (case v of None \<Rightarrow> m | Some x \<Rightarrow> put k x m)"

definition intercom_create_body :: "int \<Rightarrow> intercom_create \<Rightarrow> obj res" where
  "intercom_create_body parent b =
     (if trim_space (ic_title b) = [] \<or> ic_author b < 1
      then Inl (intercom_error ''create_fields_required'' ''title and positive author_id are required'')
      else (case intercom_state (ic_state b) of Some e \<Rightarrow> Inl e
      | None \<Rightarrow> (case intercom_object (ic_translated b) of Some e \<Rightarrow> Inl e
        | None \<Rightarrow> Inr (put_translated (ic_translated b) (set_text ''state'' (ic_state b)
            (put_exact ''body'' (ic_body b) (put_exact ''description'' (ic_description b)
              [(''title'', VStr (trim_space (ic_title b))), (''author_id'', VInt (ic_author b)),
               (''parent_id'', VInt parent), (''parent_type'', VStr ''collection'')])))))))"

definition intercom_update_body :: "intercom_update \<Rightarrow> obj res" where
  "intercom_update_body b = (case intercom_state (iu_state b) of Some e \<Rightarrow> Inl e
   | None \<Rightarrow>
     (if iu_parent b < 0 then Inl (intercom_error ''parent_id_invalid'' ''parent_id must be positive'')
      else if iu_parent b > 0 \<and> iu_parent_type b \<notin> set [''collection'', ''section'']
      then Inl (intercom_error ''parent_type_invalid'' ''parent_type must be collection or section when parent_id is set'')
      else if iu_parent b = 0 \<and> trim_space (iu_parent_type b) \<noteq> []
      then Inl (intercom_error ''parent_id_required'' ''parent_id is required when parent_type is set'')
      else (case intercom_object (iu_translated b) of Some e \<Rightarrow> Inl e
      | None \<Rightarrow>
         (let m = put_translated (iu_translated b)
              (put_option ''parent_type'' (if iu_parent b > 0 then Some (VStr (iu_parent_type b)) else None)
              (put_option ''parent_id'' (if iu_parent b > 0 then Some (VInt (iu_parent b)) else None)
              (set_text ''state'' (iu_state b)
              (put_option ''author_id'' (if iu_author b > 0 then Some (VInt (iu_author b)) else None)
              (put_option ''body'' (map_option VStr (iu_body b))
              (put_option ''description'' (map_option VStr (iu_description b))
              (set_text ''title'' (iu_title b) [])))))))
          in if m = [] then Inl (intercom_error ''update_fields_required'' ''at least one supported article field is required'')
             else Inr m))))"

definition intercom_pages :: "string \<Rightarrow> int \<Rightarrow> url_values res" where
  "intercom_pages cursor n = (case page_number cursor of
     None \<Rightarrow> Inl (intercom_error ''cursor_invalid'' ''cursor must be a positive page number'')
   | Some p \<Rightarrow> (case page_size 25 150 n of
       None \<Rightarrow> Inl (intercom_error ''page_size_invalid'' ''page size must be between 1 and 150'')
     | Some k \<Rightarrow> Inr [(''page'', [itoa p]), (''per_page'', [itoa k])]))"

datatype intercom_input = IntercomList string string int string | IntercomGet string string
  | IntercomSearch string string string int | IntercomCollections string string int
  | IntercomCreate string intercom_create | IntercomUpdate string intercom_update | IntercomTest

fun intercom_call :: "connection \<Rightarrow> intercom_input \<Rightarrow> rest_call res" where
  "intercom_call c IntercomTest = Inr (get_call ''/me'' [])"
| "intercom_call c (IntercomList locale cursor n since) =
     (if trim_space since \<noteq> [] then Inl (intercom_unsupported ''incremental_filter'')
      else if trim_space locale \<noteq> [] then Inl (intercom_unsupported ''locale'')
      else (case intercom_pages cursor n of Inl e \<Rightarrow> Inl e | Inr q \<Rightarrow> Inr (get_call ''/articles'' q)))"
| "intercom_call c (IntercomGet i locale) =
     (if trim_space locale \<noteq> [] then Inl (intercom_unsupported ''locale'')
      else if trim_space i = [] then Inl (intercom_error ''article_id_required'' ''article ID is required'')
      else Inr (get_call (''/articles/'' @ path_escape (trim_space i)) []))"
| "intercom_call c (IntercomSearch query locale cursor n) =
     (if trim_space locale \<noteq> [] then Inl (intercom_unsupported ''locale'')
      else if trim_space cursor \<noteq> [] \<or> n \<noteq> 0 then Inl (intercom_unsupported ''search_pagination'')
      else if trim_space query = [] then Inl (intercom_error ''query_required'' ''search query is required'')
      else Inr (get_call ''/articles/search'' [(''phrase'', [trim_space query]), (''state'', [''published''])]))"
| "intercom_call c (IntercomCollections locale cursor n) =
     (if trim_space locale \<noteq> [] then Inl (intercom_unsupported ''locale'')
      else (case intercom_pages cursor n of Inl e \<Rightarrow> Inl e | Inr q \<Rightarrow> Inr (get_call ''/help_center/collections'' q)))"
| "intercom_call c (IntercomCreate collection b) = (case atoi (trim_space collection) of
     None \<Rightarrow> Inl (intercom_error ''collection_id_invalid'' ''collection_id must be a positive integer'')
   | Some parent \<Rightarrow>
       if parent < 1 then Inl (intercom_error ''collection_id_invalid'' ''collection_id must be a positive integer'')
       else (case intercom_create_body parent b of Inl e \<Rightarrow> Inl e
       | Inr m \<Rightarrow> Inr (write_call ''POST'' ''/articles'' [] (marshal (VObj m)))))"
| "intercom_call c (IntercomUpdate i b) =
     (if trim_space i = [] then Inl (intercom_error ''article_id_required'' ''article ID is required'')
      else (case intercom_update_body b of Inl e \<Rightarrow> Inl e
      | Inr m \<Rightarrow> Inr (write_call ''PUT'' (''/articles/'' @ path_escape (trim_space i)) [] (marshal (VObj m)))))"

definition intercom_run where
  "intercom_run c ss i = rest_run (intercom_plan c ss) intercom_read (intercom_call c i)"

definition intercom_test_connection where
  "intercom_test_connection c ss T sent = help_details ''admin'' (intercom_run c ss IntercomTest T sent)"

subsection \<open>Contracts\<close>

lemma intercom_error_permanent [simp]: "is_permanent (intercom_error code msg)" "is_permanent (intercom_unsupported f)"
  by (simp_all add: intercom_error_def intercom_unsupported_def)

lemma intercom_validate_ok: "intercom_validate c = None \<Longrightarrow> secure_endpoint (intercom_base c)"
  by (simp add: intercom_validate_def split: if_splits)

interpretation intercom_calls: rest_provider intercom_plan intercom_read intercom_base
proof (unfold_locales, goal_cases)
  case (1 c ss k x) then show ?case unfolding intercom_plan_def Let_def
    by (rule rest_plan_permanent) (auto simp: intercom_validate_def parsed_target_def split: if_splits option.splits)
next
  case (2 c ss k q) from 2(1) show ?case unfolding intercom_plan_def Let_def
    by (rule plan_stays_parsed) (simp_all add: intercom_validate_ok 2)
next
  case (3 a e) then show ?case unfolding intercom_read_def by (rule late_read_cautious)
next
  case (4 m) show ?case unfolding intercom_read_def by (rule late_read_lost)
qed

lemma intercom_pages_permanent: "intercom_pages cursor n = Inl e \<Longrightarrow> is_permanent e"
  by (auto simp: intercom_pages_def split: option.splits)

lemma intercom_state_permanent: "intercom_state s = Some e \<Longrightarrow> is_permanent e"
  "intercom_object s = Some e \<Longrightarrow> is_permanent e"
  by (auto simp: intercom_state_def intercom_object_def split: if_splits)

lemma intercom_create_permanent: "intercom_create_body p b = Inl e \<Longrightarrow> is_permanent e"
  by (auto simp: intercom_create_body_def dest: intercom_state_permanent split: if_splits option.splits)

lemma intercom_update_permanent: "intercom_update_body b = Inl e \<Longrightarrow> is_permanent e"
  unfolding intercom_update_body_def Let_def
  by (auto dest: intercom_state_permanent simp del: set_simps split: if_split_asm option.split_asm)

lemma intercom_call_permanent: "intercom_call c i = Inl e \<Longrightarrow> is_permanent e"
  by (cases i) (auto dest: intercom_pages_permanent intercom_create_permanent intercom_update_permanent
      split: sum.splits if_splits option.splits)

lemma intercom_call_path: "intercom_call c i = Inr k \<Longrightarrow> url_tail (rc_path k)"
  by (cases i) (auto split: sum.splits if_splits option.splits)

definition intercom_writes :: "intercom_input \<Rightarrow> bool" where
  "intercom_writes i \<longleftrightarrow> (case i of IntercomCreate _ _ \<Rightarrow> True | IntercomUpdate _ _ \<Rightarrow> True | _ \<Rightarrow> False)"

lemma intercom_call_write: "intercom_call c i = Inr k \<Longrightarrow> rc_write k = intercom_writes i"
  by (cases i) (auto simp: intercom_writes_def split: sum.splits if_splits option.splits)

lemma intercom_cautious:
  "intercom_writes i \<Longrightarrow> cautious_run T sent (intercom_run c ss i T sent) (typed_err (snd (intercom_run c ss i T sent)))"
  unfolding intercom_run_def by (rule intercom_calls.run_cautious) (auto dest: intercom_call_permanent intercom_call_write)

lemma intercom_stays:
  "fst (intercom_run c ss i T sent) = sent
    \<or> (\<exists>q. fst (intercom_run c ss i T sent) = sent @ [q] \<and> stays_at (intercom_base c) q)"
  unfolding intercom_run_def by (rule intercom_calls.run_stays) (rule intercom_call_path)

section \<open>Zendesk Guide\<close>

text \<open>The Zendesk Guide provider (\<^verbatim>\<open>providers/help_center/zendesk_guide\<close>).\<close>

definition zguide_error :: "string \<Rightarrow> string \<Rightarrow> gerr" where
  "zguide_error code msg = Permanent (''zendesk_guide.'' @ code) (Msg msg)"

definition zguide_base :: "connection \<Rightarrow> string" where
  "zguide_base c = trim_right_char (CHR ''/'') (map_string (config c) ''base_url'')"

definition zguide_email :: "connection \<Rightarrow> string" where
  "zguide_email c = map_string (config c) ''email''"

definition zguide_validate :: "connection \<Rightarrow> gerr option" where
  "zguide_validate c =
     (if \<not> secure_endpoint (zguide_base c)
      then Some (zguide_error ''endpoint_invalid'' ''HTTPS or loopback HTTP endpoint is required'')
      else if zguide_email c = [] then Some (zguide_error ''email_required'' ''agent email is required'')
      else None)"

definition zguide_plan :: "connection \<Rightarrow> secrets \<Rightarrow> rest_call \<Rightarrow> typed + http_request" where
  "zguide_plan c ss k = (let token = trim_space (secret ss ''api_token'');
       invalid = Permanent ''zendesk_guide.request_invalid'' DecodeErr in
     rest_plan (zguide_validate c) (token, zguide_error ''api_token_required'' ''resolved API token is required'')
       (parsed_target (zguide_base c) invalid (rc_path k) (merge_query (rc_query k))) (rc_body k, invalid)
       (\<lambda>u raw. authorized (''Basic '' @ base64_std (zguide_email c @ ''/token:'' @ token))
          (plain_request (rc_method k) u (json_headers (rc_body k)) raw)))"

definition zguide_code :: "obj \<Rightarrow> int \<Rightarrow> string" where
  "zguide_code m n = help_code ''zendesk_guide'' (map_string m ''error'') n"

definition zguide_ref :: "obj \<Rightarrow> string option" where
  "zguide_ref m = (let i = map_string (as_obj (at m ''article'')) ''id'' in
     if i = [] then None else Some (''zendesk_guide:article:'' @ i))"

definition zguide_read :: "bool \<Rightarrow> string + http_response \<Rightarrow> typed" where
  "zguide_read = late_read blank_or_map ''zendesk_guide'' zguide_code zguide_ref"

subsection \<open>Articles\<close>

text \<open>Slices are nil or not; \<open>omitempty\<close> drops the empty ones as well.\<close>

record zguide_create =
  zc_title :: string
  zc_locale :: string
  zc_body :: string
  zc_author :: "int option"
  zc_comments :: "bool option"
  zc_tags :: "string list"
  zc_draft :: "bool option"
  zc_labels :: "string list"
  zc_group :: "int option"
  zc_promoted :: "bool option"
  zc_segment :: "int option"
  zc_segments :: "int list option"
  zc_notify :: "bool option"

record zguide_update =
  zu_author :: "int option"
  zu_comments :: "bool option"
  zu_labels :: "string list option"
  zu_group :: "int option"
  zu_position :: "int option"
  zu_promoted :: "bool option"
  zu_section :: "int option"
  zu_segment :: "int option"
  zu_segments :: "int list option"

definition strings_member :: "string \<Rightarrow> string list \<Rightarrow> (string \<times> string option) list" where
  "strings_member k xs = (if xs = [] then [] else [(k, marshal (VStrs xs))])"

definition ints_member :: "string \<Rightarrow> int list option \<Rightarrow> (string \<times> string option) list" where
  "ints_member k xs = (case xs of Some (y # ys) \<Rightarrow> [(k, marshal (VArr (map VInt (y # ys))))] | _ \<Rightarrow> [])"

definition zguide_create_text :: "zguide_create \<Rightarrow> string option" where
  "zguide_create_text b = object_text ([(''article'', object_text (
       [(''title'', marshal (VStr (zc_title b))), (''locale'', marshal (VStr (zc_locale b)))]
       @ text_member ''body'' (zc_body b) @ opt_member ''author_id'' (map_option VInt (zc_author b))
       @ opt_member ''comments_disabled'' (map_option VBool (zc_comments b)) @ strings_member ''content_tag_ids'' (zc_tags b)
       @ opt_member ''draft'' (map_option VBool (zc_draft b)) @ strings_member ''label_names'' (zc_labels b)
       @ opt_member ''permission_group_id'' (map_option VInt (zc_group b)) @ opt_member ''promoted'' (map_option VBool (zc_promoted b))
       @ opt_member ''user_segment_id'' (map_option VInt (zc_segment b)) @ ints_member ''user_segment_ids'' (zc_segments b)))]
     @ opt_member ''notify_subscribers'' (map_option VBool (zc_notify b)))"

definition zguide_update_text :: "zguide_update \<Rightarrow> string option" where
  "zguide_update_text b = object_text [(''article'', object_text (
       opt_member ''author_id'' (map_option VInt (zu_author b)) @ opt_member ''comments_disabled'' (map_option VBool (zu_comments b))
       @ strings_member ''label_names'' (case zu_labels b of None \<Rightarrow> [] | Some xs \<Rightarrow> xs)
       @ opt_member ''permission_group_id'' (map_option VInt (zu_group b)) @ opt_member ''position'' (map_option VInt (zu_position b))
       @ opt_member ''promoted'' (map_option VBool (zu_promoted b)) @ opt_member ''section_id'' (map_option VInt (zu_section b))
       @ opt_member ''user_segment_id'' (map_option VInt (zu_segment b)) @ ints_member ''user_segment_ids'' (zu_segments b)))]"

definition zguide_audience :: "int option \<Rightarrow> int list option \<Rightarrow> gerr option" where
  "zguide_audience single multiple = (if single \<noteq> None \<and> multiple \<noteq> None
     then Some (zguide_error ''user_segments_conflict'' ''user_segment_id and user_segment_ids are mutually exclusive'') else None)"

definition zguide_empty :: "zguide_update \<Rightarrow> bool" where
  "zguide_empty b \<longleftrightarrow> zu_author b = None \<and> zu_comments b = None \<and> zu_labels b = None \<and> zu_group b = None
     \<and> zu_position b = None \<and> zu_promoted b = None \<and> zu_section b = None \<and> zu_segment b = None \<and> zu_segments b = None"

text \<open>Labels that are set to the empty list count as an update, and send nothing.\<close>

lemma zguide_labels_lost:
  assumes "zu_labels b = Some []" "zu_author b = None" "zu_comments b = None" "zu_group b = None" "zu_position b = None"
    "zu_promoted b = None" "zu_section b = None" "zu_segment b = None" "zu_segments b = None"
  shows "\<not> zguide_empty b \<and> zguide_update_text b = object_text [(''article'', object_text [])]"
  using assms by (simp add: zguide_empty_def zguide_update_text_def opt_member_def strings_member_def ints_member_def)

subsection \<open>Queries\<close>

definition zguide_size :: "int \<Rightarrow> int \<Rightarrow> int res" where
  "zguide_size standard n = (case page_size standard 100 n of
     None \<Rightarrow> Inl (zguide_error ''page_size_invalid'' ''page size must be between 1 and 100'') | Some k \<Rightarrow> Inr k)"

definition cursor_query :: "string \<Rightarrow> int \<Rightarrow> url_values res" where
  "cursor_query cursor n = (case zguide_size 50 n of Inl e \<Rightarrow> Inl e
   | Inr k \<Rightarrow> Inr ((''page[size]'', [itoa k]) # (if trim_space cursor = [] then [] else [(''page[after]'', [trim_space cursor])])))"

definition offset_query :: "string \<Rightarrow> int \<Rightarrow> url_values res" where
  "offset_query cursor n = (case page_number cursor of
     None \<Rightarrow> Inl (zguide_error ''cursor_invalid'' ''search cursor must be a positive page number'')
   | Some p \<Rightarrow> (case zguide_size 25 n of Inl e \<Rightarrow> Inl e
     | Inr k \<Rightarrow> if \<not> window_ok p k
         then Inl (zguide_error ''pagination_window_invalid'' ''page multiplied by page_size cannot exceed 1000'')
         else Inr [(''page'', [itoa p]), (''per_page'', [itoa k])]))"

definition unix_timestamp :: "string \<Rightarrow> string res" where
  "unix_timestamp s = (case atoi s of
     Some n \<Rightarrow> if n \<ge> 0 then Inr (itoa n)
       else (case parse_rfc3339 s of
         None \<Rightarrow> Inl (zguide_error ''updated_since_invalid'' ''updated_since must be a non-negative Unix timestamp or RFC3339 value'')
       | Some t \<Rightarrow> Inr (itoa (t div 1000000000)))
   | None \<Rightarrow> (case parse_rfc3339 s of
         None \<Rightarrow> Inl (zguide_error ''updated_since_invalid'' ''updated_since must be a non-negative Unix timestamp or RFC3339 value'')
       | Some t \<Rightarrow> Inr (itoa (t div 1000000000))))"

text \<open>The root of the articles, of one locale where it is given.\<close>

definition zguide_root :: "string \<Rightarrow> string" where
  "zguide_root locale = ''/api/v2/help_center/'' @ (if trim_space locale = [] then [] else path_escape (trim_space locale) @ ''/'')"

datatype zguide_input = GuideList string string int string | GuideGet string string
  | GuideSearch string string string int | GuideCollections string string int
  | GuideCreate string zguide_create | GuideUpdate string zguide_update | GuideTest

fun zguide_call :: "zguide_input \<Rightarrow> rest_call res" where
  "zguide_call GuideTest = Inr (get_call ''/api/v2/help_center/categories'' [(''page[size]'', [''1''])])"
| "zguide_call (GuideList locale cursor n since) =
     (case cursor_query cursor n of Inl e \<Rightarrow> Inl e
      | Inr q \<Rightarrow>
          if trim_space since \<noteq> []
          then (case unix_timestamp (trim_space since) of Inl e \<Rightarrow> Inl e
            | Inr s \<Rightarrow> Inr (get_call ''/api/v2/help_center/incremental/articles'' (q @ [(''start_time'', [s])])))
          else Inr (get_call (zguide_root locale @ ''articles'') q))"
| "zguide_call (GuideGet i locale) =
     (if trim_space i = [] then Inl (zguide_error ''article_id_required'' ''article ID is required'')
      else Inr (get_call (zguide_root locale @ ''articles/'' @ path_escape (trim_space i)) []))"
| "zguide_call (GuideSearch query locale cursor n) =
     (if trim_space query = [] then Inl (zguide_error ''query_required'' ''search query is required'')
      else (case offset_query cursor n of Inl e \<Rightarrow> Inl e
      | Inr q \<Rightarrow> Inr (get_call ''/api/v2/help_center/articles/search'' (q @ [(''query'', [trim_space query])]
          @ (if trim_space locale = [] then [] else [(''locale'', [trim_space locale])])))))"
| "zguide_call (GuideCollections locale cursor n) =
     (case cursor_query cursor n of Inl e \<Rightarrow> Inl e | Inr q \<Rightarrow> Inr (get_call (zguide_root locale @ ''categories'') q))"
| "zguide_call (GuideCreate collection b) =
     (if trim_space collection = [] then Inl (zguide_error ''collection_id_required'' ''section ID is required'')
      else if trim_space (zc_title b) = [] then Inl (zguide_error ''title_required'' ''article title is required'')
      else if trim_space (zc_locale b) = [] then Inl (zguide_error ''locale_required'' ''article locale is required'')
      else (case zguide_audience (zc_segment b) (zc_segments b) of Some e \<Rightarrow> Inl e
      | None \<Rightarrow> Inr (write_call ''POST'' (''/api/v2/help_center/'' @ path_escape (trim_space (zc_locale b)) @ ''/sections/''
          @ path_escape (trim_space collection) @ ''/articles'') [] (zguide_create_text b))))"
| "zguide_call (GuideUpdate i b) =
     (if trim_space i = [] then Inl (zguide_error ''article_id_required'' ''article ID is required'')
      else (case zguide_audience (zu_segment b) (zu_segments b) of Some e \<Rightarrow> Inl e
      | None \<Rightarrow> if zguide_empty b
          then Inl (zguide_error ''update_fields_required'' ''at least one supported article metadata field is required'')
          else Inr (write_call ''PUT'' (''/api/v2/help_center/articles/'' @ path_escape (trim_space i)) [] (zguide_update_text b))))"

definition zguide_run where
  "zguide_run c ss i = rest_run (zguide_plan c ss) zguide_read (zguide_call i)"

definition zguide_test_connection where
  "zguide_test_connection c ss T sent = help_details ''categories'' (zguide_run c ss GuideTest T sent)"

subsection \<open>Contracts\<close>

lemma zguide_error_permanent [simp]: "is_permanent (zguide_error code msg)"
  by (simp add: zguide_error_def)

lemma zguide_validate_ok: "zguide_validate c = None \<Longrightarrow> secure_endpoint (zguide_base c)"
  by (simp add: zguide_validate_def split: if_splits)

interpretation zguide_calls: rest_provider zguide_plan zguide_read zguide_base
proof (unfold_locales, goal_cases)
  case (1 c ss k x) then show ?case unfolding zguide_plan_def Let_def
    by (rule rest_plan_permanent) (auto simp: zguide_validate_def parsed_target_def split: if_splits option.splits)
next
  case (2 c ss k q) from 2(1) show ?case unfolding zguide_plan_def Let_def
    by (rule plan_stays_parsed) (simp_all add: zguide_validate_ok 2)
next
  case (3 a e) then show ?case unfolding zguide_read_def by (rule late_read_cautious)
next
  case (4 m) show ?case unfolding zguide_read_def by (rule late_read_lost)
qed

lemma zguide_queries_permanent:
  "zguide_size s n = Inl e \<Longrightarrow> is_permanent e" "cursor_query cursor n = Inl e \<Longrightarrow> is_permanent e"
  "offset_query cursor n = Inl e \<Longrightarrow> is_permanent e" "unix_timestamp t = Inl e \<Longrightarrow> is_permanent e"
  "zguide_audience a b = Some e \<Longrightarrow> is_permanent e"
  by (auto simp: zguide_size_def cursor_query_def offset_query_def unix_timestamp_def zguide_audience_def
      split: option.splits sum.splits if_splits)

lemma zguide_call_permanent: "zguide_call i = Inl e \<Longrightarrow> is_permanent e"
  by (cases i) (auto dest: zguide_queries_permanent split: sum.splits if_splits option.splits)

lemma zguide_call_path: "zguide_call i = Inr k \<Longrightarrow> url_tail (rc_path k)"
  by (cases i) (auto simp: zguide_root_def split: sum.splits if_splits option.splits)

definition zguide_writes :: "zguide_input \<Rightarrow> bool" where
  "zguide_writes i \<longleftrightarrow> (case i of GuideCreate _ _ \<Rightarrow> True | GuideUpdate _ _ \<Rightarrow> True | _ \<Rightarrow> False)"

lemma zguide_call_write: "zguide_call i = Inr k \<Longrightarrow> rc_write k = zguide_writes i"
  by (cases i) (auto simp: zguide_writes_def split: sum.splits if_splits option.splits)

lemma zguide_cautious:
  "zguide_writes i \<Longrightarrow> cautious_run T sent (zguide_run c ss i T sent) (typed_err (snd (zguide_run c ss i T sent)))"
  unfolding zguide_run_def by (rule zguide_calls.run_cautious) (auto dest: zguide_call_permanent zguide_call_write)

lemma zguide_stays:
  "fst (zguide_run c ss i T sent) = sent
    \<or> (\<exists>q. fst (zguide_run c ss i T sent) = sent @ [q] \<and> stays_at (zguide_base c) q)"
  unfolding zguide_run_def by (rule zguide_calls.run_stays) (rule zguide_call_path)

end
