(* ===== verification/HelpWikis.thy ===== *)
theory HelpWikis
  imports HelpCenter Base64 GoText
begin

text \<open>Wikis as help centres: Notion and Confluence.\<close>

section \<open>Notion\<close>

text \<open>
  The Notion provider (\<^verbatim>\<open>providers/help_center/notion_docs\<close>). An article is a page and its
  blocks, two requests; where the answer for the page is \<open>null\<close>, storing the blocks panics.
\<close>

definition notion_error :: "string \<Rightarrow> string \<Rightarrow> gerr" where
  "notion_error code msg = Permanent (''notion_docs.'' @ code) (Msg msg)"

definition notion_unsupported :: "string \<Rightarrow> gerr" where
  "notion_unsupported f = notion_error (f @ ''_unsupported'') (f @ '' is not supported by Notion Docs'')"

definition notion_base :: "connection \<Rightarrow> string" where
  "notion_base c = (let v = trim_right_char (CHR ''/'') (map_string (config c) ''base_url'') in
     if v \<noteq> [] then v else ''https://api.notion.com/v1'')"

definition notion_source :: "connection \<Rightarrow> string" where
  "notion_source c = map_string (config c) ''data_source_id''"

definition notion_version :: "connection \<Rightarrow> string" where
  "notion_version c = (let v = map_string (config c) ''notion_version'' in if v \<noteq> [] then v else ''2026-03-11'')"

text \<open>The pattern \<^verbatim>\<open>^[0-9]{4}-[0-9]{2}-[0-9]{2}$\<close>.\<close>

definition dated_version :: "string \<Rightarrow> bool" where
  "dated_version s \<longleftrightarrow> map length (split_on (CHR ''-'') s) = [4, 2, 2]
     \<and> list_all (list_all is_digit) (split_on (CHR ''-'') s)"

definition notion_validate :: "connection \<Rightarrow> gerr option" where
  "notion_validate c =
     (if \<not> secure_endpoint (notion_base c)
      then Some (notion_error ''endpoint_invalid'' ''HTTPS or loopback HTTP endpoint is required'')
      else if notion_source c = []
      then Some (notion_error ''data_source_id_required'' ''default data source ID is required'')
      else if \<not> dated_version (notion_version c)
      then Some (notion_error ''notion_version_invalid'' ''Notion version must use YYYY-MM-DD format'')
      else None)"

definition notion_plan :: "connection \<Rightarrow> secrets \<Rightarrow> rest_call \<Rightarrow> typed + http_request" where
  "notion_plan c ss k = (let token = trim_space (secret ss ''access_token'');
       invalid = Permanent ''notion_docs.request_invalid'' DecodeErr in
     rest_plan (notion_validate c) (token, notion_error ''access_token_required'' ''resolved access token is required'')
       (parsed_target (notion_base c) invalid (rc_path k) (merge_query (rc_query k))) (rc_body k, invalid)
       (\<lambda>u raw. authorized (''Bearer '' @ token) (plain_request (rc_method k) u
          (put ''Notion-Version'' [notion_version c] (json_headers (rc_body k))) raw)))"

definition notion_code :: "obj \<Rightarrow> int \<Rightarrow> string" where
  "notion_code m n = help_code ''notion_docs'' (map_string m ''code'') n"

definition notion_ref :: "obj \<Rightarrow> string option" where
  "notion_ref m = (let i = map_string m ''id'' in if i = [] then None else Some (''notion_docs:page:'' @ i))"

definition notion_read :: "bool \<Rightarrow> string + http_response \<Rightarrow> typed" where
  "notion_read = late_read blank_or_map ''notion_docs'' notion_code notion_ref"

subsection \<open>Pages\<close>

record notion_create =
  nc_properties :: string
  nc_children :: string
  nc_icon :: string
  nc_cover :: string
  nc_template :: string

record notion_update =
  nu_properties :: string
  nu_icon :: string
  nu_cover :: string
  nu_in_trash :: "bool option"
  nu_is_locked :: "bool option"

definition create_member :: "string \<Rightarrow> string \<Rightarrow> (string \<times> val) res" where
  "create_member k raw = (case raw_value raw of
     None \<Rightarrow> Inl (notion_error (k @ ''_invalid'') (k @ '' must be valid JSON''))
   | Some v \<Rightarrow>
       if k = ''children''
       then (case v of VArr _ \<Rightarrow> Inr (k, v) | _ \<Rightarrow> Inl (notion_error ''children_invalid'' ''children must be an array''))
       else if is_obj v then Inr (k, v) else Inl (notion_error (k @ ''_invalid'') (k @ '' must be an object'')))"

definition notion_create_body :: "string \<Rightarrow> notion_create \<Rightarrow> obj res" where
  "notion_create_body source b =
     (let missing = Inl (notion_error ''properties_required'' ''non-empty page properties are required'') in
      case raw_object (nc_properties b) of
        None \<Rightarrow> missing
      | Some ps \<Rightarrow> if as_obj ps = [] then missing
          else (case raw_members create_member [(''children'', nc_children b), (''icon'', nc_icon b),
              (''cover'', nc_cover b), (''template'', nc_template b)]
            [(''parent'', VObj [(''type'', VStr ''data_source_id''), (''data_source_id'', VStr source)]), (''properties'', ps)] of
            Inl e \<Rightarrow> Inl e
          | Inr m \<Rightarrow> if at m ''children'' \<noteq> VNil \<and> at m ''template'' \<noteq> VNil
              then Inl (notion_error ''template_children_conflict'' ''template and children cannot be used together'')
              else Inr m))"

definition update_member :: "string \<Rightarrow> string \<Rightarrow> (string \<times> val) res" where
  "update_member k raw = (case raw_value raw of
     None \<Rightarrow> Inl (notion_error (k @ ''_invalid'') (k @ '' must be valid JSON''))
   | Some v \<Rightarrow>
       if k = ''properties''
       then (if is_obj v then Inr (k, v) else Inl (notion_error ''properties_invalid'' ''properties must be an object''))
       else if v = VNil \<or> is_obj v then Inr (k, v)
       else Inl (notion_error (k @ ''_invalid'') (k @ '' must be an object or null'')))"

definition put_flag :: "string \<Rightarrow> bool option \<Rightarrow> obj \<Rightarrow> obj" where
  "put_flag k b m = (case b of None \<Rightarrow> m | Some x \<Rightarrow> put k (VBool x) m)"

definition notion_update_body :: "notion_update \<Rightarrow> obj res" where
  "notion_update_body b =
     (case raw_members update_member [(''properties'', nu_properties b), (''icon'', nu_icon b), (''cover'', nu_cover b)] [] of
        Inl e \<Rightarrow> Inl e
      | Inr m0 \<Rightarrow>
         (let m = put_flag ''is_locked'' (nu_is_locked b) (put_flag ''in_trash'' (nu_in_trash b) m0) in
          if m = [] then Inl (notion_error ''update_fields_required'' ''at least one supported page field is required'')
          else Inr m))"

definition notion_size :: "int \<Rightarrow> int res" where
  "notion_size n = (case page_size 50 100 n of
     None \<Rightarrow> Inl (notion_error ''page_size_invalid'' ''page size must be between 1 and 100'') | Some k \<Rightarrow> Inr k)"

definition pagination_body :: "string \<Rightarrow> int \<Rightarrow> obj res" where
  "pagination_body cursor n = (case notion_size n of Inl e \<Rightarrow> Inl e
   | Inr k \<Rightarrow> Inr (set_text ''start_cursor'' cursor [(''page_size'', VInt k)]))"

definition pagination_query :: "string \<Rightarrow> int \<Rightarrow> url_values res" where
  "pagination_query cursor n = (case notion_size n of Inl e \<Rightarrow> Inl e
   | Inr k \<Rightarrow> Inr ((''page_size'', [itoa k])
       # (if trim_space cursor = [] then [] else [(''start_cursor'', [trim_space cursor])])))"

definition object_filter :: "string \<Rightarrow> val" where
  "object_filter v = VObj [(''property'', VStr ''object''), (''value'', VStr v)]"

datatype notion_input = NotionList string string int string
  | NotionSearch string string string int | NotionCollections string string int
  | NotionCreate string notion_create | NotionUpdate string notion_update | NotionTest

fun notion_call :: "connection \<Rightarrow> notion_input \<Rightarrow> rest_call res" where
  "notion_call c NotionTest = Inr (get_call ''/users/me'' [])"
| "notion_call c (NotionList locale cursor n since) =
     (if trim_space locale \<noteq> [] then Inl (notion_unsupported ''locale'')
      else (case pagination_body cursor n of Inl e \<Rightarrow> Inl e
      | Inr m \<Rightarrow>
         (let p = ''/data_sources/'' @ path_escape (notion_source c) @ ''/query''; s = trim_space since in
          if s = [] then Inr (query_call p (marshal (VObj m)))
          else if parse_rfc3339 s = None
          then Inl (notion_error ''updated_since_invalid'' ''updated_since must be RFC3339'')
          else Inr (query_call p (marshal (VObj (put ''filter'' (VObj [(''timestamp'', VStr ''last_edited_time''),
            (''last_edited_time'', VObj [(''on_or_after'', VStr s)])]) m)))))))"
| "notion_call c (NotionSearch query locale cursor n) =
     (if trim_space locale \<noteq> [] then Inl (notion_unsupported ''locale'')
      else if trim_space query = [] then Inl (notion_error ''query_required'' ''search query is required'')
      else (case pagination_body cursor n of Inl e \<Rightarrow> Inl e
      | Inr m \<Rightarrow> Inr (query_call ''/search'' (marshal (VObj (put ''filter'' (object_filter ''page'')
          (put ''query'' (VStr (trim_space query)) m)))))))"
| "notion_call c (NotionCollections locale cursor n) =
     (if trim_space locale \<noteq> [] then Inl (notion_unsupported ''locale'')
      else (case pagination_body cursor n of Inl e \<Rightarrow> Inl e
      | Inr m \<Rightarrow> Inr (query_call ''/search'' (marshal (VObj (put ''filter'' (object_filter ''data_source'') m))))))"
| "notion_call c (NotionCreate target b) =
     (if trim_space target = [] then Inl (notion_error ''collection_id_required'' ''target data source ID is required'')
      else (case notion_create_body (trim_space target) b of Inl e \<Rightarrow> Inl e
      | Inr m \<Rightarrow> Inr (write_call ''POST'' ''/pages'' [] (marshal (VObj m)))))"
| "notion_call c (NotionUpdate i b) =
     (if trim_space i = [] then Inl (notion_error ''article_id_required'' ''article ID is required'')
      else (case notion_update_body b of Inl e \<Rightarrow> Inl e
      | Inr m \<Rightarrow> Inr (write_call ''PATCH'' (''/pages/'' @ path_escape (trim_space i)) [] (marshal (VObj m)))))"

definition notion_run where
  "notion_run c ss i = rest_run (notion_plan c ss) notion_read (notion_call c i)"

definition notion_fetch :: "connection \<Rightarrow> secrets \<Rightarrow> rest_call \<Rightarrow> http \<Rightarrow> http_request list \<Rightarrow> http_request list \<times> typed" where
  "notion_fetch c ss k = run_plan (notion_plan c ss k) (notion_read False)"

text \<open>The result \<open>None\<close> is the panic.\<close>

definition notion_article ::
  "connection \<Rightarrow> secrets \<Rightarrow> string \<Rightarrow> string \<Rightarrow> string \<Rightarrow> int \<Rightarrow> http \<Rightarrow> http_request list
    \<Rightarrow> http_request list \<times> typed option" where
  "notion_article c ss i locale cursor n T sent =
     (let p = path_escape (trim_space i) in
      if trim_space locale \<noteq> [] then (sent, Some (failed (notion_unsupported ''locale'')))
      else if trim_space i = [] then (sent, Some (failed (notion_error ''article_id_required'' ''article ID is required'')))
      else (case notion_fetch c ss (get_call (''/pages/'' @ p) []) T sent of
        (sent1, page, ref, Some e) \<Rightarrow> (sent1, Some (page, ref, Some e))
      | (sent1, page, ref, None) \<Rightarrow> (case pagination_query cursor n of
          Inl e \<Rightarrow> (sent1, Some (failed e))
        | Inr q \<Rightarrow> (case notion_fetch c ss (get_call (''/blocks/'' @ p @ ''/children'') q) T sent1 of
            (sent2, parts, ref2, Some e) \<Rightarrow> (sent2, Some (page, ref, Some e))
          | (sent2, parts, ref2, None) \<Rightarrow>
              (sent2, if page = VNil then None
                else Some (VObj (put ''content_blocks'' parts (as_obj page)), ref, None))))))"

definition notion_test_connection where
  "notion_test_connection c ss T sent = help_details ''user'' (notion_run c ss NotionTest T sent)"

subsection \<open>Contracts\<close>

lemma notion_error_permanent [simp]: "is_permanent (notion_error code msg)" "is_permanent (notion_unsupported f)"
  by (simp_all add: notion_error_def notion_unsupported_def)

lemma notion_validate_ok: "notion_validate c = None \<Longrightarrow> secure_endpoint (notion_base c)"
  by (simp add: notion_validate_def split: if_splits)

interpretation notion_calls: rest_provider notion_plan notion_read notion_base
proof (unfold_locales, goal_cases)
  case (1 c ss k x) then show ?case unfolding notion_plan_def Let_def
    by (rule rest_plan_permanent) (auto simp: notion_validate_def parsed_target_def split: if_splits option.splits)
next
  case (2 c ss k q) from 2(1) show ?case unfolding notion_plan_def Let_def
    by (rule plan_stays_parsed) (simp_all add: notion_validate_ok 2)
next
  case (3 a e) then show ?case unfolding notion_read_def by (rule late_read_cautious)
next
  case (4 m) show ?case unfolding notion_read_def by (rule late_read_lost)
qed

lemma notion_create_permanent: "notion_create_body s b = Inl e \<Longrightarrow> is_permanent e"
  by (auto simp: notion_create_body_def create_member_def Let_def simp del: raw_members.simps
      split: option.splits sum.splits if_splits val.splits dest!: raw_members_permanent)

lemma notion_update_permanent: "notion_update_body b = Inl e \<Longrightarrow> is_permanent e"
  by (auto simp: notion_update_body_def update_member_def Let_def simp del: raw_members.simps
      split: option.splits sum.splits if_splits dest!: raw_members_permanent)

lemma pagination_permanent: "pagination_body cursor n = Inl e \<Longrightarrow> is_permanent e"
  by (auto simp: pagination_body_def notion_size_def split: option.splits sum.splits)

lemma notion_call_permanent: "notion_call c i = Inl e \<Longrightarrow> is_permanent e"
  by (cases i) (auto simp: Let_def dest: pagination_permanent notion_create_permanent notion_update_permanent
      split: sum.splits if_splits)

lemma notion_call_path: "notion_call c i = Inr k \<Longrightarrow> url_tail (rc_path k)"
  by (cases i) (auto simp: Let_def split: sum.splits if_splits)

definition notion_writes :: "notion_input \<Rightarrow> bool" where
  "notion_writes i \<longleftrightarrow> (case i of NotionCreate _ _ \<Rightarrow> True | NotionUpdate _ _ \<Rightarrow> True | _ \<Rightarrow> False)"

lemma notion_call_write: "notion_call c i = Inr k \<Longrightarrow> rc_write k = notion_writes i"
  by (cases i) (auto simp: notion_writes_def Let_def split: sum.splits if_splits)

lemma notion_cautious:
  "notion_writes i \<Longrightarrow> cautious_run T sent (notion_run c ss i T sent) (typed_err (snd (notion_run c ss i T sent)))"
  unfolding notion_run_def by (rule notion_calls.run_cautious) (auto dest: notion_call_permanent notion_call_write)

lemma notion_stays:
  "fst (notion_run c ss i T sent) = sent
    \<or> (\<exists>q. fst (notion_run c ss i T sent) = sent @ [q] \<and> stays_at (notion_base c) q)"
  unfolding notion_run_def by (rule notion_calls.run_stays) (rule notion_call_path)

text \<open>The panic: both requests succeed, and the answer for the page is the value \<open>null\<close>.\<close>

lemma notion_article_panics:
  "snd (notion_article c ss i locale cursor n T sent) = None \<longleftrightarrow>
     trim_space locale = [] \<and> trim_space i \<noteq> [] \<and>
     (\<exists>sent1 ref q sent2 parts ref2.
       notion_fetch c ss (get_call (''/pages/'' @ path_escape (trim_space i)) []) T sent = (sent1, VNil, ref, None) \<and>
       pagination_query cursor n = Inr q \<and>
       notion_fetch c ss (get_call (''/blocks/'' @ path_escape (trim_space i) @ ''/children'') q) T sent1
         = (sent2, parts, ref2, None))"
  by (auto simp: notion_article_def Let_def split: prod.splits option.splits sum.splits if_splits)

section \<open>Confluence\<close>

text \<open>The Confluence provider (\<^verbatim>\<open>providers/help_center/confluence\<close>).\<close>

definition confluence_error :: "string \<Rightarrow> string \<Rightarrow> gerr" where
  "confluence_error code msg = Permanent (''confluence.'' @ code) (Msg msg)"

definition confluence_base :: "connection \<Rightarrow> string" where
  "confluence_base c = trim_right_char (CHR ''/'') (map_string (config c) ''base_url'')"

definition confluence_email :: "connection \<Rightarrow> string" where
  "confluence_email c = map_string (config c) ''email''"

definition confluence_space :: "connection \<Rightarrow> string" where
  "confluence_space c = map_string (config c) ''space_id''"

definition confluence_key :: "connection \<Rightarrow> string" where
  "confluence_key c = map_string (config c) ''space_key''"

definition confluence_validate :: "connection \<Rightarrow> gerr option" where
  "confluence_validate c =
     (if \<not> secure_endpoint (confluence_base c)
      then Some (confluence_error ''endpoint_invalid'' ''HTTPS or loopback HTTP endpoint is required'')
      else if confluence_email c = []
      then Some (confluence_error ''email_required'' ''Atlassian account email is required'')
      else if confluence_space c = []
      then Some (confluence_error ''space_id_required'' ''default Confluence space ID is required'')
      else None)"

definition confluence_plan :: "connection \<Rightarrow> secrets \<Rightarrow> rest_call \<Rightarrow> typed + http_request" where
  "confluence_plan c ss k = (let token = trim_space (secret ss ''api_token'');
       invalid = Permanent ''confluence.request_invalid'' DecodeErr in
     rest_plan (confluence_validate c) (token, confluence_error ''api_token_required'' ''resolved API token is required'')
       (parsed_target (confluence_base c) invalid (rc_path k) (merge_query (rc_query k))) (rc_body k, invalid)
       (\<lambda>u raw. authorized (''Basic '' @ base64_std (confluence_email c @ '':'' @ token))
          (plain_request (rc_method k) u (json_headers (rc_body k)) raw)))"

definition confluence_code :: "obj \<Rightarrow> int \<Rightarrow> string" where
  "confluence_code m n = help_code ''confluence'' (map_string m ''key'') n"

definition confluence_ref :: "obj \<Rightarrow> string option" where
  "confluence_ref m = (let i = map_string m ''id'' in if i = [] then None else Some (''confluence:page:'' @ i))"

definition confluence_read :: "bool \<Rightarrow> string + http_response \<Rightarrow> typed" where
  "confluence_read = late_read blank_or_map ''confluence'' confluence_code confluence_ref"

subsection \<open>Pages\<close>

record page_body =
  pb_representation :: string
  pb_value :: string

record confluence_create =
  cc_status :: string
  cc_title :: string
  cc_parent :: string
  cc_body :: "page_body option"
  cc_subtype :: string

record confluence_update =
  cu_id :: string
  cu_status :: string
  cu_title :: string
  cu_space :: string
  cu_parent :: string
  cu_owner :: string
  cu_body :: page_body
  cu_number :: int
  cu_message :: string
  cu_minor :: "bool option"

definition confluence_body :: "page_body \<Rightarrow> gerr option" where
  "confluence_body b =
     (if pb_representation b \<notin> set [''storage'', ''atlas_doc_format'']
      then Some (confluence_error ''body_representation_invalid'' ''body representation must be storage or atlas_doc_format'')
      else if trim_space (pb_value b) = []
      then Some (confluence_error ''body_value_required'' ''page body value is required'') else None)"

definition confluence_create_check :: "confluence_create \<Rightarrow> gerr option" where
  "confluence_create_check b =
     (let status = (if trim_space (cc_status b) = [] then ''current'' else trim_space (cc_status b)) in
      if status \<notin> set [''current'', ''draft'']
      then Some (confluence_error ''status_invalid'' ''page status must be current or draft'')
      else if status = ''current'' \<and> trim_space (cc_title b) = []
      then Some (confluence_error ''title_required'' ''published page title is required'')
      else (case cc_body b of None \<Rightarrow> None | Some x \<Rightarrow> confluence_body x))"

definition confluence_update_check :: "string \<Rightarrow> confluence_update \<Rightarrow> gerr option" where
  "confluence_update_check i b =
     (if trim_space (cu_id b) \<noteq> i then Some (confluence_error ''id_mismatch'' ''payload id must match article_id'')
      else if cu_status b \<notin> set [''current'', ''draft'']
      then Some (confluence_error ''status_invalid'' ''page status must be current or draft'')
      else if trim_space (cu_title b) = [] then Some (confluence_error ''title_required'' ''page title is required'')
      else if cu_number b < 1
      then Some (confluence_error ''version_invalid'' ''next page version number must be positive'')
      else confluence_body (cu_body b))"

definition page_text :: "page_body \<Rightarrow> string option" where
  "page_text b = object_text [(''representation'', marshal (VStr (pb_representation b))), (''value'', marshal (VStr (pb_value b)))]"

definition confluence_create_text :: "string \<Rightarrow> confluence_create \<Rightarrow> string option" where
  "confluence_create_text space b = object_text ([(''spaceId'', marshal (VStr space))] @ text_member ''status'' (cc_status b)
     @ [(''title'', marshal (VStr (cc_title b)))] @ text_member ''parentId'' (cc_parent b)
     @ (case cc_body b of None \<Rightarrow> [] | Some x \<Rightarrow> [(''body'', page_text x)]) @ text_member ''subtype'' (cc_subtype b))"

definition confluence_update_text :: "confluence_update \<Rightarrow> string option" where
  "confluence_update_text b = object_text ([(''id'', marshal (VStr (cu_id b))), (''status'', marshal (VStr (cu_status b))),
       (''title'', marshal (VStr (cu_title b)))]
     @ text_member ''spaceId'' (cu_space b) @ text_member ''parentId'' (cu_parent b) @ text_member ''ownerId'' (cu_owner b)
     @ [(''body'', page_text (cu_body b)),
        (''version'', object_text ([(''number'', marshal (VInt (cu_number b)))] @ text_member ''message'' (cu_message b)
          @ opt_member ''minorEdit'' (map_option VBool (cu_minor b))))])"

subsection \<open>Queries\<close>

definition confluence_pages :: "string \<Rightarrow> int \<Rightarrow> int \<Rightarrow> url_values res" where
  "confluence_pages cursor n maximum = (case page_size 50 maximum n of
     None \<Rightarrow> Inl (confluence_error ''page_size_invalid'' (''page size must be between 1 and '' @ itoa maximum))
   | Some k \<Rightarrow> Inr ((''limit'', [itoa k]) # (if trim_space cursor = [] then [] else [(''cursor'', [trim_space cursor])])))"

definition cql_date :: "string \<Rightarrow> string res" where
  "cql_date s = (case parse_day s of
     Some (y, m, d) \<Rightarrow> Inr (pad_int 4 y @ ''-'' @ pad_int 2 m @ ''-'' @ pad_int 2 d)
   | None \<Rightarrow> (case parse_rfc3339 s of
       None \<Rightarrow> Inl (confluence_error ''updated_since_invalid'' ''updated_since must be YYYY-MM-DD or RFC3339'')
     | Some t \<Rightarrow> (let x = format_local '' '' 0 t in Inr (take (length x - 3) x))))"

definition escape_cql :: "string \<Rightarrow> string" where
  "escape_cql s = replace_all [CHR 0x22] [CHR 0x5C, CHR 0x22] (replace_all [CHR 0x5C] [CHR 0x5C, CHR 0x5C] s)"

definition cql_quoted :: "string \<Rightarrow> string" where
  "cql_quoted s = CHR 0x22 # escape_cql s @ [CHR 0x22]"

definition cql_space :: "connection \<Rightarrow> string" where
  "cql_space c = (if confluence_key c = [] then [] else '' AND space='' @ cql_quoted (confluence_key c))"

datatype confluence_input = ConfluenceList string int string | ConfluenceGet string
  | ConfluenceSearch string string int | ConfluenceCollections string int
  | ConfluenceCreate string confluence_create | ConfluenceUpdate string confluence_update | ConfluenceTest

fun confluence_call :: "connection \<Rightarrow> confluence_input \<Rightarrow> rest_call res" where
  "confluence_call c ConfluenceTest = Inr (get_call ''/wiki/api/v2/spaces'' [(''limit'', [''1''])])"
| "confluence_call c (ConfluenceList cursor n since) =
     (case confluence_pages cursor n 250 of Inl e \<Rightarrow> Inl e
      | Inr q \<Rightarrow>
          if trim_space since = []
          then Inr (get_call (''/wiki/api/v2/spaces/'' @ path_escape (confluence_space c) @ ''/pages'')
            (q @ [(''status'', [''current''])]))
          else (case cql_date (trim_space since) of Inl e \<Rightarrow> Inl e
          | Inr d \<Rightarrow> (case confluence_pages cursor n 100 of Inl e \<Rightarrow> Inl e
            | Inr q' \<Rightarrow> Inr (get_call ''/wiki/rest/api/search''
                (q' @ [(''cql'', [''type=page AND lastmodified >= '' @ cql_quoted d @ cql_space c])])))))"
| "confluence_call c (ConfluenceGet i) =
     (if trim_space i = [] then Inl (confluence_error ''article_id_required'' ''page ID is required'')
      else Inr (get_call (''/wiki/api/v2/pages/'' @ path_escape (trim_space i)) [(''body-format'', [''storage''])]))"
| "confluence_call c (ConfluenceSearch query cursor n) =
     (if trim_space query = [] then Inl (confluence_error ''query_required'' ''search query is required'')
      else (case confluence_pages cursor n 100 of Inl e \<Rightarrow> Inl e
      | Inr q \<Rightarrow> Inr (get_call ''/wiki/rest/api/search''
          (q @ [(''cql'', [''type=page AND text ~ '' @ cql_quoted (trim_space query) @ cql_space c])]))))"
| "confluence_call c (ConfluenceCollections cursor n) =
     (case confluence_pages cursor n 250 of Inl e \<Rightarrow> Inl e | Inr q \<Rightarrow> Inr (get_call ''/wiki/api/v2/spaces'' q))"
| "confluence_call c (ConfluenceCreate space b) =
     (if trim_space space = [] then Inl (confluence_error ''collection_id_required'' ''target space ID is required'')
      else (case confluence_create_check b of Some e \<Rightarrow> Inl e
      | None \<Rightarrow> Inr (write_call ''POST'' ''/wiki/api/v2/pages'' [] (confluence_create_text (trim_space space) b))))"
| "confluence_call c (ConfluenceUpdate i b) =
     (if trim_space i = [] then Inl (confluence_error ''article_id_required'' ''page ID is required'')
      else (case confluence_update_check (trim_space i) b of Some e \<Rightarrow> Inl e
      | None \<Rightarrow> Inr (write_call ''PUT'' (''/wiki/api/v2/pages/'' @ path_escape (trim_space i)) [] (confluence_update_text b))))"

definition confluence_run where
  "confluence_run c ss i = rest_run (confluence_plan c ss) confluence_read (confluence_call c i)"

definition confluence_test_connection where
  "confluence_test_connection c ss T sent = help_details ''spaces'' (confluence_run c ss ConfluenceTest T sent)"

subsection \<open>Contracts\<close>

lemma confluence_error_permanent [simp]: "is_permanent (confluence_error code msg)"
  by (simp add: confluence_error_def)

lemma confluence_validate_ok: "confluence_validate c = None \<Longrightarrow> secure_endpoint (confluence_base c)"
  by (simp add: confluence_validate_def split: if_splits)

interpretation confluence_calls: rest_provider confluence_plan confluence_read confluence_base
proof (unfold_locales, goal_cases)
  case (1 c ss k x) then show ?case unfolding confluence_plan_def Let_def
    by (rule rest_plan_permanent) (auto simp: confluence_validate_def parsed_target_def split: if_splits option.splits)
next
  case (2 c ss k q) from 2(1) show ?case unfolding confluence_plan_def Let_def
    by (rule plan_stays_parsed) (simp_all add: confluence_validate_ok 2)
next
  case (3 a e) then show ?case unfolding confluence_read_def by (rule late_read_cautious)
next
  case (4 m) show ?case unfolding confluence_read_def by (rule late_read_lost)
qed

lemma confluence_body_permanent: "confluence_body b = Some e \<Longrightarrow> is_permanent e"
  by (auto simp: confluence_body_def split: if_splits)

lemma confluence_checks_permanent:
  "confluence_create_check x = Some e \<Longrightarrow> is_permanent e" "confluence_update_check i y = Some e \<Longrightarrow> is_permanent e"
  by (auto simp: confluence_create_check_def confluence_update_check_def Let_def dest: confluence_body_permanent
      split: if_splits option.splits)

lemma confluence_queries_permanent:
  "confluence_pages cursor n k = Inl e \<Longrightarrow> is_permanent e" "cql_date s = Inl e \<Longrightarrow> is_permanent e"
  by (auto simp: confluence_pages_def cql_date_def Let_def split: option.splits)

lemma confluence_call_permanent: "confluence_call c i = Inl e \<Longrightarrow> is_permanent e"
  by (cases i) (auto dest: confluence_queries_permanent confluence_checks_permanent
      split: sum.splits if_splits option.splits)

lemma confluence_call_path: "confluence_call c i = Inr k \<Longrightarrow> url_tail (rc_path k)"
  by (cases i) (auto split: sum.splits if_splits option.splits)

definition confluence_writes :: "confluence_input \<Rightarrow> bool" where
  "confluence_writes i \<longleftrightarrow> (case i of ConfluenceCreate _ _ \<Rightarrow> True | ConfluenceUpdate _ _ \<Rightarrow> True | _ \<Rightarrow> False)"

lemma confluence_call_write: "confluence_call c i = Inr k \<Longrightarrow> rc_write k = confluence_writes i"
  by (cases i) (auto simp: confluence_writes_def split: sum.splits if_splits option.splits)

lemma confluence_cautious:
  "confluence_writes i \<Longrightarrow> cautious_run T sent (confluence_run c ss i T sent) (typed_err (snd (confluence_run c ss i T sent)))"
  unfolding confluence_run_def by (rule confluence_calls.run_cautious) (auto dest: confluence_call_permanent confluence_call_write)

lemma confluence_stays:
  "fst (confluence_run c ss i T sent) = sent
    \<or> (\<exists>q. fst (confluence_run c ss i T sent) = sent @ [q] \<and> stays_at (confluence_base c) q)"
  unfolding confluence_run_def by (rule confluence_calls.run_stays) (rule confluence_call_path)

end
