(* ===== verification/Delivery.thy ===== *)
theory Delivery
  imports RestCall
begin

text \<open>
  What the delivery operations providers (\<^verbatim>\<open>providers/delivery_operations\<close>) share in the same
  wording: the choice between two maps of an input, the checks of official addresses, error
  codes made of provider codes, and record numbers.
\<close>

section \<open>Inputs\<close>

text \<open>A map of an input may be absent; the first one that is present is taken.\<close>

definition chosen :: "obj option \<Rightarrow> obj option \<Rightarrow> obj option" where
  "chosen p s = (case p of None \<Rightarrow> s | Some m \<Rightarrow> Some m)"

definition members :: "obj option \<Rightarrow> obj" where
  "members m = (case m of None \<Rightarrow> [] | Some x \<Rightarrow> x)"

definition first_trimmed :: "string list \<Rightarrow> string" where
  "first_trimmed ss = first_text (map trim_space ss)"

fun first_positive :: "int list \<Rightarrow> int" where
  "first_positive [] = 0"
| "first_positive (n # ns) = (if n > 0 then n else first_positive ns)"

definition set_query :: "string \<Rightarrow> string \<Rightarrow> url_values \<Rightarrow> url_values" where
  "set_query k s q = (if trim_space s = [] then q else put k [trim_space s] q)"

text \<open>
  What \<^verbatim>\<open>strconv.ParseInt\<close> returns for a positive number when nobody looks at its error: a number
  out of range gives the largest one, and so does one that left the range of 64 bits before a
  byte that is no digit came. Negative numbers count as zero here.
\<close>

definition lenient_int :: "string \<Rightarrow> int" where
  "lenient_int s = (case s of [] \<Rightarrow> 0 | c # cs \<Rightarrow>
     if c = CHR ''-'' then 0
     else let ds = (if c = CHR ''+'' then cs else c # cs) in
       if list_all is_digit ds then min (int (nat_of_digits 0 ds)) max_int64
       else if int (nat_of_digits 0 (takeWhile is_digit ds)) > 18446744073709551615 then max_int64 else 0)"

definition record_id :: "string \<Rightarrow> int" where
  "record_id s = lenient_int (trim_space s)"

definition timeout_120 :: "connection \<Rightarrow> bool" where
  "timeout_120 c = (let t = int_value (at (config c) ''timeout_seconds'') 30 in 1 \<le> t \<and> t \<le> 120)"

text \<open>\<open>nullable\<close>: a value whose text is blank becomes nil.\<close>

definition nullable :: "val \<Rightarrow> val" where
  "nullable v = (if v = VNil \<or> trim_space (sprint v) = [] then VNil else v)"

lemma first_positive_nonneg: "0 \<le> first_positive ns"
  by (induction ns) simp_all

lemma first_positive_pos: "n \<in> set ns \<Longrightarrow> 0 < n \<Longrightarrow> 0 < first_positive ns"
  by (induction ns) auto

lemma record_id_bounds: "0 \<le> record_id s \<and> record_id s \<le> max_int64"
  by (auto simp: record_id_def lenient_int_def Let_def split: list.splits)

lemma record_id_parses:
  "parse_int64 (trim_space s) = (n, True) \<Longrightarrow> record_id s = max 0 n"
  by (auto simp: record_id_def lenient_int_def parse_digits_def Let_def split: list.splits if_splits)

section \<open>Addresses\<close>

text \<open>An official host and path over HTTPS, or any path of this machine.\<close>

definition official_url :: "(string \<Rightarrow> bool) \<Rightarrow> string \<Rightarrow> url \<Rightarrow> bool" where
  "official_url official p u \<longleftrightarrow> host u \<noteq> [] \<and> user u = None \<and>
     (scheme u = ''http'' \<and> is_loopback (hostname u) \<or>
      scheme u = ''https'' \<and> official (hostname u) \<and> trim_right_char (CHR ''/'') (escaped_path u) = p)"

definition official_endpoint :: "(url \<Rightarrow> bool) \<Rightarrow> string \<Rightarrow> bool" where
  "official_endpoint ok s = (case url_parse s of None \<Rightarrow> False | Some u \<Rightarrow> ok u)"

definition plain_url :: "url \<Rightarrow> bool" where
  "plain_url u \<longleftrightarrow> raw_query u = [] \<and> fragment u = []"

text \<open>A service under a fixed path of the customer's own host.\<close>

definition service_url :: "string \<Rightarrow> url \<Rightarrow> bool" where
  "service_url p u \<longleftrightarrow> secure_url u \<and> plain_url u \<and> trim_right_char (CHR ''/'') (escaped_path u) = p"

lemma official_secure: "official_url f p u \<Longrightarrow> secure_url u"
  by (auto simp: official_url_def secure_url_def)

lemma official_endpoint_secure:
  "official_endpoint ok s \<Longrightarrow> (\<And>u. ok u \<Longrightarrow> secure_url u) \<Longrightarrow> secure_endpoint s"
  by (auto simp: official_endpoint_def secure_endpoint_def split: option.splits)

section \<open>Error codes\<close>

definition code_rune :: "nat \<Rightarrow> char" where
  "code_rune r = (if 97 \<le> r \<and> r \<le> 122 \<or> 48 \<le> r \<and> r \<le> 57 \<or> r = 95 \<or> r = 45 then char_of r else CHR ''_'')"

definition sanitize_code :: "string \<Rightarrow> string" where
  "sanitize_code s = map code_rune (runes (to_lower (trim_space s)))"

lemma sanitize_code_chars:
  "c \<in> set (sanitize_code s) \<Longrightarrow>
    of_char c \<in> ({97..122} \<union> {48..57} \<union> {95, 45} :: nat set)"
  by (auto simp: sanitize_code_def code_rune_def split: if_splits)

text \<open>A member that is a text or a number, as text.\<close>

fun number_string :: "val \<Rightarrow> string" where
  "number_string (VStr s) = trim_space s"
| "number_string (VFloat f) = itoa (f64_trunc f)"
| "number_string (VNum s) = s"
| "number_string (VInt i) = itoa i"
| "number_string _ = []"

end
