(* ===== verification/IssueTrackers.thy ===== *)
theory IssueTrackers
  imports Delivery Base64
begin

text \<open>Trackers of tasks and issues over REST: Asana and Jira.\<close>

section \<open>Asana\<close>

text \<open>The Asana provider (\<^verbatim>\<open>providers/delivery_operations/asana\<close>).\<close>

definition asana_error :: "string \<Rightarrow> string \<Rightarrow> gerr" where
  "asana_error code msg = Permanent (''asana.'' @ code) (Msg msg)"

definition asana_config :: "connection \<Rightarrow> string \<Rightarrow> string \<Rightarrow> string" where
  "asana_config c k d = (if clean_at (config c) k \<noteq> [] then clean_at (config c) k else d)"

definition asana_base :: "connection \<Rightarrow> string" where
  "asana_base c = trim_right_char (CHR ''/'') (asana_config c ''api_base_url'' ''https://app.asana.com/api/1.0'')"

text \<open>This \<open>intValue\<close> reads any value as decimal text; what is not a number counts as zero.\<close>

definition asana_int :: "val \<Rightarrow> int \<Rightarrow> int" where
  "asana_int v d = (if v = VNil then d else case atoi (trim_space (sprint v)) of None \<Rightarrow> 0 | Some n \<Rightarrow> n)"

definition asana_validate :: "connection \<Rightarrow> gerr option" where
  "asana_validate c = (case url_parse (asana_base c) of
     None \<Rightarrow> Some (asana_error ''endpoint_invalid'' ''valid Asana API endpoint is required'')
   | Some u \<Rightarrow>
      if host u = [] \<or> user u \<noteq> None
      then Some (asana_error ''endpoint_invalid'' ''valid Asana API endpoint is required'')
      else if \<not> official_url (\<lambda>h. equal_fold h ''app.asana.com'') ''/api/1.0'' u
      then Some (asana_error ''endpoint_invalid'' ''official Asana API v1 endpoint or loopback HTTP is required'')
      else let t = asana_int (at (config c) ''timeout_seconds'') 30 in
        if t < 1 \<or> t > 120
        then Some (asana_error ''timeout_invalid'' ''timeout_seconds must be between 1 and 120'') else None)"

definition asana_plan :: "connection \<Rightarrow> secrets \<Rightarrow> rest_call \<Rightarrow> typed + http_request" where
  "asana_plan c ss k = (let token = trim_space (secret ss ''access_token'') in
     rest_plan (asana_validate c) (token, asana_error ''access_token_required'' ''resolved Asana access token is required'')
       (parsed_target (asana_base c) (asana_error ''request_invalid'' ''Asana request URL is invalid'') (rc_path k)
         (\<lambda>u. u\<lparr>raw_query := encode_values (rc_query k)\<rparr>))
       (rc_body k, asana_error ''request_invalid'' ''Asana request body is invalid'')
       (\<lambda>u raw. authorized (''Bearer '' @ token) (plain_request (rc_method k) u (json_headers (rc_body k)) raw)))"

definition asana_code :: "obj \<Rightarrow> int \<Rightarrow> string" where
  "asana_code m n =
     (let phrase = (case as_arr (at m ''errors'') of x # _ \<Rightarrow> clean_at (as_obj x) ''phrase'' | [] \<Rightarrow> []) in
      ''asana.'' @ (if phrase \<noteq> [] then sanitize_code phrase else ''http_'' @ itoa n))"

definition asana_ref :: "val \<Rightarrow> string" where
  "asana_ref v = (let gid = clean_at (as_obj (at (as_obj v) ''data'')) ''gid'' in
     if gid = [] then [] else ''asana:'' @ gid)"

definition asana_read :: "bool \<Rightarrow> string + http_response \<Rightarrow> typed" where
  "asana_read = status_read ''asana'' ''Asana returned HTTP '' ''Asana response is invalid JSON''
     asana_code (accepted_as asana_ref)"

subsection \<open>Operations\<close>

record asana_projects =
  ap_workspace :: string
  ap_workspace_gid :: string
  ap_team :: string
  ap_archived :: "bool option"
  ap_limit :: int
  ap_size :: int
  ap_offset :: string
  ap_cursor :: string
  ap_fields :: string

record asana_items =
  ai_project :: string
  ai_project_gid :: string
  ai_since :: string
  ai_limit :: int
  ai_size :: int
  ai_offset :: string
  ai_cursor :: string
  ai_fields :: string

definition asana_paging :: "int \<Rightarrow> int \<Rightarrow> string \<Rightarrow> string \<Rightarrow> url_values \<Rightarrow> url_values" where
  "asana_paging n per offset cursor q = (let k = (if n \<le> 0 then per else n) in
     set_query ''offset'' (first_trimmed [offset, cursor]) (if k > 0 then put ''limit'' [itoa k] q else q))"

definition asana_data :: "val \<Rightarrow> string option" where
  "asana_data v = marshal (VObj [(''data'', v)])"

text \<open>
  A task gets the default project, or else the default workspace, unless it names a place of
  its own.
\<close>

definition asana_place :: "connection \<Rightarrow> obj \<Rightarrow> obj res" where
  "asana_place c m =
     (if at m ''workspace'' \<noteq> VNil \<or> at m ''projects'' \<noteq> VNil \<or> at m ''parent'' \<noteq> VNil then Inr m
      else if asana_config c ''project_gid'' [] \<noteq> []
      then Inr (put ''projects'' (VStrs [asana_config c ''project_gid'' []]) m)
      else if asana_config c ''workspace_gid'' [] \<noteq> []
      then Inr (put ''workspace'' (VStr (asana_config c ''workspace_gid'' [])) m)
      else Inl (asana_error ''task_scope_required'' ''task workspace, project, or parent is required''))"

datatype asana_input = AsanaProjects asana_projects | AsanaItems asana_items
  | AsanaCreate "obj option" "obj option" | AsanaUpdate string "obj option" "obj option"
  | AsanaTransition string string | AsanaTest

fun asana_call :: "connection \<Rightarrow> asana_input \<Rightarrow> rest_call res" where
  "asana_call c (AsanaProjects i) =
     (let workspace = first_trimmed [ap_workspace i, ap_workspace_gid i, asana_config c ''workspace_gid'' []] in
      if workspace = [] \<and> trim_space (ap_team i) = []
      then Inl (asana_error ''project_scope_required'' ''workspace or team is required'')
      else Inr (get_call ''/projects''
        (asana_paging (ap_limit i) (ap_size i) (ap_offset i) (ap_cursor i)
          (set_query ''opt_fields'' (ap_fields i)
            ((\<lambda>q. case ap_archived i of None \<Rightarrow> q | Some b \<Rightarrow> put ''archived'' [if b then ''true'' else ''false''] q)
              (set_query ''team'' (ap_team i) (set_query ''workspace'' workspace [])))))))"
| "asana_call c (AsanaItems i) =
     (let project = first_trimmed [ai_project i, ai_project_gid i, asana_config c ''project_gid'' []] in
      if project = [] then Inl (asana_error ''project_required'' ''project is required'')
      else Inr (get_call (''/projects/'' @ path_escape project @ ''/tasks'')
        (asana_paging (ai_limit i) (ai_size i) (ai_offset i) (ai_cursor i)
          (set_query ''opt_fields'' (ai_fields i) (set_query ''completed_since'' (ai_since i) [])))))"
| "asana_call c (AsanaCreate p s) =
     (let m = members (chosen p s) in
      if clean_at m ''name'' = [] then Inl (asana_error ''input_required'' ''task name is required'')
      else (case asana_place c m of Inl e \<Rightarrow> Inl e
        | Inr m' \<Rightarrow> Inr (write_call ''POST'' ''/tasks'' [] (asana_data (VObj m')))))"
| "asana_call c (AsanaUpdate key p s) =
     (let m = members (chosen p s) in
      if trim_space key = [] \<or> m = []
      then Inl (asana_error ''update_fields_required'' ''item_key and update fields are required'')
      else Inr (write_call ''PUT'' (''/tasks/'' @ path_escape key) [] (asana_data (VObj m))))"
| "asana_call c (AsanaTransition key t) =
     (let transition = to_lower (trim_space t) in
      if trim_space key = [] \<or> transition \<notin> set [''completed'', ''incomplete'']
      then Inl (asana_error ''transition_invalid'' ''item_key and completed or incomplete transition are required'')
      else Inr (write_call ''PUT'' (''/tasks/'' @ path_escape key) []
        (asana_data (VObj [(''completed'', VBool (transition = ''completed''))]))))"
| "asana_call c AsanaTest = Inr (get_call ''/users/me'' [])"

definition asana_run where
  "asana_run c ss i = rest_run (asana_plan c ss) asana_read (asana_call c i)"

definition asana_test_connection where
  "asana_test_connection c ss T sent = test_details (asana_run c ss AsanaTest T sent)"

subsection \<open>Contracts\<close>

lemma asana_error_permanent [simp]: "is_permanent (asana_error code msg)"
  by (simp add: asana_error_def)

lemma asana_validate_ok: "asana_validate c = None \<Longrightarrow> secure_endpoint (asana_base c)"
  by (auto simp: asana_validate_def secure_endpoint_def Let_def official_secure split: option.splits if_splits)

interpretation asana_calls: rest_provider asana_plan asana_read asana_base
proof (unfold_locales, goal_cases)
  case (1 c ss k x) then show ?case unfolding asana_plan_def Let_def
    by (rule rest_plan_permanent)
      (auto simp: asana_validate_def parsed_target_def Let_def split: if_splits option.splits)
next
  case (2 c ss k q) from 2(1) show ?case unfolding asana_plan_def Let_def
    by (rule plan_stays_parsed) (simp_all add: asana_validate_ok 2)
next
  case (3 a e) then show ?case unfolding asana_read_def by (rule status_read_cautious) simp
next
  case (4 m) show ?case unfolding asana_read_def by (rule status_read_lost)
qed

lemma asana_place_permanent: "asana_place c m = Inl e \<Longrightarrow> is_permanent e"
  by (auto simp: asana_place_def split: if_splits)

lemma asana_call_permanent: "asana_call c i = Inl e \<Longrightarrow> is_permanent e"
  by (cases i) (auto simp: Let_def dest: asana_place_permanent split: sum.splits if_splits)

lemma asana_call_path: "asana_call c i = Inr k \<Longrightarrow> url_tail (rc_path k)"
  by (cases i) (auto simp: Let_def split: sum.splits if_splits)

definition asana_writes :: "asana_input \<Rightarrow> bool" where
  "asana_writes i \<longleftrightarrow> (case i of AsanaProjects _ \<Rightarrow> False | AsanaItems _ \<Rightarrow> False | AsanaTest \<Rightarrow> False | _ \<Rightarrow> True)"

lemma asana_call_write: "asana_call c i = Inr k \<Longrightarrow> rc_write k = asana_writes i"
  by (cases i) (auto simp: asana_writes_def Let_def split: sum.splits if_splits)

lemma asana_cautious:
  "asana_writes i \<Longrightarrow> cautious_run T sent (asana_run c ss i T sent) (typed_err (snd (asana_run c ss i T sent)))"
  unfolding asana_run_def by (rule asana_calls.run_cautious) (auto dest: asana_call_permanent asana_call_write)

lemma asana_stays:
  "fst (asana_run c ss i T sent) = sent
    \<or> (\<exists>q. fst (asana_run c ss i T sent) = sent @ [q] \<and> stays_at (asana_base c) q)"
  unfolding asana_run_def by (rule asana_calls.run_stays) (rule asana_call_path)

text \<open>A task that is created has a place.\<close>

lemma asana_place_placed:
  "asana_place c m = Inr m' \<Longrightarrow> \<exists>k\<in>set [''workspace'', ''projects'', ''parent'']. at m' k \<noteq> VNil"
  by (auto simp: asana_place_def split: if_splits)

text \<open>A number that does not fit the type counts as zero, so the timeout has to be one.\<close>

lemma asana_int_garbled: "asana_int (VStr ''soon'') 30 = 0"
  by code_simp

section \<open>Jira\<close>

text \<open>The Jira provider (\<^verbatim>\<open>providers/delivery_operations/jira\<close>).\<close>

definition jira_error :: "string \<Rightarrow> string \<Rightarrow> gerr" where
  "jira_error code msg = Permanent (''jira.'' @ code) (Msg msg)"

definition jira_base :: "connection \<Rightarrow> string" where
  "jira_base c = config_text c ''base_url''"

definition jira_validate :: "connection \<Rightarrow> gerr option" where
  "jira_validate c = (case url_parse (jira_base c) of
     None \<Rightarrow> Some (jira_error ''endpoint_invalid'' ''Jira site root URL is required'')
   | Some u \<Rightarrow>
      if host u = [] \<or> user u \<noteq> None \<or> \<not> plain_url u \<or> \<not> list_all ((=) (CHR ''/'')) (path u)
      then Some (jira_error ''endpoint_invalid'' ''Jira site root URL is required'')
      else if scheme u \<noteq> ''https'' \<and> \<not> (scheme u = ''http'' \<and> is_loopback (hostname u))
      then Some (jira_error ''endpoint_invalid'' ''HTTPS Jira site or loopback HTTP is required'')
      else if \<not> timeout_120 c
      then Some (jira_error ''timeout_invalid'' ''timeout_seconds must be between 1 and 120'') else None)"

definition jira_authorization :: "connection \<Rightarrow> string \<Rightarrow> string" where
  "jira_authorization c token = (let email = config_text c ''account_email'' in
     if email \<noteq> [] then ''Basic '' @ base64_std (email @ '':'' @ token) else ''Bearer '' @ token)"

definition jira_plan :: "connection \<Rightarrow> secrets \<Rightarrow> rest_call \<Rightarrow> typed + http_request" where
  "jira_plan c ss k = (let token = trim_space (secret ss ''api_token'') in
     rest_plan (jira_validate c) (token, jira_error ''api_token_required'' ''resolved Jira API token is required'')
       (Inr (text_target (trim_right_char (CHR ''/'') (jira_base c)) (rc_path k) (rc_query k)))
       (rc_body k, jira_error ''request_invalid'' ''Jira request body is invalid'')
       (\<lambda>u raw. authorized (jira_authorization c token)
         (plain_request (rc_method k) u (json_headers (rc_body k)) raw)))"

definition jira_code :: "obj \<Rightarrow> int \<Rightarrow> string" where
  "jira_code m n = ''jira.http_'' @ itoa n @ (if as_arr (at m ''errorMessages'') \<noteq> [] then ''.validation'' else [])"

definition jira_ref :: "val \<Rightarrow> string" where
  "jira_ref v = (let key = obj_string (as_obj v) ''key''; i = obj_string (as_obj v) ''id'' in
     if key \<noteq> [] then ''jira:'' @ key else if i \<noteq> [] then ''jira:'' @ i else [])"

definition jira_read :: "bool \<Rightarrow> string + http_response \<Rightarrow> typed" where
  "jira_read = status_read ''jira'' ''Jira returned HTTP '' ''Jira response is invalid JSON''
     jira_code (accepted_as jira_ref)"

subsection \<open>Operations\<close>

record jira_projects =
  jp_start :: int
  jp_max :: int
  jp_order :: string
  jp_query :: string
  jp_status :: string

record jira_search =
  js_jql :: string
  js_max :: int
  js_page :: string
  js_fields :: val
  js_expand :: val
  js_properties :: val

record jira_change =
  jc_fields :: "obj option"
  jc_update :: "obj option"
  jc_history :: "obj option"
  jc_properties :: val

definition put_some :: "string \<Rightarrow> obj option \<Rightarrow> obj \<Rightarrow> obj" where
  "put_some k m b = (case m of None \<Rightarrow> b | Some x \<Rightarrow> put k (VObj x) b)"

definition put_value :: "string \<Rightarrow> val \<Rightarrow> obj \<Rightarrow> obj" where
  "put_value k v b = (if v = VNil then b else put k v b)"

definition jira_jql :: "connection \<Rightarrow> string \<Rightarrow> string" where
  "jira_jql c q = (let project = config_text c ''project_key'' in
     if trim_space q \<noteq> [] then trim_space q
     else if project \<noteq> [] then ''project = '' @ project @ '' ORDER BY updated DESC''
     else ''order by updated DESC'')"

datatype jira_input = JiraProjects jira_projects | JiraItems jira_search | JiraCreate "obj option"
  | JiraUpdate string jira_change | JiraTransition string string "obj option" | JiraTest

fun jira_call :: "connection \<Rightarrow> jira_input \<Rightarrow> rest_call res" where
  "jira_call c (JiraProjects i) = Inr (get_call ''/rest/api/3/project/search''
     (set_query ''status'' (jp_status i) (set_query ''query'' (jp_query i) (set_query ''orderBy'' (jp_order i)
       ((if jp_max i \<noteq> 0 then put ''maxResults'' [itoa (jp_max i)] else id)
         (if jp_start i \<noteq> 0 then [(''startAt'', [itoa (jp_start i)])] else []))))))"
| "jira_call c (JiraItems i) = Inr (query_call ''/rest/api/3/search/jql'' (marshal (VObj
     (put_value ''properties'' (js_properties i) (put_value ''expand'' (js_expand i)
       (put_value ''fields'' (js_fields i)
         ((if js_page i \<noteq> [] then put ''nextPageToken'' (VStr (js_page i)) else id)
           [(''jql'', VStr (jira_jql c (js_jql i))),
            (''maxResults'', VInt (if js_max i = 0 then 50 else js_max i))])))))))"
| "jira_call c (JiraCreate m) =
     (if members m = [] then Inl (jira_error ''fields_required'' ''issue fields are required'')
      else Inr (write_call ''POST'' ''/rest/api/3/issue'' [] (marshal (VObj [(''fields'', VObj (members m))]))))"
| "jira_call c (JiraUpdate key b) =
     (if trim_space key = [] then Inl (jira_error ''item_key_required'' ''item_key is required'')
      else Inr (write_call ''PUT'' (''/rest/api/3/issue/'' @ path_escape key) [(''returnIssue'', [''true''])]
        (marshal (VObj (put_value ''properties'' (jc_properties b) (put_some ''historyMetadata'' (jc_history b)
          (put_some ''update'' (jc_update b) (put_some ''fields'' (jc_fields b) []))))))))"
| "jira_call c (JiraTransition key t m) =
     (if trim_space key = [] \<or> trim_space t = []
      then Inl (jira_error ''transition_fields_required'' ''item_key and transition_id are required'')
      else Inr (write_call ''POST'' (''/rest/api/3/issue/'' @ path_escape key @ ''/transitions'') []
        (marshal (VObj (put_some ''fields'' m [(''transition'', VObj [(''id'', VStr t)])])))))"
| "jira_call c JiraTest = Inr (get_call ''/rest/api/3/myself'' [])"

definition jira_run where
  "jira_run c ss i = rest_run (jira_plan c ss) jira_read (jira_call c i)"

definition jira_test_connection where
  "jira_test_connection c ss T sent = test_details (jira_run c ss JiraTest T sent)"

subsection \<open>Contracts\<close>

lemma jira_error_permanent [simp]: "is_permanent (jira_error code msg)"
  by (simp add: jira_error_def)

lemma jira_validate_ok: "jira_validate c = None \<Longrightarrow> secure_endpoint (jira_base c)"
  by (auto simp: jira_validate_def secure_endpoint_def secure_url_def simp del: not_None_eq split: option.splits if_splits)

interpretation jira_calls: rest_provider jira_plan jira_read jira_base
proof (unfold_locales, goal_cases)
  case (1 c ss k x) then show ?case unfolding jira_plan_def Let_def
    by (rule rest_plan_permanent) (auto simp: jira_validate_def split: if_splits option.splits)
next
  case (2 c ss k q) from 2(1) show ?case unfolding jira_plan_def Let_def
    by (rule plan_stays_trimmed) (simp_all add: jira_validate_ok 2)
next
  case (3 a e) then show ?case unfolding jira_read_def by (rule status_read_cautious) simp
next
  case (4 m) show ?case unfolding jira_read_def by (rule status_read_lost)
qed

lemma jira_call_permanent: "jira_call c i = Inl e \<Longrightarrow> is_permanent e"
  by (cases i) (auto split: if_splits)

lemma jira_call_path: "jira_call c i = Inr k \<Longrightarrow> url_tail (rc_path k)"
  by (cases i) (auto split: if_splits)

definition jira_writes :: "jira_input \<Rightarrow> bool" where
  "jira_writes i \<longleftrightarrow> (case i of JiraProjects _ \<Rightarrow> False | JiraItems _ \<Rightarrow> False | JiraTest \<Rightarrow> False | _ \<Rightarrow> True)"

lemma jira_call_write: "jira_call c i = Inr k \<Longrightarrow> rc_write k = jira_writes i"
  by (cases i) (auto simp: jira_writes_def split: if_splits)

lemma jira_cautious:
  "jira_writes i \<Longrightarrow> cautious_run T sent (jira_run c ss i T sent) (typed_err (snd (jira_run c ss i T sent)))"
  unfolding jira_run_def by (rule jira_calls.run_cautious) (auto dest: jira_call_permanent jira_call_write)

lemma jira_stays:
  "fst (jira_run c ss i T sent) = sent
    \<or> (\<exists>q. fst (jira_run c ss i T sent) = sent @ [q] \<and> stays_at (jira_base c) q)"
  unfolding jira_run_def by (rule jira_calls.run_stays) (rule jira_call_path)

end
