(* ===== verification/ErpOperations.thy ===== *)
theory ErpOperations
  imports Delivery
begin

text \<open>Business suites: NetSuite, SAP Business One and Odoo.\<close>

section \<open>NetSuite\<close>

text \<open>The NetSuite provider (\<^verbatim>\<open>providers/delivery_operations/netsuite\<close>).\<close>

definition netsuite_error :: "string \<Rightarrow> string \<Rightarrow> gerr" where
  "netsuite_error code msg = Permanent (''netsuite.'' @ code) (Msg msg)"

definition netsuite_base :: "connection \<Rightarrow> string" where
  "netsuite_base c = config_text c ''record_base_url''"

text \<open>The loopback names are compared after the host has been lowered, without a trim.\<close>

definition netsuite_url :: "url \<Rightarrow> bool" where
  "netsuite_url u \<longleftrightarrow> (let h = to_lower (hostname u) in
     scheme u = ''http'' \<and> h \<in> set [''localhost'', ''127.0.0.1'', ''::1''] \<or>
     scheme u = ''https'' \<and> has_suffix h ''.suitetalk.api.netsuite.com'' \<and> h \<noteq> ''suitetalk.api.netsuite.com'')"

definition netsuite_validate :: "connection \<Rightarrow> gerr option" where
  "netsuite_validate c = (case url_parse (netsuite_base c) of
     None \<Rightarrow> Some (netsuite_error ''endpoint_invalid'' ''SuiteTalk Record API v1 base URL is required'')
   | Some u \<Rightarrow>
      if host u = [] \<or> user u \<noteq> None \<or> \<not> plain_url u
        \<or> trim_right_char (CHR ''/'') (escaped_path u) \<noteq> ''/services/rest/record/v1''
      then Some (netsuite_error ''endpoint_invalid'' ''SuiteTalk Record API v1 base URL is required'')
      else if \<not> netsuite_url u
      then Some (netsuite_error ''endpoint_invalid'' ''official account-specific SuiteTalk host or loopback HTTP is required'')
      else if \<not> timeout_120 c
      then Some (netsuite_error ''timeout_invalid'' ''timeout_seconds must be between 1 and 120'') else None)"

definition netsuite_plan :: "connection \<Rightarrow> secrets \<Rightarrow> rest_call \<Rightarrow> typed + http_request" where
  "netsuite_plan c ss k = (let token = trim_space (secret ss ''access_token'') in
     rest_plan (netsuite_validate c) (token, netsuite_error ''access_token_required'' ''resolved NetSuite access token is required'')
       (Inr (text_target (trim_right_char (CHR ''/'') (netsuite_base c)) (rc_path k) (rc_query k)))
       (rc_body k, netsuite_error ''request_invalid'' ''NetSuite request body is invalid'')
       (\<lambda>u raw. authorized (''Bearer '' @ token) (plain_request (rc_method k) u (json_headers (rc_body k)) raw)))"

definition netsuite_code :: "obj \<Rightarrow> int \<Rightarrow> string" where
  "netsuite_code m n =
     (let code = (case as_arr (at m ''o:errorDetails'') of x # _ \<Rightarrow> obj_string (as_obj x) ''o:errorCode'' | [] \<Rightarrow> []) in
      ''netsuite.'' @ (if code \<noteq> [] then sanitize_code code else ''http_'' @ itoa n))"

definition netsuite_ref :: "val \<Rightarrow> string" where
  "netsuite_ref v = (let i = obj_string (as_obj v) ''id'' in if i = [] then [] else ''netsuite:'' @ i)"

definition netsuite_read :: "bool \<Rightarrow> string + http_response \<Rightarrow> typed" where
  "netsuite_read = status_read ''netsuite'' ''NetSuite returned HTTP '' ''NetSuite response is invalid JSON''
     netsuite_code (accepted_as netsuite_ref)"

subsection \<open>Operations\<close>

record netsuite_list =
  nl_query :: string
  nl_limit :: int
  nl_size :: int
  nl_max :: int
  nl_offset :: int
  nl_start :: int
  nl_expand :: val

fun true_value :: "val \<Rightarrow> bool" where
  "true_value (VBool b) = b"
| "true_value (VStr s) = equal_fold (trim_space s) ''true''"
| "true_value _ = False"

definition netsuite_query :: "netsuite_list \<Rightarrow> url_values" where
  "netsuite_query i = (if true_value (nl_expand i) then put ''expandSubResources'' [''true''] else id)
     (put ''offset'' [itoa (if nl_offset i = 0 then nl_start i else nl_offset i)]
       (put ''limit'' [itoa (first_positive [nl_limit i, nl_size i, nl_max i, 100])] (set_query ''q'' (nl_query i) [])))"

text \<open>A task belongs to the default project, unless it names a company.\<close>

definition netsuite_task :: "connection \<Rightarrow> obj \<Rightarrow> obj res" where
  "netsuite_task c m =
     (if at m ''company'' \<noteq> VNil then Inr m
      else if config_text c ''project_id'' = [] then Inl (netsuite_error ''project_required'' ''project is required'')
      else Inr (put ''company'' (VObj [(''id'', VStr (config_text c ''project_id''))]) m))"

datatype netsuite_input = NetsuiteProjects netsuite_list | NetsuiteItems netsuite_list
  | NetsuiteCreate "obj option" "obj option" | NetsuiteUpdate string "obj option" "obj option"
  | NetsuiteTransition string string obj | NetsuiteTest

fun netsuite_call :: "connection \<Rightarrow> netsuite_input \<Rightarrow> rest_call res" where
  "netsuite_call c (NetsuiteProjects i) = Inr (get_call ''/job'' (netsuite_query i))"
| "netsuite_call c (NetsuiteItems i) = Inr (get_call ''/projecttask'' (netsuite_query i))"
| "netsuite_call c (NetsuiteCreate p s) =
     (let m = members (chosen p s) in
      if obj_string m ''title'' = [] then Inl (netsuite_error ''task_fields_required'' ''task title is required'')
      else (case netsuite_task c m of Inl e \<Rightarrow> Inl e
        | Inr m' \<Rightarrow> Inr (write_call ''POST'' ''/projecttask'' [] (marshal (VObj m')))))"
| "netsuite_call c (NetsuiteUpdate key p s) =
     (let m = members (chosen p s) in
      if trim_space key = [] \<or> m = []
      then Inl (netsuite_error ''update_fields_required'' ''item_key and fields are required'')
      else Inr (write_call ''PATCH'' (''/projecttask/'' @ path_escape key) [] (marshal (VObj m))))"
| "netsuite_call c (NetsuiteTransition key t fs) =
     (if trim_space key = [] \<or> trim_space t = []
      then Inl (netsuite_error ''transition_fields_required'' ''item_key and transition_id are required'')
      else Inr (write_call ''PATCH'' (''/projecttask/'' @ path_escape key) []
        (marshal (VObj (fold (\<lambda>(k, v). put k v) fs
          [(config_default c ''status_field'' ''status'', VObj [(''id'', VStr t)])])))))"
| "netsuite_call c NetsuiteTest = Inr (get_call ''/job'' [(''limit'', [''1''])])"

definition netsuite_run where
  "netsuite_run c ss i = rest_run (netsuite_plan c ss) netsuite_read (netsuite_call c i)"

definition netsuite_test_connection where
  "netsuite_test_connection c ss T sent = test_details (netsuite_run c ss NetsuiteTest T sent)"

subsection \<open>Contracts\<close>

lemma netsuite_error_permanent [simp]: "is_permanent (netsuite_error code msg)"
  by (simp add: netsuite_error_def)

lemma lower_graphic: "graphic (lower_char c) \<Longrightarrow> graphic c"
  by (auto simp: lower_char_def graphic_def Let_def split: if_splits)

lemma netsuite_loopback:
  assumes "to_lower h \<in> set [''localhost'', ''127.0.0.1'', ''::1'']"
  shows "is_loopback h"
proof -
  have h: "h \<noteq> []" using assms by (auto simp: to_lower_def)
  have "graphic (hd (to_lower h))" "graphic (last (to_lower h))" using assms by (auto simp: graphic_def)
  then have "trim_space h = h"
    using h by (intro trim_space_graphic) (auto simp: to_lower_def hd_map last_map intro: lower_graphic)
  then show ?thesis using assms by (auto simp: is_loopback_def Let_def)
qed

lemma netsuite_validate_ok: "netsuite_validate c = None \<Longrightarrow> secure_endpoint (netsuite_base c)"
  using netsuite_loopback
  by (auto simp: netsuite_validate_def secure_endpoint_def secure_url_def netsuite_url_def Let_def simp del: set_simps not_None_eq
      split: option.splits if_splits)

interpretation netsuite_calls: rest_provider netsuite_plan netsuite_read netsuite_base
proof (unfold_locales, goal_cases)
  case (1 c ss k x) then show ?case unfolding netsuite_plan_def Let_def
    by (rule rest_plan_permanent) (auto simp: netsuite_validate_def split: if_splits option.splits)
next
  case (2 c ss k q) from 2(1) show ?case unfolding netsuite_plan_def Let_def
    by (rule plan_stays_trimmed) (simp_all add: netsuite_validate_ok 2)
next
  case (3 a e) then show ?case unfolding netsuite_read_def by (rule status_read_cautious) simp
next
  case (4 m) show ?case unfolding netsuite_read_def by (rule status_read_lost)
qed

lemma netsuite_task_permanent: "netsuite_task c m = Inl e \<Longrightarrow> is_permanent e"
  by (auto simp: netsuite_task_def split: if_splits)

lemma netsuite_call_permanent: "netsuite_call c i = Inl e \<Longrightarrow> is_permanent e"
  by (cases i) (auto simp: Let_def dest: netsuite_task_permanent split: sum.splits if_splits)

lemma netsuite_call_path: "netsuite_call c i = Inr k \<Longrightarrow> url_tail (rc_path k)"
  by (cases i) (auto simp: Let_def split: sum.splits if_splits)

definition netsuite_writes :: "netsuite_input \<Rightarrow> bool" where
  "netsuite_writes i \<longleftrightarrow> (case i of NetsuiteProjects _ \<Rightarrow> False | NetsuiteItems _ \<Rightarrow> False | NetsuiteTest \<Rightarrow> False | _ \<Rightarrow> True)"

lemma netsuite_call_write: "netsuite_call c i = Inr k \<Longrightarrow> rc_write k = netsuite_writes i"
  by (cases i) (auto simp: netsuite_writes_def Let_def split: sum.splits if_splits)

lemma netsuite_cautious:
  "netsuite_writes i \<Longrightarrow> cautious_run T sent (netsuite_run c ss i T sent) (typed_err (snd (netsuite_run c ss i T sent)))"
  unfolding netsuite_run_def by (rule netsuite_calls.run_cautious) (auto dest: netsuite_call_permanent netsuite_call_write)

lemma netsuite_stays:
  "fst (netsuite_run c ss i T sent) = sent
    \<or> (\<exists>q. fst (netsuite_run c ss i T sent) = sent @ [q] \<and> stays_at (netsuite_base c) q)"
  unfolding netsuite_run_def by (rule netsuite_calls.run_stays) (rule netsuite_call_path)

section \<open>SAP Business One\<close>

text \<open>The SAP Business One provider (\<^verbatim>\<open>providers/delivery_operations/sap_business_one\<close>).\<close>

definition sap_error :: "string \<Rightarrow> string \<Rightarrow> gerr" where
  "sap_error code msg = Permanent (''sap_business_one.'' @ code) (Msg msg)"

definition sap_root :: "connection \<Rightarrow> string" where
  "sap_root c = config_text c ''service_root''"

definition sap_validate :: "connection \<Rightarrow> gerr option" where
  "sap_validate c = (case url_parse (sap_root c) of
     None \<Rightarrow> Some (sap_error ''endpoint_invalid'' ''Service Layer OData v4 root is required'')
   | Some u \<Rightarrow>
      if host u = [] \<or> user u \<noteq> None \<or> \<not> plain_url u \<or> trim_right_char (CHR ''/'') (escaped_path u) \<noteq> ''/b1s/v2''
      then Some (sap_error ''endpoint_invalid'' ''Service Layer OData v4 root is required'')
      else if scheme u \<noteq> ''https'' \<and> \<not> (scheme u = ''http'' \<and> is_loopback (hostname u))
      then Some (sap_error ''endpoint_invalid'' ''HTTPS Service Layer or loopback HTTP is required'')
      else if config_text c ''company_id'' = []
      then Some (sap_error ''company_id_required'' ''company_id is required'')
      else if \<not> timeout_120 c
      then Some (sap_error ''timeout_invalid'' ''timeout_seconds must be between 1 and 120'') else None)"

definition sap_plan :: "connection \<Rightarrow> secrets \<Rightarrow> rest_call \<Rightarrow> typed + http_request" where
  "sap_plan c ss k = (let token = trim_space (secret ss ''access_token'') in
     rest_plan (sap_validate c) (token, sap_error ''access_token_required'' ''resolved Service Layer access token is required'')
       (Inr (text_target (trim_right_char (CHR ''/'') (sap_root c)) (rc_path k) (rc_query k)))
       (rc_body k, sap_error ''request_invalid'' ''SAP Business One request body is invalid'')
       (\<lambda>u raw. authorized (''Bearer '' @ token) (plain_request (rc_method k) u
         (put ''X-b1-companyid'' [config_text c ''company_id''] (json_headers (rc_body k))) raw)))"

definition sap_code :: "obj \<Rightarrow> int \<Rightarrow> string" where
  "sap_code m n = (let code = number_string (at (as_obj (at m ''error'')) ''code'') in
     ''sap_business_one.'' @ (if code \<noteq> [] then sanitize_code code else ''http_'' @ itoa n))"

definition sap_ref :: "val \<Rightarrow> string" where
  "sap_ref v = (let i = number_string (at (as_obj v) ''AbsEntry'') in
     if i = [] then [] else ''sap_business_one:'' @ i)"

definition sap_read :: "bool \<Rightarrow> string + http_response \<Rightarrow> typed" where
  "sap_read = status_read ''sap_business_one'' ''SAP Business One returned HTTP ''
     ''SAP Business One response is invalid JSON'' sap_code (accepted_as sap_ref)"

subsection \<open>Operations\<close>

record sap_list =
  sl_select :: string
  sl_filter :: string
  sl_order :: string
  sl_expand :: string
  sl_search :: string
  sl_size :: int
  sl_max :: int
  sl_top :: int
  sl_start :: int
  sl_skip :: int

text \<open>The members are set as they are, when they are not blank.\<close>

definition sap_query :: "sap_list \<Rightarrow> url_values" where
  "sap_query i = put ''$skip'' [itoa (first_positive [sl_start i, sl_skip i])]
     (put ''$top'' [itoa (first_positive [sl_size i, sl_max i, sl_top i, 50])]
       (map (\<lambda>(k, v). (k, [v])) (filter (\<lambda>(k, v). trim_space v \<noteq> [])
         [(''$select'', sl_select i), (''$filter'', sl_filter i), (''$orderby'', sl_order i),
          (''$expand'', sl_expand i), (''$search'', sl_search i)])))"

definition sap_entry :: "int \<Rightarrow> string" where
  "sap_entry n = ''/ProjectManagements('' @ itoa n @ '')''"

datatype sap_input = SapList sap_list | SapCreate "obj option" "obj option"
  | SapUpdate string "obj option" "obj option" | SapTransition string string | SapTest

fun sap_call :: "connection \<Rightarrow> sap_input \<Rightarrow> rest_call res" where
  "sap_call c (SapList i) = Inr (get_call ''/ProjectManagements'' (sap_query i))"
| "sap_call c (SapCreate p s) =
     (let m = members (chosen p s) in
      if obj_string m ''ProjectName'' = [] then Inl (sap_error ''project_name_required'' ''ProjectName is required'')
      else Inr (write_call ''POST'' ''/ProjectManagements'' [] (marshal (VObj m))))"
| "sap_call c (SapUpdate key p s) =
     (let n = record_id key; m = members (chosen p s) in
      if n \<le> 0 \<or> m = [] then Inl (sap_error ''update_fields_required'' ''positive item_key and fields are required'')
      else Inr (write_call ''PATCH'' (sap_entry n) [] (marshal (VObj m))))"
| "sap_call c (SapTransition key t) =
     (let n = record_id key in
      if n \<le> 0 \<or> trim_space t = []
      then Inl (sap_error ''transition_fields_required'' ''positive item_key and transition_id are required'')
      else Inr (write_call ''PATCH'' (sap_entry n) []
        (marshal (VObj [(config_default c ''status_field'' ''ProjectStatus'', VStr t)]))))"
| "sap_call c SapTest = Inr (query_call ''/UsersService_GetCurrentUser'' (marshal (VObj [])))"

definition sap_run where
  "sap_run c ss i = rest_run (sap_plan c ss) sap_read (sap_call c i)"

definition sap_test_connection where
  "sap_test_connection c ss T sent = test_details (sap_run c ss SapTest T sent)"

subsection \<open>Contracts\<close>

lemma sap_error_permanent [simp]: "is_permanent (sap_error code msg)"
  by (simp add: sap_error_def)

lemma sap_validate_ok: "sap_validate c = None \<Longrightarrow> secure_endpoint (sap_root c)"
  by (auto simp: sap_validate_def secure_endpoint_def secure_url_def simp del: not_None_eq split: option.splits if_splits)

interpretation sap_calls: rest_provider sap_plan sap_read sap_root
proof (unfold_locales, goal_cases)
  case (1 c ss k x) then show ?case unfolding sap_plan_def Let_def
    by (rule rest_plan_permanent) (auto simp: sap_validate_def split: if_splits option.splits)
next
  case (2 c ss k q) from 2(1) show ?case unfolding sap_plan_def Let_def
    by (rule plan_stays_trimmed) (simp_all add: sap_validate_ok 2)
next
  case (3 a e) then show ?case unfolding sap_read_def by (rule status_read_cautious) simp
next
  case (4 m) show ?case unfolding sap_read_def by (rule status_read_lost)
qed

lemma sap_call_permanent: "sap_call c i = Inl e \<Longrightarrow> is_permanent e"
  by (cases i) (auto simp: Let_def split: if_splits)

lemma sap_call_path: "sap_call c i = Inr k \<Longrightarrow> url_tail (rc_path k)"
  by (cases i) (auto simp: Let_def sap_entry_def split: if_splits)

definition sap_writes :: "sap_input \<Rightarrow> bool" where
  "sap_writes i \<longleftrightarrow> (case i of SapList _ \<Rightarrow> False | SapTest \<Rightarrow> False | _ \<Rightarrow> True)"

lemma sap_call_write: "sap_call c i = Inr k \<Longrightarrow> rc_write k = sap_writes i"
  by (cases i) (auto simp: sap_writes_def Let_def split: if_splits)

lemma sap_cautious:
  "sap_writes i \<Longrightarrow> cautious_run T sent (sap_run c ss i T sent) (typed_err (snd (sap_run c ss i T sent)))"
  unfolding sap_run_def by (rule sap_calls.run_cautious) (auto dest: sap_call_permanent sap_call_write)

lemma sap_stays:
  "fst (sap_run c ss i T sent) = sent
    \<or> (\<exists>q. fst (sap_run c ss i T sent) = sent @ [q] \<and> stays_at (sap_root c) q)"
  unfolding sap_run_def by (rule sap_calls.run_stays) (rule sap_call_path)

section \<open>Odoo\<close>

text \<open>The Odoo provider (\<^verbatim>\<open>providers/delivery_operations/odoo\<close>).\<close>

definition odoo_error :: "string \<Rightarrow> string \<Rightarrow> gerr" where
  "odoo_error code msg = Permanent (''odoo.'' @ code) (Msg msg)"

definition odoo_base :: "connection \<Rightarrow> string" where
  "odoo_base c = config_text c ''api_base_url''"

definition odoo_validate :: "connection \<Rightarrow> gerr option" where
  "odoo_validate c =
     (if \<not> (case url_parse (odoo_base c) of None \<Rightarrow> False | Some u \<Rightarrow>
          host u \<noteq> [] \<and> user u = None \<and> plain_url u \<and> trim_right_char (CHR ''/'') (escaped_path u) = ''/json/2'')
      then Some (odoo_error ''endpoint_invalid'' ''Odoo JSON-2 base URL is required'')
      else if \<not> secure_endpoint (odoo_base c)
      then Some (odoo_error ''endpoint_invalid'' ''HTTPS Odoo instance or loopback HTTP is required'')
      else if \<not> timeout_120 c
      then Some (odoo_error ''timeout_invalid'' ''timeout_seconds must be between 1 and 120'') else None)"

definition odoo_headers :: "connection \<Rightarrow> headers" where
  "odoo_headers c = [(''Accept'', [''application/json'']), (''Content-Type'', [''application/json; charset=utf-8'']),
     (''User-Agent'', [''Domainry-Connector/1.0''])]
     @ (if config_text c ''database'' = [] then [] else [(''X-Odoo-Database'', [config_text c ''database''])])"

definition odoo_plan :: "connection \<Rightarrow> secrets \<Rightarrow> rest_call \<Rightarrow> typed + http_request" where
  "odoo_plan c ss k = (let key = trim_space (secret ss ''api_key'') in
     rest_plan (odoo_validate c) (key, odoo_error ''api_key_required'' ''resolved Odoo API key is required'')
       (Inr (text_target (trim_right_char (CHR ''/'') (odoo_base c)) (rc_path k) (rc_query k)))
       (rc_body k, odoo_error ''request_invalid'' ''Odoo request body is invalid'')
       (\<lambda>u raw. authorized (''bearer '' @ key) (plain_request (rc_method k) u (odoo_headers c) raw)))"

subsection \<open>Answers\<close>

text \<open>An answer of any kind is read; one that is no object becomes the member \<open>data\<close> of one.\<close>

definition odoo_decode :: "string \<Rightarrow> val option" where
  "odoo_decode body = (if trim_space body = [] then Some VNil else Option.bind (json_parse body) val_of_json)"

definition odoo_wrap :: "val option \<Rightarrow> val" where
  "odoo_wrap v = (case v of Some (VObj m) \<Rightarrow> VObj m | Some x \<Rightarrow> VObj [(''data'', x)] | None \<Rightarrow> VObj [(''data'', VNil)])"

definition odoo_code :: "obj \<Rightarrow> int \<Rightarrow> string" where
  "odoo_code m n = (let name = obj_string m ''name'' in
     ''odoo.'' @ (if name \<noteq> [] then sanitize_code name else ''http_'' @ itoa n))"

fun created_id :: "val \<Rightarrow> string" where
  "created_id (VFloat f) = itoa (f64_trunc f)"
| "created_id (VArr (x # xs)) = trim_suffix (sprint x) ''.0''"
| "created_id _ = []"

definition odoo_read :: "bool \<Rightarrow> bool \<Rightarrow> string + http_response \<Rightarrow> typed" where
  "odoo_read creates = answer_read odoo_decode odoo_wrap ''odoo'' ''Odoo returned HTTP '' ''Odoo response is invalid JSON''
     odoo_code (\<lambda>raw v ref. accepted_as (\<lambda>_. if creates \<and> created_id raw \<noteq> [] then ''odoo:'' @ created_id raw else []) v ref)"

subsection \<open>Operations\<close>

record odoo_list =
  ol_project :: string
  ol_domain :: "val list"
  ol_fields :: val
  ol_size :: int
  ol_max :: int
  ol_limit :: int
  ol_offset :: int
  ol_start :: int
  ol_context :: obj

definition odoo_context :: "connection \<Rightarrow> obj \<Rightarrow> val" where
  "odoo_context c m = VObj (if at m ''lang'' = VNil \<and> config_text c ''context_language'' \<noteq> []
     then put ''lang'' (VStr (config_text c ''context_language'')) m else m)"

text \<open>A copied slice without elements is nil.\<close>

definition odoo_domain :: "val list \<Rightarrow> val" where
  "odoo_domain vs = (if vs = [] then VNil else VArr vs)"

definition odoo_project :: "connection \<Rightarrow> string \<Rightarrow> int" where
  "odoo_project c s = (if record_id s > 0 then record_id s else record_id (config_text c ''project_id''))"

definition odoo_page :: "connection \<Rightarrow> odoo_list \<Rightarrow> val list \<Rightarrow> string list \<Rightarrow> val" where
  "odoo_page c i filters names = VObj
     [(''context'', odoo_context c (ol_context i)), (''domain'', odoo_domain filters),
      (''fields'', if ol_fields i \<noteq> VNil then ol_fields i else VStrs names),
      (''limit'', VInt (first_positive [ol_size i, ol_max i, ol_limit i, 50])),
      (''offset'', VInt (first_positive [ol_offset i, ol_start i]))]"

definition odoo_method :: "string \<Rightarrow> string \<Rightarrow> string" where
  "odoo_method model mth = ''/'' @ path_escape model @ ''/'' @ path_escape mth"

datatype odoo_input = OdooProjects odoo_list | OdooItems odoo_list
  | OdooCreate "obj option" "obj option" obj | OdooUpdate string "obj option" "obj option" obj
  | OdooTransition string string obj | OdooTest

fun odoo_call :: "connection \<Rightarrow> odoo_input \<Rightarrow> rest_call res" where
  "odoo_call c (OdooProjects i) = Inr (query_call (odoo_method ''project.project'' ''search_read'')
     (marshal (odoo_page c i (ol_domain i) [''id'', ''name'', ''active'', ''partner_id'', ''date_start'', ''date'',
       ''stage_id'', ''task_count'', ''write_date''])))"
| "odoo_call c (OdooItems i) = (let n = odoo_project c (ol_project i) in
     Inr (query_call (odoo_method ''project.task'' ''search_read'')
       (marshal (odoo_page c i (ol_domain i @ (if n > 0 then [VArr [VStr ''project_id'', VStr ''='', VInt n]] else []))
         [''id'', ''name'', ''active'', ''project_id'', ''stage_id'', ''user_ids'', ''partner_id'', ''date_deadline'',
          ''priority'', ''write_date'']))))"
| "odoo_call c (OdooCreate p s ctx) =
     (let m = members (chosen p s); n = odoo_project c [] in
      if obj_string m ''name'' = [] then Inl (odoo_error ''task_name_required'' ''task name is required'')
      else let m' = (if at m ''project_id'' = VNil \<and> n > 0 then put ''project_id'' (VInt n) m else m) in
        Inr (write_call ''POST'' (odoo_method ''project.task'' ''create'') []
          (marshal (VObj [(''context'', odoo_context c ctx), (''vals_list'', VArr [VObj m'])]))))"
| "odoo_call c (OdooUpdate key p s ctx) =
     (let n = record_id key; m = members (chosen p s) in
      if n \<le> 0 \<or> m = [] then Inl (odoo_error ''update_fields_required'' ''positive item_key and fields are required'')
      else Inr (write_call ''POST'' (odoo_method ''project.task'' ''write'') []
        (marshal (VObj [(''context'', odoo_context c ctx), (''ids'', VArr [VInt n]), (''vals'', VObj m)]))))"
| "odoo_call c (OdooTransition key t ctx) =
     (let n = record_id key; stage = record_id t in
      if n \<le> 0 \<or> stage \<le> 0
      then Inl (odoo_error ''transition_fields_required'' ''positive item_key and transition_id are required'')
      else Inr (write_call ''POST'' (odoo_method ''project.task'' ''write'') []
        (marshal (VObj [(''context'', odoo_context c ctx), (''ids'', VArr [VInt n]),
          (''vals'', VObj [(''stage_id'', VInt stage)])]))))"
| "odoo_call c OdooTest = Inr (query_call (odoo_method ''project.project'' ''search_count'')
     (marshal (VObj [(''domain'', VArr [])])))"

definition odoo_creates :: "odoo_input \<Rightarrow> bool" where
  "odoo_creates i \<longleftrightarrow> (case i of OdooCreate _ _ _ \<Rightarrow> True | _ \<Rightarrow> False)"

definition odoo_run where
  "odoo_run c ss i = rest_run (odoo_plan c ss) (odoo_read (odoo_creates i)) (odoo_call c i)"

definition odoo_test_connection where
  "odoo_test_connection c ss T sent = test_details (odoo_run c ss OdooTest T sent)"

subsection \<open>Contracts\<close>

lemma odoo_error_permanent [simp]: "is_permanent (odoo_error code msg)"
  by (simp add: odoo_error_def)

lemma odoo_validate_ok: "odoo_validate c = None \<Longrightarrow> secure_endpoint (odoo_base c)"
  by (simp add: odoo_validate_def split: if_splits)

interpretation odoo_calls: rest_provider odoo_plan "odoo_read creates" odoo_base for creates
proof (unfold_locales, goal_cases)
  case (1 c ss k x) then show ?case unfolding odoo_plan_def Let_def
    by (rule rest_plan_permanent) (auto simp: odoo_validate_def split: if_splits)
next
  case (2 c ss k q) from 2(1) show ?case unfolding odoo_plan_def Let_def
    by (rule plan_stays_trimmed) (simp_all add: odoo_validate_ok 2)
next
  case (3 a e) then show ?case unfolding odoo_read_def by (rule answer_read_cautious) simp
next
  case (4 m) show ?case unfolding odoo_read_def by (rule answer_read_lost)
qed

lemma odoo_call_permanent: "odoo_call c i = Inl e \<Longrightarrow> is_permanent e"
  by (cases i) (auto simp: Let_def split: if_splits)

lemma odoo_call_path: "odoo_call c i = Inr k \<Longrightarrow> url_tail (rc_path k)"
  by (cases i) (auto simp: Let_def odoo_method_def split: if_splits)

definition odoo_writes :: "odoo_input \<Rightarrow> bool" where
  "odoo_writes i \<longleftrightarrow> (case i of OdooProjects _ \<Rightarrow> False | OdooItems _ \<Rightarrow> False | OdooTest \<Rightarrow> False | _ \<Rightarrow> True)"

lemma odoo_call_write: "odoo_call c i = Inr k \<Longrightarrow> rc_write k = odoo_writes i"
  by (cases i) (auto simp: odoo_writes_def Let_def split: if_splits)

lemma odoo_cautious:
  "odoo_writes i \<Longrightarrow> cautious_run T sent (odoo_run c ss i T sent) (typed_err (snd (odoo_run c ss i T sent)))"
  unfolding odoo_run_def by (rule odoo_calls.run_cautious) (auto dest: odoo_call_permanent odoo_call_write)

lemma odoo_stays:
  "fst (odoo_run c ss i T sent) = sent
    \<or> (\<exists>q. fst (odoo_run c ss i T sent) = sent @ [q] \<and> stays_at (odoo_base c) q)"
  unfolding odoo_run_def by (rule odoo_calls.run_stays) (rule odoo_call_path)

end
