(* ===== verification/GraphqlBoards.thy ===== *)
theory GraphqlBoards
  imports Delivery Webhook
begin

text \<open>Boards over GraphQL: Linear, with its webhook, and monday.com.\<close>

section \<open>Linear\<close>

text \<open>The Linear provider (\<^verbatim>\<open>providers/delivery_operations/linear\<close>).\<close>

definition linear_error :: "string \<Rightarrow> string \<Rightarrow> gerr" where
  "linear_error code msg = Permanent (''linear.'' @ code) (Msg msg)"

definition linear_endpoint :: "connection \<Rightarrow> string" where
  "linear_endpoint c = config_default c ''endpoint'' ''https://api.linear.app/graphql''"

definition linear_validate :: "connection \<Rightarrow> gerr option" where
  "linear_validate c = (case url_parse (linear_endpoint c) of
     None \<Rightarrow> Some (linear_error ''endpoint_invalid'' ''valid Linear GraphQL endpoint is required'')
   | Some u \<Rightarrow>
      if host u = [] \<or> user u \<noteq> None \<or> \<not> plain_url u
      then Some (linear_error ''endpoint_invalid'' ''valid Linear GraphQL endpoint is required'')
      else if \<not> official_url (\<lambda>h. equal_fold h ''api.linear.app'') ''/graphql'' u
      then Some (linear_error ''endpoint_invalid'' ''official Linear GraphQL endpoint or loopback HTTP is required'')
      else if \<not> timeout_120 c
      then Some (linear_error ''timeout_invalid'' ''timeout_seconds must be between 1 and 120'') else None)"

definition linear_plan :: "connection \<Rightarrow> secrets \<Rightarrow> rest_call \<Rightarrow> typed + http_request" where
  "linear_plan c ss k = (let token = trim_space (secret ss ''api_token'') in
     rest_plan (linear_validate c) (token, linear_error ''api_token_required'' ''resolved Linear API token is required'')
       (Inr (linear_endpoint c)) (rc_body k, linear_error ''request_invalid'' ''Linear GraphQL request is invalid'')
       (\<lambda>u raw. authorized (if has_prefix token ''lin_api_'' then token else ''Bearer '' @ token)
         (plain_request (rc_method k) u (json_headers (rc_body k)) raw)))"

subsection \<open>Answers\<close>

text \<open>\<open>graphQLErrorCode\<close>: the first code, unless one of them says that the rate was limited.\<close>

definition extension_code :: "val \<Rightarrow> string" where
  "extension_code x = to_upper (obj_string (as_obj (at (as_obj x) ''extensions'')) ''code'')"

fun graphql_code :: "string \<Rightarrow> val list \<Rightarrow> string" where
  "graphql_code first [] = first"
| "graphql_code first (x # xs) =
     (let code = extension_code x in
      if code = [] then graphql_code first xs
      else if code = ''RATELIMITED'' then code
      else graphql_code (if first = [] then code else first) xs)"

definition linear_ref :: "val \<Rightarrow> string" where
  "linear_ref v = (let d = as_obj (at (as_obj v) ''data'');
       issue = (\<lambda>k. as_obj (at (as_obj (at d k)) ''issue''));
       i = first_text (concat (map (\<lambda>k. [obj_string (issue k) ''identifier'', obj_string (issue k) ''id''])
         [''issueCreate'', ''issueUpdate''])) in
     if i = [] then [] else ''linear:'' @ i)"

definition linear_ok :: "val \<Rightarrow> string \<Rightarrow> typed" where
  "linear_ok v ref = (let errors = as_arr (at (as_obj v) ''errors'') in
     if errors = [] then accepted_as linear_ref v ref
     else if graphql_code [] errors = ''RATELIMITED''
     then (v, ref, Some (Retryable ''linear.rate_limited'' (Msg ''Linear rate limited the request'')))
     else (v, ref, Some (linear_error ''graphql_error'' ''Linear rejected the GraphQL operation'')))"

definition linear_read :: "bool \<Rightarrow> string + http_response \<Rightarrow> typed" where
  "linear_read = status_read ''linear'' ''Linear returned HTTP '' ''Linear response is invalid JSON''
     (\<lambda>m n. ''linear.http_'' @ itoa n) linear_ok"

text \<open>Linear says that it did not take a request up with the status 429, or with an error in a success.\<close>

definition linear_limited :: "val \<Rightarrow> bool" where
  "linear_limited v \<longleftrightarrow> (\<exists>x\<in>set (as_arr (at (as_obj v) ''errors'')). extension_code x = ''RATELIMITED'')"

definition linear_busy :: "http_response \<Rightarrow> bool" where
  "linear_busy r \<longleftrightarrow> throttled (resp_status r)
     \<or> ok_status (resp_status r) \<and> linear_limited (map_or_empty (decode_output (resp_body r)))"

lemma graphql_code_limited:
  "first \<noteq> ''RATELIMITED'' \<Longrightarrow>
    graphql_code first xs = ''RATELIMITED'' \<longleftrightarrow> (\<exists>x\<in>set xs. extension_code x = ''RATELIMITED'')"
  by (induction first xs rule: graphql_code.induct) (auto simp: Let_def)

lemma linear_ok_limited: "typed_err (linear_ok v ref) = Some e \<Longrightarrow> is_retryable e \<Longrightarrow> linear_limited v"
  by (auto simp: linear_ok_def linear_error_def linear_limited_def graphql_code_limited Let_def split: if_splits)

subsection \<open>Operations\<close>

definition graph_text :: "string \<Rightarrow> val \<Rightarrow> string option" where
  "graph_text q vars = marshal (VObj [(''query'', VStr q), (''variables'', vars)])"

definition linear_projects_query :: string where
  "linear_projects_query = ''query Projects($first:Int,$after:String){projects(first:$first,after:$after){nodes{id name state progress updatedAt} pageInfo{hasNextPage endCursor}}}''"

definition linear_issues_query :: string where
  "linear_issues_query = ''query Issues($first:Int,$after:String,$filter:IssueFilter){issues(first:$first,after:$after,filter:$filter){nodes{id identifier title description priority state{id name} project{id name} assignee{id name} updatedAt} pageInfo{hasNextPage endCursor}}}''"

definition linear_create_query :: string where
  "linear_create_query = ''mutation Create($input:IssueCreateInput!){issueCreate(input:$input){success issue{id identifier title state{id name}}}}''"

definition linear_update_query :: string where
  "linear_update_query = ''mutation Update($id:String!,$input:IssueUpdateInput!){issueUpdate(id:$id,input:$input){success issue{id identifier title state{id name}}}}''"

definition linear_transition_query :: string where
  "linear_transition_query = ''mutation Transition($id:String!,$input:IssueUpdateInput!){issueUpdate(id:$id,input:$input){success issue{id identifier state{id name}}}}''"

definition linear_viewer_query :: string where
  "linear_viewer_query = ''query Viewer { viewer { id name email } }''"

text \<open>\<open>firstString\<close> of this provider takes the first text that is not blank, as it is.\<close>

definition first_unblank :: "string list \<Rightarrow> string" where
  "first_unblank ss = (case dropWhile (\<lambda>s. trim_space s = []) ss of [] \<Rightarrow> [] | s # _ \<Rightarrow> s)"

definition linear_page :: "int \<Rightarrow> int \<Rightarrow> string \<Rightarrow> string \<Rightarrow> obj" where
  "linear_page n most cursor token = [(''first'', VInt (first_positive [n, most, 50])),
     (''after'', nullable (VStr (first_unblank [cursor, token])))]"

definition linear_issue :: "connection \<Rightarrow> obj option \<Rightarrow> obj" where
  "linear_issue c m = (let b = members m; team = config_text c ''team_id'' in
     if obj_string b ''teamId'' = [] \<and> team \<noteq> [] then put ''teamId'' (VStr team) b else b)"

datatype linear_input = LinearProjects int int string string | LinearItems int int string string val
  | LinearCreate "obj option" | LinearUpdate string "obj option" | LinearTransition string string | LinearTest

fun linear_call :: "connection \<Rightarrow> linear_input \<Rightarrow> rest_call res" where
  "linear_call c (LinearProjects n most cursor token) =
     Inr (query_call [] (graph_text linear_projects_query (VObj (linear_page n most cursor token))))"
| "linear_call c (LinearItems n most cursor token flt) =
     Inr (query_call [] (graph_text linear_issues_query
       (VObj (put ''filter'' (nullable flt) (linear_page n most cursor token)))))"
| "linear_call c (LinearCreate m) =
     (let b = linear_issue c m in
      if obj_string b ''teamId'' = [] \<or> obj_string b ''title'' = []
      then Inl (linear_error ''input_required'' ''teamId and title are required'')
      else Inr (write_call ''POST'' [] [] (graph_text linear_create_query (VObj [(''input'', VObj b)]))))"
| "linear_call c (LinearUpdate key m) =
     (if trim_space key = [] \<or> m = None
      then Inl (linear_error ''update_fields_required'' ''item_key and fields are required'')
      else Inr (write_call ''POST'' [] [] (graph_text linear_update_query
        (VObj [(''id'', VStr key), (''input'', VObj (members m))]))))"
| "linear_call c (LinearTransition key t) =
     (if trim_space key = [] \<or> trim_space t = []
      then Inl (linear_error ''transition_fields_required'' ''item_key and transition_id are required'')
      else Inr (write_call ''POST'' [] [] (graph_text linear_transition_query
        (VObj [(''id'', VStr key), (''input'', VObj [(''stateId'', VStr t)])]))))"
| "linear_call c LinearTest = Inr (query_call [] (graph_text linear_viewer_query VNil))"

definition linear_run where
  "linear_run c ss i = rest_run (linear_plan c ss) linear_read (linear_call c i)"

definition linear_test_connection where
  "linear_test_connection c ss T sent = test_details (linear_run c ss LinearTest T sent)"

subsection \<open>Contracts\<close>

lemma linear_error_permanent [simp]: "is_permanent (linear_error code msg)"
  by (simp add: linear_error_def)

lemma linear_validate_ok: "linear_validate c = None \<Longrightarrow> secure_endpoint (linear_endpoint c)"
  by (auto simp: linear_validate_def secure_endpoint_def official_secure split: option.splits if_splits)

interpretation linear_calls: rest_answers linear_plan linear_endpoint linear_read linear_busy
proof (unfold_locales, goal_cases)
  case (1 c ss k x) then show ?case unfolding linear_plan_def Let_def
    by (rule rest_plan_permanent) (auto simp: linear_validate_def split: if_splits option.splits)
next
  case (2 c ss k q) from 2(1) show ?case unfolding linear_plan_def Let_def
    by (rule plan_stays_whole) (simp_all add: linear_validate_ok)
next
  case (3 a e) then show ?case unfolding linear_read_def linear_busy_def
    by (rule status_read_busy) (rule linear_ok_limited)
next
  case (4 m) show ?case unfolding linear_read_def by (rule status_read_lost)
qed

lemma linear_call_permanent: "linear_call c i = Inl e \<Longrightarrow> is_permanent e"
  by (cases i) (auto simp: Let_def split: if_splits)

lemma linear_call_path: "linear_call c i = Inr k \<Longrightarrow> url_tail (rc_path k)"
  by (cases i) (auto simp: Let_def split: if_splits)

definition linear_writes :: "linear_input \<Rightarrow> bool" where
  "linear_writes i \<longleftrightarrow> (case i of LinearCreate _ \<Rightarrow> True | LinearUpdate _ _ \<Rightarrow> True | LinearTransition _ _ \<Rightarrow> True | _ \<Rightarrow> False)"

lemma linear_call_write: "linear_call c i = Inr k \<Longrightarrow> rc_write k = linear_writes i"
  by (cases i) (auto simp: linear_writes_def Let_def split: if_splits)

lemma linear_cautious:
  "linear_writes i \<Longrightarrow>
    cautious_by linear_busy T sent (linear_run c ss i T sent) (typed_err (snd (linear_run c ss i T sent)))"
  unfolding linear_run_def by (rule linear_calls.run_cautious_by) (auto dest: linear_call_permanent linear_call_write)

lemma linear_stays:
  "fst (linear_run c ss i T sent) = sent
    \<or> (\<exists>q. fst (linear_run c ss i T sent) = sent @ [q] \<and> stays_at (linear_endpoint c) q)"
  unfolding linear_run_def by (rule linear_calls.run_stays) (rule linear_call_path)

subsection \<open>Webhooks\<close>

definition linear_signed :: "webhook_request \<Rightarrow> bool" where
  "linear_signed r \<longleftrightarrow> hmac_sha256_hex (trim_space (secret (wh_secrets r) ''webhook_secret'')) (wh_body r)
     = to_lower (header_trimmed (wh_headers r) ''Linear-Signature'')"

definition linear_timestamp :: "obj \<Rightarrow> int" where
  "linear_timestamp p = int_value (at p ''webhookTimestamp'') 0"

text \<open>Milliseconds, at most a minute from the arrival.\<close>

definition linear_fresh :: "webhook_request \<Rightarrow> obj \<Rightarrow> bool" where
  "linear_fresh r p \<longleftrightarrow> 0 < linear_timestamp p
     \<and> duration_abs (received_at r - linear_timestamp p * 1000000) \<le> 60 * nanos"

definition linear_subject :: "obj \<Rightarrow> string" where
  "linear_subject p = obj_string (as_obj (at p ''data'')) ''id''"

definition linear_identity :: "webhook_request \<Rightarrow> obj \<Rightarrow> bool" where
  "linear_identity r p \<longleftrightarrow> to_lower (obj_string p ''action'') \<noteq> [] \<and> to_lower (obj_string p ''type'') \<noteq> []
     \<and> linear_subject p \<noteq> [] \<and> header_trimmed (wh_headers r) ''Linear-Delivery'' \<noteq> []"

definition linear_event :: "webhook_request \<Rightarrow> obj \<Rightarrow> verified_webhook" where
  "linear_event r p = (let ty = to_lower (obj_string p ''type'') in
     (plain_event (ty @ ''.'' @ to_lower (obj_string p ''action''))
       (header_trimmed (wh_headers r) ''Linear-Delivery'') (wh_body r))
     \<lparr>event_identity := identity_of (linear_subject p) ty [] [],
      event_security := Some \<lparr>signature_verified = True, evidence_nonce = [], evidence_device = [],
        evidence_time = Some (linear_timestamp p * 1000000)\<rparr>\<rparr>)"

definition linear_verify :: "webhook_request \<Rightarrow> verified_webhook res" where
  "linear_verify r = (case wh_context r of Some m \<Rightarrow> Inl (Plain m) | None \<Rightarrow>
     if trim_space (secret (wh_secrets r) ''webhook_secret'') = []
     then Inl (linear_error ''webhook_secret_required'' ''resolved Linear webhook secret is required'')
     else if \<not> linear_signed r
     then Inl (linear_error ''webhook_signature_invalid'' ''Linear webhook signature does not match'')
     else (case decode_map (wh_body r) of
       None \<Rightarrow> Inl (linear_error ''webhook_payload_invalid'' ''Linear webhook payload is invalid JSON'')
     | Some v \<Rightarrow>
         if \<not> linear_fresh r (as_obj v)
         then Inl (linear_error ''webhook_timestamp_invalid'' ''Linear webhook timestamp is outside tolerance'')
         else if \<not> linear_identity r (as_obj v)
         then Inl (linear_error ''webhook_identity_missing'' ''Linear webhook event identity is missing'')
         else Inr (linear_event r (as_obj v))))"

text \<open>The documentation: signed with the secret, sent within the last minute, and named.\<close>

definition linear_payload :: "webhook_request \<Rightarrow> obj" where
  "linear_payload r = (case decode_map (wh_body r) of None \<Rightarrow> [] | Some v \<Rightarrow> as_obj v)"

definition linear_authentic :: "webhook_request \<Rightarrow> bool" where
  "linear_authentic r \<longleftrightarrow> trim_space (secret (wh_secrets r) ''webhook_secret'') \<noteq> [] \<and> linear_signed r
     \<and> linear_fresh r (linear_payload r)"

definition linear_named :: "webhook_request \<Rightarrow> bool" where
  "linear_named r \<longleftrightarrow> decode_map (wh_body r) \<noteq> None \<and> linear_identity r (linear_payload r)"

interpretation linear_hooks: webhook_verifier linear_verify linear_authentic linear_named
proof (unfold_locales, goal_cases)
  case (1 r) then show ?case
    by (auto simp: linear_verify_def linear_authentic_def linear_named_def linear_payload_def split: option.splits)
next
  case (2 r v) then show ?case
    by (auto simp: linear_verify_def linear_event_def identified_def plain_event_def linear_identity_def Let_def
        split: option.splits if_splits)
next
  case (3 r) then show ?case
    by (simp add: linear_verify_def linear_error_def permanent_only_def split: option.split)
next
  case (4 r m) then show ?case by (simp add: linear_verify_def)
qed

section \<open>monday.com\<close>

text \<open>The monday.com provider (\<^verbatim>\<open>providers/delivery_operations/monday\<close>).\<close>

definition monday_error :: "string \<Rightarrow> string \<Rightarrow> gerr" where
  "monday_error code msg = Permanent (''monday.'' @ code) (Msg msg)"

definition monday_endpoint :: "connection \<Rightarrow> string" where
  "monday_endpoint c = config_default c ''endpoint'' ''https://api.monday.com/v2''"

definition monday_version :: "connection \<Rightarrow> string" where
  "monday_version c = config_default c ''api_version'' ''2026-04''"

text \<open>The pattern \<^verbatim>\<open>^[0-9]{4}-(0[1-9]|1[0-2])$\<close>.\<close>

definition month_version :: "string \<Rightarrow> bool" where
  "month_version s \<longleftrightarrow> length s = 7 \<and> list_all is_digit (take 4 s) \<and> s ! 4 = CHR ''-''
     \<and> drop 5 s \<in> set [''01'', ''02'', ''03'', ''04'', ''05'', ''06'', ''07'', ''08'', ''09'', ''10'', ''11'', ''12'']"

definition monday_validate :: "connection \<Rightarrow> gerr option" where
  "monday_validate c = (case url_parse (monday_endpoint c) of
     None \<Rightarrow> Some (monday_error ''endpoint_invalid'' ''valid monday.com GraphQL endpoint is required'')
   | Some u \<Rightarrow>
      if host u = [] \<or> user u \<noteq> None \<or> \<not> plain_url u
      then Some (monday_error ''endpoint_invalid'' ''valid monday.com GraphQL endpoint is required'')
      else if \<not> official_url (\<lambda>h. equal_fold h ''api.monday.com'') ''/v2'' u
      then Some (monday_error ''endpoint_invalid'' ''official monday.com GraphQL endpoint or loopback HTTP is required'')
      else if \<not> month_version (monday_version c)
      then Some (monday_error ''api_version_invalid'' ''api_version must use YYYY-MM'')
      else if \<not> timeout_120 c
      then Some (monday_error ''timeout_invalid'' ''timeout_seconds must be between 1 and 120'') else None)"

definition monday_plan :: "connection \<Rightarrow> secrets \<Rightarrow> rest_call \<Rightarrow> typed + http_request" where
  "monday_plan c ss k = (let token = trim_space (secret ss ''api_token'') in
     rest_plan (monday_validate c) (token, monday_error ''api_token_required'' ''resolved monday.com API token is required'')
       (Inr (monday_endpoint c)) (rc_body k, monday_error ''request_invalid'' ''monday.com GraphQL request is invalid'')
       (\<lambda>u raw. authorized token (plain_request (rc_method k) u
         (put ''API-Version'' [monday_version c] (json_headers (rc_body k))) raw)))"

subsection \<open>Answers\<close>

text \<open>\<open>mondayGraphQLError\<close>: the last code, and whether one of the errors speaks of a limit.\<close>

definition monday_candidate :: "val \<Rightarrow> string" where
  "monday_candidate x = to_lower (obj_string (as_obj (at (as_obj x) ''extensions'')) ''code'')"

definition monday_limit :: "val \<Rightarrow> bool" where
  "monday_limit x \<longleftrightarrow> contains_str (monday_candidate x) ''limit''
     \<or> int_value (at (as_obj (at (as_obj x) ''extensions'')) ''retry_in_seconds'') 0 > 0"

fun monday_errors :: "string \<times> bool \<Rightarrow> val list \<Rightarrow> string \<times> bool" where
  "monday_errors acc [] = acc"
| "monday_errors (code, retry) (x # xs) =
     monday_errors (if monday_candidate x \<noteq> [] then ''monday.'' @ sanitize_code (monday_candidate x) else code,
       retry \<or> monday_limit x) xs"

definition monday_ref :: "val \<Rightarrow> string" where
  "monday_ref v = (let d = as_obj (at (as_obj v) ''data'');
       i = first_text (map (\<lambda>k. obj_string (as_obj (at d k)) ''id'') [''create_item'', ''change_multiple_column_values'']) in
     if i = [] then [] else ''monday:'' @ i)"

definition monday_ok :: "val \<Rightarrow> string \<Rightarrow> typed" where
  "monday_ok v ref = (let errors = as_arr (at (as_obj v) ''errors'') in
     if errors = [] then accepted_as monday_ref v ref
     else (case monday_errors (''monday.graphql_error'', False) errors of (code, retry) \<Rightarrow>
       (v, ref, Some (if retry then Retryable code (Msg ''monday.com rate limited the operation'')
         else Permanent code (Msg ''monday.com rejected the GraphQL operation'')))))"

definition monday_read :: "bool \<Rightarrow> string + http_response \<Rightarrow> typed" where
  "monday_read = status_read ''monday'' ''monday.com returned HTTP '' ''monday.com response is invalid JSON''
     (\<lambda>m n. ''monday.http_'' @ itoa n) monday_ok"

definition monday_limited :: "val \<Rightarrow> bool" where
  "monday_limited v \<longleftrightarrow> (\<exists>x\<in>set (as_arr (at (as_obj v) ''errors'')). monday_limit x)"

definition monday_busy :: "http_response \<Rightarrow> bool" where
  "monday_busy r \<longleftrightarrow> throttled (resp_status r)
     \<or> ok_status (resp_status r) \<and> monday_limited (map_or_empty (decode_output (resp_body r)))"

lemma monday_errors_retry: "snd (monday_errors acc xs) \<longleftrightarrow> snd acc \<or> (\<exists>x\<in>set xs. monday_limit x)"
  by (induction acc xs rule: monday_errors.induct) auto

lemma monday_ok_limited: "typed_err (monday_ok v ref) = Some e \<Longrightarrow> is_retryable e \<Longrightarrow> monday_limited v"
  using monday_errors_retry [of "(''monday.graphql_error'', False)" "as_arr (at (as_obj v) ''errors'')"]
  by (auto simp: monday_ok_def monday_limited_def Let_def split: if_splits prod.splits)

subsection \<open>Operations\<close>

definition monday_boards_query :: string where
  "monday_boards_query = ''query Boards($limit:Int,$page:Int,$ids:[ID!],$workspace:[ID!]){boards(limit:$limit,page:$page,ids:$ids,workspace_ids:$workspace){id name state board_kind url updated_at columns{id title type settings_str}}}''"

definition monday_items_query :: string where
  "monday_items_query = ''query Items($board:[ID!]!,$limit:Int!,$cursor:String){boards(ids:$board){id name items_page(limit:$limit,cursor:$cursor){cursor items{id name url created_at updated_at group{id title} column_values{id type text value}}}}}''"

definition monday_create_query :: string where
  "monday_create_query = ''mutation Create($board:ID!,$group:String,$name:String!,$values:JSON!){create_item(board_id:$board,group_id:$group,item_name:$name,column_values:$values){id name url}}''"

definition monday_update_query :: string where
  "monday_update_query = ''mutation Update($board:ID!,$item:ID!,$values:JSON!){change_multiple_column_values(board_id:$board,item_id:$item,column_values:$values){id name url}}''"

definition monday_transition_query :: string where
  "monday_transition_query = ''mutation Transition($board:ID!,$item:ID!,$values:JSON!){change_multiple_column_values(board_id:$board,item_id:$item,column_values:$values){id name url}}''"

definition monday_viewer_query :: string where
  "monday_viewer_query = ''query Viewer { me { id name email account { id name } } }''"

definition board_id :: "connection \<Rightarrow> string list \<Rightarrow> string res" where
  "board_id c names = (let board = first_trimmed names; b = (if board = [] then config_text c ''board_id'' else board) in
     if b = [] then Inl (monday_error ''board_required'' ''board is required'') else Inr b)"

fun optional_ids :: "val \<Rightarrow> val" where
  "optional_ids VNil = VNil"
| "optional_ids (VArr vs) = VArr vs"
| "optional_ids (VStrs ss) = VStrs ss"
| "optional_ids (VStr s) = (if trim_space s = [] then VNil else VStrs (map trim_space (split_on (CHR '','') s)))"
| "optional_ids v = VStrs [sprint v]"

text \<open>
  \<open>jsonValue\<close>: a text has to be JSON and is sent as it is. \<open>d\<close> is the JSON text of the map that
  stands in for nil; the nil map that an update passes is not equal to nil once it is a value of
  type \<open>any\<close>, and its text is \<open>null\<close>.
\<close>

fun json_value :: "val \<Rightarrow> string \<Rightarrow> string res" where
  "json_value VNil d = Inr d"
| "json_value (VStr s) d = (if json_parse s = None
     then Inl (monday_error ''column_values_invalid'' ''column values JSON is invalid'') else Inr s)"
| "json_value v d = (case marshal v of
     None \<Rightarrow> Inl (monday_error ''column_values_invalid'' ''column values are invalid'') | Some s \<Rightarrow> Inr s)"

record monday_board =
  mb_board :: string
  mb_project :: string
  mb_gid :: string

definition monday_board_id :: "connection \<Rightarrow> monday_board \<Rightarrow> string res" where
  "monday_board_id c b = board_id c [mb_board b, mb_project b, mb_gid b]"

definition monday_name :: "obj \<Rightarrow> string" where
  "monday_name m = first_text (map (obj_string m) [''item_name'', ''name''])"

definition monday_status :: "string \<Rightarrow> val res" where
  "monday_status t = (if has_prefix (trim_space t) ''{''
     then (case decode_map t of None \<Rightarrow> Inl (monday_error ''transition_invalid'' ''transition JSON is invalid'')
       | Some v \<Rightarrow> Inr v)
     else Inr (VObj [(''label'', VStr t)]))"

datatype monday_input = MondayProjects "int list" int val val | MondayItems monday_board "int list" string string
  | MondayCreate monday_board "obj option" "obj option" | MondayUpdate monday_board string "obj option" "obj option"
  | MondayTransition monday_board string string string | MondayTest

fun monday_call :: "connection \<Rightarrow> monday_input \<Rightarrow> rest_call res" where
  "monday_call c (MondayProjects limits page boards workspaces) =
     Inr (query_call [] (graph_text monday_boards_query (VObj
       [(''limit'', VInt (first_positive (limits @ [50]))), (''page'', VInt (if page \<le> 0 then 1 else page)),
        (''ids'', optional_ids boards), (''workspace'', optional_ids workspaces)])))"
| "monday_call c (MondayItems b limits cursor token) = (case monday_board_id c b of Inl e \<Rightarrow> Inl e
   | Inr board \<Rightarrow> Inr (query_call [] (graph_text monday_items_query (VObj
       [(''board'', VStrs [board]), (''limit'', VInt (first_positive (limits @ [50]))),
        (''cursor'', nullable (VStr (first_trimmed [cursor, token])))]))))"
| "monday_call c (MondayCreate b p s) = (case monday_board_id c b of Inl e \<Rightarrow> Inl e
   | Inr board \<Rightarrow> (let m = members (chosen p s) in
       if monday_name m = [] then Inl (monday_error ''item_name_required'' ''item_name is required'')
       else (case json_value (at m ''column_values'') ''{}'' of Inl e \<Rightarrow> Inl e
       | Inr vs \<Rightarrow> Inr (write_call ''POST'' [] [] (graph_text monday_create_query (VObj
           [(''board'', VStr board), (''group'', nullable (at m ''group_id'')), (''name'', VStr (monday_name m)),
            (''values'', VStr vs)]))))))"
| "monday_call c (MondayUpdate b key p s) = (case monday_board_id c b of Inl e \<Rightarrow> Inl e
   | Inr board \<Rightarrow> (let m = members (chosen p s);
         v = (if at m ''column_values'' = VNil then at m ''values'' else at m ''column_values'');
         invalid = monday_error ''update_fields_required'' ''item_key and valid column values are required'' in
       if trim_space key = [] then Inl invalid
       else (case json_value v ''null'' of Inl e \<Rightarrow> Inl invalid
       | Inr vs \<Rightarrow> Inr (write_call ''POST'' [] [] (graph_text monday_update_query (VObj
           [(''board'', VStr board), (''item'', VStr key), (''values'', VStr vs)]))))))"
| "monday_call c (MondayTransition b key t column) = (case monday_board_id c b of Inl e \<Rightarrow> Inl e
   | Inr board \<Rightarrow> (let col = first_trimmed [column, config_text c ''status_column_id''] in
       if trim_space key = [] \<or> trim_space t = [] \<or> col = []
       then Inl (monday_error ''transition_fields_required'' ''item_key, transition_id, and status column are required'')
       else (case monday_status t of Inl e \<Rightarrow> Inl e
       | Inr v \<Rightarrow> Inr (write_call ''POST'' [] [] (graph_text monday_transition_query (VObj
           [(''board'', VStr board), (''item'', VStr key), (''values'', VStr (marshal_or [] (VObj [(col, v)])))]))))))"
| "monday_call c MondayTest = Inr (query_call [] (graph_text monday_viewer_query VNil))"

definition monday_run where
  "monday_run c ss i = rest_run (monday_plan c ss) monday_read (monday_call c i)"

definition monday_test_connection where
  "monday_test_connection c ss T sent = test_details (monday_run c ss MondayTest T sent)"

subsection \<open>Contracts\<close>

lemma monday_error_permanent [simp]: "is_permanent (monday_error code msg)"
  by (simp add: monday_error_def)

lemma monday_validate_ok: "monday_validate c = None \<Longrightarrow> secure_endpoint (monday_endpoint c)"
  by (auto simp: monday_validate_def secure_endpoint_def official_secure split: option.splits if_splits)

interpretation monday_calls: rest_answers monday_plan monday_endpoint monday_read monday_busy
proof (unfold_locales, goal_cases)
  case (1 c ss k x) then show ?case unfolding monday_plan_def Let_def
    by (rule rest_plan_permanent) (auto simp: monday_validate_def split: if_splits option.splits)
next
  case (2 c ss k q) from 2(1) show ?case unfolding monday_plan_def Let_def
    by (rule plan_stays_whole) (simp_all add: monday_validate_ok)
next
  case (3 a e) then show ?case unfolding monday_read_def monday_busy_def
    by (rule status_read_busy) (rule monday_ok_limited)
next
  case (4 m) show ?case unfolding monday_read_def by (rule status_read_lost)
qed

lemma json_value_permanent: "json_value v d = Inl e \<Longrightarrow> is_permanent e"
  by (cases v) (auto split: if_splits option.splits)

lemma monday_parts_permanent:
  "monday_board_id c b = Inl e \<Longrightarrow> is_permanent e" "monday_status t = Inl e \<Longrightarrow> is_permanent e"
  by (auto simp: monday_board_id_def board_id_def monday_status_def Let_def split: if_splits option.splits)

lemma monday_call_permanent: "monday_call c i = Inl e \<Longrightarrow> is_permanent e"
  by (cases i) (auto simp: Let_def dest: json_value_permanent monday_parts_permanent split: sum.splits if_splits)

lemma monday_call_path: "monday_call c i = Inr k \<Longrightarrow> url_tail (rc_path k)"
  by (cases i) (auto simp: Let_def split: sum.splits if_splits)

definition monday_writes :: "monday_input \<Rightarrow> bool" where
  "monday_writes i \<longleftrightarrow> (case i of MondayCreate _ _ _ \<Rightarrow> True | MondayUpdate _ _ _ _ \<Rightarrow> True
     | MondayTransition _ _ _ _ \<Rightarrow> True | _ \<Rightarrow> False)"

lemma monday_call_write: "monday_call c i = Inr k \<Longrightarrow> rc_write k = monday_writes i"
  by (cases i) (auto simp: monday_writes_def Let_def split: sum.splits if_splits)

lemma monday_cautious:
  "monday_writes i \<Longrightarrow>
    cautious_by monday_busy T sent (monday_run c ss i T sent) (typed_err (snd (monday_run c ss i T sent)))"
  unfolding monday_run_def by (rule monday_calls.run_cautious_by) (auto dest: monday_call_permanent monday_call_write)

lemma monday_stays:
  "fst (monday_run c ss i T sent) = sent
    \<or> (\<exists>q. fst (monday_run c ss i T sent) = sent @ [q] \<and> stays_at (monday_endpoint c) q)"
  unfolding monday_run_def by (rule monday_calls.run_stays) (rule monday_call_path)

text \<open>An update without column values is not refused: it sends \<open>null\<close> for them.\<close>

lemma monday_update_null:
  assumes "trim_space key \<noteq> []" "monday_board_id c b = Inr board" "at (members (chosen p s)) ''column_values'' = VNil"
    "at (members (chosen p s)) ''values'' = VNil"
  shows "monday_call c (MondayUpdate b key p s) = Inr (write_call ''POST'' [] [] (graph_text monday_update_query
    (VObj [(''board'', VStr board), (''item'', VStr key), (''values'', VStr ''null'')])))"
  using assms by simp

end
