(* ===== verification/Chat.thy ===== *)
theory Chat
  imports Delivery Notification
begin

text \<open>
  What the senders of chat messages (\<^verbatim>\<open>providers/collaboration\<close>) share in the same wording: the
  configuration, the choice of the message that is sent, the JSON call and the result of a
  delivery. \<open>pre\<close> is the name of a service in its error codes, \<open>title\<close> the one in its texts.
\<close>

section \<open>Configuration\<close>

definition chat_error :: "string \<Rightarrow> string \<Rightarrow> string \<Rightarrow> gerr" where
  "chat_error pre code msg = Permanent (pre @ ''.'' @ code) (Msg msg)"

text \<open>A configured text with its default; some of the senders take the text \<open><nil>\<close> for an absent one.\<close>

definition clean_default :: "connection \<Rightarrow> string \<Rightarrow> string \<Rightarrow> string" where
  "clean_default c k d = (if clean_at (config c) k \<noteq> [] then clean_at (config c) k else d)"

text \<open>This \<open>intValue\<close> reads any value as decimal text; what is not a number counts as zero.\<close>

definition text_int :: "val \<Rightarrow> int \<Rightarrow> int" where
  "text_int v d = (if v = VNil then d else case atoi (trim_space (sprint v)) of None \<Rightarrow> 0 | Some n \<Rightarrow> n)"

definition chat_timeout :: "string \<Rightarrow> connection \<Rightarrow> gerr option" where
  "chat_timeout pre c = (let t = text_int (at (config c) ''timeout_seconds'') 15 in
     if t < 1 \<or> t > 60 then Some (chat_error pre ''timeout_invalid'' ''timeout_seconds must be between 1 and 60'') else None)"

text \<open>The official host and path over HTTPS, or any path of this machine.\<close>

definition chat_endpoint :: "string \<Rightarrow> string \<Rightarrow> string \<Rightarrow> string \<Rightarrow> (string \<Rightarrow> bool) \<Rightarrow> string \<Rightarrow> gerr option" where
  "chat_endpoint pre valid official h p s = (case url_parse s of
     None \<Rightarrow> Some (chat_error pre ''endpoint_invalid'' valid)
   | Some u \<Rightarrow>
      if host u = [] \<or> user u \<noteq> None then Some (chat_error pre ''endpoint_invalid'' valid)
      else if \<not> (scheme u = ''http'' \<and> is_loopback (hostname u))
        \<and> (scheme u \<noteq> ''https'' \<or> \<not> equal_fold (hostname u) h \<or> \<not> p (escaped_path u))
      then Some (chat_error pre ''endpoint_invalid'' official) else None)"

definition root_path :: "string \<Rightarrow> bool" where
  "root_path s \<longleftrightarrow> s = [] \<or> s = ''/''"

definition under_path :: "string \<Rightarrow> string \<Rightarrow> bool" where
  "under_path p s \<longleftrightarrow> trim_right_char (CHR ''/'') s = p"

text \<open>The checks of a configuration, in their order.\<close>

fun first_error_of :: "gerr option list \<Rightarrow> gerr option" where
  "first_error_of [] = None"
| "first_error_of (None # es) = first_error_of es"
| "first_error_of (Some e # es) = Some e"

section \<open>Messages\<close>

record chat_message =
  cm_recipient :: string
  cm_message :: string
  cm_text :: string
  cm_payload :: obj
  cm_content :: obj

definition chat_text :: "'a chat_message_scheme \<Rightarrow> string" where
  "chat_text i = first_trimmed [cm_message i, cm_text i]"

text \<open>The message compiled from the content, an old payload, or the plain text in the form of the service.\<close>

definition chat_payload :: "string \<Rightarrow> string \<Rightarrow> 'a chat_message_scheme \<Rightarrow> obj \<Rightarrow> obj res" where
  "chat_payload pre service i plain = (case resolve_payload service (cm_content i) (cm_payload i) of
     Inl e \<Rightarrow> Inl (Permanent (pre @ ''.notification_content_invalid'') (content_cause e))
   | Inr m \<Rightarrow> Inr (if m = [] then plain else m))"

definition fields_required :: "string \<Rightarrow> gerr" where
  "fields_required pre = chat_error pre ''message_fields_required'' ''recipient and message are required''"

section \<open>Calls\<close>

text \<open>A token that names itself in the header, and a path behind the base.\<close>

definition chat_plan ::
  "string \<Rightarrow> string \<Rightarrow> gerr option \<Rightarrow> string \<Rightarrow> string \<times> gerr \<Rightarrow> string \<Rightarrow> rest_call \<Rightarrow> typed + http_request" where
  "chat_plan pre title validated base token kind k = rest_plan validated token (Inr (text_target base (rc_path k) []))
     (rc_body k, chat_error pre ''request_invalid'' (title @ '' request body is invalid''))
     (\<lambda>u raw. authorized (kind @ '' '' @ fst token) (plain_request (rc_method k) u (json_headers (rc_body k)) raw))"

definition chat_code :: "string \<Rightarrow> obj \<Rightarrow> int \<Rightarrow> string" where
  "chat_code pre m n = pre @ ''.http_'' @ itoa n"

definition chat_read :: "string \<Rightarrow> string \<Rightarrow> bool \<Rightarrow> string + http_response \<Rightarrow> typed" where
  "chat_read pre title = status_read pre ''provider returned HTTP '' (title @ '' response is invalid JSON'')
     (chat_code pre) (\<lambda>v ref. (v, ref, None))"

text \<open>The result of a delivery is a reference: the one of an error, or one made of the accepted answer.\<close>

definition delivered_as :: "(val \<Rightarrow> string) \<Rightarrow> typed \<Rightarrow> typed" where
  "delivered_as ref_of x = (case x of (v, ref, e) \<Rightarrow> (VNil, if e = None then ref_of v else ref, e))"

definition accepted_ref :: "string \<Rightarrow> string \<Rightarrow> string" where
  "accepted_ref pre i = pre @ '':'' @ (if i \<noteq> [] then i else ''message:accepted'')"

text \<open>The test operation reports the answer under a name, along with its error.\<close>

definition connected_as :: "string \<Rightarrow> typed \<Rightarrow> typed" where
  "connected_as k x = (case x of (v, ref, e) \<Rightarrow> (VObj [(''connected'', VBool (e = None)), (k, v)], ref, e))"

section \<open>Contracts\<close>

lemma chat_error_permanent [simp]: "is_permanent (chat_error pre code msg)"
  by (simp add: chat_error_def)

lemma fields_required_permanent [simp]: "is_permanent (fields_required pre)"
  by (simp add: fields_required_def)

lemma chat_endpoint_ok: "chat_endpoint pre valid official h p s = None \<Longrightarrow> secure_endpoint s"
  by (auto simp: chat_endpoint_def secure_endpoint_def secure_url_def simp del: not_None_eq split: option.splits if_splits)

lemma chat_endpoint_permanent: "chat_endpoint pre valid official h p s = Some e \<Longrightarrow> is_permanent e"
  by (auto simp: chat_endpoint_def simp del: not_None_eq split: option.splits if_splits)

lemma chat_timeout_permanent: "chat_timeout pre c = Some e \<Longrightarrow> is_permanent e"
  by (auto simp: chat_timeout_def Let_def split: if_splits)

lemma first_error_of_None: "first_error_of es = None \<longleftrightarrow> (\<forall>e \<in> set es. e = None)"
  by (induction es rule: first_error_of.induct) auto

lemma first_error_of_Some: "first_error_of es = Some e \<Longrightarrow> Some e \<in> set es"
  by (induction es rule: first_error_of.induct) auto

lemma chat_payload_permanent: "chat_payload pre service i plain = Inl e \<Longrightarrow> is_permanent e"
  by (auto simp: chat_payload_def split: sum.splits)

lemma chat_plan_permanent:
  assumes "chat_plan pre title validated base token kind k = Inl x" "\<And>e. validated = Some e \<Longrightarrow> is_permanent e"
    "is_permanent (snd token)"
  shows "\<exists>e. typed_err x = Some e \<and> is_permanent e"
  using assms(1) unfolding chat_plan_def by (rule rest_plan_permanent) (use assms(2,3) in simp_all)

lemma chat_plan_stays:
  assumes "chat_plan pre title validated base token kind k = Inr q" "url_tail (rc_path k)"
    "validated = None \<Longrightarrow> secure_endpoint base"
  shows "stays_at base q"
  using assms(1) unfolding chat_plan_def by (rule plan_stays_text) (use assms(2,3) in simp_all)

lemma chat_read_cautious:
  assumes "typed_err (chat_read pre title True a) = Some e" "is_retryable e"
  shows "\<exists>r. a = Inr r \<and> throttled (resp_status r)"
  using assms unfolding chat_read_def by (rule status_read_cautious) simp

lemma chat_read_lost: "\<exists>e. typed_err (chat_read pre title True (Inl m)) = Some e \<and> is_uncertain e"
  unfolding chat_read_def by (rule status_read_lost)

text \<open>A result that is worded anew keeps its error.\<close>

lemma delivered_as_err [simp]: "typed_err (delivered_as f x) = typed_err x"
  by (simp add: delivered_as_def split: prod.split)

lemma connected_as_err [simp]: "typed_err (connected_as k x) = typed_err x"
  by (simp add: connected_as_def split: prod.split)

lemma worded_cautious:
  assumes "cautious_by busy T sent r (typed_err (snd r))"
    "\<And>x e. typed_err x = Some e \<Longrightarrow> typed_err (f x) = Some e"
    "\<And>x e. typed_err x = None \<Longrightarrow> typed_err (f x) = Some e \<Longrightarrow> \<not> is_retryable e"
  shows "cautious_by busy T sent (apsnd f r) (typed_err (snd (apsnd f r)))"
  using assms(1) assms(2,3) [of "snd r"]
  by (cases "typed_err (snd r)") (auto simp: cautious_by_def split: sum.splits)

lemma worded_same:
  assumes "cautious_by busy T sent r (typed_err (snd r))" "\<And>x. typed_err (f x) = typed_err x"
  shows "cautious_by busy T sent (apsnd f r) (typed_err (snd (apsnd f r)))"
  using assms(1) by (rule worded_cautious) (simp_all add: assms(2))

end
