(* ===== verification/ChatHooks.thy ===== *)
theory ChatHooks
  imports Chat Crypto
begin

text \<open>The senders that also verify webhooks: Discord and Slack.\<close>

section \<open>Discord\<close>

text \<open>
  The Discord provider (\<^verbatim>\<open>providers/collaboration/discord\<close>). The Ed25519 verification of the
  standard library is a parameter: whether a key accepts a signature of a message.
\<close>

definition discord_base :: "connection \<Rightarrow> string" where
  "discord_base c = trim_right_char (CHR ''/'') (map_default c ''api_base_url'' ''https://discord.com/api/v10'')"

text \<open>A service on this machine is not asked for its timeout.\<close>

definition on_this_machine :: "string \<Rightarrow> bool" where
  "on_this_machine s = (case url_parse s of None \<Rightarrow> False | Some u \<Rightarrow> scheme u = ''http'' \<and> is_loopback (hostname u))"

definition discord_validate :: "connection \<Rightarrow> gerr option" where
  "discord_validate c = first_error_of
     [chat_endpoint ''discord'' ''valid Discord endpoint is required''
        ''official Discord API v10 endpoint or loopback HTTP is required'' ''discord.com'' (under_path ''/api/v10'')
        (discord_base c),
      if on_this_machine (discord_base c) then None else chat_timeout ''discord'' c]"

definition discord_plan :: "connection \<Rightarrow> secrets \<Rightarrow> rest_call \<Rightarrow> typed + http_request" where
  "discord_plan c ss = chat_plan ''discord'' ''Discord'' (discord_validate c) (discord_base c)
     (trim_space (secret ss ''bot_token''), chat_error ''discord'' ''bot_token_required'' ''resolved Discord bot token is required'') ''Bot''"

definition discord_read :: "bool \<Rightarrow> string + http_response \<Rightarrow> typed" where
  "discord_read = chat_read ''discord'' ''Discord''"

subsection \<open>Operations\<close>

record discord_message = chat_message +
  dm_channel :: string

datatype discord_input = DiscordSend string discord_message | DiscordTest

definition discord_channel :: "connection \<Rightarrow> discord_message \<Rightarrow> string" where
  "discord_channel c i = first_trimmed [dm_channel i, cm_recipient i, map_default c ''channel_id'' []]"

text \<open>The reference of the request keeps Discord from taking a message twice.\<close>

definition discord_nonce :: "string \<Rightarrow> obj \<Rightarrow> obj" where
  "discord_nonce ref m = (if ref = [] then m else put ''enforce_nonce'' (VBool True) (put ''nonce'' (VStr ref) m))"

fun discord_call :: "connection \<Rightarrow> discord_input \<Rightarrow> rest_call res" where
  "discord_call c (DiscordSend ref i) =
     (if discord_channel c i = [] \<or> chat_text i = []
      then Inl (chat_error ''discord'' ''message_fields_required'' ''recipient or channel_id and message are required'')
      else (case chat_payload ''discord'' ''discord'' i [(''content'', VStr (chat_text i))] of
        Inl e \<Rightarrow> Inl e
      | Inr m \<Rightarrow> Inr (write_call ''POST'' (''/channels/'' @ path_escape (discord_channel c i) @ ''/messages'') []
          (marshal (VObj (discord_nonce ref m))))))"
| "discord_call c DiscordTest = Inr (get_call ''/users/@me'' [])"

fun discord_result :: "discord_input \<Rightarrow> typed \<Rightarrow> typed" where
  "discord_result (DiscordSend ref i) = delivered_as (\<lambda>v. accepted_ref ''discord'' (map_string (as_obj v) ''id''))"
| "discord_result DiscordTest = connected_as ''bot''"

definition discord_run ::
  "connection \<Rightarrow> secrets \<Rightarrow> discord_input \<Rightarrow> http \<Rightarrow> http_request list \<Rightarrow> http_request list \<times> typed" where
  "discord_run c ss i T sent = apsnd (discord_result i) (rest_run (discord_plan c ss) discord_read (discord_call c i) T sent)"

definition discord_test_connection where
  "discord_test_connection c ss T sent = test_details (discord_run c ss DiscordTest T sent)"

subsection \<open>Contracts\<close>

lemma discord_validate_ok: "discord_validate c = None \<Longrightarrow> secure_endpoint (discord_base c)"
  by (auto simp: discord_validate_def first_error_of_None intro: chat_endpoint_ok)

lemma discord_validate_permanent: "discord_validate c = Some e \<Longrightarrow> is_permanent e"
  unfolding discord_validate_def
  by (drule first_error_of_Some) (auto intro: chat_endpoint_permanent chat_timeout_permanent split: if_splits)

interpretation discord_calls: rest_provider discord_plan discord_read discord_base
  unfolding discord_read_def
  by unfold_locales
    (auto simp: discord_plan_def intro: chat_plan_permanent chat_plan_stays discord_validate_ok
      discord_validate_permanent chat_read_cautious chat_read_lost)

lemma discord_call_path: "discord_call c i = Inr k \<Longrightarrow> url_tail (rc_path k)"
  by (cases i) (auto split: sum.splits if_splits)

lemma discord_stays:
  "fst (discord_run c ss i T sent) = sent \<or> (\<exists>q. fst (discord_run c ss i T sent) = sent @ [q] \<and> stays_at (discord_base c) q)"
  using discord_calls.run_stays [OF discord_call_path, where c = c and ss = ss and T = T and sent = sent]
  by (simp add: discord_run_def)

lemma discord_result_err: "typed_err (discord_result i x) = typed_err x"
  by (cases i) simp_all

lemma discord_cautious:
  "i \<noteq> DiscordTest \<Longrightarrow> cautious_by (\<lambda>r. throttled (resp_status r)) T sent (discord_run c ss i T sent)
    (typed_err (snd (discord_run c ss i T sent)))"
  unfolding discord_run_def
  by (rule worded_same [OF discord_calls.run_cautious_by discord_result_err]; cases i)
    (auto intro: chat_payload_permanent split: sum.splits if_splits)

subsection \<open>Interactions\<close>

text \<open>\<^verbatim>\<open>hex.DecodeString\<close>.\<close>

definition hex_digit :: "char \<Rightarrow> nat option" where
  "hex_digit c = (let n = of_char c in
     if 48 \<le> n \<and> n \<le> 57 then Some (n - 48) else if 97 \<le> n \<and> n \<le> 102 then Some (n - 87)
     else if 65 \<le> n \<and> n \<le> 70 then Some (n - 55) else None)"

fun hex_decode :: "string \<Rightarrow> string option" where
  "hex_decode [] = Some []"
| "hex_decode [c] = None"
| "hex_decode (c # d # s) = (case (hex_digit c, hex_digit d, hex_decode s) of
     (Some m, Some n, Some t) \<Rightarrow> Some (char_of (16 * m + n) # t) | _ \<Rightarrow> None)"

type_synonym ed25519 = "string \<Rightarrow> string \<Rightarrow> string \<Rightarrow> bool"

definition discord_key :: "webhook_request \<Rightarrow> string option" where
  "discord_key r = (case hex_decode (map_default (wh_connection r) ''application_public_key'' []) of
     None \<Rightarrow> None | Some k \<Rightarrow> if length k = 32 then Some k else None)"

definition discord_signed :: "ed25519 \<Rightarrow> string \<Rightarrow> webhook_request \<Rightarrow> bool" where
  "discord_signed verify key r \<longleftrightarrow> (let t = header_trimmed (wh_headers r) ''X-Signature-Timestamp'' in
     t \<noteq> [] \<and> (case hex_decode (header_trimmed (wh_headers r) ''X-Signature-Ed25519'') of
       None \<Rightarrow> False | Some s \<Rightarrow> length s = 64 \<and> verify key (t @ wh_body r) s))"

definition discord_ping :: "obj \<Rightarrow> bool" where
  "discord_ping m \<longleftrightarrow> text_int (at m ''type'') 0 = 1"

definition discord_event :: "webhook_request \<Rightarrow> obj \<Rightarrow> verified_webhook" where
  "discord_event r m =
     (if discord_ping m
      then (plain_event ''ping'' (''ping:'' @ header_trimmed (wh_headers r) ''X-Signature-Timestamp'') (wh_body r))
        \<lparr>event_challenge := ''{\"type\":1}'', challenge_format := ''application/json'', event_security := signed_at None\<rparr>
      else let u = as_obj (at (as_obj (at m ''member'')) ''user'') in
        (plain_event ''interaction'' (''discord:'' @ map_string m ''id'') (wh_body r))
        \<lparr>event_security := signed_at None,
         event_identity := identity_of (map_string u ''id'') ''discord_user''
           (first_trimmed [map_string u ''global_name'', map_string u ''username'']) []\<rparr>)"

definition discord_verify :: "ed25519 \<Rightarrow> webhook_request \<Rightarrow> verified_webhook res" where
  "discord_verify verify r = (case wh_context r of Some m \<Rightarrow> Inl (Plain m) | None \<Rightarrow>
     (case discord_key r of
       None \<Rightarrow> Inl (chat_error ''discord'' ''public_key_invalid'' ''Discord application public key is invalid'')
     | Some key \<Rightarrow>
         if \<not> discord_signed verify key r
         then Inl (chat_error ''discord'' ''signature_invalid'' ''Discord interaction signature is invalid'')
         else (case decode_map (wh_body r) of
           None \<Rightarrow> Inl (chat_error ''discord'' ''payload_invalid'' ''Discord interaction payload is invalid JSON'')
         | Some v \<Rightarrow>
             if \<not> discord_ping (as_obj v) \<and> map_string (as_obj v) ''id'' = []
             then Inl (chat_error ''discord'' ''identity_missing'' ''Discord interaction ID is required'')
             else Inr (discord_event r (as_obj v)))))"

text \<open>The documentation: signed with the key of the application; a ping, or an interaction with an identity.\<close>

definition discord_authentic :: "ed25519 \<Rightarrow> webhook_request \<Rightarrow> bool" where
  "discord_authentic verify r \<longleftrightarrow> (case discord_key r of None \<Rightarrow> False | Some key \<Rightarrow> discord_signed verify key r)"

definition discord_named :: "webhook_request \<Rightarrow> bool" where
  "discord_named r \<longleftrightarrow> (case decode_map (wh_body r) of None \<Rightarrow> False
     | Some v \<Rightarrow> discord_ping (as_obj v) \<or> map_string (as_obj v) ''id'' \<noteq> [])"

interpretation discord_hooks: webhook_verifier "discord_verify verify" "discord_authentic verify" discord_named for verify
proof (unfold_locales, goal_cases)
  case (1 r) then show ?case
    by (auto simp: discord_verify_def discord_authentic_def discord_named_def split: option.splits)
next
  case (2 r v) then show ?case
    by (auto simp: discord_verify_def discord_event_def identified_def plain_event_def Let_def split: option.splits if_splits)
next
  case (3 r) then show ?case by (simp add: discord_verify_def permanent_only_def split: option.split)
next
  case (4 r m) then show ?case by (simp add: discord_verify_def)
qed

section \<open>Slack\<close>

text \<open>The Slack provider (\<^verbatim>\<open>providers/collaboration/slack\<close>).\<close>

definition slack_base :: "connection \<Rightarrow> string" where
  "slack_base c = trim_right_char (CHR ''/'') (clean_default c ''api_base_url'' ''https://slack.com/api'')"

definition slack_validate :: "connection \<Rightarrow> gerr option" where
  "slack_validate c = first_error_of
     [chat_endpoint ''slack'' ''valid Slack Web API endpoint is required''
        ''official Slack Web API endpoint or loopback HTTP is required'' ''slack.com'' (under_path ''/api'') (slack_base c),
      chat_timeout ''slack'' c]"

definition slack_plan :: "connection \<Rightarrow> secrets \<Rightarrow> rest_call \<Rightarrow> typed + http_request" where
  "slack_plan c ss k = (let token = trim_space (secret ss ''bot_token'') in
     rest_plan (slack_validate c) (token, chat_error ''slack'' ''bot_token_required'' ''resolved Slack bot token is required'')
       (Inr (text_target (slack_base c) (rc_path k) []))
       (rc_body k, chat_error ''slack'' ''request_invalid'' ''Slack request body is invalid'')
       (\<lambda>u raw. authorized (''Bearer '' @ token) (plain_request ''POST'' u
         [(''Accept'', [''application/json'']), (''Content-Type'', [''application/json; charset=utf-8''])] raw)))"

definition slack_part :: "string \<Rightarrow> string" where
  "slack_part s = (let t = filter (\<lambda>c. c \<in> set ''abcdefghijklmnopqrstuvwxyz0123456789_'') (to_lower (trim_space s)) in
     if t = [] then ''unknown'' else t)"

definition slack_limited :: "val \<Rightarrow> bool" where
  "slack_limited v \<longleftrightarrow> at (as_obj v) ''ok'' \<noteq> VBool True \<and> clean_at (as_obj v) ''error'' = ''ratelimited''"

text \<open>A success says whether it is one.\<close>

definition slack_ok :: "val \<Rightarrow> val \<Rightarrow> string \<Rightarrow> typed" where
  "slack_ok raw v ref =
     (if at (as_obj v) ''ok'' = VBool True then (v, ref, None)
      else if slack_limited v then (v, ref, Some (Retryable ''slack.provider_ratelimited'' (Msg ''Slack rate limited the request'')))
      else (v, ref, Some (Permanent (''slack.provider_'' @ slack_part (clean_at (as_obj v) ''error''))
        (Msg ''Slack rejected the request''))))"

definition slack_read :: "bool \<Rightarrow> string + http_response \<Rightarrow> typed" where
  "slack_read = answer_read decode_map map_or_empty ''slack'' ''Slack returned HTTP '' ''Slack response is invalid JSON''
     (chat_code ''slack'') slack_ok"

subsection \<open>Operations\<close>

text \<open>The identity of a message, from the reference of the request, the channel and the text.\<close>

definition slack_message_id :: "string \<Rightarrow> string" where
  "slack_message_id s = (let h = hex_encode (take 16 (sha256 s)) in
     take 8 h @ ''-'' @ take 4 (drop 8 h) @ ''-'' @ take 4 (drop 12 h) @ ''-'' @ take 4 (drop 16 h) @ ''-'' @ take 12 (drop 20 h))"

datatype slack_input = SlackSend string chat_message | SlackTest

definition slack_message :: "string \<Rightarrow> chat_message \<Rightarrow> obj \<Rightarrow> obj" where
  "slack_message ref i m = (let channel = trim_space (cm_recipient i) in
     put ''client_msg_id'' (VStr (slack_message_id (ref @ [CHR 0x00] @ channel @ [CHR 0x00] @ chat_text i)))
       (put ''channel'' (VStr channel) m))"

fun slack_call :: "slack_input \<Rightarrow> rest_call res" where
  "slack_call (SlackSend ref i) =
     (if trim_space (cm_recipient i) = [] \<or> chat_text i = [] then Inl (fields_required ''slack'')
      else (case chat_payload ''slack'' ''slack'' i [(''text'', VStr (chat_text i))] of
        Inl e \<Rightarrow> Inl e
      | Inr m \<Rightarrow> Inr (write_call ''POST'' ''/chat.postMessage'' [] (marshal (VObj (slack_message ref i m))))))"
| "slack_call SlackTest = Inr (query_call ''/auth.test'' (marshal (VObj [])))"

fun slack_result :: "slack_input \<Rightarrow> typed \<Rightarrow> typed" where
  "slack_result (SlackSend sent_ref i) (v, ref, e) =
     (if e \<noteq> None then (VNil, ref, e)
      else let ts = clean_at (as_obj v) ''ts'' in
        if ts = [] then (VNil, ref, Some (Uncertain ''slack.message_response_invalid'' (Msg ''Slack response lacks message timestamp'')))
        else (VNil, ''slack:'' @ ts, None))"
| "slack_result SlackTest (v, ref, e) = (VObj [(''connected'', VBool (e = None)), (''team_id'', at (as_obj v) ''team_id''),
     (''user_id'', at (as_obj v) ''user_id'')], ref, e)"

definition slack_run ::
  "connection \<Rightarrow> secrets \<Rightarrow> slack_input \<Rightarrow> http \<Rightarrow> http_request list \<Rightarrow> http_request list \<times> typed" where
  "slack_run c ss i T sent = apsnd (slack_result i) (rest_run (slack_plan c ss) slack_read (slack_call i) T sent)"

definition slack_test_connection where
  "slack_test_connection c ss T sent = test_details (slack_run c ss SlackTest T sent)"

subsection \<open>Contracts\<close>

lemma slack_validate_ok: "slack_validate c = None \<Longrightarrow> secure_endpoint (slack_base c)"
  by (auto simp: slack_validate_def first_error_of_None intro: chat_endpoint_ok)

lemma slack_validate_permanent: "slack_validate c = Some e \<Longrightarrow> is_permanent e"
  unfolding slack_validate_def
  by (drule first_error_of_Some) (auto intro: chat_endpoint_permanent chat_timeout_permanent)

definition slack_busy :: "http_response \<Rightarrow> bool" where
  "slack_busy r \<longleftrightarrow> throttled (resp_status r)
     \<or> ok_status (resp_status r) \<and> slack_limited (map_or_empty (decode_map (resp_body r)))"

lemma slack_plan_stays: "slack_plan c ss k = Inr q \<Longrightarrow> url_tail (rc_path k) \<Longrightarrow> stays_at (slack_base c) q"
  unfolding slack_plan_def Let_def by (erule plan_stays_text) (simp_all add: slack_validate_ok)

lemma slack_plan_permanent: "slack_plan c ss k = Inl x \<Longrightarrow> \<exists>e. typed_err x = Some e \<and> is_permanent e"
  unfolding slack_plan_def Let_def by (erule rest_plan_permanent) (auto intro: slack_validate_permanent)

interpretation slack_calls: rest_answers slack_plan slack_base slack_read slack_busy
proof (unfold_locales, goal_cases)
  case (1 c ss k x) then show ?case by (rule slack_plan_permanent)
next
  case (2 c ss k q) then show ?case by (rule slack_plan_stays)
next
  case (3 a e) then show ?case
    by (cases a) (auto simp: slack_read_def slack_busy_def answer_read_def slack_ok_def status_error_def throttled_def
        map_or_empty_def Let_def split: if_splits option.splits)
next
  case (4 m) show ?case unfolding slack_read_def by (rule answer_read_lost)
qed

lemma slack_call_path: "slack_call i = Inr k \<Longrightarrow> url_tail (rc_path k)"
  by (cases i) (auto split: sum.splits if_splits)

lemma slack_stays:
  "fst (slack_run c ss i T sent) = sent \<or> (\<exists>q. fst (slack_run c ss i T sent) = sent @ [q] \<and> stays_at (slack_base c) q)"
  using slack_calls.run_stays [OF slack_call_path, where c = c and ss = ss and T = T and sent = sent]
  by (simp add: slack_run_def)

lemma slack_result_err:
  "typed_err x = Some e \<Longrightarrow> typed_err (slack_result i x) = Some e"
  "typed_err x = None \<Longrightarrow> typed_err (slack_result i x) = Some e \<Longrightarrow> \<not> is_retryable e"
  by (cases "(i, x)" rule: slack_result.cases; auto simp: Let_def split: if_splits)+

lemma slack_cautious:
  assumes "i \<noteq> SlackTest"
  shows "cautious_by slack_busy T sent (slack_run c ss i T sent)
    (typed_err (snd (slack_run c ss i T sent)))"
proof -
  let ?r = "rest_run (slack_plan c ss) slack_read (slack_call i) T sent"
  have "cautious_by (slack_busy) T sent ?r (typed_err (snd ?r))"
    by (rule slack_calls.run_cautious_by; use assms in \<open>cases i\<close>)
      (auto intro: chat_payload_permanent split: sum.splits if_splits)
  then show ?thesis unfolding slack_run_def by (rule worded_cautious) (fact slack_result_err)+
qed

subsection \<open>Events\<close>

text \<open>The names of the headers are trimmed first.\<close>

definition slack_header :: "webhook_request \<Rightarrow> string \<Rightarrow> string" where
  "slack_header r k = header_trimmed (map (apfst trim_space) (wh_headers r)) k"

definition slack_time :: "webhook_request \<Rightarrow> int option" where
  "slack_time r = (case parse_int64 (slack_header r ''X-Slack-Request-Timestamp'') of
     (n, ok) \<Rightarrow> if \<not> ok \<or> n \<le> 0 then None else Some n)"

definition slack_fresh :: "webhook_request \<Rightarrow> int \<Rightarrow> bool" where
  "slack_fresh r t \<longleftrightarrow> \<bar>wrap64 (received_at r div nanos - t)\<bar> \<le> 300"

definition slack_signed :: "webhook_request \<Rightarrow> bool" where
  "slack_signed r \<longleftrightarrow> ''v0='' @ hmac_sha256_hex (trim_space (secret (wh_secrets r) ''signing_secret''))
       (''v0:'' @ slack_header r ''X-Slack-Request-Timestamp'' @ '':'' @ wh_body r)
     = slack_header r ''X-Slack-Signature''"

definition slack_event :: "webhook_request \<Rightarrow> int \<Rightarrow> obj \<Rightarrow> verified_webhook res" where
  "slack_event r t m =
     (if clean_at m ''type'' = ''url_verification''
      then let ch = clean_at m ''challenge'' in
        if ch = [] then Inl (chat_error ''slack'' ''webhook_challenge_invalid'' ''Slack webhook challenge is missing'')
        else Inr ((plain_event ''url_verification'' (''challenge:'' @ ch) (wh_body r))
          \<lparr>event_challenge := ch, event_security := signed_at (Some t)\<rparr>)
      else let e = as_obj (at m ''event'') in
        if clean_at m ''event_id'' = [] \<or> clean_at e ''type'' = []
        then Inl (chat_error ''slack'' ''webhook_identity_missing'' ''Slack webhook event identity is missing'')
        else Inr ((plain_event (clean_at e ''type'') (clean_at m ''event_id'') (wh_body r))
          \<lparr>event_security := signed_at (Some t),
           event_identity := identity_of (clean_at e ''user'') ''slack_user'' (clean_at e ''username'') (clean_at e ''channel'')\<rparr>))"

definition slack_verify :: "webhook_request \<Rightarrow> verified_webhook res" where
  "slack_verify r = (case wh_context r of Some m \<Rightarrow> Inl (Plain m) | None \<Rightarrow>
     if trim_space (secret (wh_secrets r) ''signing_secret'') = []
     then Inl (chat_error ''slack'' ''webhook_signing_secret_required'' ''resolved Slack signing secret is required'')
     else (case slack_time r of
       None \<Rightarrow> Inl (chat_error ''slack'' ''webhook_timestamp_invalid'' ''Slack webhook timestamp is invalid'')
     | Some t \<Rightarrow>
         if \<not> slack_fresh r t
         then Inl (chat_error ''slack'' ''webhook_timestamp_out_of_range'' ''Slack webhook timestamp is outside tolerance'')
         else if \<not> slack_signed r
         then Inl (chat_error ''slack'' ''webhook_signature_invalid'' ''Slack webhook signature does not match'')
         else (case decode_map (wh_body r) of
           None \<Rightarrow> Inl (chat_error ''slack'' ''webhook_payload_invalid'' ''Slack webhook payload is invalid JSON'')
         | Some v \<Rightarrow> slack_event r t (as_obj v))))"

text \<open>The documentation: signed within five minutes of the time it names; a challenge, or an event with an identity.\<close>

definition slack_authentic :: "webhook_request \<Rightarrow> bool" where
  "slack_authentic r \<longleftrightarrow> trim_space (secret (wh_secrets r) ''signing_secret'') \<noteq> [] \<and> slack_signed r
     \<and> (case slack_time r of None \<Rightarrow> False | Some t \<Rightarrow> slack_fresh r t)"

definition slack_named :: "webhook_request \<Rightarrow> bool" where
  "slack_named r \<longleftrightarrow> (case decode_map (wh_body r) of None \<Rightarrow> False
     | Some v \<Rightarrow> let m = as_obj v in
         if clean_at m ''type'' = ''url_verification'' then clean_at m ''challenge'' \<noteq> []
         else clean_at m ''event_id'' \<noteq> [] \<and> clean_at (as_obj (at m ''event'')) ''type'' \<noteq> [])"

interpretation slack_hooks: webhook_verifier slack_verify slack_authentic slack_named
proof (unfold_locales, goal_cases)
  case (1 r) then show ?case
    by (auto simp: slack_verify_def slack_authentic_def slack_named_def slack_event_def Let_def split: option.splits)
next
  case (2 r v) then show ?case
    by (auto simp: slack_verify_def slack_event_def identified_def plain_event_def Let_def split: option.splits if_splits)
next
  case (3 r) then show ?case
    by (auto simp: slack_verify_def slack_event_def permanent_only_def Let_def split: option.split)
next
  case (4 r m) then show ?case by (simp add: slack_verify_def)
qed

end
