(* ===== verification/ChatSenders.thy ===== *)
theory ChatSenders
  imports Chat Crypto Base64
begin

text \<open>The senders that only send: LINE, LINE WORKS, Google Chat, DingTalk and Enterprise WeChat.\<close>

section \<open>LINE\<close>

text \<open>The LINE provider (\<^verbatim>\<open>providers/collaboration/line\<close>).\<close>

definition line_base :: "connection \<Rightarrow> string" where
  "line_base c = trim_right_char (CHR ''/'') (clean_default c ''api_base_url'' ''https://api.line.me'')"

definition line_validate :: "connection \<Rightarrow> gerr option" where
  "line_validate c = first_error_of
     [chat_endpoint ''line'' ''valid LINE Messaging API endpoint is required''
        ''official LINE API endpoint or loopback HTTP is required'' ''api.line.me'' root_path (line_base c),
      chat_timeout ''line'' c]"

definition line_plan :: "connection \<Rightarrow> secrets \<Rightarrow> rest_call \<Rightarrow> typed + http_request" where
  "line_plan c ss = chat_plan ''line'' ''LINE'' (line_validate c) (line_base c)
     (trim_space (secret ss ''channel_access_token''),
      chat_error ''line'' ''channel_access_token_required'' ''resolved LINE channel access token is required'') ''Bearer''"

text \<open>The reference of an accepted message is in a header of the answer.\<close>

definition line_read :: "bool \<Rightarrow> string + http_response \<Rightarrow> typed" where
  "line_read write answer = (case chat_read ''line'' ''LINE'' write answer of (v, ref, e) \<Rightarrow>
     (case answer of Inl m \<Rightarrow> (v, ref, e)
      | Inr r \<Rightarrow> (v, if write \<and> e = None
          then accepted_ref ''line'' (header_trimmed (resp_headers r) ''X-Line-Request-Id'') else ref, e)))"

subsection \<open>Operations\<close>

datatype line_input = LineSend chat_message | LineTest

fun line_call :: "line_input \<Rightarrow> rest_call res" where
  "line_call (LineSend i) =
     (if trim_space (cm_recipient i) = [] \<or> chat_text i = [] then Inl (fields_required ''line'')
      else (case chat_payload ''line'' ''line'' i
          [(''messages'', VArr [VObj [(''type'', VStr ''text''), (''text'', VStr (chat_text i))]])] of
        Inl e \<Rightarrow> Inl e
      | Inr m \<Rightarrow> Inr (write_call ''POST'' ''/v2/bot/message/push'' []
          (marshal (VObj (put ''to'' (VStr (trim_space (cm_recipient i))) m))))))"
| "line_call LineTest = Inr (get_call ''/v2/bot/info'' [])"

fun line_result :: "line_input \<Rightarrow> typed \<Rightarrow> typed" where
  "line_result (LineSend i) = (\<lambda>(v, ref, e). (VNil, ref, e))"
| "line_result LineTest = connected_as ''bot''"

definition line_run ::
  "connection \<Rightarrow> secrets \<Rightarrow> line_input \<Rightarrow> http \<Rightarrow> http_request list \<Rightarrow> http_request list \<times> typed" where
  "line_run c ss i T sent = apsnd (line_result i) (rest_run (line_plan c ss) line_read (line_call i) T sent)"

definition line_test_connection where
  "line_test_connection c ss T sent = test_details (line_run c ss LineTest T sent)"

subsection \<open>Contracts\<close>

lemma line_validate_ok: "line_validate c = None \<Longrightarrow> secure_endpoint (line_base c)"
  by (auto simp: line_validate_def first_error_of_None intro: chat_endpoint_ok)

lemma line_validate_permanent: "line_validate c = Some e \<Longrightarrow> is_permanent e"
  unfolding line_validate_def
  by (drule first_error_of_Some) (auto intro: chat_endpoint_permanent chat_timeout_permanent)

lemma line_read_err [simp]: "typed_err (line_read w a) = typed_err (chat_read ''line'' ''LINE'' w a)"
  by (simp add: line_read_def split: prod.split sum.split)

interpretation line_calls: rest_provider line_plan line_read line_base
  by unfold_locales
    (auto simp: line_plan_def intro: chat_plan_permanent chat_plan_stays line_validate_ok
      line_validate_permanent chat_read_cautious chat_read_lost)

lemma line_call_path: "line_call i = Inr k \<Longrightarrow> url_tail (rc_path k)"
  by (cases i) (auto split: sum.splits if_splits)

lemma line_stays:
  "fst (line_run c ss i T sent) = sent \<or> (\<exists>q. fst (line_run c ss i T sent) = sent @ [q] \<and> stays_at (line_base c) q)"
  using line_calls.run_stays [OF line_call_path, where c = c and ss = ss and T = T and sent = sent]
  by (simp add: line_run_def)

lemma line_result_err: "typed_err (line_result i x) = typed_err x"
  by (cases i) (simp_all split: prod.split)

lemma line_cautious:
  "i \<noteq> LineTest \<Longrightarrow> cautious_by (\<lambda>r. throttled (resp_status r)) T sent (line_run c ss i T sent)
    (typed_err (snd (line_run c ss i T sent)))"
  unfolding line_run_def
  by (rule worded_same [OF line_calls.run_cautious_by line_result_err]; cases i)
    (auto intro: chat_payload_permanent split: sum.splits if_splits)

section \<open>LINE WORKS\<close>

text \<open>The LINE WORKS provider (\<^verbatim>\<open>providers/collaboration/line_works\<close>).\<close>

definition lw_base :: "connection \<Rightarrow> string" where
  "lw_base c = trim_right_char (CHR ''/'') (clean_default c ''api_base_url'' ''https://www.worksapis.com/v1.0'')"

definition lw_bot :: "connection \<Rightarrow> string" where
  "lw_bot c = clean_default c ''bot_id'' []"

definition lw_validate :: "connection \<Rightarrow> gerr option" where
  "lw_validate c = first_error_of
     [chat_endpoint ''line_works'' ''valid LINE WORKS endpoint is required''
        ''official LINE WORKS API v1.0 endpoint or loopback HTTP is required'' ''www.worksapis.com''
        (under_path ''/v1.0'') (lw_base c),
      if lw_bot c = [] then Some (chat_error ''line_works'' ''bot_id_required'' ''LINE WORKS bot_id is required'') else None,
      chat_timeout ''line_works'' c]"

definition lw_plan :: "connection \<Rightarrow> secrets \<Rightarrow> rest_call \<Rightarrow> typed + http_request" where
  "lw_plan c ss = chat_plan ''line_works'' ''LINE WORKS'' (lw_validate c) (lw_base c)
     (trim_space (secret ss ''bot_token''),
      chat_error ''line_works'' ''bot_token_required'' ''resolved LINE WORKS bot token is required'') ''Bearer''"

definition lw_read :: "bool \<Rightarrow> string + http_response \<Rightarrow> typed" where
  "lw_read = chat_read ''line_works'' ''LINE WORKS''"

datatype lw_input = LwSend chat_message | LwTest

fun lw_call :: "connection \<Rightarrow> lw_input \<Rightarrow> rest_call res" where
  "lw_call c (LwSend i) =
     (if trim_space (cm_recipient i) = [] \<or> chat_text i = [] then Inl (fields_required ''line_works'')
      else (case chat_payload ''line_works'' ''line_works'' i
          [(''content'', VObj [(''type'', VStr ''text''), (''text'', VStr (chat_text i))])] of
        Inl e \<Rightarrow> Inl e
      | Inr m \<Rightarrow> Inr (write_call ''POST''
          (''/bots/'' @ path_escape (lw_bot c) @ ''/users/'' @ path_escape (trim_space (cm_recipient i)) @ ''/messages'') []
          (marshal (VObj m)))))"
| "lw_call c LwTest = Inr (get_call (''/bots/'' @ path_escape (lw_bot c)) [])"

fun lw_result :: "lw_input \<Rightarrow> typed \<Rightarrow> typed" where
  "lw_result (LwSend i) = delivered_as (\<lambda>v. accepted_ref ''line_works'' (clean_at (as_obj v) ''requestId''))"
| "lw_result LwTest = connected_as ''bot''"

definition lw_run ::
  "connection \<Rightarrow> secrets \<Rightarrow> lw_input \<Rightarrow> http \<Rightarrow> http_request list \<Rightarrow> http_request list \<times> typed" where
  "lw_run c ss i T sent = apsnd (lw_result i) (rest_run (lw_plan c ss) lw_read (lw_call c i) T sent)"

definition lw_test_connection where
  "lw_test_connection c ss T sent = test_details (lw_run c ss LwTest T sent)"

subsection \<open>Contracts\<close>

lemma lw_validate_ok: "lw_validate c = None \<Longrightarrow> secure_endpoint (lw_base c)"
  by (auto simp: lw_validate_def first_error_of_None intro: chat_endpoint_ok)

lemma lw_validate_permanent: "lw_validate c = Some e \<Longrightarrow> is_permanent e"
  unfolding lw_validate_def
  by (drule first_error_of_Some) (auto intro: chat_endpoint_permanent chat_timeout_permanent split: if_splits)

interpretation lw_calls: rest_provider lw_plan lw_read lw_base
  unfolding lw_read_def
  by unfold_locales
    (auto simp: lw_plan_def intro: chat_plan_permanent chat_plan_stays lw_validate_ok
      lw_validate_permanent chat_read_cautious chat_read_lost)

lemma lw_call_path: "lw_call c i = Inr k \<Longrightarrow> url_tail (rc_path k)"
  by (cases i) (auto split: sum.splits if_splits)

lemma lw_stays:
  "fst (lw_run c ss i T sent) = sent \<or> (\<exists>q. fst (lw_run c ss i T sent) = sent @ [q] \<and> stays_at (lw_base c) q)"
  using lw_calls.run_stays [OF lw_call_path, where c = c and ss = ss and T = T and sent = sent]
  by (simp add: lw_run_def)

lemma lw_result_err: "typed_err (lw_result i x) = typed_err x"
  by (cases i) simp_all

lemma lw_cautious:
  "i \<noteq> LwTest \<Longrightarrow> cautious_by (\<lambda>r. throttled (resp_status r)) T sent (lw_run c ss i T sent)
    (typed_err (snd (lw_run c ss i T sent)))"
  unfolding lw_run_def
  by (rule worded_same [OF lw_calls.run_cautious_by lw_result_err]; cases i)
    (auto intro: chat_payload_permanent split: sum.splits if_splits)

section \<open>Google Chat\<close>

text \<open>The Google Chat sender (\<^verbatim>\<open>providers/collaboration/google_workspace\<close>).\<close>

definition gchat_base :: "connection \<Rightarrow> string" where
  "gchat_base c = trim_right_char (CHR ''/'') (clean_default c ''api_base_url'' ''https://chat.googleapis.com/v1'')"

text \<open>The name of a space is \<open>spaces/\<close> and one segment, which is no step of a path.\<close>

definition gchat_space :: "string \<Rightarrow> string res" where
  "gchat_space v = (let s = dropWhile ((=) (CHR ''/'')) (trim_right_char (CHR ''/'') (trim_space v)) in
     (case split_on (CHR ''/'') s of
        [a, b] \<Rightarrow> if a = ''spaces'' \<and> trim_space b \<noteq> [] \<and> b \<noteq> ''.'' \<and> b \<noteq> ''..'' then Inr (''spaces/'' @ path_escape b)
          else Inl (chat_error ''google_chat'' ''space_invalid'' ''Google Chat space name must be spaces/{space}'')
      | _ \<Rightarrow> Inl (chat_error ''google_chat'' ''space_invalid'' ''Google Chat space name must be spaces/{space}'')))"

definition gchat_validate :: "connection \<Rightarrow> gerr option" where
  "gchat_validate c = first_error_of
     [chat_endpoint ''google_chat'' ''valid Google Chat API endpoint is required''
        ''official Google Chat API v1 endpoint or loopback HTTP is required'' ''chat.googleapis.com''
        (under_path ''/v1'') (gchat_base c),
      sum_err (gchat_space (clean_default c ''space_name'' [])),
      chat_timeout ''google_chat'' c]"

definition gchat_plan :: "connection \<Rightarrow> secrets \<Rightarrow> rest_call \<Rightarrow> typed + http_request" where
  "gchat_plan c ss = chat_plan ''google_chat'' ''Google Chat'' (gchat_validate c) (gchat_base c)
     (trim_space (secret ss ''access_token''),
      chat_error ''google_chat'' ''access_token_required'' ''resolved Google OAuth access token is required'') ''Bearer''"

definition gchat_read :: "bool \<Rightarrow> string + http_response \<Rightarrow> typed" where
  "gchat_read = chat_read ''google_chat'' ''Google Chat''"

datatype gchat_input = GchatSend chat_message | GchatTest

fun gchat_call :: "connection \<Rightarrow> gchat_input \<Rightarrow> rest_call res" where
  "gchat_call c (GchatSend i) =
     (case gchat_space (first_trimmed [cm_recipient i, clean_default c ''space_name'' []]) of
        Inl e \<Rightarrow> Inl (fields_required ''google_chat'')
      | Inr space \<Rightarrow>
          if chat_text i = [] then Inl (fields_required ''google_chat'')
          else (case chat_payload ''google_chat'' ''google_workspace'' i [(''text'', VStr (chat_text i))] of
            Inl e \<Rightarrow> Inl e
          | Inr m \<Rightarrow> Inr (write_call ''POST'' (''/'' @ space @ ''/messages'') [] (marshal (VObj m)))))"
| "gchat_call c GchatTest = (case gchat_space (clean_default c ''space_name'' []) of
     Inl e \<Rightarrow> Inl e | Inr space \<Rightarrow> Inr (get_call (''/'' @ space) []))"

fun gchat_result :: "connection \<Rightarrow> gchat_input \<Rightarrow> typed \<Rightarrow> typed" where
  "gchat_result c (GchatSend i) = delivered_as (\<lambda>v. accepted_ref ''google_chat'' (clean_at (as_obj v) ''name''))"
| "gchat_result c GchatTest = (if isl (gchat_space (clean_default c ''space_name'' [])) then id else connected_as ''space'')"

definition gchat_run ::
  "connection \<Rightarrow> secrets \<Rightarrow> gchat_input \<Rightarrow> http \<Rightarrow> http_request list \<Rightarrow> http_request list \<times> typed" where
  "gchat_run c ss i T sent = apsnd (gchat_result c i) (rest_run (gchat_plan c ss) gchat_read (gchat_call c i) T sent)"

definition gchat_test_connection where
  "gchat_test_connection c ss T sent = test_details (gchat_run c ss GchatTest T sent)"

subsection \<open>Contracts\<close>

lemma gchat_space_permanent: "gchat_space v = Inl e \<Longrightarrow> is_permanent e"
  by (auto simp: gchat_space_def Let_def split: list.splits if_splits)

lemma gchat_space_segment: "gchat_space v = Inr s \<Longrightarrow> \<exists>b. s = ''spaces/'' @ path_escape b"
  by (auto simp: gchat_space_def Let_def split: list.splits if_splits)

lemma gchat_validate_ok: "gchat_validate c = None \<Longrightarrow> secure_endpoint (gchat_base c)"
  by (auto simp: gchat_validate_def first_error_of_None intro: chat_endpoint_ok)

lemma gchat_validate_permanent: "gchat_validate c = Some e \<Longrightarrow> is_permanent e"
  unfolding gchat_validate_def
  by (drule first_error_of_Some; cases "gchat_space (clean_default c ''space_name'' [])")
    (auto intro: chat_endpoint_permanent chat_timeout_permanent gchat_space_permanent)

interpretation gchat_calls: rest_provider gchat_plan gchat_read gchat_base
  unfolding gchat_read_def
  by unfold_locales
    (auto simp: gchat_plan_def intro: chat_plan_permanent chat_plan_stays gchat_validate_ok
      gchat_validate_permanent chat_read_cautious chat_read_lost)

lemma gchat_call_path: "gchat_call c i = Inr k \<Longrightarrow> url_tail (rc_path k)"
  by (cases i) (auto dest!: gchat_space_segment split: sum.splits if_splits)

lemma gchat_stays:
  "fst (gchat_run c ss i T sent) = sent \<or> (\<exists>q. fst (gchat_run c ss i T sent) = sent @ [q] \<and> stays_at (gchat_base c) q)"
  using gchat_calls.run_stays [OF gchat_call_path, where c = c and ss = ss and T = T and sent = sent]
  by (simp add: gchat_run_def)

lemma gchat_result_err: "typed_err (gchat_result c i x) = typed_err x"
  by (cases i) simp_all

lemma gchat_cautious:
  "i \<noteq> GchatTest \<Longrightarrow> cautious_by (\<lambda>r. throttled (resp_status r)) T sent (gchat_run c ss i T sent)
    (typed_err (snd (gchat_run c ss i T sent)))"
  unfolding gchat_run_def
  by (rule worded_same [OF gchat_calls.run_cautious_by gchat_result_err]; cases i)
    (auto intro: chat_payload_permanent split: sum.splits if_splits)

section \<open>DingTalk\<close>

text \<open>
  The DingTalk provider (\<^verbatim>\<open>providers/collaboration/dingtalk\<close>): messages go through a robot, whose
  address may be signed with the time in milliseconds, and the test asks for an application token.
\<close>

definition ding_api :: "connection \<Rightarrow> string" where
  "ding_api c = trim_right_char (CHR ''/'') (map_default c ''api_base_url'' ''https://api.dingtalk.com'')"

definition ding_bot :: "connection \<Rightarrow> string" where
  "ding_bot c = trim_right_char (CHR ''/'') (map_default c ''bot_base_url'' ''https://oapi.dingtalk.com'')"

definition ding_validate :: "connection \<Rightarrow> gerr option" where
  "ding_validate c = first_error_of
     (map (\<lambda>(s, h). chat_endpoint ''dingtalk'' ''valid DingTalk endpoint is required''
          ''official DingTalk endpoint or loopback HTTP is required'' h root_path s)
        [(ding_api c, ''api.dingtalk.com''), (ding_bot c, ''oapi.dingtalk.com'')]
      @ [chat_timeout ''dingtalk'' c])"

datatype ding_input = DingSend int chat_message | DingTest

fun ding_base :: "ding_input \<Rightarrow> connection \<Rightarrow> string" where
  "ding_base (DingSend now i) = ding_bot"
| "ding_base DingTest = ding_api"

text \<open>The robot takes its token in the query, the application its credentials in the body.\<close>

fun ding_secrets :: "ding_input \<Rightarrow> secrets \<Rightarrow> http_request \<Rightarrow> http_request" where
  "ding_secrets (DingSend now i) ss q = q\<lparr>req_secret_query := [(''access_token'', trim_space (secret ss ''bot_token''))]\<rparr>"
| "ding_secrets DingTest ss q = q\<lparr>req_secret_json := [(''appKey'', trim_space (secret ss ''client_id'')),
     (''appSecret'', trim_space (secret ss ''client_secret''))]\<rparr>"

definition ding_plan :: "ding_input \<Rightarrow> connection \<Rightarrow> secrets \<Rightarrow> rest_call \<Rightarrow> typed + http_request" where
  "ding_plan i c ss k = call_plan (ding_validate c)
     (parsed_target (ding_base i c) (chat_error ''dingtalk'' ''request_invalid'' ''DingTalk request URL is invalid'')
       (rc_path k) (\<lambda>u. u\<lparr>raw_query := encode_values (rc_query k)\<rparr>))
     (rc_body k, chat_error ''dingtalk'' ''request_invalid'' ''DingTalk request body is invalid'')
     (\<lambda>u raw. ding_secrets i ss ((plain_request (rc_method k) u (json_headers (Some None)) raw)\<lparr>req_max := 4194304\<rparr>))"

definition ding_read :: "bool \<Rightarrow> string + http_response \<Rightarrow> typed" where
  "ding_read = chat_read ''dingtalk'' ''DingTalk''"

subsection \<open>Operations\<close>

definition ding_sign :: "int \<Rightarrow> secrets \<Rightarrow> url_values" where
  "ding_sign now ss = (let key = trim_space (secret ss ''webhook_secret'') in
     if key = [] then []
     else [(''timestamp'', [itoa now]), (''sign'', [base64_std (hmac sha256 key (itoa now @ [CHR 0x0A] @ key))])])"

fun ding_call :: "secrets \<Rightarrow> ding_input \<Rightarrow> rest_call res" where
  "ding_call ss (DingSend now i) =
     (if trim_space (cm_recipient i) = [] \<or> chat_text i = [] then Inl (fields_required ''dingtalk'')
      else if trim_space (secret ss ''bot_token'') = []
      then Inl (chat_error ''dingtalk'' ''bot_token_required'' ''resolved DingTalk bot token is required'')
      else (case chat_payload ''dingtalk'' ''dingtalk'' i
          [(''msgtype'', VStr ''text''), (''text'', VObj [(''content'', VStr (chat_text i))])] of
        Inl e \<Rightarrow> Inl e
      | Inr m \<Rightarrow> Inr (write_call ''POST'' ''/robot/send'' (ding_sign now ss) (marshal (VObj m)))))"
| "ding_call ss DingTest =
     (if trim_space (secret ss ''client_id'') = [] \<or> trim_space (secret ss ''client_secret'') = []
      then Inl (chat_error ''dingtalk'' ''oauth_credentials_required''
        ''resolved DingTalk client_id and client_secret are required'')
      else Inr ((get_call ''/v1.0/oauth2/accessToken'' [])\<lparr>rc_method := ''POST''\<rparr>))"

text \<open>An accepted answer names an error of its own, or none by the number zero.\<close>

fun ding_accepted :: "ding_input \<Rightarrow> obj \<Rightarrow> string \<Rightarrow> typed" where
  "ding_accepted (DingSend now i) m ref =
     (if text_int (at m ''errcode'') (-1) \<noteq> 0
      then (VNil, ref, Some (chat_error ''dingtalk'' ''bot_rejected'' (''DingTalk bot rejected message: '' @ map_string m ''errmsg'')))
      else (VNil, ''dingtalk:bot:accepted'', None))"
| "ding_accepted DingTest m ref =
     (if map_string m ''accessToken'' = []
      then (VNil, ref, Some (chat_error ''dingtalk'' ''token_invalid'' ''DingTalk access token response is invalid''))
      else (VObj [(''connected'', VBool True), (''expires_in'', at m ''expireIn'')], ref, None))"

definition ding_result :: "ding_input \<Rightarrow> typed \<Rightarrow> typed" where
  "ding_result i x = (case x of (v, ref, Some e) \<Rightarrow> (VNil, ref, Some e)
     | (v, ref, None) \<Rightarrow> ding_accepted i (as_obj v) ref)"

definition ding_run ::
  "connection \<Rightarrow> secrets \<Rightarrow> ding_input \<Rightarrow> http \<Rightarrow> http_request list \<Rightarrow> http_request list \<times> typed" where
  "ding_run c ss i T sent = apsnd (ding_result i) (rest_run (ding_plan i c ss) ding_read (ding_call ss i) T sent)"

definition ding_test_connection where
  "ding_test_connection c ss T sent = test_details (ding_run c ss DingTest T sent)"

subsection \<open>Contracts\<close>

lemma ding_validate_ok: "ding_validate c = None \<Longrightarrow> secure_endpoint (ding_base i c)"
  by (cases i) (auto simp: ding_validate_def first_error_of_None intro: chat_endpoint_ok)

lemma ding_validate_permanent: "ding_validate c = Some e \<Longrightarrow> is_permanent e"
  unfolding ding_validate_def
  by (drule first_error_of_Some) (auto intro: chat_endpoint_permanent chat_timeout_permanent)

lemma ding_secrets_url [simp]: "req_url (ding_secrets i ss q) = req_url q"
  by (cases i) simp_all

lemma ding_plan_stays:
  assumes "ding_plan i c ss k = Inr q" "url_tail (rc_path k)"
  shows "stays_at (ding_base i c) q"
  using assms(1) unfolding ding_plan_def call_plan_rest
  by (rule plan_stays_parsed) (simp_all add: ding_validate_ok assms(2) plain_request_def)

lemma ding_plan_permanent: "ding_plan i c ss k = Inl x \<Longrightarrow> \<exists>e. typed_err x = Some e \<and> is_permanent e"
  unfolding ding_plan_def
  by (erule call_plan_permanent) (auto simp: parsed_target_def intro: ding_validate_permanent split: option.splits)

interpretation ding_calls: rest_provider "ding_plan i" ding_read "ding_base i" for i
  unfolding ding_read_def
  by unfold_locales (auto intro: ding_plan_permanent ding_plan_stays chat_read_cautious chat_read_lost)

lemma ding_call_path: "ding_call ss i = Inr k \<Longrightarrow> url_tail (rc_path k)"
  by (cases i) (auto simp: get_call_def split: sum.splits if_splits)

lemma ding_stays:
  "fst (ding_run c ss i T sent) = sent \<or> (\<exists>q. fst (ding_run c ss i T sent) = sent @ [q] \<and> stays_at (ding_base i c) q)"
  using ding_calls.run_stays [OF ding_call_path, where i = i and c = c and ss = ss and T = T and sent = sent]
  by (simp add: ding_run_def)

lemma ding_result_err:
  "typed_err x = Some e \<Longrightarrow> typed_err (ding_result i x) = Some e"
  "typed_err x = None \<Longrightarrow> typed_err (ding_result i x) = Some e \<Longrightarrow> \<not> is_retryable e"
  by (auto simp: ding_result_def chat_error_def split: prod.splits) (cases i; auto simp: chat_error_def split: if_splits)

lemma ding_cautious:
  assumes "i \<noteq> DingTest"
  shows "cautious_by (\<lambda>r. throttled (resp_status r)) T sent (ding_run c ss i T sent)
    (typed_err (snd (ding_run c ss i T sent)))"
proof -
  let ?r = "rest_run (ding_plan i c ss) ding_read (ding_call ss i) T sent"
  have "cautious_by (\<lambda>r. throttled (resp_status r)) T sent ?r (typed_err (snd ?r))"
    by (rule ding_calls.run_cautious_by; use assms in \<open>cases i\<close>)
      (auto intro: chat_payload_permanent split: sum.splits if_splits)
  then show ?thesis unfolding ding_run_def by (rule worded_cautious) (fact ding_result_err)+
qed

text \<open>An error that is no number counts as none: the message passes for sent.\<close>

lemma ding_word_accepted: "ding_accepted (DingSend now i) [(''errcode'', VStr ''expired'')] ref = (VNil, ''dingtalk:bot:accepted'', None)"
  by simp code_simp

section \<open>Enterprise WeChat\<close>

text \<open>
  The Enterprise WeChat provider (\<^verbatim>\<open>providers/collaboration/enterprise_wechat\<close>): every message is
  preceded by a request for a token.
\<close>

definition ew_base :: "connection \<Rightarrow> string" where
  "ew_base c = trim_right_char (CHR ''/'') (map_default c ''api_base_url'' ''https://qyapi.weixin.qq.com'')"

definition ew_agent :: "connection \<Rightarrow> int" where
  "ew_agent c = text_int (at (config c) ''agent_id'') 0"

definition ew_validate :: "connection \<Rightarrow> gerr option" where
  "ew_validate c = first_error_of
     [chat_endpoint ''enterprise_wechat'' ''valid Enterprise WeChat endpoint is required''
        ''official Enterprise WeChat endpoint or loopback HTTP is required'' ''qyapi.weixin.qq.com'' root_path (ew_base c),
      if ew_agent c < 1 then Some (chat_error ''enterprise_wechat'' ''agent_id_required'' ''agent_id must be positive'') else None,
      chat_timeout ''enterprise_wechat'' c]"

definition ew_plan :: "(string \<times> string) list \<Rightarrow> connection \<Rightarrow> rest_call \<Rightarrow> typed + http_request" where
  "ew_plan query c k = call_plan (ew_validate c) (Inr (text_target (ew_base c) (rc_path k) []))
     (rc_body k, chat_error ''enterprise_wechat'' ''request_invalid'' ''Enterprise WeChat request body is invalid'')
     (\<lambda>u raw. (plain_request (rc_method k) u (json_headers (rc_body k)) raw)\<lparr>req_secret_query := query, req_max := 4194304\<rparr>)"

definition ew_read :: "bool \<Rightarrow> string + http_response \<Rightarrow> typed" where
  "ew_read = chat_read ''enterprise_wechat'' ''Enterprise WeChat''"

subsection \<open>The token\<close>

definition ew_credentials :: "secrets \<Rightarrow> (string \<times> string) list" where
  "ew_credentials ss = [(''corpid'', trim_space (secret ss ''corp_id'')), (''corpsecret'', trim_space (secret ss ''corp_secret''))]"

definition ew_token_plan :: "connection \<Rightarrow> secrets \<Rightarrow> typed + http_request" where
  "ew_token_plan c ss =
     (if list_ex (\<lambda>kv. snd kv = []) (ew_credentials ss)
      then Inl (failed (chat_error ''enterprise_wechat'' ''corp_credentials_required''
        ''resolved corp_id and corp_secret are required''))
      else ew_plan (ew_credentials ss) c (get_call ''/cgi-bin/gettoken'' []))"

definition ew_granted :: "typed \<Rightarrow> typed" where
  "ew_granted x = (case x of (v, ref, Some e) \<Rightarrow> x
     | (v, ref, None) \<Rightarrow>
        if text_int (at (as_obj v) ''errcode'') (-1) \<noteq> 0
        then (v, ref, Some (chat_error ''enterprise_wechat'' ''token_rejected'' ''Enterprise WeChat rejected corporation credentials''))
        else if map_string (as_obj v) ''access_token'' = []
        then (v, ref, Some (chat_error ''enterprise_wechat'' ''token_invalid'' ''Enterprise WeChat access token response is invalid''))
        else x)"

text \<open>The token is a member of the payload when there is no error.\<close>

definition ew_access_token :: "connection \<Rightarrow> secrets \<Rightarrow> http \<Rightarrow> http_request list \<Rightarrow> http_request list \<times> typed" where
  "ew_access_token c ss T sent = apsnd ew_granted (run_plan (ew_token_plan c ss) (ew_read False) T sent)"

subsection \<open>Operations\<close>

definition ew_message :: "connection \<Rightarrow> chat_message \<Rightarrow> obj \<Rightarrow> obj" where
  "ew_message c i m = put ''safe'' (VInt 0) (put ''agentid'' (VInt (ew_agent c))
     (put ''touser'' (VStr (trim_space (cm_recipient i))) m))"

definition ew_result :: "typed \<Rightarrow> typed" where
  "ew_result x = (case x of (v, ref, Some e) \<Rightarrow> (VNil, ref, Some e)
     | (v, ref, None) \<Rightarrow> let n = text_int (at (as_obj v) ''errcode'') (-1) in
        if n \<noteq> 0 then (VNil, ref, Some (chat_error ''enterprise_wechat'' (''api_'' @ itoa n) ''Enterprise WeChat rejected message''))
        else (VNil, accepted_ref ''enterprise_wechat'' (map_string (as_obj v) ''msgid''), None))"

definition ew_deliver :: "connection \<Rightarrow> string \<Rightarrow> chat_message \<Rightarrow> http \<Rightarrow> http_request list \<Rightarrow> http_request list \<times> typed" where
  "ew_deliver c token i T sent = (case chat_payload ''enterprise_wechat'' ''enterprise_wechat'' i
        [(''msgtype'', VStr ''text''), (''text'', VObj [(''content'', VStr (chat_text i))])] of
      Inl e \<Rightarrow> (sent, failed e)
    | Inr m \<Rightarrow> apsnd ew_result (run_plan (ew_plan [(''access_token'', token)] c
        (write_call ''POST'' ''/cgi-bin/message/send'' [] (marshal (VObj (ew_message c i m))))) (ew_read True) T sent))"

definition ew_send :: "connection \<Rightarrow> secrets \<Rightarrow> chat_message \<Rightarrow> http \<Rightarrow> http_request list \<Rightarrow> http_request list \<times> typed" where
  "ew_send c ss i T sent =
     (if trim_space (cm_recipient i) = [] \<or> chat_text i = [] then (sent, failed (fields_required ''enterprise_wechat''))
      else (case ew_access_token c ss T sent of
        (sent', v, ref, Some e) \<Rightarrow> (sent', failed e)
      | (sent', v, ref, None) \<Rightarrow> ew_deliver c (map_string (as_obj v) ''access_token'') i T sent'))"

definition ew_test :: "connection \<Rightarrow> secrets \<Rightarrow> http \<Rightarrow> http_request list \<Rightarrow> http_request list \<times> typed" where
  "ew_test c ss T sent = (case ew_access_token c ss T sent of
     (sent', v, ref, e) \<Rightarrow> (sent', (if e = None
       then VObj [(''connected'', VBool True), (''expires_in'', at (as_obj v) ''expires_in'')] else VNil), ref, e))"

datatype ew_input = EwSend chat_message | EwTest

fun ew_run :: "connection \<Rightarrow> secrets \<Rightarrow> ew_input \<Rightarrow> http \<Rightarrow> http_request list \<Rightarrow> http_request list \<times> typed" where
  "ew_run c ss (EwSend i) = ew_send c ss i"
| "ew_run c ss EwTest = ew_test c ss"

definition ew_test_connection where
  "ew_test_connection c ss T sent = test_details (ew_test c ss T sent)"

subsection \<open>Contracts\<close>

lemma ew_validate_ok: "ew_validate c = None \<Longrightarrow> secure_endpoint (ew_base c)"
  by (auto simp: ew_validate_def first_error_of_None intro: chat_endpoint_ok)

lemma ew_validate_permanent: "ew_validate c = Some e \<Longrightarrow> is_permanent e"
  unfolding ew_validate_def
  by (drule first_error_of_Some) (auto intro: chat_endpoint_permanent chat_timeout_permanent split: if_splits)

lemma ew_plan_stays:
  assumes "ew_plan s c k = Inr q" "url_tail (rc_path k)"
  shows "stays_at (ew_base c) q"
  using assms(1) unfolding ew_plan_def call_plan_rest
  by (rule plan_stays_text) (simp_all add: ew_validate_ok assms(2) plain_request_def)

lemma ew_plan_permanent: "ew_plan s c k = Inl x \<Longrightarrow> \<exists>e. typed_err x = Some e \<and> is_permanent e"
  unfolding ew_plan_def by (erule call_plan_permanent) (auto intro: ew_validate_permanent)

interpretation ew_calls: rest_provider "\<lambda>c ss. ew_plan s c" ew_read ew_base for s
  unfolding ew_read_def
  by unfold_locales (auto intro: ew_plan_permanent ew_plan_stays chat_read_cautious chat_read_lost)

text \<open>A request for the token is refused for good, or sent to the service.\<close>

lemma ew_token_sends:
  obtains (refused) e where "ew_access_token c ss T sent = (sent, failed e)" "is_permanent e"
  | (asked) q x where "ew_token_plan c ss = Inr q" "stays_at (ew_base c) q" "ew_access_token c ss T sent = (sent @ [q], x)"
proof (cases "ew_token_plan c ss")
  case (Inl x)
  then obtain e where e: "x = failed e" "is_permanent e"
    using ew_validate_permanent
    by (auto simp: ew_token_plan_def ew_plan_def call_plan_def get_call_def json_body_def split: if_splits option.splits)
  then show ?thesis using Inl refused [of e] by (simp add: ew_access_token_def run_plan_def ew_granted_def failed_def)
next
  case (Inr q)
  then have "stays_at (ew_base c) q" by (auto simp: ew_token_plan_def split: if_splits intro: ew_plan_stays)
  then show ?thesis using Inr asked by (simp add: ew_access_token_def run_plan_def)
qed

lemma ew_deliver_sends:
  "fst (ew_deliver c token i T sent) = sent \<or> (\<exists>q. fst (ew_deliver c token i T sent) = sent @ [q] \<and> stays_at (ew_base c) q)"
  by (auto simp: ew_deliver_def run_plan_def split: sum.splits dest: ew_plan_stays)

lemma ew_result_err:
  "typed_err x = Some e \<Longrightarrow> typed_err (ew_result x) = Some e"
  "typed_err x = None \<Longrightarrow> typed_err (ew_result x) = Some e \<Longrightarrow> \<not> is_retryable e"
  by (auto simp: ew_result_def chat_error_def Let_def split: prod.splits if_splits)

lemma ew_deliver_cautious:
  "cautious_by (\<lambda>r. throttled (resp_status r)) T sent (ew_deliver c token i T sent) (typed_err (snd (ew_deliver c token i T sent)))"
proof (cases "chat_payload ''enterprise_wechat'' ''enterprise_wechat'' i
    [(''msgtype'', VStr ''text''), (''text'', VObj [(''content'', VStr (chat_text i))])]")
  case (Inl e)
  then show ?thesis using chat_payload_permanent [OF Inl] by (simp add: ew_deliver_def cautious_by_def)
next
  case (Inr m)
  let ?k = "write_call ''POST'' ''/cgi-bin/message/send'' [] (marshal (VObj (ew_message c i m)))"
  let ?r = "run_plan (ew_plan [(''access_token'', token)] c ?k) (ew_read True) T sent"
  have "cautious_by (\<lambda>r. throttled (resp_status r)) T sent ?r (typed_err (snd ?r))" by (rule ew_calls.plan_cautious)
  then show ?thesis unfolding ew_deliver_def Inr sum.case by (rule worded_cautious) (fact ew_result_err)+
qed

lemma ew_stays: "sends_at [ew_base c] 2 sent (fst (ew_run c ss i T sent))"
proof -
  have one: "sends_at [ew_base c] 1 s s'" if "s' = s \<or> (\<exists>q. s' = s @ [q] \<and> stays_at (ew_base c) q)" for s s'
    using that by (rule sends_at_request)
  obtain s1 v ref e where a: "ew_access_token c ss T sent = (s1, v, ref, e)" by (metis surj_pair)
  have b: "sends_at [ew_base c] 1 sent s1"
    by (rule one) (rule ew_token_sends [of c ss T sent]; use a in \<open>auto simp: failed_def\<close>)
  have s: "sends_at [ew_base c] 2 sent s1" using b by (rule sends_at_mono) simp
  show ?thesis
  proof (cases i)
    case EwTest
    then show ?thesis using a s by (simp add: ew_test_def)
  next
    case (EwSend m)
    then show ?thesis
      using a s sends_at_trans [OF b one [OF ew_deliver_sends]]
      by (cases e) (auto simp: ew_send_def)
  qed
qed

text \<open>
  A message is refused for good, or the only request is the one for the token and it failed, or
  the message follows that request and is a cautious write.
\<close>

lemma ew_cautious:
  fixes T sent c ss i
  defines "run \<equiv> ew_run c ss (EwSend i) T sent"
  shows "(fst run = sent \<and> (\<exists>e. typed_err (snd run) = Some e \<and> is_permanent e)) \<or>
    (\<exists>q. ew_token_plan c ss = Inr q \<and> (fst run = sent @ [q] \<and> typed_err (snd run) \<noteq> None
       \<or> cautious_by (\<lambda>r. throttled (resp_status r)) T (sent @ [q]) run (typed_err (snd run))))"
proof (cases "trim_space (cm_recipient i) = [] \<or> chat_text i = []")
  case True
  then show ?thesis by (auto simp: run_def ew_send_def)
next
  case False
  then have run: "run = (case ew_access_token c ss T sent of
      (sent', v, ref, Some e) \<Rightarrow> (sent', failed e)
    | (sent', v, ref, None) \<Rightarrow> ew_deliver c (map_string (as_obj v) ''access_token'') i T sent')"
    by (auto simp: run_def ew_send_def)
  show ?thesis
  proof (cases rule: ew_token_sends [of c ss T sent])
    case (refused e)
    then show ?thesis by (simp add: run failed_def)
  next
    case (asked q x)
    obtain v ref e where x: "x = (v, ref, e)" by (metis surj_pair)
    show ?thesis
    proof (cases e)
      case None
      then have "run = ew_deliver c (map_string (as_obj v) ''access_token'') i T (sent @ [q])" using asked x by (simp add: run)
      then show ?thesis using asked(1) ew_deliver_cautious by blast
    next
      case (Some y)
      then have "run = (sent @ [q], failed y)" using asked x by (simp add: run)
      then show ?thesis using asked(1) by simp
    qed
  qed
qed

end
