(* ===== verification/Feedback.thy ===== *)
theory Feedback
  imports HelpCenter Delivery
begin

text \<open>
  What the providers that only read with GET (\<^verbatim>\<open>providers/customer_feedback\<close> and
  \<^verbatim>\<open>providers/lms\<close>) share in the same wording. \<open>pre\<close> is the name of a provider in its error codes.
\<close>

definition survey_error :: "string \<Rightarrow> string \<Rightarrow> string \<Rightarrow> gerr" where
  "survey_error pre code msg = Permanent (pre @ ''.'' @ code) (Msg msg)"

definition survey_base :: "connection \<Rightarrow> string \<Rightarrow> string" where
  "survey_base c d = (let v = trim_right_char (CHR ''/'') (map_string (config c) ''base_url'') in if v \<noteq> [] then v else d)"

definition survey_endpoint :: "string \<Rightarrow> string \<Rightarrow> string \<Rightarrow> gerr option" where
  "survey_endpoint pre code b = (if secure_endpoint b then None
     else Some (survey_error pre code ''HTTPS or loopback HTTP endpoint is required''))"

text \<open>The query of a call is added to the one that the base address may have.\<close>

definition survey_plan ::
  "string \<Rightarrow> gerr option \<Rightarrow> string \<Rightarrow> string \<times> gerr \<Rightarrow> headers \<Rightarrow> rest_call \<Rightarrow> typed + http_request" where
  "survey_plan pre validated base token auth k = rest_plan validated token
     (parsed_target base (Permanent (pre @ ''.request_invalid'') DecodeErr) (rc_path k) (merge_query (rc_query k)))
     (None, Permanent (pre @ ''.request_invalid'') DecodeErr)
     (\<lambda>u raw. (plain_request ''GET'' u (json_headers None) [])\<lparr>req_secret_headers := auth, req_max := 4194304\<rparr>)"

definition basic_key :: "string \<Rightarrow> headers" where
  "basic_key key = [(''Authorization'', [''Basic '' @ base64_std (key @ '':'')])]"

text \<open>An identity of the input, or the configured one.\<close>

definition survey_id :: "connection \<Rightarrow> string \<Rightarrow> gerr \<Rightarrow> string res" where
  "survey_id c s e = (let i = first_text [trim_space s, map_string (config c) ''survey_id''] in
     if i = [] then Inl e else Inr i)"

definition survey_page :: "string \<Rightarrow> int \<Rightarrow> int \<Rightarrow> int \<Rightarrow> int res" where
  "survey_page pre standard maximum n = (case page_size standard maximum n of
     None \<Rightarrow> Inl (survey_error pre ''page_size_invalid'' (''page size must be between 1 and '' @ itoa maximum))
   | Some k \<Rightarrow> Inr k)"

text \<open>
  An accepted answer is given a member. The text \<open>null\<close> is read as a nil map, and an assignment
  to it panics, which is the result \<open>None\<close>.
\<close>

definition with_member :: "(obj \<Rightarrow> string \<times> val) \<Rightarrow> typed \<Rightarrow> typed option" where
  "with_member f x = (case x of (v, ref, e) \<Rightarrow>
     if e \<noteq> None then Some x
     else (case v of VObj m \<Rightarrow> Some (VObj (put (fst (f m)) (snd (f m)) m), ref, None) | _ \<Rightarrow> None))"

text \<open>An answer of any kind: an array is wrapped, and what is no map counts as an empty one.\<close>

definition loose_output :: "string \<Rightarrow> val option" where
  "loose_output s = (if s = [] then Some (VObj []) else map_option (\<lambda>v. case v of
     VObj m \<Rightarrow> VObj m | VArr vs \<Rightarrow> VObj [(''items'', VArr vs)] | _ \<Rightarrow> VObj []) (raw_value s))"

section \<open>Contracts\<close>

lemma survey_error_permanent [simp]: "is_permanent (survey_error pre code msg)"
  by (simp add: survey_error_def)

lemma survey_endpoint_ok: "survey_endpoint pre code b = None \<longleftrightarrow> secure_endpoint b"
  by (simp add: survey_endpoint_def)

lemma survey_plan_stays:
  assumes "survey_plan pre validated base token auth k = Inr q" "url_tail (rc_path k)"
    "validated = None \<Longrightarrow> secure_endpoint base"
  shows "stays_at base q"
  using assms(1) unfolding survey_plan_def
  by (rule plan_stays_parsed) (simp_all add: assms(2,3) plain_request_def)

lemma survey_run_stays:
  assumes "\<And>k. call = Inr k \<Longrightarrow> url_tail (rc_path k)"
    "\<And>k q. plan k = Inr q \<Longrightarrow> url_tail (rc_path k) \<Longrightarrow> stays_at b q"
  shows "fst (rest_run plan read call T sent) = sent \<or> (\<exists>q. fst (rest_run plan read call T sent) = sent @ [q] \<and> stays_at b q)"
  using assms by (auto simp: rest_run_def run_plan_def split: sum.splits)

text \<open>The panic needs an accepted answer with the text \<open>null\<close>.\<close>

lemma with_member_panics:
  "with_member f (late_read decode_map pre code_of ref_of w (Inr r)) = None
    \<longleftrightarrow> ok_status (resp_status r) \<and> decode_map (resp_body r) = Some VNil"
proof -
  have "v = VNil \<or> (\<exists>m. v = VObj m)" if "decode_map (resp_body r) = Some v" for v
    using that by (auto simp: decode_map_def split: option.splits val.splits)
  then show ?thesis
    by (auto simp: with_member_def late_read_def Let_def split: option.splits)
qed

text \<open>What was decoded can be encoded.\<close>

lemma literal_finite: "literal_f64 s = Some f \<Longrightarrow> \<exists>m e. f = Fin m e"
  by (auto simp: literal_f64_def dec_def Let_def split: prod.splits if_splits)

lemma all_some_elements: "all_some xs = Some ys \<Longrightarrow> y \<in> set ys \<Longrightarrow> Some y \<in> set xs"
  by (auto simp: all_some_def split: if_splits) (metis option.collapse)

lemma clearjunk_within: "y \<in> set (AList.clearjunk al) \<Longrightarrow> y \<in> set al"
  using map_of_SomeD [of al "fst y" "snd y"]
  by (metis AList.distinct_clearjunk AList.map_of_clearjunk map_of_is_SomeI prod.collapse)

lemma val_of_json_finite: "val_of_json j = Some v \<Longrightarrow> finite_val v"
proof (induction j arbitrary: v rule: val_of_json.induct)
  case (3 s)
  then show ?case using literal_finite by fastforce
next
  case (5 vs)
  then obtain ys where ys: "all_some (map val_of_json vs) = Some ys" "v = VArr ys" by auto
  have "finite_val y" if "y \<in> set ys" for y
    using all_some_elements [OF ys(1) that] 5(1) by auto
  then show ?case using ys(2) by (simp add: list_all_iff)
next
  case (6 kvs)
  then obtain ys where ys: "all_some (map (\<lambda>kv. map_option (\<lambda>v. (fst kv, v)) (val_of_json (snd kv))) kvs) = Some ys"
    "v = VObj (AList.clearjunk (rev ys))" by auto
  have "finite_val (snd y)" if "y \<in> set (AList.clearjunk (rev ys))" for y
  proof -
    have "y \<in> set ys" using clearjunk_within [OF that] by simp
    from all_some_elements [OF ys(1) this] obtain kv
      where kv: "kv \<in> set kvs" "Some y = map_option (\<lambda>v. (fst kv, v)) (val_of_json (snd kv))"
      unfolding set_map by (rule imageE)
    then have "val_of_json (snd kv) = Some (snd y)" by (cases "val_of_json (snd kv)") auto
    with kv(1) show ?thesis using 6(1) by blast
  qed
  then show ?case using ys(2) by (simp add: list_all_iff)
qed simp_all

lemma decode_map_finite: "decode_map s = Some v \<Longrightarrow> \<exists>t. marshal v = Some t"
  using val_of_json_finite marshal_total by (fastforce simp: decode_map_def split: option.splits val.splits)

end
