(* ===== verification/Surveys.thy ===== *)
theory Surveys
  imports Feedback Webhook Crypto
begin

text \<open>The providers of surveys and reviews: Typeform, SurveyMonkey, Trustpilot and Delighted.\<close>

section \<open>Typeform\<close>

text \<open>The Typeform provider (\<^verbatim>\<open>providers/customer_feedback/typeform\<close>).\<close>

definition typeform_base :: "connection \<Rightarrow> string" where
  "typeform_base c = survey_base c ''https://api.typeform.com''"

definition typeform_validate :: "connection \<Rightarrow> gerr option" where
  "typeform_validate c = survey_endpoint ''typeform'' ''endpoint_invalid'' (typeform_base c)"

definition typeform_plan :: "connection \<Rightarrow> secrets \<Rightarrow> rest_call \<Rightarrow> typed + http_request" where
  "typeform_plan c ss = (let token = trim_space (secret ss ''api_token'') in
     survey_plan ''typeform'' (typeform_validate c) (typeform_base c)
       (token, survey_error ''typeform'' ''api_token_required'' ''resolved API token is required'')
       [(''Authorization'', [''Bearer '' @ token])])"

definition typeform_ref :: "obj \<Rightarrow> string option" where
  "typeform_ref m = (let i = map_string m ''id'' in if i = [] then None else Some (''typeform:'' @ i))"

definition typeform_read :: "string + http_response \<Rightarrow> typed" where
  "typeform_read = late_read decode_map ''typeform'' (\<lambda>m n. ''typeform.http_'' @ itoa n) typeform_ref False"

record typeform_list =
  tf_form :: string
  tf_size :: int
  tf_since :: string
  tf_until :: string
  tf_after :: string
  tf_before :: string
  tf_completed :: "bool option"

datatype typeform_input = TypeformGet string | TypeformList typeform_list | TypeformTest

definition typeform_form :: "connection \<Rightarrow> string \<Rightarrow> string res" where
  "typeform_form c s = survey_id c s (survey_error ''typeform'' ''form_id_required'' ''form ID is required'')"

definition typeform_query :: "typeform_list \<Rightarrow> url_values res" where
  "typeform_query i = (case survey_page ''typeform'' 25 1000 (tf_size i) of
     Inl e \<Rightarrow> Inl e
   | Inr n \<Rightarrow>
      if trim_space (tf_after i) \<noteq> [] \<and> trim_space (tf_before i) \<noteq> []
      then Inl (survey_error ''typeform'' ''cursor_invalid'' ''after and before cannot be used together'')
      else Inr ((case tf_completed i of None \<Rightarrow> id
          | Some b \<Rightarrow> put ''completed'' [if b then ''true'' else ''false''])
        (set_query ''before'' (tf_before i) (set_query ''after'' (tf_after i) (set_query ''until'' (tf_until i)
          (set_query ''since'' (tf_since i) [(''page_size'', [itoa n])]))))))"

fun typeform_call :: "connection \<Rightarrow> typeform_input \<Rightarrow> rest_call res" where
  "typeform_call c (TypeformGet s) = (case typeform_form c s of Inl e \<Rightarrow> Inl e
     | Inr i \<Rightarrow> Inr (get_call (''/forms/'' @ path_escape i) []))"
| "typeform_call c (TypeformList x) = (case typeform_form c (tf_form x) of Inl e \<Rightarrow> Inl e
     | Inr i \<Rightarrow> (case typeform_query x of Inl e \<Rightarrow> Inl e
       | Inr q \<Rightarrow> Inr (get_call (''/forms/'' @ path_escape i @ ''/responses'') q)))"
| "typeform_call c TypeformTest = Inr (get_call ''/me'' [])"

definition typeform_run ::
  "connection \<Rightarrow> secrets \<Rightarrow> typeform_input \<Rightarrow> http \<Rightarrow> http_request list \<Rightarrow> http_request list \<times> typed" where
  "typeform_run c ss i = rest_run (typeform_plan c ss) (\<lambda>w. typeform_read) (typeform_call c i)"

definition typeform_test_connection where
  "typeform_test_connection c ss T sent = help_details ''account'' (typeform_run c ss TypeformTest T sent)"

subsection \<open>Contracts\<close>

lemma typeform_plan_stays: "typeform_plan c ss k = Inr q \<Longrightarrow> url_tail (rc_path k) \<Longrightarrow> stays_at (typeform_base c) q"
  unfolding typeform_plan_def Let_def by (erule survey_plan_stays) (simp_all add: typeform_validate_def survey_endpoint_ok)

lemma typeform_call_path: "typeform_call c i = Inr k \<Longrightarrow> url_tail (rc_path k)"
  by (cases i) (auto split: sum.splits)

lemma typeform_stays:
  "fst (typeform_run c ss i T sent) = sent \<or> (\<exists>q. fst (typeform_run c ss i T sent) = sent @ [q] \<and> stays_at (typeform_base c) q)"
  unfolding typeform_run_def by (rule survey_run_stays [OF typeform_call_path typeform_plan_stays])

subsection \<open>Webhooks\<close>

definition typeform_signed :: "webhook_request \<Rightarrow> bool" where
  "typeform_signed r \<longleftrightarrow> ''sha256='' @ base64_std (hmac sha256 (trim_space (secret (wh_secrets r) ''webhook_secret'')) (wh_body r))
     = header_value (wh_headers r) ''Typeform-Signature''"

text \<open>The identity of an event, or the one of the response it brings.\<close>

definition typeform_event_id :: "obj \<Rightarrow> string" where
  "typeform_event_id m = first_text [map_string m ''event_id'', map_string (as_obj (at m ''form_response'')) ''token'']"

definition typeform_identity :: "obj \<Rightarrow> external_identity option" where
  "typeform_identity m = (let s = map_string (as_obj (at (as_obj (at m ''form_response'')) ''hidden'')) ''email'' in
     if CHR ''@'' \<in> set s then identity_of s ''email'' [] [] else None)"

definition typeform_verify :: "webhook_request \<Rightarrow> verified_webhook res" where
  "typeform_verify r = (case wh_context r of Some m \<Rightarrow> Inl (Plain m) | None \<Rightarrow>
     if trim_space (secret (wh_secrets r) ''webhook_secret'') = []
     then Inl (survey_error ''typeform'' ''webhook_secret_required'' ''resolved webhook secret is required'')
     else if \<not> typeform_signed r then Inl (survey_error ''typeform'' ''webhook_signature_invalid'' ''webhook signature is invalid'')
     else (case decode_map (wh_body r) of
       None \<Rightarrow> Inl (survey_error ''typeform'' ''webhook_payload_invalid'' ''webhook payload is invalid JSON'')
     | Some v \<Rightarrow> let m = as_obj v in
        if map_string m ''event_type'' = [] \<or> typeform_event_id m = []
        then Inl (survey_error ''typeform'' ''webhook_identity_missing'' ''webhook event identity is missing'')
        else (case marshal v of None \<Rightarrow> Inl (Permanent ''typeform.webhook_payload_invalid'' DecodeErr)
          | Some raw \<Rightarrow> Inr ((plain_event (map_string m ''event_type'') (typeform_event_id m) raw)
              \<lparr>event_security := signed_at None, event_identity := typeform_identity m\<rparr>))))"

text \<open>The documentation: signed with the secret, and named by an event or a response.\<close>

definition typeform_authentic :: "webhook_request \<Rightarrow> bool" where
  "typeform_authentic r \<longleftrightarrow> trim_space (secret (wh_secrets r) ''webhook_secret'') \<noteq> [] \<and> typeform_signed r"

definition typeform_named :: "webhook_request \<Rightarrow> bool" where
  "typeform_named r \<longleftrightarrow> (case decode_map (wh_body r) of None \<Rightarrow> False
     | Some v \<Rightarrow> map_string (as_obj v) ''event_type'' \<noteq> [] \<and> typeform_event_id (as_obj v) \<noteq> [])"

interpretation typeform_hooks: webhook_verifier typeform_verify typeform_authentic typeform_named
proof (unfold_locales, goal_cases)
  case (1 r) then show ?case
    by (auto simp: typeform_verify_def typeform_authentic_def typeform_named_def Let_def dest: decode_map_finite split: option.splits)
next
  case (2 r v) then show ?case
    by (auto simp: typeform_verify_def identified_def plain_event_def Let_def split: option.splits if_splits)
next
  case (3 r) then show ?case by (simp add: typeform_verify_def permanent_only_def Let_def split: option.split)
next
  case (4 r m) then show ?case by (simp add: typeform_verify_def)
qed

section \<open>SurveyMonkey\<close>

text \<open>The SurveyMonkey provider (\<^verbatim>\<open>providers/customer_feedback/surveymonkey\<close>).\<close>

definition sm_base :: "connection \<Rightarrow> string" where
  "sm_base c = survey_base c ''https://api.surveymonkey.com/v3''"

definition sm_validate :: "connection \<Rightarrow> gerr option" where
  "sm_validate c = survey_endpoint ''surveymonkey'' ''endpoint_invalid'' (sm_base c)"

definition sm_plan :: "connection \<Rightarrow> secrets \<Rightarrow> rest_call \<Rightarrow> typed + http_request" where
  "sm_plan c ss = (let token = trim_space (secret ss ''access_token'') in
     survey_plan ''surveymonkey'' (sm_validate c) (sm_base c)
       (token, survey_error ''surveymonkey'' ''access_token_required'' ''resolved access token is required'')
       [(''Authorization'', [''Bearer '' @ token])])"

definition sm_code :: "obj \<Rightarrow> int \<Rightarrow> string" where
  "sm_code m n = help_code ''surveymonkey'' (map_string (as_obj (at m ''error'')) ''id'') n"

definition sm_ref :: "obj \<Rightarrow> string option" where
  "sm_ref m = (let i = map_string m ''id'' in if i = [] then None else Some (''surveymonkey:'' @ i))"

definition sm_read :: "string + http_response \<Rightarrow> typed" where
  "sm_read = late_read decode_map ''surveymonkey'' sm_code sm_ref False"

record sm_list =
  sm_form :: string
  sm_size :: int
  sm_since :: string
  sm_until :: string
  sm_after :: string

datatype sm_input = SmGet string | SmList sm_list | SmTest

definition sm_survey :: "connection \<Rightarrow> string \<Rightarrow> string res" where
  "sm_survey c s = survey_id c s (survey_error ''surveymonkey'' ''survey_id_required'' ''survey ID is required'')"

fun sm_call :: "connection \<Rightarrow> sm_input \<Rightarrow> rest_call res" where
  "sm_call c (SmGet s) = (case sm_survey c s of Inl e \<Rightarrow> Inl e
     | Inr i \<Rightarrow> Inr (get_call (''/surveys/'' @ path_escape i @ ''/details'') []))"
| "sm_call c (SmList x) = (case sm_survey c (sm_form x) of Inl e \<Rightarrow> Inl e
     | Inr i \<Rightarrow> (case survey_page ''surveymonkey'' 50 100 (sm_size x) of Inl e \<Rightarrow> Inl e
       | Inr n \<Rightarrow> Inr (get_call (''/surveys/'' @ path_escape i @ ''/responses/bulk'')
          (set_query ''page'' (sm_after x) (set_query ''end_created_at'' (sm_until x)
            (set_query ''start_created_at'' (sm_since x) [(''per_page'', [itoa n])]))))))"
| "sm_call c SmTest = Inr (get_call ''/users/me'' [])"

text \<open>A page of responses is also given under the name \<open>items\<close>; \<open>None\<close> is a panic.\<close>

fun sm_result :: "sm_input \<Rightarrow> typed \<Rightarrow> typed option" where
  "sm_result (SmList x) = with_member (\<lambda>m. (''items'', at m ''data''))"
| "sm_result _ = Some"

definition sm_run ::
  "connection \<Rightarrow> secrets \<Rightarrow> sm_input \<Rightarrow> http \<Rightarrow> http_request list \<Rightarrow> http_request list \<times> typed option" where
  "sm_run c ss i T sent = apsnd (sm_result i) (rest_run (sm_plan c ss) (\<lambda>w. sm_read) (sm_call c i) T sent)"

definition sm_test_connection where
  "sm_test_connection c ss T sent = help_details ''account'' (rest_run (sm_plan c ss) (\<lambda>w. sm_read) (sm_call c SmTest) T sent)"

subsection \<open>Contracts\<close>

lemma sm_plan_stays: "sm_plan c ss k = Inr q \<Longrightarrow> url_tail (rc_path k) \<Longrightarrow> stays_at (sm_base c) q"
  unfolding sm_plan_def Let_def by (erule survey_plan_stays) (simp_all add: sm_validate_def survey_endpoint_ok)

lemma sm_call_path: "sm_call c i = Inr k \<Longrightarrow> url_tail (rc_path k)"
  by (cases i) (auto split: sum.splits)

lemma sm_stays:
  "fst (sm_run c ss i T sent) = sent \<or> (\<exists>q. fst (sm_run c ss i T sent) = sent @ [q] \<and> stays_at (sm_base c) q)"
  unfolding sm_run_def fst_apsnd by (rule survey_run_stays [OF sm_call_path sm_plan_stays])

text \<open>The operation panics exactly when a page of responses is answered with the text \<open>null\<close>.\<close>

lemma sm_panics:
  "sm_result i (sm_read (Inr r)) = None
    \<longleftrightarrow> (\<exists>x. i = SmList x) \<and> ok_status (resp_status r) \<and> decode_map (resp_body r) = Some VNil"
  by (cases i) (auto simp: sm_read_def with_member_panics)

section \<open>Trustpilot\<close>

text \<open>The Trustpilot provider (\<^verbatim>\<open>providers/customer_feedback/trustpilot\<close>).\<close>

definition tp_base :: "connection \<Rightarrow> string" where
  "tp_base c = survey_base c ''https://api.trustpilot.com/v1''"

definition tp_unit :: "connection \<Rightarrow> string" where
  "tp_unit c = map_string (config c) ''business_unit_id''"

definition tp_validate :: "connection \<Rightarrow> gerr option" where
  "tp_validate c = (case survey_endpoint ''trustpilot'' ''endpoint_invalid'' (tp_base c) of Some e \<Rightarrow> Some e
     | None \<Rightarrow> if tp_unit c = []
        then Some (survey_error ''trustpilot'' ''business_unit_id_required'' ''business unit ID is required'') else None)"

definition tp_plan :: "connection \<Rightarrow> secrets \<Rightarrow> rest_call \<Rightarrow> typed + http_request" where
  "tp_plan c ss = (let key = trim_space (secret ss ''api_key'') in
     survey_plan ''trustpilot'' (tp_validate c) (tp_base c)
       (key, survey_error ''trustpilot'' ''api_key_required'' ''resolved API key is required'') [(''Apikey'', [key])])"

definition tp_code :: "obj \<Rightarrow> int \<Rightarrow> string" where
  "tp_code m n = help_code ''trustpilot'' (map_string m ''fault'') n"

definition tp_read :: "string + http_response \<Rightarrow> typed" where
  "tp_read = late_read decode_map ''trustpilot'' tp_code (\<lambda>m. None) False"

record tp_list =
  tp_size :: int
  tp_since :: string
  tp_until :: string
  tp_after :: string

datatype tp_input = TpProfile | TpList tp_list

definition tp_path :: "connection \<Rightarrow> string \<Rightarrow> string" where
  "tp_path c p = ''/domain-units/'' @ path_escape (tp_unit c) @ p"

fun tp_call :: "connection \<Rightarrow> tp_input \<Rightarrow> rest_call res" where
  "tp_call c TpProfile = Inr (get_call (tp_path c ''/profileinfo'') [])"
| "tp_call c (TpList x) = (case survey_page ''trustpilot'' 50 100 (tp_size x) of Inl e \<Rightarrow> Inl e
     | Inr n \<Rightarrow> Inr (get_call (tp_path c ''/reviews'')
        (set_query ''page'' (tp_after x) (set_query ''endDateTime'' (tp_until x)
          (set_query ''startDateTime'' (tp_since x) [(''perPage'', [itoa n]), (''orderBy'', [''createdat.asc''])])))))"

text \<open>Either answer gets a member; \<open>None\<close> is a panic.\<close>

fun tp_result :: "connection \<Rightarrow> tp_input \<Rightarrow> typed \<Rightarrow> typed option" where
  "tp_result c TpProfile = with_member (\<lambda>m. (''id'', VStr (tp_unit c)))"
| "tp_result c (TpList x) = with_member (\<lambda>m. (''items'', at m ''reviews''))"

definition tp_run ::
  "connection \<Rightarrow> secrets \<Rightarrow> tp_input \<Rightarrow> http \<Rightarrow> http_request list \<Rightarrow> http_request list \<times> typed option" where
  "tp_run c ss i T sent = apsnd (tp_result c i) (rest_run (tp_plan c ss) (\<lambda>w. tp_read) (tp_call c i) T sent)"

definition tp_test_connection ::
  "connection \<Rightarrow> secrets \<Rightarrow> http \<Rightarrow> http_request list \<Rightarrow> http_request list \<times> string res option" where
  "tp_test_connection c ss T sent = (case tp_run c ss TpProfile T sent of
     (sent', x) \<Rightarrow> (sent', map_option (\<lambda>y. snd (help_details ''business_unit'' (sent', y))) x))"

subsection \<open>Contracts\<close>

lemma tp_plan_stays: "tp_plan c ss k = Inr q \<Longrightarrow> url_tail (rc_path k) \<Longrightarrow> stays_at (tp_base c) q"
  unfolding tp_plan_def Let_def
  by (erule survey_plan_stays) (auto simp: tp_validate_def survey_endpoint_ok split: option.splits)

lemma tp_call_path: "tp_call c i = Inr k \<Longrightarrow> url_tail (rc_path k)"
  by (cases i) (auto simp: tp_path_def split: sum.splits)

lemma tp_stays:
  "fst (tp_run c ss i T sent) = sent \<or> (\<exists>q. fst (tp_run c ss i T sent) = sent @ [q] \<and> stays_at (tp_base c) q)"
  unfolding tp_run_def fst_apsnd by (rule survey_run_stays [OF tp_call_path tp_plan_stays])

lemma tp_panics:
  "tp_result c i (tp_read (Inr r)) = None \<longleftrightarrow> ok_status (resp_status r) \<and> decode_map (resp_body r) = Some VNil"
  by (cases i) (auto simp: tp_read_def with_member_panics)

section \<open>Delighted\<close>

text \<open>The Delighted provider (\<^verbatim>\<open>providers/customer_feedback/delighted\<close>).\<close>

definition dl_base :: "connection \<Rightarrow> string" where
  "dl_base c = survey_base c ''https://api.delighted.com/v1''"

definition dl_validate :: "connection \<Rightarrow> gerr option" where
  "dl_validate c = survey_endpoint ''delighted'' ''endpoint_invalid'' (dl_base c)"

definition dl_plan :: "connection \<Rightarrow> secrets \<Rightarrow> rest_call \<Rightarrow> typed + http_request" where
  "dl_plan c ss = (let key = trim_space (secret ss ''api_key'') in
     survey_plan ''delighted'' (dl_validate c) (dl_base c)
       (key, survey_error ''delighted'' ''api_key_required'' ''resolved API key is required'') (basic_key key))"

text \<open>The status is looked at first, and a refusal brings no output.\<close>

definition dl_read :: "string \<Rightarrow> (string \<Rightarrow> val option) \<Rightarrow> string + http_response \<Rightarrow> typed" where
  "dl_read kind decode answer = (case answer of
     Inl m \<Rightarrow> failed (Retryable ''delighted.network_error'' (TransportErr m))
   | Inr r \<Rightarrow> (let n = resp_status r; ref = ''http:'' @ itoa n in
      if \<not> ok_status n then (VNil, ref, Some (status_error False n (''delighted.http_'' @ itoa n)
        (Msg (''provider returned HTTP '' @ itoa n))))
      else (case decode (resp_body r) of
         None \<Rightarrow> (VNil, ref, Some (survey_error ''delighted'' ''response_invalid'' (''provider response is not a JSON '' @ kind)))
       | Some v \<Rightarrow> (v, ref, None))))"

text \<open>An array, where nothing is an empty one and the text \<open>null\<close> a nil one.\<close>

definition dl_array :: "string \<Rightarrow> val option" where
  "dl_array s = (if trim_space s = [] then Some (VArr [])
     else (case raw_value s of Some (VArr vs) \<Rightarrow> Some (VArr vs) | Some VNil \<Rightarrow> Some VNil | _ \<Rightarrow> None))"

record dl_list =
  dl_since :: string
  dl_until :: string
  dl_after :: string
  dl_size :: int

text \<open>A time is a number of seconds, or an RFC 3339 text.\<close>

definition dl_time :: "string \<Rightarrow> string res" where
  "dl_time s = (case atoi s of Some n \<Rightarrow> Inr (itoa n)
     | None \<Rightarrow> (case parse_rfc3339 s of
         None \<Rightarrow> Inl (survey_error ''delighted'' ''time_invalid'' ''time must be an epoch or RFC3339 value'')
       | Some t \<Rightarrow> Inr (itoa (t div 1000000000))))"

definition dl_bound :: "string \<Rightarrow> string \<Rightarrow> url_values res \<Rightarrow> url_values res" where
  "dl_bound k s q = (case q of Inl e \<Rightarrow> Inl e
     | Inr m \<Rightarrow> if trim_space s = [] then Inr m
        else (case dl_time (trim_space s) of Inl e \<Rightarrow> Inl e | Inr t \<Rightarrow> Inr (put k [t] m)))"

datatype dl_input = DlList dl_list | DlTest

fun dl_call :: "dl_input \<Rightarrow> rest_call res" where
  "dl_call (DlList x) = (case survey_page ''delighted'' 50 100 (dl_size x) of Inl e \<Rightarrow> Inl e
     | Inr n \<Rightarrow> (case dl_bound ''until'' (dl_until x) (dl_bound ''since'' (dl_since x)
           (Inr [(''per_page'', [itoa n]), (''expand[]'', [''person'', ''notes''])])) of
         Inl e \<Rightarrow> Inl e
       | Inr q \<Rightarrow> Inr (get_call ''/survey_responses.json'' (set_query ''page'' (dl_after x) q))))"
| "dl_call DlTest = Inr (get_call ''/metrics.json'' [])"

fun dl_answer :: "dl_input \<Rightarrow> string + http_response \<Rightarrow> typed" where
  "dl_answer (DlList x) = dl_read ''array'' dl_array"
| "dl_answer DlTest = dl_read ''object'' decode_map"

text \<open>The list is wrapped, also when the call failed; an input that was refused has no output.\<close>

definition dl_result :: "dl_input \<Rightarrow> typed \<Rightarrow> typed" where
  "dl_result i x = (case x of (v, ref, e) \<Rightarrow>
     if i = DlTest \<or> isl (dl_call i) then x else (VObj [(''items'', v)], ref, e))"

definition dl_run ::
  "connection \<Rightarrow> secrets \<Rightarrow> dl_input \<Rightarrow> http \<Rightarrow> http_request list \<Rightarrow> http_request list \<times> typed" where
  "dl_run c ss i T sent = apsnd (dl_result i) (rest_run (dl_plan c ss) (\<lambda>w. dl_answer i) (dl_call i) T sent)"

definition dl_test_connection where
  "dl_test_connection c ss T sent = help_details ''metrics'' (dl_run c ss DlTest T sent)"

subsection \<open>Contracts\<close>

lemma dl_plan_stays: "dl_plan c ss k = Inr q \<Longrightarrow> url_tail (rc_path k) \<Longrightarrow> stays_at (dl_base c) q"
  unfolding dl_plan_def Let_def by (erule survey_plan_stays) (simp_all add: dl_validate_def survey_endpoint_ok)

lemma dl_call_path: "dl_call i = Inr k \<Longrightarrow> url_tail (rc_path k)"
  by (cases i) (auto split: sum.splits)

lemma dl_stays:
  "fst (dl_run c ss i T sent) = sent \<or> (\<exists>q. fst (dl_run c ss i T sent) = sent @ [q] \<and> stays_at (dl_base c) q)"
  unfolding dl_run_def fst_apsnd by (rule survey_run_stays [OF dl_call_path dl_plan_stays])

end
