(* ===== verification/Learning.thy ===== *)
theory Learning
  imports Feedback
begin

text \<open>The learning platforms: Moodle and TalentLMS.\<close>

section \<open>Moodle\<close>

text \<open>
  The Moodle provider (\<^verbatim>\<open>providers/lms/moodle\<close>): every function of the web service is a POST of a
  form to one address, and errors come with the status of a success.
\<close>

definition moodle_base :: "connection \<Rightarrow> string" where
  "moodle_base c = survey_base c []"

definition moodle_validate :: "connection \<Rightarrow> gerr option" where
  "moodle_validate c = survey_endpoint ''moodle'' ''endpoint_invalid'' (moodle_base c)"

text \<open>The function is a member of the form, and the token a secret one.\<close>

definition moodle_form :: "string \<Rightarrow> url_values \<Rightarrow> url_values" where
  "moodle_form f q = put ''moodlewsrestformat'' [''json''] (put ''wsfunction'' [f] q)"

definition moodle_plan :: "connection \<Rightarrow> secrets \<Rightarrow> string \<times> url_values \<Rightarrow> typed + http_request" where
  "moodle_plan c ss k = (let token = trim_space (secret ss ''api_token'') in
     case moodle_validate c of Some e \<Rightarrow> Inl (failed e)
     | None \<Rightarrow>
        if token = [] then Inl (failed (survey_error ''moodle'' ''api_token_required'' ''resolved web service token is required''))
        else Inr ((plain_request ''POST'' (moodle_base c @ ''/webservice/rest/server.php'')
          [(''Accept'', [''application/json'']), (''Content-Type'', [''application/x-www-form-urlencoded''])]
          (encode_values (moodle_form (fst k) (snd k))))
          \<lparr>req_secret_form := [(''wstoken'', token)], req_max := 4194304\<rparr>))"

definition moodle_ref :: "obj \<Rightarrow> string option" where
  "moodle_ref m = (let i = map_string m ''userid'' in if i = [] then None else Some (''moodle:user:'' @ i))"

definition moodle_late :: "string + http_response \<Rightarrow> typed" where
  "moodle_late = late_read loose_output ''moodle'' (\<lambda>m n. ''moodle.http_'' @ itoa n) moodle_ref False"

definition moodle_read :: "string + http_response \<Rightarrow> typed" where
  "moodle_read answer = (case answer of Inl m \<Rightarrow> moodle_late answer
   | Inr r \<Rightarrow> (case loose_output (resp_body r) of None \<Rightarrow> moodle_late answer
     | Some v \<Rightarrow> let code = map_string (as_obj v) ''errorcode'' in
         if code = [] then moodle_late answer
         else (v, ''http:'' @ itoa (resp_status r),
           Some (survey_error ''moodle'' (''provider_'' @ code_token code) ''Moodle rejected the request''))))"

subsection \<open>Operations\<close>

fun moodle_criteria :: "nat \<Rightarrow> (string \<times> string) list \<Rightarrow> url_values \<Rightarrow> url_values res" where
  "moodle_criteria i [] q = Inr q"
| "moodle_criteria i ((k, v) # xs) q =
     (if trim_space k = [] \<or> trim_space v = []
      then Inl (survey_error ''moodle'' ''criteria_invalid'' ''each search criterion requires key and value'')
      else moodle_criteria (i + 1) xs (put (''criteria['' @ nat_str i @ ''][value]'') [trim_space v]
        (put (''criteria['' @ nat_str i @ ''][key]'') [trim_space k] q)))"

datatype moodle_input = MoodleCourses | MoodleUsers "(string \<times> string) list" | MoodleEnrolled string | MoodleTest

fun moodle_call :: "moodle_input \<Rightarrow> (string \<times> url_values) res" where
  "moodle_call MoodleCourses = Inr (''core_course_get_courses'', [])"
| "moodle_call (MoodleUsers xs) = (case moodle_criteria 0 (if xs = [] then [(''email'', ''%'')] else xs) [] of
     Inl e \<Rightarrow> Inl e | Inr q \<Rightarrow> Inr (''core_user_get_users'', q))"
| "moodle_call (MoodleEnrolled s) =
     (if trim_space s = [] then Inl (survey_error ''moodle'' ''course_id_required'' ''course ID is required'')
      else Inr (''core_enrol_get_enrolled_users'', [(''courseid'', [trim_space s])]))"
| "moodle_call MoodleTest = Inr (''core_webservice_get_site_info'', [])"

definition moodle_run ::
  "connection \<Rightarrow> secrets \<Rightarrow> moodle_input \<Rightarrow> http \<Rightarrow> http_request list \<Rightarrow> http_request list \<times> typed" where
  "moodle_run c ss i T sent = (case moodle_call i of Inl e \<Rightarrow> (sent, failed e)
     | Inr k \<Rightarrow> run_plan (moodle_plan c ss k) moodle_read T sent)"

definition moodle_test_connection where
  "moodle_test_connection c ss T sent = help_details ''site'' (moodle_run c ss MoodleTest T sent)"

subsection \<open>Contracts\<close>

lemma moodle_plan_stays: "moodle_plan c ss k = Inr q \<Longrightarrow> stays_at (moodle_base c) q"
proof -
  assume q: "moodle_plan c ss k = Inr q"
  then have "secure_endpoint (moodle_base c)" "req_url q = text_target (moodle_base c) ''/webservice/rest/server.php'' []"
    by (auto simp: moodle_plan_def moodle_validate_def survey_endpoint_ok text_target_def plain_request_def Let_def
        split: option.splits if_splits)
  then show "stays_at (moodle_base c) q" by (intro stays_text_target [where p = "''/webservice/rest/server.php''" and m = "[]"]) simp_all
qed

lemma moodle_stays:
  "fst (moodle_run c ss i T sent) = sent \<or> (\<exists>q. fst (moodle_run c ss i T sent) = sent @ [q] \<and> stays_at (moodle_base c) q)"
  by (auto simp: moodle_run_def run_plan_def dest: moodle_plan_stays split: sum.splits)

text \<open>An answer that names an error is never a success, and is not offered for a retry.\<close>

lemma moodle_errors_reported:
  assumes "loose_output (resp_body r) = Some v" "map_string (as_obj v) ''errorcode'' \<noteq> []"
  shows "\<exists>e. typed_err (moodle_read (Inr r)) = Some e \<and> is_permanent e"
  using assms by (simp add: moodle_read_def Let_def)

section \<open>TalentLMS\<close>

text \<open>The TalentLMS provider (\<^verbatim>\<open>providers/lms/talentlms\<close>).\<close>

definition talent_domain :: "connection \<Rightarrow> string" where
  "talent_domain c = trim_right_char (CHR ''/'') (map_string (config c) ''domain_url'')"

definition talent_validate :: "connection \<Rightarrow> gerr option" where
  "talent_validate c = (case survey_endpoint ''talentlms'' ''domain_url_invalid'' (talent_domain c) of Some e \<Rightarrow> Some e
     | None \<Rightarrow> let v = map_string (config c) ''api_version'' in
        if v \<noteq> [] \<and> v \<noteq> ''v1''
        then Some (survey_error ''talentlms'' ''api_version_unsupported'' ''only API v1 is supported'') else None)"

definition talent_plan :: "connection \<Rightarrow> secrets \<Rightarrow> string \<Rightarrow> typed + http_request" where
  "talent_plan c ss p = (let key = trim_space (secret ss ''api_key'') in
     case talent_validate c of Some e \<Rightarrow> Inl (failed e)
     | None \<Rightarrow>
        if key = [] then Inl (failed (survey_error ''talentlms'' ''api_key_required'' ''resolved API key is required''))
        else Inr ((plain_request ''GET'' (talent_domain c @ ''/api/v1'' @ p) (json_headers None) [])
          \<lparr>req_secret_headers := basic_key key, req_max := 4194304\<rparr>))"

definition talent_read :: "string + http_response \<Rightarrow> typed" where
  "talent_read = late_read loose_output ''talentlms'' (\<lambda>m n. ''talentlms.http_'' @ itoa n) (\<lambda>m. None) False"

subsection \<open>Operations\<close>

datatype talent_input = TalentCourses | TalentUsers "(string \<times> string) list" | TalentEnrolled string | TalentTest

fun talent_call :: "talent_input \<Rightarrow> string res" where
  "talent_call TalentCourses = Inr ''/courses''"
| "talent_call (TalentUsers xs) =
     (if xs \<noteq> [] then Inl (survey_error ''talentlms'' ''criteria_unsupported''
        ''TalentLMS v1 list users does not support the generic LMS criteria contract'')
      else Inr ''/users'')"
| "talent_call (TalentEnrolled s) =
     (if trim_space s = [] then Inl (survey_error ''talentlms'' ''course_id_required'' ''course ID is required'')
      else Inr (''/courses/id:'' @ path_escape (trim_space s)))"
| "talent_call TalentTest = Inr ''/siteinfo''"

fun talent_result :: "talent_input \<Rightarrow> typed \<Rightarrow> typed" where
  "talent_result (TalentUsers xs) (v, ref, e) =
     ((if e = None then VObj [(''users'', at (as_obj v) ''items'')] else v), ref, e)"
| "talent_result (TalentEnrolled s) (v, ref, e) =
     ((if e = None then VObj [(''items'', at (as_obj v) ''users''), (''course'', v)] else v), ref, e)"
| "talent_result _ x = x"

definition talent_run ::
  "connection \<Rightarrow> secrets \<Rightarrow> talent_input \<Rightarrow> http \<Rightarrow> http_request list \<Rightarrow> http_request list \<times> typed" where
  "talent_run c ss i T sent = (case talent_call i of Inl e \<Rightarrow> (sent, failed e)
     | Inr p \<Rightarrow> apsnd (talent_result i) (run_plan (talent_plan c ss p) talent_read T sent))"

definition talent_test_connection where
  "talent_test_connection c ss T sent = help_details ''site'' (talent_run c ss TalentTest T sent)"

subsection \<open>Contracts\<close>

lemma talent_call_path: "talent_call i = Inr p \<Longrightarrow> url_tail (''/api/v1'' @ p)"
  by (cases i) (auto split: if_splits)

lemma talent_plan_stays:
  assumes "talent_plan c ss p = Inr q" "url_tail (''/api/v1'' @ p)"
  shows "stays_at (talent_domain c) q"
proof -
  have "secure_endpoint (talent_domain c)" "req_url q = text_target (talent_domain c) (''/api/v1'' @ p) []"
    using assms(1)
    by (auto simp: talent_plan_def talent_validate_def survey_endpoint_ok text_target_def plain_request_def Let_def
        split: option.splits if_splits)
  then show ?thesis using stays_text_target assms(2) by blast
qed

lemma talent_stays:
  "fst (talent_run c ss i T sent) = sent \<or> (\<exists>q. fst (talent_run c ss i T sent) = sent @ [q] \<and> stays_at (talent_domain c) q)"
  by (auto simp: talent_run_def run_plan_def dest: talent_plan_stays talent_call_path split: sum.splits)

end
