(* ===== verification/TokenRefresh.thy ===== *)
theory TokenRefresh
  imports OAuth2 RestCall
begin

text \<open>
  Calls with a token that may have expired: when the service answers 401, the token is refreshed
  and the call is made once more. Several providers word this the same way; what differs is a
  parameter. A result carries the secrets that the runtime has to store.
\<close>

section \<open>The shape\<close>

type_synonym refreshed = "typed \<times> (string \<times> string) list"

text \<open>An attempt gives its result along with the status of the answer, zero without one.\<close>

type_synonym attempt = "typed \<times> int"

definition status_of :: "string + http_response \<Rightarrow> int" where
  "status_of answer = (case answer of Inl _ \<Rightarrow> 0 | Inr r \<Rightarrow> resp_status r)"

definition attempt_plan :: "typed + http_request \<Rightarrow> attempt + http_request" where
  "attempt_plan p = map_sum (\<lambda>x. (x, 0)) id p"

definition token_updates :: "token \<Rightarrow> (string \<times> string) list" where
  "token_updates t = (''access_token'', tk_access t)
     # (if tk_refresh t = [] then [] else [(''refresh_token'', tk_refresh t)])"

definition with_refresh ::
  "gerr \<Rightarrow> (secrets \<Rightarrow> bool) \<Rightarrow> refresh_request \<Rightarrow> secrets \<Rightarrow> (string \<Rightarrow> attempt + http_request)
    \<Rightarrow> (string + http_response \<Rightarrow> attempt) \<Rightarrow> http \<Rightarrow> http_request list \<Rightarrow> http_request list \<times> refreshed" where
  "with_refresh missing can request ss plan read T sent =
     (let token = trim_space (secret ss ''access_token'') in
      if token = [] then (sent, failed missing, [])
      else (case run_plan (plan token) read T sent of (sent1, x, n) \<Rightarrow>
        if n \<noteq> 401 \<or> \<not> can ss then (sent1, x, [])
        else (case refresh (Some T) request sent1 of
            (sent2, Inl e) \<Rightarrow> (sent2, (VNil, ''oauth:refresh_failed'', Some e), [])
          | (sent2, Inr t) \<Rightarrow> (case run_plan (plan (tk_access t)) read T sent2 of (sent3, y, m) \<Rightarrow>
              (sent3, y, token_updates t)))))"

text \<open>An operation refuses its input or makes one call; a result may be worded anew.\<close>

definition refreshed_run ::
  "(rest_call \<Rightarrow> http \<Rightarrow> http_request list \<Rightarrow> http_request list \<times> refreshed) \<Rightarrow> rest_call res
    \<Rightarrow> http \<Rightarrow> http_request list \<Rightarrow> http_request list \<times> refreshed" where
  "refreshed_run run call T sent = (case call of Inl e \<Rightarrow> (sent, failed e, []) | Inr k \<Rightarrow> run k T sent)"

definition reworded ::
  "(typed \<Rightarrow> typed) \<Rightarrow> http_request list \<times> refreshed \<Rightarrow> http_request list \<times> refreshed" where
  "reworded f r = (fst r, f (fst (snd r)), snd (snd r))"

text \<open>The calls are refreshed by the same credentials, which a secret may lack.\<close>

definition can_refresh :: "secrets \<Rightarrow> bool" where
  "can_refresh ss \<longleftrightarrow> trim_space (secret ss ''refresh_token'') \<noteq> [] \<and> trim_space (secret ss ''client_id'') \<noteq> []"

definition form_refresh :: "string \<Rightarrow> string \<Rightarrow> string \<Rightarrow> secrets \<Rightarrow> refresh_request" where
  "form_refresh endpoint scope pre ss = \<lparr>rf_endpoint = endpoint, rf_token = trim_space (secret ss ''refresh_token''),
     rf_client_id = trim_space (secret ss ''client_id''), rf_client_secret = trim_space (secret ss ''client_secret''),
     rf_scope = scope, rf_secret_optional = True, rf_authentication = ''form'', rf_prefix = pre\<rparr>"

definition refreshed_err :: "refreshed \<Rightarrow> gerr option" where
  "refreshed_err r = typed_err (fst r)"

section \<open>What a write may do\<close>

text \<open>
  The write is made once; or the service refused the first attempt with 401, and then the token
  was asked for, and the second attempt is the write.
\<close>

definition refreshed_cautious ::
  "(http_response \<Rightarrow> bool) \<Rightarrow> http \<Rightarrow> http_request list \<Rightarrow> http_request list \<times> 'a \<Rightarrow> gerr option \<Rightarrow> bool" where
  "refreshed_cautious busy T sent run err \<longleftrightarrow> cautious_by busy T sent run err \<or>
     (\<exists>q r p. T sent q = Inr r \<and> resp_status r = 401 \<and>
        (fst run = sent @ [q, p] \<and> err \<noteq> None \<or> cautious_by busy T (sent @ [q, p]) run err))"

text \<open>
  The tokens that a refresh gave are in the result, whatever the second attempt came to: a
  service may have withdrawn the old ones.
\<close>

definition tokens_kept :: "string \<Rightarrow> http \<Rightarrow> http_request list \<Rightarrow> http_request list \<times> refreshed \<Rightarrow> bool" where
  "tokens_kept pre T sent run \<longleftrightarrow> (\<exists>qs. fst run = sent @ qs \<and> snd (snd run) = (case qs of
     q # p # _ \<Rightarrow> (case token_read (error_prefix pre) ''.refresh'' True (T (sent @ [q]) p) of
        Inr t \<Rightarrow> token_updates t | Inl e \<Rightarrow> [])
   | _ \<Rightarrow> []))"

lemma reworded_simps [simp]:
  "fst (reworded f r) = fst r" "snd (snd (reworded f r)) = snd (snd r)"
  by (simp_all add: reworded_def)

lemma reworded_tokens [simp]: "tokens_kept pre T sent (reworded f r) = tokens_kept pre T sent r"
  by (simp add: tokens_kept_def)

text \<open>A new wording keeps errors, and any that it adds is not offered for a retry.\<close>

lemma reworded_cautious:
  assumes "refreshed_cautious busy T sent r (refreshed_err (snd r))"
    "\<And>x e. typed_err x = Some e \<Longrightarrow> typed_err (f x) = Some e"
    "\<And>x e. typed_err x = None \<Longrightarrow> typed_err (f x) = Some e \<Longrightarrow> \<not> is_retryable e"
  shows "refreshed_cautious busy T sent (reworded f r) (refreshed_err (snd (reworded f r)))"
proof -
  have kept: "cautious_by busy T s (reworded f r) (typed_err (f (fst (snd r))))"
    if "cautious_by busy T s r (typed_err (fst (snd r)))" for s
    using that assms(2,3) [of "fst (snd r)"]
    by (cases "typed_err (fst (snd r))") (auto simp: cautious_by_def split: sum.splits)
  have err: "refreshed_err (snd (reworded f r)) = typed_err (f (fst (snd r)))" "refreshed_err (snd r) = typed_err (fst (snd r))"
    by (simp_all add: refreshed_err_def reworded_def)
  consider "cautious_by busy T sent r (typed_err (fst (snd r)))"
    | (again) q a p where "T sent q = Inr a" "resp_status a = 401"
        "fst r = sent @ [q, p] \<and> typed_err (fst (snd r)) \<noteq> None \<or>
          cautious_by busy T (sent @ [q, p]) r (typed_err (fst (snd r)))"
    using assms(1) unfolding refreshed_cautious_def err by blast
  then show ?thesis
  proof cases
    case 1
    then show ?thesis using kept unfolding refreshed_cautious_def err by blast
  next
    case (again q a p)
    then have "fst (reworded f r) = sent @ [q, p] \<and> typed_err (f (fst (snd r))) \<noteq> None \<or>
        cautious_by busy T (sent @ [q, p]) (reworded f r) (typed_err (f (fst (snd r))))"
      using kept assms(2) [of "fst (snd r)"] by auto
    with again(1,2) show ?thesis unfolding refreshed_cautious_def err by blast
  qed
qed

lemma cautious_pair: "cautious_by busy T sent (s, a) err \<Longrightarrow> cautious_by busy T sent (s, b) err"
  by (simp add: cautious_by_def)

lemma permanent_not_retryable: "is_permanent e \<Longrightarrow> \<not> is_retryable e"
  by (cases e) simp_all

text \<open>An attempt that is refused by the service with 401 is reported for good.\<close>

locale refresh_provider =
  fixes plan :: "connection \<Rightarrow> rest_call \<Rightarrow> string \<Rightarrow> attempt + http_request"
    and read :: "bool \<Rightarrow> string + http_response \<Rightarrow> attempt"
    and base :: "connection \<Rightarrow> string"
    and request :: "connection \<Rightarrow> secrets \<Rightarrow> refresh_request"
    and missing :: gerr and can :: "secrets \<Rightarrow> bool"
    and busy :: "http_response \<Rightarrow> bool"
  assumes missing_permanent: "is_permanent missing"
    and plan_permanent: "plan c k t = Inl x \<Longrightarrow> snd x \<noteq> 401 \<and> (\<exists>e. typed_err (fst x) = Some e \<and> is_permanent e)"
    and plan_stays: "plan c k t = Inr q \<Longrightarrow> url_tail (rc_path k) \<Longrightarrow> stays_at (base c) q"
    and read_status: "snd (read w a) = status_of a"
    and read_busy: "typed_err (fst (read True a)) = Some e \<Longrightarrow> is_retryable e \<Longrightarrow> \<exists>r. a = Inr r \<and> busy r"
    and read_lost: "\<exists>e. typed_err (fst (read True (Inl m))) = Some e \<and> is_uncertain e"
begin

definition run :: "connection \<Rightarrow> secrets \<Rightarrow> rest_call \<Rightarrow> http \<Rightarrow> http_request list \<Rightarrow> http_request list \<times> refreshed" where
  "run c ss k = with_refresh missing can (request c ss) ss (plan c k) (read (rc_write k))"

text \<open>A run makes no attempt, one, one and a refresh that failed, or two with a refresh between them.\<close>

lemma run_cases:
  obtains (none) "run c ss k T sent = (sent, failed missing, [])"
  | (once) s1 x n where "run_plan (plan c k (trim_space (secret ss ''access_token''))) (read (rc_write k)) T sent = (s1, x, n)"
      "run c ss k T sent = (s1, x, [])"
  | (refused) s1 x s2 e where "run_plan (plan c k (trim_space (secret ss ''access_token''))) (read (rc_write k)) T sent = (s1, x, 401)"
      "refresh (Some T) (request c ss) s1 = (s2, Inl e)"
      "run c ss k T sent = (s2, (VNil, ''oauth:refresh_failed'', Some e), [])"
  | (twice) s1 x s2 t s3 y m where "run_plan (plan c k (trim_space (secret ss ''access_token''))) (read (rc_write k)) T sent = (s1, x, 401)"
      "refresh (Some T) (request c ss) s1 = (s2, Inr t)"
      "run_plan (plan c k (tk_access t)) (read (rc_write k)) T s2 = (s3, y, m)"
      "run c ss k T sent = (s3, y, token_updates t)"
proof (cases "trim_space (secret ss ''access_token'') = []")
  case True
  then show ?thesis using that(1) by (simp add: run_def with_refresh_def)
next
  case token: False
  obtain s1 x n where a: "run_plan (plan c k (trim_space (secret ss ''access_token''))) (read (rc_write k)) T sent = (s1, x, n)"
    by (metis surj_pair)
  show ?thesis
  proof (cases "n = 401 \<and> can ss")
    case False
    then show ?thesis using that(2) [OF a] token a by (auto simp: run_def with_refresh_def Let_def)
  next
    case True
    obtain s2 t where b: "refresh (Some T) (request c ss) s1 = (s2, t)" by (metis surj_pair)
    show ?thesis
    proof (cases t)
      case (Inl e)
      then show ?thesis using that(3) [of s1 x s2 e] token a b True by (simp add: run_def with_refresh_def Let_def)
    next
      case (Inr u)
      obtain s3 y m where "run_plan (plan c k (tk_access u)) (read (rc_write k)) T s2 = (s3, y, m)" by (metis surj_pair)
      then show ?thesis using that(4) [of s1 x s2 u s3 y m] token a b True Inr by (simp add: run_def with_refresh_def Let_def)
    qed
  qed
qed

lemma attempt_cautious:
  assumes "rc_write k"
  shows "cautious_by busy T sent (run_plan (plan c k t) (read (rc_write k)) T sent)
    (typed_err (fst (snd (run_plan (plan c k t) (read (rc_write k)) T sent))))"
proof (cases "plan c k t")
  case (Inl x)
  then show ?thesis using plan_permanent [OF Inl] by (auto simp: cautious_by_def run_plan_def)
next
  case (Inr q)
  then show ?thesis using assms read_lost read_busy [of "T sent q"]
    by (cases "T sent q") (auto simp: cautious_by_def run_plan_def)
qed

lemma attempt_401:
  assumes "run_plan (plan c k t) (read w) T sent = (sent', x, 401)"
  shows "\<exists>q r. sent' = sent @ [q] \<and> plan c k t = Inr q \<and> T sent q = Inr r \<and> resp_status r = 401"
proof (cases "plan c k t")
  case (Inl y)
  then show ?thesis using assms plan_permanent [OF Inl] by (auto simp: run_plan_def)
next
  case (Inr q)
  then have "snd (read w (T sent q)) = 401" "sent' = sent @ [q]" using assms by (auto simp: run_plan_def)
  then show ?thesis using Inr by (auto simp: read_status status_of_def split: sum.splits)
qed

lemma refresh_sends:
  "refresh (Some T) r sent = (sent', t) \<Longrightarrow> (\<exists>e. sent' = sent \<and> t = Inl e \<and> is_permanent e) \<or>
    (\<exists>q. sent' = sent @ [q] \<and> refresh_plan r = Inr q)"
  by (auto simp: refresh_def refresh_plan_def send_def Let_def split: sum.splits option.splits if_splits prod.splits)

lemma refresh_cautious:
  assumes "rc_write k"
  shows "refreshed_cautious busy T sent (run c ss k T sent) (refreshed_err (snd (run c ss k T sent)))"
proof (cases rule: run_cases [of c ss k T sent])
  case none
  then show ?thesis using missing_permanent by (simp add: refreshed_cautious_def cautious_by_def refreshed_err_def)
next
  case (once s1 x n)
  have "cautious_by busy T sent (s1, x, [] :: (string \<times> string) list) (typed_err x)"
    by (rule cautious_pair [of _ _ _ _ "(x, n)"]) (use attempt_cautious [OF assms, of T sent c] once(1) in \<open>metis fst_conv snd_conv\<close>)
  then show ?thesis using once(2) by (simp add: refreshed_cautious_def refreshed_err_def)
next
  case (refused s1 x s2 e)
  obtain q r where q: "s1 = sent @ [q]" "T sent q = Inr r" "resp_status r = 401" using attempt_401 [OF refused(1)] by auto
  show ?thesis
  proof (cases "s2 = s1")
    case True
    then have "is_permanent e" using refresh_sends [OF refused(2)] by auto
    then show ?thesis using True q refused(3) permanent_not_retryable
      by (simp add: refreshed_cautious_def cautious_by_def refreshed_err_def)
  next
    case False
    then obtain p where "s2 = sent @ [q, p]" using refresh_sends [OF refused(2)] q by auto
    then show ?thesis using q refused(3) unfolding refreshed_cautious_def refreshed_err_def
      by - (rule disjI2, intro exI [of _ q] exI [of _ r] exI [of _ p], simp)
  qed
next
  case (twice s1 x s2 t s3 y m)
  obtain q r p where q: "s2 = sent @ [q, p]" "T sent q = Inr r" "resp_status r = 401"
    using attempt_401 [OF twice(1)] refresh_sends [OF twice(2)] by auto
  have "cautious_by busy T (sent @ [q, p]) (s3, y, token_updates t) (typed_err y)"
    by (rule cautious_pair [of _ _ _ _ "(y, m)"])
      (use attempt_cautious [OF assms, of T s2 c] twice(3) q(1) in \<open>metis fst_conv snd_conv\<close>)
  then show ?thesis using q twice(4) unfolding refreshed_cautious_def refreshed_err_def
    by (intro disjI2 exI [of _ q] exI [of _ r] exI [of _ p] conjI) simp_all
qed

text \<open>At most three requests, to the base and to the token address.\<close>

lemma refresh_request_stays:
  assumes "refresh_plan r = Inr q"
  shows "stays_at (trim_space (rf_endpoint r)) q"
proof -
  have u: "req_url q = trim_space (rf_endpoint r) @ []" "secure_endpoint (trim_space (rf_endpoint r))"
    using assms by (auto simp: refresh_plan_def validate_refresh_def token_endpoint_ok_def secure_endpoint_def secure_url_def
        plain_request_def Let_def simp del: not_None_eq split: option.splits if_splits)
  show ?thesis by (rule stays_at_text [OF u(2) _ u(1)]) simp
qed

lemma attempt_stays:
  assumes "url_tail (rc_path k)" "run_plan (plan c k t) read' T s = (s', x, n)" "base c \<in> set bs"
  shows "sends_at bs 1 s s'"
  using plan_stays [of c k t] assms by (cases "plan c k t") (auto simp: run_plan_def intro: sends_at_one)

lemma refresh_stays:
  assumes "url_tail (rc_path k)"
  shows "sends_at [base c, trim_space (rf_endpoint (request c ss))] 3 sent (fst (run c ss k T sent))"
proof (cases rule: run_cases [of c ss k T sent])
  let ?bs = "[base c, trim_space (rf_endpoint (request c ss))]"
  note one = attempt_stays [OF assms, of c _ _ T _ _ _ _ ?bs, simplified]
  have token: "sends_at ?bs 1 s s'" if "refresh (Some T) (request c ss) s = (s', t)" for s s' t
    using refresh_sends [OF that] refresh_request_stays [of "request c ss"] by (auto intro: sends_at_one)
  {
    case none
    then show ?thesis by simp
  next
    case (once s1 x n)
    then show ?thesis using one [OF once(1)] by (simp add: sends_at_mono)
  next
    case (refused s1 x s2 e)
    then show ?thesis using sends_at_trans [OF one [OF refused(1)] token [OF refused(2)]] by simp
  next
    case (twice s1 x s2 t s3 y m)
    then show ?thesis
      using sends_at_trans [OF sends_at_trans [OF one [OF twice(1)] token [OF twice(2)] order_refl] one [OF twice(3)]] by simp
  }
qed

end

text \<open>What follows for an operation.\<close>

context refresh_provider begin

lemma operation_cautious:
  assumes "\<And>e. call = Inl e \<Longrightarrow> is_permanent e" "\<And>k. call = Inr k \<Longrightarrow> rc_write k"
  shows "refreshed_cautious busy T sent (refreshed_run (run c ss) call T sent)
    (refreshed_err (snd (refreshed_run (run c ss) call T sent)))"
proof (cases call)
  case (Inl e)
  then show ?thesis using assms(1) by (simp add: refreshed_run_def refreshed_cautious_def cautious_by_def refreshed_err_def)
next
  case (Inr k)
  then show ?thesis using assms(2) refresh_cautious [of k T sent c ss] by (simp add: refreshed_run_def)
qed

lemma operation_stays:
  assumes "\<And>k. call = Inr k \<Longrightarrow> url_tail (rc_path k)"
  shows "sends_at [base c, trim_space (rf_endpoint (request c ss))] 3 sent (fst (refreshed_run (run c ss) call T sent))"
  using assms refresh_stays [of _ c ss sent T] by (cases call) (simp_all add: refreshed_run_def)

lemma attempt_sends:
  "run_plan (plan c k t) read' T sent = (s1, x, n) \<Longrightarrow> s1 = sent \<or> (\<exists>q. s1 = sent @ [q])"
  by (cases "plan c k t") (auto simp: run_plan_def)

lemma refresh_tokens: "tokens_kept (rf_prefix (request c ss)) T sent (run c ss k T sent)"
proof (cases rule: run_cases [of c ss k T sent])
  case none
  then show ?thesis by (simp add: tokens_kept_def)
next
  case (once s1 x n)
  then show ?thesis using attempt_sends [OF once(1)] by (auto simp: tokens_kept_def)
next
  case (refused s1 x s2 e)
  obtain q where "s1 = sent @ [q]" using attempt_401 [OF refused(1)] by auto
  then show ?thesis using refused(2,3)
    by (cases "refresh_plan (request c ss)") (auto simp: tokens_kept_def refresh_def send_def)
next
  case (twice s1 x s2 t s3 y m)
  obtain q where q: "s1 = sent @ [q]" using attempt_401 [OF twice(1)] by auto
  obtain p where "s2 = sent @ [q, p]" "token_read (error_prefix (rf_prefix (request c ss))) ''.refresh'' True (T (sent @ [q]) p) = Inr t"
    using twice(2) q by (cases "refresh_plan (request c ss)") (auto simp: refresh_def send_def)
  then show ?thesis using twice(4) attempt_sends [OF twice(3)] by (auto simp: tokens_kept_def)
qed

lemma operation_tokens:
  "tokens_kept (rf_prefix (request c ss)) T sent (refreshed_run (run c ss) call T sent)"
  by (cases call) (simp_all add: refreshed_run_def tokens_kept_def refresh_tokens [unfolded tokens_kept_def])

end

text \<open>The shape that the readers of these providers have: the status is the one of the answer.\<close>

lemma attempt_plan_permanent:
  assumes "attempt_plan p = Inl x" "\<And>y. p = Inl y \<Longrightarrow> \<exists>e. typed_err y = Some e \<and> is_permanent e"
  shows "snd x \<noteq> 401 \<and> (\<exists>e. typed_err (fst x) = Some e \<and> is_permanent e)"
  using assms by (cases p) (auto simp: attempt_plan_def)

lemma attempt_plan_request: "attempt_plan p = Inr q \<longleftrightarrow> p = Inr q"
  by (cases p) (auto simp: attempt_plan_def)

end
