(* ===== verification/ESign.thy ===== *)
theory ESign
  imports TokenRefresh Delivery
begin

text \<open>
  What the electronic signature providers (\<^verbatim>\<open>providers/esign\<close>) share in the same wording: the check
  of addresses, the JSON call and the reading of its answer. \<open>pre\<close> is the name of a provider in
  its error codes, \<open>title\<close> the one in its texts.
\<close>

section \<open>Requests\<close>

definition esign_error :: "string \<Rightarrow> string \<Rightarrow> string \<Rightarrow> gerr" where
  "esign_error pre code msg = Permanent (pre @ ''.'' @ code) (Msg msg)"

definition esign_loopback :: "string \<Rightarrow> bool" where
  "esign_loopback h \<longleftrightarrow> equal_fold h ''localhost'' \<or> ip_loopback h"

definition esign_endpoint :: "string \<Rightarrow> bool" where
  "esign_endpoint s = web_endpoint esign_loopback s"

definition esign_timeout :: "string \<Rightarrow> connection \<Rightarrow> gerr option" where
  "esign_timeout pre c = (if timeout_120 c then None
     else Some (esign_error pre ''timeout_invalid'' ''timeout_seconds must be between 1 and 120''))"

definition esign_identity :: "string \<Rightarrow> string \<Rightarrow> string \<Rightarrow> string res" where
  "esign_identity pre code s = (if trim_space s = [] then Inl (esign_error pre code ''envelope_id is required'')
     else Inr (trim_space s))"

definition esign_request :: "rest_call \<Rightarrow> string \<Rightarrow> string \<Rightarrow> string \<Rightarrow> http_request" where
  "esign_request k token u raw = authorized (''Bearer '' @ token)
     (plain_request (rc_method k) u (json_headers (rc_body k)) raw)"

definition esign_target :: "string \<Rightarrow> rest_call \<Rightarrow> string" where
  "esign_target base k = text_target (trim_right_char (CHR ''/'') base) (rc_path k) (rc_query k)"

definition esign_plan ::
  "string \<Rightarrow> gerr option \<Rightarrow> string \<Rightarrow> secrets \<Rightarrow> rest_call \<Rightarrow> typed + http_request" where
  "esign_plan pre validated base ss k = (let token = trim_space (secret ss ''access_token'') in
     rest_plan validated (token, esign_error pre ''access_token_required'' ''access token is required'')
       (Inr (esign_target base k)) (rc_body k, esign_error pre ''request_invalid'' ''request body is invalid'')
       (esign_request k token))"

section \<open>Answers\<close>

text \<open>The first member that is a text and not blank.\<close>

definition esign_ref :: "string \<Rightarrow> string list \<Rightarrow> int \<Rightarrow> obj \<Rightarrow> string" where
  "esign_ref pre ks n m = (let i = first_text (map (obj_string m) ks) in
     if i = [] then ''http:'' @ itoa n else pre @ '':'' @ i)"

definition esign_code :: "string \<Rightarrow> string \<Rightarrow> int \<Rightarrow> obj \<Rightarrow> string" where
  "esign_code pre member n m = (let s = (case as_str (at m member) of None \<Rightarrow> [] | Some s \<Rightarrow> s) in
     pre @ ''.'' @ to_lower (if s = [] then ''http_'' @ itoa n else s))"

text \<open>These answers are offered for a retry, also when they answer a write.\<close>

definition esign_busy :: "http_response \<Rightarrow> bool" where
  "esign_busy r \<longleftrightarrow> throttled (resp_status r) \<or> 500 \<le> resp_status r"

definition esign_read ::
  "string \<Rightarrow> string \<Rightarrow> string list \<Rightarrow> string \<Rightarrow> bool \<Rightarrow> string + http_response \<Rightarrow> typed" where
  "esign_read pre title ks member write answer = (case answer of
     Inl m \<Rightarrow> failed (if write then Uncertain (pre @ ''.delivery_uncertain'') (TransportErr m)
       else Retryable (pre @ ''.network_error'') (TransportErr m))
   | Inr r \<Rightarrow> (case decode_output (resp_body r) of
       None \<Rightarrow> failed (if write then Uncertain (pre @ ''.response_uncertain'') (Msg (title @ '' response is invalid''))
         else Retryable (pre @ ''.response_invalid'') (Msg (title @ '' response is invalid'')))
     | Some v \<Rightarrow>
        (let n = resp_status r; ref = esign_ref pre ks n (as_obj v); code = esign_code pre member n (as_obj v);
             cause = Msg (title @ '' request failed'') in
         if ok_status n then (v, ref, None)
         else (VNil, ref, Some (if esign_busy r then Retryable code cause else Permanent code cause)))))"

section \<open>Contracts\<close>

lemma esign_error_permanent [simp]: "is_permanent (esign_error pre code msg)"
  by (simp add: esign_error_def)

lemma esign_endpoint_trusted: "esign_endpoint s \<Longrightarrow> trusted_endpoint s"
  by (auto simp: esign_endpoint_def web_endpoint_def trusted_endpoint_def trusted_url_def esign_loopback_def this_machine_def
      simp del: not_None_eq split: option.splits)

lemma esign_timeout_permanent: "esign_timeout pre c = Some e \<Longrightarrow> is_permanent e"
  by (auto simp: esign_timeout_def split: if_splits)

lemma esign_identity_permanent: "esign_identity pre code s = Inl e \<Longrightarrow> is_permanent e"
  by (auto simp: esign_identity_def split: if_splits)

lemma esign_request_stays:
  assumes "trusted_endpoint b" "url_tail (rc_path k)"
  shows "stays_at b (esign_request k token (esign_target b k) raw)"
  by (rule trusted_at_trimmed [OF assms(1), of "rc_path k @ (if rc_query k = [] then [] else CHR ''?'' # encode_values (rc_query k))"])
    (use assms(2) in \<open>simp_all add: esign_request_def esign_target_def text_target_def\<close>)

lemma esign_plan_stays:
  assumes "esign_plan pre validated base ss k = Inr q" "url_tail (rc_path k)" "validated = None \<Longrightarrow> trusted_endpoint base"
  shows "stays_at base q"
  using assms(1) unfolding esign_plan_def Let_def
  by (rule rest_plan_request) (use assms(2,3) in \<open>auto intro: esign_request_stays\<close>)

lemma esign_plan_permanent:
  assumes "esign_plan pre validated base ss k = Inl x" "\<And>e. validated = Some e \<Longrightarrow> is_permanent e"
  shows "\<exists>e. typed_err x = Some e \<and> is_permanent e"
  using assms(1) unfolding esign_plan_def Let_def by (rule rest_plan_permanent) (use assms(2) in simp_all)

lemma esign_read_busy:
  "typed_err (esign_read pre title ks member True a) = Some e \<Longrightarrow> is_retryable e \<Longrightarrow> \<exists>r. a = Inr r \<and> esign_busy r"
  by (auto simp: esign_read_def Let_def split: sum.splits option.splits if_splits)

lemma esign_read_lost: "\<exists>e. typed_err (esign_read pre title ks member True (Inl m)) = Some e \<and> is_uncertain e"
  by (simp add: esign_read_def)

end
