(* ===== verification/Signatures.thy ===== *)
theory Signatures
  imports ESign
begin

text \<open>The signature providers that keep their token: Adobe Sign, SignNow and Fadada.\<close>

section \<open>Adobe Sign\<close>

text \<open>The Adobe Acrobat Sign provider (\<^verbatim>\<open>providers/esign/adobe_sign\<close>).\<close>

definition adobe_base :: "connection \<Rightarrow> string" where
  "adobe_base c = config_text c ''base_url''"

text \<open>The base address names the sixth version of the interface.\<close>

definition adobe_endpoint :: "string \<Rightarrow> bool" where
  "adobe_endpoint s = (case url_parse s of None \<Rightarrow> False
     | Some u \<Rightarrow> esign_endpoint s \<and> has_suffix (trim_right_char (CHR ''/'') (path u)) ''/api/rest/v6'')"

definition adobe_validate :: "connection \<Rightarrow> gerr option" where
  "adobe_validate c =
     (if \<not> adobe_endpoint (adobe_base c)
      then Some (esign_error ''adobe_sign'' ''endpoint_invalid'' ''valid Acrobat Sign v6 shard API base URL is required'')
      else esign_timeout ''adobe_sign'' c)"

definition adobe_plan :: "connection \<Rightarrow> secrets \<Rightarrow> rest_call \<Rightarrow> typed + http_request" where
  "adobe_plan c ss = esign_plan ''adobe_sign'' (adobe_validate c) (adobe_base c) ss"

definition adobe_read :: "bool \<Rightarrow> string + http_response \<Rightarrow> typed" where
  "adobe_read = esign_read ''adobe_sign'' ''Adobe Sign'' [''id''] ''code''"

subsection \<open>Operations\<close>

record adobe_changes =
  ac_size :: int
  ac_cursor :: string
  ac_query :: string

datatype adobe_input = AdCreate obj | AdView string | AdGet string | AdChanges adobe_changes
  | AdSend string | AdVoid string string | AdTest

definition adobe_identity :: "string \<Rightarrow> string res" where
  "adobe_identity = esign_identity ''adobe_sign'' ''agreement_id_required''"

definition adobe_agreement :: "string \<Rightarrow> string \<Rightarrow> string" where
  "adobe_agreement i p = ''/agreements/'' @ path_escape i @ p"

text \<open>A page may be as long as the caller asks.\<close>

definition adobe_page :: "int \<Rightarrow> int res" where
  "adobe_page n = (let k = (if n = 0 then 50 else n) in
     if k < 1 then Inl (esign_error ''adobe_sign'' ''page_size_invalid'' ''page_size must be positive'') else Inr k)"

text \<open>The addresses for signing are read with GET, and still count as a write.\<close>

fun adobe_call :: "adobe_input \<Rightarrow> rest_call res" where
  "adobe_call (AdCreate m) =
     (if m = [] then Inl (esign_error ''adobe_sign'' ''input_required'' ''envelope input is required'')
      else Inr (write_call ''POST'' ''/agreements'' [] (marshal (VObj m))))"
| "adobe_call (AdGet s) = (case adobe_identity s of Inl e \<Rightarrow> Inl e | Inr i \<Rightarrow> Inr (get_call (adobe_agreement i []) []))"
| "adobe_call (AdSend s) = (case adobe_identity s of Inl e \<Rightarrow> Inl e
     | Inr i \<Rightarrow> Inr (write_call ''PUT'' (adobe_agreement i ''/state'') [] (marshal (VObj [(''state'', VStr ''IN_PROCESS'')]))))"
| "adobe_call (AdVoid s reason) =
     (if isl (adobe_identity s) \<or> trim_space reason = []
      then Inl (esign_error ''adobe_sign'' ''void_fields_required'' ''envelope_id and reason are required'')
      else Inr (write_call ''PUT'' (adobe_agreement (trim_space s) ''/state'') []
        (marshal (VObj [(''state'', VStr ''CANCELLED''), (''agreementCancellationInfo'',
           VObj [(''comment'', VStr (trim_space reason)), (''notifyOthers'', VBool True)])]))))"
| "adobe_call (AdView s) = (case adobe_identity s of Inl e \<Rightarrow> Inl e
     | Inr i \<Rightarrow> Inr ((get_call (adobe_agreement i ''/signingUrls'') [])\<lparr>rc_write := True\<rparr>))"
| "adobe_call (AdChanges x) = (case adobe_page (ac_size x) of Inl e \<Rightarrow> Inl e
     | Inr n \<Rightarrow> Inr (get_call ''/agreements''
         (set_query ''query'' (ac_query x) (set_query ''cursor'' (ac_cursor x) [(''pageSize'', [itoa n])]))))"
| "adobe_call AdTest = Inr (get_call ''/baseUris'' [])"

definition adobe_run ::
  "connection \<Rightarrow> secrets \<Rightarrow> adobe_input \<Rightarrow> http \<Rightarrow> http_request list \<Rightarrow> http_request list \<times> typed" where
  "adobe_run c ss i T sent = rest_run (adobe_plan c ss) adobe_read (adobe_call i) T sent"

definition adobe_test_connection where
  "adobe_test_connection c ss T sent = test_details (adobe_run c ss AdTest T sent)"

subsection \<open>Contracts\<close>

lemma adobe_validate_permanent: "adobe_validate c = Some e \<Longrightarrow> is_permanent e"
  by (auto simp: adobe_validate_def intro: esign_timeout_permanent split: if_splits)

lemma adobe_validate_ok: "adobe_validate c = None \<Longrightarrow> trusted_endpoint (adobe_base c)"
  by (auto simp: adobe_validate_def adobe_endpoint_def intro: esign_endpoint_trusted split: if_splits option.splits)

interpretation adobe_calls: rest_answers adobe_plan adobe_base adobe_read esign_busy
  unfolding adobe_plan_def adobe_read_def
  by unfold_locales
    (auto intro: esign_plan_permanent esign_plan_stays adobe_validate_permanent adobe_validate_ok esign_read_busy esign_read_lost)

definition adobe_writes :: "adobe_input \<Rightarrow> bool" where
  "adobe_writes i \<longleftrightarrow> (case i of AdGet s \<Rightarrow> False | AdChanges x \<Rightarrow> False | AdTest \<Rightarrow> False | _ \<Rightarrow> True)"

lemma adobe_call_permanent: "adobe_call i = Inl e \<Longrightarrow> is_permanent e"
  by (cases i) (auto simp: adobe_identity_def adobe_page_def Let_def intro: esign_identity_permanent split: sum.splits if_splits)

lemma adobe_call_write: "adobe_writes i \<Longrightarrow> adobe_call i = Inr k \<Longrightarrow> rc_write k"
  by (cases i) (auto simp: adobe_writes_def split: sum.splits if_splits)

lemma adobe_call_path: "adobe_call i = Inr k \<Longrightarrow> url_tail (rc_path k)"
  by (cases i) (auto simp: adobe_agreement_def get_call_def split: sum.splits if_splits)

lemma adobe_stays:
  "fst (adobe_run c ss i T sent) = sent \<or> (\<exists>q. fst (adobe_run c ss i T sent) = sent @ [q] \<and> stays_at (adobe_base c) q)"
  unfolding adobe_run_def by (rule adobe_calls.run_stays) (rule adobe_call_path)

lemma adobe_cautious:
  assumes "adobe_writes i"
  shows "cautious_by esign_busy T sent (adobe_run c ss i T sent) (typed_err (snd (adobe_run c ss i T sent)))"
  unfolding adobe_run_def
  by (rule adobe_calls.run_cautious_by) (use assms in \<open>auto dest: adobe_call_permanent adobe_call_write\<close>)

section \<open>SignNow\<close>

text \<open>The SignNow provider (\<^verbatim>\<open>providers/esign/signnow\<close>).\<close>

definition signnow_base :: "connection \<Rightarrow> string" where
  "signnow_base c = config_default c ''base_url'' ''https://api.signnow.com''"

definition signnow_validate :: "connection \<Rightarrow> gerr option" where
  "signnow_validate c =
     (if \<not> esign_endpoint (signnow_base c)
      then Some (esign_error ''signnow'' ''endpoint_invalid'' ''valid SignNow API base URL is required'')
      else esign_timeout ''signnow'' c)"

definition signnow_plan :: "connection \<Rightarrow> secrets \<Rightarrow> rest_call \<Rightarrow> typed + http_request" where
  "signnow_plan c ss = esign_plan ''signnow'' (signnow_validate c) (signnow_base c) ss"

definition signnow_read :: "bool \<Rightarrow> string + http_response \<Rightarrow> typed" where
  "signnow_read = esign_read ''signnow'' ''SignNow'' [''id'', ''document_id'', ''field_invite_id''] ''error''"

subsection \<open>Operations\<close>

datatype signnow_input = SnView string obj | SnGet string | SnSend string obj | SnVoid string string | SnTest

definition signnow_identity :: "string \<Rightarrow> string res" where
  "signnow_identity = esign_identity ''signnow'' ''document_id_required''"

definition signnow_invite :: "obj \<Rightarrow> string" where
  "signnow_invite m = obj_string m ''field_invite_id''"

fun signnow_call :: "signnow_input \<Rightarrow> rest_call res" where
  "signnow_call (SnGet s) = (case signnow_identity s of Inl e \<Rightarrow> Inl e
     | Inr i \<Rightarrow> Inr (get_call (''/document/'' @ path_escape i) []))"
| "signnow_call (SnSend s m) = (case signnow_identity s of Inl e \<Rightarrow> Inl e
     | Inr i \<Rightarrow> if m = [] then Inl (esign_error ''signnow'' ''invite_input_required'' ''invite input is required'')
        else Inr (write_call ''POST'' (''/document/'' @ path_escape i @ ''/invite'') [] (marshal (VObj m))))"
| "signnow_call (SnVoid s reason) = (case signnow_identity s of Inl e \<Rightarrow> Inl e
     | Inr i \<Rightarrow> if trim_space reason = [] then Inl (esign_error ''signnow'' ''reason_required'' ''reason is required'')
        else Inr (write_call ''PUT'' (''/document/'' @ path_escape i @ ''/fieldinvitecancel'') []
          (marshal (VObj [(''document_id'', VStr i), (''reason'', VStr (trim_space reason))]))))"
| "signnow_call (SnView s m) = (case signnow_identity s of Inl e \<Rightarrow> Inl e
     | Inr i \<Rightarrow> if signnow_invite m = []
        then Inl (esign_error ''signnow'' ''field_invite_id_required'' ''field_invite_id is required'')
        else Inr (write_call ''POST''
          (''/v2/documents/'' @ path_escape i @ ''/embedded-invites/'' @ path_escape (signnow_invite m) @ ''/link'') []
          (marshal (VObj (filter (\<lambda>kv. fst kv \<noteq> ''field_invite_id'') m)))))"
| "signnow_call SnTest = Inr (get_call ''/user'' [])"

definition signnow_run ::
  "connection \<Rightarrow> secrets \<Rightarrow> signnow_input \<Rightarrow> http \<Rightarrow> http_request list \<Rightarrow> http_request list \<times> typed" where
  "signnow_run c ss i T sent = rest_run (signnow_plan c ss) signnow_read (signnow_call i) T sent"

definition signnow_test_connection where
  "signnow_test_connection c ss T sent = test_details (signnow_run c ss SnTest T sent)"

subsection \<open>Contracts\<close>

lemma signnow_validate_permanent: "signnow_validate c = Some e \<Longrightarrow> is_permanent e"
  by (auto simp: signnow_validate_def intro: esign_timeout_permanent split: if_splits)

lemma signnow_validate_ok: "signnow_validate c = None \<Longrightarrow> trusted_endpoint (signnow_base c)"
  by (auto simp: signnow_validate_def intro: esign_endpoint_trusted split: if_splits)

interpretation signnow_calls: rest_answers signnow_plan signnow_base signnow_read esign_busy
  unfolding signnow_plan_def signnow_read_def
  by unfold_locales
    (auto intro: esign_plan_permanent esign_plan_stays signnow_validate_permanent signnow_validate_ok esign_read_busy
      esign_read_lost)

definition signnow_writes :: "signnow_input \<Rightarrow> bool" where
  "signnow_writes i \<longleftrightarrow> (case i of SnGet s \<Rightarrow> False | SnTest \<Rightarrow> False | _ \<Rightarrow> True)"

lemma signnow_call_permanent: "signnow_call i = Inl e \<Longrightarrow> is_permanent e"
  by (cases i) (auto simp: signnow_identity_def intro: esign_identity_permanent split: sum.splits if_splits)

lemma signnow_call_write: "signnow_writes i \<Longrightarrow> signnow_call i = Inr k \<Longrightarrow> rc_write k"
  by (cases i) (auto simp: signnow_writes_def split: sum.splits if_splits)

lemma signnow_call_path: "signnow_call i = Inr k \<Longrightarrow> url_tail (rc_path k)"
  by (cases i) (auto split: sum.splits if_splits)

lemma signnow_stays:
  "fst (signnow_run c ss i T sent) = sent
    \<or> (\<exists>q. fst (signnow_run c ss i T sent) = sent @ [q] \<and> stays_at (signnow_base c) q)"
  unfolding signnow_run_def by (rule signnow_calls.run_stays) (rule signnow_call_path)

lemma signnow_cautious:
  assumes "signnow_writes i"
  shows "cautious_by esign_busy T sent (signnow_run c ss i T sent) (typed_err (snd (signnow_run c ss i T sent)))"
  unfolding signnow_run_def
  by (rule signnow_calls.run_cautious_by) (use assms in \<open>auto dest: signnow_call_permanent signnow_call_write\<close>)

section \<open>Fadada\<close>

text \<open>
  The Fadada provider (\<^verbatim>\<open>providers/esign/fadada\<close>): every operation asks for a token first, and
  each request is signed with the time and random bytes, which are parameters.
\<close>

definition fadada_error :: "string \<Rightarrow> string \<Rightarrow> gerr" where
  "fadada_error = esign_error ''fadada''"

definition fadada_base :: "connection \<Rightarrow> string" where
  "fadada_base c = config_text c ''base_url''"

definition fadada_app :: "connection \<Rightarrow> string" where
  "fadada_app c = config_text c ''app_id''"

definition fadada_validate :: "connection \<Rightarrow> gerr option" where
  "fadada_validate c =
     (if \<not> esign_endpoint (fadada_base c)
      then Some (fadada_error ''endpoint_invalid'' ''valid Fadada OpenAPI base URL is required'')
      else if fadada_app c = [] then Some (fadada_error ''app_id_required'' ''app_id is required'')
      else esign_timeout ''fadada'' c)"

subsection \<open>Signed headers\<close>

text \<open>The milliseconds of the clock, and the random bytes unless the source of them fails.\<close>

type_synonym moment = "int \<times> string option"

definition fadada_values :: "connection \<Rightarrow> int \<Rightarrow> string \<Rightarrow> string option \<Rightarrow> (string \<times> string) list" where
  "fadada_values c now bytes content =
     [(''X-FASC-App-Id'', fadada_app c), (''X-FASC-Sign-Type'', ''HMAC-SHA256''), (''X-FASC-Timestamp'', itoa now),
      (''X-FASC-Nonce'', hex_encode bytes), (''X-FASC-Api-SubVersion'', ''5.1''),
      (case content of Some raw \<Rightarrow> (''bizContent'', raw) | None \<Rightarrow> (''X-FASC-Grant-Type'', ''client_credential''))]"

definition fadada_signature :: "string \<Rightarrow> int \<Rightarrow> (string \<times> string) list \<Rightarrow> string" where
  "fadada_signature key now vs =
     (let parts = map (\<lambda>kv. fst kv @ ''='' @ snd kv) (sort_key fst (filter (\<lambda>kv. snd kv \<noteq> []) vs));
          digest = hex_encode (sha256 (join ''&'' parts)) in
      to_lower (hex_encode (hmac sha256 (hmac sha256 key (itoa now)) digest)))"

text \<open>The headers in the open and the secret ones; the content is signed and not a header.\<close>

definition fadada_headers ::
  "connection \<Rightarrow> secrets \<Rightarrow> moment \<Rightarrow> string option \<Rightarrow> (headers \<times> headers) res" where
  "fadada_headers c ss t content = (let key = trim_space (secret ss ''app_secret'') in
     if key = [] then Inl (fadada_error ''app_secret_required'' ''app_secret is required'')
     else (case snd t of None \<Rightarrow> Inl (Retryable ''fadada.nonce_failed'' (Msg ''random source failed''))
     | Some bytes \<Rightarrow> let vs = fadada_values c (fst t) bytes content in
         Inr (json_headers (map_option Some content)
             @ map (\<lambda>kv. (fst kv, [snd kv])) (filter (\<lambda>kv. fst kv \<noteq> ''bizContent'') vs),
           [(''X-FASC-Sign'', [fadada_signature key (fst t) vs])])))"

subsection \<open>Requests\<close>

definition fadada_plan :: "connection \<Rightarrow> string \<Rightarrow> string \<Rightarrow> headers \<times> headers \<Rightarrow> (int \<times> val) res + http_request" where
  "fadada_plan c p raw hs = (case fadada_validate c of Some e \<Rightarrow> Inl (Inl e)
     | None \<Rightarrow> Inr ((plain_request ''POST'' (text_target (trim_right_char (CHR ''/'') (fadada_base c)) p []) (fst hs) raw)
         \<lparr>req_secret_headers := snd hs, req_max := 4194304\<rparr>))"

definition fadada_code :: "obj \<Rightarrow> string" where
  "fadada_code m = (case as_str (at m ''code'') of None \<Rightarrow> [] | Some s \<Rightarrow> s)"

text \<open>An answer is accepted with a good status and the code 100000; an empty one is not read.\<close>

definition fadada_read :: "bool \<Rightarrow> string + http_response \<Rightarrow> (int \<times> val) res" where
  "fadada_read write answer = (case answer of
     Inl m \<Rightarrow> Inl (if write then Uncertain ''fadada.delivery_uncertain'' (TransportErr m)
       else Retryable ''fadada.network_error'' (TransportErr m))
   | Inr r \<Rightarrow> (case decode_map (resp_body r) of
       None \<Rightarrow> Inl (if write then Uncertain ''fadada.response_uncertain'' (Msg ''Fadada response is invalid'')
         else Retryable ''fadada.response_invalid'' (Msg ''Fadada response is invalid''))
     | Some v \<Rightarrow>
        (let n = resp_status r; code = fadada_code (as_obj v); cause = Msg ''Fadada request failed'' in
         if \<not> ok_status n
         then Inl (if esign_busy r then Retryable (''fadada.http_'' @ itoa n) cause else Permanent (''fadada.http_'' @ itoa n) cause)
         else if code \<noteq> ''100000''
         then Inl (Permanent (''fadada.'' @ to_lower (if code = [] then ''unknown'' else code)) (Msg ''Fadada rejected the request''))
         else Inr (n, v))))"

text \<open>The token and the answer that holds it.\<close>

definition fadada_access_token ::
  "connection \<Rightarrow> secrets \<Rightarrow> moment \<Rightarrow> http \<Rightarrow> http_request list \<Rightarrow> http_request list \<times> (string \<times> val) res" where
  "fadada_access_token c ss t T sent = (case fadada_headers c ss t None of
     Inl e \<Rightarrow> (sent, Inl e)
   | Inr hs \<Rightarrow> (case run_plan (fadada_plan c ''/service/get-access-token'' [] hs) (fadada_read False) T sent of
       (sent', Inl e) \<Rightarrow> (sent', Inl e)
     | (sent', Inr (n, v)) \<Rightarrow> (sent',
         let token = obj_string (as_obj (at (as_obj v) ''data'')) ''accessToken'' in
         if token = [] then Inl (fadada_error ''access_token_missing'' ''Fadada access token is missing'')
         else Inr (token, v))))"

definition fadada_ref :: "int \<Rightarrow> obj \<Rightarrow> string" where
  "fadada_ref n m = (let i = first_text (map (obj_string (as_obj (at m ''data''))) [''signTaskId'', ''actorSignTaskUrl'', ''url'']) in
     ''fadada:'' @ (if i = [] then ''http:'' @ itoa n else i))"

text \<open>The request proper: its headers are signed anew.\<close>

definition fadada_deliver ::
  "connection \<Rightarrow> secrets \<Rightarrow> moment \<Rightarrow> rest_call \<Rightarrow> string \<Rightarrow> string \<Rightarrow> http \<Rightarrow> http_request list \<Rightarrow> http_request list \<times> typed" where
  "fadada_deliver c ss t k raw token T sent = (case fadada_headers c ss t (Some raw) of
     Inl e \<Rightarrow> (sent, failed e)
   | Inr (hs, shs) \<Rightarrow>
      (case run_plan (fadada_plan c (rc_path k) raw (hs, shs @ [(''X-FASC-AccessToken'', [token])]))
          (fadada_read (rc_write k)) T sent of
        (sent', Inl e) \<Rightarrow> (sent', failed e)
      | (sent', Inr (n, v)) \<Rightarrow> (sent', v, fadada_ref n (as_obj v), None)))"

definition fadada_business ::
  "connection \<Rightarrow> secrets \<Rightarrow> moment \<times> moment \<Rightarrow> rest_call \<Rightarrow> http \<Rightarrow> http_request list \<Rightarrow> http_request list \<times> typed" where
  "fadada_business c ss ts k T sent = (case json_body (rc_body k) of
     None \<Rightarrow> (sent, failed (fadada_error ''request_invalid'' ''request body is invalid''))
   | Some raw \<Rightarrow> (case fadada_access_token c ss (fst ts) T sent of
       (sent', Inl e) \<Rightarrow> (sent', failed e)
     | (sent', Inr (token, v)) \<Rightarrow> fadada_deliver c ss (snd ts) k raw token T sent'))"

subsection \<open>Operations\<close>

datatype fadada_input = FdCreate obj | FdView string obj | FdGet string | FdSend string | FdVoid string string | FdTest

definition fadada_task :: "string \<Rightarrow> string \<Rightarrow> obj \<Rightarrow> bool \<Rightarrow> rest_call res" where
  "fadada_task p s m write =
     (if trim_space s = [] then Inl (fadada_error ''sign_task_id_required'' ''envelope_id is required'')
      else Inr ((query_call p (marshal (VObj (put ''signTaskId'' (VStr (trim_space s)) m))))\<lparr>rc_write := write\<rparr>))"

fun fadada_call :: "fadada_input \<Rightarrow> rest_call res" where
  "fadada_call (FdCreate m) =
     (if m = [] then Inl (fadada_error ''input_required'' ''envelope input is required'')
      else Inr (write_call ''POST'' ''/sign-task/create'' [] (marshal (VObj m))))"
| "fadada_call (FdGet s) = fadada_task ''/sign-task/app/get-detail'' s [] False"
| "fadada_call (FdSend s) = fadada_task ''/sign-task/start'' s [] True"
| "fadada_call (FdVoid s reason) = fadada_task ''/sign-task/cancel'' s
     (if trim_space reason = [] then [] else [(''reason'', VStr (trim_space reason))]) True"
| "fadada_call (FdView s m) = fadada_task ''/sign-task/actor/get-url'' s m True"
| "fadada_call FdTest = Inr (get_call [] [])"

text \<open>A short token is not shown, the beginning of a longer one is.\<close>

definition fadada_token_ref :: "string \<Rightarrow> string" where
  "fadada_token_ref token = (if length token \<le> 8 then ''issued'' else take 8 token)"

definition fadada_test ::
  "connection \<Rightarrow> secrets \<Rightarrow> moment \<Rightarrow> http \<Rightarrow> http_request list \<Rightarrow> http_request list \<times> typed" where
  "fadada_test c ss t T sent = (case fadada_access_token c ss t T sent of
     (sent', Inl e) \<Rightarrow> (sent', failed e)
   | (sent', Inr (token, v)) \<Rightarrow> (sent', v, ''fadada:token:'' @ fadada_token_ref token, None))"

definition fadada_run ::
  "connection \<Rightarrow> secrets \<Rightarrow> moment \<times> moment \<Rightarrow> fadada_input \<Rightarrow> http \<Rightarrow> http_request list \<Rightarrow> http_request list \<times> typed" where
  "fadada_run c ss ts i T sent =
     (if i = FdTest then fadada_test c ss (fst ts) T sent
      else (case fadada_call i of Inl e \<Rightarrow> (sent, failed e) | Inr k \<Rightarrow> fadada_business c ss ts k T sent))"

definition fadada_test_connection where
  "fadada_test_connection c ss t T sent = test_details (fadada_test c ss t T sent)"

subsection \<open>Contracts\<close>

lemma fadada_validate_permanent: "fadada_validate c = Some e \<Longrightarrow> is_permanent e"
  by (auto simp: fadada_validate_def fadada_error_def intro: esign_timeout_permanent split: if_splits)

lemma fadada_validate_ok: "fadada_validate c = None \<Longrightarrow> trusted_endpoint (fadada_base c)"
  by (auto simp: fadada_validate_def intro: esign_endpoint_trusted split: if_splits)

lemma fadada_plan_cases:
  obtains (refused) e where "fadada_plan c p raw hs = Inl (Inl e)" "is_permanent e"
  | (asked) q where "fadada_plan c p raw hs = Inr q" "url_tail p \<Longrightarrow> stays_at (fadada_base c) q"
proof (cases "fadada_validate c")
  case (Some e)
  then show ?thesis using refused fadada_validate_permanent by (simp add: fadada_plan_def)
next
  case None
  let ?q = "(plain_request ''POST'' (text_target (trim_right_char (CHR ''/'') (fadada_base c)) p []) (fst hs) raw)
    \<lparr>req_secret_headers := snd hs, req_max := 4194304\<rparr>"
  have "url_tail p \<Longrightarrow> stays_at (fadada_base c) ?q"
    by (rule trusted_at_trimmed [OF fadada_validate_ok [OF None], of p]) (simp_all add: plain_request_def text_target_def)
  then show ?thesis using asked None by (simp add: fadada_plan_def)
qed

lemma fadada_call_path: "fadada_call i = Inr k \<Longrightarrow> i \<noteq> FdTest \<Longrightarrow> url_tail (rc_path k)"
  by (cases i) (auto simp: fadada_task_def query_call_def split: if_splits)

lemma fadada_call_permanent: "fadada_call i = Inl e \<Longrightarrow> is_permanent e"
  by (cases i) (auto simp: fadada_task_def fadada_error_def split: if_splits)

definition fadada_writes :: "fadada_input \<Rightarrow> bool" where
  "fadada_writes i \<longleftrightarrow> (case i of FdGet s \<Rightarrow> False | FdTest \<Rightarrow> False | _ \<Rightarrow> True)"

lemma fadada_call_write: "fadada_writes i \<Longrightarrow> fadada_call i = Inr k \<Longrightarrow> rc_write k"
  by (cases i) (auto simp: fadada_writes_def fadada_task_def split: if_splits)

lemma fadada_token_sends:
  "fst (fadada_access_token c ss t T sent) = sent \<or>
    (\<exists>q. fst (fadada_access_token c ss t T sent) = sent @ [q] \<and> stays_at (fadada_base c) q)"
proof (cases "fadada_headers c ss t None")
  case (Inr hs)
  show ?thesis
    by (cases rule: fadada_plan_cases [of c "''/service/get-access-token''" "[]" hs])
      (auto simp: fadada_access_token_def Inr run_plan_def split: sum.split)
qed (simp add: fadada_access_token_def)

text \<open>Without random bytes the first request is not made, and may be tried again.\<close>

lemma fadada_unsent:
  "fadada_access_token c ss t T sent = (sent, Inl e) \<Longrightarrow> is_permanent e \<or> snd t = None"
  by (cases rule: fadada_plan_cases [of c "''/service/get-access-token''" "[]" "projr (fadada_headers c ss t None)"])
    (auto simp: fadada_access_token_def run_plan_def fadada_headers_def fadada_error_def Let_def
      split: sum.splits option.splits if_splits)

lemma fadada_deliver_sends:
  "url_tail (rc_path k) \<Longrightarrow> fst (fadada_deliver c ss t k raw token T sent) = sent \<or>
    (\<exists>q. fst (fadada_deliver c ss t k raw token T sent) = sent @ [q] \<and> stays_at (fadada_base c) q)"
proof (cases "fadada_headers c ss t (Some raw)")
  case (Inr hs)
  assume "url_tail (rc_path k)"
  then show ?thesis
    by (cases rule: fadada_plan_cases [of c "rc_path k" raw "(fst hs, snd hs @ [(''X-FASC-AccessToken'', [token])])"])
      (auto simp: fadada_deliver_def Inr run_plan_def split: sum.split prod.split)
qed (simp add: fadada_deliver_def)

lemma fadada_stays: "sends_at [fadada_base c] 2 sent (fst (fadada_run c ss ts i T sent))"
proof -
  obtain s x where a: "fadada_access_token c ss (fst ts) T sent = (s, x)" by (metis surj_pair)
  have b: "sends_at [fadada_base c] 1 sent s"
    by (rule sends_at_request) (use fadada_token_sends [of c ss "fst ts" T sent] a in simp)
  have c: "sends_at [fadada_base c] 2 sent (fst (fadada_deliver c ss t k raw token T s))"
    if "url_tail (rc_path k)" for t k raw token
    by (rule sends_at_trans [OF b sends_at_request [OF fadada_deliver_sends [OF that]]]) simp
  have d: "sends_at [fadada_base c] 2 sent s" using b by (rule sends_at_mono) simp
  show ?thesis
    using c d fadada_call_path [of i]
    by (auto simp: fadada_run_def fadada_test_def fadada_business_def a split: sum.split option.split)
qed

lemma fadada_read_busy: "fadada_read True a = Inl e \<Longrightarrow> is_retryable e \<Longrightarrow> \<exists>r. a = Inr r \<and> esign_busy r"
  by (auto simp: fadada_read_def Let_def split: sum.splits option.splits if_splits)

lemma fadada_read_lost: "fadada_read True (Inl m) = Inl (Uncertain ''fadada.delivery_uncertain'' (TransportErr m))"
  by (simp add: fadada_read_def)

lemma fadada_deliver_cautious:
  assumes "rc_write k"
  shows "fst (fadada_deliver c ss t k raw token T sent) = sent \<and> typed_err (snd (fadada_deliver c ss t k raw token T sent)) \<noteq> None
    \<or> cautious_by esign_busy T sent (fadada_deliver c ss t k raw token T sent) (typed_err (snd (fadada_deliver c ss t k raw token T sent)))"
proof (cases "fadada_headers c ss t (Some raw)")
  case (Inr hs)
  show ?thesis
  proof (cases rule: fadada_plan_cases [of c "rc_path k" raw "(fst hs, snd hs @ [(''X-FASC-AccessToken'', [token])])"])
    case (refused e)
    then show ?thesis by (cases hs) (simp add: fadada_deliver_def Inr run_plan_def)
  next
    case (asked q)
    have "cautious_by esign_busy T sent (sent @ [q], case fadada_read True (T sent q) of
        Inl e \<Rightarrow> failed e | Inr (n, v) \<Rightarrow> (v, fadada_ref n (as_obj v), None))
      (typed_err (case fadada_read True (T sent q) of Inl e \<Rightarrow> failed e | Inr (n, v) \<Rightarrow> (v, fadada_ref n (as_obj v), None)))"
      using fadada_read_busy [of "T sent q"]
      by (cases "T sent q") (auto simp: cautious_by_def failed_def fadada_read_lost split: sum.splits)
    moreover have "fadada_deliver c ss t k raw token T sent = (sent @ [q], case fadada_read True (T sent q) of
        Inl e \<Rightarrow> failed e | Inr (n, v) \<Rightarrow> (v, fadada_ref n (as_obj v), None))"
      using asked(1) assms by (cases hs) (auto simp: fadada_deliver_def Inr run_plan_def split: sum.split prod.split)
    ultimately show ?thesis by simp
  qed
qed (simp add: fadada_deliver_def)

text \<open>
  A write is refused before anything is sent, or the only request is the one for the token, or
  the write follows that request and is cautious.
\<close>

lemma fadada_cautious:
  fixes T sent c ss ts i
  assumes "fadada_writes i"
  defines "run \<equiv> fadada_run c ss ts i T sent"
  shows "fst run = sent \<and> (\<exists>e. typed_err (snd run) = Some e \<and> (is_permanent e \<or> snd (fst ts) = None)) \<or>
    (\<exists>q. fst run = sent @ [q] \<and> typed_err (snd run) \<noteq> None \<or> cautious_by esign_busy T (sent @ [q]) run (typed_err (snd run)))"
proof (cases "fadada_call i")
  case (Inl e)
  then show ?thesis using assms(1) fadada_call_permanent [OF Inl] by (auto simp: run_def fadada_run_def fadada_writes_def)
next
  case (Inr k)
  then have w: "rc_write k" using assms(1) by (auto dest: fadada_call_write)
  obtain s x where a: "fadada_access_token c ss (fst ts) T sent = (s, x)" by (metis surj_pair)
  have s: "s = sent \<or> (\<exists>q. s = sent @ [q])" using fadada_token_sends [of c ss "fst ts" T sent] a by auto
  have run: "run = fadada_business c ss ts k T sent"
    using Inr assms(1) by (auto simp: run_def fadada_run_def fadada_writes_def)
  show ?thesis
  proof (cases "json_body (rc_body k)")
    case None
    then show ?thesis by (simp add: run fadada_business_def fadada_error_def failed_def)
  next
    case (Some raw)
    show ?thesis
    proof (cases x)
      case (Inl e)
      then show ?thesis using s a fadada_unsent [of c ss "fst ts" T sent e] Some
        by (auto simp: run fadada_business_def failed_def)
    next
      case xy: (Inr y)
      then have "s \<noteq> sent" using a
        by (auto simp: fadada_access_token_def run_plan_def fadada_plan_def Let_def split: sum.splits prod.splits if_splits option.splits)
      then obtain q where q: "s = sent @ [q]" using s by blast
      then have "run = fadada_deliver c ss (snd ts) k raw (fst y) T (sent @ [q])"
        using a xy Some by (cases y) (simp add: run fadada_business_def)
      then show ?thesis using fadada_deliver_cautious [OF w] by blast
    qed
  qed
qed

end
