(* ===== verification/Centres.thy ===== *)
theory Centres
  imports HelpDocs HelpDesks HelpWikis IssueTrackers ErpOperations GraphqlBoards ChatHooks ChatSenders Surveys Learning Signatures
begin

text \<open>The operations of the families of providers, each family as one datatype.\<close>

section \<open>Help centres\<close>

text \<open>
  The operations of the help centre providers together: where their requests go, and what
  their writes may report. The article of Notion takes two requests and stands apart.
\<close>

datatype help_operation = ReadmeOp readme_input | ScoutOp scout_input | IntercomOp intercom_input
  | NotionOp notion_input | ConfluenceOp confluence_input | GuideOp zguide_input | GitbookOp gitbook_input

fun help_perform ::
  "help_operation \<Rightarrow> connection \<Rightarrow> secrets \<Rightarrow> http \<Rightarrow> http_request list \<Rightarrow> http_request list \<times> typed" where
  "help_perform (ReadmeOp i) c ss = readme_run c ss i"
| "help_perform (ScoutOp i) c ss = scout_run c ss i"
| "help_perform (IntercomOp i) c ss = intercom_run c ss i"
| "help_perform (NotionOp i) c ss = notion_run c ss i"
| "help_perform (ConfluenceOp i) c ss = confluence_run c ss i"
| "help_perform (GuideOp i) c ss = zguide_run c ss i"
| "help_perform (GitbookOp i) c ss = gitbook_run c ss i"

text \<open>The base address that the configuration gives.\<close>

fun help_base :: "help_operation \<Rightarrow> connection \<Rightarrow> string" where
  "help_base (ReadmeOp i) = readme_base"
| "help_base (ScoutOp i) = scout_base"
| "help_base (IntercomOp i) = intercom_base"
| "help_base (NotionOp i) = notion_base"
| "help_base (ConfluenceOp i) = confluence_base"
| "help_base (GuideOp i) = zguide_base"
| "help_base (GitbookOp i) = gitbook_base"

lemma help_requests_stay:
  "fst (help_perform i c ss T sent) = sent
    \<or> (\<exists>q. fst (help_perform i c ss T sent) = sent @ [q] \<and> stays_at (help_base i c) q)"
  by (cases i) (simp_all add: readme_stays scout_stays intercom_stays notion_stays confluence_stays zguide_stays
      gitbook_run_stays)

subsection \<open>Writes\<close>

datatype help_change = NewGuide string guide_body | ChangedGuide string guide_body
  | NewScout string scout_create | ChangedScout string scout_update
  | NewIntercom string intercom_create | ChangedIntercom string intercom_update
  | NewNotion string notion_create | ChangedNotion string notion_update
  | NewConfluence string confluence_create | ChangedConfluence string confluence_update
  | NewZendesk string zguide_create | ChangedZendesk string zguide_update

fun change_operation :: "help_change \<Rightarrow> help_operation" where
  "change_operation (NewGuide i b) = ReadmeOp (ReadmeCreate i b)"
| "change_operation (ChangedGuide i b) = ReadmeOp (ReadmeUpdate i b)"
| "change_operation (NewScout i b') = ScoutOp (ScoutCreate i b')"
| "change_operation (ChangedScout i b'') = ScoutOp (ScoutUpdate i b'')"
| "change_operation (NewIntercom i d) = IntercomOp (IntercomCreate i d)"
| "change_operation (ChangedIntercom i d') = IntercomOp (IntercomUpdate i d')"
| "change_operation (NewNotion i e) = NotionOp (NotionCreate i e)"
| "change_operation (ChangedNotion i e') = NotionOp (NotionUpdate i e')"
| "change_operation (NewConfluence i f) = ConfluenceOp (ConfluenceCreate i f)"
| "change_operation (ChangedConfluence i f') = ConfluenceOp (ConfluenceUpdate i f')"
| "change_operation (NewZendesk i g) = GuideOp (GuideCreate i g)"
| "change_operation (ChangedZendesk i g') = GuideOp (GuideUpdate i g')"

lemma help_change_cautious:
  "cautious_run T sent (help_perform (change_operation x) c ss T sent)
    (typed_err (snd (help_perform (change_operation x) c ss T sent)))"
  by (cases x) (simp_all add: readme_cautious scout_cautious intercom_cautious notion_cautious confluence_cautious
      zguide_cautious readme_writes_def scout_writes_def intercom_writes_def notion_writes_def confluence_writes_def
      zguide_writes_def)

section \<open>Delivery operations\<close>

text \<open>
  The operations of the delivery operations providers together: where their requests go, and
  what their writes may report.
\<close>

datatype delivery_operation = AsanaOp asana_input | JiraOp jira_input | NetsuiteOp netsuite_input
  | SapOp sap_input | OdooOp odoo_input | LinearOp linear_input | MondayOp monday_input

fun delivery_perform ::
  "delivery_operation \<Rightarrow> connection \<Rightarrow> secrets \<Rightarrow> http \<Rightarrow> http_request list \<Rightarrow> http_request list \<times> typed" where
  "delivery_perform (AsanaOp i) c ss = asana_run c ss i"
| "delivery_perform (JiraOp i) c ss = jira_run c ss i"
| "delivery_perform (NetsuiteOp i) c ss = netsuite_run c ss i"
| "delivery_perform (SapOp i) c ss = sap_run c ss i"
| "delivery_perform (OdooOp i) c ss = odoo_run c ss i"
| "delivery_perform (LinearOp i) c ss = linear_run c ss i"
| "delivery_perform (MondayOp i) c ss = monday_run c ss i"

text \<open>The base address that the configuration gives.\<close>

fun delivery_base :: "delivery_operation \<Rightarrow> connection \<Rightarrow> string" where
  "delivery_base (AsanaOp i) = asana_base"
| "delivery_base (JiraOp i) = jira_base"
| "delivery_base (NetsuiteOp i) = netsuite_base"
| "delivery_base (SapOp i) = sap_root"
| "delivery_base (OdooOp i) = odoo_base"
| "delivery_base (LinearOp i) = linear_endpoint"
| "delivery_base (MondayOp i) = monday_endpoint"

lemma delivery_requests_stay:
  "fst (delivery_perform i c ss T sent) = sent
    \<or> (\<exists>q. fst (delivery_perform i c ss T sent) = sent @ [q] \<and> stays_at (delivery_base i c) q)"
  by (cases i) (simp_all add: asana_stays jira_stays netsuite_stays sap_stays odoo_stays linear_stays monday_stays)

subsection \<open>Writes\<close>

fun delivery_writes :: "delivery_operation \<Rightarrow> bool" where
  "delivery_writes (AsanaOp i) = asana_writes i"
| "delivery_writes (JiraOp i) = jira_writes i"
| "delivery_writes (NetsuiteOp i) = netsuite_writes i"
| "delivery_writes (SapOp i) = sap_writes i"
| "delivery_writes (OdooOp i) = odoo_writes i"
| "delivery_writes (LinearOp i) = linear_writes i"
| "delivery_writes (MondayOp i) = monday_writes i"

text \<open>
  The answers by which a service says that it did not take a request up: the status 429, and
  for the two GraphQL services an error of that kind in a success.
\<close>

fun delivery_busy :: "delivery_operation \<Rightarrow> http_response \<Rightarrow> bool" where
  "delivery_busy (LinearOp i) = linear_busy"
| "delivery_busy (MondayOp i) = monday_busy"
| "delivery_busy _ = (\<lambda>r. throttled (resp_status r))"

lemmas throttled_cautious = cautious_by_throttled [THEN iffD2]

lemma delivery_cautious:
  "delivery_writes i \<Longrightarrow> cautious_by (delivery_busy i) T sent (delivery_perform i c ss T sent)
    (typed_err (snd (delivery_perform i c ss T sent)))"
  by (cases i) (simp_all add: throttled_cautious asana_cautious jira_cautious netsuite_cautious sap_cautious
      odoo_cautious linear_cautious monday_cautious)

section \<open>Chat senders\<close>

text \<open>The operations of the senders of chat messages, together.\<close>

datatype chat_operation = DiscordOp discord_input | LineOp line_input | LineWorksOp lw_input
  | GoogleChatOp gchat_input | DingTalkOp ding_input | EnterpriseWechatOp ew_input | SlackOp slack_input

fun chat_perform :: "chat_operation \<Rightarrow> connection \<Rightarrow> secrets \<Rightarrow> http \<Rightarrow> http_request list \<Rightarrow> http_request list \<times> typed" where
  "chat_perform (DiscordOp i) c ss = discord_run c ss i"
| "chat_perform (LineOp i) c ss = line_run c ss i"
| "chat_perform (LineWorksOp i) c ss = lw_run c ss i"
| "chat_perform (GoogleChatOp i) c ss = gchat_run c ss i"
| "chat_perform (DingTalkOp i) c ss = ding_run c ss i"
| "chat_perform (EnterpriseWechatOp i) c ss = ew_run c ss i"
| "chat_perform (SlackOp i) c ss = slack_run c ss i"

fun chat_base :: "chat_operation \<Rightarrow> connection \<Rightarrow> string" where
  "chat_base (DiscordOp i) = discord_base"
| "chat_base (LineOp i) = line_base"
| "chat_base (LineWorksOp i) = lw_base"
| "chat_base (GoogleChatOp i) = gchat_base"
| "chat_base (DingTalkOp i) = ding_base i"
| "chat_base (EnterpriseWechatOp i) = ew_base"
| "chat_base (SlackOp i) = slack_base"

lemma chat_requests_stay: "sends_at [chat_base i c] 2 sent (fst (chat_perform i c ss T sent))"
proof -
  have one: "sends_at [b] 2 s s'" if "s' = s \<or> (\<exists>q. s' = s @ [q] \<and> stays_at b q)" for b s s'
    by (rule sends_at_mono [OF sends_at_request [OF that]]) simp
  show ?thesis
    by (cases i) (simp_all add: one discord_stays line_stays lw_stays gchat_stays ding_stays slack_stays ew_stays
      del: ew_run.simps)
qed

text \<open>The messages that are sent by one request; Enterprise WeChat asks for a token first.\<close>

fun chat_writes :: "chat_operation \<Rightarrow> bool" where
  "chat_writes (DiscordOp i) = (i \<noteq> DiscordTest)"
| "chat_writes (LineOp i) = (i \<noteq> LineTest)"
| "chat_writes (LineWorksOp i) = (i \<noteq> LwTest)"
| "chat_writes (GoogleChatOp i) = (i \<noteq> GchatTest)"
| "chat_writes (DingTalkOp i) = (i \<noteq> DingTest)"
| "chat_writes (EnterpriseWechatOp i) = False"
| "chat_writes (SlackOp i) = (i \<noteq> SlackTest)"

text \<open>Slack also says in a success that it did not take a message up.\<close>

fun chat_busy :: "chat_operation \<Rightarrow> http_response \<Rightarrow> bool" where
  "chat_busy (SlackOp i) = slack_busy"
| "chat_busy _ = (\<lambda>r. throttled (resp_status r))"

lemma chat_cautious:
  "chat_writes i \<Longrightarrow> cautious_by (chat_busy i) T sent (chat_perform i c ss T sent)
    (typed_err (snd (chat_perform i c ss T sent)))"
  by (cases i) (simp_all add: discord_cautious line_cautious lw_cautious gchat_cautious ding_cautious slack_cautious)

section \<open>Surveys and learning\<close>

text \<open>The operations of the providers that only read, together: the requests they send.\<close>

datatype survey_operation = TypeformOp typeform_input | SurveyMonkeyOp sm_input | TrustpilotOp tp_input
  | DelightedOp dl_input | MoodleOp moodle_input | TalentOp talent_input

fun survey_requests :: "survey_operation \<Rightarrow> connection \<Rightarrow> secrets \<Rightarrow> http \<Rightarrow> http_request list \<Rightarrow> http_request list" where
  "survey_requests (TypeformOp i) c ss T sent = fst (typeform_run c ss i T sent)"
| "survey_requests (SurveyMonkeyOp i) c ss T sent = fst (sm_run c ss i T sent)"
| "survey_requests (TrustpilotOp i) c ss T sent = fst (tp_run c ss i T sent)"
| "survey_requests (DelightedOp i) c ss T sent = fst (dl_run c ss i T sent)"
| "survey_requests (MoodleOp i) c ss T sent = fst (moodle_run c ss i T sent)"
| "survey_requests (TalentOp i) c ss T sent = fst (talent_run c ss i T sent)"

fun survey_address :: "survey_operation \<Rightarrow> connection \<Rightarrow> string" where
  "survey_address (TypeformOp i) = typeform_base"
| "survey_address (SurveyMonkeyOp i) = sm_base"
| "survey_address (TrustpilotOp i) = tp_base"
| "survey_address (DelightedOp i) = dl_base"
| "survey_address (MoodleOp i) = moodle_base"
| "survey_address (TalentOp i) = talent_domain"

lemma survey_requests_stay:
  "survey_requests i c ss T sent = sent
    \<or> (\<exists>q. survey_requests i c ss T sent = sent @ [q] \<and> stays_at (survey_address i c) q)"
  by (cases i) (simp_all add: typeform_stays sm_stays tp_stays dl_stays moodle_stays talent_stays)

section \<open>Electronic signatures\<close>

text \<open>The operations of the electronic signature providers that keep their token, together.\<close>

datatype esign_operation = AdobeOp adobe_input | SignNowOp signnow_input | FadadaOp "moment \<times> moment" fadada_input

fun esign_perform :: "esign_operation \<Rightarrow> connection \<Rightarrow> secrets \<Rightarrow> http \<Rightarrow> http_request list \<Rightarrow> http_request list \<times> typed" where
  "esign_perform (AdobeOp i) c ss = adobe_run c ss i"
| "esign_perform (SignNowOp i) c ss = signnow_run c ss i"
| "esign_perform (FadadaOp ts i) c ss = fadada_run c ss ts i"

fun esign_base :: "esign_operation \<Rightarrow> connection \<Rightarrow> string" where
  "esign_base (AdobeOp i) = adobe_base"
| "esign_base (SignNowOp i) = signnow_base"
| "esign_base (FadadaOp ts i) = fadada_base"

lemma esign_requests_stay: "sends_at [esign_base i c] 2 sent (fst (esign_perform i c ss T sent))"
proof (cases i)
  case (AdobeOp x)
  show ?thesis using sends_at_mono [OF sends_at_request [OF adobe_stays [of c ss x T sent]], of 2] AdobeOp by simp
next
  case (SignNowOp x)
  show ?thesis using sends_at_mono [OF sends_at_request [OF signnow_stays [of c ss x T sent]], of 2] SignNowOp by simp
next
  case (FadadaOp ts x)
  then show ?thesis by (simp add: fadada_stays)
qed

text \<open>The writes that are one request; Fadada asks for a token before each.\<close>

fun esign_writes :: "esign_operation \<Rightarrow> bool" where
  "esign_writes (AdobeOp i) = adobe_writes i"
| "esign_writes (SignNowOp i) = signnow_writes i"
| "esign_writes (FadadaOp ts i) = False"

lemma esign_cautious:
  "esign_writes i \<Longrightarrow> cautious_by esign_busy T sent (esign_perform i c ss T sent) (typed_err (snd (esign_perform i c ss T sent)))"
  by (cases i) (simp_all add: adobe_cautious signnow_cautious)

end
