(* ===== verification/Scheduling.thy ===== *)
theory Scheduling
  imports Delivery Webhook GoTime GoText
begin

text \<open>
  What the appointment scheduling providers (\<^verbatim>\<open>providers/appointment_scheduling\<close>) share in the
  same wording: the base address and its official host, the checks of times, and the secret
  and the identity of their webhooks.
\<close>

section \<open>Addresses\<close>

definition sched_base :: "string \<Rightarrow> connection \<Rightarrow> string" where
  "sched_base d c = (let v = trim_right_char (CHR ''/'') (map_string (config c) ''base_url'') in
     if v \<noteq> [] then v else d)"

text \<open>An official host over HTTPS with any path, or this machine.\<close>

definition official_host :: "string \<Rightarrow> string \<Rightarrow> gerr \<Rightarrow> gerr \<Rightarrow> gerr option" where
  "official_host base h invalid unofficial = (case url_parse base of None \<Rightarrow> Some invalid
     | Some u \<Rightarrow>
        if host u = [] \<or> user u \<noteq> None then Some invalid
        else if scheme u = ''http'' \<and> is_loopback (hostname u) then None
        else if scheme u \<noteq> ''https'' \<or> \<not> equal_fold (hostname u) h then Some unofficial else None)"

lemma official_host_secure: "official_host b h e f = None \<Longrightarrow> secure_endpoint b"
  by (auto simp: official_host_def secure_endpoint_def secure_url_def simp del: not_None_eq split: option.splits if_splits)

lemma official_host_permanent:
  "official_host b h e f = Some x \<Longrightarrow> is_permanent e \<Longrightarrow> is_permanent f \<Longrightarrow> is_permanent x"
  by (auto simp: official_host_def simp del: not_None_eq split: option.splits if_splits)

section \<open>Requests\<close>

text \<open>The query replaces the one that the joined address has.\<close>

definition sched_target :: "string \<Rightarrow> gerr \<Rightarrow> rest_call \<Rightarrow> string res" where
  "sched_target b e k = parsed_target b e (rc_path k) (\<lambda>u. u\<lparr>raw_query := encode_values (rc_query k)\<rparr>)"

lemma sched_stays:
  assumes "rest_plan validated token (sched_target b e k) body build = Inr q"
    "validated = None \<Longrightarrow> secure_endpoint b" "url_tail (rc_path k)" "\<And>u raw. req_url (build u raw) = u"
  shows "stays_at b q"
  by (rule plan_stays_parsed [OF assms(1) [unfolded sched_target_def] assms(2,3)]) (simp_all add: assms(4) same_origin_def)

lemma sched_plan_permanent:
  assumes "rest_plan validated (token, e) (sched_target b f k) (body, g) build = Inl x"
    "\<And>e. validated = Some e \<Longrightarrow> is_permanent e" "is_permanent e" "is_permanent f" "is_permanent g"
  shows "\<exists>e. typed_err x = Some e \<and> is_permanent e"
  by (rule rest_plan_permanent [OF assms(1,2)])
    (use assms(3-5) in \<open>auto simp: sched_target_def parsed_target_def split: option.splits\<close>)

text \<open>A text that is not blank becomes a member of a body.\<close>

definition put_trimmed :: "string \<Rightarrow> string \<Rightarrow> obj \<Rightarrow> obj" where
  "put_trimmed k s m = (if trim_space s = [] then m else put k (VStr (trim_space s)) m)"

definition sched_zone :: "connection \<Rightarrow> string \<Rightarrow> string" where
  "sched_zone c z = (if trim_space z = [] then map_default c ''default_timezone'' ''UTC'' else trim_space z)"

definition zoned :: "string \<Rightarrow> string \<Rightarrow> val" where
  "zoned t z = VObj [(''dateTime'', VStr t), (''timeZone'', VStr z)]"

definition time_range :: "connection \<Rightarrow> string \<Rightarrow> string \<Rightarrow> string \<Rightarrow> obj" where
  "time_range c start stop z = [(''start'', zoned start (sched_zone c z)), (''end'', zoned stop (sched_zone c z))]"

text \<open>The addresses of a provider that refreshes its tokens: the first one that is refused.\<close>

definition official_pair :: "string \<times> string \<Rightarrow> string \<times> string \<Rightarrow> gerr \<Rightarrow> gerr \<Rightarrow> gerr option" where
  "official_pair a b invalid unofficial =
     (case official_host (fst a) (snd a) invalid unofficial of Some e \<Rightarrow> Some e
      | None \<Rightarrow> official_host (fst b) (snd b) invalid unofficial)"

lemma official_pair_secure: "official_pair a b e f = None \<Longrightarrow> secure_endpoint (fst a) \<and> secure_endpoint (fst b)"
  by (auto simp: official_pair_def official_host_secure split: option.splits)

lemma official_pair_permanent:
  "official_pair a b e f = Some x \<Longrightarrow> is_permanent e \<Longrightarrow> is_permanent f \<Longrightarrow> is_permanent x"
  by (auto simp: official_pair_def official_host_permanent split: option.splits)

text \<open>The connection test reports one member of the answer and its reference.\<close>

definition sched_details :: "string \<Rightarrow> http_request list \<times> typed \<Rightarrow> http_request list \<times> string res" where
  "sched_details k r = (case r of
     (sent', out, ref, Some e) \<Rightarrow> (sent', Inl e)
   | (sent', out, ref, None) \<Rightarrow> (sent', Inr (marshal_or []
       (VObj [(k, at (as_obj out) k), (''response_ref'', VStr ref)]))))"

end
