(* ===== verification/Calendly.thy ===== *)
theory Calendly
  imports Scheduling
begin

text \<open>The Calendly provider (\<^verbatim>\<open>providers/appointment_scheduling/calendly\<close>).\<close>

definition calendly_error :: "string \<Rightarrow> string \<Rightarrow> gerr" where
  "calendly_error code msg = Permanent (''calendly.'' @ code) (Msg msg)"

definition calendly_base :: "connection \<Rightarrow> string" where
  "calendly_base = sched_base ''https://api.calendly.com''"

definition calendly_validate :: "connection \<Rightarrow> gerr option" where
  "calendly_validate c = official_host (calendly_base c) ''api.calendly.com''
     (calendly_error ''endpoint_invalid'' ''valid Calendly API endpoint is required'')
     (calendly_error ''endpoint_invalid'' ''official Calendly API endpoint or loopback HTTP is required'')"

definition calendly_plan :: "connection \<Rightarrow> secrets \<Rightarrow> rest_call \<Rightarrow> typed + http_request" where
  "calendly_plan c ss k = (let token = trim_space (secret ss ''access_token'') in
     rest_plan (calendly_validate c)
       (token, calendly_error ''access_token_required'' ''resolved Calendly access token is required'')
       (sched_target (calendly_base c) (calendly_error ''request_invalid'' ''Calendly request URL is invalid'') k)
       (rc_body k, calendly_error ''request_invalid'' ''Calendly request body is invalid'')
       (\<lambda>u raw. authorized (''Bearer '' @ token) (plain_request (rc_method k) u (json_headers (rc_body k)) raw)))"

definition calendly_ref :: "val \<Rightarrow> string" where
  "calendly_ref v = (let r = as_obj (at (as_obj v) ''resource'');
       i = first_text [map_string r ''booking_url'', map_string r ''uri''] in
     if i = [] then [] else ''calendly:'' @ i)"

definition calendly_read :: "bool \<Rightarrow> string + http_response \<Rightarrow> typed" where
  "calendly_read = status_read ''calendly'' ''provider returned HTTP '' ''provider response is invalid JSON''
     (\<lambda>m n. ''calendly.http_'' @ itoa n) (accepted_as calendly_ref)"

section \<open>Operations\<close>

record calendly_types =
  ct_user :: string
  ct_organization :: string
  ct_active :: "bool option"
  ct_count :: int
  ct_token :: string

record calendly_events =
  ce_user :: string
  ce_organization :: string
  ce_email :: string
  ce_status :: string
  ce_min :: string
  ce_max :: string
  ce_count :: int
  ce_token :: string

definition calendly_page :: "int \<Rightarrow> string \<Rightarrow> url_values res" where
  "calendly_page n token =
     (if n < 0 \<or> n > 100 then Inl (calendly_error ''count_invalid'' ''count must be between 1 and 100 when set'')
      else Inr (set_query ''page_token'' token (if n > 0 then put ''count'' [itoa n] [] else [])))"

text \<open>A bound of the time range: a blank one is no bound, and neither is the zero time of Go.\<close>

definition zero_time :: int where
  "zero_time = - 62135596800 * nanos"

definition time_bound :: "string \<Rightarrow> int option" where
  "time_bound s = (if trim_space s = [] then Some zero_time else parse_rfc3339 s)"

definition calendly_range :: "string \<Rightarrow> string \<Rightarrow> gerr option" where
  "calendly_range lo hi = (case time_bound lo of
     None \<Rightarrow> Some (calendly_error ''min_start_time_invalid'' ''min_start_time must be RFC3339'')
   | Some a \<Rightarrow> (case time_bound hi of
       None \<Rightarrow> Some (calendly_error ''max_start_time_invalid'' ''max_start_time must be RFC3339'')
     | Some b \<Rightarrow>
         if a \<noteq> zero_time \<and> b \<noteq> zero_time \<and> a > b
         then Some (calendly_error ''start_time_range_invalid'' ''min_start_time must not exceed max_start_time'')
         else None))"

definition calendly_scope :: "string \<Rightarrow> string \<Rightarrow> gerr option" where
  "calendly_scope u organization = (if trim_space u = [] \<and> trim_space organization = []
     then Some (calendly_error ''scope_required'' ''user or organization URI is required'') else None)"

datatype calendly_input = CalendlyTypes calendly_types | CalendlyEvents calendly_events
  | CalendlyLink string string int | CalendlyCancel string string | CalendlyTest

fun calendly_call :: "calendly_input \<Rightarrow> rest_call res" where
  "calendly_call (CalendlyTypes i) =
     (case calendly_scope (ct_user i) (ct_organization i) of Some e \<Rightarrow> Inl e | None \<Rightarrow>
      (case calendly_page (ct_count i) (ct_token i) of Inl e \<Rightarrow> Inl e
      | Inr q \<Rightarrow> Inr (get_call ''/event_types''
          ((\<lambda>q. case ct_active i of None \<Rightarrow> q | Some b \<Rightarrow> put ''active'' [if b then ''true'' else ''false''] q)
            (set_query ''organization'' (ct_organization i) (set_query ''user'' (ct_user i) q))))))"
| "calendly_call (CalendlyEvents i) =
     (let status = trim_space (ce_status i) in
      case calendly_scope (ce_user i) (ce_organization i) of Some e \<Rightarrow> Inl e | None \<Rightarrow>
      (case calendly_page (ce_count i) (ce_token i) of Inl e \<Rightarrow> Inl e
      | Inr q \<Rightarrow>
          if status \<notin> set [[], ''active'', ''canceled'']
          then Inl (calendly_error ''status_invalid'' ''status must be active or canceled'')
          else (case calendly_range (ce_min i) (ce_max i) of Some e \<Rightarrow> Inl e
          | None \<Rightarrow> Inr (get_call ''/scheduled_events''
              (set_query ''max_start_time'' (ce_max i) (set_query ''min_start_time'' (ce_min i)
                (set_query ''status'' status (set_query ''invitee_email'' (ce_email i)
                  (set_query ''organization'' (ce_organization i) (set_query ''user'' (ce_user i) q))))))))))"
| "calendly_call (CalendlyLink owner kind most) =
     (if trim_space owner = [] then Inl (calendly_error ''owner_required'' ''owner URI is required'')
      else if kind \<noteq> ''EventType'' then Inl (calendly_error ''owner_type_invalid'' ''owner_type must be EventType'')
      else if most < 0
      then Inl (calendly_error ''max_event_count_invalid'' ''max_event_count must be positive when set'')
      else Inr (write_call ''POST'' ''/scheduling_links'' [] (marshal (VObj
        ((if most > 0 then put ''max_event_count'' (VInt most) else id)
          [(''owner'', VStr (trim_space owner)), (''owner_type'', VStr kind)])))))"
| "calendly_call (CalendlyCancel key reason) =
     (if trim_space key = [] then Inl (calendly_error ''event_uuid_required'' ''event_uuid is required'')
      else Inr (write_call ''POST'' (''/scheduled_events/'' @ path_escape (trim_space key) @ ''/cancellation'') []
        (marshal (VObj (put_trimmed ''reason'' reason [])))))"
| "calendly_call CalendlyTest = Inr (get_call ''/users/me'' [])"

definition calendly_run where
  "calendly_run c ss i = rest_run (calendly_plan c ss) calendly_read (calendly_call i)"

definition calendly_test_connection where
  "calendly_test_connection c ss T sent = sched_details ''resource'' (calendly_run c ss CalendlyTest T sent)"

section \<open>Contracts\<close>

lemma calendly_error_permanent [simp]: "is_permanent (calendly_error code msg)"
  by (simp add: calendly_error_def)

lemma calendly_validate_ok: "calendly_validate c = None \<Longrightarrow> secure_endpoint (calendly_base c)"
  unfolding calendly_validate_def by (rule official_host_secure)

lemma calendly_validate_permanent: "calendly_validate c = Some e \<Longrightarrow> is_permanent e"
  unfolding calendly_validate_def by (erule official_host_permanent) simp_all

interpretation calendly_calls: rest_provider calendly_plan calendly_read calendly_base
proof (unfold_locales, goal_cases)
  case (1 c ss k x) then show ?case unfolding calendly_plan_def Let_def
    by (rule sched_plan_permanent) (simp_all add: calendly_validate_permanent)
next
  case (2 c ss k q) from 2(1) show ?case unfolding calendly_plan_def Let_def
    by (rule sched_stays) (simp_all add: calendly_validate_ok 2)
next
  case (3 a e) then show ?case unfolding calendly_read_def by (rule status_read_cautious) simp
next
  case (4 m) show ?case unfolding calendly_read_def by (rule status_read_lost)
qed

lemma calendly_checks_permanent:
  "calendly_scope u g = Some e \<Longrightarrow> is_permanent e" "calendly_page n t = Inl e \<Longrightarrow> is_permanent e"
  "calendly_range lo hi = Some e \<Longrightarrow> is_permanent e"
  by (auto simp: calendly_scope_def calendly_page_def calendly_range_def split: if_splits option.splits)

lemma calendly_call_permanent: "calendly_call i = Inl e \<Longrightarrow> is_permanent e"
  by (cases i) (auto simp: Let_def dest: calendly_checks_permanent split: option.splits sum.splits if_splits)

lemma calendly_call_path: "calendly_call i = Inr k \<Longrightarrow> url_tail (rc_path k)"
  by (cases i) (auto simp: Let_def split: option.splits sum.splits if_splits)

definition calendly_writes :: "calendly_input \<Rightarrow> bool" where
  "calendly_writes i \<longleftrightarrow> (case i of CalendlyLink _ _ _ \<Rightarrow> True | CalendlyCancel _ _ \<Rightarrow> True | _ \<Rightarrow> False)"

lemma calendly_call_write: "calendly_call i = Inr k \<Longrightarrow> rc_write k = calendly_writes i"
  by (cases i) (auto simp: calendly_writes_def Let_def split: option.splits sum.splits if_splits)

lemma calendly_cautious:
  "calendly_writes i \<Longrightarrow>
    cautious_run T sent (calendly_run c ss i T sent) (typed_err (snd (calendly_run c ss i T sent)))"
  unfolding calendly_run_def
  by (rule calendly_calls.run_cautious) (auto dest: calendly_call_permanent calendly_call_write)

lemma calendly_stays:
  "fst (calendly_run c ss i T sent) = sent
    \<or> (\<exists>q. fst (calendly_run c ss i T sent) = sent @ [q] \<and> stays_at (calendly_base c) q)"
  unfolding calendly_run_def by (rule calendly_calls.run_stays) (rule calendly_call_path)

section \<open>Webhooks\<close>

text \<open>The last \<open>t\<close> of the header, zero without one, and the texts of every \<open>v1\<close>.\<close>

definition signature_parts :: "string \<Rightarrow> (string \<times> string) list" where
  "signature_parts s = map (\<lambda>p. cut (CHR ''='') (trim_space p))
     (filter (\<lambda>p. CHR ''='' \<in> set (trim_space p)) (split_on (CHR '','') s))"

definition calendly_timestamp :: "string \<Rightarrow> int" where
  "calendly_timestamp s = fold (\<lambda>(k, v) t. if k = ''t'' then lenient_int v else t) (signature_parts s) 0"

definition calendly_signatures :: "string \<Rightarrow> string list" where
  "calendly_signatures s = [v. (k, v) \<leftarrow> signature_parts s, k = ''v1'', v \<noteq> []]"

definition calendly_header :: "webhook_request \<Rightarrow> string" where
  "calendly_header r = header_trimmed (wh_headers r) ''Calendly-Webhook-Signature''"

definition calendly_int :: "connection \<Rightarrow> string \<Rightarrow> int \<Rightarrow> int" where
  "calendly_int c k d = (case atoi (map_string (config c) k) of None \<Rightarrow> d | Some n \<Rightarrow> n)"

definition calendly_fresh :: "webhook_request \<Rightarrow> bool" where
  "calendly_fresh r = within_tolerance (received_at r) (calendly_timestamp (calendly_header r))
     (wrap64 (calendly_int (wh_connection r) ''webhook_tolerance_seconds'' 300 * nanos))"

definition calendly_mac :: "webhook_request \<Rightarrow> string" where
  "calendly_mac r = hmac_sha256_hex (trim_space (secret (wh_secrets r) ''webhook_signing_key''))
     (itoa (calendly_timestamp (calendly_header r)) @ ''.'' @ wh_body r)"

definition calendly_detail :: "obj \<Rightarrow> obj" where
  "calendly_detail p = as_obj (at p ''payload'')"

definition calendly_uri :: "obj \<Rightarrow> string" where
  "calendly_uri p = (let u = map_string (calendly_detail p) ''uri'' in
     if u = [] then map_string (as_obj (at (calendly_detail p) ''event'')) ''uri'' else u)"

definition calendly_event :: "webhook_request \<Rightarrow> obj \<Rightarrow> verified_webhook" where
  "calendly_event r p = (plain_event (map_string p ''event'') (calendly_uri p @ '':'' @ map_string p ''event'') (wh_body r))
     \<lparr>event_security := signed_at (Some (calendly_timestamp (calendly_header r))),
      event_identity := identity_of (map_string (calendly_detail p) ''email'') ''email''
        (map_string (calendly_detail p) ''name'') []\<rparr>"

definition calendly_verify :: "webhook_request \<Rightarrow> verified_webhook res" where
  "calendly_verify r = (case wh_context r of Some m \<Rightarrow> Inl (Plain m) | None \<Rightarrow>
     if trim_space (secret (wh_secrets r) ''webhook_signing_key'') = []
     then Inl (calendly_error ''webhook_signing_key_required'' ''resolved webhook signing key is required'')
     else if calendly_timestamp (calendly_header r) \<le> 0 \<or> calendly_signatures (calendly_header r) = []
     then Inl (calendly_error ''webhook_signature_invalid'' ''signature header is invalid'')
     else if \<not> calendly_fresh r
     then Inl (calendly_error ''webhook_timestamp_invalid'' ''webhook timestamp is outside tolerance'')
     else if calendly_mac r \<notin> set (calendly_signatures (calendly_header r))
     then Inl (calendly_error ''webhook_signature_invalid'' ''webhook signature does not match'')
     else (case decode_map (wh_body r) of
       None \<Rightarrow> Inl (calendly_error ''webhook_payload_invalid'' ''webhook payload is invalid JSON'')
     | Some v \<Rightarrow>
         if map_string (as_obj v) ''event'' = [] \<or> calendly_uri (as_obj v) = []
         then Inl (calendly_error ''webhook_identity_missing'' ''webhook event identity is missing'')
         else Inr (calendly_event r (as_obj v))))"

text \<open>The documentation: signed with the key, at a time that is not too far away, and named.\<close>

definition calendly_authentic :: "webhook_request \<Rightarrow> bool" where
  "calendly_authentic r \<longleftrightarrow> trim_space (secret (wh_secrets r) ''webhook_signing_key'') \<noteq> []
     \<and> calendly_mac r \<in> set (calendly_signatures (calendly_header r))
     \<and> 0 < calendly_timestamp (calendly_header r) \<and> calendly_fresh r"

definition calendly_named :: "webhook_request \<Rightarrow> bool" where
  "calendly_named r \<longleftrightarrow> (case decode_map (wh_body r) of None \<Rightarrow> False
     | Some v \<Rightarrow> map_string (as_obj v) ''event'' \<noteq> [] \<and> calendly_uri (as_obj v) \<noteq> [])"

interpretation calendly_hooks: webhook_verifier calendly_verify calendly_authentic calendly_named
proof (unfold_locales, goal_cases)
  case (1 r) then show ?case
    by (auto simp: calendly_verify_def calendly_authentic_def calendly_named_def split: option.splits)
next
  case (2 r v) then show ?case
    by (auto simp: calendly_verify_def calendly_event_def identified_def plain_event_def split: option.splits if_splits)
next
  case (3 r) then show ?case
    by (simp add: calendly_verify_def calendly_error_def permanent_only_def split: option.split)
next
  case (4 r m) then show ?case by (simp add: calendly_verify_def)
qed

end
