(* ===== verification/CalCom.thy ===== *)
theory CalCom
  imports Scheduling
begin

text \<open>The Cal.com provider (\<^verbatim>\<open>providers/appointment_scheduling/cal_com\<close>).\<close>

definition calcom_error :: "string \<Rightarrow> string \<Rightarrow> gerr" where
  "calcom_error code msg = Permanent (''cal_com.'' @ code) (Msg msg)"

definition calcom_base :: "connection \<Rightarrow> string" where
  "calcom_base = sched_base ''https://api.cal.com''"

definition calcom_validate :: "connection \<Rightarrow> gerr option" where
  "calcom_validate c = official_host (calcom_base c) ''api.cal.com''
     (calcom_error ''endpoint_invalid'' ''valid Cal.com API endpoint is required'')
     (calcom_error ''endpoint_invalid'' ''official Cal.com API endpoint or loopback HTTP is required'')"

text \<open>A call and the version of the API that it is made for.\<close>

type_synonym versioned = "string \<times> rest_call"

definition version_events :: string where "version_events = ''2024-06-14''"
definition version_writes :: string where "version_writes = ''2026-02-25''"
definition version_list :: string where "version_list = ''2026-05-01''"

definition calcom_headers :: "string \<Rightarrow> string option option \<Rightarrow> headers" where
  "calcom_headers version b = (''Accept'', [''application/json'']) # (''cal-api-version'', [version])
     # (if b = None then [] else [(''Content-Type'', [''application/json''])])"

definition calcom_plan :: "string \<Rightarrow> connection \<Rightarrow> secrets \<Rightarrow> rest_call \<Rightarrow> typed + http_request" where
  "calcom_plan version c ss k = (let token = trim_space (secret ss ''access_token'') in
     rest_plan (calcom_validate c)
       (token, calcom_error ''access_token_required'' ''resolved Cal.com access token is required'')
       (sched_target (calcom_base c) (calcom_error ''request_invalid'' ''Cal.com request URL is invalid'') k)
       (rc_body k, calcom_error ''request_invalid'' ''Cal.com request body is invalid'')
       (\<lambda>u raw. authorized (''Bearer '' @ token)
         (plain_request (rc_method k) u (calcom_headers version (rc_body k)) raw)))"

definition first_at :: "obj \<Rightarrow> string list \<Rightarrow> string" where
  "first_at m ks = first_text (map (map_string m) ks)"

definition calcom_ref :: "val \<Rightarrow> string" where
  "calcom_ref v = (let i = first_at (as_obj (at (as_obj v) ''data'')) [''uid'', ''id''] in
     if i = [] then [] else ''cal_com:'' @ i)"

definition calcom_read :: "bool \<Rightarrow> string + http_response \<Rightarrow> typed" where
  "calcom_read = status_read ''cal_com'' ''provider returned HTTP '' ''provider response is invalid JSON''
     (\<lambda>m n. ''cal_com.http_'' @ itoa n) (accepted_as calcom_ref)"

section \<open>Operations\<close>

record calcom_types =
  cc_username :: string
  cc_slug :: string
  cc_usernames :: string
  cc_org_slug :: string
  cc_org :: int
  cc_sort :: string

record calcom_bookings =
  cl_status :: string
  cl_email :: string
  cl_name :: string
  cl_uid :: string
  cl_cursor :: string

record calcom_booking =
  cb_start :: string
  cb_attendee :: obj
  cb_responses :: obj
  cb_type :: int
  cb_slug :: string
  cb_username :: string
  cb_team :: string
  cb_organization :: string
  cb_guests :: "string list"
  cb_meeting :: string
  cb_location :: obj
  cb_metadata :: obj
  cb_length :: int
  cb_routing :: obj
  cb_code :: string
  cb_conflicts :: "bool option"
  cb_out :: "bool option"

text \<open>A time in UTC: the text ends in \<open>Z\<close>, since any offset gives another location.\<close>

definition utc_time :: "string \<Rightarrow> bool" where
  "utc_time s \<longleftrightarrow> (let v = trim_space s in parse_rfc3339 v \<noteq> None \<and> v \<noteq> [] \<and> last v = CHR ''Z'')"

definition start_error :: gerr where
  "start_error = calcom_error ''start_invalid'' ''start must be RFC3339 in UTC''"

definition map_member :: "string \<Rightarrow> obj \<Rightarrow> (string \<times> string option) list" where
  "map_member k m = (if m = [] then [] else [(k, marshal (VObj m))])"

definition number_member :: "string \<Rightarrow> int \<Rightarrow> (string \<times> string option) list" where
  "number_member k n = (if n = 0 then [] else [(k, marshal (VInt n))])"

text \<open>The input is encoded, and read back as a map; what has no encoding is an empty map.\<close>

definition booking_members :: "calcom_booking \<Rightarrow> (string \<times> string option) list" where
  "booking_members i = [(''start'', marshal (VStr (cb_start i))), (''attendee'', marshal (VObj (cb_attendee i)))]
     @ map_member ''bookingFieldsResponses'' (cb_responses i) @ number_member ''eventTypeId'' (cb_type i)
     @ text_member ''eventTypeSlug'' (cb_slug i) @ text_member ''username'' (cb_username i)
     @ text_member ''teamSlug'' (cb_team i) @ text_member ''organizationSlug'' (cb_organization i)
     @ (if cb_guests i = [] then [] else [(''guests'', marshal (VArr (map VStr (cb_guests i))))])
     @ text_member ''meetingUrl'' (cb_meeting i) @ map_member ''location'' (cb_location i)
     @ map_member ''metadata'' (cb_metadata i) @ number_member ''lengthInMinutes'' (cb_length i)
     @ map_member ''routing'' (cb_routing i) @ text_member ''emailVerificationCode'' (cb_code i)
     @ opt_member ''allowConflicts'' (map_option VBool (cb_conflicts i))
     @ opt_member ''allowBookingOutOfBounds'' (map_option VBool (cb_out i))"

definition booking_body :: "calcom_booking \<Rightarrow> val" where
  "booking_body i = (case Option.bind (object_text (booking_members i)) decode_map of None \<Rightarrow> VObj [] | Some v \<Rightarrow> v)"

datatype calcom_input = CalTypes calcom_types | CalBookings calcom_bookings | CalCreate calcom_booking
  | CalCancel string string string | CalReschedule string string string string string | CalTest

fun calcom_call :: "calcom_input \<Rightarrow> rest_call res" where
  "calcom_call (CalTypes i) =
     (if cc_slug i \<noteq> [] \<and> cc_username i = []
      then Inl (calcom_error ''username_required'' ''username is required with eventSlug'')
      else if cc_org i < 0 then Inl (calcom_error ''org_id_invalid'' ''orgId must be positive when set'')
      else if cc_sort i \<notin> set [[], ''asc'', ''desc'']
      then Inl (calcom_error ''sort_invalid'' ''sortCreatedAt must be asc or desc'')
      else Inr (get_call ''/v2/event-types'' ((if cc_org i > 0 then put ''orgId'' [itoa (cc_org i)] else id)
        (set_query ''sortCreatedAt'' (cc_sort i) (set_query ''orgSlug'' (cc_org_slug i)
          (set_query ''usernames'' (cc_usernames i) (set_query ''eventSlug'' (cc_slug i)
            (set_query ''username'' (cc_username i) []))))))))"
| "calcom_call (CalBookings i) =
     (if trim_space (cl_status i) \<notin> set [[], ''upcoming'', ''recurring'', ''unconfirmed'', ''past'', ''cancelled'']
      then Inl (calcom_error ''status_invalid'' ''unsupported booking status'')
      else Inr (get_call ''/v2/bookings'' (set_query ''cursor'' (cl_cursor i) (set_query ''bookingUid'' (cl_uid i)
        (set_query ''attendeeName'' (cl_name i) (set_query ''attendeeEmail'' (cl_email i)
          (set_query ''status'' (cl_status i) [])))))))"
| "calcom_call (CalCreate i) =
     (if \<not> utc_time (cb_start i) then Inl start_error
      else if map_string (cb_attendee i) ''email'' = [] \<or> map_string (cb_attendee i) ''name'' = []
        \<or> map_string (cb_attendee i) ''timeZone'' = []
      then Inl (calcom_error ''attendee_invalid'' ''attendee name, email, and timeZone are required'')
      else if cb_type i < 1 \<and> trim_space (cb_slug i) = []
      then Inl (calcom_error ''event_type_required'' ''eventTypeId or eventTypeSlug is required'')
      else if cb_type i < 0 \<or> cb_length i < 0
      then Inl (calcom_error ''numeric_field_invalid'' ''numeric fields must be positive when set'')
      else Inr (write_call ''POST'' ''/v2/bookings'' [] (marshal (booking_body i))))"
| "calcom_call (CalCancel booking event reason) =
     (let uid = first_text [trim_space booking, trim_space event] in
      if uid = [] then Inl (calcom_error ''booking_uid_required'' ''booking_uid is required'')
      else Inr (write_call ''POST'' (''/v2/bookings/'' @ path_escape uid @ ''/cancel'') []
        (marshal (VObj (put_trimmed ''cancellationReason'' reason [])))))"
| "calcom_call (CalReschedule booking start who reason code) =
     (if trim_space booking = [] then Inl (calcom_error ''booking_uid_required'' ''booking_uid is required'')
      else if \<not> utc_time start then Inl start_error
      else Inr (write_call ''POST'' (''/v2/bookings/'' @ path_escape (trim_space booking) @ ''/reschedule'') []
        (marshal (VObj (put_trimmed ''emailVerificationCode'' code (put_trimmed ''reschedulingReason'' reason
          (put_trimmed ''rescheduledBy'' who [(''start'', VStr start)])))))))"
| "calcom_call CalTest = Inr (get_call ''/v2/event-types'' [])"

fun calcom_version :: "calcom_input \<Rightarrow> string" where
  "calcom_version (CalTypes i) = version_events"
| "calcom_version (CalBookings i) = version_list"
| "calcom_version CalTest = version_events"
| "calcom_version _ = version_writes"

definition calcom_run where
  "calcom_run c ss i = rest_run (calcom_plan (calcom_version i) c ss) calcom_read (calcom_call i)"

definition calcom_test_connection where
  "calcom_test_connection c ss T sent = sched_details ''status'' (calcom_run c ss CalTest T sent)"

section \<open>Contracts\<close>

lemma calcom_error_permanent [simp]: "is_permanent (calcom_error code msg)"
  by (simp add: calcom_error_def)

lemma calcom_validate_ok: "calcom_validate c = None \<Longrightarrow> secure_endpoint (calcom_base c)"
  unfolding calcom_validate_def by (rule official_host_secure)

lemma calcom_validate_permanent: "calcom_validate c = Some e \<Longrightarrow> is_permanent e"
  unfolding calcom_validate_def by (erule official_host_permanent) simp_all

interpretation calcom_calls: rest_provider "calcom_plan version" calcom_read calcom_base for version
proof (unfold_locales, goal_cases)
  case (1 c ss k x) then show ?case unfolding calcom_plan_def Let_def
    by (rule sched_plan_permanent) (simp_all add: calcom_validate_permanent)
next
  case (2 c ss k q) from 2(1) show ?case unfolding calcom_plan_def Let_def
    by (rule sched_stays) (simp_all add: calcom_validate_ok 2)
next
  case (3 a e) then show ?case unfolding calcom_read_def by (rule status_read_cautious) simp
next
  case (4 m) show ?case unfolding calcom_read_def by (rule status_read_lost)
qed

lemma calcom_call_permanent: "calcom_call i = Inl e \<Longrightarrow> is_permanent e"
  by (cases i) (auto simp: Let_def start_error_def split: if_splits)

lemma calcom_call_path: "calcom_call i = Inr k \<Longrightarrow> url_tail (rc_path k)"
  by (cases i) (auto simp: Let_def split: if_splits)

definition calcom_writes :: "calcom_input \<Rightarrow> bool" where
  "calcom_writes i \<longleftrightarrow> (case i of CalTypes _ \<Rightarrow> False | CalBookings _ \<Rightarrow> False | CalTest \<Rightarrow> False | _ \<Rightarrow> True)"

lemma calcom_call_write: "calcom_call i = Inr k \<Longrightarrow> rc_write k = calcom_writes i"
  by (cases i) (auto simp: calcom_writes_def Let_def split: if_splits)

lemma calcom_cautious:
  "calcom_writes i \<Longrightarrow>
    cautious_run T sent (calcom_run c ss i T sent) (typed_err (snd (calcom_run c ss i T sent)))"
  unfolding calcom_run_def by (rule calcom_calls.run_cautious) (auto dest: calcom_call_permanent calcom_call_write)

lemma calcom_stays:
  "fst (calcom_run c ss i T sent) = sent
    \<or> (\<exists>q. fst (calcom_run c ss i T sent) = sent @ [q] \<and> stays_at (calcom_base c) q)"
  unfolding calcom_run_def by (rule calcom_calls.run_stays) (rule calcom_call_path)

section \<open>Webhooks\<close>

definition calcom_signed :: "webhook_request \<Rightarrow> bool" where
  "calcom_signed r \<longleftrightarrow> hmac_sha256_hex (trim_space (secret (wh_secrets r) ''webhook_signing_key'')) (wh_body r)
     = trim_prefix (to_lower (header_trimmed (wh_headers r) ''x-cal-signature-256'')) ''sha256=''"

definition calcom_detail :: "obj \<Rightarrow> obj" where
  "calcom_detail p = (case at p ''payload'' of VObj d \<Rightarrow> d | _ \<Rightarrow> p)"

definition calcom_uid :: "obj \<Rightarrow> string" where
  "calcom_uid p = first_at (calcom_detail p) [''uid'', ''bookingUid'']"

definition calcom_attendee :: "obj \<Rightarrow> obj" where
  "calcom_attendee p = (case as_arr (at (calcom_detail p) ''attendees'') of [] \<Rightarrow> [] | x # _ \<Rightarrow> as_obj x)"

definition calcom_event :: "webhook_request \<Rightarrow> obj \<Rightarrow> verified_webhook" where
  "calcom_event r p = (plain_event (to_lower (map_string p ''triggerEvent''))
       (calcom_uid p @ '':'' @ map_string p ''triggerEvent'') (wh_body r))
     \<lparr>event_security := signed_at None,
      event_identity := identity_of (map_string (calcom_attendee p) ''email'') ''email''
        (map_string (calcom_attendee p) ''name'') []\<rparr>"

definition calcom_verify :: "webhook_request \<Rightarrow> verified_webhook res" where
  "calcom_verify r = (case wh_context r of Some m \<Rightarrow> Inl (Plain m) | None \<Rightarrow>
     if trim_space (secret (wh_secrets r) ''webhook_signing_key'') = []
     then Inl (calcom_error ''webhook_signing_key_required'' ''resolved webhook signing key is required'')
     else if \<not> calcom_signed r
     then Inl (calcom_error ''webhook_signature_invalid'' ''webhook signature does not match'')
     else (case decode_map (wh_body r) of
       None \<Rightarrow> Inl (calcom_error ''webhook_payload_invalid'' ''webhook payload is invalid JSON'')
     | Some v \<Rightarrow>
         if map_string (as_obj v) ''triggerEvent'' = [] \<or> calcom_uid (as_obj v) = []
         then Inl (calcom_error ''webhook_identity_missing'' ''webhook event identity is missing'')
         else Inr (calcom_event r (as_obj v))))"

definition calcom_authentic :: "webhook_request \<Rightarrow> bool" where
  "calcom_authentic r \<longleftrightarrow> trim_space (secret (wh_secrets r) ''webhook_signing_key'') \<noteq> [] \<and> calcom_signed r"

definition calcom_named :: "webhook_request \<Rightarrow> bool" where
  "calcom_named r \<longleftrightarrow> (case decode_map (wh_body r) of None \<Rightarrow> False
     | Some v \<Rightarrow> map_string (as_obj v) ''triggerEvent'' \<noteq> [] \<and> calcom_uid (as_obj v) \<noteq> [])"

interpretation calcom_hooks: webhook_verifier calcom_verify calcom_authentic calcom_named
proof (unfold_locales, goal_cases)
  case (1 r) then show ?case
    by (auto simp: calcom_verify_def calcom_authentic_def calcom_named_def split: option.splits)
next
  case (2 r v) then show ?case
    by (auto simp: calcom_verify_def calcom_event_def identified_def plain_event_def split: option.splits if_splits)
next
  case (3 r) then show ?case
    by (simp add: calcom_verify_def calcom_error_def permanent_only_def split: option.split)
next
  case (4 r m) then show ?case by (simp add: calcom_verify_def)
qed

text \<open>An offset of zero is not UTC here.\<close>

lemma utc_time_offsets:
  "utc_time ''2026-01-02T03:04:05Z'' \<and> \<not> utc_time ''2026-01-02T03:04:05+00:00''"
  by code_simp

end
