(* ===== verification/GoogleCalendar.thy ===== *)
theory GoogleCalendar
  imports Scheduling TokenRefresh
begin

text \<open>The Google Calendar provider (\<^verbatim>\<open>providers/appointment_scheduling/google_calendar\<close>).\<close>

definition gcal_error :: "string \<Rightarrow> string \<Rightarrow> gerr" where
  "gcal_error code msg = Permanent (''google_calendar.'' @ code) (Msg msg)"

definition gcal_base :: "connection \<Rightarrow> string" where
  "gcal_base = sched_base ''https://www.googleapis.com''"

definition gcal_token_url :: "connection \<Rightarrow> string" where
  "gcal_token_url c = map_default c ''token_url'' ''https://oauth2.googleapis.com/token''"

definition gcal_validate :: "connection \<Rightarrow> gerr option" where
  "gcal_validate c =
     (if map_default c ''calendar_id'' [] = [] then Some (gcal_error ''calendar_id_required'' ''calendar_id is required'')
      else official_pair (gcal_base c, ''www.googleapis.com'') (gcal_token_url c, ''oauth2.googleapis.com'')
        (gcal_error ''endpoint_invalid'' ''valid Google endpoint is required'')
        (gcal_error ''endpoint_invalid'' ''official Google endpoint or loopback HTTP is required''))"

definition gcal_calendar :: "connection \<Rightarrow> string" where
  "gcal_calendar c = ''/calendar/v3/calendars/'' @ path_escape (map_default c ''calendar_id'' ''primary'')"

definition gcal_events :: "connection \<Rightarrow> string" where
  "gcal_events c = gcal_calendar c @ ''/events''"

text \<open>The secret members of a body are filled in by the transport.\<close>

definition gcal_plan :: "(string \<times> string) list \<Rightarrow> connection \<Rightarrow> rest_call \<Rightarrow> string \<Rightarrow> attempt + http_request" where
  "gcal_plan hidden c k token = attempt_plan (call_plan (gcal_validate c)
     (sched_target (gcal_base c) (gcal_error ''request_invalid'' ''request URL is invalid'') k)
     (rc_body k, gcal_error ''request_invalid'' ''request body is invalid'')
     (\<lambda>u raw. (authorized (''Bearer '' @ token)
       (plain_request (rc_method k) u (json_headers (rc_body k)) raw))\<lparr>req_secret_json := hidden\<rparr>))"

text \<open>The identifier of the answer is the reference, whatever its status.\<close>

definition gcal_read :: "bool \<Rightarrow> string + http_response \<Rightarrow> attempt" where
  "gcal_read write answer =
     (case status_read ''google_calendar'' ''provider returned HTTP '' ''provider response is invalid JSON''
        (\<lambda>m n. ''google_calendar.http_'' @ itoa n) (\<lambda>v ref. (v, ref, None)) write answer of
      (v, ref, e) \<Rightarrow> (let i = map_string (as_obj v) ''id'' in
        ((v, if i = [] then ref else ''google_calendar:'' @ i, e), status_of answer)))"

definition gcal_refresh :: "connection \<Rightarrow> secrets \<Rightarrow> refresh_request" where
  "gcal_refresh c = form_refresh (gcal_token_url c) [] ''google_calendar.oauth''"

definition gcal_missing :: gerr where
  "gcal_missing = gcal_error ''access_token_required'' ''resolved access token is required''"

section \<open>Operations\<close>

record gcal_list =
  gl_page :: string
  gl_sync :: string
  gl_min :: string
  gl_max :: string
  gl_updated :: string
  gl_query :: string
  gl_most :: int
  gl_single :: "bool option"
  gl_deleted :: "bool option"

record gcal_booking =
  gb_start :: string
  gb_end :: string
  gb_zone :: string
  gb_attendee :: "obj option"
  gb_attendees :: "obj list"
  gb_summary :: string
  gb_description :: string
  gb_location :: string
  gb_online :: bool
  gb_conference :: string
  gb_updates :: string

definition gcal_range :: "string \<Rightarrow> string \<Rightarrow> gerr option" where
  "gcal_range start stop = (case parse_rfc3339 (trim_space start) of
     None \<Rightarrow> Some (gcal_error ''start_invalid'' ''start must be RFC3339'')
   | Some a \<Rightarrow> (case parse_rfc3339 (trim_space stop) of
       None \<Rightarrow> Some (gcal_error ''end_invalid'' ''end must be RFC3339'')
     | Some b \<Rightarrow> if a < b then None else Some (gcal_error ''time_range_invalid'' ''start must be before end'')))"

definition gcal_updates :: "string \<Rightarrow> url_values res" where
  "gcal_updates s = (let v = (if trim_space s = [] then ''all'' else trim_space s) in
     if v \<notin> set [''all'', ''externalOnly'', ''none'']
     then Inl (gcal_error ''send_updates_invalid'' ''sendUpdates must be all, externalOnly, or none'')
     else Inr [(''sendUpdates'', [v])])"

text \<open>The filters are visited in the order of a Go map; here it is the one of the text.\<close>

fun gcal_filters :: "(string \<times> string) list \<Rightarrow> gerr option" where
  "gcal_filters [] = None"
| "gcal_filters ((k, v) # kvs) =
     (if v \<noteq> [] \<and> parse_rfc3339 v = None then Some (gcal_error ''time_filter_invalid'' (k @ '' must be RFC3339''))
      else gcal_filters kvs)"

definition gcal_attendees :: "gcal_booking \<Rightarrow> obj \<Rightarrow> obj" where
  "gcal_attendees i m =
     (if gb_attendees i \<noteq> [] then put ''attendees'' (VArr (map VObj (gb_attendees i))) m
      else (case gb_attendee i of None \<Rightarrow> m | Some a \<Rightarrow> put ''attendees'' (VArr [VObj a]) m))"

definition gcal_conference :: "string \<Rightarrow> obj \<Rightarrow> obj" where
  "gcal_conference i m = put ''conferenceData'' (VObj [(''createRequest'', VObj
     [(''requestId'', VStr i), (''conferenceSolutionKey'', VObj [(''type'', VStr ''hangoutsMeet'')])])]) m"

definition gcal_body :: "connection \<Rightarrow> string \<Rightarrow> gcal_booking \<Rightarrow> (obj \<times> url_values) res" where
  "gcal_body c ref i = (case gcal_range (gb_start i) (gb_end i) of Some e \<Rightarrow> Inl e
   | None \<Rightarrow> (case gcal_updates (gb_updates i) of Inl e \<Rightarrow> Inl e
     | Inr q \<Rightarrow>
        (let m = gcal_attendees i (put_trimmed ''location'' (gb_location i) (put_trimmed ''description'' (gb_description i)
               (put_trimmed ''summary'' (gb_summary i) (time_range c (gb_start i) (gb_end i) (gb_zone i)))));
             conference = first_text [trim_space (gb_conference i), trim_space ref] in
         if \<not> gb_online i then Inr (m, q)
         else if conference = []
         then Inl (gcal_error ''conference_request_id_required'' ''conference request ID is required'')
         else Inr (gcal_conference conference m, put ''conferenceDataVersion'' [''1''] q))))"

text \<open>A queued booking always tells everybody, and has private members of its own.\<close>

record gcal_queued =
  gq_start :: string
  gq_end :: string
  gq_zone :: string
  gq_attendees :: "obj list"
  gq_summary :: string
  gq_description :: string
  gq_metadata :: obj
  gq_online :: bool
  gq_conference :: string

definition queued_booking :: "gcal_queued \<Rightarrow> gcal_booking" where
  "queued_booking i = \<lparr>gb_start = gq_start i, gb_end = gq_end i, gb_zone = gq_zone i, gb_attendee = None,
     gb_attendees = gq_attendees i, gb_summary = gq_summary i, gb_description = gq_description i, gb_location = [],
     gb_online = gq_online i, gb_conference = gq_conference i, gb_updates = ''all''\<rparr>"

definition string_map :: "obj \<Rightarrow> val" where
  "string_map m = VObj (map (\<lambda>(k, v). (k, VStr (sprint v))) m)"

record gcal_watch =
  gw_channel :: string
  gw_address :: string
  gw_expiration :: int

definition https_address :: "string \<Rightarrow> bool" where
  "https_address s = (case url_parse s of None \<Rightarrow> False | Some u \<Rightarrow> scheme u = ''https'' \<and> host u \<noteq> [])"

datatype gcal_input = GcalList gcal_list | GcalCreate gcal_booking | GcalEnqueue gcal_queued
  | GcalCancel string string | GcalReschedule string string string string string | GcalWatch gcal_watch | GcalTest

fun gcal_call :: "connection \<Rightarrow> secrets \<Rightarrow> string \<Rightarrow> gcal_input \<Rightarrow> rest_call res" where
  "gcal_call c ss ref (GcalList i) =
     (if gl_most i < 0 \<or> gl_most i > 2500
      then Inl (gcal_error ''max_results_invalid'' ''maxResults must be between 1 and 2500 when set'')
      else if gl_sync i \<noteq> [] \<and> (gl_min i \<noteq> [] \<or> gl_max i \<noteq> [] \<or> gl_updated i \<noteq> [] \<or> gl_query i \<noteq> [])
      then Inl (gcal_error ''sync_token_filters_invalid'' ''syncToken cannot be combined with time or query filters'')
      else (case gcal_filters [(''timeMin'', gl_min i), (''timeMax'', gl_max i), (''updatedMin'', gl_updated i)] of
        Some e \<Rightarrow> Inl e
      | None \<Rightarrow> Inr (get_call (gcal_events c)
          ((\<lambda>q. case gl_deleted i of None \<Rightarrow> q | Some b \<Rightarrow> put ''showDeleted'' [if b then ''true'' else ''false''] q)
            ((\<lambda>q. case gl_single i of None \<Rightarrow> q | Some b \<Rightarrow> put ''singleEvents'' [if b then ''true'' else ''false''] q)
              ((if gl_most i > 0 then put ''maxResults'' [itoa (gl_most i)] else id)
                (set_query ''q'' (gl_query i) (set_query ''updatedMin'' (gl_updated i)
                  (set_query ''timeMax'' (gl_max i) (set_query ''timeMin'' (gl_min i)
                    (set_query ''syncToken'' (gl_sync i) (set_query ''pageToken'' (gl_page i) []))))))))))))"
| "gcal_call c ss ref (GcalCreate i) = (case gcal_body c ref i of Inl e \<Rightarrow> Inl e
     | Inr (m, q) \<Rightarrow> Inr (write_call ''POST'' (gcal_events c) q (marshal (VObj m))))"
| "gcal_call c ss ref (GcalEnqueue i) =
     (if gq_attendees i = [] \<or> gq_metadata i = []
      then Inl (gcal_error ''enqueue_fields_required'' ''attendees and metadata are required'')
      else (case gcal_body c ref (queued_booking i) of Inl e \<Rightarrow> Inl e
        | Inr (m, q) \<Rightarrow> Inr (write_call ''POST'' (gcal_events c) q (marshal (VObj
            (put ''extendedProperties'' (VObj [(''private'', string_map (gq_metadata i))]) m))))))"
| "gcal_call c ss ref (GcalCancel key updates) =
     (if trim_space key = [] then Inl (gcal_error ''event_uuid_required'' ''event_uuid is required'')
      else (case gcal_updates updates of Inl e \<Rightarrow> Inl e
        | Inr q \<Rightarrow> Inr \<lparr>rc_method = ''DELETE'', rc_path = gcal_events c @ ''/'' @ path_escape (trim_space key),
            rc_query = q, rc_body = None, rc_write = True\<rparr>))"
| "gcal_call c ss ref (GcalReschedule key start stop zone updates) =
     (if trim_space key = [] then Inl (gcal_error ''event_uuid_required'' ''event_uuid is required'')
      else (case gcal_range start stop of Some e \<Rightarrow> Inl e
        | None \<Rightarrow> (case gcal_updates updates of Inl e \<Rightarrow> Inl e
          | Inr q \<Rightarrow> Inr (write_call ''PATCH'' (gcal_events c @ ''/'' @ path_escape (trim_space key)) q
              (marshal (VObj (time_range c start stop zone)))))))"
| "gcal_call c ss ref (GcalWatch i) =
     (if trim_space (gw_channel i) = [] \<or> trim_space (gw_address i) = []
      then Inl (gcal_error ''watch_fields_required'' ''channel_id and address are required'')
      else if \<not> https_address (gw_address i)
      then Inl (gcal_error ''watch_address_invalid'' ''watch address must be an absolute HTTPS URL'')
      else if trim_space (secret ss ''channel_token'') = []
      then Inl (gcal_error ''channel_token_required'' ''resolved channel token is required'')
      else Inr (write_call ''POST'' (gcal_events c @ ''/watch'') [] (marshal (VObj
        ((if gw_expiration i > 0 then put ''expiration'' (VInt (gw_expiration i)) else id)
          [(''id'', VStr (gw_channel i)), (''type'', VStr ''web_hook''), (''address'', VStr (gw_address i))])))))"
| "gcal_call c ss ref GcalTest = Inr (get_call (gcal_calendar c) [])"

fun gcal_hidden :: "secrets \<Rightarrow> gcal_input \<Rightarrow> (string \<times> string) list" where
  "gcal_hidden ss (GcalWatch i) = [(''token'', trim_space (secret ss ''channel_token''))]"
| "gcal_hidden ss _ = []"

text \<open>A queued booking hands its reference on, and no output.\<close>

definition without_output :: "typed \<Rightarrow> typed" where
  "without_output x = (VNil, snd x)"

fun gcal_result :: "gcal_input \<Rightarrow> typed \<Rightarrow> typed" where
  "gcal_result (GcalEnqueue i) = without_output"
| "gcal_result _ = id"

definition gcal_execute ::
  "(string \<times> string) list \<Rightarrow> connection \<Rightarrow> secrets \<Rightarrow> rest_call \<Rightarrow> http \<Rightarrow> http_request list \<Rightarrow> http_request list \<times> refreshed" where
  "gcal_execute hidden c ss k =
     with_refresh gcal_missing can_refresh (gcal_refresh c ss) ss (gcal_plan hidden c k) (gcal_read (rc_write k))"

definition gcal_run ::
  "connection \<Rightarrow> secrets \<Rightarrow> string \<Rightarrow> gcal_input \<Rightarrow> http \<Rightarrow> http_request list \<Rightarrow> http_request list \<times> refreshed" where
  "gcal_run c ss ref i T sent = reworded (gcal_result i)
     (refreshed_run (gcal_execute (gcal_hidden ss i) c ss) (gcal_call c ss ref i) T sent)"

definition gcal_test_connection ::
  "connection \<Rightarrow> secrets \<Rightarrow> http \<Rightarrow> http_request list \<Rightarrow> http_request list \<times> string res \<times> (string \<times> string) list" where
  "gcal_test_connection c ss T sent = (case gcal_run c ss [] GcalTest T sent of
     (sent', (out, ref, Some e), u) \<Rightarrow> (sent', Inl e, u)
   | (sent', (out, ref, None), u) \<Rightarrow>
       (sent', Inr (marshal_or [] (VObj [(''calendar'', out), (''response_ref'', VStr ref)])), u))"

section \<open>Contracts\<close>

lemma gcal_error_permanent [simp]: "is_permanent (gcal_error code msg)"
  by (simp add: gcal_error_def)

lemma gcal_validate_ok: "gcal_validate c = None \<Longrightarrow> secure_endpoint (gcal_base c)"
  by (auto simp: gcal_validate_def dest: official_pair_secure split: if_splits)

lemma gcal_validate_permanent: "gcal_validate c = Some e \<Longrightarrow> is_permanent e"
  by (auto simp: gcal_validate_def elim: official_pair_permanent split: if_splits)

interpretation gcal_calls: refresh_provider "gcal_plan hidden" gcal_read gcal_base gcal_refresh gcal_missing can_refresh
    "\<lambda>r. throttled (resp_status r)" for hidden
proof (unfold_locales, goal_cases)
  case 1 show ?case by (simp add: gcal_missing_def)
next
  case (2 c k t x) then show ?case unfolding gcal_plan_def
    by (rule attempt_plan_permanent)
      (erule call_plan_permanent; auto simp: gcal_validate_permanent sched_target_def parsed_target_def split: option.splits)
next
  case (3 c k t q)
  from 3(1) have "rest_plan (gcal_validate c) (''t'', Plain [])
     (sched_target (gcal_base c) (gcal_error ''request_invalid'' ''request URL is invalid'') k)
     (rc_body k, gcal_error ''request_invalid'' ''request body is invalid'')
     (\<lambda>u raw. (authorized (''Bearer '' @ t)
       (plain_request (rc_method k) u (json_headers (rc_body k)) raw))\<lparr>req_secret_json := hidden\<rparr>) = Inr q"
    by (simp add: gcal_plan_def attempt_plan_request call_plan_rest)
  then show ?case by (rule sched_stays) (simp_all add: gcal_validate_ok 3)
next
  case (4 w a) show ?case by (simp add: gcal_read_def Let_def split: prod.split)
next
  case (5 a e)
  then show ?case
    using status_read_cautious [of "''google_calendar''" "''provider returned HTTP ''"
        "''provider response is invalid JSON''" "\<lambda>m n. ''google_calendar.http_'' @ itoa n" "\<lambda>v ref. (v, ref, None)" a e]
    by (auto simp: gcal_read_def Let_def split: prod.splits)
next
  case (6 m)
  show ?case
    using status_read_lost [of "''google_calendar''" "''provider returned HTTP ''"
        "''provider response is invalid JSON''" "\<lambda>m n. ''google_calendar.http_'' @ itoa n" "\<lambda>v ref. (v, ref, None)" m]
    by (auto simp: gcal_read_def Let_def split: prod.splits)
qed

lemma gcal_execute_run: "gcal_execute hidden = gcal_calls.run hidden"
  by (intro ext) (simp add: gcal_execute_def gcal_calls.run_def)

lemma gcal_filters_permanent: "gcal_filters kvs = Some e \<Longrightarrow> is_permanent e"
  by (induction kvs rule: gcal_filters.induct) (auto split: if_splits)

lemma gcal_checks_permanent:
  "gcal_range s t = Some e \<Longrightarrow> is_permanent e" "gcal_updates u = Inl e \<Longrightarrow> is_permanent e"
  by (auto simp: gcal_range_def gcal_updates_def Let_def split: if_splits option.splits)

lemma gcal_body_permanent: "gcal_body c ref i = Inl e \<Longrightarrow> is_permanent e"
  by (auto simp: gcal_body_def Let_def dest: gcal_checks_permanent split: if_splits option.splits sum.splits)

lemma gcal_call_permanent: "gcal_call c ss ref i = Inl e \<Longrightarrow> is_permanent e"
  by (cases i) (auto simp del: gcal_filters.simps
      dest: gcal_filters_permanent gcal_checks_permanent gcal_body_permanent split: if_splits option.splits sum.splits)

lemma gcal_path: "url_tail (gcal_calendar c)" "url_tail (gcal_events c)" "url_tail (gcal_events c @ ''/'' @ path_escape s)"
  "url_tail (gcal_events c @ ''/watch'')"
  by (simp_all add: gcal_calendar_def gcal_events_def)

lemma gcal_call_path: "gcal_call c ss ref i = Inr k \<Longrightarrow> url_tail (rc_path k)"
  by (cases i) (auto simp del: gcal_filters.simps simp: gcal_path split: if_splits option.splits sum.splits)

definition gcal_writes :: "gcal_input \<Rightarrow> bool" where
  "gcal_writes i \<longleftrightarrow> (case i of GcalList _ \<Rightarrow> False | GcalTest \<Rightarrow> False | _ \<Rightarrow> True)"

lemma gcal_call_write: "gcal_call c ss ref i = Inr k \<Longrightarrow> rc_write k = gcal_writes i"
  by (cases i) (auto simp del: gcal_filters.simps simp: gcal_writes_def split: if_splits option.splits sum.splits)

lemma gcal_result_err [simp]: "typed_err (gcal_result i x) = typed_err x"
  by (cases i) (simp_all add: without_output_def)

lemma gcal_cautious:
  "gcal_writes i \<Longrightarrow> refreshed_cautious (\<lambda>r. throttled (resp_status r)) T sent (gcal_run c ss ref i T sent)
    (refreshed_err (snd (gcal_run c ss ref i T sent)))"
  unfolding gcal_run_def gcal_execute_run
  by (rule reworded_cautious, rule gcal_calls.operation_cautious) (auto dest: gcal_call_permanent gcal_call_write)

lemma gcal_tokens: "tokens_kept ''google_calendar.oauth'' T sent (gcal_run c ss ref i T sent)"
  using gcal_calls.operation_tokens [where hidden = "gcal_hidden ss i" and c = c and ss = ss and T = T and sent = sent and call = "gcal_call c ss ref i"]
  by (simp add: gcal_run_def gcal_execute_run gcal_refresh_def form_refresh_def)

lemma gcal_stays:
  "sends_at [gcal_base c, trim_space (gcal_token_url c)] 3 sent (fst (gcal_run c ss ref i T sent))"
  using gcal_calls.operation_stays [where hidden = "gcal_hidden ss i" and c = c and ss = ss and T = T and sent = sent and call = "gcal_call c ss ref i"]
  by (simp add: gcal_run_def gcal_execute_run gcal_refresh_def form_refresh_def gcal_call_path)

section \<open>Webhooks\<close>

definition gcal_header :: "webhook_request \<Rightarrow> string \<Rightarrow> string" where
  "gcal_header r k = header_trimmed (wh_headers r) (''X-Goog-'' @ k)"

definition gcal_payload :: "webhook_request \<Rightarrow> string" where
  "gcal_payload r = marshal_or [] (VObj [(''channel_id'', VStr (gcal_header r ''Channel-ID'')),
     (''message_number'', VStr (gcal_header r ''Message-Number'')), (''resource_id'', VStr (gcal_header r ''Resource-ID'')),
     (''resource_state'', VStr (gcal_header r ''Resource-State'')), (''resource_uri'', VStr (gcal_header r ''Resource-URI''))])"

definition gcal_event :: "webhook_request \<Rightarrow> verified_webhook" where
  "gcal_event r = (plain_event (''calendar_events.'' @ to_lower (gcal_header r ''Resource-State''))
       (gcal_header r ''Channel-ID'' @ '':'' @ gcal_header r ''Message-Number'') (gcal_payload r))
     \<lparr>event_security := Some \<lparr>signature_verified = True, evidence_nonce = [],
        evidence_device = gcal_header r ''Resource-ID'', evidence_time = None\<rparr>\<rparr>"

definition gcal_named :: "webhook_request \<Rightarrow> bool" where
  "gcal_named r \<longleftrightarrow> gcal_header r ''Channel-ID'' \<noteq> [] \<and> gcal_header r ''Message-Number'' \<noteq> []
     \<and> gcal_header r ''Resource-ID'' \<noteq> [] \<and> gcal_header r ''Resource-State'' \<noteq> []"

definition gcal_verify :: "webhook_request \<Rightarrow> verified_webhook res" where
  "gcal_verify r = (case wh_context r of Some m \<Rightarrow> Inl (Plain m) | None \<Rightarrow>
     (let token = trim_space (secret (wh_secrets r) ''channel_token'') in
      if token = [] then Inl (gcal_error ''channel_token_required'' ''resolved channel token is required'')
      else if token \<noteq> gcal_header r ''Channel-Token''
      then Inl (gcal_error ''webhook_token_invalid'' ''push channel token does not match'')
      else if \<not> gcal_named r
      then Inl (gcal_error ''webhook_identity_missing'' ''Google push identity headers are required'')
      else Inr (gcal_event r)))"

text \<open>The documentation: the token that the channel was opened with comes back.\<close>

definition gcal_authentic :: "webhook_request \<Rightarrow> bool" where
  "gcal_authentic r \<longleftrightarrow> trim_space (secret (wh_secrets r) ''channel_token'') \<noteq> []
     \<and> header_trimmed (wh_headers r) ''X-Goog-Channel-Token'' = trim_space (secret (wh_secrets r) ''channel_token'')"

interpretation gcal_hooks: webhook_verifier gcal_verify gcal_authentic gcal_named
proof (unfold_locales, goal_cases)
  case (1 r) then show ?case
    by (auto simp: gcal_verify_def gcal_authentic_def gcal_header_def Let_def split: option.splits)
next
  case (2 r v) then show ?case
    by (auto simp: gcal_verify_def gcal_event_def identified_def plain_event_def Let_def split: option.splits if_splits)
next
  case (3 r) then show ?case
    by (simp add: gcal_verify_def gcal_error_def permanent_only_def Let_def split: option.split)
next
  case (4 r m) then show ?case by (simp add: gcal_verify_def)
qed

text \<open>A booking of a created event runs forward in time.\<close>

lemma gcal_body_forward:
  "gcal_body c ref i = Inr r \<Longrightarrow> \<exists>a b. parse_rfc3339 (trim_space (gb_start i)) = Some a
    \<and> parse_rfc3339 (trim_space (gb_end i)) = Some b \<and> a < b"
  by (auto simp: gcal_body_def gcal_range_def split: option.splits if_splits)

end
