(* ===== verification/MicrosoftBooking.thy ===== *)
theory MicrosoftBooking
  imports Scheduling TokenRefresh
begin

text \<open>The Microsoft Bookings provider (\<^verbatim>\<open>providers/appointment_scheduling/microsoft_booking\<close>).\<close>

definition msb_error :: "string \<Rightarrow> string \<Rightarrow> gerr" where
  "msb_error code msg = Permanent (''microsoft_booking.'' @ code) (Msg msg)"

definition msb_base :: "connection \<Rightarrow> string" where
  "msb_base = sched_base ''https://graph.microsoft.com/v1.0''"

definition msb_token_url :: "connection \<Rightarrow> string" where
  "msb_token_url c = map_default c ''token_url'' ''https://login.microsoftonline.com/common/oauth2/v2.0/token''"

definition msb_validate :: "connection \<Rightarrow> gerr option" where
  "msb_validate c =
     (if map_default c ''business_id'' [] = [] then Some (msb_error ''business_id_required'' ''business_id is required'')
      else official_pair (msb_base c, ''graph.microsoft.com'') (msb_token_url c, ''login.microsoftonline.com'')
        (msb_error ''endpoint_invalid'' ''valid Microsoft endpoint is required'')
        (msb_error ''endpoint_invalid'' ''official Microsoft endpoint or loopback HTTP is required''))"

definition msb_business :: "connection \<Rightarrow> string" where
  "msb_business c = ''/solutions/bookingBusinesses/'' @ path_escape (map_default c ''business_id'' [])"

definition msb_appointments :: "connection \<Rightarrow> string" where
  "msb_appointments c = msb_business c @ ''/appointments''"

definition msb_plan :: "connection \<Rightarrow> rest_call \<Rightarrow> string \<Rightarrow> attempt + http_request" where
  "msb_plan c k token = attempt_plan (call_plan (msb_validate c)
     (sched_target (msb_base c) (msb_error ''request_invalid'' ''Microsoft Graph request URL is invalid'') k)
     (rc_body k, msb_error ''request_invalid'' ''Microsoft Graph request body is invalid'')
     (\<lambda>u raw. authorized (''Bearer '' @ token) (plain_request (rc_method k) u (json_headers (rc_body k)) raw)))"

definition msb_ref :: "val \<Rightarrow> string" where
  "msb_ref v = (let i = map_string (as_obj v) ''id'' in if i = [] then [] else ''microsoft_booking:'' @ i)"

text \<open>An accepted answer that cannot be read leaves an empty output.\<close>

definition msb_read :: "bool \<Rightarrow> string + http_response \<Rightarrow> attempt" where
  "msb_read write answer =
     (case status_read ''microsoft_booking'' ''provider returned HTTP '' ''provider response is invalid JSON''
        (\<lambda>m n. ''microsoft_booking.http_'' @ itoa n) (accepted_as msb_ref) write answer of
      (v, ref, e) \<Rightarrow>
        ((if e \<noteq> None \<and> v = VNil \<and> ok_status (status_of answer) then VObj [] else v, ref, e), status_of answer))"

definition msb_refresh :: "connection \<Rightarrow> secrets \<Rightarrow> refresh_request" where
  "msb_refresh c = form_refresh (msb_token_url c) ''https://graph.microsoft.com/.default offline_access''
     ''microsoft_booking.oauth''"

definition msb_missing :: gerr where
  "msb_missing = msb_error ''access_token_required'' ''resolved Microsoft access token is required''"

section \<open>Operations\<close>

record msb_list =
  ml_count :: "bool option"
  ml_expand :: string
  ml_top :: int
  ml_skip :: int

record msb_booking =
  mb_start :: string
  mb_end :: string
  mb_zone :: string
  mb_service :: string
  mb_service_name :: string
  mb_email :: string
  mb_name :: string
  mb_phone :: string
  mb_customer_zone :: string
  mb_information :: string
  mb_online :: "bool option"
  mb_staff :: "string list"
  mb_customers :: "obj list"

definition msb_body :: "connection \<Rightarrow> msb_booking \<Rightarrow> obj" where
  "msb_body c i =
     (if mb_customers i = [] then id else put ''customers'' (VArr (map VObj (mb_customers i))))
     ((if mb_staff i = [] then id else put ''staffMemberIds'' (VStrs (mb_staff i)))
     ((case mb_online i of None \<Rightarrow> id | Some b \<Rightarrow> put ''isLocationOnline'' (VBool b))
     (put_trimmed ''additionalInformation'' (mb_information i)
     (put_trimmed ''customerTimeZone'' (mb_customer_zone i)
     (put_trimmed ''customerPhone'' (mb_phone i)
     (put_trimmed ''customerName'' (mb_name i)
     (put_trimmed ''customerEmailAddress'' (mb_email i)
     (put_trimmed ''serviceName'' (mb_service_name i)
     (put_trimmed ''serviceId'' (mb_service i) (time_range c (mb_start i) (mb_end i) (mb_zone i)))))))))))"

datatype msb_input = MsbList msb_list | MsbCreate msb_booking | MsbCancel string string string
  | MsbReschedule string string string string string | MsbTest

definition appointment_id :: "string \<Rightarrow> string \<Rightarrow> string" where
  "appointment_id event booking = (if trim_space event \<noteq> [] then trim_space event else trim_space booking)"

definition msb_range :: "string \<Rightarrow> string \<Rightarrow> gerr option" where
  "msb_range start stop = (if trim_space start = [] \<or> trim_space stop = []
     then Some (msb_error ''time_range_required'' ''start and end are required'') else None)"

definition msb_no_id :: gerr where
  "msb_no_id = msb_error ''appointment_id_required'' ''event_uuid or booking_uid is required''"

fun msb_call :: "connection \<Rightarrow> msb_input \<Rightarrow> rest_call res" where
  "msb_call c (MsbList i) =
     (if ml_top i < 0 \<or> ml_skip i < 0 then Inl (msb_error ''paging_invalid'' ''$top and $skip must be non-negative'')
      else Inr (get_call (msb_appointments c)
        ((if ml_skip i > 0 then put ''$skip'' [itoa (ml_skip i)] else id)
          ((if ml_top i > 0 then put ''$top'' [itoa (ml_top i)] else id)
            (set_query ''$expand'' (ml_expand i)
              (case ml_count i of None \<Rightarrow> [] | Some b \<Rightarrow> put ''$count'' [if b then ''true'' else ''false''] []))))))"
| "msb_call c (MsbCreate i) = (case msb_range (mb_start i) (mb_end i) of Some e \<Rightarrow> Inl e
     | None \<Rightarrow> Inr (write_call ''POST'' (msb_appointments c) [] (marshal (VObj (msb_body c i)))))"
| "msb_call c (MsbCancel event booking reason) =
     (if appointment_id event booking = [] then Inl msb_no_id
      else Inr (write_call ''POST'' (msb_appointments c @ ''/'' @ path_escape (appointment_id event booking) @ ''/cancel'') []
        (marshal (VObj [(''cancellationMessage'', VStr (trim_space reason))]))))"
| "msb_call c (MsbReschedule event booking start stop zone) =
     (if appointment_id event booking = [] then Inl msb_no_id
      else (case msb_range start stop of Some e \<Rightarrow> Inl e
        | None \<Rightarrow> Inr (write_call ''PATCH'' (msb_appointments c @ ''/'' @ path_escape (appointment_id event booking)) []
            (marshal (VObj (time_range c start stop zone))))))"
| "msb_call c MsbTest = Inr (get_call (msb_business c) [])"

text \<open>A cancellation that went through has a reference of its own.\<close>

fun msb_result :: "msb_input \<Rightarrow> typed \<Rightarrow> typed" where
  "msb_result (MsbCancel event booking reason) x =
     (if typed_err x = None
      then (fst x, ''microsoft_booking:appointment:'' @ appointment_id event booking @ '':cancelled'', None) else x)"
| "msb_result _ x = x"

definition msb_execute ::
  "connection \<Rightarrow> secrets \<Rightarrow> rest_call \<Rightarrow> http \<Rightarrow> http_request list \<Rightarrow> http_request list \<times> refreshed" where
  "msb_execute c ss k = with_refresh msb_missing can_refresh (msb_refresh c ss) ss (msb_plan c k) (msb_read (rc_write k))"

definition msb_run ::
  "connection \<Rightarrow> secrets \<Rightarrow> msb_input \<Rightarrow> http \<Rightarrow> http_request list \<Rightarrow> http_request list \<times> refreshed" where
  "msb_run c ss i T sent = reworded (msb_result i) (refreshed_run (msb_execute c ss) (msb_call c i) T sent)"

definition msb_test_connection ::
  "connection \<Rightarrow> secrets \<Rightarrow> http \<Rightarrow> http_request list \<Rightarrow> http_request list \<times> string res \<times> (string \<times> string) list" where
  "msb_test_connection c ss T sent = (case msb_run c ss MsbTest T sent of
     (sent', x, u) \<Rightarrow> (sent', snd (sched_details ''status'' (sent', x)), u))"

section \<open>Contracts\<close>

lemma msb_error_permanent [simp]: "is_permanent (msb_error code msg)"
  by (simp add: msb_error_def)

lemma msb_validate_ok: "msb_validate c = None \<Longrightarrow> secure_endpoint (msb_base c)"
  by (auto simp: msb_validate_def dest: official_pair_secure split: if_splits)

lemma msb_validate_permanent: "msb_validate c = Some e \<Longrightarrow> is_permanent e"
  by (auto simp: msb_validate_def elim: official_pair_permanent split: if_splits)

interpretation msb_calls: refresh_provider msb_plan msb_read msb_base msb_refresh msb_missing can_refresh
    "\<lambda>r. throttled (resp_status r)"
proof (unfold_locales, goal_cases)
  case 1 show ?case by (simp add: msb_missing_def)
next
  case (2 c k t x) then show ?case unfolding msb_plan_def
    by (rule attempt_plan_permanent)
      (erule call_plan_permanent; auto simp: msb_validate_permanent sched_target_def parsed_target_def split: option.splits)
next
  case (3 c k t q)
  from 3(1) have "rest_plan (msb_validate c) (''t'', Plain [])
     (sched_target (msb_base c) (msb_error ''request_invalid'' ''Microsoft Graph request URL is invalid'') k)
     (rc_body k, msb_error ''request_invalid'' ''Microsoft Graph request body is invalid'')
     (\<lambda>u raw. authorized (''Bearer '' @ t) (plain_request (rc_method k) u (json_headers (rc_body k)) raw)) = Inr q"
    by (simp add: msb_plan_def attempt_plan_request call_plan_rest)
  then show ?case by (rule sched_stays) (simp_all add: msb_validate_ok 3)
next
  case (4 w a) show ?case by (simp add: msb_read_def split: prod.split)
next
  case (5 a e)
  then show ?case
    using status_read_cautious [of "''microsoft_booking''" "''provider returned HTTP ''"
        "''provider response is invalid JSON''" "\<lambda>m n. ''microsoft_booking.http_'' @ itoa n" "accepted_as msb_ref" a e]
    by (auto simp: msb_read_def split: prod.splits)
next
  case (6 m)
  show ?case
    using status_read_lost [of "''microsoft_booking''" "''provider returned HTTP ''"
        "''provider response is invalid JSON''" "\<lambda>m n. ''microsoft_booking.http_'' @ itoa n" "accepted_as msb_ref" m]
    by (auto simp: msb_read_def split: prod.splits)
qed

lemma msb_execute_run: "msb_execute = msb_calls.run"
  by (intro ext) (simp add: msb_execute_def msb_calls.run_def)

lemma msb_call_permanent: "msb_call c i = Inl e \<Longrightarrow> is_permanent e"
  by (cases i) (auto simp: msb_range_def msb_no_id_def split: if_splits option.splits)

lemma msb_path: "url_tail (msb_business c)" "url_tail (msb_appointments c)" "url_tail (msb_appointments c @ ''/'' @ path_escape s)"
  "url_tail (msb_appointments c @ ''/'' @ path_escape s @ ''/cancel'')"
  by (simp_all add: msb_business_def msb_appointments_def)

lemma msb_call_path: "msb_call c i = Inr k \<Longrightarrow> url_tail (rc_path k)"
  by (cases i) (auto simp: msb_path [simplified] split: if_splits option.splits)

definition msb_writes :: "msb_input \<Rightarrow> bool" where
  "msb_writes i \<longleftrightarrow> (case i of MsbList _ \<Rightarrow> False | MsbTest \<Rightarrow> False | _ \<Rightarrow> True)"

lemma msb_call_write: "msb_call c i = Inr k \<Longrightarrow> rc_write k = msb_writes i"
  by (cases i) (auto simp: msb_writes_def split: if_splits option.splits)

lemma msb_result_err [simp]: "typed_err (msb_result i x) = typed_err x"
  by (cases i) simp_all

lemma msb_cautious:
  "msb_writes i \<Longrightarrow> refreshed_cautious (\<lambda>r. throttled (resp_status r)) T sent (msb_run c ss i T sent)
    (refreshed_err (snd (msb_run c ss i T sent)))"
  unfolding msb_run_def msb_execute_run
  by (rule reworded_cautious, rule msb_calls.operation_cautious) (auto dest: msb_call_permanent msb_call_write)

lemma msb_tokens: "tokens_kept ''microsoft_booking.oauth'' T sent (msb_run c ss i T sent)"
  using msb_calls.operation_tokens [where c = c and ss = ss and T = T and sent = sent and call = "msb_call c i"]
  by (simp add: msb_run_def msb_execute_run msb_refresh_def form_refresh_def)

lemma msb_stays:
  "sends_at [msb_base c, trim_space (msb_token_url c)] 3 sent (fst (msb_run c ss i T sent))"
  using msb_calls.operation_stays [where c = c and ss = ss and T = T and sent = sent and call = "msb_call c i"]
  by (simp add: msb_run_def msb_execute_run msb_refresh_def form_refresh_def msb_call_path)

end
