(* ===== verification/FeishuCalendar.thy ===== *)
theory FeishuCalendar
  imports Scheduling FeishuToken
begin

text \<open>
  The Feishu Calendar provider (\<^verbatim>\<open>providers/appointment_scheduling/feishu_calendar\<close>): a meeting
  takes a sequence of calls, and a failure after the event exists is compensated by its
  deletion. The classification that the code carries along with an error is the one of the error.
\<close>

definition fcal_error :: "string \<Rightarrow> string \<Rightarrow> gerr" where
  "fcal_error code msg = Permanent (''feishu_calendar.'' @ code) (Msg msg)"

definition fcal_base :: "connection \<Rightarrow> string" where
  "fcal_base c = trimmed_base c ''https://open.feishu.cn''"

definition fcal_validate :: "connection \<Rightarrow> gerr option" where
  "fcal_validate c = official_host (fcal_base c) ''open.feishu.cn''
     (fcal_error ''endpoint_invalid'' ''valid Feishu API endpoint is required'')
     (fcal_error ''endpoint_invalid'' ''official Feishu API endpoint or loopback HTTP is required'')"

section \<open>One call\<close>

definition fcal_headers :: "string option option \<Rightarrow> headers" where
  "fcal_headers b = (''Accept'', [''application/json''])
     # (if b = None then [] else [(''Content-Type'', [''application/json; charset=utf-8''])])"

definition fcal_plan :: "connection \<Rightarrow> string \<Rightarrow> rest_call \<Rightarrow> typed + http_request" where
  "fcal_plan c token k = call_plan (fcal_validate c)
     (sched_target (fcal_base c) (fcal_error ''request_invalid'' ''request URL is invalid'') k)
     (rc_body k, fcal_error ''request_invalid'' ''request body is invalid'')
     (\<lambda>u raw. (plain_request (rc_method k) u (fcal_headers (rc_body k)) raw)
       \<lparr>req_secret_headers := (if token = [] then [] else [(''Authorization'', [''Bearer '' @ token])]), req_max := 1048576\<rparr>)"

definition fcal_ok :: "val \<Rightarrow> string \<Rightarrow> typed" where
  "fcal_ok v ref = (let n = int_value (at (as_obj v) ''code'') 0 in
     (v, ref, if n = 0 then None
       else Some (Permanent (''feishu_calendar.provider_code_'' @ itoa n) (Msg (''provider returned code '' @ itoa n)))))"

definition fcal_read :: "bool \<Rightarrow> string + http_response \<Rightarrow> typed" where
  "fcal_read = status_read ''feishu_calendar'' ''provider returned HTTP '' ''provider response is invalid JSON''
     (\<lambda>m n. ''feishu_calendar.http_'' @ itoa n) fcal_ok"

definition fcal_execute :: "connection \<Rightarrow> string \<Rightarrow> rest_call \<Rightarrow> http \<Rightarrow> http_request list \<Rightarrow> http_request list \<times> typed" where
  "fcal_execute c token k = run_plan (fcal_plan c token k) (fcal_read (rc_write k))"

section \<open>The token and the calendar\<close>

definition fcal_token_request :: "connection \<Rightarrow> secrets \<Rightarrow> token_request" where
  "fcal_token_request c ss = \<lparr>tr_endpoint = fcal_base c @ ''/open-apis/auth/v3/tenant_access_token/internal/'',
     tr_app_id = clean_at (config c) ''app_id'', tr_app_secret = trim_space (secret ss ''app_secret''),
     tr_prefix = ''feishu_calendar''\<rparr>"

definition fcal_token :: "connection \<Rightarrow> secrets \<Rightarrow> http \<Rightarrow> http_request list \<Rightarrow> http_request list \<times> string res" where
  "fcal_token c ss T sent =
     (if trim_space (secret ss ''access_token'') \<noteq> [] then (sent, Inr (trim_space (secret ss ''access_token'')))
      else if clean_at (config c) ''app_id'' = [] \<or> trim_space (secret ss ''app_secret'') = []
      then (sent, Inl (fcal_error ''credentials_required'' ''access_token or app_id plus app_secret is required''))
      else apsnd (map_sum id tt_access) (fetch_tenant_token (Some T) (fcal_token_request c ss) sent))"

text \<open>\<open>nested\<close>: the member of a member, empty where the path breaks off.\<close>

fun nested :: "obj \<Rightarrow> string list \<Rightarrow> obj" where
  "nested m [] = m"
| "nested m (k # ks) = (case at m k of VObj n \<Rightarrow> nested n ks | _ \<Rightarrow> [])"

definition fcal_primary :: "val list \<Rightarrow> string option" where
  "fcal_primary xs = (case filter (\<lambda>m. at m ''is_deleted'' \<noteq> VBool True
       \<and> to_lower (clean_at m ''role'') \<in> set [''owner'', ''writer''] \<and> clean_at m ''calendar_id'' \<noteq> [])
       (map (\<lambda>x. nested (as_obj x) [''calendar'']) xs) of
     [] \<Rightarrow> None | m # _ \<Rightarrow> Some (clean_at m ''calendar_id''))"

definition primary_call :: rest_call where
  "primary_call = \<lparr>rc_method = ''POST'', rc_path = ''/open-apis/calendar/v4/calendars/primary'',
     rc_query = [(''user_id_type'', [''open_id''])], rc_body = Some (marshal (VObj [])), rc_write = False\<rparr>"

definition fcal_calendar :: "connection \<Rightarrow> string \<Rightarrow> http \<Rightarrow> http_request list \<Rightarrow> http_request list \<times> string res" where
  "fcal_calendar c token T sent =
     (if clean_at (config c) ''calendar_id'' \<noteq> [] then (sent, Inr (clean_at (config c) ''calendar_id''))
      else (case fcal_execute c token primary_call T sent of
        (sent', out, ref, Some e) \<Rightarrow> (sent', Inl e)
      | (sent', out, ref, None) \<Rightarrow>
          (case fcal_primary (as_arr (at (nested (as_obj out) [''data'']) ''calendars'')) of
            None \<Rightarrow> (sent', Inl (fcal_error ''primary_calendar_unavailable'' ''writable primary calendar is unavailable''))
          | Some i \<Rightarrow> (sent', Inr i))))"

section \<open>The meeting\<close>

record fcal_attendee =
  fa_email :: string
  fa_user :: string

record fcal_booking =
  fb_start :: string
  fb_end :: string
  fb_zone :: string
  fb_summary :: string
  fb_description :: string
  fb_attendees :: "fcal_attendee list"

definition fcal_range :: "string \<Rightarrow> string \<Rightarrow> (int \<times> int) res" where
  "fcal_range start stop = (case parse_rfc3339 (trim_space start) of
     None \<Rightarrow> Inl (fcal_error ''start_invalid'' ''start must be RFC3339'')
   | Some a \<Rightarrow> (case parse_rfc3339 (trim_space stop) of
       None \<Rightarrow> Inl (fcal_error ''end_invalid'' ''end must be RFC3339 and after start'')
     | Some b \<Rightarrow> if a < b then Inr (a, b)
         else Inl (fcal_error ''end_invalid'' ''end must be RFC3339 and after start'')))"

fun fcal_people :: "fcal_attendee list \<Rightarrow> val list res" where
  "fcal_people [] = Inr []"
| "fcal_people (p # ps) =
     (if trim_space (fa_email p) \<noteq> []
      then map_sum id (Cons (VObj [(''type'', VStr ''third_party''), (''third_party_email'', VStr (trim_space (fa_email p)))]))
        (fcal_people ps)
      else if trim_space (fa_user p) \<noteq> []
      then map_sum id (Cons (VObj [(''type'', VStr ''user''), (''user_id'', VStr (trim_space (fa_user p)))])) (fcal_people ps)
      else Inl (fcal_error ''attendee_invalid'' ''attendee email or user_id is required''))"

definition fcal_attendees :: "fcal_attendee list \<Rightarrow> val list res" where
  "fcal_attendees ps = (if ps = [] then Inl (fcal_error ''attendees_required'' ''at least one attendee is required'')
     else fcal_people ps)"

definition idempotency_key :: "string \<Rightarrow> string" where
  "idempotency_key s = (let v = trim_space s in
     if 32 \<le> length v \<and> length v \<le> 128 then v else hex_encode (sha256 v))"

definition fcal_events :: "string \<Rightarrow> string" where
  "fcal_events cal = ''/open-apis/calendar/v4/calendars/'' @ path_escape cal @ ''/events''"

definition fcal_event :: "string \<Rightarrow> string \<Rightarrow> string" where
  "fcal_event cal eid = fcal_events cal @ ''/'' @ path_escape eid"

text \<open>\<open>Unix()\<close> of a time.\<close>

definition fcal_time :: "int \<Rightarrow> string \<Rightarrow> val" where
  "fcal_time t zone = VObj [(''timestamp'', VStr (itoa (t div nanos))), (''timezone'', VStr zone)]"

definition fcal_zone :: "connection \<Rightarrow> string \<Rightarrow> string" where
  "fcal_zone c z = (if trim_space z \<noteq> [] then trim_space z
     else if clean_at (config c) ''default_timezone'' \<noteq> [] then clean_at (config c) ''default_timezone'' else ''Asia/Shanghai'')"

definition create_call :: "connection \<Rightarrow> string \<Rightarrow> string \<Rightarrow> fcal_booking \<Rightarrow> int \<times> int \<Rightarrow> rest_call" where
  "create_call c cal ref i t = write_call ''POST'' (fcal_events cal) [(''idempotency_key'', [idempotency_key ref])]
     (marshal (VObj [(''summary'', VStr (trim_space (fb_summary i))), (''description'', VStr (trim_space (fb_description i))),
       (''need_notification'', VBool True), (''attendee_ability'', VStr ''can_see_others''), (''free_busy_status'', VStr ''busy''),
       (''start_time'', fcal_time (fst t) (fcal_zone c (fb_zone i))), (''end_time'', fcal_time (snd t) (fcal_zone c (fb_zone i))),
       (''vchat'', VObj [(''vc_type'', VStr ''vc''), (''allow_attendees_start'', VBool True)])]))"

definition invite_call :: "string \<Rightarrow> string \<Rightarrow> val list \<Rightarrow> rest_call" where
  "invite_call cal eid people = write_call ''POST'' (fcal_event cal eid @ ''/attendees'') []
     (marshal (VObj [(''attendees'', VArr people), (''need_notification'', VBool True)]))"

definition look_call :: "string \<Rightarrow> string \<Rightarrow> rest_call" where
  "look_call cal eid = get_call (fcal_event cal eid) []"

definition delete_call :: "string \<Rightarrow> string \<Rightarrow> rest_call" where
  "delete_call cal eid = \<lparr>rc_method = ''DELETE'', rc_path = fcal_event cal eid,
     rc_query = [(''need_notification'', [''false''])], rc_body = None, rc_write = True\<rparr>"

text \<open>\<open>compensatedError\<close>: the event is deleted, and the error says whether that worked.\<close>

definition fcal_compensate ::
  "connection \<Rightarrow> string \<Rightarrow> string \<Rightarrow> string \<Rightarrow> gerr \<Rightarrow> http \<Rightarrow> http_request list \<Rightarrow> http_request list \<times> gerr" where
  "fcal_compensate c token cal eid e T sent = (case fcal_execute c token (delete_call cal eid) T sent of
     (sent', out, ref, Some d) \<Rightarrow> (sent', Uncertain ''feishu_calendar.compensation_failed'' (Wrapped [e, d]))
   | (sent', out, ref, None) \<Rightarrow>
       (sent', (if is_retryable e then Retryable else Permanent) ''feishu_calendar.meeting_creation_rolled_back'' (Wrapped [e])))"

definition fcal_id :: "val \<Rightarrow> string" where
  "fcal_id v = clean_at (nested (as_obj v) [''data'', ''event'']) ''event_id''"

text \<open>What follows once the event exists: the attendees, and the address of the meeting.\<close>

definition fcal_complete ::
  "connection \<Rightarrow> string \<Rightarrow> string \<Rightarrow> string \<Rightarrow> val list \<Rightarrow> http \<Rightarrow> http_request list \<Rightarrow> http_request list \<times> typed" where
  "fcal_complete c token cal eid people T sent =
     (let ref = ''feishu_calendar:'' @ eid;
          undo = (\<lambda>e sent. case fcal_compensate c token cal eid e T sent of (sent', e') \<Rightarrow> (sent', VNil, ref, Some e')) in
      case fcal_execute c token (invite_call cal eid people) T sent of
        (s1, out, r1, Some e) \<Rightarrow> undo e s1
      | (s1, out, r1, None) \<Rightarrow> (case fcal_execute c token (look_call cal eid) T s1 of
          (s2, out2, r2, Some e) \<Rightarrow> undo e s2
        | (s2, out2, r2, None) \<Rightarrow>
            (let join = clean_at (nested (as_obj out2) [''data'', ''event'', ''vchat'']) ''meeting_url'' in
             if join = [] then undo (Plain ''meeting URL is missing'') s2
             else (s2, VObj [(''event_id'', VStr eid), (''join_url'', VStr join), (''attendees'', VArr people),
               (''provider'', VStr ''feishu_calendar'')], ref, None))))"

definition fcal_create ::
  "connection \<Rightarrow> string \<Rightarrow> string \<Rightarrow> string \<Rightarrow> fcal_booking \<Rightarrow> int \<times> int \<Rightarrow> val list \<Rightarrow> http \<Rightarrow> http_request list
    \<Rightarrow> http_request list \<times> typed" where
  "fcal_create c token cal ref i t people T sent = (case fcal_execute c token (create_call c cal ref i t) T sent of
     (s1, out, r, Some e) \<Rightarrow> (s1, VNil, r, Some e)
   | (s1, out, r, None) \<Rightarrow>
       if fcal_id out = []
       then (s1, VNil, r, Some (Uncertain ''feishu_calendar.event_response_invalid'' (Msg ''created event response lacks event_id'')))
       else fcal_complete c token cal (fcal_id out) people T s1)"

definition fcal_meeting ::
  "connection \<Rightarrow> secrets \<Rightarrow> string \<Rightarrow> fcal_booking \<Rightarrow> http \<Rightarrow> http_request list \<Rightarrow> http_request list \<times> typed" where
  "fcal_meeting c ss ref i T sent = (case fcal_range (fb_start i) (fb_end i) of Inl e \<Rightarrow> (sent, failed e)
   | Inr t \<Rightarrow> (case fcal_attendees (fb_attendees i) of Inl e \<Rightarrow> (sent, failed e)
     | Inr people \<Rightarrow>
        if trim_space ref = []
        then (sent, failed (fcal_error ''request_ref_required'' ''request_ref is required for Feishu idempotency''))
        else (case fcal_token c ss T sent of (s1, Inl e) \<Rightarrow> (s1, failed e)
        | (s1, Inr token) \<Rightarrow> (case fcal_calendar c token T s1 of (s2, Inl e) \<Rightarrow> (s2, failed e)
          | (s2, Inr cal) \<Rightarrow> fcal_create c token cal (trim_space ref) i t people T s2))))"

datatype fcal_input = FcalCreate fcal_booking "fcal_attendee option" | FcalEnqueue fcal_booking obj | FcalTest

fun fcal_run ::
  "connection \<Rightarrow> secrets \<Rightarrow> string \<Rightarrow> fcal_input \<Rightarrow> http \<Rightarrow> http_request list \<Rightarrow> http_request list \<times> typed" where
  "fcal_run c ss ref (FcalCreate i p) T sent = fcal_meeting c ss ref
     (i\<lparr>fb_attendees := fb_attendees i @ (case p of None \<Rightarrow> [] | Some a \<Rightarrow> [a])\<rparr>) T sent"
| "fcal_run c ss ref (FcalEnqueue i meta) T sent =
     (if meta = [] then (sent, failed (fcal_error ''metadata_required'' ''metadata is required''))
      else apsnd (\<lambda>x. (VNil, snd x)) (fcal_meeting c ss ref i T sent))"
| "fcal_run c ss ref FcalTest T sent = (case fcal_token c ss T sent of (s1, Inl e) \<Rightarrow> (s1, failed e)
     | (s1, Inr token) \<Rightarrow> (case fcal_calendar c token T s1 of (s2, Inl e) \<Rightarrow> (s2, failed e)
       | (s2, Inr cal) \<Rightarrow>
           fcal_execute c token (get_call (''/open-apis/calendar/v4/calendars/'' @ path_escape cal) []) T s2))"

definition fcal_test_connection ::
  "connection \<Rightarrow> secrets \<Rightarrow> http \<Rightarrow> http_request list \<Rightarrow> http_request list \<times> string res" where
  "fcal_test_connection c ss T sent = (case fcal_run c ss [] FcalTest T sent of
     (s1, out, ref, Some e) \<Rightarrow> (s1, Inl e)
   | (s1, out, ref, None) \<Rightarrow> (s1, Inr (marshal_or [] (VObj [(''calendar'', out), (''response_ref'', VStr ref)]))))"

section \<open>No meeting is left behind\<close>





lemma fcal_error_permanent [simp]: "is_permanent (fcal_error code msg)"
  by (simp add: fcal_error_def)

lemma fcal_validate_ok: "fcal_validate c = None \<Longrightarrow> secure_endpoint (fcal_base c)"
  unfolding fcal_validate_def by (rule official_host_secure)

lemma fcal_validate_permanent: "fcal_validate c = Some e \<Longrightarrow> is_permanent e"
  unfolding fcal_validate_def by (erule official_host_permanent) simp_all

lemma fcal_plan_permanent: "fcal_plan c token k = Inl x \<Longrightarrow> \<exists>e. typed_err x = Some e \<and> is_permanent e"
  unfolding fcal_plan_def
  by (erule call_plan_permanent) (auto simp: fcal_validate_permanent sched_target_def parsed_target_def split: option.splits)

lemma fcal_execute_cases:
  assumes "fcal_execute c token k T sent = (s, x)"
  obtains (refused) e where "fcal_plan c token k = Inl x" "s = sent" "typed_err x = Some e" "is_permanent e"
  | (sent) q where "fcal_plan c token k = Inr q" "s = sent @ [q]" "x = fcal_read (rc_write k) (T sent q)"
  using assms fcal_plan_permanent [of c token k]
  by (cases "fcal_plan c token k") (auto simp: fcal_execute_def run_plan_def)














section \<open>Addresses\<close>

text \<open>Six requests at most: the token, the calendar, the event, its attendees, a look at it, and its deletion.\<close>

definition fcal_bases :: "connection \<Rightarrow> string list" where
  "fcal_bases c = [fcal_base c, trim_space (fcal_base c @ ''/open-apis/auth/v3/tenant_access_token/internal/'')]"

lemma fcal_execute_stays:
  assumes "fcal_execute c token k T s = (s', x)" "url_tail (rc_path k)"
  shows "sends_at (fcal_bases c) 1 s s'"
  using assms(1)
proof (cases rule: fcal_execute_cases)
  case (sent q)
  then have "stays_at (fcal_base c) q" unfolding fcal_plan_def call_plan_rest
    by - (rule sched_stays, assumption, simp_all add: fcal_validate_ok assms(2) plain_request_def)
  then show ?thesis using sent(2) by (auto simp: fcal_bases_def intro: sends_at_one)
qed simp

lemma fcal_token_stays:
  assumes "fcal_token c ss T s = (s', r)"
  shows "sends_at (fcal_bases c) 1 s s'"
proof (cases "token_plan (fcal_token_request c ss)")
  case (Inl x)
  then show ?thesis using assms by (auto simp: fcal_token_def fetch_tenant_token_def run_plan_def split: if_splits)
next
  case (Inr q)
  then have u: "req_url q = trim_space (tr_endpoint (fcal_token_request c ss)) @ []"
      "secure_endpoint (trim_space (tr_endpoint (fcal_token_request c ss)))"
    by (auto simp: token_plan_def plain_request_def split: if_splits)
  have "stays_at (trim_space (tr_endpoint (fcal_token_request c ss))) q" by (rule stays_at_text [OF u(2) _ u(1)]) simp
  then have "sends_at (fcal_bases c) 1 s (s @ [q])" by (rule sends_at_one) (simp_all add: fcal_bases_def fcal_token_request_def)
  then show ?thesis using assms Inr
    by (auto simp: fcal_token_def fetch_tenant_token_def run_plan_def send_def split: if_splits)
qed

lemma fcal_calendar_stays: "fcal_calendar c token T s = (s', r) \<Longrightarrow> sends_at (fcal_bases c) 1 s s'"
  using fcal_execute_stays [of c token primary_call T s "fst (fcal_execute c token primary_call T s)"
      "snd (fcal_execute c token primary_call T s)"]
  by (auto simp: fcal_calendar_def primary_call_def split: if_splits prod.splits option.splits)

lemma fcal_paths [simp]:
  "url_tail (rc_path (create_call c cal ref i t))" "url_tail (rc_path (invite_call cal eid people))"
  "url_tail (rc_path (look_call cal eid))" "url_tail (rc_path (delete_call cal eid))"
  by (simp_all add: create_call_def invite_call_def look_call_def delete_call_def fcal_event_def fcal_events_def)

lemma fcal_compensate_stays: "fcal_compensate c token cal eid e T s = (s', e') \<Longrightarrow> sends_at (fcal_bases c) 1 s s'"
  using fcal_execute_stays [of c token "delete_call cal eid" T s "fst (fcal_execute c token (delete_call cal eid) T s)"
      "snd (fcal_execute c token (delete_call cal eid) T s)"]
  by (auto simp: fcal_compensate_def split: prod.splits option.splits)

lemma fcal_complete_stays: "sends_at (fcal_bases c) 3 s (fst (fcal_complete c token cal eid people T s))"
proof -
  obtain s1 x where x: "fcal_execute c token (invite_call cal eid people) T s = (s1, x)" by (metis surj_pair)
  obtain s2 y where y: "fcal_execute c token (look_call cal eid) T s1 = (s2, y)" by (metis surj_pair)
  have 1: "sends_at (fcal_bases c) 1 s s1" by (rule fcal_execute_stays [OF x]) simp
  have "sends_at (fcal_bases c) 1 s1 s2" by (rule fcal_execute_stays [OF y]) simp
  then have 2: "sends_at (fcal_bases c) 2 s s2" by (rule sends_at_trans [OF 1]) simp
  have undo: "sends_at (fcal_bases c) 3 s s'" if "fcal_compensate c token cal eid e T t = (s', e')" "sends_at (fcal_bases c) 2 s t"
    for t e s' e' by (rule sends_at_trans [OF that(2) fcal_compensate_stays [OF that(1)]]) simp
  show ?thesis using x y sends_at_mono [OF 2, of 3] undo [OF _ 2] undo [OF _ sends_at_mono [OF 1]]
    by (cases x; cases y) (auto simp: fcal_complete_def Let_def split: option.splits prod.splits)
qed

lemma fcal_create_stays: "sends_at (fcal_bases c) 4 s (fst (fcal_create c token cal ref i t people T s))"
proof -
  obtain s1 x where x: "fcal_execute c token (create_call c cal ref i t) T s = (s1, x)" by (metis surj_pair)
  have 1: "sends_at (fcal_bases c) 1 s s1" by (rule fcal_execute_stays [OF x]) simp
  have "sends_at (fcal_bases c) 4 s (fst (fcal_complete c token cal eid people T s1))" for eid
    by (rule sends_at_trans [OF 1 fcal_complete_stays]) simp
  then show ?thesis using x sends_at_mono [OF 1, of 4] by (cases x) (auto simp: fcal_create_def split: option.splits)
qed

lemma fcal_located:
  "fcal_token c ss T s = (s1, r) \<Longrightarrow> sends_at (fcal_bases c) 6 s s1"
  "fcal_token c ss T s = (s1, r) \<Longrightarrow> fcal_calendar c token T s1 = (s2, k) \<Longrightarrow> sends_at (fcal_bases c) 2 s s2"
  using sends_at_mono [OF fcal_token_stays, of c ss T s s1 r 6]
    sends_at_trans [OF fcal_token_stays fcal_calendar_stays, of c ss T s s1 r token T s2 k 2] by simp_all

lemma fcal_meeting_stays: "sends_at (fcal_bases c) 6 s (fst (fcal_meeting c ss ref i T s))"
proof -
  obtain s1 r1 where t: "fcal_token c ss T s = (s1, r1)" by (metis surj_pair)
  obtain s2 r2 where k: "fcal_calendar c (projr r1) T s1 = (s2, r2)" by (metis surj_pair)
  note two = fcal_located(2) [OF t k]
  have all: "sends_at (fcal_bases c) 6 s (fst (fcal_create c token cal ref' i t people T s2))" for token cal ref' t people
    by (rule sends_at_trans [OF two fcal_create_stays]) simp
  show ?thesis using t k fcal_located(1) [OF t] sends_at_mono [OF two, of 6]
    by (cases r1; cases r2) (simp_all add: fcal_meeting_def all split: sum.split)
qed

lemma fcal_stays: "sends_at (fcal_bases c) 6 sent (fst (fcal_run c ss ref i T sent))"
proof (cases i)
  case FcalTest
  have "sends_at (fcal_bases c) 6 sent (fst (fcal_execute c token
      (get_call (''/open-apis/calendar/v4/calendars/'' @ path_escape cal) []) T s2))"
    if "sends_at (fcal_bases c) 2 sent s2" for token cal s2
    by (rule sends_at_trans [OF that fcal_execute_stays [OF prod.collapse [symmetric]]]) simp_all
  moreover obtain s1 r1 where t: "fcal_token c ss T sent = (s1, r1)" by (metis surj_pair)
  moreover obtain s2 r2 where k: "fcal_calendar c (projr r1) T s1 = (s2, r2)" by (metis surj_pair)
  ultimately show ?thesis using FcalTest fcal_located(1) [OF t] fcal_located(2) [OF t k] sends_at_mono [OF fcal_located(2) [OF t k], of 6]
    by (cases r1; cases r2) simp_all
qed (simp_all add: fcal_meeting_stays)

end
