(* ===== verification/SchedulingCentres.thy ===== *)
theory SchedulingCentres
  imports Calendly CalCom GoogleCalendar MicrosoftBooking FeishuCalendar
begin

text \<open>
  The operations of the appointment scheduling providers together. Two of them refresh their
  token, and one makes a meeting of several calls.
\<close>

datatype scheduling_operation = CalendlyOp calendly_input | CalComOp calcom_input
  | GoogleCalendarOp string gcal_input | MicrosoftBookingOp msb_input | FeishuCalendarOp string fcal_input

text \<open>The requests after an operation, and its result.\<close>

fun scheduling_perform ::
  "scheduling_operation \<Rightarrow> connection \<Rightarrow> secrets \<Rightarrow> http \<Rightarrow> http_request list \<Rightarrow> http_request list \<times> typed" where
  "scheduling_perform (CalendlyOp i) c ss T sent = calendly_run c ss i T sent"
| "scheduling_perform (CalComOp i) c ss T sent = calcom_run c ss i T sent"
| "scheduling_perform (GoogleCalendarOp ref i) c ss T sent = apsnd fst (gcal_run c ss ref i T sent)"
| "scheduling_perform (MicrosoftBookingOp i) c ss T sent = apsnd fst (msb_run c ss i T sent)"
| "scheduling_perform (FeishuCalendarOp ref i) c ss T sent = fcal_run c ss ref i T sent"

fun scheduling_bases :: "scheduling_operation \<Rightarrow> connection \<Rightarrow> string list" where
  "scheduling_bases (CalendlyOp i) c = [calendly_base c]"
| "scheduling_bases (CalComOp i) c = [calcom_base c]"
| "scheduling_bases (GoogleCalendarOp ref i) c = [gcal_base c, trim_space (gcal_token_url c)]"
| "scheduling_bases (MicrosoftBookingOp i) c = [msb_base c, trim_space (msb_token_url c)]"
| "scheduling_bases (FeishuCalendarOp ref i) c = fcal_bases c"

fun scheduling_steps :: "scheduling_operation \<Rightarrow> nat" where
  "scheduling_steps (GoogleCalendarOp ref i) = 3"
| "scheduling_steps (MicrosoftBookingOp i) = 3"
| "scheduling_steps (FeishuCalendarOp ref i) = 6"
| "scheduling_steps _ = 1"

lemma scheduling_requests_stay:
  "sends_at (scheduling_bases i c) (scheduling_steps i) sent (fst (scheduling_perform i c ss T sent))"
  by (cases i) (simp_all add: sends_at_request [unfolded One_nat_def] calendly_stays calcom_stays gcal_stays msb_stays fcal_stays
      del: fcal_run.simps)

text \<open>The writes of the providers that make one call.\<close>

fun scheduling_writes :: "scheduling_operation \<Rightarrow> bool" where
  "scheduling_writes (CalendlyOp i) = calendly_writes i"
| "scheduling_writes (CalComOp i) = calcom_writes i"
| "scheduling_writes _ = False"

lemma scheduling_cautious:
  "scheduling_writes i \<Longrightarrow> cautious_run T sent (scheduling_perform i c ss T sent)
    (typed_err (snd (scheduling_perform i c ss T sent)))"
  by (cases i) (simp_all add: calendly_cautious calcom_cautious)

end
