(* ===== verification/Accounting.thy ===== *)
theory Accounting
  imports TokenRefresh Journal
begin

text \<open>
  What the accounting providers (\<^verbatim>\<open>providers/accounting\<close>) share in the same wording: the checks
  of addresses, the JSON call, the reading of its answer, and the token request. \<open>pre\<close> is the
  name of the provider in its error codes.
\<close>

section \<open>Requests\<close>

definition ledger_error :: "string \<Rightarrow> string \<Rightarrow> string \<Rightarrow> gerr" where
  "ledger_error pre code msg = Permanent (pre @ ''.'' @ code) (Msg msg)"

text \<open>The text of an encoder error is not modelled; no value that came from JSON causes one.\<close>

definition ledger_plan ::
  "string \<Rightarrow> (connection \<Rightarrow> gerr option) \<Rightarrow> (connection \<Rightarrow> string) \<Rightarrow> connection \<Rightarrow> rest_call \<Rightarrow> string
    \<Rightarrow> attempt + http_request" where
  "ledger_plan pre validated base c k token = attempt_plan (call_plan (validated c)
     (Inr (text_target (trim_right_char (CHR ''/'') (base c)) (rc_path k) (rc_query k)))
     (rc_body k, ledger_error pre ''request_invalid'' ''unsupported value'')
     (\<lambda>u raw. authorized (''Bearer '' @ token) (plain_request (rc_method k) u (json_headers (rc_body k)) raw)))"

definition ledger_refresh :: "string \<Rightarrow> string \<Rightarrow> string \<Rightarrow> secrets \<Rightarrow> refresh_request" where
  "ledger_refresh endpoint auth pre ss = \<lparr>rf_endpoint = endpoint, rf_token = secret ss ''refresh_token'',
     rf_client_id = secret ss ''client_id'', rf_client_secret = secret ss ''client_secret'',
     rf_scope = [], rf_secret_optional = False, rf_authentication = auth, rf_prefix = pre @ ''.oauth''\<rparr>"

definition ledger_missing :: "string \<Rightarrow> gerr" where
  "ledger_missing pre = ledger_error pre ''access_token_required'' ''resolved access token is required''"

section \<open>Answers\<close>

text \<open>
  A body that is no object reads as an empty one, and an accepted empty one is invalid. \<open>unclear\<close>
  makes the error of that case for a write.
\<close>

definition ledger_read ::
  "string \<Rightarrow> (string \<Rightarrow> cause \<Rightarrow> gerr) \<Rightarrow> (obj \<Rightarrow> int \<Rightarrow> string) \<Rightarrow> (obj \<Rightarrow> string) \<Rightarrow> bool
    \<Rightarrow> string + http_response \<Rightarrow> attempt" where
  "ledger_read pre unclear code_of ref_of write answer = (case answer of
     Inl m \<Rightarrow> (failed (if write then Uncertain (pre @ ''.network_outcome_unknown'') (TransportErr m)
       else Retryable (pre @ ''.network_error'') (TransportErr m)), 0)
   | Inr resp \<Rightarrow>
     (let n = resp_status resp; ref = ''http:'' @ itoa n; v = map_or_empty (decode_map (resp_body resp)); m = as_obj v in
      (if \<not> ok_status n then (v, ref, Some (status_error write n (code_of m n) (Msg (''provider returned HTTP '' @ itoa n))))
       else if m = [] then (VNil, ref, Some ((if write then unclear else Permanent) (pre @ ''.response_invalid'')
         (Msg ''provider response is invalid JSON'')))
       else (v, if ref_of m = [] then ref else ref_of m, None), n)))"

text \<open>The first error of the answer, by its first member that is set.\<close>

definition first_error :: "string list \<Rightarrow> val \<Rightarrow> string" where
  "first_error ks v = (case as_arr v of [] \<Rightarrow> [] | x # _ \<Rightarrow> first_text (map (map_string (as_obj x)) ks))"

text \<open>The first object that has an identity.\<close>

definition first_identity :: "obj \<Rightarrow> string \<Rightarrow> (string \<times> string) list \<Rightarrow> string" where
  "first_identity m k shown = first_text (map (\<lambda>(member, name).
     let i = map_string (as_obj (at m member)) k in if i = [] then [] else name @ i) shown)"

text \<open>A journal that was accepted has an identity, or it is not known what came of it.\<close>

definition journal_result :: "string \<Rightarrow> string \<Rightarrow> string \<Rightarrow> string \<Rightarrow> typed \<Rightarrow> typed" where
  "journal_result pre member k name x = (case x of (v, ref, e) \<Rightarrow>
     if e \<noteq> None then (VNil, ref, e)
     else let i = map_string (as_obj (at (as_obj v) member)) k in
       if i = [] then (VNil, ref, Some (Uncertain (pre @ ''.response_invalid'') (Msg ''journal response lacks an identity'')))
       else (VNil, name @ i, None))"

text \<open>Two addresses of customers' own choice, over HTTPS or to this machine.\<close>

definition secure_pair :: "string \<Rightarrow> string \<Rightarrow> string \<Rightarrow> gerr option" where
  "secure_pair pre a b = (if secure_endpoint a \<and> secure_endpoint b then None
     else Some (ledger_error pre ''endpoint_invalid'' ''HTTPS or loopback HTTP endpoints are required''))"

section \<open>Contracts\<close>

lemma ledger_error_permanent [simp]: "is_permanent (ledger_error pre code msg)"
  by (simp add: ledger_error_def)

lemma ledger_missing_permanent: "is_permanent (ledger_missing pre)"
  by (simp add: ledger_missing_def)

lemma ledger_plan_permanent:
  assumes "ledger_plan pre validated base c k token = Inl x" "\<And>e. validated c = Some e \<Longrightarrow> is_permanent e"
  shows "snd x \<noteq> 401 \<and> (\<exists>e. typed_err (fst x) = Some e \<and> is_permanent e)"
  using assms(1) unfolding ledger_plan_def
  by (rule attempt_plan_permanent) (erule call_plan_permanent; simp add: assms(2))

lemma ledger_plan_stays:
  assumes "ledger_plan pre validated base c k token = Inr q" "url_tail (rc_path k)"
    "validated c = None \<Longrightarrow> secure_endpoint (base c)"
  shows "stays_at (base c) q"
proof (rule plan_stays_trimmed)
  show "rest_plan (validated c) (''t'', Plain []) (Inr (text_target (trim_right_char (CHR ''/'') (base c)) (rc_path k) (rc_query k)))
     (rc_body k, ledger_error pre ''request_invalid'' ''unsupported value'')
     (\<lambda>u raw. authorized (''Bearer '' @ token) (plain_request (rc_method k) u (json_headers (rc_body k)) raw)) = Inr q"
    using assms(1) by (simp add: ledger_plan_def attempt_plan_request call_plan_rest)
qed (simp_all add: assms(2,3))

lemma ledger_read_status: "snd (ledger_read pre unclear code_of ref_of w a) = status_of a"
  by (simp add: ledger_read_def status_of_def Let_def split: sum.split)

lemma ledger_read_busy:
  assumes "typed_err (fst (ledger_read pre unclear code_of ref_of True a)) = Some e" "is_retryable e"
    "\<And>code msg. \<not> is_retryable (unclear code msg)"
  shows "\<exists>r. a = Inr r \<and> throttled (resp_status r)"
  using assms by (auto simp: ledger_read_def status_error_def throttled_def Let_def split: sum.splits if_splits)

lemma ledger_read_lost:
  "\<exists>e. typed_err (fst (ledger_read pre unclear code_of ref_of True (Inl m))) = Some e \<and> is_uncertain e"
  by (simp add: ledger_read_def)

lemma journal_result_err:
  "typed_err x = Some e \<Longrightarrow> typed_err (journal_result pre member k name x) = Some e"
  "typed_err x = None \<Longrightarrow> typed_err (journal_result pre member k name x) = Some e \<Longrightarrow> is_uncertain e"
  by (auto simp: journal_result_def Let_def split: prod.splits if_splits)

text \<open>A validated entry has lines, so its branches exist.\<close>

lemma check_lines_length: "length (fst (check_lines d c ls)) = length ls"
  by (induction d c ls rule: check_lines.induct) (auto simp: Let_def split: prod.splits)

lemma validated_lines: "snd (validate i) = Inr e \<Longrightarrow> 2 \<le> length (lines e)"
  using check_lines_length [of 0 0 "lines i"] by (auto simp: validate_def Let_def split: if_splits prod.splits sum.splits)

lemma validate_permanent: "snd (validate i) = Inl e \<Longrightarrow> is_permanent e"
proof -
  have "snd (check_lines d c ls) = Inl x \<Longrightarrow> is_permanent x" for d c ls x
    by (induction d c ls rule: check_lines.induct) (auto simp: Let_def invalid_def split: prod.splits if_splits)
  then show "snd (validate i) = Inl e \<Longrightarrow> is_permanent e"
    by (auto simp: validate_def Let_def invalid_def split: if_splits prod.splits sum.splits) (metis snd_conv)
qed

lemma uncertain_not_retryable: "is_uncertain e \<Longrightarrow> \<not> is_retryable e"
  by (cases e) simp_all

end
