(* ===== verification/QuickBooks.thy ===== *)
theory QuickBooks
  imports Accounting Webhook Delivery GoText
begin

text \<open>The QuickBooks provider (\<^verbatim>\<open>providers/accounting/quickbooks\<close>).\<close>

abbreviation qb_error :: "string \<Rightarrow> string \<Rightarrow> gerr" where
  "qb_error \<equiv> ledger_error ''quickbooks''"

definition qb_base :: "connection \<Rightarrow> string" where
  "qb_base c = map_default c ''base_url'' ''https://quickbooks.api.intuit.com''"

definition qb_token_url :: "connection \<Rightarrow> string" where
  "qb_token_url c = map_default c ''token_url'' ''https://oauth.platform.intuit.com/oauth2/v1/tokens/bearer''"

definition qb_company :: "connection \<Rightarrow> string" where
  "qb_company c = map_default c ''company_id'' []"

text \<open>One of some official hosts over HTTPS, or this machine.\<close>

definition official_among :: "string list \<Rightarrow> url \<Rightarrow> bool" where
  "official_among hosts u \<longleftrightarrow> host u \<noteq> [] \<and> user u = None \<and>
     (scheme u = ''http'' \<and> is_loopback (hostname u)
      \<or> scheme u = ''https'' \<and> list_ex (equal_fold (hostname u)) hosts)"

definition qb_validate :: "connection \<Rightarrow> gerr option" where
  "qb_validate c =
     (if qb_company c = [] then Some (qb_error ''company_id_required'' ''realm company ID is required'')
      else if \<not> official_endpoint (official_among [''quickbooks.api.intuit.com'', ''sandbox-quickbooks.api.intuit.com'']) (qb_base c)
      then Some (qb_error ''endpoint_invalid'' ''official QuickBooks API endpoint or loopback HTTP is required'')
      else if \<not> official_endpoint (official_among [''oauth.platform.intuit.com'']) (qb_token_url c)
      then Some (qb_error ''token_endpoint_invalid'' ''official Intuit OAuth endpoint or loopback HTTP is required'')
      else None)"

definition qb_path :: "connection \<Rightarrow> string \<Rightarrow> string" where
  "qb_path c p = ''/v3/company/'' @ path_escape (qb_company c) @ p"

text \<open>Every call names the minor version, and a POST the reference of the request.\<close>

definition qb_minor :: "connection \<Rightarrow> int" where
  "qb_minor c = (case atoi (map_default c ''minor_version'' []) of None \<Rightarrow> 75 | Some n \<Rightarrow> n)"

definition qb_query :: "connection \<Rightarrow> string \<Rightarrow> rest_call \<Rightarrow> url_values" where
  "qb_query c ref k = (let q = put ''minorversion'' [itoa (qb_minor c)] (rc_query k) in
     if rc_method k = ''POST'' then set_query ''requestid'' ref q else q)"

definition qb_plan :: "string \<Rightarrow> connection \<Rightarrow> rest_call \<Rightarrow> string \<Rightarrow> attempt + http_request" where
  "qb_plan ref c k = ledger_plan ''quickbooks'' qb_validate qb_base c (k\<lparr>rc_query := qb_query c ref k\<rparr>)"

definition qb_code :: "obj \<Rightarrow> int \<Rightarrow> string" where
  "qb_code m n = (let code = first_error [''code''] (at (as_obj (at m ''Fault'')) ''Error'') in
     if code \<noteq> [] then ''quickbooks.provider_'' @ code else ''quickbooks.http_'' @ itoa n)"

definition qb_ref :: "obj \<Rightarrow> string" where
  "qb_ref m = first_identity m ''Id'' (map (\<lambda>k. (k, ''quickbooks:'' @ to_lower k @ '':''))
     [''Customer'', ''Invoice'', ''Payment'', ''JournalEntry'', ''CompanyInfo''])"

definition qb_read :: "bool \<Rightarrow> string + http_response \<Rightarrow> attempt" where
  "qb_read = ledger_read ''quickbooks'' Uncertain qb_code qb_ref"

definition qb_refresh :: "connection \<Rightarrow> secrets \<Rightarrow> refresh_request" where
  "qb_refresh c = ledger_refresh (qb_token_url c) ''basic'' ''quickbooks''"

section \<open>Operations\<close>

datatype qb_entity = Customer | Invoice | Payment | Account | TaxCode

fun qb_name :: "qb_entity \<Rightarrow> string" where
  "qb_name Customer = ''Customer''"
| "qb_name Invoice = ''Invoice''"
| "qb_name Payment = ''Payment''"
| "qb_name Account = ''Account''"
| "qb_name TaxCode = ''TaxCode''"

text \<open>The members that a new object has to have, for the kinds that can be created.\<close>

fun qb_required :: "qb_entity \<Rightarrow> string list" where
  "qb_required Customer = [''DisplayName'']"
| "qb_required Invoice = [''CustomerRef'', ''Line'']"
| "qb_required Payment = [''CustomerRef'', ''TotalAmt'']"
| "qb_required _ = []"

text \<open>A quote inside a literal is doubled.\<close>

abbreviation quote_mark :: char where
  "quote_mark \<equiv> CHR 0x27"

definition qb_literal :: "string \<Rightarrow> string" where
  "qb_literal s = [quote_mark] @ replace_all [quote_mark] [quote_mark, quote_mark] s @ [quote_mark]"

definition qb_statement :: "qb_entity \<Rightarrow> string \<Rightarrow> int \<Rightarrow> string" where
  "qb_statement x changed n = ''select * from '' @ qb_name x
     @ (if trim_space changed = [] then [] else '' where MetaData.LastUpdatedTime >= '' @ qb_literal (trim_space changed))
     @ '' maxresults '' @ itoa n"

definition qb_line :: "line \<Rightarrow> val" where
  "qb_line l = (let detail = (if department_id l = [] then id
         else put ''DepartmentRef'' (VObj [(''value'', VStr (department_id l))]))
       [(''PostingType'', VStr (if side l = ''debit'' then ''Debit'' else ''Credit'')),
        (''AccountRef'', VObj [(''value'', VStr (account_id l))])] in
     VObj ((if description l = [] then id else put ''Description'' (VStr (description l)))
       [(''Amount'', VInt (amount l)), (''DetailType'', VStr ''JournalEntryLineDetail''),
        (''JournalEntryLineDetail'', VObj detail)]))"

definition qb_journal :: "entry \<Rightarrow> val" where
  "qb_journal e = VObj ((if memo e = [] then id else put ''PrivateNote'' (VStr (memo e)))
     [(''TxnDate'', VStr (transaction_date e)), (''Line'', VArr (map qb_line (lines e)))])"

text \<open>Customers, invoices and payments are created; customers and invoices are changed.\<close>

datatype qb_input = QbList qb_entity string int | QbCreate qb_entity obj | QbUpdate qb_entity obj
  | QbJournal entry | QbChanges string string | QbTest

fun qb_missing :: "obj \<Rightarrow> string list \<Rightarrow> gerr option" where
  "qb_missing m [] = None"
| "qb_missing m (k # ks) = (if at m k = VNil then Some (qb_error ''input_invalid'' (k @ '' is required'')) else qb_missing m ks)"

fun qb_call :: "connection \<Rightarrow> qb_input \<Rightarrow> rest_call res" where
  "qb_call c (QbList x changed n) =
     (let k = (if n = 0 then 100 else n) in
      if k < 1 \<or> k > 1000 then Inl (qb_error ''limit_invalid'' ''limit must be between 1 and 1000'')
      else Inr (get_call (qb_path c ''/query'') [(''query'', [qb_statement x changed k])]))"
| "qb_call c (QbCreate x m) = (case qb_missing m (qb_required x) of Some e \<Rightarrow> Inl e
     | None \<Rightarrow> Inr (write_call ''POST'' (qb_path c (''/'' @ to_lower (qb_name x))) [] (marshal (VObj m))))"
| "qb_call c (QbUpdate x m) =
     (if map_string m ''Id'' = [] \<or> map_string m ''SyncToken'' = []
      then Inl (qb_error ''update_identity_required'' ''Id and SyncToken are required'')
      else Inr (write_call ''POST'' (qb_path c (''/'' @ to_lower (qb_name x))) [] (marshal (VObj m))))"
| "qb_call c (QbJournal i) = (case snd (validate i) of Inl e \<Rightarrow> Inl e
     | Inr e \<Rightarrow> Inr (write_call ''POST'' (qb_path c ''/journalentry'') [] (marshal (qb_journal e))))"
| "qb_call c (QbChanges entities changed) =
     (if trim_space entities = [] \<or> trim_space changed = []
      then Inl (qb_error ''cdc_fields_required'' ''entities and changed_since are required'')
      else Inr (get_call (qb_path c ''/cdc'')
        [(''entities'', [trim_space entities]), (''changedSince'', [trim_space changed])]))"
| "qb_call c QbTest = Inr (get_call (qb_path c (''/companyinfo/'' @ path_escape (qb_company c))) [])"

fun qb_result :: "qb_input \<Rightarrow> typed \<Rightarrow> typed" where
  "qb_result (QbJournal i) = journal_result ''quickbooks'' ''JournalEntry'' ''Id'' ''quickbooks:journal_entry:''"
| "qb_result _ = id"

definition qb_execute ::
  "string \<Rightarrow> connection \<Rightarrow> secrets \<Rightarrow> rest_call \<Rightarrow> http \<Rightarrow> http_request list \<Rightarrow> http_request list \<times> refreshed" where
  "qb_execute ref c ss k = with_refresh (ledger_missing ''quickbooks'') (\<lambda>_. True) (qb_refresh c ss) ss
     (qb_plan ref c k) (qb_read (rc_write k))"

definition qb_run ::
  "connection \<Rightarrow> secrets \<Rightarrow> string \<Rightarrow> qb_input \<Rightarrow> http \<Rightarrow> http_request list \<Rightarrow> http_request list \<times> refreshed" where
  "qb_run c ss ref i T sent = reworded (qb_result i) (refreshed_run (qb_execute ref c ss) (qb_call c i) T sent)"

definition qb_test_connection ::
  "connection \<Rightarrow> secrets \<Rightarrow> http \<Rightarrow> http_request list \<Rightarrow> http_request list \<times> string res \<times> (string \<times> string) list" where
  "qb_test_connection c ss T sent = (case qb_run c ss [] QbTest T sent of
     (sent', x, u) \<Rightarrow> (sent', snd (test_details (sent', x)), u))"

section \<open>Contracts\<close>

lemma official_among_secure: "official_among hosts u \<Longrightarrow> secure_url u"
  by (auto simp: official_among_def secure_url_def)

lemma qb_validate_ok: "qb_validate c = None \<Longrightarrow> secure_endpoint (qb_base c)"
  by (auto simp: qb_validate_def split: if_splits intro: official_endpoint_secure official_among_secure)

lemma qb_validate_permanent: "qb_validate c = Some e \<Longrightarrow> is_permanent e"
  by (auto simp: qb_validate_def split: if_splits)

interpretation qb_calls: refresh_provider "qb_plan ref" qb_read qb_base qb_refresh "ledger_missing ''quickbooks''" "\<lambda>_. True"
    "\<lambda>r. throttled (resp_status r)" for ref
proof (unfold_locales, goal_cases)
  case 1 show ?case by (rule ledger_missing_permanent)
next
  case (2 c k t x) then show ?case unfolding qb_plan_def by (rule ledger_plan_permanent) (rule qb_validate_permanent)
next
  case (3 c k t q) then show ?case unfolding qb_plan_def by (auto intro: ledger_plan_stays qb_validate_ok)
next
  case (4 w a) show ?case unfolding qb_read_def by (rule ledger_read_status)
next
  case (5 a e) then show ?case unfolding qb_read_def by (rule ledger_read_busy) simp
next
  case (6 m) show ?case unfolding qb_read_def by (rule ledger_read_lost)
qed

lemma qb_execute_run: "qb_execute ref = qb_calls.run ref"
  by (intro ext) (simp add: qb_execute_def qb_calls.run_def)

lemma qb_missing_permanent: "qb_missing m ks = Some e \<Longrightarrow> is_permanent e"
  by (induction ks) (auto split: if_splits)

lemma qb_call_permanent: "qb_call c i = Inl e \<Longrightarrow> is_permanent e"
  by (cases i) (auto simp: Let_def dest: qb_missing_permanent validate_permanent split: if_splits option.splits sum.splits)

lemma qb_path_tail [simp]: "url_tail (qb_path c p)"
  by (simp add: qb_path_def)

lemma qb_call_path: "qb_call c i = Inr k \<Longrightarrow> url_tail (rc_path k)"
  by (cases i) (auto simp: Let_def split: if_splits option.splits sum.splits)

definition qb_writes :: "qb_input \<Rightarrow> bool" where
  "qb_writes i \<longleftrightarrow> (case i of QbCreate _ _ \<Rightarrow> True | QbUpdate _ _ \<Rightarrow> True | QbJournal _ \<Rightarrow> True | _ \<Rightarrow> False)"

lemma qb_call_write: "qb_call c i = Inr k \<Longrightarrow> rc_write k = qb_writes i"
  by (cases i) (auto simp: qb_writes_def Let_def split: if_splits option.splits sum.splits)

lemma qb_result_err:
  "typed_err x = Some e \<Longrightarrow> typed_err (qb_result i x) = Some e"
  "typed_err x = None \<Longrightarrow> typed_err (qb_result i x) = Some e \<Longrightarrow> is_uncertain e"
  by (cases i; simp add: journal_result_err)+

lemma qb_cautious:
  "qb_writes i \<Longrightarrow> refreshed_cautious (\<lambda>r. throttled (resp_status r)) T sent (qb_run c ss ref i T sent)
    (refreshed_err (snd (qb_run c ss ref i T sent)))"
  unfolding qb_run_def qb_execute_run
  by (rule reworded_cautious, rule qb_calls.operation_cautious)
    (auto dest: qb_call_permanent qb_call_write qb_result_err uncertain_not_retryable)

lemma qb_tokens: "tokens_kept ''quickbooks.oauth'' T sent (qb_run c ss ref i T sent)"
  using qb_calls.operation_tokens [where ref = ref and c = c and ss = ss and T = T and sent = sent and call = "qb_call c i"]
  by (simp add: qb_run_def qb_execute_run qb_refresh_def ledger_refresh_def)

lemma qb_stays: "sends_at [qb_base c, trim_space (qb_token_url c)] 3 sent (fst (qb_run c ss ref i T sent))"
  using qb_calls.operation_stays [where ref = ref and c = c and ss = ss and T = T and sent = sent and call = "qb_call c i"]
  by (simp add: qb_run_def qb_execute_run qb_refresh_def ledger_refresh_def qb_call_path)

text \<open>The literal of a statement reads back as the text, whatever quotes it has: nothing leaves it.\<close>

fun literal_body :: "string \<Rightarrow> string \<times> string" where
  "literal_body [] = ([], [])"
| "literal_body [c] = (if c = quote_mark then ([], []) else ([c], []))"
| "literal_body (c # d # s) =
     (if c \<noteq> quote_mark then apfst (Cons c) (literal_body (d # s))
      else if d = quote_mark then apfst (Cons c) (literal_body s) else ([], d # s))"

lemma replace_quote: "replace_all [q] [q, q] s = concat (map (\<lambda>c. if c = q then [q, q] else [c]) s)"
proof (induction s)
  case Nil
  show ?case by (simp add: replace_all.simps [of _ _ "[]"])
next
  case (Cons c s)
  then show ?case by (cases "c = q") (simp_all add: replace_all.simps [of "[q]" "[q, q]" "_ # s"] has_prefix_def)
qed

lemma literal_body_cons: "c \<noteq> quote_mark \<Longrightarrow> literal_body (c # s) = apfst (Cons c) (literal_body s)"
  by (cases s) simp_all

lemma qb_literal_reads:
  assumes "r = [] \<or> hd r \<noteq> quote_mark"
  shows "literal_body (tl (qb_literal s) @ r) = (s, r)"
proof -
  have "literal_body (concat (map (\<lambda>c. if c = quote_mark then [quote_mark, quote_mark] else [c]) s) @ quote_mark # r) = (s, r)"
  proof (induction s)
    case Nil
    then show ?case using assms by (cases r) simp_all
  next
    case (Cons c s)
    then show ?case by (simp add: literal_body_cons)
  qed
  then show ?thesis by (simp add: qb_literal_def replace_quote)
qed

section \<open>Webhooks\<close>

text \<open>The changes that a delivery reports for the company, in the order of the payload.\<close>

definition qb_changes :: "string \<Rightarrow> obj \<Rightarrow> (string \<times> obj) list" where
  "qb_changes company p = concat (map (\<lambda>n. let realm = map_string (as_obj n) ''realmId'' in
       if company \<noteq> [] \<and> realm \<noteq> company then []
       else map (\<lambda>x. (realm, as_obj x)) (as_arr (at (as_obj (at (as_obj n) ''dataChangeEvent'')) ''entities'')))
     (as_arr (at p ''eventNotifications'')))"

definition qb_complete :: "string \<times> obj \<Rightarrow> bool" where
  "qb_complete x \<longleftrightarrow> map_string (snd x) ''name'' \<noteq> [] \<and> map_string (snd x) ''id'' \<noteq> []
     \<and> to_lower (map_string (snd x) ''operation'') \<noteq> []"

definition qb_change :: "webhook_request \<Rightarrow> obj \<Rightarrow> (string \<times> obj) option" where
  "qb_change r p = List.find qb_complete (qb_changes (qb_company (wh_connection r)) p)"

definition qb_event :: "webhook_request \<Rightarrow> string \<times> obj \<Rightarrow> verified_webhook" where
  "qb_event r = (\<lambda>(realm, m). (plain_event
       (''data_change.'' @ to_lower (map_string m ''name'') @ ''.'' @ to_lower (map_string m ''operation''))
       (join '':'' [realm, map_string m ''name'', map_string m ''id'', map_string m ''lastUpdated'']) (wh_body r))
     \<lparr>event_security := signed_at None,
      event_identity := Some \<lparr>subject = map_string m ''id'', subject_type = to_lower (map_string m ''name''),
        subject_name = [], subject_group = realm\<rparr>\<rparr>)"

definition qb_signed :: "webhook_request \<Rightarrow> bool" where
  "qb_signed r \<longleftrightarrow> base64_std (hmac sha256 (trim_space (secret (wh_secrets r) ''webhook_verifier_token'')) (wh_body r))
     = header_trimmed (wh_headers r) ''intuit-signature''"

definition qb_verify :: "webhook_request \<Rightarrow> verified_webhook res" where
  "qb_verify r = (case wh_context r of Some m \<Rightarrow> Inl (Plain m) | None \<Rightarrow>
     if trim_space (secret (wh_secrets r) ''webhook_verifier_token'') = []
     then Inl (qb_error ''webhook_secret_required'' ''resolved webhook verifier token is required'')
     else if \<not> qb_signed r then Inl (qb_error ''webhook_signature_invalid'' ''webhook signature is invalid'')
     else (case decode_map (wh_body r) of
       None \<Rightarrow> Inl (qb_error ''webhook_payload_invalid'' ''webhook payload is invalid JSON'')
     | Some v \<Rightarrow> (case qb_change r (as_obj v) of
         None \<Rightarrow> Inl (qb_error ''webhook_identity_missing'' ''webhook event identity is missing'')
       | Some x \<Rightarrow> Inr (qb_event r x))))"

definition qb_authentic :: "webhook_request \<Rightarrow> bool" where
  "qb_authentic r \<longleftrightarrow> trim_space (secret (wh_secrets r) ''webhook_verifier_token'') \<noteq> [] \<and> qb_signed r"

definition qb_named :: "webhook_request \<Rightarrow> bool" where
  "qb_named r \<longleftrightarrow> (case decode_map (wh_body r) of None \<Rightarrow> False
     | Some v \<Rightarrow> list_ex qb_complete (qb_changes (qb_company (wh_connection r)) (as_obj v)))"

lemma qb_change_some: "list_ex qb_complete (qb_changes (qb_company (wh_connection r)) p) \<longleftrightarrow> (\<exists>x. qb_change r p = Some x)"
  by (cases "qb_change r p") (auto simp: qb_change_def find_None_iff find_Some_iff list_ex_iff list_ex_length)

interpretation qb_hooks: webhook_verifier qb_verify qb_authentic qb_named
proof (unfold_locales, goal_cases)
  case (1 r) then show ?case
    by (auto simp: qb_verify_def qb_authentic_def qb_named_def qb_change_some split: option.splits)
next
  case (2 r v) then show ?case
    by (auto simp: qb_verify_def qb_event_def identified_def plain_event_def split: option.splits if_splits prod.splits)
next
  case (3 r) then show ?case
    by (simp add: qb_verify_def ledger_error_def permanent_only_def split: option.split)
next
  case (4 r m) then show ?case by (simp add: qb_verify_def)
qed

end
