(* ===== verification/JapaneseLedgers.thy ===== *)
theory JapaneseLedgers
  imports Accounting
begin

text \<open>freee and Money Forward, which post journals.\<close>

section \<open>freee\<close>

text \<open>The freee provider (\<^verbatim>\<open>providers/accounting/freee\<close>).\<close>

abbreviation freee_error :: "string \<Rightarrow> string \<Rightarrow> gerr" where
  "freee_error \<equiv> ledger_error ''freee''"

definition freee_base :: "connection \<Rightarrow> string" where
  "freee_base c = map_default c ''base_url'' ''https://api.freee.co.jp''"

definition freee_token_url :: "connection \<Rightarrow> string" where
  "freee_token_url c = map_default c ''token_url'' ''https://accounts.secure.freee.co.jp/public_api/token''"

definition freee_validate :: "connection \<Rightarrow> gerr option" where
  "freee_validate c = secure_pair ''freee'' (freee_base c) (freee_token_url c)"

definition freee_plan :: "connection \<Rightarrow> rest_call \<Rightarrow> string \<Rightarrow> attempt + http_request" where
  "freee_plan = ledger_plan ''freee'' freee_validate freee_base"

definition freee_code :: "obj \<Rightarrow> int \<Rightarrow> string" where
  "freee_code m n = (let code = first_error [''code'', ''type''] (at m ''errors'') in
     ''freee.'' @ (if code \<noteq> [] then code else ''http_'' @ itoa n))"

definition freee_ref :: "obj \<Rightarrow> string" where
  "freee_ref m = first_identity m ''id'' [(''manual_journal'', ''freee:manual_journal:''), (''company'', ''freee:company:'')]"

text \<open>An accepted write whose answer cannot be read is reported as refused for good.\<close>

definition freee_read :: "bool \<Rightarrow> string + http_response \<Rightarrow> attempt" where
  "freee_read = ledger_read ''freee'' Permanent freee_code freee_ref"

definition freee_refresh :: "connection \<Rightarrow> secrets \<Rightarrow> refresh_request" where
  "freee_refresh c = ledger_refresh (freee_token_url c) ''form'' ''freee''"

subsection \<open>Operations\<close>

definition number_from :: "int \<Rightarrow> string \<Rightarrow> int option" where
  "number_from least s = (case parse_int64 (trim_space s) of (n, ok) \<Rightarrow> if \<not> ok \<or> n < least then None else Some n)"

abbreviation positive_id :: "string \<Rightarrow> int option" where
  "positive_id \<equiv> number_from 1"

definition freee_company :: "secrets \<Rightarrow> int res" where
  "freee_company ss = (case positive_id (secret ss ''company_id'') of
     None \<Rightarrow> Inl (freee_error ''company_id_invalid'' ''positive numeric identity is required'') | Some n \<Rightarrow> Inr n)"

definition optional :: "string \<Rightarrow> string \<Rightarrow> obj \<Rightarrow> obj" where
  "optional k s m = (if trim_space s = [] then m else put k (VStr (trim_space s)) m)"

definition freee_line :: "line \<Rightarrow> val res" where
  "freee_line l = (case (positive_id (account_id l), number_from 0 (tax_code l)) of
     (Some account, Some tax) \<Rightarrow>
       (let m = [(''entry_side'', VStr (side l)), (''amount'', VInt (amount l)), (''account_item_id'', VInt account),
            (''tax_code'', VInt tax)];
            rest = (\<lambda>m. VObj (optional ''description'' (description l) (optional ''partner_code'' (partner_code l) m))) in
        if department_id l = [] then Inr (rest m)
        else (case positive_id (department_id l) of
          None \<Rightarrow> Inl (freee_error ''line_identity_invalid'' ''positive numeric identity is required'')
        | Some d \<Rightarrow> Inr (rest (put ''section_id'' (VInt d) m))))
   | _ \<Rightarrow> Inl (freee_error ''line_identity_invalid'' ''line account or tax identity is invalid''))"

fun freee_lines :: "line list \<Rightarrow> val list res" where
  "freee_lines [] = Inr []"
| "freee_lines (l # ls) = (case freee_line l of Inl e \<Rightarrow> Inl e | Inr v \<Rightarrow> map_sum id (Cons v) (freee_lines ls))"

datatype freee_input = FreeeJournal entry | FreeeTest

fun freee_call :: "secrets \<Rightarrow> freee_input \<Rightarrow> rest_call res" where
  "freee_call ss (FreeeJournal i) = (case snd (validate i) of Inl e \<Rightarrow> Inl e
     | Inr e \<Rightarrow> (case freee_company ss of Inl x \<Rightarrow> Inl x
       | Inr company \<Rightarrow> (case freee_lines (lines e) of Inl x \<Rightarrow> Inl x
         | Inr vs \<Rightarrow> Inr (write_call ''POST'' ''/api/1/manual_journals'' [] (marshal (VObj
             [(''company_id'', VInt company), (''issue_date'', VStr (transaction_date e)), (''details'', VArr vs)]))))))"
| "freee_call ss FreeeTest = (case freee_company ss of Inl x \<Rightarrow> Inl x
     | Inr company \<Rightarrow> Inr (get_call (''/api/1/companies/'' @ itoa company) []))"

fun freee_result :: "freee_input \<Rightarrow> typed \<Rightarrow> typed" where
  "freee_result (FreeeJournal i) = journal_result ''freee'' ''manual_journal'' ''id'' ''freee:manual_journal:''"
| "freee_result FreeeTest = id"

definition freee_execute ::
  "connection \<Rightarrow> secrets \<Rightarrow> rest_call \<Rightarrow> http \<Rightarrow> http_request list \<Rightarrow> http_request list \<times> refreshed" where
  "freee_execute c ss k = with_refresh (ledger_missing ''freee'') (\<lambda>_. True) (freee_refresh c ss) ss
     (freee_plan c k) (freee_read (rc_write k))"

definition freee_run ::
  "connection \<Rightarrow> secrets \<Rightarrow> freee_input \<Rightarrow> http \<Rightarrow> http_request list \<Rightarrow> http_request list \<times> refreshed" where
  "freee_run c ss i T sent = reworded (freee_result i) (refreshed_run (freee_execute c ss) (freee_call ss i) T sent)"

definition payload_details :: "http_request list \<times> refreshed \<Rightarrow> http_request list \<times> string res \<times> (string \<times> string) list" where
  "payload_details r = (case r of
     (sent', (out, ref, Some e), u) \<Rightarrow> (sent', Inl e, u)
   | (sent', (out, ref, None), u) \<Rightarrow>
       (sent', Inr (marshal_or [] (VObj [(''provider_payload'', out), (''response_ref'', VStr ref)])), u))"

definition freee_test_connection where
  "freee_test_connection c ss T sent = payload_details (freee_run c ss FreeeTest T sent)"

subsection \<open>Contracts\<close>

lemma freee_validate_ok: "freee_validate c = None \<Longrightarrow> secure_endpoint (freee_base c)"
  by (simp add: freee_validate_def secure_pair_def split: if_splits)

lemma freee_validate_permanent: "freee_validate c = Some e \<Longrightarrow> is_permanent e"
  by (auto simp: freee_validate_def secure_pair_def split: if_splits)

interpretation freee_calls: refresh_provider freee_plan freee_read freee_base freee_refresh "ledger_missing ''freee''"
    "\<lambda>_. True" "\<lambda>r. throttled (resp_status r)"
proof (unfold_locales, goal_cases)
  case 1 show ?case by (rule ledger_missing_permanent)
next
  case (2 c k t x) then show ?case unfolding freee_plan_def by (rule ledger_plan_permanent) (rule freee_validate_permanent)
next
  case (3 c k t q) then show ?case unfolding freee_plan_def by (auto intro: ledger_plan_stays freee_validate_ok)
next
  case (4 w a) show ?case unfolding freee_read_def by (rule ledger_read_status)
next
  case (5 a e) then show ?case unfolding freee_read_def by (rule ledger_read_busy) simp
next
  case (6 m) show ?case unfolding freee_read_def by (rule ledger_read_lost)
qed

lemma freee_execute_run: "freee_execute = freee_calls.run"
  by (intro ext) (simp add: freee_execute_def freee_calls.run_def)

lemma freee_line_permanent: "freee_line l = Inl e \<Longrightarrow> is_permanent e"
  by (auto simp: freee_line_def Let_def split: option.splits if_splits)

lemma freee_lines_permanent: "freee_lines ls = Inl e \<Longrightarrow> is_permanent e"
proof (induction ls)
  case (Cons l ls)
  then show ?case by (cases "freee_lines ls") (auto dest: freee_line_permanent split: sum.splits)
qed simp

lemma freee_company_permanent: "freee_company ss = Inl e \<Longrightarrow> is_permanent e"
  by (auto simp: freee_company_def split: option.splits)

lemma freee_call_permanent: "freee_call ss i = Inl e \<Longrightarrow> is_permanent e"
  by (cases i) (auto dest: freee_lines_permanent freee_company_permanent validate_permanent split: sum.splits)

lemma freee_call_path: "freee_call ss i = Inr k \<Longrightarrow> url_tail (rc_path k)"
  by (cases i) (auto split: sum.splits)

lemma freee_call_write: "freee_call ss (FreeeJournal i) = Inr k \<Longrightarrow> rc_write k"
  by (auto split: sum.splits)

lemma freee_result_err:
  "typed_err x = Some e \<Longrightarrow> typed_err (freee_result i x) = Some e"
  "typed_err x = None \<Longrightarrow> typed_err (freee_result i x) = Some e \<Longrightarrow> is_uncertain e"
  by (cases i; simp add: journal_result_err)+

lemma freee_cautious:
  "refreshed_cautious (\<lambda>r. throttled (resp_status r)) T sent (freee_run c ss (FreeeJournal i) T sent)
    (refreshed_err (snd (freee_run c ss (FreeeJournal i) T sent)))"
  unfolding freee_run_def freee_execute_run
  by (rule reworded_cautious, rule freee_calls.operation_cautious)
    (auto simp del: freee_call.simps freee_result.simps dest: freee_call_permanent freee_call_write freee_result_err uncertain_not_retryable)

lemma freee_tokens: "tokens_kept ''freee.oauth'' T sent (freee_run c ss i T sent)"
  using freee_calls.operation_tokens [where c = c and ss = ss and T = T and sent = sent and call = "freee_call ss i"]
  by (simp add: freee_run_def freee_execute_run freee_refresh_def ledger_refresh_def)

lemma freee_stays: "sends_at [freee_base c, trim_space (freee_token_url c)] 3 sent (fst (freee_run c ss i T sent))"
  using freee_calls.operation_stays [where c = c and ss = ss and T = T and sent = sent and call = "freee_call ss i"]
  by (simp add: freee_run_def freee_execute_run freee_refresh_def ledger_refresh_def freee_call_path)

section \<open>Money Forward\<close>

text \<open>The Money Forward provider (\<^verbatim>\<open>providers/accounting/money_forward\<close>).\<close>

definition mf_base :: "connection \<Rightarrow> string" where
  "mf_base c = map_default c ''base_url'' ''https://api-accounting.moneyforward.com''"

definition mf_token_url :: "connection \<Rightarrow> string" where
  "mf_token_url c = map_default c ''token_url'' ''https://api.biz.moneyforward.com/token''"

definition mf_validate :: "connection \<Rightarrow> gerr option" where
  "mf_validate c = secure_pair ''money_forward'' (mf_base c) (mf_token_url c)"

definition mf_plan :: "connection \<Rightarrow> rest_call \<Rightarrow> string \<Rightarrow> attempt + http_request" where
  "mf_plan = ledger_plan ''money_forward'' mf_validate mf_base"

definition mf_code :: "obj \<Rightarrow> int \<Rightarrow> string" where
  "mf_code m n = (let code = first_error [''code''] (at m ''errors'') in
     ''money_forward.'' @ (if code \<noteq> [] then code else ''http_'' @ itoa n))"

definition mf_ref :: "obj \<Rightarrow> string" where
  "mf_ref m = first_identity m ''id'' [(''journal'', ''money_forward:journal:'')]"

definition mf_read :: "bool \<Rightarrow> string + http_response \<Rightarrow> attempt" where
  "mf_read = ledger_read ''money_forward'' Permanent mf_code mf_ref"

definition mf_refresh :: "connection \<Rightarrow> secrets \<Rightarrow> refresh_request" where
  "mf_refresh c = ledger_refresh (mf_token_url c) ''basic'' ''money_forward''"

subsection \<open>Operations\<close>

definition mf_line :: "line \<Rightarrow> val" where
  "mf_line l = VObj (optional ''invoice_kind'' (invoice_kind l) (optional ''trade_partner_code'' (partner_code l)
     (optional ''sub_account_id'' (sub_account_id l) (optional ''department_id'' (department_id l)
       [(''value'', VInt (amount l)), (''account_id'', VStr (account_id l)), (''tax_id'', VStr (tax_code l))]))))"

definition mf_remark :: "string \<Rightarrow> branch \<Rightarrow> string" where
  "mf_remark note b = (let d = description (debitor b); k = description (creditor b);
       r = (if k \<noteq> [] \<and> k \<noteq> d then trim_space (d @ '' / '' @ k) else d) in
     if r = [] then note else r)"

definition mf_branch :: "string \<Rightarrow> branch \<Rightarrow> val" where
  "mf_branch note b = VObj ((if mf_remark note b = [] then id else put ''remark'' (VStr (mf_remark note b)))
     [(''debitor'', mf_line (debitor b)), (''creditor'', mf_line (creditor b))])"

text \<open>The pairing panics for an entry without lines, which a validated one is not.\<close>

definition mf_journal :: "entry \<Rightarrow> val option" where
  "mf_journal e = map_option (\<lambda>bs. VObj [(''journal'', VObj [(''transaction_date'', VStr (transaction_date e)),
     (''journal_type'', VStr ''journal_entry''), (''memo'', VStr (memo e)), (''branches'', VArr (map (mf_branch (memo e)) bs))])])
     (pair_branches e)"

datatype mf_input = MfJournal entry | MfTest

fun mf_call :: "mf_input \<Rightarrow> rest_call res" where
  "mf_call (MfJournal i) = (case snd (validate i) of Inl e \<Rightarrow> Inl e
     | Inr e \<Rightarrow> Inr (write_call ''POST'' ''/api/v3/journals'' [] (Option.bind (mf_journal e) marshal)))"
| "mf_call MfTest = Inr (get_call ''/api/v3/offices'' [])"

fun mf_result :: "mf_input \<Rightarrow> typed \<Rightarrow> typed" where
  "mf_result (MfJournal i) = journal_result ''money_forward'' ''journal'' ''id'' ''money_forward:journal:''"
| "mf_result MfTest = id"

definition mf_execute ::
  "connection \<Rightarrow> secrets \<Rightarrow> rest_call \<Rightarrow> http \<Rightarrow> http_request list \<Rightarrow> http_request list \<times> refreshed" where
  "mf_execute c ss k = with_refresh (ledger_missing ''money_forward'') (\<lambda>_. True) (mf_refresh c ss) ss
     (mf_plan c k) (mf_read (rc_write k))"

definition mf_run ::
  "connection \<Rightarrow> secrets \<Rightarrow> mf_input \<Rightarrow> http \<Rightarrow> http_request list \<Rightarrow> http_request list \<times> refreshed" where
  "mf_run c ss i T sent = reworded (mf_result i) (refreshed_run (mf_execute c ss) (mf_call i) T sent)"

definition mf_test_connection where
  "mf_test_connection c ss T sent = payload_details (mf_run c ss MfTest T sent)"

subsection \<open>Contracts\<close>

lemma mf_journal_some: "snd (validate i) = Inr e \<Longrightarrow> mf_journal e \<noteq> None"
  using validated_lines [of i e] pair_branches_none [of e] by (auto simp: mf_journal_def)

lemma mf_validate_ok: "mf_validate c = None \<Longrightarrow> secure_endpoint (mf_base c)"
  by (simp add: mf_validate_def secure_pair_def split: if_splits)

lemma mf_validate_permanent: "mf_validate c = Some e \<Longrightarrow> is_permanent e"
  by (auto simp: mf_validate_def secure_pair_def split: if_splits)

interpretation mf_calls: refresh_provider mf_plan mf_read mf_base mf_refresh "ledger_missing ''money_forward''"
    "\<lambda>_. True" "\<lambda>r. throttled (resp_status r)"
proof (unfold_locales, goal_cases)
  case 1 show ?case by (rule ledger_missing_permanent)
next
  case (2 c k t x) then show ?case unfolding mf_plan_def by (rule ledger_plan_permanent) (rule mf_validate_permanent)
next
  case (3 c k t q) then show ?case unfolding mf_plan_def by (auto intro: ledger_plan_stays mf_validate_ok)
next
  case (4 w a) show ?case unfolding mf_read_def by (rule ledger_read_status)
next
  case (5 a e) then show ?case unfolding mf_read_def by (rule ledger_read_busy) simp
next
  case (6 m) show ?case unfolding mf_read_def by (rule ledger_read_lost)
qed

lemma mf_execute_run: "mf_execute = mf_calls.run"
  by (intro ext) (simp add: mf_execute_def mf_calls.run_def)

lemma mf_call_permanent: "mf_call i = Inl e \<Longrightarrow> is_permanent e"
  by (cases i) (auto dest: validate_permanent split: sum.splits)

lemma mf_call_path: "mf_call i = Inr k \<Longrightarrow> url_tail (rc_path k)"
  by (cases i) (auto split: sum.splits)

lemma mf_call_write: "mf_call (MfJournal i) = Inr k \<Longrightarrow> rc_write k"
  by (auto split: sum.splits)

lemma mf_result_err:
  "typed_err x = Some e \<Longrightarrow> typed_err (mf_result i x) = Some e"
  "typed_err x = None \<Longrightarrow> typed_err (mf_result i x) = Some e \<Longrightarrow> is_uncertain e"
  by (cases i; simp add: journal_result_err)+

lemma mf_cautious:
  "refreshed_cautious (\<lambda>r. throttled (resp_status r)) T sent (mf_run c ss (MfJournal i) T sent)
    (refreshed_err (snd (mf_run c ss (MfJournal i) T sent)))"
  unfolding mf_run_def mf_execute_run
  by (rule reworded_cautious, rule mf_calls.operation_cautious)
    (auto simp del: mf_call.simps mf_result.simps dest: mf_call_permanent mf_call_write mf_result_err uncertain_not_retryable)

lemma mf_tokens: "tokens_kept ''money_forward.oauth'' T sent (mf_run c ss i T sent)"
  using mf_calls.operation_tokens [where c = c and ss = ss and T = T and sent = sent and call = "mf_call i"]
  by (simp add: mf_run_def mf_execute_run mf_refresh_def ledger_refresh_def)

lemma mf_stays: "sends_at [mf_base c, trim_space (mf_token_url c)] 3 sent (fst (mf_run c ss i T sent))"
  using mf_calls.operation_stays [where c = c and ss = ss and T = T and sent = sent and call = "mf_call i"]
  by (simp add: mf_run_def mf_execute_run mf_refresh_def ledger_refresh_def mf_call_path)

end
