(* ===== verification/Docusign.thy ===== *)
theory Docusign
  imports ESign Webhook
begin

text \<open>The Docusign provider (\<^verbatim>\<open>providers/esign/docusign\<close>), which refreshes its token.\<close>

definition docusign_base :: "connection \<Rightarrow> string" where
  "docusign_base c = config_text c ''base_url''"

definition docusign_account :: "connection \<Rightarrow> string" where
  "docusign_account c = config_text c ''account_id''"

definition docusign_token_url :: "connection \<Rightarrow> string" where
  "docusign_token_url c = config_default c ''token_url'' ''https://account.docusign.com/oauth/token''"

definition docusign_validate :: "connection \<Rightarrow> gerr option" where
  "docusign_validate c =
     (if \<not> esign_endpoint (docusign_base c)
      then Some (esign_error ''docusign'' ''endpoint_invalid'' ''valid Docusign API base URL is required'')
      else if docusign_account c = [] then Some (esign_error ''docusign'' ''account_id_required'' ''account_id is required'')
      else if \<not> esign_endpoint (docusign_token_url c)
      then Some (esign_error ''docusign'' ''token_url_invalid'' ''valid OAuth token URL is required'')
      else esign_timeout ''docusign'' c)"

definition docusign_envelopes :: "connection \<Rightarrow> string" where
  "docusign_envelopes c = ''/v2.1/accounts/'' @ path_escape (docusign_account c) @ ''/envelopes''"

text \<open>One attempt with a token; the configuration has been checked.\<close>

definition docusign_request :: "connection \<Rightarrow> rest_call \<Rightarrow> string \<Rightarrow> attempt + http_request" where
  "docusign_request c k token = (case json_body (rc_body k) of
     None \<Rightarrow> Inl (failed (esign_error ''docusign'' ''request_invalid'' ''request body is invalid''), 0)
   | Some raw \<Rightarrow> Inr (esign_request k token (esign_target (docusign_base c) k) raw))"

definition docusign_read :: "bool \<Rightarrow> string + http_response \<Rightarrow> attempt" where
  "docusign_read write answer = (esign_read ''docusign'' ''Docusign'' [''envelopeId''] ''errorCode'' write answer, status_of answer)"

definition docusign_can :: "secrets \<Rightarrow> bool" where
  "docusign_can ss \<longleftrightarrow> list_all (\<lambda>k. trim_space (secret ss k) \<noteq> []) [''refresh_token'', ''client_id'', ''client_secret'']"

definition docusign_refresh :: "connection \<Rightarrow> secrets \<Rightarrow> refresh_request" where
  "docusign_refresh c ss = \<lparr>rf_endpoint = docusign_token_url c, rf_token = secret ss ''refresh_token'',
     rf_client_id = secret ss ''client_id'', rf_client_secret = secret ss ''client_secret'',
     rf_scope = [], rf_secret_optional = False, rf_authentication = ''basic'', rf_prefix = ''docusign''\<rparr>"

definition docusign_missing :: gerr where
  "docusign_missing = esign_error ''docusign'' ''access_token_required'' ''access token is required''"

text \<open>An accepted attempt is the result whatever its status.\<close>

definition docusign_execute ::
  "connection \<Rightarrow> secrets \<Rightarrow> rest_call \<Rightarrow> http \<Rightarrow> http_request list \<Rightarrow> http_request list \<times> refreshed" where
  "docusign_execute c ss k T sent = (case docusign_validate c of Some e \<Rightarrow> (sent, failed e, [])
     | None \<Rightarrow> with_refresh docusign_missing docusign_can (docusign_refresh c ss) ss
         (docusign_request c k) (docusign_read (rc_write k)) T sent)"

section \<open>Operations\<close>

datatype docusign_input = DsCreate obj | DsView string obj | DsGet string | DsChanges string string
  | DsSend string | DsVoid string string | DsTest

definition ds_envelope :: "connection \<Rightarrow> string \<Rightarrow> string \<Rightarrow> string" where
  "ds_envelope c i p = docusign_envelopes c @ ''/'' @ path_escape i @ p"

definition ds_identity :: "string \<Rightarrow> string res" where
  "ds_identity = esign_identity ''docusign'' ''envelope_id_required''"

fun docusign_call :: "connection \<Rightarrow> docusign_input \<Rightarrow> rest_call res" where
  "docusign_call c (DsCreate m) =
     (if m = [] then Inl (esign_error ''docusign'' ''input_required'' ''envelope input is required'')
      else Inr (write_call ''POST'' (docusign_envelopes c) [] (marshal (VObj m))))"
| "docusign_call c (DsGet s) = (case ds_identity s of Inl e \<Rightarrow> Inl e | Inr i \<Rightarrow> Inr (get_call (ds_envelope c i []) []))"
| "docusign_call c (DsSend s) = (case ds_identity s of Inl e \<Rightarrow> Inl e
     | Inr i \<Rightarrow> Inr (write_call ''PUT'' (ds_envelope c i []) [] (marshal (VObj [(''status'', VStr ''sent'')]))))"
| "docusign_call c (DsVoid s reason) =
     (if trim_space s = [] \<or> trim_space reason = []
      then Inl (esign_error ''docusign'' ''void_fields_required'' ''envelope_id and reason are required'')
      else Inr (write_call ''PUT'' (ds_envelope c (trim_space s) []) []
        (marshal (VObj [(''status'', VStr ''voided''), (''voidedReason'', VStr (trim_space reason))]))))"
| "docusign_call c (DsView s m) =
     (if trim_space s = [] \<or> m = []
      then Inl (esign_error ''docusign'' ''recipient_view_fields_required'' ''envelope_id and recipient view input are required'')
      else Inr (write_call ''POST'' (ds_envelope c (trim_space s) ''/views/recipient'') [] (marshal (VObj m))))"
| "docusign_call c (DsChanges since cursor) =
     (if trim_space since = [] then Inl (esign_error ''docusign'' ''from_date_required'' ''from_date is required'')
      else Inr (get_call (docusign_envelopes c) (set_query ''start_position'' cursor [(''from_date'', [trim_space since])])))"
| "docusign_call c DsTest = Inr (get_call (docusign_envelopes c) [])"

definition docusign_run ::
  "connection \<Rightarrow> secrets \<Rightarrow> docusign_input \<Rightarrow> http \<Rightarrow> http_request list \<Rightarrow> http_request list \<times> refreshed" where
  "docusign_run c ss i T sent = refreshed_run (docusign_execute c ss) (docusign_call c i) T sent"

definition docusign_test_connection ::
  "connection \<Rightarrow> secrets \<Rightarrow> http \<Rightarrow> http_request list \<Rightarrow> http_request list \<times> string res \<times> (string \<times> string) list" where
  "docusign_test_connection c ss T sent = (case docusign_run c ss DsTest T sent of
     (sent', x, u) \<Rightarrow> (sent', snd (test_details (sent', x)), u))"

section \<open>Contracts\<close>

lemma docusign_validate_permanent: "docusign_validate c = Some e \<Longrightarrow> is_permanent e"
  by (auto simp: docusign_validate_def esign_timeout_def split: if_splits)

lemma docusign_validate_ok: "docusign_validate c = None \<Longrightarrow> trusted_endpoint (docusign_base c)"
  by (auto simp: docusign_validate_def intro: esign_endpoint_trusted split: if_splits)

text \<open>The attempt together with the check of the configuration.\<close>

definition docusign_plan :: "connection \<Rightarrow> rest_call \<Rightarrow> string \<Rightarrow> attempt + http_request" where
  "docusign_plan c k token = (case docusign_validate c of Some e \<Rightarrow> Inl (failed e, 0) | None \<Rightarrow> docusign_request c k token)"

interpretation docusign_calls: refresh_provider docusign_plan docusign_read docusign_base docusign_refresh docusign_missing
    docusign_can esign_busy
proof (unfold_locales, goal_cases)
  case 1 show ?case by (simp add: docusign_missing_def)
next
  case (2 c k t x) then show ?case
    by (auto simp: docusign_plan_def docusign_request_def docusign_validate_permanent split: option.splits)
next
  case (3 c k t q) then show ?case
    by (auto simp: docusign_plan_def docusign_request_def intro: esign_request_stays docusign_validate_ok split: option.splits)
next
  case (4 w a) show ?case by (simp add: docusign_read_def)
next
  case (5 a e) then show ?case unfolding docusign_read_def by (auto intro: esign_read_busy)
next
  case (6 m) show ?case unfolding docusign_read_def by (simp add: esign_read_lost)
qed

lemma docusign_execute_run:
  "docusign_execute c ss k = (case docusign_validate c of Some e \<Rightarrow> (\<lambda>T sent. (sent, failed e, []))
     | None \<Rightarrow> docusign_calls.run c ss k)"
proof (cases "docusign_validate c")
  case None
  then have "docusign_plan c k = docusign_request c k" by (simp add: fun_eq_iff docusign_plan_def)
  then show ?thesis using None by (intro ext) (simp only: docusign_execute_def docusign_calls.run_def option.case)
qed (simp add: fun_eq_iff docusign_execute_def)

lemma docusign_call_permanent: "docusign_call c i = Inl e \<Longrightarrow> is_permanent e"
  by (cases i) (auto simp: ds_identity_def intro: esign_identity_permanent split: sum.splits if_splits)

definition docusign_writes :: "docusign_input \<Rightarrow> bool" where
  "docusign_writes i \<longleftrightarrow> (case i of DsGet s \<Rightarrow> False | DsChanges s t \<Rightarrow> False | DsTest \<Rightarrow> False | _ \<Rightarrow> True)"

lemma docusign_call_write: "docusign_writes i \<Longrightarrow> docusign_call c i = Inr k \<Longrightarrow> rc_write k"
  by (cases i) (auto simp: docusign_writes_def split: sum.splits if_splits)

lemma docusign_call_path: "docusign_call c i = Inr k \<Longrightarrow> url_tail (rc_path k)"
  by (cases i) (auto simp: docusign_envelopes_def ds_envelope_def split: sum.splits if_splits)

text \<open>Without a valid configuration nothing is sent, and the refusal is for good.\<close>

lemma docusign_invalid:
  "docusign_validate c = Some e \<Longrightarrow> \<exists>e. docusign_run c ss i T sent = (sent, failed e, []) \<and> is_permanent e"
  by (cases "docusign_call c i")
    (auto simp: docusign_run_def refreshed_run_def docusign_execute_def docusign_validate_permanent docusign_call_permanent)

lemma docusign_valid:
  "docusign_validate c = None \<Longrightarrow> docusign_run c ss i T sent = refreshed_run (docusign_calls.run c ss) (docusign_call c i) T sent"
  by (simp add: docusign_run_def docusign_execute_run refreshed_run_def split: sum.split)

lemma docusign_cautious:
  assumes "docusign_writes i"
  shows "refreshed_cautious esign_busy T sent (docusign_run c ss i T sent) (refreshed_err (snd (docusign_run c ss i T sent)))"
proof (cases "docusign_validate c")
  case None
  show ?thesis unfolding docusign_valid [OF None]
    by (rule docusign_calls.operation_cautious) (use assms in \<open>auto dest: docusign_call_permanent docusign_call_write\<close>)
next
  case (Some e)
  then show ?thesis using docusign_invalid [OF Some, of ss i T sent]
    by (auto simp: refreshed_cautious_def cautious_by_def refreshed_err_def)
qed

lemma docusign_stays:
  "sends_at [docusign_base c, trim_space (docusign_token_url c)] 3 sent (fst (docusign_run c ss i T sent))"
proof (cases "docusign_validate c")
  case None
  then show ?thesis
    using docusign_calls.operation_stays [OF docusign_call_path, where c = c and ss = ss and T = T and sent = sent]
    by (simp add: docusign_valid docusign_refresh_def)
next
  case (Some e)
  then show ?thesis using docusign_invalid [OF Some, of ss i T sent] by auto
qed

lemma docusign_tokens: "tokens_kept ''docusign'' T sent (docusign_run c ss i T sent)"
proof (cases "docusign_validate c")
  case None
  then show ?thesis
    using docusign_calls.operation_tokens [where c = c and ss = ss and T = T and sent = sent and call = "docusign_call c i"]
    by (simp add: docusign_valid docusign_refresh_def)
next
  case (Some e)
  then show ?thesis using docusign_invalid [OF Some, of ss i T sent] by (auto simp: tokens_kept_def)
qed

section \<open>Webhooks\<close>

text \<open>One of up to three signatures is the one of the secret.\<close>

definition docusign_signed :: "webhook_request \<Rightarrow> bool" where
  "docusign_signed r \<longleftrightarrow> list_ex (\<lambda>i. base64_std (hmac sha256 (trim_space (secret (wh_secrets r) ''webhook_secret'')) (wh_body r))
     = header_trimmed (wh_headers r) (''X-DocuSign-Signature-'' @ nat_str i)) [1, 2, 3]"

definition docusign_subject :: "obj \<Rightarrow> string" where
  "docusign_subject m = obj_string (as_obj (at m ''data'')) ''envelopeId''"

definition docusign_event :: "webhook_request \<Rightarrow> obj \<Rightarrow> verified_webhook" where
  "docusign_event r m = (plain_event (obj_string m ''event'') (docusign_subject m @ '':'' @ obj_string m ''event'') (wh_body r))
     \<lparr>event_security := signed_at None, event_identity := Some \<lparr>subject = docusign_subject m,
        subject_type = ''docusign_envelope'', subject_name = [], subject_group = []\<rparr>\<rparr>"

definition docusign_verify :: "webhook_request \<Rightarrow> verified_webhook res" where
  "docusign_verify r = (case wh_context r of Some m \<Rightarrow> Inl (Plain m) | None \<Rightarrow>
     if trim_space (secret (wh_secrets r) ''webhook_secret'') = []
     then Inl (esign_error ''docusign'' ''webhook_secret_required'' ''resolved webhook secret is required'')
     else if \<not> docusign_signed r
     then Inl (esign_error ''docusign'' ''webhook_signature_invalid'' ''Docusign webhook signature does not match'')
     else (case decode_map (wh_body r) of
       None \<Rightarrow> Inl (esign_error ''docusign'' ''webhook_payload_invalid'' ''Docusign webhook payload is invalid'')
     | Some v \<Rightarrow>
        if docusign_subject (as_obj v) = [] \<or> obj_string (as_obj v) ''event'' = []
        then Inl (esign_error ''docusign'' ''webhook_identity_missing'' ''Docusign webhook identity is missing'')
        else Inr (docusign_event r (as_obj v))))"

text \<open>The documentation: signed with the secret; an event of an envelope.\<close>

definition docusign_authentic :: "webhook_request \<Rightarrow> bool" where
  "docusign_authentic r \<longleftrightarrow> trim_space (secret (wh_secrets r) ''webhook_secret'') \<noteq> [] \<and> docusign_signed r"

definition docusign_named :: "webhook_request \<Rightarrow> bool" where
  "docusign_named r \<longleftrightarrow> (case decode_map (wh_body r) of None \<Rightarrow> False
     | Some v \<Rightarrow> docusign_subject (as_obj v) \<noteq> [] \<and> obj_string (as_obj v) ''event'' \<noteq> [])"

interpretation docusign_hooks: webhook_verifier docusign_verify docusign_authentic docusign_named
proof (unfold_locales, goal_cases)
  case (1 r) then show ?case
    by (auto simp: docusign_verify_def docusign_authentic_def docusign_named_def split: option.splits)
next
  case (2 r v) then show ?case
    by (auto simp: docusign_verify_def docusign_event_def identified_def plain_event_def split: option.splits if_splits)
next
  case (3 r) then show ?case by (simp add: docusign_verify_def permanent_only_def split: option.split)
next
  case (4 r m) then show ?case by (simp add: docusign_verify_def)
qed

end
