(* ===== verification/RefreshedCalls.thy ===== *)
theory RefreshedCalls
  imports SchedulingCentres QuickBooks JapaneseLedgers Docusign
begin

text \<open>The operations of the providers that refresh their token, together.\<close>

datatype refreshed_operation = GoogleBooking string gcal_input | MicrosoftAppointment msb_input
  | QuickBooksOp string qb_input | FreeeOp freee_input | MoneyForwardOp mf_input | DocusignOp docusign_input

fun refreshed_perform ::
  "refreshed_operation \<Rightarrow> connection \<Rightarrow> secrets \<Rightarrow> http \<Rightarrow> http_request list \<Rightarrow> http_request list \<times> refreshed" where
  "refreshed_perform (GoogleBooking ref i) c ss = gcal_run c ss ref i"
| "refreshed_perform (MicrosoftAppointment i) c ss = msb_run c ss i"
| "refreshed_perform (QuickBooksOp ref i) c ss = qb_run c ss ref i"
| "refreshed_perform (FreeeOp i) c ss = freee_run c ss i"
| "refreshed_perform (MoneyForwardOp i) c ss = mf_run c ss i"
| "refreshed_perform (DocusignOp i) c ss = docusign_run c ss i"




text \<open>The base address, and the address of the tokens.\<close>

fun refreshed_bases :: "refreshed_operation \<Rightarrow> connection \<Rightarrow> string list" where
  "refreshed_bases (GoogleBooking ref i) c = [gcal_base c, trim_space (gcal_token_url c)]"
| "refreshed_bases (MicrosoftAppointment i) c = [msb_base c, trim_space (msb_token_url c)]"
| "refreshed_bases (QuickBooksOp ref i) c = [qb_base c, trim_space (qb_token_url c)]"
| "refreshed_bases (FreeeOp i) c = [freee_base c, trim_space (freee_token_url c)]"
| "refreshed_bases (MoneyForwardOp i) c = [mf_base c, trim_space (mf_token_url c)]"
| "refreshed_bases (DocusignOp i) c = [docusign_base c, trim_space (docusign_token_url c)]"

lemma refreshed_requests_stay:
  "sends_at (refreshed_bases i c) 3 sent (fst (refreshed_perform i c ss T sent))"
  by (cases i) (simp_all add: gcal_stays msb_stays qb_stays freee_stays mf_stays docusign_stays)


section \<open>Properties\<close>




end
