(* ===== verification/BigQuery.thy ===== *)
theory BigQuery
  imports Snowflake Delivery
begin

text \<open>
  The BigQuery client that the database and the analytics warehouse provider share
  (\<^verbatim>\<open>internal/googlebigquery/provider.go\<close>). It words its configuration helpers, its scanner and
  its identity like the Snowflake client, whose definitions it uses here.
\<close>

section \<open>Configuration\<close>

definition bq_base :: "connection \<Rightarrow> string" where
  "bq_base c = (let v = trim_right_char (CHR ''/'') (map_string (config c) ''base_url'') in
     if v \<noteq> [] then v else ''https://bigquery.googleapis.com'')"

definition bq_project :: "connection \<Rightarrow> string" where
  "bq_project c = first_trimmed [map_string (config c) ''project_id'', map_string (config c) ''database'']"

definition bq_dataset :: "connection \<Rightarrow> string \<Rightarrow> string \<Rightarrow> string" where
  "bq_dataset c dataset schema = first_trimmed [dataset, schema, map_string (config c) ''dataset_id'',
     map_string (config c) ''schema'']"

definition bq_endpoint :: "sf_identity \<Rightarrow> connection \<Rightarrow> gerr option" where
  "bq_endpoint i c = (case url_parse (bq_base c) of
     None \<Rightarrow> Some (sf_permanent i ''endpoint_invalid'' ''valid BigQuery endpoint is required'')
   | Some u \<Rightarrow>
      if host u = [] \<or> user u \<noteq> None
      then Some (sf_permanent i ''endpoint_invalid'' ''valid BigQuery endpoint is required'')
      else if scheme u = ''http'' \<and> is_loopback (hostname u) then None
      else if scheme u \<noteq> ''https'' \<or> \<not> equal_fold (hostname u) ''bigquery.googleapis.com''
        \<or> escaped_path u \<noteq> [] \<and> escaped_path u \<noteq> ''/''
      then Some (sf_permanent i ''endpoint_invalid'' ''official BigQuery endpoint or loopback HTTP is required'')
      else None)"

definition bq_validate :: "sf_identity \<Rightarrow> connection \<Rightarrow> gerr option" where
  "bq_validate i c = (let timeout = sf_int (at (config c) ''timeout_seconds'') 30 in
     if bq_project c = [] then Some (sf_permanent i ''project_id_required'' ''project_id is required'')
     else if map_of (config c) ''readonly'' \<noteq> None \<and> \<not> sf_bool (at (config c) ''readonly'') True
     then Some (sf_permanent i ''readonly_required'' ''readonly must be true'')
     else if timeout < 1 \<or> timeout > 300
     then Some (sf_permanent i ''timeout_invalid'' ''timeout_seconds must be between 1 and 300'')
     else bq_endpoint i c)"

section \<open>Calls\<close>

definition bq_plan :: "sf_identity \<Rightarrow> connection \<Rightarrow> secrets \<Rightarrow> rest_call \<Rightarrow> typed + http_request" where
  "bq_plan i c ss k = (let token = trim_space (secret ss ''access_token'') in
     rest_plan (bq_validate i c)
       (token, sf_permanent i ''access_token_required'' ''resolved Google OAuth access token is required'')
       (parsed_target (bq_base c) (sf_permanent i ''request_invalid'' ''BigQuery request URL is invalid'') (rc_path k)
         (\<lambda>u. u\<lparr>raw_query := encode_values (rc_query k)\<rparr>))
       (rc_body k, sf_permanent i ''request_invalid'' ''BigQuery request body is invalid'')
       (\<lambda>u raw. (plain_request (rc_method k) u
          (put ''User-Agent'' [''domainry-bigquery-connector/1.0''] (json_headers (rc_body k))) raw)
        \<lparr>req_secret_headers := [(''Authorization'', [''Bearer '' @ token])], req_max := 8388608\<rparr>))"

text \<open>What the code calls \<open>execute\<close>: the payload, the reference and the error of an answer.\<close>

definition bq_read :: "sf_identity \<Rightarrow> string + http_response \<Rightarrow> typed" where
  "bq_read i answer = (case answer of
     Inl m \<Rightarrow> failed (Retryable (sf_code i ''network_error'') (TransportErr m))
   | Inr resp \<Rightarrow>
     (let n = resp_status resp; ref = ''http:'' @ itoa n; code = sf_code i (''http_'' @ itoa n);
          cause = Msg (''provider returned HTTP '' @ itoa n) in
      case decode_output (resp_body resp) of
        None \<Rightarrow> (VNil, ref, Some (sf_permanent i ''response_invalid'' ''BigQuery response is invalid JSON''))
      | Some v \<Rightarrow>
          if \<not> ok_status n then (v, ref, Some (if n = 408 \<or> n = 429 \<or> n \<ge> 500 then Retryable code cause else Permanent code cause))
          else (v, ref, None)))"

text \<open>An operation keeps the reference of a failed call and makes its result of the payload.\<close>

definition bq_finish :: "(obj \<Rightarrow> string \<Rightarrow> typed) \<Rightarrow> typed \<Rightarrow> typed" where
  "bq_finish done x = (case x of (v, ref, Some e) \<Rightarrow> (VNil, ref, Some e) | (v, ref, None) \<Rightarrow> done (as_obj v) ref)"

definition bq_run where
  "bq_run i c ss done = rest_run (bq_plan i c ss) (\<lambda>w a. bq_finish done (bq_read i a))"

definition bq_path :: "connection \<Rightarrow> string \<Rightarrow> string" where
  "bq_path c tail = ''/bigquery/v2/projects/'' @ path_escape (bq_project c) @ tail"

section \<open>Tables\<close>

definition bq_table :: "val \<Rightarrow> val" where
  "bq_table v = (let t = as_obj v; r = as_obj (at t ''tableReference'') in
     VObj [(''project_id'', at r ''projectId''), (''dataset_id'', at r ''datasetId''),
       (''table_id'', at r ''tableId''), (''type'', at t ''type'')])"

definition bq_tables :: "string \<Rightarrow> obj \<Rightarrow> string \<Rightarrow> typed" where
  "bq_tables dataset m ref = (let rows = map bq_table (as_arr (at m ''tables'')) in
     (VObj [(''columns'', VStrs [''project_id'', ''dataset_id'', ''table_id'', ''type'']), (''rows'', VArr rows),
       (''row_count'', VInt (int (length rows))), (''truncated'', VBool (at m ''nextPageToken'' \<noteq> VNil))],
      ''bigquery:tables:'' @ dataset, None))"

definition bq_list_call :: "sf_identity \<Rightarrow> connection \<Rightarrow> string \<Rightarrow> int \<Rightarrow> rest_call res" where
  "bq_list_call i c dataset n =
     (if dataset = [] then Inl (sf_permanent i ''dataset_id_required'' ''dataset_id is required'')
      else (case sf_max_rows i c n of Inl e \<Rightarrow> Inl e
        | Inr limit \<Rightarrow> Inr (get_call (bq_path c (''/datasets/'' @ path_escape dataset @ ''/tables''))
            [(''maxResults'', [itoa limit])])))"

definition bq_list_tables where
  "bq_list_tables i c ss dataset schema n =
     bq_run i c ss (bq_tables (bq_dataset c dataset schema)) (bq_list_call i c (bq_dataset c dataset schema) n)"

section \<open>Queries\<close>

definition bq_read_only :: "unicode \<Rightarrow> string \<Rightarrow> string" where
  "bq_read_only U query0 =
     (let query = trim_space query0 in
      if query = [] \<or> CHR 0x00 \<in> set query \<or> contains_str query ''--''
         \<or> contains_str query ''/*'' \<or> contains_str query ''*/''
      then ''query_unsafe''
      else let trimmed = trim_space (trim_suffix query '';'') in
      if contains_str trimmed '';'' then ''multiple_statements_denied''
      else let words = snowflake_words U trimmed in
      if words = [] \<or> hd words \<notin> {''select'', ''with'', ''explain''}
      then ''readonly_query_required''
      else if list_ex (\<lambda>w. w \<in> {''alter'', ''call'', ''create'', ''delete'', ''drop'', ''export'', ''grant'',
        ''insert'', ''load'', ''merge'', ''revoke'', ''truncate'', ''update''}) words
      then ''write_keyword_denied'' else [])"

definition bq_columns :: "obj \<Rightarrow> string list" where
  "bq_columns m = filter ((\<noteq>) []) (map (\<lambda>v. map_string (as_obj v) ''name'')
     (filter is_obj (as_arr (at (as_obj (at m ''schema'')) ''fields''))))"

fun bq_cells :: "string list \<Rightarrow> val list \<Rightarrow> obj \<Rightarrow> obj" where
  "bq_cells (k # ks) (v # vs) m = bq_cells ks vs (put k (at (as_obj v) ''v'') m)"
| "bq_cells _ _ m = m"

definition bq_rows :: "obj \<Rightarrow> val list" where
  "bq_rows m = map (\<lambda>r. VObj (bq_cells (bq_columns m) (as_arr (at (as_obj r) ''f'')) []))
     (filter is_obj (as_arr (at m ''rows'')))"

definition bq_result :: "sf_identity \<Rightarrow> obj \<Rightarrow> string \<Rightarrow> typed" where
  "bq_result i m ref =
     (if at m ''jobComplete'' = VBool False
      then (VNil, ref, Some (Retryable (sf_code i ''query_not_complete'') (Msg ''BigQuery query job is not complete'')))
      else let rows = bq_rows m in
        (VObj [(''columns'', VStrs (bq_columns m)), (''rows'', VArr rows), (''row_count'', VInt (int (length rows))),
          (''truncated'', VBool (at m ''pageToken'' \<noteq> VNil))], ''bigquery:rows:'' @ itoa (int (length rows)), None))"

definition bq_query_body :: "connection \<Rightarrow> string \<Rightarrow> string \<Rightarrow> int \<Rightarrow> val" where
  "bq_query_body c query dataset limit = (let location = map_string (config c) ''location'' in
     VObj ([(''query'', VStr (trim_space query)), (''useLegacySql'', VBool False), (''maxResults'', VInt limit),
       (''timeoutMs'', VInt (wrap64 (sf_int (at (config c) ''timeout_seconds'') 30 * 1000)))]
     @ (if dataset = [] then [] else [(''defaultDataset'', VObj [(''projectId'', VStr (bq_project c)), (''datasetId'', VStr dataset)])])
     @ (if location = [] then [] else [(''location'', VStr location)])))"

definition bq_query_call :: "unicode \<Rightarrow> sf_identity \<Rightarrow> connection \<Rightarrow> string \<Rightarrow> string \<Rightarrow> int \<Rightarrow> rest_call res" where
  "bq_query_call U i c query dataset n = (let code = bq_read_only U query in
     if code \<noteq> [] then Inl (sf_permanent i code ''query must be one safe read-only statement'')
     else (case sf_max_rows i c n of Inl e \<Rightarrow> Inl e
       | Inr limit \<Rightarrow> Inr (query_call (bq_path c ''/queries'') (marshal (bq_query_body c query dataset limit)))))"

definition bq_sample_query where
  "bq_sample_query U i c ss query dataset schema n =
     bq_run i c ss (bq_result i) (bq_query_call U i c query (bq_dataset c dataset schema) n)"

section \<open>Connection tests\<close>

definition bq_connected :: "connection \<Rightarrow> obj \<Rightarrow> string \<Rightarrow> typed" where
  "bq_connected c m ref = (VObj [(''connected'', VBool True), (''project_id'', VStr (bq_project c)),
     (''dataset_count'', VInt (int (length (as_arr (at m ''datasets''))))), (''readonly'', VBool True)],
     ''bigquery:'' @ bq_project c, None)"

definition bq_call_test where
  "bq_call_test i c ss = bq_run i c ss (bq_connected c) (Inr (get_call (bq_path c ''/datasets'') [(''maxResults'', [''1''])]))"

definition bq_test_connection where
  "bq_test_connection i c ss T sent = test_details (bq_call_test i c ss T sent)"

section \<open>Contracts\<close>

lemma sf_permanent_permanent [simp]: "is_permanent (sf_permanent i code msg)"
  by (simp add: sf_permanent_def)

lemma bq_endpoint_ok: "bq_endpoint i c = None \<Longrightarrow> secure_endpoint (bq_base c)"
  by (auto simp: bq_endpoint_def secure_endpoint_def secure_url_def simp del: not_None_eq split: option.splits if_splits)

lemma bq_validate_ok: "bq_validate i c = None \<Longrightarrow> secure_endpoint (bq_base c)"
  by (auto simp: bq_validate_def Let_def intro: bq_endpoint_ok split: if_splits)

lemma bq_validate_permanent: "bq_validate i c = Some e \<Longrightarrow> is_permanent e"
  by (auto simp: bq_validate_def bq_endpoint_def Let_def split: if_splits option.splits)

interpretation bq_calls: rest_base "bq_plan i" bq_base for i
proof (unfold_locales, goal_cases)
  case (1 c ss k x) then show ?case unfolding bq_plan_def Let_def
    by (rule rest_plan_permanent) (auto simp: parsed_target_def dest: bq_validate_permanent split: option.splits)
next
  case (2 c ss k q) from 2(1) show ?case unfolding bq_plan_def Let_def
    by (rule plan_stays_parsed) (use bq_validate_ok 2 in \<open>auto simp: plain_request_def\<close>)
qed

section \<open>Operations\<close>

datatype bq_operation = BqTables string string int | BqQuery unicode string string string int | BqTest

fun bq_perform ::
  "sf_identity \<Rightarrow> bq_operation \<Rightarrow> connection \<Rightarrow> secrets \<Rightarrow> http \<Rightarrow> http_request list \<Rightarrow> http_request list \<times> typed" where
  "bq_perform i (BqTables dataset schema n) c ss = bq_list_tables i c ss dataset schema n"
| "bq_perform i (BqQuery U query dataset schema n) c ss = bq_sample_query U i c ss query dataset schema n"
| "bq_perform i BqTest c ss = bq_call_test i c ss"

lemma bq_paths:
  "url_tail (bq_path c t)"
  "bq_list_call i c dataset n = Inr k \<Longrightarrow> url_tail (rc_path k)"
  "bq_query_call U i c query dataset n = Inr k \<Longrightarrow> url_tail (rc_path k)"
  by (auto simp: bq_path_def bq_list_call_def bq_query_call_def Let_def split: if_splits sum.splits)

lemma bq_run_stays:
  assumes "\<And>k. call = Inr k \<Longrightarrow> url_tail (rc_path k)"
  shows "fst (bq_run i c ss fin call T sent) = sent
    \<or> (\<exists>q. fst (bq_run i c ss fin call T sent) = sent @ [q] \<and> stays_at (bq_base c) q)"
  unfolding bq_run_def by (rule bq_calls.run_stays) (rule assms)

lemma bq_stays:
  "fst (bq_perform i x c ss T sent) = sent
    \<or> (\<exists>q. fst (bq_perform i x c ss T sent) = sent @ [q] \<and> stays_at (bq_base c) q)"
proof (cases x)
  case BqTables
  show ?thesis unfolding BqTables bq_perform.simps bq_list_tables_def by (rule bq_run_stays) (rule bq_paths(2))
next
  case BqQuery
  show ?thesis unfolding BqQuery bq_perform.simps bq_sample_query_def by (rule bq_run_stays) (rule bq_paths(3))
next
  case BqTest
  show ?thesis unfolding BqTest bq_perform.simps bq_call_test_def by (rule bq_run_stays) (auto simp: bq_paths(1))
qed

section \<open>The policy\<close>

definition bigquery_policy :: read_only_policy where
  "bigquery_policy = \<lparr>allowed_first = [''select'', ''with'', ''explain''],
     denied_words = [''alter'', ''call'', ''create'', ''delete'', ''drop'', ''export'', ''grant'', ''insert'', ''load'',
       ''merge'', ''revoke'', ''truncate'', ''update''],
     unsafe_fragments = [], quote_pairs = [(39, 39), (34, 34), (96, 96)], keyword_rules = []\<rparr>"

text \<open>
  C5: the query checks that the Snowflake and the BigQuery client carry are the shared check of
  the database providers under the policies of their word lists: the scanners agree on every
  text, and so do the codes.
\<close>
theorem warehouse_policies_equiv:
  "snowflake_read_only U s = validate_read_only U s snowflake_policy
    \<and> bq_read_only U s = validate_read_only U s bigquery_policy"
proof -
  have "snowflake_words U t = sql_words U t (quote_pairs bigquery_policy)" for t
    by (simp add: snowflake_words_def sql_words_def snowflake_scan_eq bigquery_policy_def)
  then have "bq_read_only U s = validate_read_only U s bigquery_policy"
    by (simp add: bq_read_only_def validate_read_only_def Let_def first_rule_def contains_any_def bigquery_policy_def)
  then show ?thesis by (simp add: snowflake_read_only_policy)
qed

text \<open>A query that is sent passes the policy.\<close>

lemma bq_query_checked:
  "bq_query_call U i c query dataset n = Inr k \<Longrightarrow> bq_read_only U query = []"
  by (auto simp: bq_query_call_def Let_def split: if_splits)

end
