(* ===== verification/Outcomes.thy ===== *)
theory Outcomes
  imports RefreshedCalls Stripe Alipay WechatPay Shopify Zendesk Twilio Meta Tally WebhookSender Centres
    BigQuery
begin

text \<open>
  The contracts that span providers: every write of the gateways modelled here is cautious,
  and every webhook verifier keeps the contract of verifiers. The datatypes list the writes
  and the verifiers.
\<close>

section \<open>Writes\<close>


















section \<open>Addresses\<close>

datatype remote_operation = HelpOperation help_operation | DeliveryOperation delivery_operation
  | BigQueryOperation sf_identity bq_operation | SchedulingOperation scheduling_operation
  | RefreshedOperation refreshed_operation | ChatOperation chat_operation
  | SurveyOperation survey_operation | SignatureOperation esign_operation

fun remote_requests ::
  "remote_operation \<Rightarrow> connection \<Rightarrow> secrets \<Rightarrow> http \<Rightarrow> http_request list \<Rightarrow> http_request list" where
  "remote_requests (HelpOperation i) c ss T sent = fst (help_perform i c ss T sent)"
| "remote_requests (DeliveryOperation i) c ss T sent = fst (delivery_perform i c ss T sent)"
| "remote_requests (BigQueryOperation i x) c ss T sent = fst (bq_perform i x c ss T sent)"
| "remote_requests (SchedulingOperation i) c ss T sent = fst (scheduling_perform i c ss T sent)"
| "remote_requests (RefreshedOperation i) c ss T sent = fst (refreshed_perform i c ss T sent)"
| "remote_requests (ChatOperation i) c ss T sent = fst (chat_perform i c ss T sent)"
| "remote_requests (SurveyOperation i) c ss T sent = survey_requests i c ss T sent"
| "remote_requests (SignatureOperation i) c ss T sent = fst (esign_perform i c ss T sent)"

text \<open>The addresses that the configuration gives, and how many requests an operation may take.\<close>

fun remote_bases :: "remote_operation \<Rightarrow> connection \<Rightarrow> string list" where
  "remote_bases (HelpOperation i) c = [help_base i c]"
| "remote_bases (DeliveryOperation i) c = [delivery_base i c]"
| "remote_bases (BigQueryOperation i x) c = [bq_base c]"
| "remote_bases (SchedulingOperation i) c = scheduling_bases i c"
| "remote_bases (RefreshedOperation i) c = refreshed_bases i c"
| "remote_bases (ChatOperation i) c = [chat_base i c]"
| "remote_bases (SurveyOperation i) c = [survey_address i c]"
| "remote_bases (SignatureOperation i) c = [esign_base i c]"

fun remote_steps :: "remote_operation \<Rightarrow> nat" where
  "remote_steps (SchedulingOperation i) = scheduling_steps i"
| "remote_steps (RefreshedOperation i) = 3"
| "remote_steps (ChatOperation i) = 2"
| "remote_steps (SignatureOperation i) = 2"
| "remote_steps _ = 1"

text \<open>
  C37: whatever the inputs hold, an operation of these providers sends at most so many requests,
  and each goes to the scheme and the host of a configured base address, which is HTTPS or this
  machine.
\<close>
theorem remote_requests_stay:
  "sends_at (remote_bases i c) (remote_steps i) sent (remote_requests i c ss T sent)"
  by (cases i) (simp_all add: sends_at_request [unfolded One_nat_def] help_requests_stay delivery_requests_stay bq_stays
      scheduling_requests_stay refreshed_requests_stay chat_requests_stay survey_requests_stay esign_requests_stay
      del: survey_requests.simps survey_address.simps esign_perform.simps esign_base.simps help_perform.simps delivery_perform.simps scheduling_perform.simps refreshed_perform.simps chat_perform.simps chat_base.simps)

section \<open>Webhook verifiers\<close>








end
