(* ===== verification/Spec2Isabelle.thy ===== *)
theory Spec2Isabelle
  imports Journal SqlProviders Catalog ConnectorSchema OAuth2 Stripe LocalStorage Snowflake MailCursor
    Alipay WechatPay Shopify Zendesk Twilio Notification Meta Tally WebhookSender MailText
    HtmlText FeishuToken Mqtt ReleaseHttp Centres Outcomes
begin

text \<open>
  A verification library for \<^verbatim>\<open>domainry-connectors\<close>, the official connectors of Domainry.

  \<^bold>\<open>The program.\<close> A \<^emph>\<open>provider\<close> (\<^verbatim>\<open>src/providers/<family>/<name>/provider.go\<close>) is the adapter of one
  remote service. It holds no state of its own: the host hands an operation its input, the
  \<^emph>\<open>connection\<close> (the configured values), the \<^emph>\<open>secrets\<close> and a \<^emph>\<open>transport\<close> that makes one request
  and returns its answer. An operation checks its input, checks the configuration
  (\<^verbatim>\<open>ValidateConfig\<close>), builds a request, and turns the answer into an output with a reference or into
  one of three errors: permanent, retryable, or uncertain, which is for a write that may have
  happened. Some providers verify webhooks. Around them stand the catalog of the released providers
  (\<^verbatim>\<open>src/catalog\<close>, \<^verbatim>\<open>src/internal/domain\<close>, \<^verbatim>\<open>src/internal/application\<close>), the definitions of the
  connectors with the schemas of their configuration (\<^verbatim>\<open>src/catalog/catalog.go\<close>), and clients that
  several providers share (\<^verbatim>\<open>src/internal/...\<close>).

  \<^bold>\<open>The correspondence.\<close> A Go value of type \<^verbatim>\<open>any\<close> is a \<open>val\<close>, a map an association list \<open>obj\<close> that
  the code reads by key, a string the list of its bytes, an \<^verbatim>\<open>int\<close> an \<open>int\<close> with the 64-bit bounds
  written out where a value can reach them, a machine word a \<open>w word\<close>. Errors are \<open>gerr\<close> values and
  fallible functions return \<open>gerr + 'a\<close>. A transport is a function of the requests made so far and of
  the next one, which also tells a lost answer; an operation takes the list of requests made and
  returns it extended, so that what is sent, in which order and how often is part of every result.
  Times, random bytes and signatures with asymmetric keys are arguments. A panic is the value \<open>None\<close>.
  In the theories the provider's name is a prefix (\<open>gcal_\<close>, \<open>qb_\<close>, \<open>adobe_\<close>, ...): \<open>_base\<close> is the base
  address, \<open>_validate\<close> is \<^verbatim>\<open>ValidateConfig\<close>, \<open>_plan\<close> what \<^verbatim>\<open>execute\<close> does up to the request, \<open>_read\<close> what
  it makes of the answer, \<open>_input\<close> the inputs of the operations, \<open>_call\<close> the call that an input is turned
  into, \<open>_run\<close> the operations themselves and \<open>_verify\<close> is \<^verbatim>\<open>VerifyWebhook\<close>.

  \<^bold>\<open>The library.\<close>
  \<^item> Go's standard library, as far as the source uses it: \<open>GoBase\<close> (strings, decimal numbers, sorting,
    and the prelude of the development: its named collections and the generic lemmas), \<open>GoText\<close>
    (UTF-8), \<open>GoValue\<close> (\<^verbatim>\<open>any\<close>, \<^verbatim>\<open>fmt.Sprint\<close>, \<^verbatim>\<open>json.Marshal\<close>, float64 as exact dyadic numbers), \<open>JsonText\<close>
    (the scanner of \<^verbatim>\<open>encoding/json\<close>, with which what is encoded is decoded again), \<open>GoUrl\<close>, \<open>GoHost\<close>,
    \<open>GoIp\<close>, \<open>GoPath\<close>, \<open>GoTime\<close>, \<open>Base64\<close>, \<open>Crypto\<close> (SHA-1, SHA-256 and HMAC on 32-bit words).
  \<^item> The contract of the SDK: \<open>Sdk\<close> (connections, secrets, requests, transports, errors; the locales
    \<open>one_request\<close> and \<open>cautious_write\<close>) and \<open>Webhook\<close> (requests to verify, their evidence, the locale
    \<open>webhook_verifier\<close>: a delivery passes exactly when it is live, authentic and names an event).
  \<^item> Shapes that many providers repeat: \<open>Payments\<close>, \<open>ApiCall\<close> (locale \<open>api_write\<close>), \<open>UrlBase\<close> (a joined
    address keeps the scheme and the host of its base), \<open>RestCall\<close> (locales \<open>rest_base\<close>, \<open>rest_answers\<close>,
    \<open>rest_provider\<close>), \<open>HelpCenter\<close>, \<open>Delivery\<close>, \<open>Scheduling\<close>, \<open>Accounting\<close>, \<open>Chat\<close>, \<open>Feedback\<close>, \<open>ESign\<close>,
    and \<open>TokenRefresh\<close> (locale \<open>refresh_provider\<close>: an attempt, a renewal of the token after a 401, one
    more attempt). Each provider interprets the locale of its shape and gets the safety of its
    operations from it.

  \<^bold>\<open>The components.\<close>
  \<^item> \<open>Journal\<close>: the balanced entries of \<^verbatim>\<open>internal/accountingjournal\<close>. Validation is exact and stable, and
    the pairing of branches conserves every line.
  \<^item> \<open>SqlPolicy\<close>, \<open>SqlProviders\<close>: the read-only check of \<^verbatim>\<open>internal/sqlpolicy\<close>, exact against a
    description of read-only statements, and the three database providers that rest on it: what they
    send, and the read-only session that they demand. \<open>sql_sample_read_only\<close> and
    \<open>mysql_escape_hides_text\<close> show what the check gives and what it misses.
  \<^item> \<open>Catalog\<close>, \<open>ConnectorSchema\<close>: the catalog and its services over a repository (locale
    \<open>catalog_repository\<close>), the definitions of connectors, defaults and the validation of configurations.
  \<^item> \<open>OAuth2\<close>, \<open>FeishuToken\<close>, \<open>TokenRefresh\<close>: authorization addresses with PKCE, code exchange, refresh.
  \<^item> \<open>Stripe\<close>, \<open>Alipay\<close>, \<open>WechatPay\<close>: payments, refunds, their signatures and notifications. Amounts
    are exact, and what is signed determines what is sent.
  \<^item> \<open>Shopify\<close>, \<open>Zendesk\<close>, \<open>Twilio\<close>, \<open>Meta\<close> (WhatsApp, Messenger), \<open>Tally\<close>, \<open>WebhookSender\<close>.
  \<^item> \<open>Notification\<close>: one content compiled into the messages of twelve services; nothing that the
    content says is lost on the way. \<open>Chat\<close>, \<open>ChatHooks\<close> (Discord, Slack) and \<open>ChatSenders\<close> (LINE, LINE
    WORKS, Google Chat, DingTalk, Enterprise WeChat): the senders of these messages.
  \<^item> \<open>MailCursor\<close>, \<open>MailText\<close>, \<open>HtmlText\<close>: continuations that a mailbox hands out and the bounded text
    of a mail.
  \<^item> \<open>LocalStorage\<close>: files under a root, a refinement of a store from paths to contents. \<open>Mqtt\<close>:
    bounded publications. \<open>ReleaseHttp\<close>: the bounded transport of the release gate.
  \<^item> \<open>Snowflake\<close>, \<open>BigQuery\<close>: the warehouse clients. Polling of Snowflake is a step relation
    \<open>sf_step\<close>; the loop itself is a function with fuel, and \<open>snowflake_returns\<close> shows that the fuel
    of one round more than the server answers 202 is enough, or the end of the context.
  \<^item> Help centres: \<open>HelpDocs\<close> (ReadMe, Help Scout, GitBook), \<open>HelpWikis\<close> (Notion, Confluence), \<open>HelpDesks\<close>
    (Intercom, Zendesk Guide). Delivery operations: \<open>IssueTrackers\<close> (Asana, Jira), \<open>ErpOperations\<close>
    (NetSuite, SAP Business One, Odoo), \<open>GraphqlBoards\<close> (Linear with its webhook, monday.com).
    Surveys and learning: \<open>Surveys\<close>, \<open>Learning\<close>. Signatures: \<open>Signatures\<close> (Adobe Sign, SignNow, Fadada)
    and \<open>Docusign\<close>. Appointments: \<open>Calendly\<close>, \<open>CalCom\<close>, \<open>GoogleCalendar\<close>, \<open>MicrosoftBooking\<close>,
    \<open>FeishuCalendar\<close>, whose meetings are compensated. Accounting: \<open>QuickBooks\<close>, \<open>JapaneseLedgers\<close> (freee,
    Money Forward).
  \<^item> \<open>Centres\<close>, \<open>SchedulingCentres\<close>, \<open>RefreshedCalls\<close>: the operations of each family as one datatype, and
    what holds for the family.
  \<^item> \<open>Outcomes\<close>: what holds across providers. A write of any gateway is cautious, every verifier
    keeps the contract of verifiers, and every request stays at a configured address.

  \<^bold>\<open>What the lemmas show.\<close> For each component its properties are the theorems under a claim; the lemmas
  before them are of five kinds: a call is refused for good (\<open>_permanent\<close>), a write is marked as one
  (\<open>_write\<close>), the path of a call cannot leave the base address (\<open>_path\<close>), requests go only there
  (\<open>_stays\<close>), and a write has an honest outcome (\<open>_cautious\<close>). \<open>cautious_by busy\<close> says: nothing was sent
  and the error is permanent, or exactly one request was sent, a lost answer is uncertain, and a
  retryable error comes only with an answer that \<open>busy\<close> accepts. Round trips (\<open>mail_cursor_roundtrip\<close>,
  the amounts of Alipay, base64, query strings, JSON) are inductions on the texts.

  \<^bold>\<open>Bounds.\<close> \<^verbatim>\<open>int\<close> overflow is written out where input reaches it (\<open>wrap64\<close>; the window of a search, the
  amounts, the retention of MQTT). The limit of a response body is a field of the request, since the
  transport enforces it. Recursions are structural, or have a measure, or carry fuel as told above.

  \<^bold>\<open>Not modelled.\<close> Of the standard library: Unicode beyond ASCII in \<^verbatim>\<open>ToLower\<close>, \<^verbatim>\<open>ToUpper\<close> and \<^verbatim>\<open>EqualFold\<close>,
  the depth limit of the JSON decoder and the texts of its errors, numbers beyond the range of
  float64 and the shortest decimal of a float64 with an exponent, the order in which a Go map is
  iterated (where the code depends on it, a fixed order stands for it), contexts other than their
  having ended, regular expressions. RSA, X.509, Ed25519 and AES-GCM are parameters with the laws
  that a proof needs as hypotheses, and so are the tokenizer of HTML, character sets and the parser
  of mail addresses. Of the repository: the descriptors and schemas of providers, which are
  constant data for the registry; transports, processes and pipes; the command line tools; and the
  provider families that the components of the manifest list as not modelled, with the reason:
  mail and calendar of Google Workspace and Microsoft 365, S3 and SMTP (streams and sockets), MCP
  (processes), model calls, carriers, identity checks, and read-only public data.
\<close>

end
